(* ===== verification/Synkro_Prelude.thy ===== *)
theory Synkro_Prelude
  imports Main
begin

text \<open>
  What the components share: the exceptions the TypeScript code throws, operations that
  thread a state and may throw (an \<open>async\<close> method is the sequence of its \<open>await\<close>ed calls),
  the string functions of the JavaScript standard library that the sources use, and the
  browser's \<open>localStorage\<close> as a map.
\<close>

section \<open>Collections of rewrite rules\<close>

named_theorems op_simps \<open>unfolding of the state-and-exception combinators\<close>
named_theorems str_simps \<open>JavaScript string functions\<close>

section \<open>Exceptions\<close>

text \<open>
  The exceptions of the sources: the HTTP exceptions of NestJS that the gateway throws,
  the error TypeORM raises when the database refuses a statement, the errors of the JSON
  web token library, and plain \<open>Error\<close> objects with their message.
\<close>

datatype exn =
    UnauthorizedException string
  | ForbiddenException string
  | NotFoundException string
  | ConflictException string
  | BadRequestException string
  | TooManyRequestsException string
  | QueryFailedError string
  | JsonWebTokenError string
  | JsError string

fun is_UnauthorizedException :: "exn \<Rightarrow> bool" where
  "is_UnauthorizedException (UnauthorizedException m) = True"
| "is_UnauthorizedException e = False"

text \<open>\<open>error.status\<close> of an exception: the HTTP exceptions of NestJS carry one.\<close>

fun exn_status :: "exn \<Rightarrow> nat option" where
  "exn_status (UnauthorizedException m) = Some 401"
| "exn_status (ForbiddenException m) = Some 403"
| "exn_status (NotFoundException m) = Some 404"
| "exn_status (ConflictException m) = Some 409"
| "exn_status (BadRequestException m) = Some 400"
| "exn_status (TooManyRequestsException m) = Some 429"
| "exn_status e = None"

text \<open>\<open>error.message\<close>\<close>

fun exn_message :: "exn \<Rightarrow> string" where
  "exn_message (UnauthorizedException m) = m"
| "exn_message (ForbiddenException m) = m"
| "exn_message (NotFoundException m) = m"
| "exn_message (ConflictException m) = m"
| "exn_message (BadRequestException m) = m"
| "exn_message (TooManyRequestsException m) = m"
| "exn_message (QueryFailedError m) = m"
| "exn_message (JsonWebTokenError m) = m"
| "exn_message (JsError m) = m"

section \<open>Operations with state and exceptions\<close>

type_synonym ('s, 'a) op = "'s \<Rightarrow> (exn + 'a) \<times> 's"

definition ret :: "'a \<Rightarrow> ('s, 'a) op" where
  [op_simps]: "ret a s = (Inr a, s)"

definition throw :: "exn \<Rightarrow> ('s, 'a) op" where
  [op_simps]: "throw e s = (Inl e, s)"

definition bind_op :: "('s, 'a) op \<Rightarrow> ('a \<Rightarrow> ('s, 'b) op) \<Rightarrow> ('s, 'b) op" where
  "bind_op m f s = (case m s of (Inl e, t) \<Rightarrow> (Inl e, t) | (Inr a, t) \<Rightarrow> f a t)"

definition catch_op :: "('s, 'a) op \<Rightarrow> (exn \<Rightarrow> ('s, 'a) op) \<Rightarrow> ('s, 'a) op" where
  "catch_op m h s = (case m s of (Inl e, t) \<Rightarrow> h e t | (Inr a, t) \<Rightarrow> (Inr a, t))"

text \<open>A read of the state that cannot throw.\<close>

definition gets_op :: "('s \<Rightarrow> 'a) \<Rightarrow> ('s, 'a) op" where
  [op_simps]: "gets_op f s = (Inr (f s), s)"

definition modify_op :: "('s \<Rightarrow> 's) \<Rightarrow> ('s, unit) op" where
  [op_simps]: "modify_op f s = (Inr (), f s)"

lemma bind_op_Inl [op_simps]: "m s = (Inl e, t) \<Longrightarrow> bind_op m f s = (Inl e, t)"
  by (simp add: bind_op_def)

lemma bind_op_Inr [op_simps]: "m s = (Inr a, t) \<Longrightarrow> bind_op m f s = f a t"
  by (simp add: bind_op_def)

lemma catch_op_Inl [op_simps]: "m s = (Inl e, t) \<Longrightarrow> catch_op m h s = h e t"
  by (simp add: catch_op_def)

lemma catch_op_Inr [op_simps]: "m s = (Inr a, t) \<Longrightarrow> catch_op m h s = (Inr a, t)"
  by (simp add: catch_op_def)

lemma bind_op_eq_Inr:
  "bind_op m f s = (Inr b, u) \<longleftrightarrow> (\<exists>a t. m s = (Inr a, t) \<and> f a t = (Inr b, u))"
  by (auto simp: bind_op_def split: prod.splits sum.splits)

lemma bind_op_eq_Inl:
  "bind_op m f s = (Inl e, u) \<longleftrightarrow>
     m s = (Inl e, u) \<or> (\<exists>a t. m s = (Inr a, t) \<and> f a t = (Inl e, u))"
  by (auto simp: bind_op_def split: prod.splits sum.splits)

lemma bind_op_assoc: "bind_op (bind_op m f) g = bind_op m (\<lambda>a. bind_op (f a) g)"
  by (rule ext) (simp add: bind_op_def split: prod.split sum.split)

section \<open>Strings\<close>

text \<open>Upper and lower case of the ASCII letters.\<close>

definition is_lower :: "char \<Rightarrow> bool" where
  "is_lower c \<longleftrightarrow> 97 \<le> (of_char c :: nat) \<and> (of_char c :: nat) \<le> 122"

definition is_upper :: "char \<Rightarrow> bool" where
  "is_upper c \<longleftrightarrow> 65 \<le> (of_char c :: nat) \<and> (of_char c :: nat) \<le> 90"

definition to_upper :: "char \<Rightarrow> char" where
  "to_upper c = (if is_lower c then char_of ((of_char c :: nat) - 32) else c)"

definition to_lower :: "char \<Rightarrow> char" where
  "to_lower c = (if is_upper c then char_of ((of_char c :: nat) + 32) else c)"

text \<open>\<open>s.split(c)\<close> for a one-character separator, and \<open>parts.join(c)\<close>.\<close>

fun split_on :: "char \<Rightarrow> string \<Rightarrow> string list" where
  "split_on c [] = [[]]"
| "split_on c (x # xs) =
     (if x = c then [] # split_on c xs
      else (case split_on c xs of [] \<Rightarrow> [[x]] | p # ps \<Rightarrow> (x # p) # ps))"

fun join_with :: "char \<Rightarrow> string list \<Rightarrow> string" where
  "join_with c [] = []"
| "join_with c [p] = p"
| "join_with c (p # q # ps) = p @ c # join_with c (q # ps)"

lemma split_on_not_Nil [simp]: "split_on c s \<noteq> []"
  by (induction s) (auto split: list.splits)

lemma join_with_Cons: "ps \<noteq> [] \<Longrightarrow> join_with c (p # ps) = p @ c # join_with c ps"
  by (cases ps) auto

lemma join_split [str_simps]: "join_with c (split_on c s) = s"
proof (induction s)
  case Nil
  then show ?case by simp
next
  case (Cons x xs)
  obtain p ps where ps: "split_on c xs = p # ps"
    by (cases "split_on c xs") auto
  with Cons show ?case by (cases ps) auto
qed

lemma split_on_free: "c \<notin> set s \<Longrightarrow> split_on c s = [s]"
  by (induction s) auto

lemma split_on_append: "c \<notin> set p \<Longrightarrow> split_on c (p @ c # s) = p # split_on c s"
  by (induction p) auto

lemma split_on_parts_free: "p \<in> set (split_on c s) \<Longrightarrow> c \<notin> set p"
  by (induction s arbitrary: p) (auto split: list.splits if_splits)

lemma split_join:
  "ps \<noteq> [] \<Longrightarrow> \<forall>p \<in> set ps. c \<notin> set p \<Longrightarrow> split_on c (join_with c ps) = ps"
  by (induction ps rule: join_with.induct) (auto simp: split_on_append split_on_free)

definition startsWith :: "string \<Rightarrow> string \<Rightarrow> bool" where
  "startsWith s p \<longleftrightarrow> take (length p) s = p"

definition endsWith :: "string \<Rightarrow> string \<Rightarrow> bool" where
  "endsWith s p \<longleftrightarrow> length p \<le> length s \<and> drop (length s - length p) s = p"

lemma startsWith_iff: "startsWith s p \<longleftrightarrow> (\<exists>t. s = p @ t)"
  by (metis append_eq_conv_conj append_take_drop_id startsWith_def)

lemma endsWith_iff: "endsWith s p \<longleftrightarrow> (\<exists>t. s = t @ p)"
  unfolding endsWith_def
  by (metis append_take_drop_id append_eq_append_conv diff_diff_cancel length_append length_drop
      le_add2)

text \<open>
  A JavaScript value of type \<open>string | null | undefined\<close> in a condition: the missing
  values and the empty string are falsy.
\<close>

definition truthy :: "string option \<Rightarrow> bool" where
  "truthy v \<longleftrightarrow> v \<noteq> None \<and> v \<noteq> Some []"

lemma truthy_simps [simp]: "truthy (Some s) \<longleftrightarrow> s \<noteq> []" "\<not> truthy None"
  by (auto simp: truthy_def)

lemma truthyE: "truthy v \<Longrightarrow> (\<And>s. v = Some s \<Longrightarrow> s \<noteq> [] \<Longrightarrow> P) \<Longrightarrow> P"
  by (cases v) auto

text \<open>\<open>a ?? b\<close> and \<open>a || b\<close> on such values.\<close>

definition coalesce :: "'a option \<Rightarrow> 'a option \<Rightarrow> 'a option" where
  "coalesce a b = (case a of None \<Rightarrow> b | Some x \<Rightarrow> Some x)"

definition or_else :: "string option \<Rightarrow> string option \<Rightarrow> string option" where
  "or_else a b = (if truthy a then a else b)"

lemma coalesce_simps [simp]: "coalesce None b = b" "coalesce (Some x) b = Some x"
  by (simp_all add: coalesce_def)

section \<open>The browser's localStorage\<close>

type_synonym storage = "string \<rightharpoonup> string"

abbreviation (input) getItem :: "storage \<Rightarrow> string \<Rightarrow> string option" where
  "getItem ls k \<equiv> ls k"

abbreviation (input) setItem :: "storage \<Rightarrow> string \<Rightarrow> string \<Rightarrow> storage" where
  "setItem ls k v \<equiv> ls(k \<mapsto> v)"

abbreviation (input) removeItem :: "storage \<Rightarrow> string \<Rightarrow> storage" where
  "removeItem ls k \<equiv> ls(k := None)"

section \<open>Lists\<close>

lemma find_SomeD:
  "List.find P xs = Some x \<Longrightarrow> x \<in> set xs \<and> P x"
  by (induction xs) (auto split: if_splits)

lemma find_unique:
  assumes "distinct (map f xs)" "x \<in> set xs" "f x = k"
  shows "List.find (\<lambda>y. f y = k) xs = Some x"
  using assms by (induction xs) auto

lemma distinct_map_replace:
  assumes "distinct (map f xs)" "\<And>x. x \<in> set xs \<Longrightarrow> f (g x) = f x"
  shows "distinct (map f (map g xs))"
  using assms by (induction xs) auto

section \<open>Refinement\<close>

text \<open>The events of a list are admissible one after the other.\<close>

fun run_ok :: "('e \<Rightarrow> 'c \<Rightarrow> bool) \<Rightarrow> ('e \<Rightarrow> 'c \<Rightarrow> 'c) \<Rightarrow> 'e list \<Rightarrow> 'c \<Rightarrow> bool" where
  "run_ok ok step [] c \<longleftrightarrow> True"
| "run_ok ok step (e # es) c \<longleftrightarrow> ok e c \<and> run_ok ok step es (step e c)"

text \<open>
  A component and its specification: every admissible event keeps the invariant and does to the abstract
  state what the specification says. Then so does every run.
\<close>

locale functional_refinement =
  fixes inv :: "'c \<Rightarrow> bool" and abs :: "'c \<Rightarrow> 'a" and ok :: "'e \<Rightarrow> 'c \<Rightarrow> bool"
    and step :: "'e \<Rightarrow> 'c \<Rightarrow> 'c" and spec :: "'e \<Rightarrow> 'a \<Rightarrow> 'a"
  assumes keeps: "inv c \<Longrightarrow> ok e c \<Longrightarrow> inv (step e c)"
    and simulates: "inv c \<Longrightarrow> ok e c \<Longrightarrow> abs (step e c) = spec e (abs c)"
begin

lemma run_refines:
  "inv c \<Longrightarrow> run_ok ok step es c \<Longrightarrow> inv (fold step es c) \<and> abs (fold step es c) = fold spec es (abs c)"
  by (induction es arbitrary: c) (simp_all add: keeps simulates)

end

end
