(* ===== verification/Gateway_Store.thy ===== *)
theory Gateway_Store
  imports Synkro_Prelude
begin

text \<open>
  The data of the API gateway (\<open>api-gateway-auth/src/modules/user/entities\<close> and
  \<open>dto\<close>), the TypeORM repositories its services call, as a record of operations with a
  locale of laws, and the tables the migration
  \<open>api-gateway-auth/src/migrations/1740697481044-initial.ts\<close> creates, with their primary
  keys, unique columns and cascading foreign keys, as an instance of that locale.
\<close>

section \<open>Entities\<close>

datatype UserRole = USER | ADMIN

record Role =
  r_id :: "string option"
  r_name :: string
  r_permissions :: "string list option"
  r_description :: "string option"

text \<open>
  \<open>u_id\<close> is missing until the entity is stored, \<open>u_role\<close> until the column default
  is filled in, \<open>u_roles\<close> unless the relation is loaded. The date columns are written by
  the database and read by nobody, so they are left out.
\<close>

record User =
  u_id :: "string option"
  u_email :: string
  u_password :: string
  u_name :: "string option"
  u_role :: "UserRole option"
  u_isActive :: bool
  u_roles :: "Role list option"

text \<open>bcryptjs: \<open>hash(password, salt)\<close> and \<open>compare(password, hash)\<close>.\<close>

record bcrypt =
  bc_hash :: "string \<Rightarrow> string \<Rightarrow> string"
  bc_compare :: "string \<Rightarrow> string \<Rightarrow> bool"

definition hashPassword :: "bcrypt \<Rightarrow> string \<Rightarrow> User \<Rightarrow> User" where
  "hashPassword B salt u =
     (if u_password u \<noteq> [] then u\<lparr>u_password := bc_hash B (u_password u) salt\<rparr> else u)"

definition User_validatePassword :: "bcrypt \<Rightarrow> User \<Rightarrow> string \<Rightarrow> bool" where
  "User_validatePassword B u password = bc_compare B password (u_password u)"

section \<open>Data transfer objects\<close>

record CreateUserDto =
  cu_email :: string
  cu_password :: string
  cu_name :: "string option"
  cu_role :: "UserRole option"

record UpdateUserDto =
  uu_email :: "string option"
  uu_password :: "string option"
  uu_name :: "string option"
  uu_role :: "UserRole option"

record CreateRoleDto =
  cr_name :: string
  cr_permissions :: "string list option"
  cr_description :: "string option"

record UpdateRoleDto =
  ur_name :: "string option"
  ur_permissions :: "string list option"
  ur_description :: "string option"

section \<open>Repositories\<close>

text \<open>
  The operations of a TypeORM \<open>Repository\<close> that the services use. A \<open>where\<close> clause
  is a predicate on rows; \<open>save\<close> returns the stored entity or the error the database
  raises.
\<close>

record ('e, 's) repo =
  findOne :: "('e \<Rightarrow> bool) \<Rightarrow> 's \<Rightarrow> 'e option"
  find_all :: "'s \<Rightarrow> 'e list"
  save :: "'e \<Rightarrow> ('s, 'e) op"
  delete :: "string \<Rightarrow> 's \<Rightarrow> 's"

definition role_ids :: "User \<Rightarrow> string option set" where
  "role_ids u = (case u_roles u of None \<Rightarrow> {} | Some rs \<Rightarrow> set (map r_id rs))"

definition user_columns ::
  "User \<Rightarrow> string option \<times> string \<times> string \<times> string option \<times> UserRole option \<times> bool" where
  "user_columns u =
     (u_id u, u_email u, u_password u, u_name u, u_role u, u_isActive u)"

definition same_user :: "User \<Rightarrow> User \<Rightarrow> bool" where
  "same_user u v \<longleftrightarrow> user_columns u = user_columns v \<and> role_ids u = role_ids v"

text \<open>What an insertion stores: the \<open>BeforeInsert\<close> hook runs, the database generates the
  primary key and fills in the column defaults of the entity.\<close>

definition insert_user :: "bcrypt \<Rightarrow> string \<Rightarrow> string \<Rightarrow> User \<Rightarrow> User" where
  "insert_user B salt i u =
     (hashPassword B salt u)\<lparr>u_id := Some i, u_role := Some (case u_role u of None \<Rightarrow> USER | Some r \<Rightarrow> r)\<rparr>"

definition insert_role :: "string \<Rightarrow> Role \<Rightarrow> Role" where
  "insert_role i r =
     r\<lparr>r_id := Some i, r_permissions := Some (case r_permissions r of None \<Rightarrow> [] | Some ps \<Rightarrow> ps)\<rparr>"

definition replace_user :: "string \<Rightarrow> User \<Rightarrow> User list \<Rightarrow> User list" where
  "replace_user i v us = map (\<lambda>x. if u_id x = Some i then v else x) us"

definition replace_role :: "string \<Rightarrow> Role \<Rightarrow> Role list \<Rightarrow> Role list" where
  "replace_role i v rs = map (\<lambda>x. if r_id x = Some i then v else x) rs"

text \<open>Primary keys, unique columns and foreign keys.\<close>

definition db_ok :: "User list \<Rightarrow> Role list \<Rightarrow> bool" where
  "db_ok us rs \<longleftrightarrow>
     distinct (map u_id us) \<and> None \<notin> u_id ` set us \<and> distinct (map u_email us) \<and>
     distinct (map r_id rs) \<and> None \<notin> r_id ` set rs \<and> distinct (map r_name rs) \<and>
     (\<forall>u \<in> set us. role_ids u \<subseteq> r_id ` set rs)"

locale gateway_db =
  fixes UR :: "(User, 's) repo"
    and RR :: "(Role, 's) repo"
    and B :: bcrypt
    and urows :: "'s \<Rightarrow> User list"
    and rrows :: "'s \<Rightarrow> Role list"
  assumes u_findOne: "findOne UR P s = List.find P (urows s)"
    and u_find: "find_all UR s = urows s"
    and u_loaded: "u \<in> set (urows s) \<Longrightarrow> u_roles u \<noteq> None"
    and r_findOne: "findOne RR Q s = List.find Q (rrows s)"
    and r_find: "find_all RR s = rrows s"
    and u_insert: "u_id u = None \<Longrightarrow> role_ids u = {} \<Longrightarrow> u_email u \<notin> u_email ` set (urows s) \<Longrightarrow>
      \<exists>salt i v t. Some i \<notin> u_id ` set (urows s) \<and> save UR u s = (Inr (insert_user B salt i u), t) \<and>
        same_user (insert_user B salt i u) v \<and> urows t = urows s @ [v] \<and> rrows t = rrows s"
    and u_insert_dup: "u_id u = None \<Longrightarrow> u_email u \<in> u_email ` set (urows s) \<Longrightarrow>
      \<exists>m. save UR u s = (Inl (QueryFailedError m), s)"
    and u_update: "u_id u = Some i \<Longrightarrow> Some i \<in> u_id ` set (urows s) \<Longrightarrow>
      (\<forall>v \<in> set (urows s). u_email v = u_email u \<longrightarrow> u_id v = Some i) \<Longrightarrow>
      role_ids u \<subseteq> r_id ` set (rrows s) \<Longrightarrow> None \<notin> role_ids u \<Longrightarrow>
      \<exists>v t. save UR u s = (Inr u, t) \<and> same_user u v \<and>
        urows t = replace_user i v (urows s) \<and> rrows t = rrows s"
    and u_update_dup: "u_id u = Some i \<Longrightarrow> v \<in> set (urows s) \<Longrightarrow> u_email v = u_email u \<Longrightarrow>
      u_id v \<noteq> Some i \<Longrightarrow> \<exists>m. save UR u s = (Inl (QueryFailedError m), s)"
    and u_delete: "urows (delete UR i s) = filter (\<lambda>v. u_id v \<noteq> Some i) (urows s)"
    and u_delete_roles: "rrows (delete UR i s) = rrows s"
    and r_insert: "r_id r = None \<Longrightarrow> r_name r \<notin> r_name ` set (rrows s) \<Longrightarrow>
      \<exists>i t. Some i \<notin> r_id ` set (rrows s) \<and> save RR r s = (Inr (insert_role i r), t) \<and>
        rrows t = rrows s @ [insert_role i r] \<and> list_all2 same_user (urows s) (urows t)"
    and r_insert_dup: "r_id r = None \<Longrightarrow> r_name r \<in> r_name ` set (rrows s) \<Longrightarrow>
      \<exists>m. save RR r s = (Inl (QueryFailedError m), s)"
    and r_update: "r_id r = Some i \<Longrightarrow> Some i \<in> r_id ` set (rrows s) \<Longrightarrow>
      (\<forall>q \<in> set (rrows s). r_name q = r_name r \<longrightarrow> r_id q = Some i) \<Longrightarrow>
      \<exists>t. save RR r s = (Inr r, t) \<and> rrows t = replace_role i r (rrows s) \<and>
        list_all2 same_user (urows s) (urows t)"
    and r_update_dup: "r_id r = Some i \<Longrightarrow> q \<in> set (rrows s) \<Longrightarrow> r_name q = r_name r \<Longrightarrow>
      r_id q \<noteq> Some i \<Longrightarrow> \<exists>m. save RR r s = (Inl (QueryFailedError m), s)"
    and r_delete: "rrows (delete RR i s) = filter (\<lambda>r. r_id r \<noteq> Some i) (rrows s)"
    and r_delete_users: "list_all2 (\<lambda>u v. user_columns u = user_columns v \<and> role_ids v = role_ids u - {Some i})
        (urows s) (urows (delete RR i s))"
begin

lemmas finds = u_findOne u_find r_findOne r_find

end

section \<open>Rows\<close>

lemma same_user_refl [simp]: "same_user u u"
  by (simp add: same_user_def)

lemma same_userD:
  assumes "same_user u v"
  shows "u_id v = u_id u" "u_email v = u_email u" "u_password v = u_password u"
    "u_name v = u_name u" "u_role v = u_role u" "u_isActive v = u_isActive u"
    "role_ids v = role_ids u"
  using assms by (auto simp: same_user_def user_columns_def)

lemma hashPassword_fields [simp]:
  "u_id (hashPassword B salt u) = u_id u"
  "u_email (hashPassword B salt u) = u_email u"
  "u_name (hashPassword B salt u) = u_name u"
  "u_role (hashPassword B salt u) = u_role u"
  "u_isActive (hashPassword B salt u) = u_isActive u"
  "u_roles (hashPassword B salt u) = u_roles u"
  by (simp_all add: hashPassword_def)

lemma insert_user_fields [simp]:
  "u_id (insert_user B salt i u) = Some i"
  "u_email (insert_user B salt i u) = u_email u"
  "u_name (insert_user B salt i u) = u_name u"
  "u_role (insert_user B salt i u) = Some (case u_role u of None \<Rightarrow> USER | Some r \<Rightarrow> r)"
  "u_isActive (insert_user B salt i u) = u_isActive u"
  "role_ids (insert_user B salt i u) = role_ids u"
  by (simp_all add: insert_user_def role_ids_def)

lemma insert_user_password [simp]:
  "u_password u \<noteq> [] \<Longrightarrow> u_password (insert_user B salt i u) = bc_hash B (u_password u) salt"
  by (simp add: insert_user_def hashPassword_def)

lemma insert_role_fields [simp]:
  "r_id (insert_role i r) = Some i"
  "r_name (insert_role i r) = r_name r"
  "r_description (insert_role i r) = r_description r"
  by (auto simp: insert_role_def)

lemma replace_user_other: "Some i \<notin> u_id ` set us \<Longrightarrow> replace_user i v us = us"
  unfolding replace_user_def by (induction us) auto

lemma replace_role_other: "Some i \<notin> r_id ` set rs \<Longrightarrow> replace_role i v rs = rs"
  unfolding replace_role_def by (induction rs) auto

lemma in_replace_user:
  "x \<in> set (replace_user i v us) \<longleftrightarrow>
     (x = v \<and> Some i \<in> u_id ` set us) \<or> (x \<in> set us \<and> u_id x \<noteq> Some i)"
  by (auto simp: replace_user_def image_iff eq_commute [of "Some i"])

lemma in_replace_role:
  "x \<in> set (replace_role i v rs) \<longleftrightarrow>
     (x = v \<and> Some i \<in> r_id ` set rs) \<or> (x \<in> set rs \<and> r_id x \<noteq> Some i)"
  by (auto simp: replace_role_def image_iff eq_commute [of "Some i"])

lemma ids_replace_user:
  "u_id v = Some i \<Longrightarrow> map u_id (replace_user i v us) = map u_id us"
  by (simp add: replace_user_def)

lemma ids_replace_role:
  "r_id v = Some i \<Longrightarrow> map r_id (replace_role i v rs) = map r_id rs"
  by (simp add: replace_role_def)

lemma emails_replace_user:
  assumes "distinct (map u_id us)" "distinct (map u_email us)"
    and "\<forall>x \<in> set us. u_email x = u_email v \<longrightarrow> u_id x = Some i"
  shows "distinct (map u_email (replace_user i v us))"
  using assms
proof (induction us)
  case Nil
  then show ?case by (simp add: replace_user_def)
next
  case (Cons x us)
  show ?case
  proof (cases "u_id x = Some i")
    case True
    with Cons.prems(1) have "Some i \<notin> u_id ` set us" by force
    then have "replace_user i v (x # us) = v # us"
      using True replace_user_other [of i us v] by (simp add: replace_user_def)
    with Cons.prems True \<open>Some i \<notin> u_id ` set us\<close> show ?thesis by (auto simp: image_iff)
  next
    case False
    then have "replace_user i v (x # us) = x # replace_user i v us"
      by (simp add: replace_user_def)
    with Cons False show ?thesis by (auto simp: in_replace_user)
  qed
qed

lemma names_replace_role:
  assumes "distinct (map r_id rs)" "distinct (map r_name rs)"
    and "\<forall>x \<in> set rs. r_name x = r_name v \<longrightarrow> r_id x = Some i"
  shows "distinct (map r_name (replace_role i v rs))"
  using assms
proof (induction rs)
  case Nil
  then show ?case by (simp add: replace_role_def)
next
  case (Cons x rs)
  show ?case
  proof (cases "r_id x = Some i")
    case True
    with Cons.prems(1) have "Some i \<notin> r_id ` set rs" by force
    then have "replace_role i v (x # rs) = v # rs"
      using True replace_role_other [of i rs v] by (simp add: replace_role_def)
    with Cons.prems True \<open>Some i \<notin> r_id ` set rs\<close> show ?thesis by (auto simp: image_iff)
  next
    case False
    then have "replace_role i v (x # rs) = x # replace_role i v rs"
      by (simp add: replace_role_def)
    with Cons False show ?thesis by (auto simp: in_replace_role)
  qed
qed

section \<open>The constraints are kept\<close>

lemma db_ok_insert_user:
  assumes "db_ok us rs" "u_id v = Some i" "Some i \<notin> u_id ` set us"
    "u_email v \<notin> u_email ` set us" "role_ids v \<subseteq> r_id ` set rs"
  shows "db_ok (us @ [v]) rs"
  using assms by (auto simp: db_ok_def)

lemma db_ok_replace_user:
  assumes ok: "db_ok us rs" and v: "u_id v = Some i"
    and em: "\<forall>x \<in> set us. u_email x = u_email v \<longrightarrow> u_id x = Some i"
    and ro: "role_ids v \<subseteq> r_id ` set rs"
  shows "db_ok (replace_user i v us) rs"
proof -
  have "u_id ` set (replace_user i v us) = u_id ` set us"
    using ids_replace_user [OF v, of us] by (metis set_map)
  moreover have "distinct (map u_email (replace_user i v us))"
    using ok em by (auto simp: db_ok_def intro: emails_replace_user)
  moreover have "\<forall>u \<in> set (replace_user i v us). role_ids u \<subseteq> r_id ` set rs"
  proof
    fix u assume "u \<in> set (replace_user i v us)"
    then have "u = v \<or> u \<in> set us" by (auto simp: in_replace_user)
    with ok ro show "role_ids u \<subseteq> r_id ` set rs" unfolding db_ok_def by blast
  qed
  ultimately show ?thesis
    using ok by (simp add: db_ok_def ids_replace_user [OF v])
qed

lemma db_ok_filter_user: "db_ok us rs \<Longrightarrow> db_ok (filter P us) rs"
  by (auto simp: db_ok_def distinct_map_filter)

lemma db_ok_same_users:
  assumes "db_ok us rs" "list_all2 (\<lambda>u v. user_columns u = user_columns v \<and> role_ids v \<subseteq> role_ids u) us vs"
  shows "db_ok vs rs"
proof -
  have "map u_id us = map u_id vs" "map u_email us = map u_email vs"
    using assms(2) by (induction rule: list_all2_induct) (auto simp: user_columns_def)
  moreover have "\<forall>v \<in> set vs. \<exists>u \<in> set us. role_ids v \<subseteq> role_ids u"
    using assms(2) by (induction rule: list_all2_induct) auto
  ultimately show ?thesis
    using assms(1) by (auto simp: db_ok_def) (metis image_iff set_map, blast)
qed

lemma list_all2_same_user_mono:
  "list_all2 same_user us vs \<Longrightarrow>
   list_all2 (\<lambda>u v. user_columns u = user_columns v \<and> role_ids v \<subseteq> role_ids u) us vs"
  by (erule list_all2_mono) (auto simp: same_user_def)

lemma db_ok_insert_role:
  assumes "db_ok us rs" "r_id v = Some i" "Some i \<notin> r_id ` set rs" "r_name v \<notin> r_name ` set rs"
  shows "db_ok us (rs @ [v])"
  using assms by (auto simp: db_ok_def)

lemma db_ok_replace_role:
  assumes ok: "db_ok us rs" and v: "r_id v = Some i"
    and nm: "\<forall>x \<in> set rs. r_name x = r_name v \<longrightarrow> r_id x = Some i"
  shows "db_ok us (replace_role i v rs)"
proof -
  have "r_id ` set (replace_role i v rs) = r_id ` set rs"
    using ids_replace_role [OF v, of rs] by (metis set_map)
  moreover have "distinct (map r_name (replace_role i v rs))"
    using ok nm by (auto simp: db_ok_def intro: names_replace_role)
  ultimately show ?thesis
    using ok by (auto simp: db_ok_def ids_replace_role [OF v])
qed

lemma db_ok_delete_role:
  assumes "db_ok us rs"
    and "list_all2 (\<lambda>u v. user_columns u = user_columns v \<and> role_ids v = role_ids u - {Some i}) us vs"
  shows "db_ok vs (filter (\<lambda>r. r_id r \<noteq> Some i) rs)"
proof -
  have "db_ok vs rs"
    using assms(1) by (rule db_ok_same_users) (rule list_all2_mono [OF assms(2)], auto)
  moreover have "\<forall>v \<in> set vs. Some i \<notin> role_ids v"
    using assms(2) by (induction rule: list_all2_induct) auto
  ultimately show ?thesis
    by (force simp: db_ok_def distinct_map_filter subset_iff image_iff)
qed

lemma find_user_by_id:
  assumes "db_ok us rs" "u \<in> set us" "u_id u = Some i"
  shows "List.find (\<lambda>x. u_id x = Some i) us = Some u"
  using assms by (auto simp: db_ok_def intro: find_unique)

lemma find_user_by_email:
  assumes "db_ok us rs" "u \<in> set us" "u_email u = e"
  shows "List.find (\<lambda>x. u_email x = e) us = Some u"
  using assms by (auto simp: db_ok_def intro: find_unique)

lemma find_role_by_id:
  assumes "db_ok us rs" "r \<in> set rs" "r_id r = Some i"
  shows "List.find (\<lambda>x. r_id x = Some i) rs = Some r"
  using assms by (auto simp: db_ok_def intro: find_unique)

section \<open>The tables of the initial migration\<close>

text \<open>
  \<open>users\<close>, \<open>roles\<close> and the junction table \<open>user_roles\<close>. A user is read with the roles
  the junction table gives it. A generated key is any key not yet in the table.
\<close>

record tables =
  users :: "User list"
  roles :: "Role list"
  user_roles :: "(string \<times> string) list"

definition has_role :: "tables \<Rightarrow> User \<Rightarrow> Role \<Rightarrow> bool" where
  "has_role s u r \<longleftrightarrow> (case (u_id u, r_id r) of
     (Some i, Some j) \<Rightarrow> (i, j) \<in> set (user_roles s) | _ \<Rightarrow> False)"

definition load_user :: "tables \<Rightarrow> User \<Rightarrow> User" where
  "load_user s u = u\<lparr>u_roles := Some (filter (has_role s u) (roles s))\<rparr>"

definition pg_urows :: "tables \<Rightarrow> User list" where
  "pg_urows s = map (load_user s) (users s)"

definition fresh_key :: "string option list \<Rightarrow> string" where
  "fresh_key ks = replicate (Suc (foldr (\<lambda>k n. max n (case k of None \<Rightarrow> 0 | Some x \<Rightarrow> length x)) ks 0)) (CHR ''k'')"

definition pg_save_user :: "bcrypt \<Rightarrow> User \<Rightarrow> (tables, User) op" where
  "pg_save_user B u s = (case u_id u of
     None \<Rightarrow>
       (if u_email u \<in> u_email ` set (users s) then (Inl (QueryFailedError ''UQ_users_email''), s)
        else
          let i = fresh_key (map u_id (users s)); v = insert_user B ''salt'' i u
          in (Inr v, s\<lparr>users := users s @ [v],
                user_roles := filter (\<lambda>p. fst p \<noteq> i) (user_roles s)\<rparr>))
   | Some i \<Rightarrow>
       (if list_ex (\<lambda>v. u_email v = u_email u \<and> u_id v \<noteq> Some i) (users s)
        then (Inl (QueryFailedError ''UQ_users_email''), s)
        else if \<not> role_ids u \<subseteq> r_id ` set (roles s)
        then (Inl (QueryFailedError ''FK_user_roles_role_id''), s)
        else (Inr u, s\<lparr>users := replace_user i u (users s),
                user_roles := filter (\<lambda>p. fst p \<noteq> i) (user_roles s) @
                  map (\<lambda>r. (i, the (r_id r))) (filter (\<lambda>r. r_id r \<in> role_ids u \<and> r_id r \<noteq> None) (roles s))\<rparr>)))"

definition pg_save_role :: "Role \<Rightarrow> (tables, Role) op" where
  "pg_save_role r s = (case r_id r of
     None \<Rightarrow>
       (if r_name r \<in> r_name ` set (roles s) then (Inl (QueryFailedError ''UQ_roles_name''), s)
        else
          let i = fresh_key (map r_id (roles s)); q = insert_role i r
          in (Inr q, s\<lparr>roles := roles s @ [q],
                user_roles := filter (\<lambda>p. snd p \<noteq> i) (user_roles s)\<rparr>))
   | Some i \<Rightarrow>
       (if list_ex (\<lambda>q. r_name q = r_name r \<and> r_id q \<noteq> Some i) (roles s)
        then (Inl (QueryFailedError ''UQ_roles_name''), s)
        else (Inr r, s\<lparr>roles := replace_role i r (roles s)\<rparr>)))"

definition pg_users :: "bcrypt \<Rightarrow> (User, tables) repo" where
  "pg_users B = \<lparr>
     findOne = (\<lambda>P s. List.find P (pg_urows s)),
     find_all = pg_urows,
     save = pg_save_user B,
     delete = (\<lambda>i s. s\<lparr>users := filter (\<lambda>u. u_id u \<noteq> Some i) (users s),
       user_roles := filter (\<lambda>p. fst p \<noteq> i) (user_roles s)\<rparr>)\<rparr>"

definition pg_roles :: "(Role, tables) repo" where
  "pg_roles = \<lparr>
     findOne = (\<lambda>P s. List.find P (roles s)),
     find_all = roles,
     save = pg_save_role,
     delete = (\<lambda>i s. s\<lparr>roles := filter (\<lambda>r. r_id r \<noteq> Some i) (roles s),
       user_roles := filter (\<lambda>p. snd p \<noteq> i) (user_roles s)\<rparr>)\<rparr>"

definition empty_tables :: tables where
  "empty_tables = \<lparr>users = [], roles = [], user_roles = []\<rparr>"

lemma fresh_key_long:
  "Some x \<in> set ks \<Longrightarrow>
   length x \<le> foldr (\<lambda>k n. max n (case k of None \<Rightarrow> 0 | Some x \<Rightarrow> length x)) ks 0"
  by (induction ks) auto

lemma fresh_key_fresh: "Some (fresh_key ks) \<notin> set ks"
  using fresh_key_long [of "fresh_key ks" ks] by (auto simp: fresh_key_def)

lemma load_user_fields [simp]:
  "u_id (load_user s u) = u_id u" "u_email (load_user s u) = u_email u"
  "user_columns (load_user s u) = user_columns u"
  by (simp_all add: load_user_def user_columns_def)

lemma role_ids_load: "role_ids (load_user s u) = r_id ` {r \<in> set (roles s). has_role s u r}"
  by (auto simp: role_ids_def load_user_def)

lemma image_pg_urows [simp]:
  "u_id ` set (pg_urows s) = u_id ` set (users s)"
  "u_email ` set (pg_urows s) = u_email ` set (users s)"
  by (auto simp: pg_urows_def image_iff)

lemma load_user_other:
  assumes "roles t = roles s" "u_id x = Some j"
    and "\<And>k. (j, k) \<in> set (user_roles t) \<longleftrightarrow> (j, k) \<in> set (user_roles s)"
  shows "load_user t x = load_user s x"
  using assms by (auto simp: load_user_def has_role_def intro!: User.fold_congs(7) arg_cong [where f = Some]
      filter_cong split: option.splits)

lemma load_user_no_key: "u_id x = None \<Longrightarrow> load_user s x = x\<lparr>u_roles := Some []\<rparr>"
  by (simp add: load_user_def has_role_def)

lemma load_user_cong:
  assumes "roles t = roles s" "u_id x \<noteq> Some i"
    and "\<And>j k. j \<noteq> i \<Longrightarrow> (j, k) \<in> set (user_roles t) \<longleftrightarrow> (j, k) \<in> set (user_roles s)"
  shows "load_user t x = load_user s x"
  using assms by (cases "u_id x") (auto simp: load_user_no_key intro: load_user_other)

lemma pg_u_insert:
  assumes "u_id u = None" "role_ids u = {}" "u_email u \<notin> u_email ` set (users s)"
  shows "\<exists>salt i v t. Some i \<notin> u_id ` set (users s) \<and> pg_save_user B u s = (Inr (insert_user B salt i u), t) \<and>
     same_user (insert_user B salt i u) v \<and> pg_urows t = pg_urows s @ [v] \<and> roles t = roles s"
proof -
  define i where "i = fresh_key (map u_id (users s))"
  define w where "w = insert_user B ''salt'' i u"
  define t where "t = s\<lparr>users := users s @ [w], user_roles := filter (\<lambda>p. fst p \<noteq> i) (user_roles s)\<rparr>"
  have fresh: "Some i \<notin> u_id ` set (users s)"
    using fresh_key_fresh [of "map u_id (users s)"] by (simp add: i_def)
  have "pg_save_user B u s = (Inr w, t)"
    using assms by (simp add: pg_save_user_def i_def w_def t_def Let_def)
  moreover have "pg_urows t = pg_urows s @ [load_user t w]"
    using fresh by (auto simp: pg_urows_def t_def intro!: load_user_cong [where i = i]) (metis image_eqI)
  moreover have "same_user w (load_user t w)"
    using assms(2) by (auto simp: same_user_def role_ids_load has_role_def t_def w_def split: option.splits)
  ultimately show ?thesis using fresh by (auto simp: w_def t_def)
qed

lemma pg_u_update:
  assumes "u_id u = Some i" "\<forall>v \<in> set (users s). u_email v = u_email u \<longrightarrow> u_id v = Some i"
    and sub: "role_ids u \<subseteq> r_id ` set (roles s)" "None \<notin> role_ids u"
  shows "\<exists>v t. pg_save_user B u s = (Inr u, t) \<and> same_user u v \<and>
     pg_urows t = replace_user i v (pg_urows s) \<and> roles t = roles s"
proof -
  define ps where "ps = filter (\<lambda>p. fst p \<noteq> i) (user_roles s) @
    map (\<lambda>r. (i, the (r_id r))) (filter (\<lambda>r. r_id r \<in> role_ids u \<and> r_id r \<noteq> None) (roles s))"
  define t where "t = s\<lparr>users := replace_user i u (users s), user_roles := ps\<rparr>"
  have "\<not> list_ex (\<lambda>v. u_email v = u_email u \<and> u_id v \<noteq> Some i) (users s)"
    using assms(2) by (auto simp: list_ex_iff)
  then have "pg_save_user B u s = (Inr u, t)"
    using assms by (simp add: pg_save_user_def t_def ps_def)
  moreover have "load_user t x = load_user s x" if "u_id x \<noteq> Some i" for x
    using that by (intro load_user_cong [where i = i]) (auto simp: t_def ps_def)
  then have "pg_urows t = replace_user i (load_user t u) (pg_urows s)"
    by (auto simp: pg_urows_def t_def replace_user_def)
  moreover have "has_role t u r \<longleftrightarrow> r_id r \<in> role_ids u" if "r \<in> set (roles s)" for r
    using that sub(2) assms(1) by (cases "r_id r") (auto simp: has_role_def t_def ps_def image_iff)
  then have "role_ids (load_user t u) = role_ids u"
    using sub(1) by (auto simp: role_ids_load t_def)
  then have "same_user u (load_user t u)" by (simp add: same_user_def)
  ultimately show ?thesis by (auto simp: t_def)
qed

lemma load_users_related:
  assumes "users t = users s"
    and "\<And>u. P (load_user s u) (load_user t u)"
  shows "list_all2 P (pg_urows s) (pg_urows t)"
  using assms by (simp add: pg_urows_def list_all2_conv_all_nth)

lemma pg_r_insert:
  assumes "r_id r = None" "r_name r \<notin> r_name ` set (roles s)"
  shows "\<exists>i t. Some i \<notin> r_id ` set (roles s) \<and> pg_save_role r s = (Inr (insert_role i r), t) \<and>
     roles t = roles s @ [insert_role i r] \<and> list_all2 same_user (pg_urows s) (pg_urows t)"
proof -
  define i where "i = fresh_key (map r_id (roles s))"
  define t where "t = s\<lparr>roles := roles s @ [insert_role i r],
    user_roles := filter (\<lambda>p. snd p \<noteq> i) (user_roles s)\<rparr>"
  have fresh: "Some i \<notin> r_id ` set (roles s)"
    using fresh_key_fresh [of "map r_id (roles s)"] by (simp add: i_def)
  have old: "has_role t u q \<longleftrightarrow> has_role s u q" if "q \<in> set (roles s)" for u q
    using that fresh by (auto simp: has_role_def t_def image_iff split: option.splits)
  have new: "\<not> has_role t u (insert_role i r)" for u
    by (auto simp: has_role_def t_def split: option.splits)
  have "list_all2 same_user (pg_urows s) (pg_urows t)"
  proof (rule load_users_related)
    show "users t = users s" by (simp add: t_def)
    have "role_ids (load_user s u) = role_ids (load_user t u)" for u
      using old new by (auto simp: role_ids_load t_def)
    then show "same_user (load_user s u) (load_user t u)" for u by (simp add: same_user_def)
  qed
  moreover have "pg_save_role r s = (Inr (insert_role i r), t)"
    using assms by (simp add: pg_save_role_def i_def t_def Let_def)
  ultimately show ?thesis using fresh by (auto simp: t_def)
qed

lemma pg_r_update:
  assumes "r_id r = Some i" "\<forall>q \<in> set (roles s). r_name q = r_name r \<longrightarrow> r_id q = Some i"
  shows "\<exists>t. pg_save_role r s = (Inr r, t) \<and> roles t = replace_role i r (roles s) \<and>
     list_all2 same_user (pg_urows s) (pg_urows t)"
proof -
  define t where "t = s\<lparr>roles := replace_role i r (roles s)\<rparr>"
  have "\<not> list_ex (\<lambda>q. r_name q = r_name r \<and> r_id q \<noteq> Some i) (roles s)"
    using assms(2) by (auto simp: list_ex_iff)
  then have "pg_save_role r s = (Inr r, t)"
    using assms by (simp add: pg_save_role_def t_def)
  moreover define f where "f = (\<lambda>x. if r_id x = Some i then r else x)"
  have "r_id (f x) = r_id x" "has_role t u (f x) = has_role s u x" for x u
    using assms(1) by (auto simp: f_def has_role_def t_def split: option.splits)
  then have "r_id ` {q \<in> f ` set (roles s). has_role t u q} =
      r_id ` {q \<in> set (roles s). has_role s u q}" for u
    by (auto simp: image_iff) (metis+)?
  then have ids: "role_ids (load_user t u) = role_ids (load_user s u)" for u
    by (simp add: role_ids_load t_def replace_role_def f_def)
  have "list_all2 same_user (pg_urows s) (pg_urows t)"
  proof (rule load_users_related)
    show "users t = users s" by (simp add: t_def)
    show "same_user (load_user s u) (load_user t u)" for u
      by (simp add: same_user_def ids)
  qed
  ultimately show ?thesis by (auto simp: t_def)
qed

lemma pg_r_delete_users:
  "list_all2 (\<lambda>u v. user_columns u = user_columns v \<and> role_ids v = role_ids u - {Some i})
     (pg_urows s) (pg_urows (delete pg_roles i s))"
proof (rule load_users_related)
  show "users (delete pg_roles i s) = users s" by (simp add: pg_roles_def)
  have "has_role (delete pg_roles i s) u q \<longleftrightarrow> has_role s u q \<and> r_id q \<noteq> Some i" for u q
    by (auto simp: has_role_def pg_roles_def split: option.splits)
  moreover have "r_id q \<noteq> Some i \<Longrightarrow> q \<in> set (roles (delete pg_roles i s)) \<longleftrightarrow> q \<in> set (roles s)" for q
    by (simp add: pg_roles_def)
  ultimately show "user_columns (load_user s u) = user_columns (load_user (delete pg_roles i s) u) \<and>
      role_ids (load_user (delete pg_roles i s) u) = role_ids (load_user s u) - {Some i}" for u
    by (auto simp: role_ids_load)
qed

lemma pg_u_delete:
  "pg_urows (delete (pg_users B) i s) = filter (\<lambda>v. u_id v \<noteq> Some i) (pg_urows s)"
proof -
  have "load_user (delete (pg_users B) i s) x = load_user s x" if "u_id x \<noteq> Some i" for x
    using that by (intro load_user_cong [where i = i]) (auto simp: pg_users_def)
  then show ?thesis
    by (auto simp: pg_urows_def filter_map o_def pg_users_def)
qed

lemma pg_sels [simp]:
  "findOne (pg_users B) P s = List.find P (pg_urows s)" "find_all (pg_users B) s = pg_urows s"
  "save (pg_users B) = pg_save_user B" "roles (delete (pg_users B) i s) = roles s"
  "findOne pg_roles Q s = List.find Q (roles s)" "find_all pg_roles s = roles s"
  "save pg_roles = pg_save_role"
  "roles (delete pg_roles i s) = filter (\<lambda>r. r_id r \<noteq> Some i) (roles s)"
  by (simp_all add: pg_users_def pg_roles_def)

lemma pg_u_insert_dup:
  "u_id u = None \<Longrightarrow> u_email u \<in> u_email ` set (users s) \<Longrightarrow>
   \<exists>m. pg_save_user B u s = (Inl (QueryFailedError m), s)"
  by (simp add: pg_save_user_def)

lemma pg_u_update_dup:
  "u_id u = Some i \<Longrightarrow> v \<in> set (pg_urows s) \<Longrightarrow> u_email v = u_email u \<Longrightarrow> u_id v \<noteq> Some i \<Longrightarrow>
   \<exists>m. pg_save_user B u s = (Inl (QueryFailedError m), s)"
  by (auto simp: pg_save_user_def pg_urows_def list_ex_iff)

lemma pg_r_insert_dup:
  "r_id r = None \<Longrightarrow> r_name r \<in> r_name ` set (roles s) \<Longrightarrow>
   \<exists>m. pg_save_role r s = (Inl (QueryFailedError m), s)"
  by (simp add: pg_save_role_def)

lemma pg_r_update_dup:
  "r_id r = Some i \<Longrightarrow> q \<in> set (roles s) \<Longrightarrow> r_name q = r_name r \<Longrightarrow> r_id q \<noteq> Some i \<Longrightarrow>
   \<exists>m. pg_save_role r s = (Inl (QueryFailedError m), s)"
  by (auto simp: pg_save_role_def list_ex_iff)

interpretation pg: gateway_db "pg_users B" pg_roles B pg_urows roles for B
proof (unfold_locales, goal_cases)
  case (3 u s)
  then show ?case by (auto simp: pg_urows_def load_user_def)
next
  case (6 u s)
  then show ?case using pg_u_insert [of u s B] by simp
next
  case (7 u s)
  then show ?case using pg_u_insert_dup [of u s B] by simp
next
  case (8 u i s)
  from 8(3) have "\<forall>v \<in> set (users s). u_email v = u_email u \<longrightarrow> u_id v = Some i"
    by (auto simp: pg_urows_def)
  with 8 show ?case unfolding pg_sels by (intro pg_u_update)
next
  case (9 u i v s)
  then show ?case using pg_u_update_dup [of u i v s B] by simp
next
  case (10 i s)
  then show ?case by (rule pg_u_delete)
next
  case (12 r s)
  then show ?case using pg_r_insert [of r s] by simp
next
  case (13 r s)
  then show ?case using pg_r_insert_dup [of r s] by simp
next
  case (14 r i s)
  then show ?case using pg_r_update [of r i s] by simp
next
  case (15 r i q s)
  then show ?case using pg_r_update_dup [of r i q s] by simp
next
  case (17 i s)
  then show ?case by (rule pg_r_delete_users)
qed simp_all

text \<open>A hashing scheme that meets the law \<open>compare(p, hash(p, salt))\<close>, for examples.\<close>

definition plain_bcrypt :: bcrypt where
  "plain_bcrypt = \<lparr>bc_hash = (\<lambda>p salt. salt @ ''$'' @ p), bc_compare = (\<lambda>p h. endsWith h (''$'' @ p))\<rparr>"

lemma plain_bcrypt_compare: "bc_compare plain_bcrypt p (bc_hash plain_bcrypt p salt)"
  by (auto simp: plain_bcrypt_def endsWith_iff)

lemma empty_tables_ok [simp]: "db_ok (pg_urows empty_tables) (roles empty_tables)"
  by (simp add: db_ok_def empty_tables_def pg_urows_def)

end
