(* ===== verification/User_Service.thy ===== *)
theory User_Service
  imports Gateway_Store
begin

text \<open>
  \<open>api-gateway-auth/src/modules/user/user.service.ts\<close> and \<open>role.service.ts\<close>. Every method is
  a sequence of repository calls on the database state. The locale of \<open>Gateway_Store\<close> gives
  the laws of the repositories; the lemmas say what each method does on each branch and
  that all of them keep the keys, unique columns and references of the tables.
\<close>

section \<open>UserService\<close>

text \<open>\<open>userRepository.create({...createUserDto, isActive: true})\<close>: a new entity with the
  properties of the object.\<close>

definition new_user :: "CreateUserDto \<Rightarrow> User" where
  "new_user dto = \<lparr>u_id = None, u_email = cu_email dto, u_password = cu_password dto,
     u_name = cu_name dto, u_role = cu_role dto, u_isActive = True, u_roles = None\<rparr>"

definition UserService_create :: "(User, 's) repo \<Rightarrow> CreateUserDto \<Rightarrow> ('s, User) op" where
  "UserService_create UR dto =
     bind_op (gets_op (findOne UR (\<lambda>x. u_email x = cu_email dto))) (\<lambda>existingUser.
       if existingUser \<noteq> None
       then throw (ConflictException ''User with this email already exists'')
       else save UR (new_user dto))"

definition UserService_findAll :: "(User, 's) repo \<Rightarrow> ('s, User list) op" where
  "UserService_findAll UR = gets_op (find_all UR)"

definition UserService_findOne :: "(User, 's) repo \<Rightarrow> string \<Rightarrow> ('s, User) op" where
  "UserService_findOne UR i =
     bind_op (gets_op (findOne UR (\<lambda>x. u_id x = Some i))) (\<lambda>user. case user of
       None \<Rightarrow> throw (NotFoundException (''User with ID '' @ i @ '' not found''))
     | Some u \<Rightarrow> ret u)"

definition UserService_findByEmail :: "(User, 's) repo \<Rightarrow> string \<Rightarrow> ('s, User) op" where
  "UserService_findByEmail UR email =
     bind_op (gets_op (findOne UR (\<lambda>x. u_email x = email))) (\<lambda>user. case user of
       None \<Rightarrow> throw (NotFoundException (''User with email '' @ email @ '' not found''))
     | Some u \<Rightarrow> ret u)"

text \<open>\<open>Object.assign(user, updateUserDto)\<close>: the properties the request carries.\<close>

definition assign_user :: "User \<Rightarrow> UpdateUserDto \<Rightarrow> User" where
  "assign_user u dto = u\<lparr>
     u_email := (case uu_email dto of None \<Rightarrow> u_email u | Some e \<Rightarrow> e),
     u_password := (case uu_password dto of None \<Rightarrow> u_password u | Some p \<Rightarrow> p),
     u_name := (case uu_name dto of None \<Rightarrow> u_name u | Some n \<Rightarrow> Some n),
     u_role := (case uu_role dto of None \<Rightarrow> u_role u | Some r \<Rightarrow> Some r)\<rparr>"

definition UserService_update ::
  "(User, 's) repo \<Rightarrow> string \<Rightarrow> UpdateUserDto \<Rightarrow> ('s, User) op" where
  "UserService_update UR i dto =
     bind_op (UserService_findOne UR i) (\<lambda>user.
     bind_op
       (if truthy (uu_email dto) \<and> uu_email dto \<noteq> Some (u_email user) then
          bind_op (gets_op (findOne UR (\<lambda>x. Some (u_email x) = uu_email dto))) (\<lambda>existingUser.
            if existingUser \<noteq> None
            then throw (ConflictException ''User with this email already exists'')
            else ret ())
        else ret ()) (\<lambda>_.
     save UR (assign_user user dto)))"

definition UserService_remove :: "(User, 's) repo \<Rightarrow> string \<Rightarrow> ('s, unit) op" where
  "UserService_remove UR i =
     bind_op (UserService_findOne UR i) (\<lambda>user. modify_op (delete UR i))"

definition UserService_assignRole ::
  "(User, 's) repo \<Rightarrow> (Role, 's) repo \<Rightarrow> string \<Rightarrow> string \<Rightarrow> ('s, User) op" where
  "UserService_assignRole UR RR userId roleId =
     bind_op (UserService_findOne UR userId) (\<lambda>user.
     bind_op (gets_op (findOne RR (\<lambda>x. r_id x = Some roleId))) (\<lambda>role. case role of
       None \<Rightarrow> throw (NotFoundException (''Role with ID '' @ roleId @ '' not found''))
     | Some r \<Rightarrow>
         let rs = (case u_roles user of None \<Rightarrow> [] | Some rs \<Rightarrow> rs)
         in save UR (user\<lparr>u_roles := Some (rs @ [r])\<rparr>)))"

definition UserService_removeRole ::
  "(User, 's) repo \<Rightarrow> (Role, 's) repo \<Rightarrow> string \<Rightarrow> string \<Rightarrow> ('s, User) op" where
  "UserService_removeRole UR RR userId roleId =
     bind_op (UserService_findOne UR userId) (\<lambda>user.
     bind_op (gets_op (findOne RR (\<lambda>x. r_id x = Some roleId))) (\<lambda>role. case role of
       None \<Rightarrow> throw (NotFoundException (''Role with ID '' @ roleId @ '' not found''))
     | Some r \<Rightarrow> (case u_roles user of
         None \<Rightarrow> throw (JsError ''TypeError: roles is undefined'')
       | Some rs \<Rightarrow> save UR (user\<lparr>u_roles := Some (filter (\<lambda>q. r_id q \<noteq> Some roleId) rs)\<rparr>))))"

definition UserService_validatePassword :: "bcrypt \<Rightarrow> User \<Rightarrow> string \<Rightarrow> bool" where
  "UserService_validatePassword B user password = User_validatePassword B user password"

definition UserService_setActive :: "(User, 's) repo \<Rightarrow> string \<Rightarrow> bool \<Rightarrow> ('s, User) op" where
  "UserService_setActive UR i isActive =
     bind_op (UserService_findOne UR i) (\<lambda>user. save UR (user\<lparr>u_isActive := isActive\<rparr>))"

section \<open>RoleService\<close>

definition new_role :: "CreateRoleDto \<Rightarrow> Role" where
  "new_role dto = \<lparr>r_id = None, r_name = cr_name dto, r_permissions = cr_permissions dto,
     r_description = cr_description dto\<rparr>"

definition RoleService_create :: "(Role, 's) repo \<Rightarrow> CreateRoleDto \<Rightarrow> ('s, Role) op" where
  "RoleService_create RR dto =
     bind_op (gets_op (findOne RR (\<lambda>x. r_name x = cr_name dto))) (\<lambda>existingRole.
       if existingRole \<noteq> None
       then throw (ConflictException ''Role with this name already exists'')
       else save RR (new_role dto))"

definition RoleService_findAll :: "(Role, 's) repo \<Rightarrow> ('s, Role list) op" where
  "RoleService_findAll RR = gets_op (find_all RR)"

definition RoleService_findOne :: "(Role, 's) repo \<Rightarrow> string \<Rightarrow> ('s, Role) op" where
  "RoleService_findOne RR i =
     bind_op (gets_op (findOne RR (\<lambda>x. r_id x = Some i))) (\<lambda>role. case role of
       None \<Rightarrow> throw (NotFoundException (''Role with ID '' @ i @ '' not found''))
     | Some r \<Rightarrow> ret r)"

definition RoleService_findByName :: "(Role, 's) repo \<Rightarrow> string \<Rightarrow> ('s, Role) op" where
  "RoleService_findByName RR name =
     bind_op (gets_op (findOne RR (\<lambda>x. r_name x = name))) (\<lambda>role. case role of
       None \<Rightarrow> throw (NotFoundException (''Role with name '' @ name @ '' not found''))
     | Some r \<Rightarrow> ret r)"

definition spread_role :: "Role \<Rightarrow> UpdateRoleDto \<Rightarrow> Role" where
  "spread_role r dto = r\<lparr>
     r_name := (case ur_name dto of None \<Rightarrow> r_name r | Some n \<Rightarrow> n),
     r_permissions := (case ur_permissions dto of None \<Rightarrow> r_permissions r | Some ps \<Rightarrow> Some ps),
     r_description := (case ur_description dto of None \<Rightarrow> r_description r | Some d \<Rightarrow> Some d)\<rparr>"

definition RoleService_update ::
  "(Role, 's) repo \<Rightarrow> string \<Rightarrow> UpdateRoleDto \<Rightarrow> ('s, Role) op" where
  "RoleService_update RR i dto =
     bind_op (RoleService_findOne RR i) (\<lambda>role.
     bind_op
       (if truthy (ur_name dto) \<and> ur_name dto \<noteq> Some (r_name role) then
          bind_op (gets_op (findOne RR (\<lambda>x. Some (r_name x) = ur_name dto))) (\<lambda>existingRole.
            if existingRole \<noteq> None
            then throw (ConflictException (''Role with name '' @ the (ur_name dto) @ '' already exists''))
            else ret ())
        else ret ()) (\<lambda>_.
     save RR (spread_role role dto)))"

definition RoleService_remove :: "(Role, 's) repo \<Rightarrow> string \<Rightarrow> ('s, unit) op" where
  "RoleService_remove RR i =
     bind_op (RoleService_findOne RR i) (\<lambda>role. modify_op (delete RR i))"

definition RoleService_addPermission :: "(Role, 's) repo \<Rightarrow> string \<Rightarrow> string \<Rightarrow> ('s, Role) op" where
  "RoleService_addPermission RR i permission =
     bind_op (RoleService_findOne RR i) (\<lambda>role.
       let ps = (case r_permissions role of None \<Rightarrow> [] | Some ps \<Rightarrow> ps)
       in if permission \<in> set ps then ret (role\<lparr>r_permissions := Some ps\<rparr>)
          else save RR (role\<lparr>r_permissions := Some (ps @ [permission])\<rparr>))"

definition RoleService_removePermission :: "(Role, 's) repo \<Rightarrow> string \<Rightarrow> string \<Rightarrow> ('s, Role) op" where
  "RoleService_removePermission RR i permission =
     bind_op (RoleService_findOne RR i) (\<lambda>role. case r_permissions role of
       None \<Rightarrow> throw (JsError ''TypeError: permissions is undefined'')
     | Some ps \<Rightarrow> save RR (role\<lparr>r_permissions := Some (filter (\<lambda>p. p \<noteq> permission) ps)\<rparr>))"

section \<open>Requests\<close>

text \<open>The state-changing requests of both services, as the controllers issue them.\<close>

datatype request =
    CreateUser CreateUserDto
  | UpdateUser string UpdateUserDto
  | RemoveUser string
  | AssignRole string string
  | UnassignRole string string
  | SetActive string bool
  | CreateRole CreateRoleDto
  | UpdateRole string UpdateRoleDto
  | RemoveRole string
  | AddPermission string string
  | RemovePermission string string

definition void :: "('s, 'a) op \<Rightarrow> ('s, unit) op" where
  "void m = bind_op m (\<lambda>_. ret ())"

fun serve :: "(User, 's) repo \<Rightarrow> (Role, 's) repo \<Rightarrow> request \<Rightarrow> ('s, unit) op" where
  "serve UR RR (CreateUser dto) = void (UserService_create UR dto)"
| "serve UR RR (UpdateUser i dto) = void (UserService_update UR i dto)"
| "serve UR RR (RemoveUser i) = UserService_remove UR i"
| "serve UR RR (AssignRole i j) = void (UserService_assignRole UR RR i j)"
| "serve UR RR (UnassignRole i j) = void (UserService_removeRole UR RR i j)"
| "serve UR RR (SetActive i b) = void (UserService_setActive UR i b)"
| "serve UR RR (CreateRole dto) = void (RoleService_create RR dto)"
| "serve UR RR (UpdateRole i dto) = void (RoleService_update RR i dto)"
| "serve UR RR (RemoveRole i) = RoleService_remove RR i"
| "serve UR RR (AddPermission i p) = void (RoleService_addPermission RR i p)"
| "serve UR RR (RemovePermission i p) = void (RoleService_removePermission RR i p)"

text \<open>A failed request leaves the gateway running: the next one is served from the state
  the failed one left.\<close>

fun serve_all :: "(User, 's) repo \<Rightarrow> (Role, 's) repo \<Rightarrow> request list \<Rightarrow> 's \<Rightarrow> 's" where
  "serve_all UR RR [] s = s"
| "serve_all UR RR (q # qs) s = serve_all UR RR qs (snd (serve UR RR q s))"

section \<open>What the services do, from the laws of the repositories\<close>

text \<open>An operation keeps the constraints of the tables, and changes nothing when it throws.\<close>

definition keeps_db :: "('s \<Rightarrow> User list) \<Rightarrow> ('s \<Rightarrow> Role list) \<Rightarrow> ('s, 'a) op \<Rightarrow> bool" where
  "keeps_db U R m \<longleftrightarrow> (\<forall>s. db_ok (U s) (R s) \<longrightarrow>
     (\<exists>e. m s = (Inl e, s)) \<or> (\<exists>a t. m s = (Inr a, t) \<and> db_ok (U t) (R t)))"

lemma keeps_dbI:
  assumes "\<And>s. db_ok (U s) (R s) \<Longrightarrow> (\<exists>e. m s = (Inl e, s)) \<or> (\<exists>a t. m s = (Inr a, t) \<and> db_ok (U t) (R t))"
  shows "keeps_db U R m"
  using assms by (simp add: keeps_db_def)

lemma keeps_dbD:
  assumes "keeps_db U R m" "db_ok (U s) (R s)"
  shows "db_ok (U (snd (m s))) (R (snd (m s)))" "fst (m s) = Inl e \<Longrightarrow> snd (m s) = s"
  using assms by (fastforce simp: keeps_db_def)+

lemma keeps_db_void: "keeps_db U R m \<Longrightarrow> keeps_db U R (void m)"
  by (fastforce simp: keeps_db_def void_def bind_op_def ret_def)

lemma assign_user_fields [simp]:
  "u_id (assign_user u dto) = u_id u" "role_ids (assign_user u dto) = role_ids u"
  "u_isActive (assign_user u dto) = u_isActive u"
  by (simp_all add: assign_user_def role_ids_def)

lemma spread_role_id [simp]: "r_id (spread_role r dto) = r_id r"
  by (simp add: spread_role_def)

context gateway_db
begin

lemma findOne_found:
  "db_ok (urows s) (rrows s) \<Longrightarrow> u \<in> set (urows s) \<Longrightarrow> u_id u = Some i \<Longrightarrow>
   UserService_findOne UR i s = (Inr u, s)"
  by (simp add: UserService_findOne_def bind_op_def gets_op_def ret_def u_findOne find_user_by_id)

lemma findOne_missing:
  "Some i \<notin> u_id ` set (urows s) \<Longrightarrow>
   UserService_findOne UR i s = (Inl (NotFoundException (''User with ID '' @ i @ '' not found'')), s)"
  by (auto simp: UserService_findOne_def bind_op_def gets_op_def throw_def u_findOne image_iff
      eq_commute [of "Some i"] find_None_iff split: option.splits dest!: find_SomeD)

lemma findByEmail_found:
  "db_ok (urows s) (rrows s) \<Longrightarrow> u \<in> set (urows s) \<Longrightarrow> u_email u = e \<Longrightarrow>
   UserService_findByEmail UR e s = (Inr u, s)"
  by (simp add: UserService_findByEmail_def bind_op_def gets_op_def ret_def u_findOne find_user_by_email)

lemma findByEmail_missing:
  "e \<notin> u_email ` set (urows s) \<Longrightarrow>
   UserService_findByEmail UR e s = (Inl (NotFoundException (''User with email '' @ e @ '' not found'')), s)"
  by (auto simp: UserService_findByEmail_def bind_op_def gets_op_def throw_def u_findOne image_iff
      split: option.splits dest!: find_SomeD)

lemma findOne_cases:
  assumes "db_ok (urows s) (rrows s)"
  obtains (missing) "UserService_findOne UR i s = (Inl (NotFoundException (''User with ID '' @ i @ '' not found'')), s)"
      "Some i \<notin> u_id ` set (urows s)"
    | (found) u where "u \<in> set (urows s)" "u_id u = Some i" "UserService_findOne UR i s = (Inr u, s)"
      "role_ids u \<subseteq> r_id ` set (rrows s)" "None \<notin> role_ids u"
proof (cases "Some i \<in> u_id ` set (urows s)")
  case True
  then obtain u where u: "u \<in> set (urows s)" "u_id u = Some i" by auto
  with assms have "role_ids u \<subseteq> r_id ` set (rrows s)" "None \<notin> role_ids u"
    unfolding db_ok_def by blast+
  with u findOne_found [OF assms u] found show ?thesis by blast
next
  case False
  with findOne_missing [OF False] missing show ?thesis by blast
qed

text \<open>A stored user saved again: refused by the unique column, or replaced.\<close>

lemma save_user_cases:
  assumes ok: "db_ok (urows s) (rrows s)" and u: "u_id u = Some i" "Some i \<in> u_id ` set (urows s)"
    "role_ids u \<subseteq> r_id ` set (rrows s)" "None \<notin> role_ids u"
  obtains (refused) m v where "save UR u s = (Inl (QueryFailedError m), s)"
      "v \<in> set (urows s)" "u_email v = u_email u" "u_id v \<noteq> Some i"
    | (stored) v t where "save UR u s = (Inr u, t)" "same_user u v"
      "urows t = replace_user i v (urows s)" "rrows t = rrows s" "db_ok (urows t) (rrows t)"
proof (cases "\<forall>v \<in> set (urows s). u_email v = u_email u \<longrightarrow> u_id v = Some i")
  case True
  from u_update [OF u(1,2) True u(3,4)] obtain v t where vt: "save UR u s = (Inr u, t)"
    "same_user u v" "urows t = replace_user i v (urows s)" "rrows t = rrows s" by blast
  have "db_ok (replace_user i v (urows s)) (rrows s)"
    using ok by (rule db_ok_replace_user) (use True u same_userD [OF vt(2)] in simp_all)
  with vt stored show ?thesis by simp
next
  case False
  then show ?thesis using u_update_dup [OF u(1)] refused by blast
qed

lemma save_user_keeps:
  assumes "db_ok (urows s) (rrows s)" "u_id u = Some i" "Some i \<in> u_id ` set (urows s)"
    "role_ids u \<subseteq> r_id ` set (rrows s)" "None \<notin> role_ids u"
  shows "(\<exists>e. save UR u s = (Inl e, s)) \<or>
    (\<exists>a t. save UR u s = (Inr a, t) \<and> db_ok (urows t) (rrows t))"
  using assms by (rule save_user_cases) blast+

lemma create_taken:
  assumes "cu_email dto \<in> u_email ` set (urows s)"
  shows "UserService_create UR dto s = (Inl (ConflictException ''User with this email already exists''), s)"
proof -
  have "List.find (\<lambda>x. u_email x = cu_email dto) (urows s) \<noteq> None"
    using assms by (auto simp: find_None_iff)
  then show ?thesis
    by (simp add: UserService_create_def bind_op_def gets_op_def throw_def u_findOne)
qed

lemma create_new:
  assumes ok: "db_ok (urows s) (rrows s)" and new: "cu_email dto \<notin> u_email ` set (urows s)"
  obtains salt i v t where "UserService_create UR dto s = (Inr (insert_user B salt i (new_user dto)), t)"
    "same_user (insert_user B salt i (new_user dto)) v" "urows t = urows s @ [v]" "rrows t = rrows s"
    "db_ok (urows t) (rrows t)"
proof -
  have "List.find (\<lambda>x. u_email x = cu_email dto) (urows s) = None"
    using new by (force simp: find_None_iff)
  then have c: "UserService_create UR dto s = save UR (new_user dto) s"
    by (simp add: UserService_create_def bind_op_def gets_op_def u_findOne)
  have r: "role_ids (new_user dto) = {}" by (simp add: new_user_def role_ids_def)
  obtain salt i v t where f: "Some i \<notin> u_id ` set (urows s)"
    and c2: "save UR (new_user dto) s = (Inr (insert_user B salt i (new_user dto)), t)"
      "same_user (insert_user B salt i (new_user dto)) v" "urows t = urows s @ [v]" "rrows t = rrows s"
    using u_insert [of "new_user dto" s] new r by (auto simp: new_user_def)
  have "db_ok (urows s @ [v]) (rrows s)"
    using ok by (rule db_ok_insert_user)
      (use f new r same_userD [OF c2(2)] in \<open>simp_all add: new_user_def\<close>)
  with c c2 that show ?thesis by simp
qed

lemma create_keeps: "keeps_db urows rrows (UserService_create UR dto)"
proof (rule keeps_dbI)
  fix s assume "db_ok (urows s) (rrows s)"
  then show "(\<exists>e. UserService_create UR dto s = (Inl e, s)) \<or>
    (\<exists>a t. UserService_create UR dto s = (Inr a, t) \<and> db_ok (urows t) (rrows t))"
    using create_taken create_new by (metis (no_types))
qed

text \<open>The methods that load a user, change it and save it.\<close>

lemma load_then_save_keeps:
  assumes "\<And>u s. u \<in> set (urows s) \<Longrightarrow> u_id u = Some i \<Longrightarrow> db_ok (urows s) (rrows s) \<Longrightarrow>
     (\<exists>e. f u s = (Inl e, s)) \<or> (\<exists>v. f u s = save UR v s \<and> u_id v = Some i \<and>
        role_ids v \<subseteq> r_id ` set (rrows s) \<and> None \<notin> role_ids v)"
  shows "keeps_db urows rrows (bind_op (UserService_findOne UR i) f)"
proof (rule keeps_dbI)
  fix s assume ok: "db_ok (urows s) (rrows s)"
  then show "(\<exists>e. bind_op (UserService_findOne UR i) f s = (Inl e, s)) \<or>
    (\<exists>a t. bind_op (UserService_findOne UR i) f s = (Inr a, t) \<and> db_ok (urows t) (rrows t))"
  proof (cases rule: findOne_cases [where i = i])
    case missing
    then show ?thesis by (simp add: bind_op_def)
  next
    case (found u)
    have i: "Some i \<in> u_id ` set (urows s)" using found by force
    have "bind_op (UserService_findOne UR i) f s = f u s" using found(3) by (simp add: bind_op_def)
    with assms [OF found(1,2) ok] save_user_keeps [OF ok _ i] show ?thesis by metis
  qed
qed

lemma update_keeps: "keeps_db urows rrows (UserService_update UR i dto)"
  unfolding UserService_update_def
proof (rule load_then_save_keeps)
  fix u s assume u: "u \<in> set (urows s)" "u_id u = Some i" and ok: "db_ok (urows s) (rrows s)"
  then have "role_ids u \<subseteq> r_id ` set (rrows s)" "None \<notin> role_ids u"
    unfolding db_ok_def by blast+
  with u show "(\<exists>e. bind_op (if truthy (uu_email dto) \<and> uu_email dto \<noteq> Some (u_email u)
        then bind_op (gets_op (findOne UR (\<lambda>x. Some (u_email x) = uu_email dto)))
          (\<lambda>existingUser. if existingUser \<noteq> None
            then throw (ConflictException ''User with this email already exists'') else ret ())
        else ret ()) (\<lambda>_. save UR (assign_user u dto)) s = (Inl e, s)) \<or>
    (\<exists>v. bind_op (if truthy (uu_email dto) \<and> uu_email dto \<noteq> Some (u_email u)
        then bind_op (gets_op (findOne UR (\<lambda>x. Some (u_email x) = uu_email dto)))
          (\<lambda>existingUser. if existingUser \<noteq> None
            then throw (ConflictException ''User with this email already exists'') else ret ())
        else ret ()) (\<lambda>_. save UR (assign_user u dto)) s = save UR v s \<and> u_id v = Some i \<and>
        role_ids v \<subseteq> r_id ` set (rrows s) \<and> None \<notin> role_ids v)"
    by (auto simp: bind_op_def gets_op_def throw_def ret_def intro!: exI [of _ "assign_user u dto"])
qed

lemma setActive_keeps: "keeps_db urows rrows (UserService_setActive UR i b)"
  unfolding UserService_setActive_def
proof (rule load_then_save_keeps, intro disjI2)
  fix u s assume u: "u \<in> set (urows s)" "u_id u = Some i" and ok: "db_ok (urows s) (rrows s)"
  then have "role_ids u \<subseteq> r_id ` set (rrows s)" "None \<notin> role_ids u"
    unfolding db_ok_def by blast+
  with u show "\<exists>v. save UR (u\<lparr>u_isActive := b\<rparr>) s = save UR v s \<and> u_id v = Some i \<and>
      role_ids v \<subseteq> r_id ` set (rrows s) \<and> None \<notin> role_ids v"
    by (intro exI [of _ "u\<lparr>u_isActive := b\<rparr>"]) (simp add: role_ids_def)
qed

lemma role_found:
  assumes "List.find (\<lambda>x. r_id x = Some j) (rrows s) = Some r"
  shows "r_id r = Some j" "r \<in> set (rrows s)"
  using find_SomeD [OF assms] by simp_all

lemma assignRole_keeps: "keeps_db urows rrows (UserService_assignRole UR RR i j)"
  unfolding UserService_assignRole_def
proof (rule load_then_save_keeps)
  fix u s assume u: "u \<in> set (urows s)" "u_id u = Some i" and ok: "db_ok (urows s) (rrows s)"
  then have r: "role_ids u \<subseteq> r_id ` set (rrows s)" "None \<notin> role_ids u"
    unfolding db_ok_def by blast+
  define rs where "rs = (case u_roles u of None \<Rightarrow> [] | Some rs \<Rightarrow> rs)"
  have ids: "role_ids (u\<lparr>u_roles := Some (rs @ [q])\<rparr>) = insert (r_id q) (role_ids u)" for q
    by (auto simp: role_ids_def rs_def split: option.split)
  show "(\<exists>e. bind_op (gets_op (findOne RR (\<lambda>x. r_id x = Some j))) (\<lambda>role. case role of
       None \<Rightarrow> throw (NotFoundException (''Role with ID '' @ j @ '' not found''))
     | Some r \<Rightarrow> let rs = (case u_roles u of None \<Rightarrow> [] | Some rs \<Rightarrow> rs)
         in save UR (u\<lparr>u_roles := Some (rs @ [r])\<rparr>)) s = (Inl e, s)) \<or>
    (\<exists>v. bind_op (gets_op (findOne RR (\<lambda>x. r_id x = Some j))) (\<lambda>role. case role of
       None \<Rightarrow> throw (NotFoundException (''Role with ID '' @ j @ '' not found''))
     | Some r \<Rightarrow> let rs = (case u_roles u of None \<Rightarrow> [] | Some rs \<Rightarrow> rs)
         in save UR (u\<lparr>u_roles := Some (rs @ [r])\<rparr>)) s = save UR v s \<and> u_id v = Some i \<and>
        role_ids v \<subseteq> r_id ` set (rrows s) \<and> None \<notin> role_ids v)"
  proof (cases "List.find (\<lambda>x. r_id x = Some j) (rrows s)")
    case None
    then show ?thesis by (simp add: bind_op_def gets_op_def throw_def r_findOne)
  next
    case (Some q)
    then show ?thesis using u r role_found [OF Some]
      by (intro disjI2 exI [of _ "u\<lparr>u_roles := Some (rs @ [q])\<rparr>"])
        (use role_found [OF Some] in \<open>force simp: bind_op_def gets_op_def r_findOne ids simp flip: rs_def\<close>)
  qed
qed

lemma removeRole_keeps: "keeps_db urows rrows (UserService_removeRole UR RR i j)"
  unfolding UserService_removeRole_def
proof (rule load_then_save_keeps)
  fix u s assume u: "u \<in> set (urows s)" "u_id u = Some i" and ok: "db_ok (urows s) (rrows s)"
  then have r: "role_ids u \<subseteq> r_id ` set (rrows s)" "None \<notin> role_ids u"
    unfolding db_ok_def by blast+
  obtain rs where rs: "u_roles u = Some rs" using u_loaded [OF u(1)] by auto
  define v where "v = u\<lparr>u_roles := Some (filter (\<lambda>q. r_id q \<noteq> Some j) rs)\<rparr>"
  have "role_ids v \<subseteq> role_ids u" using rs by (auto simp: role_ids_def v_def)
  with u r have v: "u_id v = Some i" "role_ids v \<subseteq> r_id ` set (rrows s)" "None \<notin> role_ids v"
    by (auto simp: v_def)
  show "(\<exists>e. bind_op (gets_op (findOne RR (\<lambda>x. r_id x = Some j))) (\<lambda>role. case role of
       None \<Rightarrow> throw (NotFoundException (''Role with ID '' @ j @ '' not found''))
     | Some r \<Rightarrow> (case u_roles u of
         None \<Rightarrow> throw (JsError ''TypeError: roles is undefined'')
       | Some rs \<Rightarrow> save UR (u\<lparr>u_roles := Some (filter (\<lambda>q. r_id q \<noteq> Some j) rs)\<rparr>))) s = (Inl e, s)) \<or>
    (\<exists>v. bind_op (gets_op (findOne RR (\<lambda>x. r_id x = Some j))) (\<lambda>role. case role of
       None \<Rightarrow> throw (NotFoundException (''Role with ID '' @ j @ '' not found''))
     | Some r \<Rightarrow> (case u_roles u of
         None \<Rightarrow> throw (JsError ''TypeError: roles is undefined'')
       | Some rs \<Rightarrow> save UR (u\<lparr>u_roles := Some (filter (\<lambda>q. r_id q \<noteq> Some j) rs)\<rparr>))) s = save UR v s \<and>
        u_id v = Some i \<and> role_ids v \<subseteq> r_id ` set (rrows s) \<and> None \<notin> role_ids v)"
    using rs v by (cases "List.find (\<lambda>x. r_id x = Some j) (rrows s)")
      (auto simp: bind_op_def gets_op_def throw_def r_findOne v_def intro!: exI [of _ v])
qed

lemma remove_keeps: "keeps_db urows rrows (UserService_remove UR i)"
proof (rule keeps_dbI)
  fix s assume ok: "db_ok (urows s) (rrows s)"
  then show "(\<exists>e. UserService_remove UR i s = (Inl e, s)) \<or>
    (\<exists>a t. UserService_remove UR i s = (Inr a, t) \<and> db_ok (urows t) (rrows t))"
    using db_ok_filter_user [OF ok]
    by (cases rule: findOne_cases [where i = i])
      (auto simp: UserService_remove_def bind_op_def modify_op_def u_delete u_delete_roles)
qed

text \<open>Roles.\<close>

lemma role_findOne_found:
  "db_ok (urows s) (rrows s) \<Longrightarrow> r \<in> set (rrows s) \<Longrightarrow> r_id r = Some i \<Longrightarrow>
   RoleService_findOne RR i s = (Inr r, s)"
  by (simp add: RoleService_findOne_def bind_op_def gets_op_def ret_def r_findOne find_role_by_id)

lemma role_findOne_cases:
  obtains (missing) "RoleService_findOne RR i s = (Inl (NotFoundException (''Role with ID '' @ i @ '' not found'')), s)"
      "Some i \<notin> r_id ` set (rrows s)"
    | (found) r where "r \<in> set (rrows s)" "r_id r = Some i" "RoleService_findOne RR i s = (Inr r, s)"
proof (cases "List.find (\<lambda>x. r_id x = Some i) (rrows s)")
  case None
  then have "Some i \<notin> r_id ` set (rrows s)" by (auto simp: find_None_iff)
  with None show ?thesis
    by (intro missing) (simp_all add: RoleService_findOne_def bind_op_def gets_op_def throw_def r_findOne)
next
  case (Some r)
  with role_found [OF Some] show ?thesis
    by (intro found) (simp_all add: RoleService_findOne_def bind_op_def gets_op_def ret_def r_findOne)
qed

lemma save_role_cases:
  assumes ok: "db_ok (urows s) (rrows s)" and r: "r_id r = Some i" "Some i \<in> r_id ` set (rrows s)"
  obtains (refused) m where "save RR r s = (Inl (QueryFailedError m), s)"
    | (stored) t where "save RR r s = (Inr r, t)" "rrows t = replace_role i r (rrows s)"
      "list_all2 same_user (urows s) (urows t)" "db_ok (urows t) (rrows t)"
proof (cases "\<forall>q \<in> set (rrows s). r_name q = r_name r \<longrightarrow> r_id q = Some i")
  case True
  from r_update [OF r True] obtain t where t: "save RR r s = (Inr r, t)"
    "rrows t = replace_role i r (rrows s)" "list_all2 same_user (urows s) (urows t)" by blast
  have "db_ok (urows s) (replace_role i r (rrows s))"
    using ok r(1) True by (rule db_ok_replace_role)
  then have "db_ok (urows t) (rrows t)"
    unfolding t(2) using list_all2_same_user_mono [OF t(3)] by (rule db_ok_same_users)
  with t stored show ?thesis by blast
next
  case False
  then show ?thesis using r_update_dup [OF r(1)] refused by blast
qed

lemma role_load_then_save_keeps:
  assumes "\<And>r s. r_id r = Some i \<Longrightarrow>
     (\<exists>e. f r s = (Inl e, s)) \<or> (\<exists>a. f r s = (Inr a, s)) \<or> (\<exists>v. f r s = save RR v s \<and> r_id v = Some i)"
  shows "keeps_db urows rrows (bind_op (RoleService_findOne RR i) f)"
proof (rule keeps_dbI)
  fix s assume ok: "db_ok (urows s) (rrows s)"
  show "(\<exists>e. bind_op (RoleService_findOne RR i) f s = (Inl e, s)) \<or>
    (\<exists>a t. bind_op (RoleService_findOne RR i) f s = (Inr a, t) \<and> db_ok (urows t) (rrows t))"
  proof (cases rule: role_findOne_cases [where i = i and s = s])
    case missing
    then show ?thesis by (simp add: bind_op_def)
  next
    case (found r)
    have i: "Some i \<in> r_id ` set (rrows s)" using found by force
    have "bind_op (RoleService_findOne RR i) f s = f r s" using found(3) by (simp add: bind_op_def)
    with assms [OF found(2), of s] ok save_role_cases [OF ok _ i] show ?thesis by metis
  qed
qed

lemma role_create_keeps: "keeps_db urows rrows (RoleService_create RR dto)"
proof (rule keeps_dbI)
  fix s assume ok: "db_ok (urows s) (rrows s)"
  show "(\<exists>e. RoleService_create RR dto s = (Inl e, s)) \<or>
    (\<exists>a t. RoleService_create RR dto s = (Inr a, t) \<and> db_ok (urows t) (rrows t))"
  proof (cases "List.find (\<lambda>x. r_name x = cr_name dto) (rrows s)")
    case None
    then have new: "r_name (new_role dto) \<notin> r_name ` set (rrows s)"
      by (auto simp: find_None_iff new_role_def)
    obtain i t where t: "Some i \<notin> r_id ` set (rrows s)"
      "save RR (new_role dto) s = (Inr (insert_role i (new_role dto)), t)"
      "rrows t = rrows s @ [insert_role i (new_role dto)]" "list_all2 same_user (urows s) (urows t)"
      using r_insert [OF _ new] by (auto simp: new_role_def)
    have "db_ok (urows s) (rrows t)"
      unfolding t(3) using ok by (rule db_ok_insert_role) (use t(1) new in simp_all)
    then have "db_ok (urows t) (rrows t)"
      using list_all2_same_user_mono [OF t(4)] by (rule db_ok_same_users)
    with None t(2) show ?thesis
      by (simp add: RoleService_create_def bind_op_def gets_op_def r_findOne)
  next
    case (Some q)
    then show ?thesis by (simp add: RoleService_create_def bind_op_def gets_op_def r_findOne throw_def)
  qed
qed

lemma role_update_keeps: "keeps_db urows rrows (RoleService_update RR i dto)"
  unfolding RoleService_update_def
  by (rule role_load_then_save_keeps)
    (auto simp: bind_op_def gets_op_def throw_def ret_def intro!: exI [of _ "spread_role r dto" for r])

lemma addPermission_keeps: "keeps_db urows rrows (RoleService_addPermission RR i p)"
  unfolding RoleService_addPermission_def
  by (rule role_load_then_save_keeps) (auto simp: Let_def ret_def intro: exI [of _ "r\<lparr>r_permissions := q\<rparr>" for r q])

lemma removePermission_keeps: "keeps_db urows rrows (RoleService_removePermission RR i p)"
  unfolding RoleService_removePermission_def
  by (rule role_load_then_save_keeps)
    (auto simp: throw_def split: option.split intro: exI [of _ "r\<lparr>r_permissions := q\<rparr>" for r q])

lemma role_remove_keeps: "keeps_db urows rrows (RoleService_remove RR i)"
proof (rule keeps_dbI)
  fix s assume ok: "db_ok (urows s) (rrows s)"
  show "(\<exists>e. RoleService_remove RR i s = (Inl e, s)) \<or>
    (\<exists>a t. RoleService_remove RR i s = (Inr a, t) \<and> db_ok (urows t) (rrows t))"
    using db_ok_delete_role [OF ok r_delete_users [of i s]]
    by (cases rule: role_findOne_cases [where i = i and s = s])
      (auto simp: RoleService_remove_def bind_op_def modify_op_def r_delete)
qed

lemmas service_keeps = create_keeps update_keeps remove_keeps assignRole_keeps removeRole_keeps
  setActive_keeps role_create_keeps role_update_keeps role_remove_keeps addPermission_keeps
  removePermission_keeps

lemma serve_keeps: "keeps_db urows rrows (serve UR RR q)"
  by (cases q) (simp_all add: service_keeps keeps_db_void)

lemma serve_all_ok:
  "db_ok (urows s) (rrows s) \<Longrightarrow> db_ok (urows (serve_all UR RR qs s)) (rrows (serve_all UR RR qs s))"
  by (induction qs arbitrary: s) (simp_all add: keeps_dbD [OF serve_keeps])

text \<open>Saving a loaded user whose e-mail did not change always succeeds.\<close>

lemma save_same_email:
  assumes ok: "db_ok (urows s) (rrows s)" and u: "u \<in> set (urows s)" "u_id u = Some i"
    and v: "u_id v = Some i" "u_email v = u_email u" "role_ids v \<subseteq> r_id ` set (rrows s)" "None \<notin> role_ids v"
  obtains w t where "save UR v s = (Inr v, t)" "same_user v w" "urows t = replace_user i w (urows s)"
    "rrows t = rrows s" "db_ok (urows t) (rrows t)" "w \<in> set (urows t)"
proof -
  have i: "Some i \<in> u_id ` set (urows s)" using u by force
  show ?thesis
  proof (rule save_user_cases [OF ok v(1) i v(3,4)])
    fix m x assume "x \<in> set (urows s)" "u_email x = u_email v" "u_id x \<noteq> Some i"
    with u v(2) ok have "x = u" by (auto simp: db_ok_def inj_on_def distinct_map)
    with \<open>u_id x \<noteq> Some i\<close> u show ?thesis by simp
  next
    fix w t assume "save UR v s = (Inr v, t)" "same_user v w" "urows t = replace_user i w (urows s)"
      "rrows t = rrows s" "db_ok (urows t) (rrows t)"
    with i that show ?thesis by (simp add: in_replace_user)
  qed
qed

lemma roles_of_row:
  assumes "db_ok (urows s) (rrows s)" "u \<in> set (urows s)"
  shows "role_ids u \<subseteq> r_id ` set (rrows s)" "None \<notin> role_ids u"
  using assms unfolding db_ok_def by blast+

lemma setActive_stored:
  assumes ok: "db_ok (urows s) (rrows s)" and u: "u \<in> set (urows s)" "u_id u = Some i"
  obtains w t where "UserService_setActive UR i b s = (Inr (u\<lparr>u_isActive := b\<rparr>), t)"
    "same_user (u\<lparr>u_isActive := b\<rparr>) w" "w \<in> set (urows t)" "rrows t = rrows s" "db_ok (urows t) (rrows t)"
proof -
  have v: "u_id (u\<lparr>u_isActive := b\<rparr>) = Some i" "u_email (u\<lparr>u_isActive := b\<rparr>) = u_email u"
    "role_ids (u\<lparr>u_isActive := b\<rparr>) \<subseteq> r_id ` set (rrows s)" "None \<notin> role_ids (u\<lparr>u_isActive := b\<rparr>)"
    using u roles_of_row [OF ok u(1)] by (simp_all add: role_ids_def)
  have "UserService_setActive UR i b s = save UR (u\<lparr>u_isActive := b\<rparr>) s"
    by (simp add: UserService_setActive_def bind_op_def findOne_found [OF ok u])
  then show ?thesis using that by (auto intro: save_same_email [OF ok u v])
qed

lemma assignRole_stored:
  assumes ok: "db_ok (urows s) (rrows s)" and u: "u \<in> set (urows s)" "u_id u = Some i"
    and r: "r \<in> set (rrows s)" "r_id r = Some j"
  obtains v w t where "UserService_assignRole UR RR i j s = (Inr v, t)" "same_user v w" "w \<in> set (urows t)"
    "u_id w = Some i" "role_ids w = insert (Some j) (role_ids u)" "db_ok (urows t) (rrows t)" "rrows t = rrows s"
    "user_columns w = user_columns u"
proof -
  define v where "v = u\<lparr>u_roles := Some ((case u_roles u of None \<Rightarrow> [] | Some rs \<Rightarrow> rs) @ [r])\<rparr>"
  have ids: "role_ids v = insert (Some j) (role_ids u)"
    using r by (auto simp: v_def role_ids_def split: option.split)
  have role_in: "Some j \<in> r_id ` set (rrows s)" using r by force
  have v: "u_id v = Some i" "u_email v = u_email u" "role_ids v \<subseteq> r_id ` set (rrows s)" "None \<notin> role_ids v"
    using u roles_of_row [OF ok u(1)] role_in unfolding ids by (simp_all add: v_def)
  have "UserService_assignRole UR RR i j s = save UR v s"
    using findOne_found [OF ok u] find_role_by_id [OF ok r]
    by (simp add: UserService_assignRole_def bind_op_def gets_op_def r_findOne v_def Let_def)
  moreover obtain w t where w: "save UR v s = (Inr v, t)" "same_user v w"
    "urows t = replace_user i w (urows s)" "rrows t = rrows s" "db_ok (urows t) (rrows t)" "w \<in> set (urows t)"
    by (rule save_same_email [OF ok u v])
  moreover have "u_id w = Some i" "role_ids w = role_ids v"
    using same_userD [OF w(2)] v(1) by simp_all
  moreover have "user_columns w = user_columns u" using w(2) by (simp add: same_user_def user_columns_def v_def)
  ultimately show ?thesis using that ids by simp
qed

lemma removeRole_stored:
  assumes ok: "db_ok (urows s) (rrows s)" and u: "u \<in> set (urows s)" "u_id u = Some i"
    and r: "r \<in> set (rrows s)" "r_id r = Some j"
  obtains v w t where "UserService_removeRole UR RR i j s = (Inr v, t)" "same_user v w" "w \<in> set (urows t)"
    "u_id w = Some i" "role_ids w = role_ids u - {Some j}" "db_ok (urows t) (rrows t)" "rrows t = rrows s"
    "user_columns w = user_columns u"
proof -
  obtain rs where rs: "u_roles u = Some rs" using u_loaded [OF u(1)] by auto
  define v where "v = u\<lparr>u_roles := Some (filter (\<lambda>q. r_id q \<noteq> Some j) rs)\<rparr>"
  have ids: "role_ids v = role_ids u - {Some j}"
    using rs by (auto simp: v_def role_ids_def)
  have v: "u_id v = Some i" "u_email v = u_email u" "role_ids v \<subseteq> r_id ` set (rrows s)" "None \<notin> role_ids v"
    using u roles_of_row [OF ok u(1)] ids by (auto simp: v_def)
  have "UserService_removeRole UR RR i j s = save UR v s"
    using findOne_found [OF ok u] find_role_by_id [OF ok r] rs
    by (simp add: UserService_removeRole_def bind_op_def gets_op_def r_findOne v_def)
  moreover obtain w t where w: "save UR v s = (Inr v, t)" "same_user v w"
    "urows t = replace_user i w (urows s)" "rrows t = rrows s" "db_ok (urows t) (rrows t)" "w \<in> set (urows t)"
    by (rule save_same_email [OF ok u v])
  moreover have "u_id w = Some i" "role_ids w = role_ids v"
    using same_userD [OF w(2)] v(1) by simp_all
  moreover have "user_columns w = user_columns u" using w(2) by (simp add: same_user_def user_columns_def v_def)
  ultimately show ?thesis using that ids by simp
qed

lemma update_own_email:
  assumes ok: "db_ok (urows s) (rrows s)" and u: "u \<in> set (urows s)" "u_id u = Some i"
    and e: "uu_email dto = None \<or> uu_email dto = Some (u_email u)"
  obtains w t where "UserService_update UR i dto s = (Inr (assign_user u dto), t)"
    "same_user (assign_user u dto) w" "w \<in> set (urows t)" "rrows t = rrows s" "db_ok (urows t) (rrows t)"
proof -
  have v: "u_id (assign_user u dto) = Some i" "u_email (assign_user u dto) = u_email u"
    "role_ids (assign_user u dto) \<subseteq> r_id ` set (rrows s)" "None \<notin> role_ids (assign_user u dto)"
    using u e roles_of_row [OF ok u(1)] by (auto simp: assign_user_def role_ids_def)
  have "UserService_update UR i dto s = save UR (assign_user u dto) s"
    using e by (auto simp: UserService_update_def bind_op_def ret_def findOne_found [OF ok u])
  then show ?thesis using that by (auto intro: save_same_email [OF ok u v])
qed

lemma update_taken_email:
  assumes ok: "db_ok (urows s) (rrows s)" and u: "u \<in> set (urows s)" "u_id u = Some i"
    and e: "uu_email dto = Some e" "e \<noteq> []" "e \<noteq> u_email u" "e \<in> u_email ` set (urows s)"
  shows "UserService_update UR i dto s =
    (Inl (ConflictException ''User with this email already exists''), s)"
proof -
  have "List.find (\<lambda>x. u_email x = e) (urows s) \<noteq> None" using e(4) by (auto simp: find_None_iff)
  with e show ?thesis
    by (simp add: UserService_update_def bind_op_def gets_op_def throw_def u_findOne findOne_found [OF ok u])
qed

lemma addPermission_stored:
  assumes ok: "db_ok (urows s) (rrows s)" and r: "r \<in> set (rrows s)" "r_id r = Some i"
    and ps: "r_permissions r = Some ps" "p \<notin> set ps"
  obtains t where "RoleService_addPermission RR i p s = (Inr (r\<lparr>r_permissions := Some (ps @ [p])\<rparr>), t)"
    "rrows t = replace_role i (r\<lparr>r_permissions := Some (ps @ [p])\<rparr>) (rrows s)" "db_ok (urows t) (rrows t)"
proof -
  define q where "q = r\<lparr>r_permissions := Some (ps @ [p])\<rparr>"
  have q: "r_id q = Some i" "r_name q = r_name r" using r by (simp_all add: q_def)
  have i: "Some i \<in> r_id ` set (rrows s)" using r by force
  have op: "RoleService_addPermission RR i p s = save RR q s"
    using ps by (simp add: RoleService_addPermission_def bind_op_def role_findOne_found [OF ok r] q_def)
  have "inj_on r_name (set (rrows s))" using ok by (simp add: db_ok_def distinct_map)
  then have "\<forall>x \<in> set (rrows s). r_name x = r_name q \<longrightarrow> r_id x = Some i"
    unfolding q(2) using r inj_onD by metis
  from r_update [OF q(1) i this] obtain t where t: "save RR q s = (Inr q, t)" by blast
  show ?thesis
  proof (rule save_role_cases [OF ok q(1) i])
    fix m assume "save RR q s = (Inl (QueryFailedError m), s)"
    with t show ?thesis by simp
  next
    fix t assume "save RR q s = (Inr q, t)" "rrows t = replace_role i q (rrows s)" "db_ok (urows t) (rrows t)"
    with op that show ?thesis by (simp add: q_def)
  qed
qed

end

section \<open>Properties\<close>

text \<open>Requests for the examples: two registrations with the same e-mail, a role, its assignment.\<close>

definition ann_dto :: CreateUserDto where
  "ann_dto = \<lparr>cu_email = ''a@x.io'', cu_password = ''longpassword'', cu_name = None, cu_role = None\<rparr>"

definition ops_dto :: CreateRoleDto where
  "ops_dto = \<lparr>cr_name = ''ops'', cr_permissions = None, cr_description = None\<rparr>"

definition demo_requests :: "request list" where
  "demo_requests = [CreateUser ann_dto, CreateUser ann_dto, CreateRole ops_dto, AssignRole ''k'' ''k'']"

abbreviation demo_tables :: tables where
  "demo_tables \<equiv> serve_all (pg_users plain_bcrypt) pg_roles demo_requests empty_tables"

lemmas demo_simps = demo_requests_def ann_dto_def ops_dto_def void_def bind_op_def gets_op_def ret_def
  throw_def UserService_create_def UserService_findOne_def UserService_assignRole_def
  RoleService_create_def RoleService_findOne_def new_user_def new_role_def pg_save_user_def
  pg_save_role_def pg_urows_def load_user_def has_role_def fresh_key_def insert_user_def
  hashPassword_def insert_role_def plain_bcrypt_def empty_tables_def role_ids_def replace_user_def Let_def

lemma demo_tables_eq:
  "demo_tables = \<lparr>
     users = [\<lparr>u_id = Some ''k'', u_email = ''a@x.io'', u_password = ''salt$longpassword'', u_name = None,
       u_role = Some USER, u_isActive = True,
       u_roles = Some [\<lparr>r_id = Some ''k'', r_name = ''ops'', r_permissions = Some [], r_description = None\<rparr>]\<rparr>],
     roles = [\<lparr>r_id = Some ''k'', r_name = ''ops'', r_permissions = Some [], r_description = None\<rparr>],
     user_roles = [(''k'', ''k'')]\<rparr>"
  by (simp add: demo_simps)

text \<open>
  For any repositories that obey the documented laws of TypeORM, every sequence of user and
  role requests (creation, update, removal, role assignment, activation, permissions; failed
  ones included) keeps the primary keys and the e-mail and role-name columns unique and every
  role reference of a user pointing at a stored role.
\<close>

theorem requests_keep_constraints:
  assumes "gateway_db UR RR B U R" "db_ok (U s) (R s)"
  shows "db_ok (U (serve_all UR RR qs s)) (R (serve_all UR RR qs s))"
  using assms by (rule gateway_db.serve_all_ok)

theorem requests_keep_constraints_witness:
  "db_ok (pg_urows demo_tables) (roles demo_tables) \<and> length (users demo_tables) = 1"
  using requests_keep_constraints [OF pg.gateway_db_axioms empty_tables_ok, of plain_bcrypt demo_requests]
  by (simp add: demo_tables_eq)

text \<open>
  C26: A user or role request that throws (not found, conflict, or a constraint of the database)
  leaves the stored data as it was.
\<close>

theorem failed_request_changes_nothing:
  assumes "gateway_db UR RR B U R" "db_ok (U s) (R s)" "fst (serve UR RR q s) = Inl e"
  shows "snd (serve UR RR q s) = s"
  using keeps_dbD(2) [OF gateway_db.serve_keeps [OF assms(1)] assms(2,3)] .

theorem failed_request_changes_nothing_witness:
  "snd (serve (pg_users plain_bcrypt) pg_roles (CreateUser ann_dto) demo_tables) = demo_tables"
proof (rule failed_request_changes_nothing [OF pg.gateway_db_axioms])
  show "db_ok (pg_urows demo_tables) (roles demo_tables)"
    by (rule pg.serve_all_ok) simp
  show "fst (serve (pg_users plain_bcrypt) pg_roles (CreateUser ann_dto) demo_tables) =
      Inl (ConflictException ''User with this email already exists'')"
    unfolding demo_tables_eq by (simp add: demo_simps)
qed

text \<open>
  C15: Creating a user fails with a conflict, changing nothing, exactly when the e-mail is taken.
  Otherwise the user is stored under a fresh id, active, with the requested role or the
  default \<open>USER\<close>, with the bcrypt hash in place of the password, and both lookups
  (by id and by e-mail) return it afterwards.
\<close>

theorem create_user_spec:
  assumes db: "gateway_db UR RR B U R" and ok: "db_ok (U s) (R s)" and pw: "cu_password dto \<noteq> []"
  shows "if cu_email dto \<in> u_email ` set (U s)
     then UserService_create UR dto s = (Inl (ConflictException ''User with this email already exists''), s)
     else \<exists>u v i salt t. UserService_create UR dto s = (Inr u, t) \<and> Some i \<notin> u_id ` set (U s) \<and>
       UserService_findOne UR i t = (Inr v, t) \<and> UserService_findByEmail UR (cu_email dto) t = (Inr v, t) \<and>
       same_user u v \<and> u_id v = Some i \<and> u_isActive v \<and> u_email v = cu_email dto \<and>
       u_password v = bc_hash B (cu_password dto) salt \<and> u_role v = coalesce (cu_role dto) (Some USER)"
proof (cases "cu_email dto \<in> u_email ` set (U s)")
  case True
  then show ?thesis using gateway_db.create_taken [OF db True] by simp
next
  case False
  obtain salt i v t where c: "UserService_create UR dto s = (Inr (insert_user B salt i (new_user dto)), t)"
    and v: "same_user (insert_user B salt i (new_user dto)) v" and t: "U t = U s @ [v]" "R t = R s"
    and ok': "db_ok (U t) (R t)"
    by (rule gateway_db.create_new [OF db ok False])
  have vi: "u_id v = Some i" "u_email v = cu_email dto" and f: "u_isActive v"
    "u_password v = bc_hash B (cu_password dto) salt" "u_role v = coalesce (cu_role dto) (Some USER)"
    using same_userD [OF v] pw by (simp_all add: new_user_def coalesce_def split: option.split)
  have "Some i \<notin> u_id ` set (U s)" using ok' vi unfolding t db_ok_def by auto
  moreover have "UserService_findOne UR i t = (Inr v, t)"
    using gateway_db.findOne_found [OF db ok' _ vi(1)] t by simp
  moreover have "UserService_findByEmail UR (cu_email dto) t = (Inr v, t)"
    using gateway_db.findByEmail_found [OF db ok' _ vi(2)] t by simp
  ultimately show ?thesis using False c v vi f by auto
qed

theorem create_user_spec_witness:
  "\<exists>u t. UserService_create (pg_users plain_bcrypt) ann_dto empty_tables = (Inr u, t) \<and>
     \<not> isl (fst (UserService_findByEmail (pg_users plain_bcrypt) ''a@x.io'' t))"
  using create_user_spec [OF pg.gateway_db_axioms empty_tables_ok, of ann_dto plain_bcrypt]
  by (auto simp: ann_dto_def empty_tables_def pg_urows_def)

text \<open>
  Assigning a stored role to a stored user succeeds and the user is then read with exactly the
  former roles and the new one; removing it again takes exactly that role away. The other
  columns of the user do not change.
\<close>

theorem assign_then_remove_role:
  assumes db: "gateway_db UR RR B U R" and ok: "db_ok (U s) (R s)"
    and u: "u \<in> set (U s)" "u_id u = Some i" and r: "r \<in> set (R s)" "r_id r = Some j"
  shows "\<exists>v t w x t' w'. UserService_assignRole UR RR i j s = (Inr v, t) \<and>
     UserService_findOne UR i t = (Inr w, t) \<and> role_ids w = insert (Some j) (role_ids u) \<and> user_columns w = user_columns u \<and>
     UserService_removeRole UR RR i j t = (Inr x, t') \<and>
     UserService_findOne UR i t' = (Inr w', t') \<and> role_ids w' = role_ids u - {Some j} \<and>
     user_columns w' = user_columns u"
proof -
  obtain v w t where a: "UserService_assignRole UR RR i j s = (Inr v, t)" "same_user v w" "w \<in> set (U t)"
    "u_id w = Some i" "role_ids w = insert (Some j) (role_ids u)" "db_ok (U t) (R t)" "R t = R s"
    "user_columns w = user_columns u"
    by (rule gateway_db.assignRole_stored [OF db ok u r])
  have r': "r \<in> set (R t)" using a(7) r by simp
  obtain x w' t' where b: "UserService_removeRole UR RR i j t = (Inr x, t')" "w' \<in> set (U t')"
    "u_id w' = Some i" "role_ids w' = role_ids w - {Some j}" "db_ok (U t') (R t')" "user_columns w' = user_columns w"
    by (rule gateway_db.removeRole_stored [OF db a(6,3,4) r' r(2)])
  from gateway_db.findOne_found [OF db a(6,3,4)] gateway_db.findOne_found [OF db b(5,2,3)] a b
  show ?thesis by auto
qed

lemma demo_ok: "db_ok (pg_urows demo_tables) (roles demo_tables)"
  by (rule pg.serve_all_ok) simp

lemma demo_user: "load_user demo_tables (hd (users demo_tables)) \<in> set (pg_urows demo_tables)"
  "u_id (load_user demo_tables (hd (users demo_tables))) = Some ''k''"
  "hd (roles demo_tables) \<in> set (roles demo_tables)" "r_id (hd (roles demo_tables)) = Some ''k''"
  unfolding demo_tables_eq by (simp_all add: pg_urows_def load_user_def)

theorem assign_then_remove_role_witness:
  "\<exists>v t. UserService_assignRole (pg_users plain_bcrypt) pg_roles ''k'' ''k'' demo_tables = (Inr v, t)"
  using assign_then_remove_role [OF pg.gateway_db_axioms demo_ok demo_user] by blast

text \<open>
  Updating a user: a request that carries no e-mail or the user's own one always succeeds and
  the user is then read with exactly the carried properties changed; a request with the
  e-mail of another user is refused with a conflict and changes nothing.
\<close>

theorem update_user_spec:
  assumes db: "gateway_db UR RR B U R" and ok: "db_ok (U s) (R s)" and u: "u \<in> set (U s)" "u_id u = Some i"
  shows "(uu_email dto = None \<or> uu_email dto = Some (u_email u) \<longrightarrow>
       (\<exists>w t. UserService_update UR i dto s = (Inr (assign_user u dto), t) \<and>
          same_user (assign_user u dto) w \<and> UserService_findOne UR i t = (Inr w, t))) \<and>
     (\<forall>e. uu_email dto = Some e \<and> e \<noteq> [] \<and> e \<noteq> u_email u \<and> e \<in> u_email ` set (U s) \<longrightarrow>
        UserService_update UR i dto s = (Inl (ConflictException ''User with this email already exists''), s))"
proof (intro conjI impI allI)
  assume e: "uu_email dto = None \<or> uu_email dto = Some (u_email u)"
  obtain w t where w: "UserService_update UR i dto s = (Inr (assign_user u dto), t)"
    "same_user (assign_user u dto) w" "w \<in> set (U t)" "db_ok (U t) (R t)"
    by (rule gateway_db.update_own_email [OF db ok u e])
  have "u_id w = Some i" using same_userD [OF w(2)] u by simp
  from gateway_db.findOne_found [OF db w(4,3) this] w
  show "\<exists>w t. UserService_update UR i dto s = (Inr (assign_user u dto), t) \<and>
      same_user (assign_user u dto) w \<and> UserService_findOne UR i t = (Inr w, t)" by blast
next
  fix e assume "uu_email dto = Some e \<and> e \<noteq> [] \<and> e \<noteq> u_email u \<and> e \<in> u_email ` set (U s)"
  then show "UserService_update UR i dto s =
      (Inl (ConflictException ''User with this email already exists''), s)"
    using gateway_db.update_taken_email [OF db ok u] by blast
qed

theorem update_user_spec_witness:
  "\<exists>w t. UserService_update (pg_users plain_bcrypt) ''k''
     \<lparr>uu_email = None, uu_password = None, uu_name = Some ''Ann'', uu_role = None\<rparr> demo_tables = (Inr w, t)"
  using update_user_spec [OF pg.gateway_db_axioms [of plain_bcrypt] demo_ok demo_user(1,2),
      of "\<lparr>uu_email = None, uu_password = None, uu_name = Some ''Ann'', uu_role = None\<rparr>"] by auto

text \<open>
  The hash of a password is computed when a user is inserted only: an update that carries a
  password stores it as it was sent, and the user is then read with the plain password.
\<close>

theorem update_stores_plain_password:
  assumes db: "gateway_db UR RR B U R" and ok: "db_ok (U s) (R s)" and u: "u \<in> set (U s)" "u_id u = Some i"
    and dto: "uu_email dto = None" "uu_password dto = Some p"
  shows "\<exists>w t. snd (UserService_update UR i dto s) = t \<and> UserService_findOne UR i t = (Inr w, t) \<and> u_password w = p"
proof -
  obtain w t where w: "UserService_update UR i dto s = (Inr (assign_user u dto), t)"
    "same_user (assign_user u dto) w" "w \<in> set (U t)" "db_ok (U t) (R t)"
    using gateway_db.update_own_email [OF db ok u] dto by metis
  have "u_id w = Some i" "u_password w = p"
    using same_userD [OF w(2)] u dto by (simp_all add: assign_user_def)
  with gateway_db.findOne_found [OF db w(4,3)] w(1) show ?thesis by auto
qed

theorem update_stores_plain_password_witness:
  "\<exists>w t. snd (UserService_update (pg_users plain_bcrypt) ''k''
      \<lparr>uu_email = None, uu_password = Some ''new-secret'', uu_name = None, uu_role = None\<rparr> demo_tables) = t \<and>
    UserService_findOne (pg_users plain_bcrypt) ''k'' t = (Inr w, t) \<and> u_password w = ''new-secret''"
  by (rule update_stores_plain_password [OF pg.gateway_db_axioms demo_ok demo_user(1,2)]) simp_all

end
