(* ===== verification/Auth_Service.thy ===== *)
theory Auth_Service
  imports User_Service
begin

text \<open>
  \<open>api-gateway-auth/src/modules/auth/auth.service.ts\<close>: login, registration, the validation
  of tokens and the set of invalidated tokens with its clean-up. The JSON web token library
  is a parameter: \<open>jwt_verify J now t\<close> returns the payload of a token that verifies at
  time \<open>now\<close> or throws, \<open>jwt_sign J now p\<close> is the token of a payload. The clock is an
  argument. The set keeps the insertion order of a JavaScript \<open>Set\<close>. A payload that has no
  \<open>sub\<close> is one whose \<open>p_sub\<close> is the empty string: the test \<open>!payload.sub\<close> of \<open>validateToken\<close> treats
  them alike, and the gateway signs the identifier of a stored user into every token it makes.
\<close>

section \<open>Tokens\<close>

record payload =
  p_sub :: string
  p_email :: string
  p_role :: "UserRole option"

record jwt =
  jwt_verify :: "nat \<Rightarrow> string \<Rightarrow> exn + payload"
  jwt_sign :: "nat \<Rightarrow> payload \<Rightarrow> string"

record AuthUserResponse =
  ar_id :: "string option"
  ar_email :: string
  ar_name :: "string option"
  ar_role :: "UserRole option"
  ar_isActive :: bool

record AuthResponse =
  access_token :: string
  ar_user :: AuthUserResponse

record TokenValidationResponse =
  isValid :: bool
  tv_userId :: "string option"

abbreviation invalid_token :: TokenValidationResponse where
  "invalid_token \<equiv> \<lparr>isValid = False, tv_userId = None\<rparr>"

record 's auth_state =
  invalidatedTokens :: "string list"
  store :: 's

text \<open>\<open>/^[A-Za-z0-9_-]+$/i\<close>\<close>

definition base64url_char :: "char \<Rightarrow> bool" where
  "base64url_char c \<longleftrightarrow>
     c \<in> set ''ABCDEFGHIJKLMNOPQRSTUVWXYZabcdefghijklmnopqrstuvwxyz0123456789_-''"

definition token_part :: "string \<Rightarrow> bool" where
  "token_part p \<longleftrightarrow> p \<noteq> [] \<and> list_all base64url_char p"

fun all_parts :: "string list \<Rightarrow> bool" where
  "all_parts [] = True"
| "all_parts (part # parts) = (if \<not> token_part part then False else all_parts parts)"

definition isValidTokenFormat :: "string \<Rightarrow> bool" where
  "isValidTokenFormat token =
     (let parts = split_on (CHR ''.'') token
      in if length parts \<noteq> 3 then False else all_parts parts)"

definition isTokenInvalidated :: "'s auth_state \<Rightarrow> string \<Rightarrow> bool" where
  "isTokenInvalidated a token \<longleftrightarrow> token \<in> set (invalidatedTokens a)"

text \<open>
  \<open>for (const token of this.invalidatedTokens)\<close> visits the tokens in order; deleting the
  visited one does not disturb the iteration.
\<close>

fun cleanup_loop :: "jwt \<Rightarrow> nat \<Rightarrow> string list \<Rightarrow> string list \<Rightarrow> string list" where
  "cleanup_loop J now [] tokens = tokens"
| "cleanup_loop J now (token # rest) tokens =
     (if isValidTokenFormat token then
        (case jwt_verify J now token of
           Inr payload \<Rightarrow> cleanup_loop J now rest tokens
         | Inl error \<Rightarrow> cleanup_loop J now rest (removeAll token tokens))
      else cleanup_loop J now rest (removeAll token tokens))"

definition cleanupInvalidatedTokens :: "jwt \<Rightarrow> nat \<Rightarrow> 's auth_state \<Rightarrow> 's auth_state" where
  "cleanupInvalidatedTokens J now a =
     a\<lparr>invalidatedTokens := cleanup_loop J now (invalidatedTokens a) (invalidatedTokens a)\<rparr>"

text \<open>The verification inside \<open>invalidateToken\<close> only decides what is logged.\<close>

definition invalidateToken :: "jwt \<Rightarrow> nat \<Rightarrow> string \<Rightarrow> 's auth_state \<Rightarrow> bool \<times> 's auth_state" where
  "invalidateToken J now token a =
     (if token = [] then (False, a)
      else if token \<in> set (invalidatedTokens a) then (True, a)
      else (True, cleanupInvalidatedTokens J now
                    (a\<lparr>invalidatedTokens := invalidatedTokens a @ [token]\<rparr>)))"

definition validateToken ::
  "(User, 's) repo \<Rightarrow> jwt \<Rightarrow> nat \<Rightarrow> string \<Rightarrow> 's auth_state \<Rightarrow> TokenValidationResponse" where
  "validateToken UR J now token a =
     (if token = [] then invalid_token
      else if isTokenInvalidated a token then invalid_token
      else if \<not> isValidTokenFormat token then invalid_token
      else (case jwt_verify J now token of
        Inl error \<Rightarrow> invalid_token
      | Inr payload \<Rightarrow>
          if p_sub payload = [] then invalid_token
          else (case fst (UserService_findOne UR (p_sub payload) (store a)) of
            Inl error \<Rightarrow> invalid_token
          | Inr user \<Rightarrow>
              if \<not> u_isActive user then invalid_token
              else \<lparr>isValid = True, tv_userId = u_id user\<rparr>)))"

section \<open>Login and registration\<close>

definition user_response :: "User \<Rightarrow> AuthUserResponse" where
  "user_response user = \<lparr>ar_id = u_id user, ar_email = u_email user, ar_name = u_name user,
     ar_role = u_role user, ar_isActive = u_isActive user\<rparr>"

definition token_payload :: "User \<Rightarrow> payload" where
  "token_payload user = \<lparr>p_sub = (case u_id user of None \<Rightarrow> [] | Some i \<Rightarrow> i),
     p_email = u_email user, p_role = u_role user\<rparr>"

definition generateToken :: "jwt \<Rightarrow> nat \<Rightarrow> User \<Rightarrow> AuthResponse" where
  "generateToken J now user =
     \<lparr>access_token = jwt_sign J now (token_payload user), ar_user = user_response user\<rparr>"

definition AuthService_login ::
  "(User, 's) repo \<Rightarrow> bcrypt \<Rightarrow> jwt \<Rightarrow> nat \<Rightarrow> string \<Rightarrow> string \<Rightarrow> ('s, AuthResponse) op" where
  "AuthService_login UR B J now email password =
     catch_op
       (bind_op (UserService_findByEmail UR email) (\<lambda>user.
          if \<not> u_isActive user then throw (UnauthorizedException ''User is not active'')
          else if \<not> User_validatePassword B user password
          then throw (UnauthorizedException ''Invalid credentials'')
          else ret (generateToken J now user)))
       (\<lambda>error. if is_UnauthorizedException error then throw error
                 else throw (UnauthorizedException ''Invalid credentials''))"

definition AuthService_register ::
  "(User, 's) repo \<Rightarrow> jwt \<Rightarrow> nat \<Rightarrow> CreateUserDto \<Rightarrow> ('s, AuthResponse) op" where
  "AuthService_register UR J now dto =
     catch_op
       (bind_op (UserService_create UR (dto\<lparr>cu_role := coalesce (cu_role dto) (Some USER)\<rparr>))
          (\<lambda>user. ret (generateToken J now user)))
       (\<lambda>error. throw error)"

section \<open>The controller\<close>

text \<open>\<open>auth.controller.ts\<close>: the token endpoints. A missing token is the empty string.\<close>

definition AuthController_validateToken ::
  "(User, 's) repo \<Rightarrow> jwt \<Rightarrow> nat \<Rightarrow> string \<Rightarrow> 's auth_state \<Rightarrow> TokenValidationResponse" where
  "AuthController_validateToken UR J now token a =
     (if token = [] then invalid_token
      else if isTokenInvalidated a token then invalid_token
      else validateToken UR J now token a)"

definition AuthController_logout ::
  "jwt \<Rightarrow> nat \<Rightarrow> string \<Rightarrow> 's auth_state \<Rightarrow> (bool \<times> string) \<times> 's auth_state" where
  "AuthController_logout J now token a =
     (if token = [] then ((True, ''No token provided, nothing to invalidate''), a)
      else
        let (invalidated, a') = invalidateToken J now token a
        in ((invalidated,
             if invalidated then ''Token successfully invalidated'' else ''Failed to invalidate token''), a'))"

definition AuthController_getProfile :: "User \<Rightarrow> AuthUserResponse" where
  "AuthController_getProfile user = user_response user"

section \<open>The format of tokens\<close>

lemma all_parts_iff: "all_parts ps \<longleftrightarrow> (\<forall>p \<in> set ps. token_part p)"
  by (induction ps) auto

lemma dot_not_base64url: "\<not> base64url_char (CHR ''.'')"
  by (simp add: base64url_char_def)

lemma token_part_no_dot: "token_part p \<Longrightarrow> CHR ''.'' \<notin> set p"
  using dot_not_base64url by (auto simp: token_part_def list_all_iff)

lemma isValidTokenFormat_iff:
  "isValidTokenFormat t \<longleftrightarrow>
     (\<exists>h p s. t = h @ ''.'' @ p @ ''.'' @ s \<and> token_part h \<and> token_part p \<and> token_part s)"
proof
  assume "isValidTokenFormat t"
  then have l: "length (split_on (CHR ''.'') t) = 3" and a: "all_parts (split_on (CHR ''.'') t)"
    by (auto simp: isValidTokenFormat_def Let_def split: if_splits)
  then obtain h p s where "split_on (CHR ''.'') t = [h, p, s]"
    by (auto simp: numeral_3_eq_3 length_Suc_conv)
  with a join_split [of "CHR ''.''" t]
  show "\<exists>h p s. t = h @ ''.'' @ p @ ''.'' @ s \<and> token_part h \<and> token_part p \<and> token_part s"
    by (intro exI [of _ h] exI [of _ p] exI [of _ s]) (simp add: all_parts_iff)
next
  assume "\<exists>h p s. t = h @ ''.'' @ p @ ''.'' @ s \<and> token_part h \<and> token_part p \<and> token_part s"
  then obtain h p s where t: "t = join_with (CHR ''.'') [h, p, s]"
    and ps: "token_part h" "token_part p" "token_part s" by auto
  then have "split_on (CHR ''.'') t = [h, p, s]"
    using token_part_no_dot by (simp add: t split_join del: join_with.simps)
  with ps show "isValidTokenFormat t" by (simp add: isValidTokenFormat_def)
qed

section \<open>The set of invalidated tokens\<close>

definition live_token :: "jwt \<Rightarrow> nat \<Rightarrow> string \<Rightarrow> bool" where
  "live_token J now t \<longleftrightarrow> isValidTokenFormat t \<and> \<not> isl (jwt_verify J now t)"

lemma cleanup_loop_filter:
  "cleanup_loop J now ts tokens = filter (\<lambda>t. t \<in> set ts \<longrightarrow> live_token J now t) tokens"
proof (induction ts arbitrary: tokens)
  case Nil
  then show ?case by simp
next
  case (Cons x ts)
  then show ?case
    by (cases "jwt_verify J now x")
      (auto simp: live_token_def removeAll_filter_not_eq intro!: filter_cong)
qed

lemma cleanup_filter:
  "invalidatedTokens (cleanupInvalidatedTokens J now a) = filter (live_token J now) (invalidatedTokens a)"
  by (simp add: cleanupInvalidatedTokens_def cleanup_loop_filter cong: filter_cong)

lemma cleanup_store [simp]: "store (cleanupInvalidatedTokens J now a) = store a"
  by (simp add: cleanupInvalidatedTokens_def)

lemma validateToken_dead:
  "token \<in> set (invalidatedTokens a) \<or> \<not> live_token J now token \<Longrightarrow>
   validateToken UR J now token a = invalid_token"
  by (auto simp: validateToken_def isTokenInvalidated_def live_token_def split: sum.splits)

section \<open>Login, registration and validation, from the laws of the repositories\<close>

context gateway_db
begin

lemma login_found:
  assumes "db_ok (urows s) (rrows s)" "u \<in> set (urows s)" "u_email u = e"
  shows "AuthService_login UR C J now e p s =
    (if \<not> u_isActive u then (Inl (UnauthorizedException ''User is not active''), s)
     else if bc_compare C p (u_password u) then (Inr (generateToken J now u), s)
     else (Inl (UnauthorizedException ''Invalid credentials''), s))"
  using findByEmail_found [OF assms]
  by (simp add: AuthService_login_def catch_op_def bind_op_def throw_def ret_def User_validatePassword_def)

lemma login_missing:
  "e \<notin> u_email ` set (urows s) \<Longrightarrow>
   AuthService_login UR C J now e p s = (Inl (UnauthorizedException ''Invalid credentials''), s)"
  by (simp add: AuthService_login_def catch_op_def bind_op_def throw_def findByEmail_missing)

lemma register_eq:
  "AuthService_register UR J now dto s =
     (case UserService_create UR (dto\<lparr>cu_role := coalesce (cu_role dto) (Some USER)\<rparr>) s of
        (Inl e, t) \<Rightarrow> (Inl e, t) | (Inr u, t) \<Rightarrow> (Inr (generateToken J now u), t))"
  by (simp add: AuthService_register_def catch_op_def bind_op_def throw_def ret_def split: prod.split sum.split)

lemma validate_live:
  assumes "live_token J now t" "t \<notin> set (invalidatedTokens a)" "jwt_verify J now t = Inr p"
    "p_sub p = i" "i \<noteq> []" "db_ok (urows (store a)) (rrows (store a))" "u \<in> set (urows (store a))" "u_id u = Some i"
  shows "AuthController_validateToken UR J now t a =
    (if u_isActive u then \<lparr>isValid = True, tv_userId = Some i\<rparr> else invalid_token)"
proof -
  have "t \<noteq> []" using assms(1) by (auto simp: live_token_def isValidTokenFormat_def)
  with assms show ?thesis
    by (simp add: AuthController_validateToken_def validateToken_def isTokenInvalidated_def live_token_def
        findOne_found)
qed

lemma validate_true:
  assumes ok: "db_ok (urows (store a)) (rrows (store a))"
    and v: "isValid (AuthController_validateToken UR J now t a)"
  obtains p u where "live_token J now t" "t \<notin> set (invalidatedTokens a)" "jwt_verify J now t = Inr p"
    "u \<in> set (urows (store a))" "u_id u = Some (p_sub p)" "u_isActive u"
    "tv_userId (AuthController_validateToken UR J now t a) = Some (p_sub p)"
proof -
  obtain p where p: "jwt_verify J now t = Inr p" "t \<notin> set (invalidatedTokens a)" "isValidTokenFormat t" "p_sub p \<noteq> []"
    using v by (auto simp: AuthController_validateToken_def validateToken_def isTokenInvalidated_def
        split: if_splits sum.splits)
  then have l: "live_token J now t" by (simp add: live_token_def)
  from ok show ?thesis
  proof (cases rule: findOne_cases [where i = "p_sub p"])
    case missing
    with v p have False
      by (auto simp: AuthController_validateToken_def validateToken_def isTokenInvalidated_def split: if_splits)
    then show ?thesis ..
  next
    case (found u)
    with v validate_live [OF l p(2,1) refl p(4) ok found(1,2)] show ?thesis
      by (intro that [OF l p(2,1) found(1,2)]) (auto split: if_splits)
  qed
qed

end

section \<open>The running gateway\<close>

text \<open>
  The token state of one gateway process over time: the clock advances, the hourly timer of
  the constructor cleans up, users log out, and the services change the database in any way.
\<close>

inductive gw_step :: "jwt \<Rightarrow> nat \<times> 's auth_state \<Rightarrow> nat \<times> 's auth_state \<Rightarrow> bool" for J where
  tick: "now \<le> now' \<Longrightarrow> gw_step J (now, a) (now', a)"
| timer: "gw_step J (now, a) (now, cleanupInvalidatedTokens J now a)"
| logout: "gw_step J (now, a) (now, snd (AuthController_logout J now t a))"
| database: "gw_step J (now, a) (now, a\<lparr>store := s\<rparr>)"

text \<open>
  jsonwebtoken verifies a token from the moment of its \<open>nbf\<close> claim, if it has one, until that of its
  \<open>exp\<close> claim, if it has one, and whether its signature is right does not change: the times at
  which a token verifies have no gap.
\<close>

definition verify_window :: "jwt \<Rightarrow> bool" where
  "verify_window J \<longleftrightarrow> (\<forall>t n k m. n \<le> k \<longrightarrow> k \<le> m \<longrightarrow>
     \<not> isl (jwt_verify J n t) \<longrightarrow> \<not> isl (jwt_verify J m t) \<longrightarrow> \<not> isl (jwt_verify J k t))"

text \<open>
  The token has been good for a session before, and is in the set now or no longer verifies: this is the
  invariant of the steps.
\<close>

definition revoked :: "jwt \<Rightarrow> string \<Rightarrow> nat \<times> 's auth_state \<Rightarrow> bool" where
  "revoked J t x \<longleftrightarrow> (\<exists>n \<le> fst x. live_token J n t) \<and>
     (t \<in> set (invalidatedTokens (snd x)) \<or> \<not> live_token J (fst x) t)"

lemma dead_stays_dead:
  "verify_window J \<Longrightarrow> live_token J n t \<Longrightarrow> n \<le> k \<Longrightarrow> \<not> live_token J k t \<Longrightarrow> k \<le> m \<Longrightarrow> \<not> live_token J m t"
  by (auto simp: verify_window_def live_token_def)

lemma invalidated_after_logout:
  "invalidatedTokens (snd (AuthController_logout J now t a)) =
     (if t = [] \<or> t \<in> set (invalidatedTokens a) then invalidatedTokens a
      else filter (live_token J now) (invalidatedTokens a @ [t]))"
  by (simp add: AuthController_logout_def invalidateToken_def cleanup_filter)

lemma logged_out:
  "t \<in> set (invalidatedTokens (snd (AuthController_logout J now t a))) \<or> \<not> live_token J now t"
  by (auto simp: invalidated_after_logout live_token_def isValidTokenFormat_def)

lemma logout_revokes:
  "live_token J n t \<Longrightarrow> n \<le> now \<Longrightarrow> revoked J t (now, snd (AuthController_logout J now t a))"
  using logged_out [of t J now a] by (auto simp: revoked_def)

lemma revoked_step:
  assumes "gw_step J x y" "verify_window J" "revoked J t x"
  shows "revoked J t y"
  using assms(1)
proof (cases rule: gw_step.cases)
  case (tick now now' a)
  with assms(3) obtain n where n: "n \<le> now" "live_token J n t" by (auto simp: revoked_def)
  then have "n \<le> now'" using tick by simp
  with n have "\<exists>n \<le> now'. live_token J n t" by blast
  with tick assms(3) dead_stays_dead [OF assms(2) n(2,1) _ tick(3)] show ?thesis by (auto simp: revoked_def)
next
  case (timer now a)
  with assms(3) show ?thesis by (auto simp: revoked_def cleanup_filter)
next
  case (logout now a u)
  with assms(3) show ?thesis by (auto simp: revoked_def invalidated_after_logout)
next
  case (database now a s)
  with assms(3) show ?thesis by (simp add: revoked_def)
qed

lemma revoked_steps:
  assumes "(gw_step J)\<^sup>*\<^sup>* x y" "verify_window J" "revoked J t x"
  shows "revoked J t y"
  using assms by (induction rule: rtranclp_induct) (auto intro: revoked_step)

section \<open>Properties\<close>

text \<open>A token library for the examples: one known token for user \<open>k\<close>, which expires at time 100.\<close>

definition demo_token :: string where
  "demo_token = ''head.body.sig''"

definition demo_jwt :: jwt where
  "demo_jwt = \<lparr>
     jwt_verify = (\<lambda>now t. if t = demo_token \<and> now < 100
       then Inr \<lparr>p_sub = ''k'', p_email = ''a@x.io'', p_role = Some USER\<rparr>
       else Inl (JsonWebTokenError ''jwt expired'')),
     jwt_sign = (\<lambda>now p. demo_token)\<rparr>"

definition demo_state :: "tables auth_state" where
  "demo_state = \<lparr>invalidatedTokens = [], store = demo_tables\<rparr>"

lemma demo_jwt_window: "verify_window demo_jwt"
  by (auto simp: verify_window_def demo_jwt_def)

lemma demo_token_live: "live_token demo_jwt 5 demo_token"
  by (simp add: live_token_def demo_jwt_def demo_token_def isValidTokenFormat_def token_part_def
      base64url_char_def)

lemma demo_token_valid:
  "isValid (AuthController_validateToken (pg_users plain_bcrypt) demo_jwt 5 demo_token demo_state)"
  using pg.validate_live [OF demo_token_live, of demo_state _ "''k''" "hd (pg_urows demo_tables)" plain_bcrypt]
    demo_ok demo_user
  by (simp add: demo_state_def demo_jwt_def) (simp add: demo_tables_eq pg_urows_def load_user_def)

text \<open>
  C1: Logging out is permanent, for every token that has been good before: when a token that verified
  at some time up to the logout is sent to \<open>POST /auth/logout\<close>, the validation endpoint
  answers \<open>isValid: false\<close> for it in every later state of the gateway process,
  whatever time passes, however often the clean-up removes tokens from the set, whoever else
  logs out and however the database changes. Of the token library it relies on the times at which a
  token verifies having no gap.
\<close>

theorem logout_is_permanent:
  assumes "verify_window J"
    and "live_token J n t" "n \<le> now"
    and "(gw_step J)\<^sup>*\<^sup>* (now, snd (AuthController_logout J now t a)) (now', a')"
  shows "AuthController_validateToken UR J now' t a' = invalid_token"
proof -
  have "revoked J t (now', a')"
    using revoked_steps [OF assms(4,1) logout_revokes [OF assms(2,3)]] .
  then show ?thesis
    by (auto simp: revoked_def AuthController_validateToken_def isTokenInvalidated_def validateToken_dead)
qed

theorem logout_is_permanent_witness:
  "AuthController_validateToken (pg_users plain_bcrypt) demo_jwt 7 demo_token
     (cleanupInvalidatedTokens demo_jwt 7 (snd (AuthController_logout demo_jwt 5 demo_token demo_state))) = invalid_token"
proof (rule logout_is_permanent [OF demo_jwt_window demo_token_live order_refl])
  let ?a = "snd (AuthController_logout demo_jwt 5 demo_token demo_state)"
  have "gw_step demo_jwt (5, ?a) (7, ?a)" by (rule gw_step.tick) simp
  moreover have "gw_step demo_jwt (7, ?a) (7, cleanupInvalidatedTokens demo_jwt 7 ?a)" by (rule gw_step.timer)
  ultimately show "(gw_step demo_jwt)\<^sup>*\<^sup>* (5, ?a) (7, cleanupInvalidatedTokens demo_jwt 7 ?a)"
    by (meson converse_rtranclp_into_rtranclp rtranclp.rtrancl_refl)
qed

text \<open>
  A token that is not good yet is the exception: its logout is answered with success, but the clean-up
  that follows drops it from the set, as it drops the expired ones, and once the time of its
  \<open>nbf\<close> claim has come the gateway accepts it.
\<close>

definition later_jwt :: jwt where
  "later_jwt = demo_jwt\<lparr>jwt_verify := (\<lambda>now t. if 50 \<le> now then jwt_verify demo_jwt now t else Inl (JsonWebTokenError ''jwt not active''))\<rparr>"

theorem early_logout_is_forgotten:
  "verify_window later_jwt \<and>
   fst (fst (AuthController_logout later_jwt 5 demo_token demo_state)) \<and>
   isValid (AuthController_validateToken (pg_users plain_bcrypt) later_jwt 60 demo_token
     (snd (AuthController_logout later_jwt 5 demo_token demo_state)))"
proof -
  have f: "isValidTokenFormat demo_token" using demo_token_live by (simp add: live_token_def)
  have l: "snd (AuthController_logout later_jwt 5 demo_token demo_state) = demo_state"
    by (simp add: AuthController_logout_def invalidateToken_def cleanupInvalidatedTokens_def demo_state_def later_jwt_def
        demo_token_def)
  have v: "live_token later_jwt 60 demo_token" "jwt_verify later_jwt 60 demo_token = jwt_verify demo_jwt 60 demo_token"
    using f by (simp_all add: live_token_def later_jwt_def demo_jwt_def)
  have "isValid (AuthController_validateToken (pg_users plain_bcrypt) later_jwt 60 demo_token demo_state)"
    using pg.validate_live [OF v(1), of demo_state _ "''k''" "hd (pg_urows demo_tables)" plain_bcrypt] demo_ok demo_user v(2)
    by (simp add: demo_state_def demo_jwt_def) (simp add: demo_tables_eq pg_urows_def load_user_def)
  moreover have "fst (fst (AuthController_logout later_jwt 5 demo_token demo_state))"
    by (simp add: AuthController_logout_def invalidateToken_def demo_state_def demo_token_def)
  moreover have "verify_window later_jwt" by (auto simp: verify_window_def later_jwt_def demo_jwt_def)
  ultimately show ?thesis by (simp add: l)
qed

text \<open>
  The clean-up removes from the set exactly the tokens that are malformed or no longer verify,
  keeps the others in their order, and so never changes the answer of the validation
  endpoint, for any token.
\<close>

theorem cleanup_is_invisible:
  "invalidatedTokens (cleanupInvalidatedTokens J now a) = filter (live_token J now) (invalidatedTokens a) \<and>
   AuthController_validateToken UR J now t (cleanupInvalidatedTokens J now a) = AuthController_validateToken UR J now t a"
proof
  show "AuthController_validateToken UR J now t (cleanupInvalidatedTokens J now a) =
      AuthController_validateToken UR J now t a"
    by (auto simp: AuthController_validateToken_def validateToken_def isTokenInvalidated_def cleanup_filter
        live_token_def split: sum.splits)
qed (rule cleanup_filter)

text \<open>
  C21: The validation endpoint says \<open>isValid: true\<close> only for a well-formed token that verifies, has
  not been logged out, and whose subject is a stored and active user; the user id it reports
  is that subject.
\<close>

theorem validate_token_sound:
  assumes db: "gateway_db UR RR B U R" and ok: "db_ok (U (store a)) (R (store a))"
    and v: "isValid (AuthController_validateToken UR J now t a)"
  shows "\<exists>p u. isValidTokenFormat t \<and> t \<notin> set (invalidatedTokens a) \<and> jwt_verify J now t = Inr p \<and>
     u \<in> set (U (store a)) \<and> u_id u = Some (p_sub p) \<and> u_isActive u \<and>
     tv_userId (AuthController_validateToken UR J now t a) = Some (p_sub p)"
  using gateway_db.validate_true [OF db ok v] by (metis live_token_def)

theorem validate_token_sound_witness:
  "\<exists>p u. isValidTokenFormat demo_token \<and> jwt_verify demo_jwt 5 demo_token = Inr p \<and>
     u \<in> set (pg_urows demo_tables) \<and> u_id u = Some (p_sub p) \<and> u_isActive u"
  using validate_token_sound [OF pg.gateway_db_axioms _ demo_token_valid] demo_ok by (auto simp: demo_state_def)

text \<open>
  C23: The outcome of a login on every branch, for any database: an unknown e-mail and a wrong
  password are refused with the same exception, so the answer does not reveal which e-mails
  are registered; an inactive user is refused; otherwise a token for that user is issued.
  The database is only read.
\<close>

theorem login_spec:
  assumes db: "gateway_db UR RR B U R" and ok: "db_ok (U s) (R s)"
  shows "AuthService_login UR B J now e p s = ((case List.find (\<lambda>u. u_email u = e) (U s) of
       None \<Rightarrow> Inl (UnauthorizedException ''Invalid credentials'')
     | Some u \<Rightarrow>
         if \<not> u_isActive u then Inl (UnauthorizedException ''User is not active'')
         else if bc_compare B p (u_password u) then Inr (generateToken J now u)
         else Inl (UnauthorizedException ''Invalid credentials'')), s)"
proof (cases "List.find (\<lambda>u. u_email u = e) (U s)")
  case None
  then have "e \<notin> u_email ` set (U s)" by (auto simp: find_None_iff)
  with None show ?thesis by (simp add: gateway_db.login_missing [OF db])
next
  case (Some u)
  then have u: "u \<in> set (U s)" "u_email u = e" by (auto dest: find_SomeD)
  with Some show ?thesis by (simp add: gateway_db.login_found [OF db ok u])
qed

theorem login_spec_witness:
  "AuthService_login (pg_users plain_bcrypt) plain_bcrypt demo_jwt 5 ''a@x.io'' ''longpasswor'' demo_tables =
     (Inl (UnauthorizedException ''Invalid credentials''), demo_tables)"
  using login_spec [OF pg.gateway_db_axioms [of plain_bcrypt] demo_ok, of demo_jwt 5 "''a@x.io''" "''longpasswor''"]
  unfolding demo_tables_eq by (simp add: pg_urows_def load_user_def plain_bcrypt_def endsWith_def startsWith_def)

text \<open>
  C24: Registering and then logging in with the same e-mail and password succeeds: the answers
  describe the same user, the account is active, and its role is the requested one or \<open>USER\<close>.
  It relies on bcrypt accepting a password against its own hash.
\<close>

theorem register_then_login:
  assumes db: "gateway_db UR RR B U R" and ok: "db_ok (U s) (R s)"
    and bc: "\<And>p salt. bc_compare B p (bc_hash B p salt)"
    and new: "cu_email dto \<notin> u_email ` set (U s)" and pw: "cu_password dto \<noteq> []"
  shows "\<exists>r t r'. AuthService_register UR J now dto s = (Inr r, t) \<and>
     AuthService_login UR B J now' (cu_email dto) (cu_password dto) t = (Inr r', t) \<and>
     ar_user r' = ar_user r \<and> ar_email (ar_user r) = cu_email dto \<and> ar_isActive (ar_user r) \<and>
     ar_role (ar_user r) = coalesce (cu_role dto) (Some USER)"
proof -
  define d where "d = dto\<lparr>cu_role := coalesce (cu_role dto) (Some USER)\<rparr>"
  have nd: "cu_email d \<notin> u_email ` set (U s)" using new by (simp add: d_def)
  obtain salt i v t where c: "UserService_create UR d s = (Inr (insert_user B salt i (new_user d)), t)"
    and v: "same_user (insert_user B salt i (new_user d)) v" and t: "U t = U s @ [v]" and ok': "db_ok (U t) (R t)"
    by (rule gateway_db.create_new [OF db ok nd])
  have f: "u_email v = cu_email dto" "u_isActive v" "u_password v = bc_hash B (cu_password dto) salt"
    "u_role v = coalesce (cu_role dto) (Some USER)"
    using same_userD [OF v] pw by (simp_all add: new_user_def d_def coalesce_def split: option.split)
  have resp: "user_response v = user_response (insert_user B salt i (new_user d))"
    using same_userD [OF v] by (simp add: user_response_def)
  have "AuthService_login UR B J now' (cu_email dto) (cu_password dto) t = (Inr (generateToken J now' v), t)"
    using gateway_db.login_found [OF db ok' _ f(1)] t f bc by simp
  moreover have "AuthService_register UR J now dto s = (Inr (generateToken J now (insert_user B salt i (new_user d))), t)"
    using c by (simp add: gateway_db.register_eq [OF db] d_def)
  ultimately show ?thesis
    using f resp by (auto simp: generateToken_def) (simp_all add: user_response_def)
qed

theorem register_then_login_witness:
  "\<exists>r t r'. AuthService_register (pg_users plain_bcrypt) demo_jwt 1 ann_dto empty_tables = (Inr r, t) \<and>
     AuthService_login (pg_users plain_bcrypt) plain_bcrypt demo_jwt 2 ''a@x.io'' ''longpassword'' t = (Inr r', t)"
  using register_then_login [OF pg.gateway_db_axioms empty_tables_ok plain_bcrypt_compare, of ann_dto demo_jwt 1 2]
  by (auto simp: ann_dto_def empty_tables_def pg_urows_def)

text \<open>
  Deactivating a user locks it out everywhere: from then on a login with any password is
  refused with \<open>User is not active\<close>, and the validation endpoint answers \<open>isValid: false\<close>
  for every token of that user.
\<close>

theorem deactivated_user_locked_out:
  assumes db: "gateway_db UR RR B U R" and ok: "db_ok (U s) (R s)" and u: "u \<in> set (U s)" "u_id u = Some i"
  shows "\<exists>v t. UserService_setActive UR i False s = (Inr v, t) \<and>
     (\<forall>J now p. AuthService_login UR B J now (u_email u) p t = (Inl (UnauthorizedException ''User is not active''), t)) \<and>
     (\<forall>J now tok pay ts. jwt_verify J now tok = Inr pay \<longrightarrow> p_sub pay = i \<longrightarrow>
        AuthController_validateToken UR J now tok \<lparr>invalidatedTokens = ts, store = t\<rparr> = invalid_token)"
proof -
  obtain w t where w: "UserService_setActive UR i False s = (Inr (u\<lparr>u_isActive := False\<rparr>), t)"
    "same_user (u\<lparr>u_isActive := False\<rparr>) w" "w \<in> set (U t)" "db_ok (U t) (R t)"
    by (rule gateway_db.setActive_stored [OF db ok u])
  have f: "u_id w = Some i" "u_email w = u_email u" "\<not> u_isActive w"
    using same_userD [OF w(2)] u by simp_all
  have one: "UserService_findOne UR i t = (Inr w, t)"
    using gateway_db.findOne_found [OF db w(4,3) f(1)] .
  have "AuthController_validateToken UR J now tok \<lparr>invalidatedTokens = ts, store = t\<rparr> = invalid_token"
    if "jwt_verify J now tok = Inr pay" "p_sub pay = i" for J now tok pay ts
    using that one f(3) by (simp add: AuthController_validateToken_def validateToken_def)
  with gateway_db.login_found [OF db w(4,3) f(2)] f(3) w(1) show ?thesis by auto
qed

theorem deactivated_user_locked_out_witness:
  "\<exists>v t. UserService_setActive (pg_users plain_bcrypt) ''k'' False demo_tables = (Inr v, t) \<and>
     AuthService_login (pg_users plain_bcrypt) plain_bcrypt demo_jwt 5
       (u_email (load_user demo_tables (hd (users demo_tables)))) ''longpassword'' t =
       (Inl (UnauthorizedException ''User is not active''), t)"
  using deactivated_user_locked_out [OF pg.gateway_db_axioms [of plain_bcrypt] demo_ok demo_user(1,2)] by blast

text \<open>
  A token is well-formed exactly when it is three non-empty parts of the base64url alphabet
  joined by dots.
\<close>

theorem token_format_spec:
  "isValidTokenFormat t \<longleftrightarrow>
     (\<exists>h p s. t = h @ ''.'' @ p @ ''.'' @ s \<and> token_part h \<and> token_part p \<and> token_part s)"
  by (rule isValidTokenFormat_iff)

end
