(* ===== verification/Gateway_Guards.thy ===== *)
theory Gateway_Guards
  imports Auth_Service
begin

text \<open>
  Who may call which route of the gateway: \<open>jwt.strategy.ts\<close>, \<open>auth.guard.ts\<close>,
  \<open>roles.guard.ts\<close>, \<open>roles.decorator.ts\<close>, the routes of \<open>user.controller.ts\<close> and
  \<open>role.controller.ts\<close> with their decorators, and the global guard of \<open>app.module.ts\<close>.
  Passport (which takes the bearer token from the request, verifies it and calls the
  strategy) and the order in which NestJS collects the guards of a route are parameters.
\<close>

section \<open>Passport and the JWT strategy\<close>

definition JwtStrategy_validate :: "(User, 's) repo \<Rightarrow> payload \<Rightarrow> ('s, User) op" where
  "JwtStrategy_validate UR payload =
     bind_op (UserService_findOne UR (p_sub payload)) (\<lambda>user.
       if \<not> u_isActive user then throw (UnauthorizedException ''User is not active or not found'')
       else ret user)"

text \<open>
  \<open>AuthGuard('jwt')\<close> runs Passport with the strategy's \<open>validate\<close> and the bearer token of the
  request and calls \<open>handleRequest(err, user, info)\<close> with the outcome.
\<close>

type_synonym 's passport =
  "nat \<Rightarrow> string option \<Rightarrow> (payload \<Rightarrow> ('s, User) op) \<Rightarrow> 's \<Rightarrow> (exn option \<times> User option) \<times> 's"

text \<open>The documented behaviour of \<open>passport-jwt\<close>: no token or one that does not verify is a failure
  with no user, an exception of \<open>validate\<close> is reported as the error, its result as the user.\<close>

definition passport_jwt_laws :: "jwt \<Rightarrow> 's passport \<Rightarrow> bool" where
  "passport_jwt_laws J PP \<longleftrightarrow>
     (\<forall>now val s. PP now None val s = ((None, None), s)) \<and>
     (\<forall>now t val s e. jwt_verify J now t = Inl e \<longrightarrow> PP now (Some t) val s = ((None, None), s)) \<and>
     (\<forall>now t val s p e s'. jwt_verify J now t = Inr p \<longrightarrow> val p s = (Inl e, s') \<longrightarrow>
        PP now (Some t) val s = ((Some e, None), s')) \<and>
     (\<forall>now t val s p u s'. jwt_verify J now t = Inr p \<longrightarrow> val p s = (Inr u, s') \<longrightarrow>
        PP now (Some t) val s = ((None, Some u), s'))"

definition handleRequest :: "exn option \<Rightarrow> User option \<Rightarrow> exn + User" where
  "handleRequest err user =
     (case (err, user) of
        (None, Some u) \<Rightarrow> Inr u
      | (Some e, _) \<Rightarrow> Inl e
      | (None, None) \<Rightarrow> Inl (UnauthorizedException ''Authentication required''))"

section \<open>Roles\<close>

text \<open>
  What \<open>Reflector.getAllAndOverride\<close> finds under \<open>ROLES_KEY\<close>: the decorator \<open>Roles(...roles)\<close> stores
  the array of its arguments, while the guard reads a single role, as \<open>SetMetadata\<close> would
  allow. \<open>===\<close> between a string and an array is false.
\<close>

datatype role_meta = RoleName UserRole | RoleArray "UserRole list"

definition Roles :: "UserRole list \<Rightarrow> role_meta option" where
  "Roles rs = Some (RoleArray rs)"

definition getAllAndOverride :: "role_meta option list \<Rightarrow> role_meta option" where
  "getAllAndOverride ms = (case List.find (\<lambda>m. m \<noteq> None) ms of Some m \<Rightarrow> m | None \<Rightarrow> None)"

definition RolesGuard_canActivate :: "role_meta option \<Rightarrow> User option \<Rightarrow> exn + bool" where
  "RolesGuard_canActivate requiredRole user =
     (case requiredRole of
        None \<Rightarrow> Inr True
      | Some required \<Rightarrow>
          (case user of
             None \<Rightarrow> Inl (UnauthorizedException ''User not authenticated'')
           | Some u \<Rightarrow>
               if u_role u = Some ADMIN then Inr True
               else if map_option RoleName (u_role u) = Some required then Inr True
               else Inl (ForbiddenException ''Insufficient permissions'')))"

section \<open>The routes\<close>

datatype route =
    UserController_create CreateUserDto
  | UserController_findAll
  | UserController_findOne string
  | UserController_update string UpdateUserDto
  | UserController_remove string
  | UserController_assignRole string string
  | UserController_removeRole string string
  | UserController_setActive string bool
  | RoleController_create CreateRoleDto
  | RoleController_findAll
  | RoleController_findOne string
  | RoleController_update string UpdateRoleDto
  | RoleController_remove string
  | RoleController_addPermission string string
  | RoleController_removePermission string string
  | AuthController_profile

text \<open>The \<open>@Roles\<close> decorators of the handlers, and of the classes.\<close>

fun handler_roles :: "route \<Rightarrow> role_meta option" where
  "handler_roles (UserController_create dto) = Roles [ADMIN]"
| "handler_roles UserController_findAll = Roles [ADMIN]"
| "handler_roles (UserController_remove i) = Roles [ADMIN]"
| "handler_roles (UserController_assignRole i j) = Roles [ADMIN]"
| "handler_roles (UserController_removeRole i j) = Roles [ADMIN]"
| "handler_roles (UserController_setActive i b) = Roles [ADMIN]"
| "handler_roles r = None"

fun is_role_route :: "route \<Rightarrow> bool" where
  "is_role_route (RoleController_create dto) = True"
| "is_role_route RoleController_findAll = True"
| "is_role_route (RoleController_findOne i) = True"
| "is_role_route (RoleController_update i dto) = True"
| "is_role_route (RoleController_remove i) = True"
| "is_role_route (RoleController_addPermission i p) = True"
| "is_role_route (RoleController_removePermission i p) = True"
| "is_role_route r = False"

definition class_roles :: "route \<Rightarrow> role_meta option" where
  "class_roles r = (if is_role_route r then Roles [ADMIN] else None)"

definition required_role :: "route \<Rightarrow> role_meta option" where
  "required_role r = getAllAndOverride [handler_roles r, class_roles r]"

text \<open>\<open>@UseGuards\<close> of the controllers, and the \<open>APP_GUARD\<close> of the application.\<close>

datatype guard = JwtAuthGuard | RolesGuard

definition route_guards :: "route \<Rightarrow> guard list" where
  "route_guards r = (if r = AuthController_profile then [JwtAuthGuard] else [JwtAuthGuard, RolesGuard])"

definition app_guards :: "guard list" where
  "app_guards = [RolesGuard]"

section \<open>Serving a request\<close>

datatype reply =
    OneUser User
  | ManyUsers "User list"
  | OneRole Role
  | ManyRoles "Role list"
  | Profile AuthUserResponse
  | Nothing

definition reply_with :: "('a \<Rightarrow> reply) \<Rightarrow> ('s, 'a) op \<Rightarrow> ('s, reply) op" where
  "reply_with f m = bind_op m (\<lambda>a. ret (f a))"

text \<open>The check of \<open>findOne\<close> and \<open>update\<close>: one's own profile, or an administrator.\<close>

definition own_or_admin :: "User \<Rightarrow> string \<Rightarrow> string \<Rightarrow> ('s, 'a) op \<Rightarrow> ('s, 'a) op" where
  "own_or_admin me i msg m =
     (if u_role me \<noteq> Some ADMIN \<and> u_id me \<noteq> Some i then throw (ForbiddenException msg) else m)"

fun handle :: "(User, 's) repo \<Rightarrow> (Role, 's) repo \<Rightarrow> User \<Rightarrow> route \<Rightarrow> ('s, reply) op" where
  "handle UR RR me (UserController_create dto) = reply_with OneUser (UserService_create UR dto)"
| "handle UR RR me UserController_findAll = reply_with ManyUsers (UserService_findAll UR)"
| "handle UR RR me (UserController_findOne i) =
     own_or_admin me i ''You can only access your own profile'' (reply_with OneUser (UserService_findOne UR i))"
| "handle UR RR me (UserController_update i dto) =
     own_or_admin me i ''You can only update your own profile'' (reply_with OneUser (UserService_update UR i dto))"
| "handle UR RR me (UserController_remove i) = reply_with (\<lambda>_. Nothing) (UserService_remove UR i)"
| "handle UR RR me (UserController_assignRole i j) = reply_with OneUser (UserService_assignRole UR RR i j)"
| "handle UR RR me (UserController_removeRole i j) = reply_with OneUser (UserService_removeRole UR RR i j)"
| "handle UR RR me (UserController_setActive i b) = reply_with OneUser (UserService_setActive UR i b)"
| "handle UR RR me (RoleController_create dto) = reply_with OneRole (RoleService_create RR dto)"
| "handle UR RR me RoleController_findAll = reply_with ManyRoles (RoleService_findAll RR)"
| "handle UR RR me (RoleController_findOne i) = reply_with OneRole (RoleService_findOne RR i)"
| "handle UR RR me (RoleController_update i dto) = reply_with OneRole (RoleService_update RR i dto)"
| "handle UR RR me (RoleController_remove i) = reply_with (\<lambda>_. Nothing) (RoleService_remove RR i)"
| "handle UR RR me (RoleController_addPermission i p) = reply_with OneRole (RoleService_addPermission RR i p)"
| "handle UR RR me (RoleController_removePermission i p) = reply_with OneRole (RoleService_removePermission RR i p)"
| "handle UR RR me AuthController_profile = ret (Profile (AuthController_getProfile me))"

text \<open>
  The guards run one after the other and share \<open>request.user\<close>, which \<open>JwtAuthGuard\<close> sets;
  the first that throws ends the request.
\<close>

fun run_guards ::
  "(User, 's) repo \<Rightarrow> 's passport \<Rightarrow> nat \<Rightarrow> string option \<Rightarrow> role_meta option \<Rightarrow> guard list \<Rightarrow> User option \<Rightarrow>
   ('s, User option) op" where
  "run_guards UR PP now bearer required [] user = ret user"
| "run_guards UR PP now bearer required (JwtAuthGuard # gs) user = (\<lambda>s.
     case PP now bearer (JwtStrategy_validate UR) s of
       ((err, u), s') \<Rightarrow> (case handleRequest err u of
          Inl e \<Rightarrow> throw e s'
        | Inr u' \<Rightarrow> run_guards UR PP now bearer required gs (Some u') s'))"
| "run_guards UR PP now bearer required (RolesGuard # gs) user =
     (case RolesGuard_canActivate required user of
        Inl e \<Rightarrow> throw e
      | Inr True \<Rightarrow> run_guards UR PP now bearer required gs user
      | Inr False \<Rightarrow> throw (ForbiddenException ''Forbidden resource''))"

text \<open>
  \<open>order\<close> is the way NestJS combines the global guards with those of the route. A handler
  reads \<open>req.user\<close>, which is a \<open>TypeError\<close> when no guard has set it.
\<close>

definition dispatch ::
  "(User, 's) repo \<Rightarrow> (Role, 's) repo \<Rightarrow> 's passport \<Rightarrow> (guard list \<Rightarrow> guard list \<Rightarrow> guard list) \<Rightarrow> guard list \<Rightarrow>
   nat \<Rightarrow> string option \<Rightarrow> route \<Rightarrow> ('s, reply) op" where
  "dispatch UR RR PP order gs now bearer r =
     bind_op (run_guards UR PP now bearer (required_role r) (order gs (route_guards r)) None)
       (\<lambda>user. case user of
          None \<Rightarrow> throw (JsError ''TypeError'')
        | Some me \<Rightarrow> handle UR RR me r)"

section \<open>Lemmas\<close>

lemma required_role_cases:
  "required_role r = Some (RoleArray [ADMIN]) \<or>
   required_role r = None \<and> (r = AuthController_profile \<or> (\<exists>i. r = UserController_findOne i) \<or>
     (\<exists>i dto. r = UserController_update i dto))"
  by (cases r) (simp_all add: required_role_def getAllAndOverride_def Roles_def class_roles_def)

lemma RolesGuard_array:
  "RolesGuard_canActivate (Some (RoleArray rs)) user =
     (case user of None \<Rightarrow> Inl (UnauthorizedException ''User not authenticated'')
      | Some u \<Rightarrow> if u_role u = Some ADMIN then Inr True else Inl (ForbiddenException ''Insufficient permissions''))"
  by (auto simp: RolesGuard_canActivate_def split: option.split)

lemma passport_user:
  assumes "passport_jwt_laws J PP" "PP now bearer val s = ((err, u), s')" "handleRequest err u = Inr me"
  obtains t p where "bearer = Some t" "jwt_verify J now t = Inr p" "val p s = (Inr me, s')"
proof (cases bearer)
  case None
  with assms show ?thesis by (simp add: passport_jwt_laws_def handleRequest_def)
next
  case (Some t)
  show ?thesis
  proof (cases "jwt_verify J now t")
    case (Inl e)
    with Some assms show ?thesis by (auto simp: passport_jwt_laws_def handleRequest_def)
  next
    case (Inr p)
    obtain x s'' where v: "val p s = (x, s'')" by fastforce
    with Some Inr assms that show ?thesis
      by (cases x) (auto simp: passport_jwt_laws_def handleRequest_def)
  qed
qed

context gateway_db
begin

lemma strategy_user:
  assumes "JwtStrategy_validate UR p s = (Inr me, s')" "db_ok (urows s) (rrows s)"
  shows "s' = s" "me \<in> set (urows s)" "u_id me = Some (p_sub p)" "u_isActive me"
proof -
  from assms(2) have "s' = s \<and> me \<in> set (urows s) \<and> u_id me = Some (p_sub p) \<and> u_isActive me"
    by (cases rule: findOne_cases [where i = "p_sub p"])
      (use assms(1) in \<open>auto simp: JwtStrategy_validate_def bind_op_def throw_def ret_def split: if_splits\<close>)
  then show "s' = s" "me \<in> set (urows s)" "u_id me = Some (p_sub p)" "u_isActive me" by simp_all
qed

text \<open>The user that the guards leave in the request, and what is known of it.\<close>

lemma run_guards_user:
  assumes "run_guards UR PP now bearer req gs user s = (Inr (Some me), s')"
    and "passport_jwt_laws J PP" "db_ok (urows s) (rrows s)"
    and "user = None \<or> (\<exists>t p v. user = Some v \<and> bearer = Some t \<and> jwt_verify J now t = Inr p \<and>
       v \<in> set (urows s) \<and> u_id v = Some (p_sub p) \<and> u_isActive v)"
  shows "s' = s \<and> (\<exists>t p. bearer = Some t \<and> jwt_verify J now t = Inr p \<and>
     me \<in> set (urows s) \<and> u_id me = Some (p_sub p) \<and> u_isActive me)"
  using assms
proof (induction gs arbitrary: user s)
  case Nil
  then show ?case by (auto simp: ret_def)
next
  case (Cons g gs)
  show ?case
  proof (cases g)
    case JwtAuthGuard
    obtain err u s1 where pp: "PP now bearer (JwtStrategy_validate UR) s = ((err, u), s1)"
      by (metis prod.collapse)
    with Cons.prems(1) JwtAuthGuard obtain v where v: "handleRequest err u = Inr v"
      and rest: "run_guards UR PP now bearer req gs (Some v) s1 = (Inr (Some me), s')"
      by (auto simp: throw_def split: sum.splits)
    obtain t p where t: "bearer = Some t" "jwt_verify J now t = Inr p" "JwtStrategy_validate UR p s = (Inr v, s1)"
      using passport_user [OF Cons.prems(2) pp v] .
    note u = strategy_user [OF t(3) Cons.prems(3)]
    have "s1 = s" using u(1) .
    with Cons.IH [of "Some v" s] rest Cons.prems(2,3) t u show ?thesis by blast
  next
    case RolesGuard
    with Cons.prems(1) have "run_guards UR PP now bearer req gs user s = (Inr (Some me), s')"
      by (auto simp: throw_def split: sum.splits bool.splits)
    with Cons.IH Cons.prems(2-4) show ?thesis by blast
  qed
qed

end

lemma run_guards_roles_last:
  assumes "run_guards UR PP now bearer (Some (RoleArray rs)) (gs @ [RolesGuard]) user s = (Inr w, s')"
  shows "\<exists>me. w = Some me \<and> u_role me = Some ADMIN"
  using assms
proof (induction gs arbitrary: user s)
  case Nil
  then show ?case by (auto simp: RolesGuard_array throw_def ret_def split: option.splits if_splits)
next
  case (Cons g gs)
  then show ?case
    by (cases g) (auto simp: throw_def RolesGuard_array split: sum.splits bool.splits prod.splits option.splits if_splits)
qed


lemma Jwt_stored_user:
  assumes "gateway_db UR RR B U R" "db_ok (U s) (R s)" "passport_jwt_laws J PP"
    and "jwt_verify J now t = Inr p" "u \<in> set (U s)" "u_id u = Some (p_sub p)" "u_isActive u"
  shows "PP now (Some t) (JwtStrategy_validate UR) s = ((None, Some u), s)"
proof -
  have "JwtStrategy_validate UR p s = (Inr u, s)"
    using gateway_db.findOne_found [OF assms(1,2,5,6)] assms(7)
    by (simp add: JwtStrategy_validate_def bind_op_def ret_def)
  with assms(3,4) show ?thesis by (simp add: passport_jwt_laws_def)
qed

lemma keeps_db_reply: "keeps_db U R m \<Longrightarrow> keeps_db U R (reply_with f m)"
  by (fastforce simp: keeps_db_def reply_with_def bind_op_def ret_def)

lemma keeps_db_own: "keeps_db U R m \<Longrightarrow> keeps_db U R (own_or_admin me i msg m)"
  by (auto simp: own_or_admin_def keeps_db_def throw_def)

lemma keeps_db_reads:
  "keeps_db U R (UserService_findAll UR)" "keeps_db U R (RoleService_findAll RR)"
  "keeps_db U R (UserService_findOne UR i)" "keeps_db U R (RoleService_findOne RR i)" "keeps_db U R (ret x)"
  by (auto simp: keeps_db_def UserService_findAll_def RoleService_findAll_def UserService_findOne_def
      RoleService_findOne_def bind_op_def gets_op_def throw_def ret_def split: option.split)

lemma handle_keeps:
  assumes "gateway_db UR RR B U R"
  shows "keeps_db U R (handle UR RR me r)"
  by (cases r) (simp_all add: keeps_db_reply keeps_db_own keeps_db_reads gateway_db.service_keeps [OF assms])

lemma Jwt_validate_state: "snd (JwtStrategy_validate UR p s) = s"
  by (simp add: JwtStrategy_validate_def UserService_findOne_def bind_op_def gets_op_def throw_def ret_def
      split: option.split)

lemma passport_state:
  assumes "passport_jwt_laws J PP"
  shows "snd (PP now bearer (JwtStrategy_validate UR) s) = s"
proof (cases "case bearer of None \<Rightarrow> Inl undefined | Some t \<Rightarrow> jwt_verify J now t")
  case (Inl e)
  with assms show ?thesis by (auto simp: passport_jwt_laws_def split: option.splits)
next
  case (Inr p)
  then obtain t where t: "bearer = Some t" "jwt_verify J now t = Inr p" by (auto split: option.splits)
  obtain x where "JwtStrategy_validate UR p s = (x, s)"
    using Jwt_validate_state [of UR p s] by (metis prod.collapse)
  with t assms show ?thesis by (cases x) (auto simp: passport_jwt_laws_def)
qed

lemma run_guards_state:
  assumes "passport_jwt_laws J PP"
  shows "snd (run_guards UR PP now bearer req gs user s) = s"
proof (induction gs arbitrary: user)
  case Nil
  then show ?case by (simp add: ret_def)
next
  case (Cons g gs)
  then show ?case
    using passport_state [OF assms, of now bearer UR s]
    by (cases g) (auto simp: throw_def split: prod.splits sum.splits bool.splits)
qed

lemma dispatch_keeps:
  assumes "gateway_db UR RR B U R" "passport_jwt_laws J PP"
  shows "keeps_db U R (dispatch UR RR PP order gs now bearer r)"
proof (rule keeps_dbI)
  fix s assume ok: "db_ok (U s) (R s)"
  obtain x where x: "run_guards UR PP now bearer (required_role r) (order gs (route_guards r)) None s = (x, s)"
    using run_guards_state [OF assms(2)] by (metis prod.collapse)
  show "(\<exists>e. dispatch UR RR PP order gs now bearer r s = (Inl e, s)) \<or>
    (\<exists>a t. dispatch UR RR PP order gs now bearer r s = (Inr a, t) \<and> db_ok (U t) (R t))"
    using x handle_keeps [OF assms(1)] ok
    by (cases x) (auto simp: dispatch_def bind_op_def throw_def keeps_db_def split: option.split)
qed

section \<open>Properties\<close>

text \<open>Passport as documented, on a verifier, for the examples.\<close>

definition demo_passport :: "jwt \<Rightarrow> 's passport" where
  "demo_passport J now bearer val s =
     (case bearer of
        None \<Rightarrow> ((None, None), s)
      | Some t \<Rightarrow> (case jwt_verify J now t of
          Inl e \<Rightarrow> ((None, None), s)
        | Inr p \<Rightarrow> (case val p s of
            (Inl e, s') \<Rightarrow> ((Some e, None), s')
          | (Inr u, s') \<Rightarrow> ((None, Some u), s'))))"

lemma demo_passport_laws: "passport_jwt_laws J (demo_passport J)"
  by (auto simp: passport_jwt_laws_def demo_passport_def)

lemma demo_verifies: "jwt_verify demo_jwt 5 demo_token = Inr \<lparr>p_sub = ''k'', p_email = ''a@x.io'', p_role = Some USER\<rparr>"
  by (simp add: demo_jwt_def)

lemma demo_active: "u_isActive (load_user demo_tables (hd (users demo_tables)))"
  unfolding demo_tables_eq by (simp add: load_user_def)

text \<open>
  C2: Access control of the user and role routes, whatever global guards come first: a request is
  answered only if its bearer token verifies, the subject of the token is a stored and active
  user, and that user is an administrator or reads or updates its own account. A request that
  is refused or fails changes nothing.
\<close>

theorem access_control:
  assumes db: "gateway_db UR RR B U R" and ok: "db_ok (U s) (R s)" and pp: "passport_jwt_laws J PP"
    and order: "\<And>c. order gs c = gs @ c"
  shows "case dispatch UR RR PP order gs now bearer r s of
      (Inl e, s') \<Rightarrow> s' = s
    | (Inr a, s') \<Rightarrow> db_ok (U s') (R s') \<and> (\<exists>t p me. bearer = Some t \<and> jwt_verify J now t = Inr p \<and>
        me \<in> set (U s) \<and> u_id me = Some (p_sub p) \<and> u_isActive me \<and>
        (u_role me = Some ADMIN \<or> r = AuthController_profile \<or> r = UserController_findOne (p_sub p) \<or>
         (\<exists>dto. r = UserController_update (p_sub p) dto)))"
proof (cases "dispatch UR RR PP order gs now bearer r s")
  case (Pair x s')
  note keeps = keeps_dbD [OF dispatch_keeps [OF db pp, of order gs now bearer r] ok]
  show ?thesis
  proof (cases x)
    case (Inl e)
    with Pair keeps(2) [of e] show ?thesis by simp
  next
    case (Inr a)
    with Pair obtain me where me: "run_guards UR PP now bearer (required_role r) (gs @ route_guards r) None s = (Inr (Some me), s)"
      and h: "handle UR RR me r s = (Inr a, s')"
      using run_guards_state [OF pp, of UR now bearer "required_role r" "gs @ route_guards r" None s]
      by (auto simp: dispatch_def order bind_op_eq_Inr throw_def split: option.splits)
    then obtain t p where t: "bearer = Some t" "jwt_verify J now t = Inr p" "me \<in> set (U s)"
      "u_id me = Some (p_sub p)" "u_isActive me"
      using gateway_db.run_guards_user [OF db me pp ok] by auto
    have "u_role me = Some ADMIN \<or> r = AuthController_profile \<or> r = UserController_findOne (p_sub p) \<or>
         (\<exists>dto. r = UserController_update (p_sub p) dto)"
    proof (cases "required_role r")
      case None
      with required_role_cases [of r] h t(4) show ?thesis
        by (auto simp: own_or_admin_def throw_def split: if_splits)
    next
      case (Some m)
      then have "m = RoleArray [ADMIN]" "route_guards r = [JwtAuthGuard] @ [RolesGuard]"
        using required_role_cases [of r] by (auto simp: route_guards_def required_role_def getAllAndOverride_def class_roles_def)
      with run_guards_roles_last [of UR PP now bearer "[ADMIN]" "gs @ [JwtAuthGuard]" None s] me Some
      show ?thesis by auto
    qed
    with t keeps(1) Pair Inr show ?thesis by auto
  qed
qed

theorem access_control_witness:
  "\<exists>s'. dispatch (pg_users plain_bcrypt) pg_roles (demo_passport demo_jwt) (@) [] 5 (Some demo_token)
     (UserController_findOne ''other'') demo_tables = (Inl (ForbiddenException ''You can only access your own profile''), s') \<and>
     s' = demo_tables"
proof -
  let ?d = "dispatch (pg_users plain_bcrypt) pg_roles (demo_passport demo_jwt) (@) [] 5 (Some demo_token)
     (UserController_findOne ''other'') demo_tables"
  note jw = Jwt_stored_user [OF pg.gateway_db_axioms [of plain_bcrypt] demo_ok demo_passport_laws demo_verifies
      demo_user(1) _ demo_active]
  have role: "u_role (load_user demo_tables (hd (users demo_tables))) = Some USER"
    unfolding demo_tables_eq by (simp add: load_user_def)
  have "fst ?d = Inl (ForbiddenException ''You can only access your own profile'')"
    using jw demo_user(2) role
    by (simp add: dispatch_def route_guards_def bind_op_def handleRequest_def required_role_def getAllAndOverride_def
        class_roles_def RolesGuard_canActivate_def ret_def throw_def own_or_admin_def)
  with access_control [OF pg.gateway_db_axioms [of plain_bcrypt] demo_ok demo_passport_laws,
      where order = "(@)" and gs = "[]" and now = 5 and bearer = "Some demo_token"
      and r = "UserController_findOne ''other''" and J = demo_jwt]
  show ?thesis by (simp split: prod.splits)
qed

text \<open>
  The roles guard with the metadata of the \<open>@Roles\<close> decorator admits administrators and nobody
  else, whichever roles the decorator lists: a user whose role is listed is refused too.
\<close>

theorem roles_guard_admits_admins_only:
  "RolesGuard_canActivate (getAllAndOverride [Roles rs, cls]) user =
     (case user of
        None \<Rightarrow> Inl (UnauthorizedException ''User not authenticated'')
      | Some u \<Rightarrow> if u_role u = Some ADMIN then Inr True else Inl (ForbiddenException ''Insufficient permissions''))"
  by (simp add: getAllAndOverride_def Roles_def RolesGuard_array)

text \<open>
  In the application as \<open>app.module.ts\<close> assembles it, where NestJS runs the global guards before
  those of the controller, every route that requires a role answers \<open>401 User not authenticated\<close>
  to everybody, administrators with a valid token included, because the global roles guard
  runs before any guard has set the user of the request.
\<close>

theorem global_roles_guard_locks_out:
  assumes "order app_guards (route_guards r) = app_guards @ route_guards r" "required_role r \<noteq> None"
  shows "dispatch UR RR PP order app_guards now bearer r s = (Inl (UnauthorizedException ''User not authenticated''), s)"
proof -
  have "required_role r = Some (RoleArray [ADMIN])" using assms(2) required_role_cases [of r] by auto
  then show ?thesis
    using assms(1) by (simp add: dispatch_def app_guards_def RolesGuard_array bind_op_def throw_def)
qed

theorem global_roles_guard_locks_out_witness:
  "dispatch (pg_users plain_bcrypt) pg_roles (demo_passport demo_jwt) (@) app_guards 5 (Some demo_token)
     UserController_findAll demo_tables = (Inl (UnauthorizedException ''User not authenticated''), demo_tables)"
  by (rule global_roles_guard_locks_out)
    (simp_all add: required_role_def getAllAndOverride_def Roles_def class_roles_def)

text \<open>
  Any active user can make itself an administrator: the update of one's own account takes a
  role, and the account is then stored with it.
\<close>

theorem user_can_promote_itself:
  assumes db: "gateway_db UR RR B U R" and ok: "db_ok (U s) (R s)" and pp: "passport_jwt_laws J PP"
    and order: "\<And>c. order gs c = gs @ c" and gs: "gs = [] \<or> gs = app_guards"
    and tok: "jwt_verify J now t = Inr p" and u: "u \<in> set (U s)" "u_id u = Some (p_sub p)" "u_isActive u"
  shows "\<exists>v s'. dispatch UR RR PP order gs now (Some t) (UserController_update (p_sub p)
      \<lparr>uu_email = None, uu_password = None, uu_name = None, uu_role = Some ADMIN\<rparr>) s = (Inr (OneUser v), s') \<and>
    (\<exists>w \<in> set (U s'). u_id w = Some (p_sub p) \<and> u_role w = Some ADMIN)"
proof -
  let ?dto = "\<lparr>uu_email = None, uu_password = None, uu_name = None, uu_role = Some ADMIN\<rparr>"
  obtain w s' where w: "UserService_update UR (p_sub p) ?dto s = (Inr (assign_user u ?dto), s')"
    "same_user (assign_user u ?dto) w" "w \<in> set (U s')"
    by (rule gateway_db.update_own_email [OF db ok u(1,2), of ?dto]) auto
  have "required_role (UserController_update (p_sub p) ?dto) = None"
    by (simp add: required_role_def getAllAndOverride_def class_roles_def)
  then have "dispatch UR RR PP order gs now (Some t) (UserController_update (p_sub p) ?dto) s =
      (Inr (OneUser (assign_user u ?dto)), s')"
    using gs w(1) u(2) Jwt_stored_user [OF db ok pp tok u]
    by (auto simp: dispatch_def order app_guards_def route_guards_def RolesGuard_canActivate_def bind_op_def ret_def
        handleRequest_def own_or_admin_def reply_with_def)
  moreover have "u_id w = Some (p_sub p)" "u_role w = Some ADMIN"
    using same_userD [OF w(2)] u(2) by (simp_all add: assign_user_def)
  ultimately show ?thesis using w(3) by blast
qed

theorem user_can_promote_itself_witness:
  "\<exists>v s'. dispatch (pg_users plain_bcrypt) pg_roles (demo_passport demo_jwt) (@) app_guards 5 (Some demo_token)
     (UserController_update ''k'' \<lparr>uu_email = None, uu_password = None, uu_name = None, uu_role = Some ADMIN\<rparr>)
     demo_tables = (Inr (OneUser v), s')"
  using user_can_promote_itself [OF pg.gateway_db_axioms [of plain_bcrypt] demo_ok demo_passport_laws _ _ demo_verifies
      demo_user(1) _ demo_active, of "(@)" app_guards] demo_user(2)
  by auto

text \<open>
  The routes behind the JWT guard do not look at the invalidated tokens: after a token has been
  logged out, \<open>validate-token\<close> refuses it and \<open>GET /auth/profile\<close> still answers with the profile
  of its user.
\<close>

theorem profile_survives_logout:
  assumes db: "gateway_db UR RR B U R" and ok: "db_ok (U (store a)) (R (store a))" and pp: "passport_jwt_laws J PP"
    and order: "\<And>c. order [] c = c" and tok: "jwt_verify J now t = Inr p"
    and u: "u \<in> set (U (store a))" "u_id u = Some (p_sub p)" "u_isActive u"
  shows "let a' = snd (AuthController_logout J now t a) in
     AuthController_validateToken UR J now t a' = invalid_token \<and>
     dispatch UR RR PP order [] now (Some t) AuthController_profile (store a') =
       (Inr (Profile (user_response u)), store a')"
proof -
  have st: "store (snd (AuthController_logout J now t a)) = store a"
    by (simp add: AuthController_logout_def invalidateToken_def)
  have "AuthController_validateToken UR J now t (snd (AuthController_logout J now t a)) = invalid_token"
    using logged_out [of t J now a]
    by (auto simp: AuthController_validateToken_def isTokenInvalidated_def validateToken_dead)
  moreover have "dispatch UR RR PP order [] now (Some t) AuthController_profile (store a) =
       (Inr (Profile (user_response u)), store a)"
    using Jwt_stored_user [OF db ok pp tok u]
    by (simp add: dispatch_def order route_guards_def bind_op_def handleRequest_def ret_def AuthController_getProfile_def)
  ultimately show ?thesis by (simp add: st)
qed

theorem profile_survives_logout_witness:
  "AuthController_validateToken (pg_users plain_bcrypt) demo_jwt 5 demo_token
     (snd (AuthController_logout demo_jwt 5 demo_token demo_state)) = invalid_token"
  using profile_survives_logout [OF pg.gateway_db_axioms [of plain_bcrypt] _ demo_passport_laws _ demo_verifies,
      of demo_state "\<lambda>g c. g @ c" "load_user demo_tables (hd (users demo_tables))"]
    demo_ok demo_user(1,2) demo_active
  by (simp add: demo_state_def Let_def)

end
