(* ===== verification/JS_Value.thy ===== *)
theory JS_Value
  imports Complex_Main "HOL-Library.Log_Nat" Synkro_Prelude
begin

text \<open>
  The values that the dashboard's TypeScript handles as \<open>any\<close>: what \<open>JSON.parse\<close> returns and
  what the code builds from it, with the operators the code applies to them. Numbers are
  IEEE 754 double precision (\<open>fl\<close> rounds to the nearest double, ties to even; the two zeros
  are one value). An object lists its properties in the order of \<open>Object.keys\<close>; an array
  may carry named properties besides its elements. The parts of the engine that only turn
  strings into numbers or dates and back, and the order in which \<open>sort\<close> compares, are the fields
  of \<open>js_env\<close>.
\<close>

section \<open>Numbers\<close>

datatype jsnum = Fin rat | NaN | PosInf | NegInf

definition exp2 :: "int \<Rightarrow> rat" where
  "exp2 e = (if 0 \<le> e then 2 ^ nat e else 1 / 2 ^ nat (- e))"

text \<open>The exponent of a positive rational: \<open>exp2 e \<le> x < exp2 (e + 1)\<close>.\<close>

definition ilog2 :: "rat \<Rightarrow> int" where
  "ilog2 x = (case quotient_of x of (n, d) \<Rightarrow>
     let e = int (floorlog 2 (nat n)) - int (floorlog 2 (nat d))
     in if exp2 e \<le> x then e else e - 1)"

definition round_half_even :: "rat \<Rightarrow> int" where
  "round_half_even x =
     (let f = \<lfloor>x\<rfloor>; r = x - of_int f
      in if r < 1 / 2 then f else if 1 / 2 < r then f + 1 else if even f then f else f + 1)"

definition fl :: "rat \<Rightarrow> jsnum" where
  "fl x =
     (if x = 0 then Fin 0
      else let u = exp2 (max (ilog2 \<bar>x\<bar> - 52) (- 1074));
               r = of_int (round_half_even (x / u)) * u
           in if 2 ^ 1024 \<le> r then PosInf else if r \<le> - (2 ^ 1024) then NegInf else Fin r)"

fun num_neg :: "jsnum \<Rightarrow> jsnum" where
  "num_neg (Fin x) = Fin (- x)"
| "num_neg NaN = NaN"
| "num_neg PosInf = NegInf"
| "num_neg NegInf = PosInf"

fun num_add :: "jsnum \<Rightarrow> jsnum \<Rightarrow> jsnum" where
  "num_add (Fin x) (Fin y) = fl (x + y)"
| "num_add NaN b = NaN"
| "num_add a NaN = NaN"
| "num_add PosInf NegInf = NaN"
| "num_add NegInf PosInf = NaN"
| "num_add PosInf b = PosInf"
| "num_add NegInf b = NegInf"
| "num_add a PosInf = PosInf"
| "num_add a NegInf = NegInf"

definition num_sub :: "jsnum \<Rightarrow> jsnum \<Rightarrow> jsnum" where
  "num_sub a b = num_add a (num_neg b)"

fun num_sgn :: "jsnum \<Rightarrow> int" where
  "num_sgn (Fin x) = (if 0 < x then 1 else if x < 0 then - 1 else 0)"
| "num_sgn PosInf = 1"
| "num_sgn NegInf = - 1"
| "num_sgn NaN = 0"

definition inf_of_sgn :: "int \<Rightarrow> jsnum" where
  "inf_of_sgn i = (if 0 < i then PosInf else if i < 0 then NegInf else NaN)"

fun num_mul :: "jsnum \<Rightarrow> jsnum \<Rightarrow> jsnum" where
  "num_mul (Fin x) (Fin y) = fl (x * y)"
| "num_mul NaN b = NaN"
| "num_mul a NaN = NaN"
| "num_mul a b = inf_of_sgn (num_sgn a * num_sgn b)"

text \<open>The code divides by positive numbers only.\<close>

fun num_div :: "jsnum \<Rightarrow> jsnum \<Rightarrow> jsnum" where
  "num_div (Fin x) (Fin y) = (if y = 0 then inf_of_sgn (num_sgn (Fin x)) else fl (x / y))"
| "num_div NaN b = NaN"
| "num_div a NaN = NaN"
| "num_div a (Fin y) = inf_of_sgn (num_sgn a * (if y < 0 then - 1 else 1))"
| "num_div (Fin x) b = Fin 0"
| "num_div a b = NaN"

fun num_lt :: "jsnum \<Rightarrow> jsnum \<Rightarrow> bool" where
  "num_lt (Fin x) (Fin y) = (x < y)"
| "num_lt NaN b = False"
| "num_lt a NaN = False"
| "num_lt PosInf b = False"
| "num_lt a NegInf = False"
| "num_lt NegInf b = True"
| "num_lt a PosInf = True"

definition Math_min :: "jsnum \<Rightarrow> jsnum \<Rightarrow> jsnum" where
  "Math_min a b = (if a = NaN \<or> b = NaN then NaN else if num_lt b a then b else a)"

definition Math_max :: "jsnum \<Rightarrow> jsnum \<Rightarrow> jsnum" where
  "Math_max a b = (if a = NaN \<or> b = NaN then NaN else if num_lt a b then b else a)"

fun Math_round :: "jsnum \<Rightarrow> jsnum" where
  "Math_round (Fin x) = Fin (of_int \<lfloor>x + 1 / 2\<rfloor>)"
| "Math_round a = a"

fun Math_floor :: "jsnum \<Rightarrow> jsnum" where
  "Math_floor (Fin x) = Fin (of_int \<lfloor>x\<rfloor>)"
| "Math_floor a = a"

section \<open>Values\<close>

datatype jsval =
    JUndef
  | JNull
  | JBool bool
  | JNum jsnum
  | JStr string
  | JArr "jsval list" "(string \<times> jsval) list"
  | JObj "(string \<times> jsval) list"

abbreviation arr :: "jsval list \<Rightarrow> jsval" where
  "arr xs \<equiv> JArr xs []"

abbreviation int_val :: "int \<Rightarrow> jsval" where
  "int_val i \<equiv> JNum (Fin (of_int i))"

text \<open>A decimal literal stands for the nearest double.\<close>

definition dec :: "rat \<Rightarrow> jsval" where
  "dec x = JNum (fl x)"

record js_env =
  numToString :: "jsnum \<Rightarrow> string"
  strToNumber :: "string \<Rightarrow> jsnum"
  parseFloat :: "string \<Rightarrow> jsnum"
  Date_parse :: "string \<Rightarrow> jsnum"
  js_sort :: "(jsval \<Rightarrow> jsval \<Rightarrow> exn + jsnum) \<Rightarrow> jsval list \<Rightarrow> exn + jsval list"

type_synonym 'a js = "exn + 'a"

abbreviation TypeError :: exn where
  "TypeError \<equiv> JsError ''TypeError''"

abbreviation RangeError :: exn where
  "RangeError \<equiv> JsError ''RangeError''"

definition js_bind :: "'a js \<Rightarrow> ('a \<Rightarrow> 'b js) \<Rightarrow> 'b js" where
  "js_bind m f = (case m of Inl e \<Rightarrow> Inl e | Inr a \<Rightarrow> f a)"

lemma js_bind_simps [simp]: "js_bind (Inl e) f = Inl e" "js_bind (Inr a) f = f a"
  by (simp_all add: js_bind_def)

lemma js_bind_eq_Inr: "js_bind m f = Inr b \<longleftrightarrow> (\<exists>a. m = Inr a \<and> f a = Inr b)"
  by (cases m) simp_all

lemma js_bind_cong [fundef_cong]:
  "m = m' \<Longrightarrow> (\<And>a. m' = Inr a \<Longrightarrow> f a = f' a) \<Longrightarrow> js_bind m f = js_bind m' f'"
  by (cases m') simp_all

fun js_map :: "('a \<Rightarrow> 'b js) \<Rightarrow> 'a list \<Rightarrow> 'b list js" where
  "js_map f [] = Inr []"
| "js_map f (x # xs) = js_bind (f x) (\<lambda>y. js_bind (js_map f xs) (\<lambda>ys. Inr (y # ys)))"

lemma js_map_cong [fundef_cong]:
  "xs = ys \<Longrightarrow> (\<And>x. x \<in> set ys \<Longrightarrow> f x = g x) \<Longrightarrow> js_map f xs = js_map g ys"
  by (induction ys arbitrary: xs) simp_all

fun js_find :: "('a \<Rightarrow> bool js) \<Rightarrow> 'a list \<Rightarrow> 'a option js" where
  "js_find p [] = Inr None"
| "js_find p (x # xs) = js_bind (p x) (\<lambda>b. if b then Inr (Some x) else js_find p xs)"

fun js_filter :: "('a \<Rightarrow> bool js) \<Rightarrow> 'a list \<Rightarrow> 'a list js" where
  "js_filter p [] = Inr []"
| "js_filter p (x # xs) =
     js_bind (p x) (\<lambda>b. js_bind (js_filter p xs) (\<lambda>ys. Inr (if b then x # ys else ys)))"

fun js_reduce :: "('b \<Rightarrow> 'a \<Rightarrow> 'b js) \<Rightarrow> 'a list \<Rightarrow> 'b \<Rightarrow> 'b js" where
  "js_reduce f [] acc = Inr acc"
| "js_reduce f (x # xs) acc = js_bind (f acc x) (\<lambda>acc'. js_reduce f xs acc')"

text \<open>Calls that never fail.\<close>

lemma js_map_pure: "(\<And>x. x \<in> set xs \<Longrightarrow> f x = Inr (g x)) \<Longrightarrow> js_map f xs = Inr (map g xs)"
  by (induction xs) simp_all

lemma js_find_pure: "(\<And>x. x \<in> set xs \<Longrightarrow> p x = Inr (P x)) \<Longrightarrow> js_find p xs = Inr (List.find P xs)"
  by (induction xs) simp_all

lemma js_filter_pure: "(\<And>x. x \<in> set xs \<Longrightarrow> p x = Inr (P x)) \<Longrightarrow> js_filter p xs = Inr (filter P xs)"
  by (induction xs) simp_all

section \<open>Operators\<close>

fun js_truthy :: "jsval \<Rightarrow> bool" where
  "js_truthy JUndef = False"
| "js_truthy JNull = False"
| "js_truthy (JBool b) = b"
| "js_truthy (JNum n) = (n \<noteq> NaN \<and> n \<noteq> Fin 0)"
| "js_truthy (JStr s) = (s \<noteq> [])"
| "js_truthy (JArr xs ps) = True"
| "js_truthy (JObj ps) = True"

definition js_or :: "jsval \<Rightarrow> jsval \<Rightarrow> jsval" where
  "js_or a b = (if js_truthy a then a else b)"

fun index_string :: "nat \<Rightarrow> string" where
  "index_string n =
     (if n < 10 then [char_of (48 + n)] else index_string (n div 10) @ [char_of (48 + n mod 10)])"

declare index_string.simps [simp del]

definition find_index :: "string \<Rightarrow> nat \<Rightarrow> nat option" where
  "find_index k n = List.find (\<lambda>i. index_string i = k) [0..<n]"

definition prop_lookup :: "(string \<times> jsval) list \<Rightarrow> string \<Rightarrow> jsval" where
  "prop_lookup ps k = (case map_of ps k of None \<Rightarrow> JUndef | Some v \<Rightarrow> v)"

text \<open>\<open>v.k\<close> and \<open>v[k]\<close>.\<close>

fun js_get :: "jsval \<Rightarrow> string \<Rightarrow> jsval js" where
  "js_get JUndef k = Inl TypeError"
| "js_get JNull k = Inl TypeError"
| "js_get (JBool b) k = Inr JUndef"
| "js_get (JNum n) k = Inr JUndef"
| "js_get (JStr s) k =
     Inr (if k = ''length'' then int_val (int (length s))
          else case find_index k (length s) of None \<Rightarrow> JUndef | Some i \<Rightarrow> JStr [s ! i])"
| "js_get (JArr xs ps) k =
     Inr (if k = ''length'' then int_val (int (length xs))
          else case find_index k (length xs) of None \<Rightarrow> prop_lookup ps k | Some i \<Rightarrow> xs ! i)"
| "js_get (JObj ps) k = Inr (prop_lookup ps k)"

fun props_put :: "(string \<times> jsval) list \<Rightarrow> string \<Rightarrow> jsval \<Rightarrow> (string \<times> jsval) list" where
  "props_put [] k v = [(k, v)]"
| "props_put (p # ps) k v = (if fst p = k then (k, v) # ps else p # props_put ps k v)"

definition props_delete :: "(string \<times> jsval) list \<Rightarrow> string \<Rightarrow> (string \<times> jsval) list" where
  "props_delete ps k = filter (\<lambda>p. fst p \<noteq> k) ps"

text \<open>\<open>v.k = w\<close> and \<open>delete v.k\<close> for the named properties of the code; modules are strict code, where
  a primitive has no properties to assign.\<close>

fun js_put :: "jsval \<Rightarrow> string \<Rightarrow> jsval \<Rightarrow> jsval js" where
  "js_put (JObj ps) k v = Inr (JObj (props_put ps k v))"
| "js_put (JArr xs ps) k v = Inr (JArr xs (props_put ps k v))"
| "js_put w k v = Inl TypeError"

fun js_delete :: "jsval \<Rightarrow> string \<Rightarrow> jsval js" where
  "js_delete (JObj ps) k = Inr (JObj (props_delete ps k))"
| "js_delete (JArr xs ps) k = Inr (JArr xs (props_delete ps k))"
| "js_delete JUndef k = Inl TypeError"
| "js_delete JNull k = Inl TypeError"
| "js_delete w k = Inr w"

fun Object_keys :: "jsval \<Rightarrow> string list js" where
  "Object_keys JUndef = Inl TypeError"
| "Object_keys JNull = Inl TypeError"
| "Object_keys (JStr s) = Inr (map index_string [0..<length s])"
| "Object_keys (JArr xs ps) = Inr (map index_string [0..<length xs] @ map fst ps)"
| "Object_keys (JObj ps) = Inr (map fst ps)"
| "Object_keys v = Inr []"

text \<open>
  Conversions. An object has the default \<open>toString\<close>, unless a property of that name shadows it,
  which makes the conversion fail since no value here is a function.
\<close>

fun js_toString :: "js_env \<Rightarrow> jsval \<Rightarrow> string js" where
  "js_toString E JUndef = Inr ''undefined''"
| "js_toString E JNull = Inr ''null''"
| "js_toString E (JBool b) = Inr (if b then ''true'' else ''false'')"
| "js_toString E (JNum n) = Inr (numToString E n)"
| "js_toString E (JStr s) = Inr s"
| "js_toString E (JArr xs ps) =
     (if map_of ps ''toString'' \<noteq> None \<or> map_of ps ''join'' \<noteq> None then Inl TypeError
      else js_bind (js_map (\<lambda>x. if x = JUndef \<or> x = JNull then Inr [] else js_toString E x) xs)
        (\<lambda>ss. Inr (join_with (CHR '','') ss)))"
| "js_toString E (JObj ps) = (if map_of ps ''toString'' \<noteq> None then Inl TypeError else Inr ''[object Object]'')"

fun is_object :: "jsval \<Rightarrow> bool" where
  "is_object (JArr xs ps) = True"
| "is_object (JObj ps) = True"
| "is_object v = False"

fun js_toNumber :: "js_env \<Rightarrow> jsval \<Rightarrow> jsnum js" where
  "js_toNumber E JUndef = Inr NaN"
| "js_toNumber E JNull = Inr (Fin 0)"
| "js_toNumber E (JBool b) = Inr (Fin (if b then 1 else 0))"
| "js_toNumber E (JNum n) = Inr n"
| "js_toNumber E (JStr s) = Inr (strToNumber E s)"
| "js_toNumber E v = js_bind (js_toString E v) (\<lambda>s. Inr (strToNumber E s))"

definition js_toPrimitive :: "js_env \<Rightarrow> jsval \<Rightarrow> jsval js" where
  "js_toPrimitive E v = (if is_object v then js_bind (js_toString E v) (\<lambda>s. Inr (JStr s)) else Inr v)"

fun is_str :: "jsval \<Rightarrow> bool" where
  "is_str (JStr s) = True"
| "is_str v = False"

fun is_num :: "jsval \<Rightarrow> bool" where
  "is_num (JNum n) = True"
| "is_num v = False"

text \<open>\<open>a + b\<close>, \<open>a - b\<close>, \<open>a * b\<close> and \<open>a > 0\<close>.\<close>

definition js_plus :: "js_env \<Rightarrow> jsval \<Rightarrow> jsval \<Rightarrow> jsval js" where
  "js_plus E a b =
     js_bind (js_toPrimitive E a) (\<lambda>p. js_bind (js_toPrimitive E b) (\<lambda>q.
       if is_str p \<or> is_str q
       then js_bind (js_toString E p) (\<lambda>s. js_bind (js_toString E q) (\<lambda>t. Inr (JStr (s @ t))))
       else js_bind (js_toNumber E p) (\<lambda>x. js_bind (js_toNumber E q) (\<lambda>y. Inr (JNum (num_add x y))))))"

definition js_minus :: "js_env \<Rightarrow> jsval \<Rightarrow> jsval \<Rightarrow> jsnum js" where
  "js_minus E a b = js_bind (js_toNumber E a) (\<lambda>x. js_bind (js_toNumber E b) (\<lambda>y. Inr (num_sub x y)))"

definition js_times :: "js_env \<Rightarrow> jsval \<Rightarrow> jsval \<Rightarrow> jsnum js" where
  "js_times E a b = js_bind (js_toNumber E a) (\<lambda>x. js_bind (js_toNumber E b) (\<lambda>y. Inr (num_mul x y)))"

definition js_positive :: "js_env \<Rightarrow> jsval \<Rightarrow> bool js" where
  "js_positive E a = js_bind (js_toNumber E a) (\<lambda>x. Inr (num_lt (Fin 0) x))"

text \<open>\<open>typeof v === "number" || !isNaN(parseFloat(v))\<close> and
  \<open>typeof v === "string" && !isNaN(Date.parse(v))\<close>.\<close>

definition is_numeric :: "js_env \<Rightarrow> jsval \<Rightarrow> bool js" where
  "is_numeric E v =
     (if is_num v then Inr True else js_bind (js_toString E v) (\<lambda>s. Inr (parseFloat E s \<noteq> NaN)))"

fun is_date_string :: "js_env \<Rightarrow> jsval \<Rightarrow> bool" where
  "is_date_string E (JStr s) = (Date_parse E s \<noteq> NaN)"
| "is_date_string E v = False"

text \<open>
  \<open>JSON.parse(JSON.stringify(v))\<close> for a value that is not \<open>undefined\<close>: undefined properties are
  dropped, undefined elements and numbers that are not finite become \<open>null\<close>, the named
  properties of an array are lost.
\<close>

primrec json_clone :: "jsval \<Rightarrow> jsval" where
  "json_clone JUndef = JUndef"
| "json_clone JNull = JNull"
| "json_clone (JBool b) = JBool b"
| "json_clone (JNum n) = (case n of Fin x \<Rightarrow> JNum (Fin x) | _ \<Rightarrow> JNull)"
| "json_clone (JStr s) = JStr s"
| "json_clone (JArr xs ps) = JArr (map (\<lambda>x. if x = JUndef then JNull else x) (map json_clone xs)) []"
| "json_clone (JObj ps) = JObj (filter (\<lambda>p. snd p \<noteq> JUndef) (map (map_prod id json_clone) ps))"

text \<open>\<open>v?.k\<close>\<close>

definition optional_get :: "jsval \<Rightarrow> string \<Rightarrow> jsval" where
  "optional_get v k = (case js_get v k of Inl e \<Rightarrow> JUndef | Inr x \<Rightarrow> x)"

text \<open>\<open>===\<close> between values of different places: a number is not equal to itself when it is not a number, and two objects are never
  the same.\<close>

definition strict_eq :: "jsval \<Rightarrow> jsval \<Rightarrow> bool" where
  "strict_eq x y \<longleftrightarrow> x = y \<and> x \<noteq> JNum NaN \<and> \<not> is_object x"

text \<open>\<open>new Date(v).getTime()\<close>\<close>

definition date_time :: "js_env \<Rightarrow> jsval \<Rightarrow> jsnum js" where
  "date_time E v =
     js_bind (js_toPrimitive E v) (\<lambda>p. case p of JStr s \<Rightarrow> Inr (Date_parse E s) | _ \<Rightarrow> js_toNumber E p)"

section \<open>Laws of properties and of the copy through JSON\<close>

lemma prop_lookup_list [simp]:
  "prop_lookup [] l = JUndef" "prop_lookup ((k, v) # ps) l = (if l = k then v else prop_lookup ps l)"
  by (simp_all add: prop_lookup_def)

lemma prop_lookup_put [simp]: "prop_lookup (props_put ps k v) l = (if l = k then v else prop_lookup ps l)"
  by (induction ps k v rule: props_put.induct) (auto simp: prop_lookup_def)

lemma prop_lookup_delete [simp]: "prop_lookup (props_delete ps k) l = (if l = k then JUndef else prop_lookup ps l)"
  by (induction ps) (auto simp: prop_lookup_def props_delete_def)

lemma props_put_put [simp]: "props_put (props_put ps k v) k w = props_put ps k w"
  by (induction ps k v rule: props_put.induct) auto

lemma props_put_same: "map_of ps k = Some v \<Longrightarrow> props_put ps k v = ps"
  by (induction ps) auto

lemma map_of_props_put [simp]: "map_of (props_put ps k v) l = (if l = k then Some v else map_of ps l)"
  by (induction ps k v rule: props_put.induct) auto

lemma set_props_put: "set (props_put ps k v) \<subseteq> insert (k, v) (set ps)"
  by (induction ps k v rule: props_put.induct) auto

lemma json_clone_undef [simp]: "json_clone v = JUndef \<longleftrightarrow> v = JUndef"
  by (cases v) (auto split: jsnum.splits)

lemma json_clone_idem [simp]: "json_clone (json_clone v) = json_clone v"
proof (induction v)
  case (JArr xs ps)
  then show ?case by (auto simp: comp_def)
next
  case (JObj ps)
  have "\<forall>p \<in> set ps. json_clone (json_clone (snd p)) = json_clone (snd p)"
    using JObj by (auto simp: Basic_BNFs.snds.simps)
  then have "filter (\<lambda>p. snd p \<noteq> JUndef) (map (map_prod id json_clone) (filter (\<lambda>p. snd p \<noteq> JUndef) (map (map_prod id json_clone) ps))) =
    filter (\<lambda>p. snd p \<noteq> JUndef) (map (map_prod id json_clone) ps)"
    by (induction ps) auto
  then show ?case by simp
qed (auto split: jsnum.split)

text \<open>A property list that the copy through JSON leaves alone.\<close>

definition props_fixed :: "(string \<times> jsval) list \<Rightarrow> bool" where
  "props_fixed ps \<longleftrightarrow> (\<forall>(k, v) \<in> set ps. v \<noteq> JUndef \<and> json_clone v = v)"

lemma json_clone_fixed: "props_fixed ps \<Longrightarrow> json_clone (JObj ps) = JObj ps"
  by (induction ps) (auto simp: props_fixed_def)

lemma props_fixed_put: "props_fixed ps \<Longrightarrow> v \<noteq> JUndef \<Longrightarrow> json_clone v = v \<Longrightarrow> props_fixed (props_put ps k v)"
  using set_props_put [of ps k v] by (fastforce simp: props_fixed_def)

lemma props_fixed_delete: "props_fixed ps \<Longrightarrow> props_fixed (props_delete ps k)"
  by (auto simp: props_fixed_def props_delete_def)

lemma props_fixed_clone:
  "props_fixed (filter (\<lambda>p. snd p \<noteq> JUndef) (map (map_prod id json_clone) ps))"
  by (auto simp: props_fixed_def)

lemma map_of_json_clone:
  "map_of ps k = Some v \<Longrightarrow> v \<noteq> JUndef \<Longrightarrow>
   map_of (filter (\<lambda>p. snd p \<noteq> JUndef) (map (map_prod id json_clone) ps)) k = Some (json_clone v)"
  by (induction ps) auto

lemma props_fixed_lookup: "props_fixed ps \<Longrightarrow> json_clone (prop_lookup ps k) = prop_lookup ps k"
  by (auto simp: props_fixed_def prop_lookup_def split: option.split dest: map_of_SomeD)

lemma js_truthy_undef: "js_truthy v \<Longrightarrow> v \<noteq> JUndef"
  by auto

lemma index_string_0 [simp]: "index_string 0 = ''0''"
  by code_simp

lemma find_index_0 [simp]: "find_index ''0'' n = (if n = 0 then None else Some 0)"
proof (cases n)
  case (Suc m)
  then have "[0..<n] = 0 # [1..<n]" by (simp add: upt_conv_Cons)
  then show ?thesis using Suc by (simp add: find_index_def del: upt_Suc)
qed (simp add: find_index_def)

section \<open>Sorting\<close>

text \<open>What ECMAScript promises of \<open>sort\<close>: a comparator that is consistent with an order sorts by that
  order, and stably.\<close>

definition consistent :: "(jsval \<Rightarrow> jsval \<Rightarrow> jsnum js) \<Rightarrow> (jsval \<Rightarrow> rat) \<Rightarrow> jsval list \<Rightarrow> bool" where
  "consistent cmp k xs \<longleftrightarrow> (\<forall>x \<in> set xs. \<forall>y \<in> set xs. \<exists>n. cmp x y = Inr n \<and> n \<noteq> NaN \<and>
     (num_lt (Fin 0) n \<longleftrightarrow> k y < k x) \<and> (num_lt n (Fin 0) \<longleftrightarrow> k x < k y))"

definition sort_law :: "js_env \<Rightarrow> bool" where
  "sort_law E \<longleftrightarrow> (\<forall>cmp k xs. consistent cmp k xs \<longrightarrow> js_sort E cmp xs = Inr (sort_key k xs))"

text \<open>An engine for the examples, which sorts by insertion.\<close>

fun js_insert :: "(jsval \<Rightarrow> jsval \<Rightarrow> jsnum js) \<Rightarrow> jsval \<Rightarrow> jsval list \<Rightarrow> jsval list js" where
  "js_insert cmp x [] = Inr [x]"
| "js_insert cmp x (y # ys) = js_bind (cmp x y) (\<lambda>n.
     if num_lt (Fin 0) n then js_bind (js_insert cmp x ys) (\<lambda>zs. Inr (y # zs)) else Inr (x # y # ys))"

fun js_insertion_sort :: "(jsval \<Rightarrow> jsval \<Rightarrow> jsnum js) \<Rightarrow> jsval list \<Rightarrow> jsval list js" where
  "js_insertion_sort cmp [] = Inr []"
| "js_insertion_sort cmp (x # xs) = js_bind (js_insertion_sort cmp xs) (js_insert cmp x)"

definition demo_env :: js_env where
  "demo_env = \<lparr>numToString = (\<lambda>n. ''0''), strToNumber = (\<lambda>s. if s = [] then Fin 0 else NaN),
     parseFloat = (\<lambda>s. NaN), Date_parse = (\<lambda>s. if s = ''2023-01-01'' then Fin 1672531200000 else NaN),
     js_sort = js_insertion_sort\<rparr>"

lemma js_insert_key:
  "consistent cmp k (x # ys) \<Longrightarrow> js_insert cmp x ys = Inr (insort_key k x ys)"
proof (induction ys)
  case (Cons y ys)
  then have "js_insert cmp x ys = Inr (insort_key k x ys)" by (simp add: consistent_def)
  moreover obtain n where "cmp x y = Inr n" "num_lt (Fin 0) n \<longleftrightarrow> k y < k x"
    using Cons.prems by (auto simp: consistent_def)
  ultimately show ?case by (simp add: not_less)
qed simp

lemma js_insertion_sort_key: "consistent cmp k xs \<Longrightarrow> js_insertion_sort cmp xs = Inr (sort_key k xs)"
proof (induction xs)
  case (Cons x xs)
  then have "js_insertion_sort cmp xs = Inr (sort_key k xs)" by (simp add: consistent_def)
  moreover have "consistent cmp k (x # sort_key k xs)" using Cons.prems by (simp add: consistent_def)
  ultimately show ?case by (simp add: js_insert_key)
qed simp

lemma demo_sort_law: "sort_law demo_env"
  by (simp add: sort_law_def demo_env_def js_insertion_sort_key)

lemma insort_key_map: "insort_key k (f x) (map f xs) = map f (insort_key (\<lambda>x. k (f x)) x xs)"
  by (induction xs) auto

lemma sort_key_map: "sort_key k (map f xs) = map f (sort_key (\<lambda>x. k (f x)) xs)"
  by (induction xs) (auto simp: insort_key_map)

lemma sort_key_order:
  assumes "\<And>x y. k x \<le> k y \<longleftrightarrow> l x \<le> l y"
  shows "sort_key k xs = sort_key l xs"
proof (induction xs)
  case (Cons x xs)
  have "insort_key k x ys = insort_key l x ys" for ys
    by (induction ys) (auto simp: assms)
  with Cons show ?case by simp
qed simp

section \<open>Rounding\<close>

lemma exp2_pos [simp]: "0 < exp2 e"
  by (simp add: exp2_def)

lemma exp2_mono: "a \<le> b \<Longrightarrow> exp2 a \<le> exp2 b"
proof (cases "0 \<le> a")
  case False
  assume "a \<le> b"
  show ?thesis
  proof (cases "0 \<le> b")
    case True
    have "(1::rat) / 2 ^ nat (- a) \<le> 1" by simp
    also have "\<dots> \<le> 2 ^ nat b" by simp
    finally show ?thesis using False True by (simp add: exp2_def)
  next
    case False
    with \<open>a \<le> b\<close> \<open>\<not> 0 \<le> a\<close> show ?thesis
      by (auto simp: exp2_def intro!: divide_left_mono power_increasing)
  qed
qed (auto simp: exp2_def intro: power_increasing)

lemma exp2_diff: "exp2 (int m - int n) = 2 ^ m / 2 ^ n"
proof (cases "n \<le> m")
  case True
  then have "(2::rat) ^ m = 2 ^ (m - n) * 2 ^ n" by (simp flip: power_add)
  with True show ?thesis by (simp add: exp2_def nat_diff_distrib')
next
  case False
  then have "(2::rat) ^ n = 2 ^ (n - m) * 2 ^ m" by (simp flip: power_add)
  with False show ?thesis by (simp add: exp2_def nat_diff_distrib')
qed

lemma exp2_ilog2: "0 < x \<Longrightarrow> exp2 (ilog2 x) \<le> x"
proof -
  assume x: "0 < x"
  obtain n d where q: "quotient_of x = (n, d)" by fastforce
  then have d: "0 < d" and xq: "x = of_int n / of_int d"
    by (auto dest: quotient_of_denom_pos quotient_of_div)
  with x have n: "0 < n" by (simp add: zero_less_divide_iff)
  let ?a = "floorlog 2 (nat n)" and ?b = "floorlog 2 (nat d)"
  have an: "2 ^ (?a - 1) \<le> nat n" and bd: "nat d < 2 ^ ?b" and a: "0 < ?a"
    using floorlog_bounds [of "nat n" 2] floorlog_bounds [of "nat d" 2] n d by (auto simp: floorlog_def)
  have "(2::rat) ^ (?a - 1) \<le> of_int n" using an n
    by (metis (mono_tags, lifting) int_nat_eq le_less of_int_of_nat_eq of_nat_le_iff of_nat_numeral of_nat_power)
  moreover have "(of_int d :: rat) \<le> 2 ^ ?b" using bd d
    by (metis (mono_tags, lifting) int_nat_eq less_imp_le of_int_of_nat_eq of_nat_le_iff of_nat_numeral of_nat_power)
  ultimately have "2 ^ (?a - 1) / 2 ^ ?b \<le> x"
    unfolding xq using n d by (intro frac_le) auto
  moreover have "exp2 (int ?a - int ?b - 1) = 2 ^ (?a - 1) / 2 ^ ?b"
    using exp2_diff [of "?a - 1" ?b] a by (simp add: of_nat_diff algebra_simps)
  ultimately show ?thesis by (simp add: ilog2_def q Let_def)
qed

lemma round_half_even_pos: "1 \<le> x \<Longrightarrow> 1 \<le> round_half_even x"
proof -
  assume "1 \<le> x"
  then have "1 \<le> \<lfloor>x\<rfloor>" by linarith
  then show ?thesis by (auto simp: round_half_even_def Let_def)
qed

lemma fl_pos:
  assumes "1 \<le> x"
  shows "num_lt (Fin 0) (fl x)" "fl x \<noteq> NaN" "\<not> num_lt (fl x) (Fin 0)"
proof -
  let ?u = "exp2 (max (ilog2 \<bar>x\<bar> - 52) (- 1074))"
  have "exp2 (ilog2 x - 52) \<le> x"
    using exp2_ilog2 [of x] exp2_mono [of "ilog2 x - 52" "ilog2 x"] assms by simp
  moreover have "exp2 (- 1074) \<le> 1" by (simp add: exp2_def)
  ultimately have "?u \<le> x" using assms by (simp add: max_def)
  then have "1 \<le> round_half_even (x / ?u)" by (intro round_half_even_pos) simp
  then have "0 < of_int (round_half_even (x / ?u)) * ?u" by (simp add: zero_less_mult_iff)
  then show "num_lt (Fin 0) (fl x)" "fl x \<noteq> NaN" "\<not> num_lt (fl x) (Fin 0)"
    using assms by (auto simp: fl_def Let_def)
qed

lemma round_half_even_neg: "x \<le> - 1 \<Longrightarrow> round_half_even x \<le> - 1"
proof -
  assume x: "x \<le> - 1"
  show ?thesis
  proof (cases "\<lfloor>x\<rfloor> = - 1")
    case True
    then have "x = - 1" using x floor_correct [of x] by simp
    with True show ?thesis by (simp add: round_half_even_def)
  next
    case False
    then have "\<lfloor>x\<rfloor> \<le> - 2" using x by linarith
    moreover have "round_half_even x \<le> \<lfloor>x\<rfloor> + 1" by (simp add: round_half_even_def Let_def)
    ultimately show ?thesis by linarith
  qed
qed

lemma fl_neg:
  assumes "x \<le> - 1"
  shows "num_lt (fl x) (Fin 0)" "fl x \<noteq> NaN" "\<not> num_lt (Fin 0) (fl x)"
proof -
  let ?u = "exp2 (max (ilog2 \<bar>x\<bar> - 52) (- 1074))"
  have "exp2 (ilog2 \<bar>x\<bar> - 52) \<le> \<bar>x\<bar>"
    using exp2_ilog2 [of "\<bar>x\<bar>"] exp2_mono [of "ilog2 \<bar>x\<bar> - 52" "ilog2 \<bar>x\<bar>"] assms by simp
  moreover have "exp2 (- 1074) \<le> 1" by (simp add: exp2_def)
  ultimately have "?u \<le> - x" using assms by (simp add: max_def)
  then have "x / ?u \<le> - 1" by (simp add: divide_le_eq)
  then have "round_half_even (x / ?u) \<le> - 1" by (rule round_half_even_neg)
  then have "of_int (round_half_even (x / ?u)) * ?u < 0" by (simp add: mult_less_0_iff)
  then show "num_lt (fl x) (Fin 0)" "fl x \<noteq> NaN" "\<not> num_lt (Fin 0) (fl x)"
    using assms by (auto simp: fl_def Let_def)
qed

text \<open>The sign of a difference of integers survives the rounding.\<close>

lemma fl_int_sign:
  "num_lt (Fin 0) (fl (of_int i)) \<longleftrightarrow> 0 < i" "num_lt (fl (of_int i)) (Fin 0) \<longleftrightarrow> i < 0" "fl (of_int i) \<noteq> NaN"
proof -
  consider "0 < i" | "i = 0" | "i < 0" by linarith
  then have "(num_lt (Fin 0) (fl (of_int i)) \<longleftrightarrow> 0 < i) \<and> (num_lt (fl (of_int i)) (Fin 0) \<longleftrightarrow> i < 0) \<and> fl (of_int i) \<noteq> NaN"
  proof cases
    case 1
    then have "(1::rat) \<le> of_int i" by simp
    from fl_pos [OF this] 1 show ?thesis by simp
  next
    case 2
    then show ?thesis by (simp add: fl_def)
  next
    case 3
    then have "(of_int i :: rat) \<le> - 1" by linarith
    from fl_neg [OF this] 3 show ?thesis by simp
  qed
  then show "num_lt (Fin 0) (fl (of_int i)) \<longleftrightarrow> 0 < i" "num_lt (fl (of_int i)) (Fin 0) \<longleftrightarrow> i < 0" "fl (of_int i) \<noteq> NaN"
    by simp_all
qed

lemma fl_not_NaN [simp]: "fl x \<noteq> NaN"
  by (simp add: fl_def Let_def)

lemma round_half_even_int [simp]: "round_half_even (of_int i) = i"
  by (simp add: round_half_even_def)

text \<open>Integers of up to 53 bits are doubles.\<close>

lemma fl_int:
  assumes "\<bar>i\<bar> < 2 ^ 53"
  shows "fl (of_int i) = Fin (of_int i)"
proof (cases "i = 0")
  case True
  then show ?thesis by (simp add: fl_def)
next
  case False
  let ?x = "of_int i :: rat"
  have le: "exp2 (ilog2 \<bar>?x\<bar>) \<le> \<bar>?x\<bar>" using False by (intro exp2_ilog2) simp
  have small: "\<bar>?x\<bar> < 2 ^ 53"
    using assms by (metis of_int_abs of_int_less_iff of_int_numeral of_int_power)
  have e: "ilog2 \<bar>?x\<bar> \<le> 52"
  proof (rule ccontr)
    assume "\<not> ilog2 \<bar>?x\<bar> \<le> 52"
    then have "exp2 53 \<le> exp2 (ilog2 \<bar>?x\<bar>)" by (intro exp2_mono) simp
    with le small show False by (simp add: exp2_def)
  qed
  define k where "k = nat (- max (ilog2 \<bar>?x\<bar> - 52) (- 1074))"
  have u: "exp2 (max (ilog2 \<bar>?x\<bar> - 52) (- 1074)) = 1 / 2 ^ k"
    using e by (auto simp: exp2_def k_def max_def)
  have "?x / (1 / 2 ^ k) = of_int (i * 2 ^ k)" by simp
  then have "of_int (round_half_even (?x / (1 / 2 ^ k))) * (1 / 2 ^ k) = ?x"
    by (simp only: round_half_even_int) simp
  moreover have "\<not> 2 ^ 1024 \<le> ?x" "\<not> ?x \<le> - (2 ^ 1024)"
  proof -
    have "(2::rat) ^ 53 \<le> 2 ^ 1024" by (intro power_increasing) simp_all
    with small show "\<not> 2 ^ 1024 \<le> ?x" "\<not> ?x \<le> - (2 ^ 1024)" by linarith+
  qed
  ultimately show ?thesis using False by (simp add: fl_def Let_def u)
qed

lemma round_half_even_mono:
  assumes "x \<le> of_int m"
  shows "round_half_even x \<le> m"
proof (cases "x = of_int m")
  case False
  with assms have "x < of_int m" by simp
  then have "\<lfloor>x\<rfloor> < m" by (simp add: floor_less_iff)
  then show ?thesis by (simp add: round_half_even_def Let_def)
qed simp

lemma round_half_even_nonneg: "0 \<le> x \<Longrightarrow> 0 \<le> round_half_even x"
  by (auto simp: round_half_even_def Let_def)

lemma round_half_even_above: "of_int m \<le> x \<Longrightarrow> m \<le> round_half_even x"
proof -
  assume "of_int m \<le> x"
  then have "m \<le> \<lfloor>x\<rfloor>" by (simp add: le_floor_iff)
  then show "m \<le> round_half_even x" by (auto simp: round_half_even_def Let_def)
qed

text \<open>Rounding keeps a number between multiples of a power of two that are themselves doubles.\<close>

lemma fl_within_scaled:
  assumes "0 \<le> i" "of_int i / 2 ^ s \<le> x" "x \<le> of_int m / 2 ^ s" "m < 2 ^ 52" "s \<le> 1000"
  shows "\<exists>r. fl x = Fin r \<and> of_int i / 2 ^ s \<le> r \<and> r \<le> of_int m / 2 ^ s"
proof (cases "x = 0")
  case True
  with assms show ?thesis by (simp add: fl_def)
next
  case False
  have i: "0 \<le> rat_of_int i / 2 ^ s" using assms(1) by simp
  with assms(2) False have pos: "0 < x" by simp
  have m: "(of_int m :: rat) < 2 ^ 52" using assms(4) by (metis of_int_less_iff of_int_numeral of_int_power)
  have e: "ilog2 x \<le> 52 - int s"
  proof (rule ccontr)
    assume "\<not> ilog2 x \<le> 52 - int s"
    then have "exp2 (int 53 - int s) \<le> exp2 (ilog2 x)" by (intro exp2_mono) simp
    then have "2 ^ 53 / 2 ^ s \<le> x" using exp2_ilog2 [OF pos] unfolding exp2_diff by linarith
    with assms(3) have "2 ^ 53 / 2 ^ s \<le> rat_of_int m / 2 ^ s" by linarith
    with m show False by (simp add: divide_le_cancel)
  qed
  define k where "k = nat (- max (ilog2 x - 52) (- 1074))"
  have u: "exp2 (max (ilog2 x - 52) (- 1074)) = 1 / 2 ^ k" using e by (auto simp: exp2_def k_def max_def)
  have k: "(2::rat) ^ k = 2 ^ (k - s) * 2 ^ s" using e assms(5) by (simp add: k_def flip: power_add)
  let ?r = "of_int (round_half_even (x * 2 ^ k)) / 2 ^ k :: rat"
  have scale: "of_int n / 2 ^ s * 2 ^ k = (of_int (n * 2 ^ (k - s)) :: rat)" for n by (simp add: k)
  have "x * 2 ^ k \<le> of_int (m * 2 ^ (k - s))" using mult_right_mono [OF assms(3), of "2 ^ k"] unfolding scale by simp
  then have "round_half_even (x * 2 ^ k) \<le> m * 2 ^ (k - s)" by (rule round_half_even_mono)
  then have "(of_int (round_half_even (x * 2 ^ k)) :: rat) \<le> of_int m / 2 ^ s * 2 ^ k" unfolding scale by (simp only: of_int_le_iff)
  then have le: "?r \<le> of_int m / 2 ^ s" by (simp add: pos_divide_le_eq)
  have "of_int (i * 2 ^ (k - s)) \<le> x * 2 ^ k" using mult_right_mono [OF assms(2), of "2 ^ k"] unfolding scale by simp
  then have "i * 2 ^ (k - s) \<le> round_half_even (x * 2 ^ k)" by (rule round_half_even_above)
  then have "of_int i / 2 ^ s * 2 ^ k \<le> (of_int (round_half_even (x * 2 ^ k)) :: rat)" unfolding scale by (simp only: of_int_le_iff)
  then have low: "of_int i / 2 ^ s \<le> ?r" by (simp add: pos_le_divide_eq)
  have "rat_of_int m / 2 ^ s < 2 ^ 52"
  proof -
    have "(2::rat) ^ 52 \<le> 2 ^ 52 * 2 ^ s" by simp
    with m have "rat_of_int m < 2 ^ 52 * 2 ^ s" by (rule less_le_trans)
    then show ?thesis by (simp add: pos_divide_less_eq)
  qed
  moreover have "(2::rat) ^ 52 \<le> 2 ^ 1024" by (intro power_increasing) simp_all
  moreover have "0 \<le> ?r" using i low by linarith
  ultimately have "\<not> 2 ^ 1024 \<le> ?r" "\<not> ?r \<le> - (2 ^ 1024)" using le by linarith+
  moreover have "fl x = (if 2 ^ 1024 \<le> ?r then PosInf else if ?r \<le> - (2 ^ 1024) then NegInf else Fin ?r)"
    using pos u by (simp add: fl_def Let_def)
  ultimately show ?thesis using le low by auto
qed

lemma fl_within: "0 \<le> i \<Longrightarrow> of_int i \<le> x \<Longrightarrow> x \<le> of_int m \<Longrightarrow> m < 2 ^ 52 \<Longrightarrow> \<exists>r. fl x = Fin r \<and> of_int i \<le> r \<and> r \<le> of_int m"
  using fl_within_scaled [of i 0 x m] by simp

lemma fl_between: "0 \<le> x \<Longrightarrow> x \<le> of_int m \<Longrightarrow> m < 2 ^ 52 \<Longrightarrow> \<exists>r. fl x = Fin r \<and> 0 \<le> r \<and> r \<le> of_int m"
  using fl_within [of 0 x m] by simp

lemma round_nearest:
  assumes "\<bar>y - of_int i\<bar> < 1 / 2"
  shows "round_half_even y = i"
proof (cases "of_int i \<le> y")
  case True
  with assms have "\<lfloor>y\<rfloor> = i" by (intro floor_unique) linarith+
  with assms True show ?thesis by (simp add: round_half_even_def Let_def)
next
  case False
  with assms have y: "of_int i - 1 / 2 < y" "y < of_int i" by (auto simp: abs_less_iff)
  then have f: "\<lfloor>y\<rfloor> = i - 1" by (intro floor_unique) simp_all
  have "\<not> y - of_int (i - 1) < 1 / 2" "1 / 2 < y - of_int (i - 1)" using y by simp_all
  with f show ?thesis by (simp only: round_half_even_def Let_def if_False if_True)
qed

lemma fl_eval:
  assumes "ilog2 x = e" "0 < x" "- 1022 \<le> e" "\<bar>x / exp2 (e - 52) - of_int i\<bar> < 1 / 2" "0 \<le> i" "of_int i * exp2 (e - 52) \<le> 1"
  shows "fl x = Fin (of_int i * exp2 (e - 52))"
proof -
  have "0 \<le> of_int i * exp2 (e - 52)" using assms(5) by (intro mult_nonneg_nonneg) (auto simp: less_imp_le)
  moreover have "(1::rat) < 2 ^ 1024" "- (2 ^ 1024) < (0::rat)" by simp_all
  ultimately have "\<not> 2 ^ 1024 \<le> of_int i * exp2 (e - 52)" "\<not> of_int i * exp2 (e - 52) \<le> - (2 ^ 1024)"
    using assms(6) by linarith+
  moreover have "max (ilog2 \<bar>x\<bar> - 52) (- 1074) = e - 52" using assms by simp
  ultimately show ?thesis using assms(2) round_nearest [OF assms(4)] by (simp only: fl_def Let_def if_False) simp
qed

section \<open>Several promises\<close>

text \<open>
  \<open>Promise.all\<close>: all values in the order of the promises, or the error of the promise that is rejected
  first; \<open>order\<close> lists the promises in the order in which they settle.
\<close>

definition promise_all :: "nat list \<Rightarrow> 'a js list \<Rightarrow> 'a list js" where
  "promise_all order rs =
     (case List.map_filter (\<lambda>k. if k < length rs then (case rs ! k of Inl e \<Rightarrow> Some e | Inr _ \<Rightarrow> None) else None) order of
        e # es \<Rightarrow> Inl e
      | [] \<Rightarrow> js_map id rs)"

definition is_error :: "'a js \<Rightarrow> bool" where
  "is_error r \<longleftrightarrow> (case r of Inl e \<Rightarrow> True | Inr v \<Rightarrow> False)"

text \<open>The first of the given positions whose promise is rejected.\<close>

definition first_rejected :: "nat list \<Rightarrow> 'a js list \<Rightarrow> nat option" where
  "first_rejected order rs = List.find (\<lambda>k. k < length rs \<and> is_error (rs ! k)) order"

lemma js_map_id_Inr: "js_map id (map Inr vs) = Inr vs"
  by (induction vs) auto

lemma no_errors: "\<forall>r \<in> set rs. \<not> is_error r \<Longrightarrow> \<exists>vs. rs = map Inr vs"
  by (induction rs) (auto simp: is_error_def split: sum.splits intro: exI [of _ "_ # _"])

lemma promise_all_rejected:
  "promise_all order rs =
     (case first_rejected order rs of
        Some k \<Rightarrow> (case rs ! k of Inl e \<Rightarrow> Inl e | Inr _ \<Rightarrow> js_map id rs)
      | None \<Rightarrow> js_map id rs)"
proof (induction order)
  case Nil
  then show ?case by (simp add: promise_all_def first_rejected_def map_filter_simps)
next
  case (Cons k order)
  then show ?case
    by (cases "rs ! k") (auto simp: promise_all_def first_rejected_def map_filter_simps is_error_def)
qed

lemma promise_all_spec:
  assumes "set order = {..<length rs}"
  shows "(promise_all order rs = Inr vs \<longleftrightarrow> rs = map Inr vs) \<and>
    (promise_all order rs = Inl e \<longleftrightarrow> (\<exists>k. first_rejected order rs = Some k \<and> rs ! k = Inl e))"
proof (cases "first_rejected order rs")
  case None
  then have "\<not> is_error (rs ! k)" if "k < length rs" for k
    using that assms by (auto simp: first_rejected_def find_None_iff)
  then have "\<forall>r \<in> set rs. \<not> is_error r" by (metis in_set_conv_nth)
  then obtain us where "rs = map Inr us" using no_errors by blast
  with None show ?thesis by (auto simp: promise_all_rejected js_map_id_Inr inj_map_eq_map inj_on_def)
next
  case (Some k)
  then have k: "k < length rs" "is_error (rs ! k)" by (auto simp: first_rejected_def find_Some_iff)
  then obtain e' where e': "rs ! k = Inl e'" by (auto simp: is_error_def split: sum.splits)
  then have "rs \<noteq> map Inr vs" using k(1) by (metis Inl_Inr_False nth_map length_map)
  with Some e' show ?thesis by (auto simp: promise_all_rejected)
qed

end
