(* ===== verification/Chart_Validation.thy ===== *)
theory Chart_Validation
  imports JS_Value
begin

text \<open>
  \<open>validateChartData\<close> of \<open>frontend-dashboard/src/hooks/useAnalytics.ts\<close>: it completes the
  metadata that a chart needs, from the first row of the data where it can. A response is a
  JavaScript value, so that what the function does with a malformed one is modelled too.
\<close>

section \<open>Access to the metadata\<close>

definition meta_get :: "jsval \<Rightarrow> string \<Rightarrow> jsval js" where
  "meta_get d k = js_bind (js_get d ''metadata'') (\<lambda>m. js_get m k)"

definition meta_put :: "jsval \<Rightarrow> string \<Rightarrow> jsval \<Rightarrow> jsval js" where
  "meta_put d k v = js_bind (js_get d ''metadata'') (\<lambda>m. js_bind (js_put m k v) (\<lambda>m'. js_put d ''metadata'' m'))"

definition meta_delete :: "string \<Rightarrow> jsval \<Rightarrow> jsval js" where
  "meta_delete k d = js_bind (js_get d ''metadata'') (\<lambda>m. js_bind (js_delete m k) (\<lambda>m'. js_put d ''metadata'' m'))"

text \<open>\<open>if (!validatedData.metadata.k) validatedData.metadata.k = v\<close>\<close>

definition default_meta :: "string \<Rightarrow> jsval \<Rightarrow> jsval \<Rightarrow> jsval js" where
  "default_meta k v d = js_bind (meta_get d k) (\<lambda>x. if js_truthy x then Inr d else meta_put d k v)"

text \<open>\<open>if (meta.src && !meta.dst) validatedData.metadata.dst = meta.src\<close>\<close>

definition rename_meta :: "string \<Rightarrow> string \<Rightarrow> jsval \<Rightarrow> jsval js" where
  "rename_meta src dst d =
     js_bind (meta_get d src) (\<lambda>x. if js_truthy x then default_meta dst x d else Inr d)"

text \<open>\<open>validatedData.data && validatedData.data.length > 0\<close> and \<open>validatedData.data[0]\<close>\<close>

definition has_rows :: "js_env \<Rightarrow> jsval \<Rightarrow> bool js" where
  "has_rows E d = js_bind (js_get d ''data'') (\<lambda>xs.
     if js_truthy xs then js_bind (js_get xs ''length'') (js_positive E) else Inr False)"

definition first_item :: "jsval \<Rightarrow> jsval js" where
  "first_item d = js_bind (js_get d ''data'') (\<lambda>xs. js_get xs ''0'')"

text \<open>\<open>Object.keys(data[0]).find((key) => p(data[0][key]))\<close>\<close>

definition find_field :: "(jsval \<Rightarrow> bool js) \<Rightarrow> jsval \<Rightarrow> string option js" where
  "find_field p d = js_bind (first_item d) (\<lambda>x. js_bind (Object_keys x)
     (js_find (\<lambda>k. js_bind (js_get x k) p)))"

definition field_or :: "string option \<Rightarrow> string \<Rightarrow> string" where
  "field_or f s = (case f of Some k \<Rightarrow> if k = [] then s else k | None \<Rightarrow> s)"

text \<open>A missing field of the metadata, taken from the first row (\<open>fallback\<close> when it has none) or
  \<open>norows\<close> when there is no row.\<close>

definition field_meta ::
  "js_env \<Rightarrow> string \<Rightarrow> (jsval \<Rightarrow> string option js) \<Rightarrow> string \<Rightarrow> string \<Rightarrow> jsval \<Rightarrow> jsval js" where
  "field_meta E k search fallback norows d =
     js_bind (meta_get d k) (\<lambda>x.
       if js_truthy x then Inr d
       else js_bind (has_rows E d) (\<lambda>b.
         if b then js_bind (search d) (\<lambda>f. meta_put d k (JStr (field_or f fallback)))
         else meta_put d k (JStr norows)))"

section \<open>The cases of the chart type\<close>

definition string_field :: "jsval \<Rightarrow> string option js" where
  "string_field = find_field (\<lambda>v. Inr (is_str v))"

definition numeric_field :: "js_env \<Rightarrow> jsval \<Rightarrow> string option js" where
  "numeric_field E = find_field (is_numeric E)"

text \<open>\<open>dateField || stringField\<close>; the rows come from \<open>JSON.parse\<close>, so none holds a \<open>Date\<close>.\<close>

definition date_or_string_field :: "js_env \<Rightarrow> jsval \<Rightarrow> string option js" where
  "date_or_string_field E d =
     js_bind (find_field (\<lambda>v. Inr (is_date_string E v)) d) (\<lambda>dateField.
       js_bind (string_field d) (\<lambda>stringField.
         Inr (case dateField of Some (c # k) \<Rightarrow> Some (c # k) | _ \<Rightarrow> stringField)))"

definition validate_sankey :: "jsval \<Rightarrow> jsval js" where
  "validate_sankey d =
     js_bind (default_meta ''source'' (JStr ''source'') d) (\<lambda>d.
     js_bind (default_meta ''target'' (JStr ''target'') d) (\<lambda>d.
     default_meta ''value'' (JStr ''value'') d))"

definition validate_pie :: "js_env \<Rightarrow> jsval \<Rightarrow> jsval js" where
  "validate_pie E d =
     js_bind (field_meta E ''dimension'' string_field ''dimension'' ''dimension'' d)
       (field_meta E ''metric'' (numeric_field E) ''metric'' ''metric'')"

definition add_metrics :: "js_env \<Rightarrow> jsval \<Rightarrow> jsval js" where
  "add_metrics E d =
     js_bind (meta_get d ''metrics'') (\<lambda>ms.
       if js_truthy ms then Inr d
       else js_bind (has_rows E d) (\<lambda>b.
         if \<not> b then Inr d
         else js_bind (first_item d) (\<lambda>x. js_bind (Object_keys x) (\<lambda>ks.
           js_bind (js_filter (\<lambda>k. js_bind (js_get x k) (is_numeric E)) ks) (\<lambda>numericFields.
             if 1 < length numericFields then meta_put d ''metrics'' (arr (map JStr numericFields))
             else Inr d)))))"

definition validate_funnel :: "js_env \<Rightarrow> jsval \<Rightarrow> jsval js" where
  "validate_funnel E d =
     js_bind (field_meta E ''dimension'' string_field ''stage'' ''stage'' d) (\<lambda>d.
     js_bind (field_meta E ''metric'' (numeric_field E) ''count'' ''count'' d) (\<lambda>d.
     add_metrics E d))"

definition validate_line :: "js_env \<Rightarrow> jsval \<Rightarrow> jsval js" where
  "validate_line E d =
     js_bind (field_meta E ''xAxis'' (date_or_string_field E) ''xAxis'' ''xAxis'' d)
       (field_meta E ''yAxis'' (numeric_field E) ''count'' ''yAxis'')"

definition validate_stacked :: "jsval \<Rightarrow> jsval js" where
  "validate_stacked d =
     js_bind (default_meta ''xAxis'' (JStr ''xAxis'') d) (\<lambda>d.
     js_bind (default_meta ''yAxis'' (JStr ''yAxis'') d) (\<lambda>d.
     default_meta ''groupBy'' (JStr ''groupBy'') d))"

definition validate_case :: "js_env \<Rightarrow> jsval \<Rightarrow> jsval js" where
  "validate_case E d = js_bind (meta_get d ''type'') (\<lambda>t.
     if t = JStr ''sankey'' then validate_sankey d
     else if t = JStr ''pie'' then validate_pie E d
     else if t = JStr ''funnel'' then validate_funnel E d
     else if t = JStr ''line'' \<or> t = JStr ''area'' then validate_line E d
     else if t = JStr ''stacked-bar'' then validate_stacked d
     else Inr d)"

section \<open>Status counts labelled as a sankey chart\<close>

definition is_status_counts :: "js_env \<Rightarrow> jsval \<Rightarrow> bool js" where
  "is_status_counts E d =
     js_bind (meta_get d ''type'') (\<lambda>t. if t \<noteq> JStr ''sankey'' then Inr False
     else js_bind (meta_get d ''nodes'') (\<lambda>n. if n \<noteq> JStr ''status'' then Inr False
     else js_bind (meta_get d ''value'') (\<lambda>v. if v \<noteq> JStr ''count'' then Inr False
     else js_bind (has_rows E d) (\<lambda>b. if \<not> b then Inr False
     else js_bind (first_item d) (\<lambda>x. js_bind (js_get x ''status'') (\<lambda>s. if \<not> js_truthy s then Inr False
     else js_bind (js_get x ''count'') (\<lambda>c. Inr (js_truthy c))))))))"

definition sankey_to_pie :: "jsval \<Rightarrow> jsval js" where
  "sankey_to_pie d =
     js_bind (meta_put d ''type'' (JStr ''pie'')) (\<lambda>d.
     js_bind (meta_put d ''dimension'' (JStr ''status'')) (\<lambda>d.
     js_bind (meta_put d ''metric'' (JStr ''count'')) (\<lambda>d.
     js_bind (meta_delete ''nodes'' d) (\<lambda>d.
     js_bind (meta_delete ''source'' d) (meta_delete ''target'')))))"

definition relabel_status_counts :: "js_env \<Rightarrow> jsval \<Rightarrow> jsval js" where
  "relabel_status_counts E d = js_bind (is_status_counts E d) (\<lambda>b. if b then sankey_to_pie d else Inr d)"

section \<open>The function\<close>

definition chart_complete :: "jsval \<Rightarrow> bool" where
  "chart_complete data \<longleftrightarrow> js_truthy data \<and>
     (case js_get data ''metadata'' of
        Inl e \<Rightarrow> False
      | Inr m \<Rightarrow> js_truthy m \<and> (case js_get m ''type'' of Inl e \<Rightarrow> False | Inr t \<Rightarrow> js_truthy t))"

text \<open>The final log message converts the type to a string.\<close>

definition validateChartData :: "js_env \<Rightarrow> jsval \<Rightarrow> jsval js" where
  "validateChartData E data =
     (if \<not> chart_complete data then Inr data
      else
        js_bind (rename_meta ''x_axis'' ''xAxis'' (json_clone data)) (\<lambda>d.
        js_bind (rename_meta ''y_axis'' ''yAxis'' d) (\<lambda>d.
        js_bind (rename_meta ''group_by'' ''groupBy'' d) (\<lambda>d.
        js_bind (relabel_status_counts E d) (\<lambda>d.
        js_bind (validate_case E d) (\<lambda>d.
        js_bind (meta_get d ''type'') (\<lambda>t. js_bind (js_toString E t) (\<lambda>_. Inr d))))))))"

section \<open>Charts whose metadata is an object\<close>

definition with_meta :: "(string \<times> jsval) list \<Rightarrow> (string \<times> jsval) list \<Rightarrow> jsval" where
  "with_meta ps ms = JObj (props_put ps ''metadata'' (JObj ms))"

named_theorems chart_simps \<open>access to a chart whose metadata is an object\<close>

lemma with_meta_get [chart_simps]:
  "js_get (with_meta ps ms) ''metadata'' = Inr (JObj ms)"
  "js_get (with_meta ps ms) ''data'' = Inr (prop_lookup ps ''data'')"
  by (simp_all add: with_meta_def)

lemma with_meta_ops [chart_simps]:
  "meta_get (with_meta ps ms) k = Inr (prop_lookup ms k)"
  "meta_put (with_meta ps ms) k v = Inr (with_meta ps (props_put ms k v))"
  "meta_delete k (with_meta ps ms) = Inr (with_meta ps (props_delete ms k))"
  by (simp_all add: meta_get_def meta_put_def meta_delete_def with_meta_def)

lemma with_meta_rows [chart_simps]:
  "has_rows E (with_meta ps ms) = has_rows E (JObj ps)"
  "first_item (with_meta ps ms) = first_item (JObj ps)"
  by (simp_all add: has_rows_def first_item_def chart_simps)

lemma with_meta_search [chart_simps]:
  "find_field p (with_meta ps ms) = find_field p (JObj ps)"
  "string_field (with_meta ps ms) = string_field (JObj ps)"
  "numeric_field E (with_meta ps ms) = numeric_field E (JObj ps)"
  "date_or_string_field E (with_meta ps ms) = date_or_string_field E (JObj ps)"
  by (simp_all add: find_field_def string_field_def numeric_field_def date_or_string_field_def chart_simps)

lemma with_meta_self: "map_of ps ''metadata'' = Some (JObj ms) \<Longrightarrow> JObj ps = with_meta ps ms"
  by (simp add: with_meta_def props_put_same)

lemma with_meta_eq [simp]: "with_meta ps ms = with_meta ps ns \<longleftrightarrow> ms = ns"
  by (metis with_meta_get(1) sum.inject(2) jsval.inject(5))

text \<open>What a step may do: fill in missing metadata, and nothing else.\<close>

definition extends :: "(string \<times> jsval) list \<Rightarrow> (string \<times> jsval) list \<Rightarrow> bool" where
  "extends ms ns \<longleftrightarrow> (\<forall>k. js_truthy (prop_lookup ms k) \<longrightarrow> prop_lookup ns k = prop_lookup ms k) \<and>
     (props_fixed ms \<longrightarrow> props_fixed ns)"

definition filled :: "string list \<Rightarrow> (string \<times> jsval) list \<Rightarrow> (string \<times> jsval) list \<Rightarrow> bool" where
  "filled ks ms ns \<longleftrightarrow> extends ms ns \<and> (\<forall>k \<in> set ks. js_truthy (prop_lookup ns k)) \<and>
     (\<forall>k. k \<notin> set ks \<longrightarrow> k \<noteq> ''metrics'' \<longrightarrow> prop_lookup ns k = prop_lookup ms k)"

definition fills :: "string list \<Rightarrow> (jsval \<Rightarrow> jsval js) \<Rightarrow> bool" where
  "fills ks f \<longleftrightarrow> (\<forall>ps ms d. f (with_meta ps ms) = Inr d \<longrightarrow> (\<exists>ns. d = with_meta ps ns \<and> filled ks ms ns))"

lemma fillsI:
  "(\<And>ps ms d. f (with_meta ps ms) = Inr d \<Longrightarrow> \<exists>ns. d = with_meta ps ns \<and> filled ks ms ns) \<Longrightarrow> fills ks f"
  by (simp add: fills_def)

lemma fillsD: "fills ks f \<Longrightarrow> f (with_meta ps ms) = Inr d \<Longrightarrow> \<exists>ns. d = with_meta ps ns \<and> filled ks ms ns"
  by (simp add: fills_def)

lemma extends_refl [simp]: "extends ms ms"
  by (simp add: extends_def)

lemma extends_put:
  "\<not> js_truthy (prop_lookup ms k) \<Longrightarrow> v \<noteq> JUndef \<Longrightarrow> json_clone v = v \<Longrightarrow> extends ms (props_put ms k v)"
  by (auto simp: extends_def props_fixed_put)

lemma filled_refl: "(\<And>k. k \<in> set ks \<Longrightarrow> js_truthy (prop_lookup ms k)) \<Longrightarrow> filled ks ms ms"
  by (simp add: filled_def)

lemma filled_put: "\<not> js_truthy (prop_lookup ms k) \<Longrightarrow> js_truthy v \<Longrightarrow> json_clone v = v \<Longrightarrow> filled [k] ms (props_put ms k v)"
  by (auto simp: filled_def intro: extends_put)

lemma filled_trans: "filled ks ms ns \<Longrightarrow> filled ls ns os \<Longrightarrow> filled (ks @ ls) ms os"
  by (auto simp: filled_def extends_def)

lemma fills_bind:
  assumes "fills ks f" "fills ls g"
  shows "fills (ks @ ls) (\<lambda>d. js_bind (f d) g)"
proof (rule fillsI)
  fix ps ms d
  assume "js_bind (f (with_meta ps ms)) g = Inr d"
  then obtain d1 where d1: "f (with_meta ps ms) = Inr d1" "g d1 = Inr d" by (auto simp: js_bind_eq_Inr)
  from fillsD [OF assms(1) d1(1)] obtain ns where ns: "d1 = with_meta ps ns" "filled ks ms ns" by blast
  with fillsD [OF assms(2)] d1(2) obtain os where "d = with_meta ps os" "filled ls ns os" by blast
  with ns(2) show "\<exists>ns. d = with_meta ps ns \<and> filled (ks @ ls) ms ns"
    using filled_trans by blast
qed

lemma fills_default: "v \<noteq> [] \<Longrightarrow> fills [k] (default_meta k (JStr v))"
proof (rule fillsI)
  fix ps ms d
  assume "v \<noteq> []" "default_meta k (JStr v) (with_meta ps ms) = Inr d"
  then show "\<exists>ns. d = with_meta ps ns \<and> filled [k] ms ns"
    by (cases "js_truthy (prop_lookup ms k)")
      (auto simp: default_meta_def chart_simps intro!: filled_refl filled_put)
qed

lemma field_or_nonempty: "s \<noteq> [] \<Longrightarrow> field_or f s \<noteq> []"
  by (simp add: field_or_def split: option.split)

lemma fills_field:
  assumes "fallback \<noteq> []" "norows \<noteq> []"
  shows "fills [k] (field_meta E k search fallback norows)"
proof (rule fillsI)
  fix ps ms d
  assume d: "field_meta E k search fallback norows (with_meta ps ms) = Inr d"
  have "d = with_meta ps ms \<and> js_truthy (prop_lookup ms k) \<or>
    (\<exists>s. s \<noteq> [] \<and> \<not> js_truthy (prop_lookup ms k) \<and> d = with_meta ps (props_put ms k (JStr s)))"
    using d assms(2) field_or_nonempty [OF assms(1)]
    by (auto simp: field_meta_def chart_simps js_bind_eq_Inr split: if_splits)
  then show "\<exists>ns. d = with_meta ps ns \<and> filled [k] ms ns"
    by (elim disjE exE conjE) (auto intro: filled_refl filled_put)
qed

lemma fills_metrics: "fills [] (add_metrics E)"
proof (rule fillsI)
  fix ps ms d
  assume d: "add_metrics E (with_meta ps ms) = Inr d"
  have "d = with_meta ps ms \<or> (\<exists>fs. \<not> js_truthy (prop_lookup ms ''metrics'') \<and>
      d = with_meta ps (props_put ms ''metrics'' (arr (map JStr fs))))"
    using d by (auto simp: add_metrics_def chart_simps js_bind_eq_Inr split: if_splits)
  then show "\<exists>ns. d = with_meta ps ns \<and> filled [] ms ns"
  proof (elim disjE exE conjE)
    fix fs assume t: "\<not> js_truthy (prop_lookup ms ''metrics'')"
      and d: "d = with_meta ps (props_put ms ''metrics'' (arr (map JStr fs)))"
    have "extends ms (props_put ms ''metrics'' (arr (map JStr fs)))"
      by (rule extends_put [OF t]) (simp_all add: comp_def)
    with d show ?thesis by (auto simp: filled_def)
  qed (auto intro: filled_refl)
qed

text \<open>The metadata each type of chart requires.\<close>

definition required_fields :: "jsval \<Rightarrow> string list" where
  "required_fields t =
     (if t = JStr ''sankey'' then [''source'', ''target'', ''value'']
      else if t = JStr ''pie'' \<or> t = JStr ''funnel'' then [''dimension'', ''metric'']
      else if t = JStr ''line'' \<or> t = JStr ''area'' then [''xAxis'', ''yAxis'']
      else if t = JStr ''stacked-bar'' then [''xAxis'', ''yAxis'', ''groupBy'']
      else [])"

lemma fills_cases:
  "fills [''source'', ''target'', ''value''] validate_sankey"
  "fills [''dimension'', ''metric''] (validate_pie E)"
  "fills [''dimension'', ''metric''] (validate_funnel E)"
  "fills [''xAxis'', ''yAxis''] (validate_line E)"
  "fills [''xAxis'', ''yAxis'', ''groupBy''] validate_stacked"
  using fills_bind [OF fills_default fills_bind [OF fills_default fills_default]]
    fills_bind [OF fills_field fills_field] fills_bind [OF fills_field fills_bind [OF fills_field fills_metrics]]
  unfolding validate_sankey_def validate_pie_def validate_funnel_def validate_line_def validate_stacked_def
  by simp_all

lemma validate_case_filled:
  assumes "validate_case E (with_meta ps ms) = Inr d"
  shows "\<exists>ns. d = with_meta ps ns \<and> filled (required_fields (prop_lookup ms ''type'')) ms ns"
  using assms fillsD [OF fills_cases(1)] fillsD [OF fills_cases(2)] fillsD [OF fills_cases(3)]
    fillsD [OF fills_cases(4)] fillsD [OF fills_cases(5)] filled_refl [of "[]" ms]
  by (auto simp: validate_case_def required_fields_def chart_simps split: if_splits)

section \<open>The steps before the cases\<close>

definition renamed :: "string \<Rightarrow> string \<Rightarrow> (string \<times> jsval) list \<Rightarrow> (string \<times> jsval) list" where
  "renamed src dst ms =
     (if js_truthy (prop_lookup ms src) \<and> \<not> js_truthy (prop_lookup ms dst)
      then props_put ms dst (prop_lookup ms src) else ms)"

definition camel_case :: "(string \<times> jsval) list \<Rightarrow> (string \<times> jsval) list" where
  "camel_case ms = renamed ''group_by'' ''groupBy'' (renamed ''y_axis'' ''yAxis'' (renamed ''x_axis'' ''xAxis'' ms))"

definition to_pie :: "(string \<times> jsval) list \<Rightarrow> (string \<times> jsval) list" where
  "to_pie ms = props_delete (props_delete (props_delete
     (props_put (props_put (props_put ms ''type'' (JStr ''pie'')) ''dimension'' (JStr ''status'')) ''metric'' (JStr ''count''))
     ''nodes'') ''source'') ''target''"

lemma rename_meta_renamed [chart_simps]:
  "rename_meta src dst (with_meta ps ms) = Inr (with_meta ps (renamed src dst ms))"
  by (simp add: rename_meta_def default_meta_def renamed_def chart_simps)

lemma sankey_to_pie_eq [chart_simps]: "sankey_to_pie (with_meta ps ms) = Inr (with_meta ps (to_pie ms))"
  by (simp add: sankey_to_pie_def to_pie_def chart_simps)

lemma lookup_renamed [simp]:
  "k \<noteq> dst \<Longrightarrow> prop_lookup (renamed src dst ms) k = prop_lookup ms k"
  by (simp add: renamed_def)

lemma renamed_fixed: "props_fixed ms \<Longrightarrow> props_fixed (renamed src dst ms)"
  by (auto simp: renamed_def props_fixed_lookup js_truthy_undef intro!: props_fixed_put)

lemma renamed_dst: "js_truthy (prop_lookup (renamed src dst ms) dst) \<longleftrightarrow>
    js_truthy (prop_lookup ms src) \<or> js_truthy (prop_lookup ms dst)"
  by (auto simp: renamed_def)

lemma camel_case_fixed: "props_fixed ms \<Longrightarrow> props_fixed (camel_case ms)"
  by (simp add: camel_case_def renamed_fixed)

lemma lookup_camel_case [simp]:
  "k \<notin> {''xAxis'', ''yAxis'', ''groupBy''} \<Longrightarrow> prop_lookup (camel_case ms) k = prop_lookup ms k"
  by (simp add: camel_case_def)

lemma lookup_camel_truthy: "js_truthy (prop_lookup ms k) \<Longrightarrow> prop_lookup (camel_case ms) k = prop_lookup ms k"
  by (auto simp: camel_case_def renamed_def)

lemma to_pie_fixed: "props_fixed ms \<Longrightarrow> props_fixed (to_pie ms)"
  by (simp add: to_pie_def props_fixed_delete props_fixed_put)

text \<open>After the renaming a snake case field is also there in camel case.\<close>

definition both_cases :: "(string \<times> jsval) list \<Rightarrow> bool" where
  "both_cases ms \<longleftrightarrow>
     (js_truthy (prop_lookup ms ''x_axis'') \<longrightarrow> js_truthy (prop_lookup ms ''xAxis'')) \<and>
     (js_truthy (prop_lookup ms ''y_axis'') \<longrightarrow> js_truthy (prop_lookup ms ''yAxis'')) \<and>
     (js_truthy (prop_lookup ms ''group_by'') \<longrightarrow> js_truthy (prop_lookup ms ''groupBy''))"

lemma camel_case_both: "both_cases (camel_case ms)"
  by (simp add: both_cases_def camel_case_def renamed_dst)

lemma both_cases_camel: "both_cases ms \<Longrightarrow> camel_case ms = ms"
  by (auto simp: both_cases_def camel_case_def renamed_def)

lemma both_cases_to_pie: "both_cases ms \<Longrightarrow> both_cases (to_pie ms)"
  by (simp add: both_cases_def to_pie_def)

lemma required_fields_camel:
  "set (required_fields t) \<inter> {''x_axis'', ''y_axis'', ''group_by'', ''type'', ''nodes''} = {}"
  by (simp add: required_fields_def)

lemma filled_both_cases:
  assumes "filled (required_fields t) ms ns" "both_cases ms"
  shows "both_cases ns"
proof -
  have "prop_lookup ns k = prop_lookup ms k" if "k \<in> {''x_axis'', ''y_axis'', ''group_by''}" for k
    using assms(1) that required_fields_camel [of t] by (auto simp: filled_def)
  moreover have "js_truthy (prop_lookup ns k)" if "js_truthy (prop_lookup ms k)" for k
    using assms(1) that by (simp add: filled_def extends_def)
  ultimately show ?thesis using assms(2) by (simp add: both_cases_def)
qed

section \<open>The whole function on an object\<close>

lemma clone_chart:
  assumes "map_of qs ''metadata'' = Some (JObj ms)"
  obtains ps where "json_clone (JObj qs) = with_meta ps (filter (\<lambda>p. snd p \<noteq> JUndef) (map (map_prod id json_clone) ms))"
    "props_fixed ps" "\<And>v. map_of qs ''data'' = Some v \<Longrightarrow> v \<noteq> JUndef \<Longrightarrow> prop_lookup ps ''data'' = json_clone v"
proof
  let ?ps = "filter (\<lambda>p. snd p \<noteq> JUndef) (map (map_prod id json_clone) qs)"
  show "json_clone (JObj qs) = with_meta ?ps (filter (\<lambda>p. snd p \<noteq> JUndef) (map (map_prod id json_clone) ms))"
    using map_of_json_clone [OF assms] by (simp add: with_meta_self)
  show "props_fixed ?ps" by (rule props_fixed_clone)
  show "prop_lookup ?ps ''data'' = json_clone v" if "map_of qs ''data'' = Some v" "v \<noteq> JUndef" for v
    using map_of_json_clone [OF that] by (simp add: prop_lookup_def)
qed

lemma validate_with_meta:
  assumes "json_clone data = with_meta ps ms" "chart_complete data"
  shows "validateChartData E data =
    js_bind (is_status_counts E (with_meta ps (camel_case ms))) (\<lambda>b.
    js_bind (validate_case E (with_meta ps (if b then to_pie (camel_case ms) else camel_case ms))) (\<lambda>d.
    js_bind (meta_get d ''type'') (\<lambda>t. js_bind (js_toString E t) (\<lambda>_. Inr d))))"
  using assms
  by (cases "is_status_counts E (with_meta ps (camel_case ms))")
    (auto simp: validateChartData_def relabel_status_counts_def camel_case_def chart_simps)

lemma validate_result:
  assumes "json_clone data = with_meta ps ms" "props_fixed ms" "chart_complete data" "validateChartData E data = Inr d"
  obtains b ns where "is_status_counts E (with_meta ps (camel_case ms)) = Inr b"
    "validate_case E (with_meta ps (if b then to_pie (camel_case ms) else camel_case ms)) = Inr (with_meta ps ns)"
    "filled (required_fields (if b then JStr ''pie'' else prop_lookup ms ''type''))
       (if b then to_pie (camel_case ms) else camel_case ms) ns"
    "d = with_meta ps ns" "both_cases ns" "props_fixed ns"
    "\<exists>s. js_toString E (prop_lookup ns ''type'') = Inr s"
    "prop_lookup ns ''type'' = (if b then JStr ''pie'' else prop_lookup ms ''type'')"
proof -
  let ?m = "\<lambda>b. if b then to_pie (camel_case ms) else camel_case ms"
  from assms(4) obtain b where b: "is_status_counts E (with_meta ps (camel_case ms)) = Inr b"
    and c: "validate_case E (with_meta ps (?m b)) = Inr d"
    and t: "\<exists>t s. meta_get d ''type'' = Inr t \<and> js_toString E t = Inr s"
    by (auto simp: validate_with_meta [OF assms(1,3)] js_bind_eq_Inr)
  have ty: "prop_lookup (?m b) ''type'' = (if b then JStr ''pie'' else prop_lookup ms ''type'')"
    by (simp add: to_pie_def)
  from validate_case_filled [OF c] obtain ns where ns: "d = with_meta ps ns"
    "filled (required_fields (if b then JStr ''pie'' else prop_lookup ms ''type'')) (?m b) ns"
    unfolding ty by blast
  have "both_cases (?m b)" "props_fixed (?m b)"
    using camel_case_both [of ms] camel_case_fixed [OF assms(2)] by (simp_all add: both_cases_to_pie to_pie_fixed)
  then have "both_cases ns" "props_fixed ns"
    using ns(2) filled_both_cases by (auto simp: filled_def extends_def)
  moreover have "prop_lookup ns ''type'' = prop_lookup (?m b) ''type''"
    using ns(2) by (simp add: filled_def required_fields_def)
  ultimately show ?thesis
    using that [OF b _ ns(2,1)] c ns(1) t ty by (simp add: chart_simps)
qed

section \<open>A second validation\<close>

lemma default_meta_done: "js_truthy (prop_lookup ns k) \<Longrightarrow> default_meta k v (with_meta ps ns) = Inr (with_meta ps ns)"
  by (simp add: default_meta_def chart_simps)

lemma field_meta_done:
  "js_truthy (prop_lookup ns k) \<Longrightarrow> field_meta E k search f n (with_meta ps ns) = Inr (with_meta ps ns)"
  by (simp add: field_meta_def chart_simps)

lemma add_metrics_idem:
  assumes "add_metrics E (with_meta ps ms) = Inr (with_meta ps ns)"
  shows "add_metrics E (with_meta ps ns) = Inr (with_meta ps ns)"
proof (cases "js_truthy (prop_lookup ns ''metrics'')")
  case True
  then show ?thesis by (simp add: add_metrics_def chart_simps)
next
  case False
  then have "ms = ns"
    using assms by (auto simp: add_metrics_def chart_simps js_bind_eq_Inr split: if_splits)
  with assms show ?thesis by simp
qed

lemma validate_funnel_metrics:
  assumes "validate_funnel E (with_meta ps ms) = Inr (with_meta ps ns)"
  shows "add_metrics E (with_meta ps ns) = Inr (with_meta ps ns)"
proof -
  from assms obtain d1 d2 where d: "field_meta E ''dimension'' string_field ''stage'' ''stage'' (with_meta ps ms) = Inr d1"
    "field_meta E ''metric'' (numeric_field E) ''count'' ''count'' d1 = Inr d2" "add_metrics E d2 = Inr (with_meta ps ns)"
    by (auto simp: validate_funnel_def js_bind_eq_Inr)
  obtain os where os: "d1 = with_meta ps os" using fillsD [OF fills_field d(1)] by auto
  obtain ts where "d2 = with_meta ps ts"
    using fillsD [OF fills_field d(2) [unfolded os]] by auto
  with d(3) add_metrics_idem show ?thesis by blast
qed

lemma validate_case_fixed:
  assumes "\<And>k. k \<in> set (required_fields (prop_lookup ns ''type'')) \<Longrightarrow> js_truthy (prop_lookup ns k)"
    "prop_lookup ns ''type'' \<noteq> JStr ''funnel''"
  shows "validate_case E (with_meta ps ns) = Inr (with_meta ps ns)"
  using assms
  by (auto simp: validate_case_def chart_simps required_fields_def validate_sankey_def validate_pie_def
      validate_line_def validate_stacked_def default_meta_done field_meta_done)

lemma validate_case_funnel:
  assumes "js_truthy (prop_lookup ns ''dimension'')" "js_truthy (prop_lookup ns ''metric'')"
    "prop_lookup ns ''type'' = JStr ''funnel''"
  shows "validate_case E (with_meta ps ns) = add_metrics E (with_meta ps ns)"
  using assms by (simp add: validate_case_def chart_simps validate_funnel_def field_meta_done)

lemma validate_case_done:
  assumes "validate_case E (with_meta ps ms) = Inr (with_meta ps ns)" "prop_lookup ns ''type'' = prop_lookup ms ''type''"
    and "\<And>k. k \<in> set (required_fields (prop_lookup ms ''type'')) \<Longrightarrow> js_truthy (prop_lookup ns k)"
  shows "validate_case E (with_meta ps ns) = Inr (with_meta ps ns)"
proof (cases "prop_lookup ms ''type'' = JStr ''funnel''")
  case True
  with assms have "add_metrics E (with_meta ps ns) = Inr (with_meta ps ns)"
    by (simp add: validate_case_def chart_simps validate_funnel_metrics)
  with True assms(2,3) show ?thesis by (simp add: validate_case_funnel required_fields_def)
next
  case False
  with assms(2,3) show ?thesis by (intro validate_case_fixed) simp_all
qed

lemma sankey_value:
  assumes "validate_sankey (with_meta ps ms) = Inr (with_meta ps ns)"
  shows "prop_lookup ns ''value'' = (if js_truthy (prop_lookup ms ''value'') then prop_lookup ms ''value'' else JStr ''value'')"
  using assms by (auto simp: validate_sankey_def default_meta_def chart_simps split: if_splits)

lemma is_status_counts_cong:
  assumes "prop_lookup ns ''type'' = prop_lookup ms ''type''" "prop_lookup ns ''nodes'' = prop_lookup ms ''nodes''"
    "prop_lookup ns ''value'' = prop_lookup ms ''value''"
  shows "is_status_counts E (with_meta ps ns) = is_status_counts E (with_meta ps ms)"
  unfolding is_status_counts_def with_meta_ops with_meta_rows js_bind_simps assms ..

text \<open>The status counts are recognised at the first validation or never.\<close>

lemma no_second_relabel:
  assumes b: "is_status_counts E (with_meta ps ms) = Inr b"
    and c: "validate_case E (with_meta ps (if b then to_pie ms else ms)) = Inr (with_meta ps ns)"
    and ty: "prop_lookup ns ''type'' = (if b then JStr ''pie'' else prop_lookup ms ''type'')"
    and nd: "\<not> b \<Longrightarrow> prop_lookup ns ''nodes'' = prop_lookup ms ''nodes''"
  shows "is_status_counts E (with_meta ps ns) = Inr False"
proof (cases "prop_lookup ns ''type'' = JStr ''sankey''")
  case False
  then show ?thesis by (simp add: is_status_counts_def chart_simps)
next
  case True
  with ty have nb: "\<not> b" and s: "prop_lookup ms ''type'' = JStr ''sankey''" by (auto split: if_splits)
  with c have "validate_sankey (with_meta ps ms) = Inr (with_meta ps ns)"
    by (simp add: validate_case_def chart_simps)
  note v = sankey_value [OF this]
  show ?thesis
  proof (cases "prop_lookup ms ''value'' = JStr ''count''")
    case True
    with v have "prop_lookup ns ''value'' = prop_lookup ms ''value''" by simp
    with nb nd [OF nb] ty have "is_status_counts E (with_meta ps ns) = is_status_counts E (with_meta ps ms)"
      by (intro is_status_counts_cong) simp_all
    with b nb show ?thesis by simp
  next
    case False
    with v have "prop_lookup ns ''value'' \<noteq> JStr ''count''" by simp
    then show ?thesis by (simp add: is_status_counts_def chart_simps)
  qed
qed

section \<open>The required metadata is there\<close>

lemma validated_fields:
  assumes "data = JObj qs" "map_of qs ''metadata'' = Some (JObj ms)" "chart_complete data"
    and "validateChartData E data = Inr d"
  shows "\<exists>ps ns. d = JObj ps \<and> map_of ps ''metadata'' = Some (JObj ns) \<and>
     (\<forall>k \<in> set (required_fields (prop_lookup ns ''type'')). js_truthy (prop_lookup ns k))"
proof -
  obtain ps where ps: "json_clone data = with_meta ps (filter (\<lambda>p. snd p \<noteq> JUndef) (map (map_prod id json_clone) ms))"
    using clone_chart [OF assms(2)] assms(1) by metis
  obtain b ns where "filled (required_fields (if b then JStr ''pie'' else prop_lookup (filter (\<lambda>p. snd p \<noteq> JUndef) (map (map_prod id json_clone) ms)) ''type''))
       (if b then to_pie (camel_case (filter (\<lambda>p. snd p \<noteq> JUndef) (map (map_prod id json_clone) ms)))
        else camel_case (filter (\<lambda>p. snd p \<noteq> JUndef) (map (map_prod id json_clone) ms))) ns"
    "d = with_meta ps ns"
    "prop_lookup ns ''type'' = (if b then JStr ''pie'' else prop_lookup (filter (\<lambda>p. snd p \<noteq> JUndef) (map (map_prod id json_clone) ms)) ''type'')"
    by (rule validate_result [OF ps props_fixed_clone assms(3,4)])
  then show ?thesis
    by (intro exI [of _ "props_put ps ''metadata'' (JObj ns)"] exI [of _ ns]) (simp add: with_meta_def filled_def)
qed

section \<open>Properties\<close>

definition demo_chart :: jsval where
  "demo_chart = JObj [
     (''data'', arr [JObj [(''day'', JStr ''2023-01-01''), (''stock'', int_val 7)]]),
     (''metadata'', JObj [(''type'', JStr ''line''), (''y_axis'', JStr ''stock'')])]"

definition demo_validated :: jsval where
  "demo_validated = JObj [
     (''data'', arr [JObj [(''day'', JStr ''2023-01-01''), (''stock'', int_val 7)]]),
     (''metadata'', JObj [(''type'', JStr ''line''), (''y_axis'', JStr ''stock''), (''yAxis'', JStr ''stock''),
        (''xAxis'', JStr ''day'')])]"

lemmas js_eval = js_positive_def Let_def prop_lookup_def validateChartData_def chart_complete_def
  rename_meta_def default_meta_def meta_get_def meta_put_def relabel_status_counts_def is_status_counts_def
  validate_case_def validate_line_def field_meta_def has_rows_def first_item_def date_or_string_field_def find_field_def
  string_field_def field_or_def

lemma demo_validate: "validateChartData demo_env demo_chart = Inr demo_validated"
  by (simp add: demo_chart_def demo_validated_def demo_env_def js_eval)

lemma demo_complete: "chart_complete demo_chart"
  by (simp add: demo_chart_def chart_complete_def prop_lookup_def)



text \<open>
  C34: Validating is idempotent: the validation of a response whose metadata is an object is
  returned unchanged by a second validation, whatever the type of the chart and the rows.
\<close>

theorem validate_idempotent:
  assumes "data = JObj qs" "map_of qs ''metadata'' = Some (JObj ms)" "validateChartData E data = Inr d"
  shows "validateChartData E d = Inr d"
proof (cases "chart_complete data \<and> chart_complete d")
  case False
  with assms(3) show ?thesis by (auto simp: validateChartData_def)
next
  case True
  define cs where "cs = filter (\<lambda>p. snd p \<noteq> JUndef) (map (map_prod id json_clone) ms)"
  obtain ps where ps: "json_clone data = with_meta ps cs" "props_fixed ps"
    using clone_chart [OF assms(2)] assms(1) unfolding cs_def by metis
  have "props_fixed cs" unfolding cs_def by (rule props_fixed_clone)
  then obtain b ns where r: "is_status_counts E (with_meta ps (camel_case cs)) = Inr b"
    "validate_case E (with_meta ps (if b then to_pie (camel_case cs) else camel_case cs)) = Inr (with_meta ps ns)"
    "filled (required_fields (if b then JStr ''pie'' else prop_lookup cs ''type''))
       (if b then to_pie (camel_case cs) else camel_case cs) ns"
    "d = with_meta ps ns" "both_cases ns" "props_fixed ns" "\<exists>s. js_toString E (prop_lookup ns ''type'') = Inr s"
    "prop_lookup ns ''type'' = (if b then JStr ''pie'' else prop_lookup cs ''type'')"
    using validate_result [OF ps(1) _ _ assms(3)] True by blast
  have clone: "json_clone d = with_meta ps ns"
    unfolding r(4) with_meta_def
    by (intro json_clone_fixed props_fixed_put ps(2)) (simp_all add: json_clone_fixed r(6) del: json_clone.simps)
  have nodes: "prop_lookup ns ''nodes'' = prop_lookup (camel_case cs) ''nodes''" if "\<not> b"
    using r(3) that by (simp add: filled_def required_fields_def)
  have ty: "prop_lookup (if b then to_pie (camel_case cs) else camel_case cs) ''type'' = prop_lookup ns ''type''"
    using r(8) by (simp add: to_pie_def)
  have "is_status_counts E (with_meta ps ns) = Inr False"
    using no_second_relabel [OF r(1,2)] r(8) nodes by simp
  moreover have "validate_case E (with_meta ps ns) = Inr (with_meta ps ns)"
    using validate_case_done [OF r(2) ty [symmetric]] r(3) ty r(8) by (simp add: filled_def)
  ultimately show ?thesis
    using validate_with_meta [OF clone] True r(7) by (auto simp: both_cases_camel [OF r(5)] r(4) chart_simps)
qed

theorem validate_idempotent_witness:
  "validateChartData demo_env demo_validated = Inr demo_validated"
  using validate_idempotent [OF demo_chart_def _ demo_validate] by simp

text \<open>
  Validating never touches the rows and never replaces metadata that is there: the rows of the
  result are those of the response, and a field that had a value keeps it, except that status
  counts labelled as a sankey chart become a pie chart of \<open>count\<close> by \<open>status\<close>.
\<close>

theorem validate_preserves:
  assumes "data = JObj qs" "map_of qs ''metadata'' = Some (JObj ms)" "props_fixed ms"
    and "map_of qs ''data'' = Some rows" "rows \<noteq> JUndef"
    and "chart_complete data" "validateChartData E data = Inr d"
  shows "\<exists>ns. js_get d ''data'' = Inr (json_clone rows) \<and> js_get d ''metadata'' = Inr (JObj ns) \<and>
     (if prop_lookup ns ''type'' = prop_lookup ms ''type''
      then \<forall>k. js_truthy (prop_lookup ms k) \<longrightarrow> prop_lookup ns k = prop_lookup ms k
      else prop_lookup ms ''type'' = JStr ''sankey'' \<and> prop_lookup ns ''type'' = JStr ''pie'' \<and>
        prop_lookup ns ''dimension'' = JStr ''status'' \<and> prop_lookup ns ''metric'' = JStr ''count'')"
proof -
  have cs: "filter (\<lambda>p. snd p \<noteq> JUndef) (map (map_prod id json_clone) ms) = ms"
    using json_clone_fixed [OF assms(3)] by simp
  obtain ps where ps: "json_clone data = with_meta ps ms" "prop_lookup ps ''data'' = json_clone rows"
    using clone_chart [OF assms(2)] assms(1,4,5) unfolding cs by metis
  obtain b ns where r: "is_status_counts E (with_meta ps (camel_case ms)) = Inr b"
    "filled (required_fields (if b then JStr ''pie'' else prop_lookup ms ''type''))
       (if b then to_pie (camel_case ms) else camel_case ms) ns"
    "d = with_meta ps ns" "prop_lookup ns ''type'' = (if b then JStr ''pie'' else prop_lookup ms ''type'')"
    by (rule validate_result [OF ps(1) assms(3,6,7)])
  have "b \<Longrightarrow> prop_lookup ms ''type'' = JStr ''sankey''"
    using r(1) by (auto simp: is_status_counts_def chart_simps split: if_splits)
  moreover have "b \<Longrightarrow> prop_lookup ns ''dimension'' = JStr ''status'' \<and> prop_lookup ns ''metric'' = JStr ''count''"
    using r(2) by (simp add: filled_def extends_def to_pie_def)
  moreover have "\<not> b \<Longrightarrow> js_truthy (prop_lookup ms k) \<Longrightarrow> prop_lookup ns k = prop_lookup ms k" for k
    using r(2) lookup_camel_truthy by (simp add: filled_def extends_def)
  ultimately show ?thesis
    using r(3,4) ps(2) by (intro exI [of _ ns]) (auto simp: chart_simps)
qed

theorem validate_preserves_witness:
  "js_get demo_validated ''data'' = Inr (arr [JObj [(''day'', JStr ''2023-01-01''), (''stock'', int_val 7)]])"
  using validate_preserves [OF demo_chart_def _ _ _ _ demo_complete demo_validate,
      of "[(''type'', JStr ''line''), (''y_axis'', JStr ''stock'')]"]
  by (simp add: props_fixed_def)

end
