(* ===== verification/Time_Series.thy ===== *)
theory Time_Series
  imports JS_Value "HOL-Library.Multiset"
begin

text \<open>
  \<open>TimeSeriesHelper\<close> of \<open>frontend-dashboard/src/utils/chartHelpers.ts\<close>: grouping the rows of a
  response by hour, day, week or month. A \<open>Date\<close> is its time value (\<open>NaN\<close> when invalid). The
  functions of date-fns and the date constructor are the fields of \<open>date_lib\<close>.
\<close>

section \<open>Dates\<close>

datatype AggregationPeriod = Hour | Day | Week | Month

record date_lib =
  parseISO :: "string \<Rightarrow> jsnum"
  new_Date :: "jsval \<Rightarrow> jsnum js"
  startOf :: "AggregationPeriod \<Rightarrow> jsnum \<Rightarrow> jsnum"
  format_date :: "jsnum \<Rightarrow> string \<Rightarrow> string js"
  toISOString :: "jsnum \<Rightarrow> string js"

section \<open>Field names\<close>

text \<open>\<open>field.replace(/_([a-z])/g, (_, p1) => p1.toUpperCase())\<close>\<close>

fun camelCase :: "string \<Rightarrow> string" where
  "camelCase (c # d # s) = (if c = CHR ''_'' \<and> is_lower d then to_upper d # camelCase s else c # camelCase (d # s))"
| "camelCase s = s"

text \<open>\<open>field.replace(/([A-Z])/g, "_$1").toLowerCase()\<close>\<close>

definition snakeCase :: "string \<Rightarrow> string" where
  "snakeCase s = map to_lower (concat (map (\<lambda>c. if is_upper c then [CHR ''_'', c] else [c]) s))"

text \<open>\<open>field.includes("_")\<close> and \<open>field.replace\<close>: metadata may name several fields in an array.\<close>

fun includes_underscore :: "jsval \<Rightarrow> bool js" where
  "includes_underscore (JStr s) = Inr (CHR ''_'' \<in> set s)"
| "includes_underscore (JArr xs ps) = Inr (JStr ''_'' \<in> set xs)"
| "includes_underscore v = Inl TypeError"

fun replace_field :: "(string \<Rightarrow> string) \<Rightarrow> jsval \<Rightarrow> string js" where
  "replace_field f (JStr s) = Inr (f s)"
| "replace_field f v = Inl TypeError"

text \<open>The outcome of the fallback searches: \<open>JUndef\<close> when they do not apply or find nothing.\<close>

definition getFieldValue :: "js_env \<Rightarrow> jsval \<Rightarrow> jsval \<Rightarrow> jsval js" where
  "getFieldValue E item field =
     js_bind (js_toString E field) (\<lambda>key.
     js_bind (js_get item key) (\<lambda>v. if v \<noteq> JUndef then Inr v
     else js_bind (includes_underscore field) (\<lambda>u.
       js_bind (if u then js_bind (replace_field camelCase field) (js_get item) else Inr JUndef) (\<lambda>v. if v \<noteq> JUndef then Inr v
     else js_bind (if list_ex is_upper key then js_bind (replace_field snakeCase field) (js_get item) else Inr JUndef) (\<lambda>v.
       if v \<noteq> JUndef then Inr v else Inr JNull)))))"

section \<open>Aggregation\<close>

record point =
  pt_timestamp :: jsnum
  pt_value :: jsnum
  pt_original :: jsval

record group =
  g_sum :: jsnum
  g_count :: nat
  g_period :: jsnum
  g_items :: "jsval list"

record aggregated =
  a_period :: string
  a_value :: jsnum
  a_count :: nat
  a_average :: jsnum
  a_timestamp :: jsnum
  a_items :: "jsval list"

definition to_point :: "js_env \<Rightarrow> date_lib \<Rightarrow> jsval \<Rightarrow> jsval \<Rightarrow> jsval \<Rightarrow> point js" where
  "to_point E L timestampField valueField item =
     js_bind (getFieldValue E item timestampField) (\<lambda>rawTimestamp.
     js_bind (getFieldValue E item valueField) (\<lambda>rawValue.
     js_bind (case rawValue of JNum n \<Rightarrow> Inr n
        | _ \<Rightarrow> js_bind (js_toString E rawValue) (\<lambda>s. Inr (if parseFloat E s = NaN then Fin 0 else parseFloat E s)))
       (\<lambda>value.
     js_bind (case rawTimestamp of JStr s \<Rightarrow> Inr (parseISO L s) | _ \<Rightarrow> new_Date L rawTimestamp) (\<lambda>timestamp.
     Inr \<lparr>pt_timestamp = timestamp, pt_value = value, pt_original = item\<rparr>))))"

text \<open>The \<open>Map\<close> of groups in insertion order.\<close>

fun add_point :: "(jsnum \<times> group) list \<Rightarrow> jsnum \<Rightarrow> point \<Rightarrow> (jsnum \<times> group) list" where
  "add_point [] key p =
     [(key, \<lparr>g_sum = num_add (Fin 0) (pt_value p), g_count = 1, g_period = key, g_items = [pt_original p]\<rparr>)]"
| "add_point ((k, g) # gs) key p =
     (if k = key
      then (k, g\<lparr>g_sum := num_add (g_sum g) (pt_value p), g_count := g_count g + 1, g_items := g_items g @ [pt_original p]\<rparr>) # gs
      else (k, g) # add_point gs key p)"

definition group_points :: "date_lib \<Rightarrow> AggregationPeriod \<Rightarrow> point list \<Rightarrow> (jsnum \<times> group) list" where
  "group_points L period ps = foldl (\<lambda>gs p. add_point gs (startOf L period (pt_timestamp p)) p) [] ps"

text \<open>
  \<open>.sort(([a], [b]) => a - b)\<close>. The keys are distinct, so the order is determined, unless one is
  \<open>NaN\<close>, in which case formatting that group throws whatever the order is.
\<close>

fun insert_group :: "jsnum \<times> group \<Rightarrow> (jsnum \<times> group) list \<Rightarrow> (jsnum \<times> group) list" where
  "insert_group x [] = [x]"
| "insert_group x (y # ys) = (if num_lt (fst y) (fst x) then y # insert_group x ys else x # y # ys)"

definition sort_groups :: "(jsnum \<times> group) list \<Rightarrow> (jsnum \<times> group) list" where
  "sort_groups gs = foldr insert_group gs []"

definition period_label :: "date_lib \<Rightarrow> AggregationPeriod \<Rightarrow> bool \<Rightarrow> jsnum \<Rightarrow> string js" where
  "period_label L period formatLabels t =
     (if formatLabels then
        (case period of
           Hour \<Rightarrow> format_date L t ''MMM dd HH:mm''
         | Day \<Rightarrow> format_date L t ''MMM dd yyyy''
         | Week \<Rightarrow> js_bind (format_date L t ''MMM dd yyyy'') (\<lambda>s. Inr (''Week of '' @ s))
         | Month \<Rightarrow> format_date L t ''MMM yyyy'')
      else toISOString L t)"

definition to_aggregated :: "date_lib \<Rightarrow> AggregationPeriod \<Rightarrow> bool \<Rightarrow> jsnum \<times> group \<Rightarrow> aggregated js" where
  "to_aggregated L period formatLabels kg = (let g = snd kg in
     js_bind (period_label L period formatLabels (g_period g)) (\<lambda>periodLabel.
       Inr \<lparr>a_period = periodLabel, a_value = g_sum g, a_count = g_count g,
         a_average = num_div (g_sum g) (Fin (of_nat (g_count g))), a_timestamp = g_period g, a_items = g_items g\<rparr>))"

text \<open>The rows of the array; any other value has no \<open>map\<close>.\<close>

fun js_elements :: "jsval \<Rightarrow> jsval list js" where
  "js_elements (JArr xs ps) = Inr xs"
| "js_elements v = Inl TypeError"

text \<open>\<open>[...v]\<close>\<close>

fun js_spread :: "jsval \<Rightarrow> jsval list js" where
  "js_spread (JArr xs ps) = Inr xs"
| "js_spread (JStr s) = Inr (map (\<lambda>c. JStr [c]) s)"
| "js_spread v = Inl TypeError"

definition no_rows :: "jsval \<Rightarrow> bool js" where
  "no_rows data = (if \<not> js_truthy data then Inr True
     else js_bind (js_get data ''length'') (\<lambda>n. Inr (\<not> js_truthy n)))"

definition aggregateTimeSeries ::
  "js_env \<Rightarrow> date_lib \<Rightarrow> jsval \<Rightarrow> jsval \<Rightarrow> jsval \<Rightarrow> AggregationPeriod \<Rightarrow> bool \<Rightarrow> aggregated list js" where
  "aggregateTimeSeries E L data timestampField valueField period formatLabels =
     js_bind (no_rows data) (\<lambda>b. if b then Inr []
     else js_bind (js_elements data) (\<lambda>rows.
       js_bind (js_map (to_point E L timestampField valueField) rows) (\<lambda>points.
       js_map (to_aggregated L period formatLabels) (sort_groups (group_points L period points)))))"

section \<open>The chart of transaction volumes\<close>

definition first_defined :: "jsval list \<Rightarrow> string list \<Rightarrow> string option js" where
  "first_defined rows ks = (case rows of [] \<Rightarrow> Inr None
     | item # _ \<Rightarrow> js_find (\<lambda>k. js_bind (js_get item k) (\<lambda>v. Inr (v \<noteq> JUndef))) ks)"

definition aggregation_period :: "nat \<Rightarrow> jsnum \<Rightarrow> AggregationPeriod" where
  "aggregation_period n diffInDays =
     (let byRange = (if 1 < n
        then (if num_lt (Fin 60) diffInDays then Month
              else if num_lt (Fin 14) diffInDays then Week
              else if diffInDays = Fin 2 \<or> num_lt diffInDays (Fin 2) then Hour else Day)
        else Day)
      in if 100 < n then Month else if 50 < n then Week else byRange)"

definition diff_in_days :: "js_env \<Rightarrow> date_lib \<Rightarrow> jsval \<Rightarrow> jsval list \<Rightarrow> jsnum js" where
  "diff_in_days E L timestampField rows =
     (if length rows \<le> 1 then Inr NaN
      else js_bind (js_toString E timestampField) (\<lambda>k.
        js_bind (js_get (hd rows) k) (\<lambda>a. js_bind (js_get (last rows) k) (\<lambda>b.
        js_bind (new_Date L a) (\<lambda>firstDate. js_bind (new_Date L b) (\<lambda>lastDate.
          Inr (Math_floor (num_div (num_sub lastDate firstDate) (Fin 86400000)))))))))"

definition by_hour :: "date_lib \<Rightarrow> jsval \<Rightarrow> jsval \<Rightarrow> jsnum js" where
  "by_hour L a b = js_bind (js_get a ''hour'') (\<lambda>x. js_bind (js_get b ''hour'') (\<lambda>y.
     js_bind (new_Date L x) (\<lambda>timeA. js_bind (new_Date L y) (\<lambda>timeB. Inr (num_sub timeA timeB)))))"

definition sorted_input :: "js_env \<Rightarrow> date_lib \<Rightarrow> jsval list \<Rightarrow> jsval list js" where
  "sorted_input E L rows =
     (case rows of [] \<Rightarrow> Inr [] | r # rs \<Rightarrow>
        js_bind (js_get r ''hour'') (\<lambda>h. if js_truthy h then js_sort E (by_hour L) rows else Inr rows))"

definition meta_or :: "jsval \<Rightarrow> string \<Rightarrow> string \<Rightarrow> string \<Rightarrow> jsval js" where
  "meta_or m k k' dflt = js_bind (js_get m k) (\<lambda>a. if js_truthy a then Inr a
     else js_bind (js_get m k') (\<lambda>b. Inr (js_or b (JStr dflt))))"

definition volume_point :: "date_lib \<Rightarrow> aggregated \<Rightarrow> jsval js" where
  "volume_point L a = js_bind (toISOString L (a_timestamp a)) (\<lambda>t.
     Inr (JObj [(''period'', JStr (a_period a)), (''count'', JNum (a_value a)), (''timestamp'', JStr t)]))"

text \<open>\<open>{ ...metadata }\<close>\<close>

fun spread_object :: "jsval \<Rightarrow> jsval" where
  "spread_object (JObj ps) = JObj ps"
| "spread_object (JArr xs ps) = JObj (zip (map index_string [0..<length xs]) xs @ ps)"
| "spread_object (JStr s) = JObj (zip (map index_string [0..<length s]) (map (\<lambda>c. JStr [c]) s))"
| "spread_object v = JObj []"

definition volume_metadata :: jsval where
  "volume_metadata = JObj [(''type'', JStr ''line''), (''xAxis'', JStr ''period''), (''yAxis'', JStr ''count'')]"

definition transformTransactionVolumeData :: "js_env \<Rightarrow> date_lib \<Rightarrow> jsval \<Rightarrow> jsval \<Rightarrow> jsval js" where
  "transformTransactionVolumeData E L data metadata =
     js_bind (no_rows data) (\<lambda>b.
       if b then Inr (JObj [(''data'', arr []), (''metadata'', spread_object metadata)])
       else js_bind (js_spread data) (\<lambda>input.
         js_bind (sorted_input E L input) (\<lambda>rows.
         js_bind (meta_or metadata ''xAxis'' ''x_axis'' ''hour'') (\<lambda>timestampField.
         js_bind (meta_or metadata ''yAxis'' ''y_axis'' ''transaction_count'') (\<lambda>metadataValueField.
         js_bind (first_defined rows [''transaction_count'', ''transactionCount'', ''count'', ''value'']) (\<lambda>f.
         js_bind (diff_in_days E L timestampField rows) (\<lambda>diffInDays.
         js_bind (aggregateTimeSeries E L (arr rows) timestampField
             (case f of Some k \<Rightarrow> JStr k | None \<Rightarrow> metadataValueField)
             (aggregation_period (length rows) diffInDays) True) (\<lambda>aggregatedData.
         js_bind (js_map (volume_point L) aggregatedData) (\<lambda>points.
           Inr (JObj [(''data'', arr points), (''metadata'', volume_metadata)]))))))))))"

section \<open>The order of numbers\<close>

lemma num_lt_trans: "num_lt a b \<Longrightarrow> num_lt b c \<Longrightarrow> num_lt a c"
  by (cases a; cases b; cases c) auto

lemma num_lt_linear: "a \<noteq> NaN \<Longrightarrow> b \<noteq> NaN \<Longrightarrow> a \<noteq> b \<Longrightarrow> \<not> num_lt a b \<Longrightarrow> num_lt b a"
  by (cases a; cases b) auto

section \<open>Lemmas on lists of results\<close>

lemma js_map_Inr: "js_map f xs = Inr ys \<longleftrightarrow> list_all2 (\<lambda>x y. f x = Inr y) xs ys"
  by (induction xs arbitrary: ys) (auto simp: js_bind_eq_Inr list_all2_Cons1)

lemma js_map_map:
  assumes "js_map f xs = Inr ys" "\<And>x y. f x = Inr y \<Longrightarrow> g y = h x"
  shows "map g ys = map h xs"
  using assms by (induction xs arbitrary: ys) (auto simp: js_bind_eq_Inr)

section \<open>The groups\<close>

text \<open>What holds of the map of groups after the points \<open>ps\<close> have been added.\<close>

definition groups_ok :: "date_lib \<Rightarrow> AggregationPeriod \<Rightarrow> point list \<Rightarrow> (jsnum \<times> group) list \<Rightarrow> bool" where
  "groups_ok L period ps gs \<longleftrightarrow>
     distinct (map fst gs) \<and>
     mset (concat (map (g_items \<circ> snd) gs)) = mset (map pt_original ps) \<and>
     (\<forall>(k, g) \<in> set gs. g_period g = k \<and> g_count g = length (g_items g) \<and>
        (\<forall>x \<in> set (g_items g). \<exists>p \<in> set ps. pt_original p = x \<and> startOf L period (pt_timestamp p) = k))"

lemma add_point_keys: "fst ` set (add_point gs key p) = insert key (fst ` set gs)"
  by (induction gs key p rule: add_point.induct) auto

lemma add_point_distinct: "distinct (map fst gs) \<Longrightarrow> distinct (map fst (add_point gs key p))"
proof (induction gs key p rule: add_point.induct)
  case (2 k g gs key p)
  then show ?case using add_point_keys [of gs key p] by (auto simp: image_iff)
qed simp

lemma add_point_items:
  "mset (concat (map (g_items \<circ> snd) (add_point gs key p))) = add_mset (pt_original p) (mset (concat (map (g_items \<circ> snd) gs)))"
  by (induction gs key p rule: add_point.induct) auto

lemma add_point_group:
  "(k, g) \<in> set (add_point gs key p) \<Longrightarrow> (k, g) \<in> set gs \<or> k = key \<and>
     (g_period g = key \<and> g_count g = 1 \<and> g_items g = [pt_original p] \<or>
      (\<exists>h. (k, h) \<in> set gs \<and> g_period g = g_period h \<and> g_count g = g_count h + 1 \<and> g_items g = g_items h @ [pt_original p]))"
  by (induction gs key p rule: add_point.induct) (auto split: if_splits)

lemma groups_ok_add:
  assumes "groups_ok L period ps gs"
  shows "groups_ok L period (ps @ [p]) (add_point gs (startOf L period (pt_timestamp p)) p)"
  unfolding groups_ok_def
proof (intro conjI ballI, goal_cases)
  case 1
  then show ?case using assms by (simp add: groups_ok_def add_point_distinct)
next
  case 2
  then show ?case using assms add_point_items by (simp add: groups_ok_def)
next
  case (3 kg)
  obtain k g where kg: "kg = (k, g)" by fastforce
  have old: "g_period h = k \<and> g_count h = length (g_items h) \<and>
      (\<forall>x \<in> set (g_items h). \<exists>p \<in> set ps. pt_original p = x \<and> startOf L period (pt_timestamp p) = k)"
    if "(k, h) \<in> set gs" for h
    using assms that unfolding groups_ok_def by fastforce
  from add_point_group [OF 3 [unfolded kg]] show ?case
    by (elim disjE conjE exE) (use kg old in auto)
qed

lemma group_points_ok: "groups_ok L period ps (group_points L period ps)"
proof (induction ps rule: rev_induct)
  case Nil
  then show ?case by (simp add: group_points_def groups_ok_def)
next
  case (snoc p ps)
  then show ?case by (simp add: group_points_def groups_ok_add)
qed

lemma mset_insert_group: "mset (insert_group x gs) = add_mset x (mset gs)"
  by (induction gs) auto

lemma mset_sort_groups: "mset (sort_groups gs) = mset gs"
  by (induction gs) (auto simp: sort_groups_def mset_insert_group)

lemma mset_concat_map: "mset (concat (map f xs)) = (\<Sum>x \<in># mset xs. mset (f x))"
  by (induction xs) auto

lemma insert_group_sorted:
  assumes "sorted_wrt (\<lambda>a b. num_lt (fst a) (fst b)) gs" "fst x \<notin> fst ` set gs"
    "fst x \<noteq> NaN" "NaN \<notin> fst ` set gs"
  shows "sorted_wrt (\<lambda>a b. num_lt (fst a) (fst b)) (insert_group x gs)"
  using assms
proof (induction gs)
  case (Cons y gs)
  have set: "set (insert_group x gs) = insert x (set gs)"
    using mset_insert_group [of x gs] by (metis set_mset_add_mset_insert set_mset_mset)
  show ?case
  proof (cases "num_lt (fst y) (fst x)")
    case True
    with Cons set show ?thesis by auto
  next
    case False
    then have "num_lt (fst x) (fst y)" using Cons.prems num_lt_linear by force
    with False Cons.prems show ?thesis by (auto intro: num_lt_trans)
  qed
qed simp

lemma sort_groups_sorted:
  assumes "distinct (map fst gs)" "NaN \<notin> fst ` set gs"
  shows "sorted_wrt (\<lambda>a b. num_lt (fst a) (fst b)) (sort_groups gs)"
  using assms
proof (induction gs)
  case (Cons g gs)
  have "set (sort_groups gs) = set gs"
    using mset_sort_groups [of gs] by (metis set_mset_mset)
  with Cons show ?case by (auto simp: sort_groups_def intro!: insert_group_sorted)
qed (simp add: sort_groups_def)

section \<open>From the groups to the result\<close>

lemma to_point_original: "to_point E L tf vf x = Inr p \<Longrightarrow> pt_original p = x"
  by (auto simp: to_point_def js_bind_eq_Inr)

lemma to_aggregated_fields:
  "to_aggregated L period b x = Inr a \<Longrightarrow>
   a_items a = g_items (snd x) \<and> a_count a = g_count (snd x) \<and> a_timestamp a = g_period (snd x)"
  by (auto simp: to_aggregated_def Let_def js_bind_eq_Inr)

lemma to_aggregated_valid:
  assumes "to_aggregated L period True x = Inr a" "\<And>f. \<exists>e. format_date L NaN f = Inl e"
  shows "g_period (snd x) \<noteq> NaN"
proof
  assume n: "g_period (snd x) = NaN"
  obtain e where "period_label L period True NaN = Inl e"
  proof (cases period)
    case Hour
    then show ?thesis using assms(2) [of "''MMM dd HH:mm''"] that by (auto simp: period_label_def)
  next
    case Month
    then show ?thesis using assms(2) [of "''MMM yyyy''"] that by (auto simp: period_label_def)
  qed (use assms(2) [of "''MMM dd yyyy''"] that in \<open>auto simp: period_label_def\<close>)
  with n assms(1) show False by (simp add: to_aggregated_def)
qed

lemma list_all2_set2: "list_all2 P xs ys \<Longrightarrow> y \<in> set ys \<Longrightarrow> \<exists>x \<in> set xs. P x y"
  by (induction rule: list_all2_induct) auto

lemma list_all2_set1: "list_all2 P xs ys \<Longrightarrow> x \<in> set xs \<Longrightarrow> \<exists>y \<in> set ys. P x y"
  by (induction rule: list_all2_induct) auto

lemma aggregation_points:
  assumes "aggregateTimeSeries E L (JArr rows ps) tf vf period b = Inr as" "rows \<noteq> []"
  obtains pts where "map pt_original pts = rows" "\<forall>p \<in> set pts. to_point E L tf vf (pt_original p) = Inr p"
    "js_map (to_aggregated L period b) (sort_groups (group_points L period pts)) = Inr as"
proof -
  from assms obtain pts where pts: "js_map (to_point E L tf vf) rows = Inr pts"
    and as: "js_map (to_aggregated L period b) (sort_groups (group_points L period pts)) = Inr as"
    by (auto simp: aggregateTimeSeries_def no_rows_def js_bind_eq_Inr)
  have "map pt_original pts = rows"
    using js_map_map [OF pts, of pt_original id] to_point_original by auto
  moreover have "to_point E L tf vf (pt_original p) = Inr p" if "p \<in> set pts" for p
    using list_all2_set2 [OF pts [unfolded js_map_Inr] that] to_point_original by auto
  ultimately show ?thesis using that as by blast
qed

text \<open>The groups of a result, sorted.\<close>

lemma sorted_groups_items:
  assumes "groups_ok L period pts gs" "js_map (to_aggregated L period b) (sort_groups gs) = Inr as"
  shows "mset (concat (map a_items as)) = mset (map pt_original pts)"
    "sum_list (map a_count as) = length (concat (map a_items as))"
    "map a_timestamp as = map fst (sort_groups gs)"
proof -
  have set: "set (sort_groups gs) = set gs" using mset_sort_groups by (metis set_mset_mset)
  have items: "map a_items as = map (g_items \<circ> snd) (sort_groups gs)"
    and counts: "map a_count as = map (g_count \<circ> snd) (sort_groups gs)"
    and stamps: "map a_timestamp as = map (g_period \<circ> snd) (sort_groups gs)"
    using assms(2) to_aggregated_fields by (auto intro!: js_map_map)
  have "mset (concat (map (g_items \<circ> snd) (sort_groups gs))) = mset (concat (map (g_items \<circ> snd) gs))"
    unfolding mset_concat_map mset_sort_groups ..
  then show "mset (concat (map a_items as)) = mset (map pt_original pts)"
    using assms(1) items by (simp add: groups_ok_def)
  have g: "g_count (snd x) = length (g_items (snd x)) \<and> g_period (snd x) = fst x" if "x \<in> set (sort_groups gs)" for x
    using assms(1) that set by (fastforce simp: groups_ok_def)
  then show "sum_list (map a_count as) = length (concat (map a_items as))"
    by (simp add: counts items length_concat comp_def cong: map_cong)
  show "map a_timestamp as = map fst (sort_groups gs)" using stamps g by simp
qed

section \<open>Properties\<close>

text \<open>A date library for the examples: dates are numbers, a period is a day of 24 hours.\<close>

definition demo_dates :: date_lib where
  "demo_dates = \<lparr>parseISO = (\<lambda>s. NaN),
     new_Date = (\<lambda>v. case v of JNum n \<Rightarrow> Inr n | _ \<Rightarrow> Inr NaN),
     startOf = (\<lambda>p n. case n of Fin x \<Rightarrow> Fin (of_int (\<lfloor>x / 86400000\<rfloor> * 86400000)) | _ \<Rightarrow> NaN),
     format_date = (\<lambda>t f. if t = NaN then Inl RangeError else Inr f),
     toISOString = (\<lambda>t. if t = NaN then Inl RangeError else Inr ''iso'')\<rparr>"

text \<open>
  C11: Aggregating a time series loses and invents no row: the items of the groups are exactly the
  rows, the counts add up to their number, every row is in the group of its own period, and
  the groups come in strictly increasing order of time, one per period. It relies on date-fns
  refusing to format an invalid date.
\<close>

theorem aggregation_partitions_rows:
  assumes agg: "aggregateTimeSeries E L (JArr rows ps) tf vf period True = Inr as"
    and bad: "\<And>f. \<exists>e. format_date L NaN f = Inl e"
  shows "mset (concat (map a_items as)) = mset rows \<and> sum_list (map a_count as) = length rows \<and>
     sorted_wrt (\<lambda>a b. num_lt (a_timestamp a) (a_timestamp b)) as \<and>
     (\<forall>a \<in> set as. \<forall>x \<in> set (a_items a). \<exists>p. to_point E L tf vf x = Inr p \<and>
        startOf L period (pt_timestamp p) = a_timestamp a)"
proof (cases "rows = []")
  case True
  with agg show ?thesis by (simp add: aggregateTimeSeries_def no_rows_def)
next
  case False
  obtain pts where pts: "map pt_original pts = rows" "\<forall>p \<in> set pts. to_point E L tf vf (pt_original p) = Inr p"
    and as: "js_map (to_aggregated L period True) (sort_groups (group_points L period pts)) = Inr as"
    by (rule aggregation_points [OF agg False])
  let ?gs = "group_points L period pts"
  note ok = group_points_ok [of L period pts]
  note res = sorted_groups_items [OF ok as]
  have set: "set (sort_groups ?gs) = set ?gs" using mset_sort_groups by (metis set_mset_mset)
  have "fst x \<noteq> NaN" if "x \<in> set ?gs" for x
    using list_all2_set1 [OF as [unfolded js_map_Inr]] to_aggregated_valid [OF _ bad] that set ok
    by (fastforce simp: groups_ok_def)
  then have "NaN \<notin> fst ` set ?gs" by (metis imageE)
  then have "sorted_wrt (\<lambda>a b. num_lt (fst a) (fst b)) (sort_groups ?gs)"
    using ok by (intro sort_groups_sorted) (simp add: groups_ok_def)
  then have s: "sorted_wrt (\<lambda>a b. num_lt (a_timestamp a) (a_timestamp b)) as"
    using res(3) by (metis sorted_wrt_map)
  have "\<exists>p. to_point E L tf vf x = Inr p \<and> startOf L period (pt_timestamp p) = a_timestamp a"
    if a: "a \<in> set as" "x \<in> set (a_items a)" for a x
  proof -
    obtain y where y: "y \<in> set ?gs" "to_aggregated L period True y = Inr a"
      using list_all2_set2 [OF as [unfolded js_map_Inr] a(1)] set by auto
    note f = to_aggregated_fields [OF y(2)]
    obtain p where "p \<in> set pts" "pt_original p = x" "startOf L period (pt_timestamp p) = g_period (snd y)"
      using ok y(1) f a(2) unfolding groups_ok_def by fastforce
    with pts(2) f show ?thesis by auto
  qed
  then show ?thesis using res pts(1) s by (metis mset_eq_length)
qed

definition demo_rows :: "jsval list" where
  "demo_rows = [JObj [(''t'', int_val 5), (''n'', int_val 2)], JObj [(''t'', int_val 86400001), (''n'', int_val 3)]]"

lemma demo_aggregation: "\<exists>as. aggregateTimeSeries demo_env demo_dates (arr demo_rows) (JStr ''t'') (JStr ''n'') Day True = Inr as"
  by (simp add: aggregateTimeSeries_def no_rows_def demo_rows_def to_point_def getFieldValue_def prop_lookup_def
      demo_dates_def group_points_def sort_groups_def to_aggregated_def period_label_def Let_def)

theorem aggregation_partitions_rows_witness:
  "\<exists>as. aggregateTimeSeries demo_env demo_dates (arr demo_rows) (JStr ''t'') (JStr ''n'') Day True = Inr as \<and>
     sum_list (map a_count as) = 2"
proof -
  obtain as where as: "aggregateTimeSeries demo_env demo_dates (arr demo_rows) (JStr ''t'') (JStr ''n'') Day True = Inr as"
    using demo_aggregation by blast
  from aggregation_partitions_rows [OF as] have "sum_list (map a_count as) = length demo_rows"
    by (simp add: demo_dates_def)
  with as show ?thesis by (auto simp: demo_rows_def)
qed

end
