(* ===== verification/Analytics_Hook.thy ===== *)
theory Analytics_Hook
  imports Chart_Validation Time_Series
begin

text \<open>
  \<open>useAnalytics\<close> of \<open>frontend-dashboard/src/hooks/useAnalytics.ts\<close>: the twenty-five functions that
  fetch the charts of the dashboard, repair a response that has the wrong shape and fall back
  on sample data. \<open>api path\<close> is the outcome of \<open>apiService.get(path)\<close>. \<open>iso_day t\<close> is
  \<open>new Date(t).toISOString().split("T")[0]\<close>.
\<close>

section \<open>The state of the hook\<close>

record analytics_state =
  loading :: bool
  hook_error :: "exn option"

text \<open>
  \<open>setLoading(true); setError(null); try { use(await apiService.get(path)) }
  catch { fallback } finally { setLoading(false) }\<close>
\<close>

definition load_chart ::
  "(string \<Rightarrow> jsval js) \<Rightarrow> string \<Rightarrow> (jsval \<Rightarrow> jsval js) \<Rightarrow> jsval js \<Rightarrow> analytics_state \<Rightarrow> jsval js \<times> analytics_state" where
  "load_chart api path use fallback st =
     (let st = st\<lparr>loading := True, hook_error := None\<rparr>;
          result = (case js_bind (api path) use of Inr d \<Rightarrow> Inr d | Inl err \<Rightarrow> fallback)
      in (result, st\<lparr>loading := False\<rparr>))"

text \<open>\<open>response && response.data\<close>\<close>

definition has_data :: "jsval \<Rightarrow> bool" where
  "has_data response \<longleftrightarrow> js_truthy response \<and>
     (case js_get response ''data'' of Inl e \<Rightarrow> False | Inr v \<Rightarrow> js_truthy v)"

text \<open>The getters that only validate: an empty response and a failed request give the sample.\<close>

definition validated_or_sample ::
  "js_env \<Rightarrow> (string \<Rightarrow> jsval js) \<Rightarrow> string \<Rightarrow> (jsval \<Rightarrow> jsval js) \<Rightarrow> jsval \<Rightarrow> analytics_state \<Rightarrow> jsval js \<times> analytics_state" where
  "validated_or_sample E api path repair sample =
     load_chart api path
       (\<lambda>response. if has_data response then js_bind (repair response) (validateChartData E)
          else validateChartData E sample)
       (validateChartData E sample)"

section \<open>Sample data\<close>

definition stock_level_trends_sample :: jsval where
  "stock_level_trends_sample = JObj [(''data'', arr [
     JObj [(''date'', JStr ''2023-01-01''), (''stock'', int_val 220)],
     JObj [(''date'', JStr ''2023-02-01''), (''stock'', int_val 250)],
     JObj [(''date'', JStr ''2023-03-01''), (''stock'', int_val 180)],
     JObj [(''date'', JStr ''2023-04-01''), (''stock'', int_val 290)],
     JObj [(''date'', JStr ''2023-05-01''), (''stock'', int_val 320)]]), (''metadata'', JObj [(''type'', JStr ''line''), (''xAxis'', JStr ''date''), (''yAxis'', JStr ''stock'')])]"

definition inventory_distribution_sample :: jsval where
  "inventory_distribution_sample = JObj [(''data'', arr [
     JObj [(''category'', JStr ''Electronics''), (''count'', int_val 150)],
     JObj [(''category'', JStr ''Clothing''), (''count'', int_val 120)],
     JObj [(''category'', JStr ''Home Goods''), (''count'', int_val 80)],
     JObj [(''category'', JStr ''Books''), (''count'', int_val 50)],
     JObj [(''category'', JStr ''Other''), (''count'', int_val 40)]]), (''metadata'', JObj [(''type'', JStr ''pie''), (''dimension'', JStr ''category''), (''metric'', JStr ''count'')])]"

definition warehouse_distribution_sample :: jsval where
  "warehouse_distribution_sample = JObj [(''data'', arr [
     JObj [(''warehouse'', JStr ''New York City Warehouse''), (''category'', JStr ''Electronics''), (''item_count'', int_val 2)],
     JObj [(''warehouse'', JStr ''Los Angeles Warehouse''), (''category'', JStr ''Clothing''), (''item_count'', int_val 2)],
     JObj [(''warehouse'', JStr ''Los Angeles Warehouse''), (''category'', JStr ''Electronics''), (''item_count'', int_val 1)],
     JObj [(''warehouse'', JStr ''Atlanta Warehouse''), (''category'', JStr ''Home Goods''), (''item_count'', int_val 1)],
     JObj [(''warehouse'', JStr ''Seattle Warehouse''), (''category'', JStr ''Home Goods''), (''item_count'', int_val 1)],
     JObj [(''warehouse'', JStr ''Atlanta Warehouse''), (''category'', JStr ''Clothing''), (''item_count'', int_val 1)],
     JObj [(''warehouse'', JStr ''Atlanta Warehouse''), (''category'', JStr ''Electronics''), (''item_count'', int_val 1)],
     JObj [(''warehouse'', JStr ''Chicago Warehouse''), (''category'', JStr ''Home Goods''), (''item_count'', int_val 1)],
     JObj [(''warehouse'', JStr ''Chicago Warehouse''), (''category'', JStr ''Electronics''), (''item_count'', int_val 1)],
     JObj [(''warehouse'', JStr ''Chicago Warehouse''), (''category'', JStr ''Clothing''), (''item_count'', int_val 1)],
     JObj [(''warehouse'', JStr ''New York City Warehouse''), (''category'', JStr ''Home Goods''), (''item_count'', int_val 2)],
     JObj [(''warehouse'', JStr ''Seattle Warehouse''), (''category'', JStr ''Clothing''), (''item_count'', int_val 1)]]), (''metadata'', JObj [(''type'', JStr ''stacked-bar''), (''xAxis'', JStr ''warehouse''), (''yAxis'', JStr ''item_count''), (''groupBy'', JStr ''category'')])]"

definition reorder_points_sample :: jsval where
  "reorder_points_sample = JObj [(''data'', arr [
     JObj [(''item'', JStr ''Item A''), (''current'', int_val 25), (''reorder'', int_val 15)],
     JObj [(''item'', JStr ''Item B''), (''current'', int_val 12), (''reorder'', int_val 20)],
     JObj [(''item'', JStr ''Item C''), (''current'', int_val 30), (''reorder'', int_val 10)],
     JObj [(''item'', JStr ''Item D''), (''current'', int_val 8), (''reorder'', int_val 15)],
     JObj [(''item'', JStr ''Item E''), (''current'', int_val 22), (''reorder'', int_val 18)]]), (''metadata'', JObj [(''type'', JStr ''bar''), (''xAxis'', JStr ''item''), (''yAxis'', JStr ''current'')])]"

definition order_flow_sample :: jsval where
  "order_flow_sample = JObj [(''data'', arr [
     JObj [(''source'', JStr ''pending''), (''target'', JStr ''processing''), (''value'', int_val 5)],
     JObj [(''source'', JStr ''processing''), (''target'', JStr ''shipped''), (''value'', int_val 15)],
     JObj [(''source'', JStr ''shipped''), (''target'', JStr ''delivered''), (''value'', int_val 8)],
     JObj [(''source'', JStr ''delivered''), (''target'', JStr ''completed''), (''value'', int_val 87)]]), (''metadata'', JObj [(''type'', JStr ''sankey''), (''source'', JStr ''source''), (''target'', JStr ''target''), (''value'', JStr ''value'')])]"

definition order_pipeline_sample :: jsval where
  "order_pipeline_sample = JObj [(''data'', arr [
     JObj [(''stage'', JStr ''New''), (''count'', int_val 120)],
     JObj [(''stage'', JStr ''Processing''), (''count'', int_val 80)],
     JObj [(''stage'', JStr ''Shipped''), (''count'', int_val 60)],
     JObj [(''stage'', JStr ''Delivered''), (''count'', int_val 40)],
     JObj [(''stage'', JStr ''Completed''), (''count'', int_val 20)]]), (''metadata'', JObj [(''type'', JStr ''funnel''), (''dimension'', JStr ''stage''), (''metric'', JStr ''count'')])]"

definition order_lifecycle_sample :: jsval where
  "order_lifecycle_sample = JObj [(''data'', arr [
     JObj [(''status'', JStr ''Processing''), (''time'', dec (177 / 10)), (''count'', int_val 15)],
     JObj [(''status'', JStr ''Shipped''), (''time'', dec (191 / 10)), (''count'', int_val 8)],
     JObj [(''status'', JStr ''Pending''), (''time'', dec (251 / 10)), (''count'', int_val 5)],
     JObj [(''status'', JStr ''Delivered''), (''time'', dec (603 / 10)), (''count'', int_val 87)]]), (''metadata'', JObj [(''type'', JStr ''funnel''), (''dimension'', JStr ''status''), (''metric'', JStr ''count''), (''metrics'', arr [JStr ''count'', JStr ''time''])])]"

definition order_volume_trends_sample :: jsval where
  "order_volume_trends_sample = JObj [(''data'', arr [
     JObj [(''date'', JStr ''2023-01-01''), (''count'', int_val 120)],
     JObj [(''date'', JStr ''2023-02-01''), (''count'', int_val 145)],
     JObj [(''date'', JStr ''2023-03-01''), (''count'', int_val 165)],
     JObj [(''date'', JStr ''2023-04-01''), (''count'', int_val 190)],
     JObj [(''date'', JStr ''2023-05-01''), (''count'', int_val 220)]]), (''metadata'', JObj [(''type'', JStr ''line''), (''xAxis'', JStr ''date''), (''yAxis'', JStr ''count'')])]"

definition order_value_distribution_sample :: jsval where
  "order_value_distribution_sample = JObj [(''data'', arr [
     JObj [(''range'', JStr ''$0-$50''), (''count'', int_val 120)],
     JObj [(''range'', JStr ''$51-$100''), (''count'', int_val 80)],
     JObj [(''range'', JStr ''$101-$200''), (''count'', int_val 60)],
     JObj [(''range'', JStr ''$201-$500''), (''count'', int_val 40)],
     JObj [(''range'', JStr ''$501+''), (''count'', int_val 20)]]), (''metadata'', JObj [(''type'', JStr ''pie''), (''dimension'', JStr ''range''), (''metric'', JStr ''count'')])]"

definition order_peak_times_sample :: jsval where
  "order_peak_times_sample = JObj [(''data'', arr [
     JObj [(''hour'', JStr ''00:00''), (''count'', int_val 12)],
     JObj [(''hour'', JStr ''04:00''), (''count'', int_val 5)],
     JObj [(''hour'', JStr ''08:00''), (''count'', int_val 25)],
     JObj [(''hour'', JStr ''12:00''), (''count'', int_val 48)],
     JObj [(''hour'', JStr ''16:00''), (''count'', int_val 35)],
     JObj [(''hour'', JStr ''20:00''), (''count'', int_val 22)]]), (''metadata'', JObj [(''type'', JStr ''line''), (''xAxis'', JStr ''hour''), (''yAxis'', JStr ''count'')])]"

definition transaction_volume_sample :: jsval where
  "transaction_volume_sample = JObj [(''data'', arr [
     JObj [(''period'', JStr ''May 25''), (''count'', int_val 420), (''timestamp'', JStr ''2024-05-25T00:00:00.000Z'')],
     JObj [(''period'', JStr ''May 26''), (''count'', int_val 530), (''timestamp'', JStr ''2024-05-26T00:00:00.000Z'')],
     JObj [(''period'', JStr ''May 27''), (''count'', int_val 380), (''timestamp'', JStr ''2024-05-27T00:00:00.000Z'')],
     JObj [(''period'', JStr ''May 28''), (''count'', int_val 610), (''timestamp'', JStr ''2024-05-28T00:00:00.000Z'')],
     JObj [(''period'', JStr ''May 29''), (''count'', int_val 540), (''timestamp'', JStr ''2024-05-29T00:00:00.000Z'')],
     JObj [(''period'', JStr ''May 30''), (''count'', int_val 490), (''timestamp'', JStr ''2024-05-30T00:00:00.000Z'')],
     JObj [(''period'', JStr ''May 31''), (''count'', int_val 720), (''timestamp'', JStr ''2024-05-31T00:00:00.000Z'')]]), (''metadata'', JObj [(''type'', JStr ''line''), (''xAxis'', JStr ''period''), (''yAxis'', JStr ''count'')])]"

definition transaction_metrics_sample :: jsval where
  "transaction_metrics_sample = JObj [(''data'', arr [
     JObj [(''metric'', JStr ''Processed''), (''value'', int_val 85)],
     JObj [(''metric'', JStr ''Pending''), (''value'', int_val 12)],
     JObj [(''metric'', JStr ''Failed''), (''value'', int_val 3)]]), (''metadata'', JObj [(''type'', JStr ''pie''), (''dimension'', JStr ''metric''), (''metric'', JStr ''value'')])]"

definition transaction_patterns_sample :: jsval where
  "transaction_patterns_sample = JObj [(''data'', arr [
     JObj [(''hour'', JStr ''00:00''), (''count'', int_val 20)],
     JObj [(''hour'', JStr ''04:00''), (''count'', int_val 10)],
     JObj [(''hour'', JStr ''08:00''), (''count'', int_val 50)],
     JObj [(''hour'', JStr ''12:00''), (''count'', int_val 80)],
     JObj [(''hour'', JStr ''16:00''), (''count'', int_val 70)],
     JObj [(''hour'', JStr ''20:00''), (''count'', int_val 40)]]), (''metadata'', JObj [(''type'', JStr ''line''), (''xAxis'', JStr ''hour''), (''yAxis'', JStr ''count'')])]"

definition transaction_clusters_sample :: jsval where
  "transaction_clusters_sample = JObj [(''data'', arr [
     JObj [(''group'', JStr ''Group A''), (''value'', int_val 45)],
     JObj [(''group'', JStr ''Group B''), (''value'', int_val 25)],
     JObj [(''group'', JStr ''Group C''), (''value'', int_val 15)],
     JObj [(''group'', JStr ''Group D''), (''value'', int_val 15)]]), (''metadata'', JObj [(''type'', JStr ''pie''), (''dimension'', JStr ''group''), (''metric'', JStr ''value'')])]"

definition transaction_flow_sample :: jsval where
  "transaction_flow_sample = JObj [(''data'', arr [
     JObj [(''source'', JStr ''Initiation''), (''target'', JStr ''Processing''), (''value'', int_val 100)],
     JObj [(''source'', JStr ''Processing''), (''target'', JStr ''Validation''), (''value'', int_val 90)],
     JObj [(''source'', JStr ''Validation''), (''target'', JStr ''Approval''), (''value'', int_val 80)],
     JObj [(''source'', JStr ''Approval''), (''target'', JStr ''Completion''), (''value'', int_val 75)]]), (''metadata'', JObj [(''type'', JStr ''sankey''), (''nodes'', JStr ''source''), (''source'', JStr ''source''), (''target'', JStr ''target''), (''value'', JStr ''value'')])]"

definition real_time_metrics_sample :: jsval where
  "real_time_metrics_sample = JObj [(''data'', arr [
     JObj [(''total_orders'', int_val 0), (''completed_orders'', int_val 0), (''completion_rate'', int_val 0)]]), (''metadata'', JObj [(''type'', JStr ''gauge''), (''metrics'', arr [JStr ''total_orders'', JStr ''completed_orders'', JStr ''completion_rate''])])]"

definition performance_trends_sample :: jsval where
  "performance_trends_sample = JObj [(''data'', arr [
     JObj [(''date'', JStr ''2023-01-01''), (''orders'', int_val 3), (''completion'', int_val 0)],
     JObj [(''date'', JStr ''2023-01-02''), (''orders'', int_val 1), (''completion'', int_val 10)],
     JObj [(''date'', JStr ''2023-01-03''), (''orders'', int_val 2), (''completion'', int_val 15)]]), (''metadata'', JObj [(''type'', JStr ''line''), (''xAxis'', JStr ''date''), (''yAxis'', JStr ''orders''), (''metrics'', arr [JStr ''orders'', JStr ''completion''])])]"

definition system_health_sample :: jsval where
  "system_health_sample = JObj [(''data'', arr [
     JObj [(''total_orders'', int_val 99), (''completed_orders'', int_val 84), (''completion_rate'', dec (85 / 100))]]), (''metadata'', JObj [(''type'', JStr ''gauge''), (''metrics'', arr [JStr ''total_orders'', JStr ''completed_orders'', JStr ''completion_rate''])])]"

definition resource_utilization_sample :: jsval where
  "resource_utilization_sample = JObj [(''data'', arr [
     JObj [(''resource'', JStr ''Orders''), (''used'', int_val 376), (''available'', int_val 624)],
     JObj [(''resource'', JStr ''System''), (''used'', int_val 72), (''available'', int_val 28)]]), (''metadata'', JObj [(''type'', JStr ''stacked-bar''), (''xAxis'', JStr ''resource''), (''yAxis'', JStr ''value''), (''groupBy'', JStr ''type'')])]"

definition financial_analytics_sample :: jsval where
  "financial_analytics_sample = JObj [(''data'', arr [
     JObj [(''quarter'', JStr ''Q1''), (''revenue'', int_val 15000), (''expenses'', int_val 12000), (''profit'', int_val 3000)],
     JObj [(''quarter'', JStr ''Q2''), (''revenue'', int_val 18000), (''expenses'', int_val 13500), (''profit'', int_val 4500)],
     JObj [(''quarter'', JStr ''Q3''), (''revenue'', int_val 21000), (''expenses'', int_val 15000), (''profit'', int_val 6000)],
     JObj [(''quarter'', JStr ''Q4''), (''revenue'', int_val 25000), (''expenses'', int_val 17500), (''profit'', int_val 7500)]]), (''metadata'', JObj [(''type'', JStr ''combo''), (''xAxis'', JStr ''quarter''), (''yAxis'', JStr ''revenue'')])]"

definition revenue_analysis_sample :: jsval where
  "revenue_analysis_sample = JObj [(''data'', arr [
     JObj [(''category'', JStr ''Product A''), (''revenue'', int_val 28000)],
     JObj [(''category'', JStr ''Product B''), (''revenue'', int_val 22000)],
     JObj [(''category'', JStr ''Product C''), (''revenue'', int_val 18000)],
     JObj [(''category'', JStr ''Product D''), (''revenue'', int_val 12000)]]), (''metadata'', JObj [(''type'', JStr ''pie''), (''dimension'', JStr ''category''), (''metric'', JStr ''revenue'')])]"

definition hierarchical_data_sample :: jsval where
  "hierarchical_data_sample = JObj [(''data'', arr [
     JObj [(''from'', JStr ''Company''), (''to'', JStr ''Division A''), (''value'', int_val 50)],
     JObj [(''from'', JStr ''Company''), (''to'', JStr ''Division B''), (''value'', int_val 30)],
     JObj [(''from'', JStr ''Company''), (''to'', JStr ''Division C''), (''value'', int_val 20)],
     JObj [(''from'', JStr ''Division A''), (''to'', JStr ''Product X''), (''value'', int_val 30)],
     JObj [(''from'', JStr ''Division A''), (''to'', JStr ''Product Y''), (''value'', int_val 20)]]), (''metadata'', JObj [(''type'', JStr ''sankey''), (''nodes'', JStr ''from''), (''source'', JStr ''from''), (''target'', JStr ''to''), (''value'', JStr ''value'')])]"

definition forecast_data_sample :: jsval where
  "forecast_data_sample = JObj [(''data'', arr [
     JObj [(''month'', JStr ''Jan''), (''actual'', int_val 8500), (''forecast'', int_val 8000)],
     JObj [(''month'', JStr ''Feb''), (''actual'', int_val 9000), (''forecast'', int_val 8800)],
     JObj [(''month'', JStr ''Mar''), (''actual'', int_val 9500), (''forecast'', int_val 9200)],
     JObj [(''month'', JStr ''Apr''), (''actual'', int_val 9800), (''forecast'', int_val 9600)],
     JObj [(''month'', JStr ''May''), (''actual'', int_val 10200), (''forecast'', int_val 10000)],
     JObj [(''month'', JStr ''Jun''), (''actual'', JNull), (''forecast'', int_val 10500)],
     JObj [(''month'', JStr ''Jul''), (''actual'', JNull), (''forecast'', int_val 11000)]]), (''metadata'', JObj [(''type'', JStr ''line''), (''xAxis'', JStr ''month''), (''yAxis'', JStr ''actual'')])]"

definition trend_predictions_sample :: jsval where
  "trend_predictions_sample = JObj [(''data'', arr [
     JObj [(''period'', JStr ''2022-Q4''), (''value'', int_val 100)],
     JObj [(''period'', JStr ''2023-Q1''), (''value'', int_val 115)],
     JObj [(''period'', JStr ''2023-Q2''), (''value'', int_val 130)],
     JObj [(''period'', JStr ''2023-Q3''), (''value'', int_val 142)],
     JObj [(''period'', JStr ''2023-Q4''), (''value'', int_val 160)],
     JObj [(''period'', JStr ''2024-Q1''), (''value'', int_val 175)]]), (''metadata'', JObj [(''type'', JStr ''area''), (''xAxis'', JStr ''period''), (''yAxis'', JStr ''value'')])]"

section \<open>Inventory charts\<close>

definition getStockLevelTrends where
  "getStockLevelTrends E api =
     validated_or_sample E api ''/api/analytics/inventory/stock-trends'' Inr stock_level_trends_sample"

definition getInventoryDistribution where
  "getInventoryDistribution E api =
     validated_or_sample E api ''/api/analytics/inventory/distribution'' Inr inventory_distribution_sample"

definition getWarehouseDistribution where
  "getWarehouseDistribution E api =
     validated_or_sample E api ''/api/analytics/inventory/warehouse-distribution'' Inr warehouse_distribution_sample"

definition getReorderPoints where
  "getReorderPoints E api =
     validated_or_sample E api ''/api/analytics/inventory/reorder-points'' Inr reorder_points_sample"

section \<open>Order charts\<close>

text \<open>\<open>response.data.length > 0 && response.data[0].k1 && response.data[0].k2 ...\<close>\<close>

fun all_truthy :: "jsval \<Rightarrow> string list \<Rightarrow> bool js" where
  "all_truthy item [] = Inr True"
| "all_truthy item (k # ks) = js_bind (js_get item k) (\<lambda>v. if js_truthy v then all_truthy item ks else Inr False)"

definition first_row_has :: "js_env \<Rightarrow> jsval \<Rightarrow> string list \<Rightarrow> bool js" where
  "first_row_has E response ks =
     js_bind (js_get response ''data'') (\<lambda>data.
     js_bind (js_get data ''length'') (\<lambda>n.
     js_bind (js_positive E n) (\<lambda>b. if \<not> b then Inr False
     else js_bind (js_get data ''0'') (\<lambda>item. all_truthy item ks))))"

definition has_metadata :: "jsval \<Rightarrow> bool js" where
  "has_metadata response = js_bind (js_get response ''metadata'') (\<lambda>m. Inr (js_truthy m))"

definition is_status_row :: "js_env \<Rightarrow> jsval \<Rightarrow> bool js" where
  "is_status_row E response =
     js_bind (first_row_has E response [''status'', ''count'']) (\<lambda>b. if \<not> b then Inr False
     else js_bind (first_item response) (\<lambda>item.
       js_bind (js_get item ''source'') (\<lambda>s. if js_truthy s then Inr False
       else js_bind (js_get item ''target'') (\<lambda>t. Inr (\<not> js_truthy t)))))"

definition by_count_desc :: "js_env \<Rightarrow> jsval \<Rightarrow> jsval \<Rightarrow> jsnum js" where
  "by_count_desc E a b = js_bind (js_get b ''count'') (\<lambda>y. js_bind (js_get a ''count'') (\<lambda>x. js_minus E y x))"

text \<open>\<open>===\<close> on the statuses, which are strings.\<close>

definition js_strict_eq :: "jsval \<Rightarrow> jsval \<Rightarrow> bool" where
  "js_strict_eq a b \<longleftrightarrow> a = b \<and> a \<noteq> JNum NaN"

text \<open>\<open>response.data.find((item) => item.status === node)?.count || 0\<close>\<close>

definition count_of :: "jsval list \<Rightarrow> jsval \<Rightarrow> jsval js" where
  "count_of rows node =
     js_bind (js_find (\<lambda>item. js_bind (js_get item ''status'') (\<lambda>s. Inr (js_strict_eq s node))) rows) (\<lambda>found.
       case found of
         None \<Rightarrow> Inr (int_val 0)
       | Some item \<Rightarrow> js_bind (js_get item ''count'') (\<lambda>c. Inr (js_or c (int_val 0))))"

definition flow_link :: "js_env \<Rightarrow> jsval list \<Rightarrow> jsval \<Rightarrow> jsval \<Rightarrow> jsval js" where
  "flow_link E rows sourceNode targetNode =
     js_bind (count_of rows sourceNode) (\<lambda>sourceCount.
     js_bind (count_of rows targetNode) (\<lambda>targetCount.
     js_bind (js_toNumber E sourceCount) (\<lambda>x. js_bind (js_toNumber E targetCount) (\<lambda>y.
       let flowValue = Math_min x y in
       Inr (JObj [(''source'', sourceNode), (''target'', targetNode),
         (''value'', JNum (if num_lt (Fin 0) flowValue then flowValue else Fin 5))])))))"

fun flow_links :: "js_env \<Rightarrow> jsval list \<Rightarrow> jsval list \<Rightarrow> jsval list js" where
  "flow_links E rows (s # t # ss) =
     js_bind (flow_link E rows s t) (\<lambda>l. js_bind (flow_links E rows (t # ss)) (\<lambda>ls. Inr (l # ls)))"
| "flow_links E rows ss = Inr []"

definition status_flow :: "js_env \<Rightarrow> jsval list \<Rightarrow> jsval list js" where
  "status_flow E rows =
     js_bind (js_sort E (by_count_desc E) rows) (\<lambda>sortedStatuses.
     js_bind (js_map (\<lambda>item. js_get item ''status'') sortedStatuses) (\<lambda>statusOrder. flow_links E rows statusOrder))"

definition order_flow_repair :: "js_env \<Rightarrow> jsval \<Rightarrow> jsval js" where
  "order_flow_repair E response =
     js_bind (has_metadata response) (\<lambda>m. if \<not> m then Inr response
     else js_bind (is_status_row E response) (\<lambda>b. if \<not> b then Inr response
     else js_bind (js_get response ''data'') (\<lambda>data. js_bind (js_elements data) (\<lambda>rows.
       js_bind (status_flow E rows) (\<lambda>flowData.
       js_bind (js_put response ''data'' (arr flowData)) (\<lambda>r.
       js_bind (meta_put r ''type'' (JStr ''sankey'')) (\<lambda>r.
       js_bind (meta_put r ''source'' (JStr ''source'')) (\<lambda>r.
       js_bind (meta_put r ''target'' (JStr ''target'')) (\<lambda>r.
       js_bind (meta_put r ''value'' (JStr ''value'')) (\<lambda>r.
       js_bind (meta_delete ''dimension'' r) (meta_delete ''metric'')))))))))))"

definition getOrderFlow where
  "getOrderFlow E api =
     validated_or_sample E api ''/api/analytics/orders/flow'' (order_flow_repair E) order_flow_sample"

definition getOrderPipeline where
  "getOrderPipeline E api =
     validated_or_sample E api ''/api/analytics/orders/pipeline'' Inr order_pipeline_sample"

definition getOrderLifecycle where
  "getOrderLifecycle E api =
     validated_or_sample E api ''/api/analytics/orders/lifecycle'' Inr order_lifecycle_sample"

text \<open>\<open>if (!response.metadata.k && response.data.length > 0 && response.data[0].f) response.metadata.k = f\<close>\<close>

definition axis_from_row :: "js_env \<Rightarrow> string \<Rightarrow> string \<Rightarrow> jsval \<Rightarrow> jsval js" where
  "axis_from_row E k f response =
     js_bind (meta_get response k) (\<lambda>x. if js_truthy x then Inr response
     else js_bind (first_row_has E response [f]) (\<lambda>b. if b then meta_put response k (JStr f) else Inr response))"

definition volume_trends_repair :: "js_env \<Rightarrow> jsval \<Rightarrow> jsval js" where
  "volume_trends_repair E response =
     js_bind (has_metadata response) (\<lambda>m. if \<not> m then Inr response
     else js_bind (meta_get response ''type'') (\<lambda>t. if t = JStr ''line'' then Inr response
     else js_bind (meta_put response ''type'' (JStr ''line'')) (\<lambda>r.
       js_bind (axis_from_row E ''xAxis'' ''date'' r) (axis_from_row E ''yAxis'' ''count''))))"

definition getOrderVolumeTrends where
  "getOrderVolumeTrends E api =
     validated_or_sample E api ''/api/analytics/orders/volume-trends'' (volume_trends_repair E)
       order_volume_trends_sample"

text \<open>\<open>response.data.reduce((sum, item) => sum + item.count, 0)\<close>\<close>

definition sum_counts :: "js_env \<Rightarrow> jsval list \<Rightarrow> jsval js" where
  "sum_counts E rows = js_reduce (\<lambda>sum item. js_bind (js_get item ''count'') (js_plus E sum)) rows (int_val 0)"

definition value_range :: "js_env \<Rightarrow> jsval \<Rightarrow> string \<Rightarrow> rat \<Rightarrow> jsval js" where
  "value_range E tot rng share =
     js_bind (js_positive E tot) (\<lambda>b.
     js_bind (if b then js_bind (js_times E tot (dec share)) (\<lambda>n. Inr (Math_round n)) else Inr (Fin 0)) (\<lambda>n.
       Inr (JObj [(''range'', JStr rng), (''count'', JNum n)])))"

definition value_ranges :: "js_env \<Rightarrow> jsval \<Rightarrow> jsval list js" where
  "value_ranges E tot = js_map (\<lambda>(rng, share). value_range E tot rng share)
     [(''$0-$50'', 35 / 100), (''$51-$100'', 25 / 100), (''$101-$200'', 2 / 10), (''$201-$500'', 15 / 100), (''$501+'', 5 / 100)]"

definition status_with_type :: "js_env \<Rightarrow> string \<Rightarrow> jsval \<Rightarrow> bool js" where
  "status_with_type E ty response =
     js_bind (meta_get response ''type'') (\<lambda>t.
       if t = JStr ty then Inr False else first_row_has E response [''status'', ''count''])"

definition value_distribution_repair :: "js_env \<Rightarrow> jsval \<Rightarrow> jsval js" where
  "value_distribution_repair E response =
     js_bind (has_metadata response) (\<lambda>m. if \<not> m then Inr response
     else js_bind (status_with_type E ''pie'' response) (\<lambda>b. if \<not> b then Inr response
     else js_bind (js_get response ''data'') (\<lambda>data. js_bind (js_elements data) (\<lambda>rows.
       js_bind (sum_counts E rows) (\<lambda>total.
       js_bind (value_ranges E total) (\<lambda>transformedData.
       js_bind (js_put response ''data'' (arr transformedData)) (\<lambda>r.
       js_bind (meta_put r ''type'' (JStr ''pie'')) (\<lambda>r.
       js_bind (meta_put r ''dimension'' (JStr ''range'')) (\<lambda>r.
       js_bind (meta_put r ''metric'' (JStr ''count'')) (\<lambda>r.
       js_bind (meta_delete ''nodes'' r) (meta_delete ''value'')))))))))))"

definition getOrderValueDistribution where
  "getOrderValueDistribution E api =
     validated_or_sample E api ''/api/analytics/orders/value-distribution'' (value_distribution_repair E)
       order_value_distribution_sample"

definition hourly_counts :: "(string \<times> int) list" where
  "hourly_counts = [(''00:00'', 12), (''04:00'', 5), (''08:00'', 25), (''12:00'', 48), (''16:00'', 35), (''20:00'', 22)]"

definition hourly_data :: "js_env \<Rightarrow> jsval \<Rightarrow> jsval list js" where
  "hourly_data E tot =
     js_bind (js_positive E tot) (\<lambda>b.
     js_bind (js_toNumber E tot) (\<lambda>t.
       let hourlyTotal = foldl (\<lambda>sum x. num_add sum (Fin (of_int (snd x)))) (Fin 0) hourly_counts;
           ratio = num_div t hourlyTotal
       in Inr (map (\<lambda>(hour, n). JObj [(''hour'', JStr hour), (''count'',
            if b then JNum (Math_round (num_mul (Fin (of_int n)) ratio)) else int_val n)]) hourly_counts)))"

definition peak_times_repair :: "js_env \<Rightarrow> jsval \<Rightarrow> jsval js" where
  "peak_times_repair E response =
     js_bind (has_metadata response) (\<lambda>m. if \<not> m then Inr response
     else js_bind (status_with_type E ''line'' response) (\<lambda>b. if \<not> b then Inr response
     else js_bind (js_get response ''data'') (\<lambda>data. js_bind (js_elements data) (\<lambda>rows.
       js_bind (sum_counts E rows) (\<lambda>total.
       js_bind (hourly_data E total) (\<lambda>hourlyData.
       js_bind (js_put response ''data'' (arr hourlyData)) (\<lambda>r.
       js_bind (meta_put r ''type'' (JStr ''line'')) (\<lambda>r.
       js_bind (meta_put r ''xAxis'' (JStr ''hour'')) (\<lambda>r.
       js_bind (meta_put r ''yAxis'' (JStr ''count'')) (\<lambda>r.
       js_bind (meta_delete ''nodes'' r) (meta_delete ''value'')))))))))))"

definition getOrderPeakTimes where
  "getOrderPeakTimes E api =
     validated_or_sample E api ''/api/analytics/orders/peak-times'' (peak_times_repair E) order_peak_times_sample"

section \<open>Transaction charts\<close>

definition default_volume_metadata :: jsval where
  "default_volume_metadata =
     JObj [(''type'', JStr ''line''), (''xAxis'', JStr ''hour''), (''yAxis'', JStr ''transaction_count'')]"

definition transaction_volume_use :: "js_env \<Rightarrow> date_lib \<Rightarrow> jsval \<Rightarrow> jsval js" where
  "transaction_volume_use E L response =
     js_bind (if has_data response then first_row_has E response [] else Inr False) (\<lambda>b.
       if b then
         js_bind (js_get response ''data'') (\<lambda>data. js_bind (js_get response ''metadata'') (\<lambda>m.
         js_bind (transformTransactionVolumeData E L data (js_or m default_volume_metadata)) (validateChartData E)))
       else validateChartData E transaction_volume_sample)"

definition getTransactionVolume where
  "getTransactionVolume E L api =
     load_chart api ''/api/analytics/transactions/volume'' (transaction_volume_use E L)
       (validateChartData E transaction_volume_sample)"

text \<open>
  \<open>response && response.data && response.type && !response.metadata\<close>: metadata at the top level
  is moved into place; \<open>meta_fields\<close> builds its properties from the response.
\<close>

definition top_level_metadata :: "jsval \<Rightarrow> bool js" where
  "top_level_metadata response =
     (if \<not> has_data response then Inr False
      else js_bind (js_get response ''type'') (\<lambda>t. if \<not> js_truthy t then Inr False
      else js_bind (js_get response ''metadata'') (\<lambda>m. Inr (\<not> js_truthy m))))"

definition formatted_or_response ::
  "js_env \<Rightarrow> (jsval \<Rightarrow> (string \<times> jsval) list js) \<Rightarrow> jsval \<Rightarrow> jsval js" where
  "formatted_or_response E meta_fields response =
     js_bind (top_level_metadata response) (\<lambda>b.
       if b then
         js_bind (js_get response ''data'') (\<lambda>data. js_bind (js_get response ''type'') (\<lambda>t.
         js_bind (meta_fields response) (\<lambda>ps.
           validateChartData E (JObj [(''data'', data), (''metadata'', JObj ((''type'', t) # ps))]))))
       else validateChartData E response)"

text \<open>\<open>k: response.k1 || response.k2\<close> and \<open>k: response.k\<close>\<close>

definition either_field :: "jsval \<Rightarrow> string \<Rightarrow> string \<Rightarrow> string \<Rightarrow> (string \<times> jsval) js" where
  "either_field r k k1 k2 = js_bind (js_get r k1) (\<lambda>a. js_bind (js_get r k2) (\<lambda>b. Inr (k, js_or a b)))"

definition same_field :: "jsval \<Rightarrow> string \<Rightarrow> (string \<times> jsval) js" where
  "same_field r k = js_bind (js_get r k) (\<lambda>v. Inr (k, v))"

definition field_or_name :: "jsval \<Rightarrow> string \<Rightarrow> (string \<times> jsval) js" where
  "field_or_name r k = js_bind (js_get r k) (\<lambda>v. Inr (k, js_or v (JStr k)))"

definition x_field where "x_field r = either_field r ''xAxis'' ''x_axis'' ''xAxis''"

definition y_field where "y_field r = either_field r ''yAxis'' ''y_axis'' ''yAxis''"

definition group_field where "group_field r = either_field r ''groupBy'' ''group_by'' ''groupBy''"

definition stock_movements_mock :: "(string \<times> int \<times> int) list" where
  "stock_movements_mock = [(''Electronics'', 320, 280), (''Clothing'', 240, 220), (''Home Goods'', 180, 170), (''Books'', 120, 90)]"

definition stock_movements_sample :: jsval where
  "stock_movements_sample = JObj [
     (''data'', arr (concat (map (\<lambda>(category, inbound, outbound).
        [JObj [(''category'', JStr category), (''type'', JStr ''Inbound''), (''value'', int_val inbound)],
         JObj [(''category'', JStr category), (''type'', JStr ''Outbound''), (''value'', int_val outbound)]])
        stock_movements_mock))),
     (''metadata'', JObj [(''type'', JStr ''stacked-bar''), (''xAxis'', JStr ''category''), (''yAxis'', JStr ''value''),
        (''groupBy'', JStr ''type'')])]"

definition getStockMovements where
  "getStockMovements E api =
     load_chart api ''/api/analytics/transactions/stock-movements''
       (formatted_or_response E (\<lambda>r. js_map (\<lambda>f. f r) [x_field, y_field, group_field]))
       (validateChartData E stock_movements_sample)"

definition getTransactionMetrics where
  "getTransactionMetrics E api =
     load_chart api ''/api/analytics/transactions/metrics''
       (formatted_or_response E (\<lambda>r. js_map (same_field r) [''dimension'', ''metric'']))
       (validateChartData E transaction_metrics_sample)"

definition getTransactionPatterns where
  "getTransactionPatterns E api =
     load_chart api ''/api/analytics/transactions/patterns''
       (formatted_or_response E (\<lambda>r. js_map (\<lambda>f. f r) [x_field, y_field]))
       (validateChartData E transaction_patterns_sample)"

definition getTransactionClusters where
  "getTransactionClusters E api =
     load_chart api ''/api/analytics/transactions/clusters''
       (formatted_or_response E (\<lambda>r. js_map (same_field r) [''dimension'', ''metric'']))
       (validateChartData E transaction_clusters_sample)"

definition getTransactionFlow where
  "getTransactionFlow E api =
     load_chart api ''/api/analytics/transactions/flow''
       (formatted_or_response E (\<lambda>r. js_bind (same_field r ''nodes'') (\<lambda>n.
          js_bind (js_map (field_or_name r) [''source'', ''target'', ''value'']) (\<lambda>ps. Inr (n # ps)))))
       (validateChartData E transaction_flow_sample)"

section \<open>Performance charts\<close>

definition gauge_metadata :: jsval where
  "gauge_metadata = JObj [(''type'', JStr ''gauge''),
     (''metrics'', arr [JStr ''total_orders'', JStr ''completed_orders'', JStr ''completion_rate''])]"

definition getRealTimeMetrics where
  "getRealTimeMetrics api =
     load_chart api ''/api/analytics/performance/metrics''
       (\<lambda>response. if has_data response
          then js_bind (js_get response ''data'') (\<lambda>data. Inr (JObj [(''data'', data), (''metadata'', gauge_metadata)]))
          else Inr real_time_metrics_sample)
       (Inr real_time_metrics_sample)"

text \<open>\<open>item.completion_rate ? Math.min(100, Math.max(lo, factor * item.completion_rate)) : dflt\<close>\<close>

definition clamped_rate :: "js_env \<Rightarrow> jsval \<Rightarrow> rat \<Rightarrow> rat \<Rightarrow> rat \<Rightarrow> jsnum js" where
  "clamped_rate E rate lo factor dflt =
     (if js_truthy rate
      then js_bind (if factor = 1 then js_toNumber E rate else js_times E rate (JNum (Fin factor)))
        (\<lambda>r. Inr (Math_min (Fin 100) (Math_max (Fin lo) r)))
      else Inr (Fin dflt))"

definition trend_row :: "js_env \<Rightarrow> (int \<Rightarrow> string) \<Rightarrow> int \<Rightarrow> nat \<Rightarrow> nat \<times> jsval \<Rightarrow> jsval js" where
  "trend_row E iso_day now n = (\<lambda>(index, item).
     js_bind (js_get item ''total_orders'') (\<lambda>orders.
     js_bind (js_get item ''completion_rate'') (\<lambda>rate.
     js_bind (clamped_rate E rate (- 100) 1 0) (\<lambda>completion.
       Inr (JObj [(''date'', JStr (iso_day (now - (int n - int index) * 86400000))),
         (''orders'', js_or orders (int_val 0)), (''completion'', JNum completion)])))))"

definition trends_metadata :: jsval where
  "trends_metadata = JObj [(''type'', JStr ''line''), (''xAxis'', JStr ''date''), (''yAxis'', JStr ''orders''),
     (''metrics'', arr [JStr ''orders'', JStr ''completion''])]"

definition getPerformanceTrends where
  "getPerformanceTrends E iso_day now api =
     load_chart api ''/api/analytics/performance/trends''
       (\<lambda>response. if has_data response
          then js_bind (js_get response ''data'') (\<lambda>data. js_bind (js_elements data) (\<lambda>rows.
            js_bind (js_map (trend_row E iso_day now (length rows)) (enumerate 0 rows)) (\<lambda>rs.
              Inr (JObj [(''data'', arr rs), (''metadata'', trends_metadata)]))))
          else Inr performance_trends_sample)
       (Inr performance_trends_sample)"

definition health_row :: "js_env \<Rightarrow> jsval \<Rightarrow> jsval js" where
  "health_row E item =
     js_bind (js_get item ''total_orders'') (\<lambda>t.
     js_bind (js_get item ''completion_rate'') (\<lambda>r.
     js_bind (js_times E (js_or r (dec (85 / 100))) (js_or t (int_val 1))) (\<lambda>n.
       Inr (JObj [(''total_orders'', js_or t (int_val 1)), (''completed_orders'', JNum (Math_round n)),
         (''completion_rate'', js_or r (dec (85 / 100)))]))))"

definition getSystemHealth where
  "getSystemHealth E api =
     load_chart api ''/api/analytics/performance/health''
       (\<lambda>response. if has_data response
          then js_bind (js_get response ''data'') (\<lambda>data. js_bind (js_elements data) (\<lambda>rows.
            js_bind (js_map (health_row E) rows) (\<lambda>rs.
              Inr (JObj [(''data'', arr rs), (''metadata'', gauge_metadata)]))))
          else Inr system_health_sample)
       (Inr system_health_sample)"

definition utilization_metadata :: jsval where
  "utilization_metadata = JObj [(''type'', JStr ''stacked-bar''), (''xAxis'', JStr ''resource''), (''yAxis'', JStr ''value''),
     (''groupBy'', JStr ''type'')]"

definition utilization_rows :: "js_env \<Rightarrow> jsval \<Rightarrow> jsval js" where
  "utilization_rows E item =
     js_bind (js_get item ''total_orders'') (\<lambda>t. js_bind (js_get item ''completed_orders'') (\<lambda>c.
     js_bind (js_get item ''completion_rate'') (\<lambda>r.
     js_bind (clamped_rate E r 0 100 40) (\<lambda>utilizationRate.
     js_bind (js_minus E (js_or t (int_val 1000)) (js_or c (int_val 0))) (\<lambda>available.
       Inr (arr [
         JObj [(''resource'', JStr ''Orders''), (''used'', js_or c (int_val 0)), (''available'', JNum available)],
         JObj [(''resource'', JStr ''System''), (''used'', JNum (Math_round utilizationRate)),
           (''available'', JNum (num_sub (Fin 100) (Math_round utilizationRate)))]]))))))"

definition getResourceUtilization where
  "getResourceUtilization E api =
     load_chart api ''/api/analytics/performance/resources''
       (\<lambda>response. if has_data response
          then js_bind (first_item response) (\<lambda>item. js_bind (utilization_rows E item) (\<lambda>rows.
            Inr (JObj [(''data'', rows), (''metadata'', utilization_metadata)])))
          else Inr resource_utilization_sample)
       (Inr resource_utilization_sample)"

section \<open>Business charts\<close>

text \<open>These return the response as it is.\<close>

definition getFinancialAnalytics where
  "getFinancialAnalytics api = load_chart api ''/api/analytics/business/financial'' Inr (Inr financial_analytics_sample)"

definition getRevenueAnalysis where
  "getRevenueAnalysis api = load_chart api ''/api/analytics/business/revenue'' Inr (Inr revenue_analysis_sample)"

definition getHierarchicalData where
  "getHierarchicalData api = load_chart api ''/api/analytics/business/hierarchical'' Inr (Inr hierarchical_data_sample)"

definition getForecastData where
  "getForecastData api = load_chart api ''/api/analytics/business/forecast'' Inr (Inr forecast_data_sample)"

definition getTrendPredictions where
  "getTrendPredictions api = load_chart api ''/api/analytics/business/trends'' Inr (Inr trend_predictions_sample)"

section \<open>The hook\<close>

text \<open>What \<open>useAnalytics()\<close> returns besides the state: the getters whose result goes through
  \<open>validateChartData\<close>, and the others.\<close>

definition validated_getters ::
  "js_env \<Rightarrow> date_lib \<Rightarrow> ((string \<Rightarrow> jsval js) \<Rightarrow> analytics_state \<Rightarrow> jsval js \<times> analytics_state) list" where
  "validated_getters E L =
     [getStockLevelTrends E, getInventoryDistribution E, getWarehouseDistribution E, getReorderPoints E,
      getOrderFlow E, getOrderPipeline E, getOrderLifecycle E, getOrderVolumeTrends E,
      getOrderValueDistribution E, getOrderPeakTimes E, getTransactionVolume E L, getStockMovements E,
      getTransactionMetrics E, getTransactionPatterns E, getTransactionClusters E, getTransactionFlow E]"

definition raw_getters ::
  "js_env \<Rightarrow> (int \<Rightarrow> string) \<Rightarrow> int \<Rightarrow> ((string \<Rightarrow> jsval js) \<Rightarrow> analytics_state \<Rightarrow> jsval js \<times> analytics_state) list" where
  "raw_getters E iso_day now =
     [getRealTimeMetrics, getPerformanceTrends E iso_day now, getSystemHealth E, getResourceUtilization E,
      getFinancialAnalytics, getRevenueAnalysis, getHierarchicalData, getForecastData, getTrendPredictions]"

section \<open>The sample data validates\<close>

text \<open>A chart that can be drawn: its metadata has every field that its type needs.\<close>

definition chart_ready :: "jsval \<Rightarrow> bool" where
  "chart_ready d \<longleftrightarrow> (\<exists>ps ns. d = JObj ps \<and> map_of ps ''metadata'' = Some (JObj ns) \<and>
     (\<forall>k \<in> set (required_fields (prop_lookup ns ''type'')). js_truthy (prop_lookup ns k)))"

definition typed_chart :: "jsval \<Rightarrow> bool" where
  "typed_chart r \<longleftrightarrow> (\<exists>qs ms s. r = JObj qs \<and> map_of qs ''metadata'' = Some (JObj ms) \<and>
     prop_lookup ms ''type'' = JStr s \<and> s \<noteq> [])"

lemma typed_chart_complete: "typed_chart r \<Longrightarrow> chart_complete r"
  by (auto simp: typed_chart_def chart_complete_def prop_lookup_def split: option.splits)

lemma validated_typed:
  assumes "typed_chart r" "validateChartData E r = Inr d"
  shows "chart_ready d"
proof -
  obtain qs ms where r: "r = JObj qs" "map_of qs ''metadata'' = Some (JObj ms)"
    using assms(1) by (auto simp: typed_chart_def)
  show ?thesis
    unfolding chart_ready_def by (rule validated_fields [OF r typed_chart_complete [OF assms(1)] assms(2)])
qed

text \<open>The samples have complete metadata, so that validating them cannot fail.\<close>

lemma plain_numeric: "\<not> is_object v \<Longrightarrow> \<exists>b. is_numeric E v = Inr b"
  by (cases v) (auto simp: is_numeric_def)

lemma js_filter_total: "(\<And>x. x \<in> set xs \<Longrightarrow> \<exists>b. p x = Inr b) \<Longrightarrow> \<exists>ys. js_filter p xs = Inr ys"
proof (induction xs)
  case (Cons x xs)
  then obtain b ys where "p x = Inr b" "js_filter p xs = Inr ys" by (metis list.set_intros)
  then show ?case by simp
qed simp

lemma add_metrics_total:
  assumes "prop_lookup ps ''data'' = arr (JObj row # rows)" "list_all (\<lambda>p. \<not> is_object (snd p)) row"
  shows "\<exists>ns'. add_metrics E (with_meta ps ns) = Inr (with_meta ps ns') \<and> prop_lookup ns' ''type'' = prop_lookup ns ''type''"
proof -
  have "\<not> is_object (prop_lookup row k)" for k
    using assms(2) by (cases "map_of row k") (auto simp: prop_lookup_def list_all_iff dest!: map_of_SomeD)
  then have "\<exists>b. js_bind (js_get (JObj row) k) (is_numeric E) = Inr b" for k
    using plain_numeric by simp
  then obtain fs where "js_filter (\<lambda>k. js_bind (js_get (JObj row) k) (is_numeric E)) (map fst row) = Inr fs"
    using js_filter_total [of "map fst row" "\<lambda>k. js_bind (js_get (JObj row) k) (is_numeric E)"] by blast
  moreover have "has_rows E (JObj ps) = Inr True" "first_item (JObj ps) = Inr (JObj row)"
    using assms(1) by (simp_all add: has_rows_def first_item_def js_positive_def)
  ultimately show ?thesis by (auto simp: add_metrics_def chart_simps)
qed

lemma validate_case_total:
  assumes "\<And>k. k \<in> set (required_fields (prop_lookup ns ''type'')) \<Longrightarrow> js_truthy (prop_lookup ns k)"
    and "prop_lookup ps ''data'' = arr (JObj row # rows)" "list_all (\<lambda>p. \<not> is_object (snd p)) row"
  shows "\<exists>ns'. validate_case E (with_meta ps ns) = Inr (with_meta ps ns') \<and> prop_lookup ns' ''type'' = prop_lookup ns ''type''"
proof (cases "prop_lookup ns ''type'' = JStr ''funnel''")
  case True
  with assms(1) show ?thesis
    using add_metrics_total [OF assms(2,3), of E ns] by (simp add: validate_case_funnel required_fields_def)
next
  case False
  with assms(1) show ?thesis using validate_case_fixed [of ns E ps] by blast
qed

lemma clone_plain_row:
  "list_all (\<lambda>p. \<not> is_object (snd p)) row \<Longrightarrow>
   \<exists>row'. json_clone (JObj row) = JObj row' \<and> list_all (\<lambda>p. \<not> is_object (snd p)) row'"
proof -
  assume r: "list_all (\<lambda>p. \<not> is_object (snd p)) row"
  have "\<not> is_object (json_clone v)" if "\<not> is_object v" for v
    using that by (cases v) (auto split: jsnum.split)
  with r show ?thesis by (auto simp: list_all_iff)
qed

text \<open>A sample, as the sources write them.\<close>

definition sample_ok :: "jsval \<Rightarrow> bool" where
  "sample_ok r \<longleftrightarrow> (\<exists>row rows s ms. r = JObj [(''data'', arr (JObj row # rows)), (''metadata'', JObj ((''type'', JStr s) # ms))] \<and>
     s \<noteq> [] \<and> list_all (\<lambda>p. \<not> is_object (snd p)) row \<and> props_fixed ms \<and>
     prop_lookup ms ''nodes'' \<noteq> JStr ''status'' \<and> list_all (\<lambda>k. js_truthy (prop_lookup ms k)) (required_fields (JStr s)))"

lemma sample_typed: "sample_ok r \<Longrightarrow> typed_chart r"
  by (auto simp: sample_ok_def typed_chart_def prop_lookup_def)

lemma sample_validates:
  assumes "sample_ok r"
  shows "\<exists>d. validateChartData E r = Inr d"
proof -
  from assms obtain row rows s ms where r: "r = JObj [(''data'', arr (JObj row # rows)), (''metadata'', JObj ((''type'', JStr s) # ms))]"
    and s: "s \<noteq> []" "list_all (\<lambda>p. \<not> is_object (snd p)) row" "props_fixed ms"
    and m: "prop_lookup ms ''nodes'' \<noteq> JStr ''status''" "list_all (\<lambda>k. js_truthy (prop_lookup ms k)) (required_fields (JStr s))"
    unfolding sample_ok_def by blast
  let ?ms = "(''type'', JStr s) # ms"
  obtain row' where row': "json_clone (JObj row) = JObj row'" "list_all (\<lambda>p. \<not> is_object (snd p)) row'"
    using clone_plain_row [OF s(2)] by blast
  let ?ps = "[(''data'', json_clone (arr (JObj row # rows))), (''metadata'', JObj ?ms)]"
  have "json_clone (JObj ?ms) = JObj ?ms"
    by (rule json_clone_fixed) (use s(3) in \<open>simp add: props_fixed_def\<close>)
  then have clone: "json_clone r = with_meta ?ps ?ms"
    unfolding r with_meta_def by (simp del: json_clone.simps(7) add: json_clone.simps(7) [of "[_, _]"])
  have ty: "prop_lookup (camel_case ?ms) ''type'' = JStr s" by simp
  have "is_status_counts E (with_meta ?ps (camel_case ?ms)) = Inr False"
    using m(1) by (simp add: is_status_counts_def chart_simps)
  moreover have "\<exists>ns'. validate_case E (with_meta ?ps (camel_case ?ms)) = Inr (with_meta ?ps ns') \<and> prop_lookup ns' ''type'' = JStr s"
  proof (rule validate_case_total [OF _ _ row'(2), where ns = "camel_case ?ms", unfolded ty])
    show "js_truthy (prop_lookup (camel_case ?ms) k)" if "k \<in> set (required_fields (JStr s))" for k
    proof -
      have "k \<noteq> ''type''" using that required_fields_camel [of "JStr s"] by auto
      then have "js_truthy (prop_lookup ?ms k)" using m(2) that by (simp add: list_all_iff)
      with lookup_camel_truthy [of ?ms k] show ?thesis by simp
    qed
    show "prop_lookup ?ps ''data'' = arr (JObj row' # map (\<lambda>x. if x = JUndef then JNull else x) (map json_clone rows))"
      using row'(1) by simp
  qed
  ultimately show ?thesis
    using validate_with_meta [OF clone typed_chart_complete [OF sample_typed [OF assms]], of E]
    by (auto simp: chart_simps)
qed

lemma samples_ok:
  "sample_ok stock_level_trends_sample" "sample_ok inventory_distribution_sample"
  "sample_ok warehouse_distribution_sample" "sample_ok reorder_points_sample" "sample_ok order_flow_sample"
  "sample_ok order_pipeline_sample" "sample_ok order_lifecycle_sample" "sample_ok order_volume_trends_sample"
  "sample_ok order_value_distribution_sample" "sample_ok order_peak_times_sample" "sample_ok transaction_volume_sample"
  "sample_ok stock_movements_sample" "sample_ok transaction_metrics_sample" "sample_ok transaction_patterns_sample"
  "sample_ok transaction_clusters_sample" "sample_ok transaction_flow_sample"
  by (simp_all add: sample_ok_def required_fields_def props_fixed_def dec_def stock_movements_mock_def
      stock_level_trends_sample_def inventory_distribution_sample_def warehouse_distribution_sample_def
      reorder_points_sample_def order_flow_sample_def order_pipeline_sample_def order_lifecycle_sample_def
      order_volume_trends_sample_def order_value_distribution_sample_def order_peak_times_sample_def
      transaction_volume_sample_def stock_movements_sample_def transaction_metrics_sample_def
      transaction_patterns_sample_def transaction_clusters_sample_def transaction_flow_sample_def)

section \<open>Every getter settles\<close>

definition settled :: "analytics_state \<Rightarrow> jsval js \<times> analytics_state \<Rightarrow> bool" where
  "settled st r \<longleftrightarrow> (\<exists>d. r = (Inr d, st\<lparr>loading := False, hook_error := None\<rparr>))"

lemma load_chart_eq:
  "load_chart api path use fallback st =
     (case js_bind (api path) use of Inr d \<Rightarrow> Inr d | Inl err \<Rightarrow> fallback, st\<lparr>loading := False, hook_error := None\<rparr>)"
  by (simp add: load_chart_def Let_def)

lemma load_chart_settled: "fallback = Inr d \<Longrightarrow> settled st (load_chart api path use fallback st)"
  by (auto simp: settled_def load_chart_eq split: sum.split)

lemma load_sample_settled: "sample_ok r \<Longrightarrow> settled st (load_chart api path use (validateChartData E r) st)"
  using sample_validates [of r E] load_chart_settled by blast

lemma validated_or_sample_settled: "sample_ok r \<Longrightarrow> settled st (validated_or_sample E api path repair r st)"
  by (simp add: validated_or_sample_def load_sample_settled)

section \<open>The charts are complete\<close>

text \<open>
  What the backend sends, or it fails: the answers of \<open>logistics-engine\<close> have their metadata in an object with a type,
  but those below \<open>transactions\<close> have the fields of the metadata, the type among them, beside the rows
  (\<open>#[serde(flatten)]\<close> in \<open>models/analytics.rs\<close>).
\<close>

definition flat_chart :: "jsval \<Rightarrow> bool" where
  "flat_chart r \<longleftrightarrow> (\<exists>qs rows s. r = JObj qs \<and> prop_lookup qs ''data'' = arr rows \<and> prop_lookup qs ''metadata'' = JUndef \<and>
     prop_lookup qs ''type'' = JStr s \<and> s \<noteq> [])"

definition backend_api :: "(string \<Rightarrow> jsval js) \<Rightarrow> bool" where
  "backend_api api \<longleftrightarrow> (\<forall>p r. api p = Inr r \<longrightarrow>
     typed_chart r \<or> startsWith p ''/api/analytics/transactions/'' \<and> flat_chart r)"

definition makes_ready :: "(jsval \<Rightarrow> bool) \<Rightarrow> (jsval \<Rightarrow> jsval js) \<Rightarrow> bool" where
  "makes_ready Q f \<longleftrightarrow> (\<forall>r d. Q r \<longrightarrow> f r = Inr d \<longrightarrow> chart_ready d)"

lemma load_chart_ready:
  assumes "\<And>a. api path = Inr a \<Longrightarrow> Q a" "makes_ready Q use" "sample_ok r"
  shows "\<exists>d. fst (load_chart api path use (validateChartData E r) st) = Inr d \<and> chart_ready d"
proof -
  obtain d where d: "validateChartData E r = Inr d" using sample_validates [OF assms(3)] by blast
  then have "chart_ready d" using validated_typed sample_typed [OF assms(3)] by blast
  show ?thesis
  proof (cases "js_bind (api path) use")
    case (Inl e)
    with d \<open>chart_ready d\<close> show ?thesis by (simp add: load_chart_eq)
  next
    case (Inr b)
    then obtain a where a: "api path = Inr a" "use a = Inr b" by (auto simp: js_bind_eq_Inr)
    then have "Q a" using assms(1) by simp
    with a(2) assms(2) have "chart_ready b" unfolding makes_ready_def by blast
    with Inr show ?thesis by (simp add: load_chart_eq)
  qed
qed

lemma validate_makes_ready: "makes_ready typed_chart (validateChartData E)"
  unfolding makes_ready_def using validated_typed by blast

lemma repair_makes_ready:
  assumes "\<And>r d. typed_chart r \<Longrightarrow> repair r = Inr d \<Longrightarrow> typed_chart d" "sample_ok s"
  shows "makes_ready typed_chart (\<lambda>r. if has_data r then js_bind (repair r) (validateChartData E) else validateChartData E s)"
  unfolding makes_ready_def
proof (intro allI impI)
  fix r d
  assume r: "typed_chart r"
    and d: "(if has_data r then js_bind (repair r) (validateChartData E) else validateChartData E s) = Inr d"
  show "chart_ready d"
  proof (cases "has_data r")
    case True
    with d obtain a where "repair r = Inr a" "validateChartData E a = Inr d" by (auto simp: js_bind_eq_Inr)
    with assms(1) [OF r] validated_typed show ?thesis by blast
  next
    case False
    with d validated_typed sample_typed [OF assms(2)] show ?thesis by simp
  qed
qed

text \<open>The repairs keep an object as metadata, with a type.\<close>

lemma typed_chartE:
  assumes "typed_chart r"
  obtains ps ms s where "r = with_meta ps ms" "prop_lookup ms ''type'' = JStr s" "s \<noteq> []"
  using assms with_meta_self unfolding typed_chart_def by blast

lemma typed_with_meta: "prop_lookup ms ''type'' = JStr s \<Longrightarrow> s \<noteq> [] \<Longrightarrow> typed_chart (with_meta ps ms)"
  unfolding typed_chart_def with_meta_def by simp

lemma put_data_with_meta: "js_put (with_meta ps ms) ''data'' v = Inr (with_meta (props_put (props_put ps ''metadata'' (JObj ms)) ''data'' v) ms)"
  unfolding with_meta_def by (simp add: props_put_same)

lemma order_flow_repair_typed:
  assumes "typed_chart r" "order_flow_repair E r = Inr d"
  shows "typed_chart d"
proof -
  obtain ps ms s where r: "r = with_meta ps ms" "prop_lookup ms ''type'' = JStr s" "s \<noteq> []"
    by (rule typed_chartE [OF assms(1)])
  show ?thesis
    using assms(2) assms(1) unfolding r(1) order_flow_repair_def
    by (auto simp: js_bind_eq_Inr chart_simps put_data_with_meta intro!: typed_with_meta [of _ "''sankey''"] split: if_splits)
qed

lemma value_distribution_repair_typed:
  assumes "typed_chart r" "value_distribution_repair E r = Inr d"
  shows "typed_chart d"
proof -
  obtain ps ms s where r: "r = with_meta ps ms" "prop_lookup ms ''type'' = JStr s" "s \<noteq> []"
    by (rule typed_chartE [OF assms(1)])
  show ?thesis
    using assms(2) assms(1) unfolding r(1) value_distribution_repair_def
    by (auto simp: js_bind_eq_Inr chart_simps put_data_with_meta intro!: typed_with_meta [of _ "''pie''"] split: if_splits)
qed

lemma peak_times_repair_typed:
  assumes "typed_chart r" "peak_times_repair E r = Inr d"
  shows "typed_chart d"
proof -
  obtain ps ms s where r: "r = with_meta ps ms" "prop_lookup ms ''type'' = JStr s" "s \<noteq> []"
    by (rule typed_chartE [OF assms(1)])
  show ?thesis
    using assms(2) assms(1) unfolding r(1) peak_times_repair_def
    by (auto simp: js_bind_eq_Inr chart_simps put_data_with_meta intro!: typed_with_meta [of _ "''line''"] split: if_splits)
qed

lemma axis_from_row_meta:
  assumes "axis_from_row E k f (with_meta ps ms) = Inr d" "k \<noteq> ''type''"
  shows "\<exists>ns. d = with_meta ps ns \<and> prop_lookup ns ''type'' = prop_lookup ms ''type''"
  using assms by (auto simp: axis_from_row_def js_bind_eq_Inr chart_simps split: if_splits)

lemma volume_trends_repair_line:
  assumes "typed_chart r" "volume_trends_repair E r = Inr d"
  shows "\<exists>ps ns. d = with_meta ps ns \<and> prop_lookup ns ''type'' = JStr ''line''"
proof -
  obtain ps ms s where r: "r = with_meta ps ms" "prop_lookup ms ''type'' = JStr s" "s \<noteq> []"
    by (rule typed_chartE [OF assms(1)])
  show ?thesis
  proof (cases "s = ''line''")
    case True
    with assms(2) r show ?thesis by (auto simp: volume_trends_repair_def has_metadata_def chart_simps)
  next
    case False
    with assms(2) r obtain d1 where d1: "axis_from_row E ''xAxis'' ''date'' (with_meta ps (props_put ms ''type'' (JStr ''line''))) = Inr d1"
      "axis_from_row E ''yAxis'' ''count'' d1 = Inr d"
      by (auto simp: volume_trends_repair_def has_metadata_def chart_simps js_bind_eq_Inr)
    obtain ns where "d1 = with_meta ps ns" "prop_lookup ns ''type'' = JStr ''line''"
      using axis_from_row_meta [OF d1(1)] by auto
    with axis_from_row_meta [of E "''yAxis''" "''count''" ps ns d] d1(2) show ?thesis by auto
  qed
qed

lemma volume_trends_repair_typed: "typed_chart r \<Longrightarrow> volume_trends_repair E r = Inr d \<Longrightarrow> typed_chart d"
  using volume_trends_repair_line [of r E d] typed_with_meta by auto

lemma formatted_makes_ready: "makes_ready (\<lambda>r. typed_chart r \<or> flat_chart r) (formatted_or_response E f)"
  unfolding makes_ready_def
proof (intro allI impI)
  fix r d
  assume r: "typed_chart r \<or> flat_chart r" and d: "formatted_or_response E f r = Inr d"
  show "chart_ready d"
  proof (cases "typed_chart r")
    case True
    obtain ps ms where "r = with_meta ps ms" using True by (rule typed_chartE)
    then have "top_level_metadata r = Inr b \<Longrightarrow> \<not> b" for b
      by (auto simp: top_level_metadata_def chart_simps js_bind_eq_Inr split: if_splits)
    with d have "validateChartData E r = Inr d"
      by (auto simp: formatted_or_response_def js_bind_eq_Inr split: if_splits)
    with True validated_typed show ?thesis by blast
  next
    case False
    with r obtain qs rows s where q: "r = JObj qs" "prop_lookup qs ''data'' = arr rows" "prop_lookup qs ''metadata'' = JUndef"
      "prop_lookup qs ''type'' = JStr s" "s \<noteq> []" by (auto simp: flat_chart_def)
    then have "top_level_metadata r = Inr True" by (simp add: top_level_metadata_def has_data_def)
    with d q obtain ps where "validateChartData E (JObj [(''data'', arr rows), (''metadata'', JObj ((''type'', JStr s) # ps))]) = Inr d"
      by (auto simp: formatted_or_response_def js_bind_eq_Inr)
    moreover have "typed_chart (JObj [(''data'', arr rows), (''metadata'', JObj ((''type'', JStr s) # ps))])"
      using q(5) by (simp add: typed_chart_def)
    ultimately show ?thesis using validated_typed by blast
  qed
qed

lemma transform_typed:
  assumes "transformTransactionVolumeData E L data (JObj ms) = Inr d" "prop_lookup ms ''type'' = JStr s" "s \<noteq> []"
  shows "typed_chart d"
  using assms
  by (auto simp: transformTransactionVolumeData_def js_bind_eq_Inr typed_chart_def volume_metadata_def split: if_splits)

lemma volume_makes_ready: "makes_ready (\<lambda>r. typed_chart r \<or> flat_chart r) (transaction_volume_use E L)"
  unfolding makes_ready_def
proof (intro allI impI)
  fix r d
  assume r: "typed_chart r \<or> flat_chart r" and d: "transaction_volume_use E L r = Inr d"
  obtain qs ms s where q: "r = JObj qs" and m: "js_or (prop_lookup qs ''metadata'') default_volume_metadata = JObj ms"
    "prop_lookup ms ''type'' = JStr s" "s \<noteq> []"
    using r by (auto simp: typed_chart_def flat_chart_def default_volume_metadata_def prop_lookup_def js_or_def)
  show "chart_ready d"
  proof (cases "has_data r \<and> first_row_has E r [] = Inr True")
    case False
    with d have "validateChartData E transaction_volume_sample = Inr d"
      by (auto simp: transaction_volume_use_def js_bind_eq_Inr split: if_splits)
    then show ?thesis using validated_typed sample_typed [OF samples_ok(11)] by blast
  next
    case True
    with d obtain data t where t: "transformTransactionVolumeData E L data (JObj ms) = Inr t" "validateChartData E t = Inr d"
      by (auto simp: q m transaction_volume_use_def js_bind_eq_Inr)
    from transform_typed [OF t(1) m(2,3)] t(2) validated_typed show ?thesis by blast
  qed
qed

section \<open>The flow of status counts\<close>

definition status_row :: "string \<times> int \<Rightarrow> jsval" where
  "status_row x = JObj [(''status'', JStr (fst x)), (''count'', int_val (snd x))]"

fun count_key :: "jsval \<Rightarrow> rat" where
  "count_key (JObj ps) = (case prop_lookup ps ''count'' of JNum (Fin x) \<Rightarrow> - x | _ \<Rightarrow> 0)"
| "count_key v = 0"

text \<open>The links between consecutive statuses, each with the count of its target.\<close>

fun chain_links :: "(string \<times> int) list \<Rightarrow> jsval list" where
  "chain_links (x # y # ys) =
     JObj [(''source'', JStr (fst x)), (''target'', JStr (fst y)), (''value'', int_val (snd y))] # chain_links (y # ys)"
| "chain_links xs = []"

lemma status_row_get [simp]:
  "js_get (status_row x) ''status'' = Inr (JStr (fst x))" "js_get (status_row x) ''count'' = Inr (int_val (snd x))"
  "count_key (status_row x) = - of_int (snd x)"
  by (simp_all add: status_row_def)

lemma by_count_consistent: "consistent (by_count_desc E) count_key (map status_row xs)"
proof -
  have "by_count_desc E (status_row x) (status_row y) = Inr (fl (of_int (snd y - snd x)))" for x y
    by (simp add: by_count_desc_def js_minus_def num_sub_def)
  then show ?thesis by (auto simp: consistent_def fl_int_sign simp del: of_int_diff)
qed

lemma sorted_counts: "sorted_wrt (\<lambda>x y. snd y \<le> snd x) (sort_key (\<lambda>x. - snd x) (xs :: (string \<times> int) list))"
  using sorted_sort_key [of "\<lambda>x. - snd x" xs] by (simp add: sorted_map)

lemma count_of_row:
  assumes "distinct (map fst xs)" "(s, n) \<in> set xs" "n \<noteq> 0"
  shows "count_of (map status_row xs) (JStr s) = Inr (int_val n)"
proof -
  have "js_find (\<lambda>item. js_bind (js_get item ''status'') (\<lambda>t. Inr (js_strict_eq t (JStr s)))) (map status_row xs) =
      Inr (Some (status_row (s, n)))"
    using assms(1,2)
  proof (induction xs)
    case (Cons y ys)
    show ?case
    proof (cases "fst y = s")
      case True
      with Cons.prems have "y = (s, n)" by (force simp: image_iff)
      then show ?thesis by (simp add: js_strict_eq_def)
    next
      case False
      with Cons show ?thesis by (auto simp: js_strict_eq_def)
    qed
  qed simp
  with assms(3) show ?thesis by (simp add: count_of_def js_or_def)
qed

lemma flow_links_chain:
  assumes "distinct (map fst xs)" "\<forall>x \<in> set xs. 0 < snd x"
  shows "set ys \<subseteq> set xs \<Longrightarrow> sorted_wrt (\<lambda>x y. snd y \<le> snd x) ys \<Longrightarrow>
    flow_links E (map status_row xs) (map (JStr \<circ> fst) ys) = Inr (chain_links ys)"
proof (induction ys rule: chain_links.induct)
  case (1 x y ys)
  have c: "count_of (map status_row xs) (JStr (fst z)) = Inr (int_val (snd z))" "0 < snd z" if "z \<in> {x, y}" for z
    using count_of_row [OF assms(1), of "fst z" "snd z"] assms(2) that 1(2) by force+
  have "Math_min (Fin (of_int (snd x))) (Fin (of_int (snd y))) = Fin (of_int (snd y))"
    using 1(3) by (auto simp: Math_min_def)
  then have "flow_link E (map status_row xs) (JStr (fst x)) (JStr (fst y)) =
      Inr (JObj [(''source'', JStr (fst x)), (''target'', JStr (fst y)), (''value'', int_val (snd y))])"
    using c [of x] c [of y] by (simp add: flow_link_def)
  with 1 show ?case by simp
qed simp_all

lemma js_map_status: "js_map (\<lambda>item. js_get item ''status'') (map status_row ys) = Inr (map (JStr \<circ> fst) ys)"
  by (induction ys) simp_all

section \<open>Properties\<close>

definition demo_api :: "string \<Rightarrow> jsval js" where
  "demo_api p = (if p = ''/api/analytics/inventory/stock-trends'' then Inr demo_chart else Inl (JsError ''offline''))"

text \<open>
  Whatever the backend answers or fails with, each of the twenty-five getters of \<open>useAnalytics\<close>
  returns a chart, never an exception, and leaves the hook not loading and without an error.
\<close>

theorem every_getter_settles:
  "\<forall>g \<in> set (validated_getters E L @ raw_getters E iso_day now). settled st (g api st)"
  by (simp add: validated_getters_def raw_getters_def getStockLevelTrends_def getInventoryDistribution_def
      getWarehouseDistribution_def getReorderPoints_def getOrderFlow_def getOrderPipeline_def getOrderLifecycle_def
      getOrderVolumeTrends_def getOrderValueDistribution_def getOrderPeakTimes_def getTransactionVolume_def
      getStockMovements_def getTransactionMetrics_def getTransactionPatterns_def getTransactionClusters_def
      getTransactionFlow_def getRealTimeMetrics_def getPerformanceTrends_def getSystemHealth_def
      getResourceUtilization_def getFinancialAnalytics_def getRevenueAnalysis_def getHierarchicalData_def
      getForecastData_def getTrendPredictions_def validated_or_sample_settled load_sample_settled load_chart_settled
      samples_ok)

theorem every_getter_settles_witness:
  "settled \<lparr>loading = False, hook_error = Some TypeError\<rparr>
     (getOrderFlow demo_env demo_api \<lparr>loading = False, hook_error = Some TypeError\<rparr>)"
  using every_getter_settles [of demo_env demo_dates "\<lambda>t. ''2024-01-01''" 0 "\<lparr>loading = False, hook_error = Some TypeError\<rparr>" demo_api]
  by (simp add: validated_getters_def)

lemma getters_ready:
  assumes "backend_api api"
  shows "\<forall>g \<in> set (validated_getters E L). \<exists>d. fst (g api st) = Inr d \<and> chart_ready d"
proof -
  have typed: "typed_chart a" if "\<not> startsWith p ''/api/analytics/transactions/''" "api p = Inr a" for p a
    using assms that by (auto simp: backend_api_def)
  have backend: "typed_chart a \<or> flat_chart a" if "api p = Inr a" for p a
    using assms that by (auto simp: backend_api_def)
  have ready: "\<exists>d. fst (load_chart api path use (validateChartData E r) st) = Inr d \<and> chart_ready d"
    if "makes_ready (\<lambda>r. typed_chart r \<or> flat_chart r) use" "sample_ok r" for path use r
    using load_chart_ready [OF backend that] .
  have rep: "\<exists>d. fst (validated_or_sample E api path repair s st) = Inr d \<and> chart_ready d"
    if "\<And>r d. typed_chart r \<Longrightarrow> repair r = Inr d \<Longrightarrow> typed_chart d" "sample_ok s"
      "\<not> startsWith path ''/api/analytics/transactions/''" for path repair s
    unfolding validated_or_sample_def by (rule load_chart_ready [OF typed [OF that(3)] repair_makes_ready [OF that(1,2)] that(2)])
  have plain: "\<exists>d. fst (validated_or_sample E api path Inr s st) = Inr d \<and> chart_ready d"
    if "sample_ok s" "\<not> startsWith path ''/api/analytics/transactions/''" for path s
    using that by (intro rep) simp_all
  show ?thesis
    by (simp add: validated_getters_def getStockLevelTrends_def getInventoryDistribution_def
        getWarehouseDistribution_def getReorderPoints_def getOrderFlow_def getOrderPipeline_def getOrderLifecycle_def
        getOrderVolumeTrends_def getOrderValueDistribution_def getOrderPeakTimes_def getTransactionVolume_def
        getStockMovements_def getTransactionMetrics_def getTransactionPatterns_def getTransactionClusters_def
        getTransactionFlow_def startsWith_def plain samples_ok rep [OF order_flow_repair_typed] rep [OF volume_trends_repair_typed]
        rep [OF value_distribution_repair_typed] rep [OF peak_times_repair_typed]
        ready [OF volume_makes_ready] ready [OF formatted_makes_ready])
qed


text \<open>The answer of \<open>get_transaction_patterns\<close> in a backend that is otherwise the one above.\<close>

definition flat_demo :: jsval where
  "flat_demo = JObj [(''data'', arr [JObj [(''hour'', JStr ''08:00''), (''count'', int_val 3)]]), (''type'', JStr ''line''),
     (''x_axis'', JStr ''hour''), (''y_axis'', JStr ''count'')]"

definition backend_demo :: "string \<Rightarrow> jsval js" where
  "backend_demo p = (if p = ''/api/analytics/transactions/patterns'' then Inr flat_demo else demo_api p)"

lemma backend_demo_ok: "backend_api backend_demo"
proof -
  have "flat_chart flat_demo" by (simp add: flat_chart_def flat_demo_def prop_lookup_def)
  moreover have "typed_chart demo_chart" by (simp add: typed_chart_def demo_chart_def prop_lookup_def)
  ultimately show ?thesis by (simp add: backend_api_def backend_demo_def demo_api_def startsWith_def)
qed

lemma demo_api_ok: "backend_api demo_api"
  using backend_demo_ok by (auto simp: backend_api_def backend_demo_def demo_api_def split: if_splits)


text \<open>
  When the order flow arrives as status counts, the dashboard chains the statuses from the most
  to the least frequent one (equally frequent ones in the order of the response); every link
  carries the count of its target, and there is one link fewer than statuses. It relies on
  \<open>sort\<close> sorting stably.
\<close>

theorem order_flow_chains_statuses:
  assumes "sort_law E" "distinct (map fst xs)" "\<forall>x \<in> set xs. 0 < snd x"
  shows "status_flow E (map status_row xs) = Inr (chain_links (sort_key (\<lambda>x. - snd x) xs))"
proof -
  let ?ys = "sort_key (\<lambda>x. - snd x) xs"
  have "js_sort E (by_count_desc E) (map status_row xs) = Inr (sort_key count_key (map status_row xs))"
    using assms(1) by_count_consistent unfolding sort_law_def by blast
  also have "sort_key count_key (map status_row xs) = map status_row ?ys"
    unfolding sort_key_map by (intro arg_cong [where f = "map status_row"] sort_key_order) simp
  finally have "status_flow E (map status_row xs) = flow_links E (map status_row xs) (map (JStr \<circ> fst) ?ys)"
    by (simp add: status_flow_def js_map_status)
  also have "\<dots> = Inr (chain_links ?ys)"
    using flow_links_chain [OF assms(2,3) _ sorted_counts] by simp
  finally show ?thesis .
qed

theorem order_flow_chains_statuses_witness:
  "status_flow demo_env (map status_row [(''pending'', 5), (''delivered'', 87), (''shipped'', 8)]) =
     Inr [JObj [(''source'', JStr ''delivered''), (''target'', JStr ''shipped''), (''value'', int_val 8)],
          JObj [(''source'', JStr ''shipped''), (''target'', JStr ''pending''), (''value'', int_val 5)]]"
  using order_flow_chains_statuses [OF demo_sort_law, of "[(''pending'', 5), (''delivered'', 87), (''shipped'', 8)]"]
  by simp

text \<open>
  The system row of the resource utilization splits one hundred per cent: for every finite
  completion rate of the response the used share is a whole number from 0 to 100 and the
  available share is the rest.
\<close>

theorem utilization_splits_hundred:
  assumes "js_get item ''total_orders'' = Inr (JNum t)" "js_get item ''completed_orders'' = Inr (JNum c)"
    and "js_get item ''completion_rate'' = Inr (JNum (Fin r))"
  shows "\<exists>orders i. utilization_rows E item = Inr (arr [orders,
      JObj [(''resource'', JStr ''System''), (''used'', int_val i), (''available'', int_val (100 - i))]]) \<and> 0 \<le> i \<and> i \<le> 100"
proof -
  have "\<exists>x. clamped_rate E (JNum (Fin r)) 0 100 40 = Inr (Fin x) \<and> 0 \<le> x \<and> x \<le> 100"
    by (cases "fl (r * 100)") (auto simp: clamped_rate_def js_times_def Math_min_def Math_max_def)
  then obtain x where x: "clamped_rate E (JNum (Fin r)) 0 100 40 = Inr (Fin x)" "0 \<le> x" "x \<le> 100" by blast
  define i where "i = \<lfloor>x + 1 / 2\<rfloor>"
  have i: "0 \<le> i" "i \<le> 100" using x(2,3) by (simp_all add: i_def floor_le_iff le_floor_iff)
  have "num_sub (Fin 100) (Fin (of_int i)) = fl (of_int (100 - i))" by (simp add: num_sub_def)
  also have "\<dots> = Fin (of_int (100 - i))" using i by (intro fl_int) simp
  finally have "num_sub (Fin 100) (Fin (of_int i)) = Fin (of_int (100 - i))" .
  with assms x(1) i show ?thesis
    by (auto simp: utilization_rows_def js_minus_def js_or_def i_def [symmetric])
qed

theorem utilization_splits_hundred_witness:
  "\<exists>orders i. utilization_rows demo_env
      (JObj [(''total_orders'', int_val 10), (''completed_orders'', int_val 4), (''completion_rate'', JNum (Fin (1 / 2)))]) =
      Inr (arr [orders, JObj [(''resource'', JStr ''System''), (''used'', int_val i), (''available'', int_val (100 - i))]])"
  using utilization_splits_hundred [of "JObj [(''total_orders'', int_val 10), (''completed_orders'', int_val 4),
     (''completion_rate'', JNum (Fin (1 / 2)))]" "Fin 10" "Fin 4" "1 / 2" demo_env]
  by auto

end
