(* ===== verification/Dashboard_Client.thy ===== *)
theory Dashboard_Client
  imports JS_Value
begin

text \<open>
  The dashboard's session and HTTP client: \<open>services/auth.service.ts\<close>, \<open>services/api.service.ts\<close>,
  \<open>services/base.service.ts\<close>, \<open>utils/helpers.ts\<close> and \<open>controllers/auth.controller.ts\<close> of
  \<open>frontend-dashboard/src\<close>, in the browser (\<open>isServer\<close> is false). The state is the part of the
  window they touch. The network, \<open>JSON\<close>, \<open>atob\<close>, \<open>parseInt\<close>, \<open>encodeURIComponent\<close> and the URL parser are
  parameters.
\<close>

section \<open>The window\<close>

record IAuthConfig =
  tokenKey :: string
  userKey :: string
  authServiceUrl :: string
  authInterfaceUrl :: string

record window =
  local_storage :: storage
  navigations :: "string list"
  posted :: "(string \<times> (string \<times> jsval) list) list"
  reloads :: nat
  auth_interval :: bool
  auth_timeouts :: nat

record browser_lib =
  json_stringify :: "jsval \<Rightarrow> string"
  json_parse :: "string \<Rightarrow> jsval option"
  atob :: "string \<Rightarrow> string option"
  js_parseInt :: "string \<Rightarrow> jsnum"
  encodeURIComponent :: "string \<Rightarrow> string"
  url_hostname :: "string \<Rightarrow> string option"
  url_toString :: "string \<Rightarrow> (string \<times> string) list \<Rightarrow> string option"

definition last_validation_key :: string where
  "last_validation_key = ''last_token_validation_time''"

definition validation_result_key :: string where
  "validation_result_key = ''token_validation_result''"

definition storage_upd :: "(storage \<Rightarrow> storage) \<Rightarrow> window \<Rightarrow> window" where
  "storage_upd f w = w\<lparr>local_storage := f (local_storage w)\<rparr>"

definition navigate :: "string \<Rightarrow> window \<Rightarrow> window" where
  "navigate url w = w\<lparr>navigations := navigations w @ [url]\<rparr>"

section \<open>Helpers\<close>

definition parseJwt :: "browser_lib \<Rightarrow> string \<Rightarrow> jsval" where
  "parseJwt Lb token =
     (case split_on (CHR ''.'') token of
        [h, p, s] \<Rightarrow> (case atob Lb p of
            None \<Rightarrow> JNull
          | Some t \<Rightarrow> (case json_parse Lb t of None \<Rightarrow> JNull | Some v \<Rightarrow> v))
      | _ \<Rightarrow> JNull)"

text \<open>\<open>payload?.exp\<close>; the comparison converts both sides to numbers. The time is in milliseconds.\<close>

definition isTokenExpired :: "js_env \<Rightarrow> browser_lib \<Rightarrow> int \<Rightarrow> string \<Rightarrow> bool js" where
  "isTokenExpired E Lb now token =
     (case js_get (parseJwt Lb token) ''exp'' of
        Inl e \<Rightarrow> Inr False
      | Inr ex \<Rightarrow> if \<not> js_truthy ex then Inr False
          else js_bind (js_toNumber E ex) (\<lambda>n. Inr (num_lt n (Fin (of_int (now div 1000))))))"

text \<open>Both origins receive the event; \<open>{ type, ...data }\<close>.\<close>

definition broadcastAuthEvent :: "IAuthConfig \<Rightarrow> string \<Rightarrow> (string \<times> jsval) list \<Rightarrow> window \<Rightarrow> window" where
  "broadcastAuthEvent C ty data w =
     w\<lparr>posted := posted w @ map (\<lambda>origin. (origin, (''type'', JStr ty) # data)) [authServiceUrl C, authInterfaceUrl C]\<rparr>"

section \<open>The session\<close>

definition getToken :: "IAuthConfig \<Rightarrow> window \<Rightarrow> string option" where
  "getToken C w = getItem (local_storage w) (tokenKey C)"

definition isAuthenticated :: "IAuthConfig \<Rightarrow> window \<Rightarrow> bool" where
  "isAuthenticated C w \<longleftrightarrow> truthy (getToken C w)"

definition getUser :: "IAuthConfig \<Rightarrow> browser_lib \<Rightarrow> window \<Rightarrow> jsval" where
  "getUser C Lb w =
     (case getItem (local_storage w) (userKey C) of
        None \<Rightarrow> JNull
      | Some userJson \<Rightarrow> if userJson = [] then JNull
          else (case json_parse Lb userJson of None \<Rightarrow> JNull | Some v \<Rightarrow> v))"

definition setAuth :: "IAuthConfig \<Rightarrow> browser_lib \<Rightarrow> string \<Rightarrow> jsval \<Rightarrow> window \<Rightarrow> window" where
  "setAuth C Lb token user w =
     broadcastAuthEvent C ''AUTH_SUCCESS'' [(''token'', JStr token), (''user'', user)]
       (storage_upd (\<lambda>ls. setItem (setItem ls (tokenKey C) token) (userKey C) (json_stringify Lb user)) w)"

definition clearAuth :: "IAuthConfig \<Rightarrow> window \<Rightarrow> window" where
  "clearAuth C w =
     broadcastAuthEvent C ''AUTH_LOGOUT'' []
       (storage_upd (\<lambda>ls. removeItem (removeItem (removeItem (removeItem ls (tokenKey C)) (userKey C))
          last_validation_key) validation_result_key) w)"

definition redirectToLogin :: "IAuthConfig \<Rightarrow> browser_lib \<Rightarrow> string \<Rightarrow> window \<Rightarrow> window" where
  "redirectToLogin C Lb href w =
     navigate (authInterfaceUrl C @ ''/login?returnUrl='' @ encodeURIComponent Lb href @ ''&theme=neobrutal'') w"

text \<open>
  \<open>validateToken\<close>. \<open>outcome\<close> is what \<open>this.post("/api/auth/validate-token", { token })\<close> gives: \<open>response.data\<close>
  or an exception. An exception after the request makes the token count as valid.
\<close>

definition cached_result :: "browser_lib \<Rightarrow> int \<Rightarrow> window \<Rightarrow> bool option" where
  "cached_result Lb now w =
     (case getItem (local_storage w) last_validation_key of
        None \<Rightarrow> None
      | Some t \<Rightarrow>
          if t \<noteq> [] \<and> num_lt (num_sub (Fin (of_int now)) (js_parseInt Lb t)) (Fin 10000)
          then (if getItem (local_storage w) validation_result_key = Some ''true'' then Some True
                else if getItem (local_storage w) validation_result_key = Some ''false'' then Some False else None)
          else None)"

definition store_validation :: "js_env \<Rightarrow> IAuthConfig \<Rightarrow> int \<Rightarrow> jsval \<Rightarrow> window \<Rightarrow> bool js \<times> window" where
  "store_validation E C now data w =
     (let w = storage_upd (\<lambda>ls. setItem ls last_validation_key (numToString E (Fin (of_int now)))) w
      in case js_get data ''isValid'' of
           Inl e \<Rightarrow> (Inr True, w)
         | Inr isValid \<Rightarrow>
             if isValid = JUndef \<or> isValid = JNull then (Inr True, w)
             else (case js_toString E isValid of
               Inl e \<Rightarrow> (Inr True, w)
             | Inr s \<Rightarrow>
                 let w = storage_upd (\<lambda>ls. setItem ls validation_result_key s) w
                 in if js_truthy isValid then (Inr True, w) else (Inr False, clearAuth C w)))"

definition validateToken ::
  "js_env \<Rightarrow> IAuthConfig \<Rightarrow> browser_lib \<Rightarrow> int \<Rightarrow> jsval js \<Rightarrow> window \<Rightarrow> bool js \<times> window" where
  "validateToken E C Lb now outcome w =
     (case getToken C w of
        None \<Rightarrow> (Inr False, clearAuth C w)
      | Some token \<Rightarrow>
          if token = [] then (Inr False, clearAuth C w)
          else (case isTokenExpired E Lb now token of
            Inl e \<Rightarrow> (Inl e, w)
          | Inr True \<Rightarrow> (Inr False, clearAuth C w)
          | Inr False \<Rightarrow>
              (case cached_result Lb now w of
                 Some b \<Rightarrow> (Inr b, w)
               | None \<Rightarrow>
                   (case outcome of
                      Inl e \<Rightarrow> (Inr True, w)
                    | Inr data \<Rightarrow> store_validation E C now data w))))"

text \<open>The periodic check: the constructor starts it, the timers call \<open>auth_tick\<close>.\<close>

definition stopAuthCheck :: "window \<Rightarrow> window" where
  "stopAuthCheck w = w\<lparr>auth_interval := False\<rparr>"

definition startAuthCheck :: "IAuthConfig \<Rightarrow> window \<Rightarrow> window" where
  "startAuthCheck C w =
     (let w = w\<lparr>auth_interval := False\<rparr>
      in case getToken C w of
           None \<Rightarrow> w
         | Some token \<Rightarrow> if token = [] then w else w\<lparr>auth_timeouts := auth_timeouts w + 1, auth_interval := True\<rparr>)"

definition auth_tick :: "js_env \<Rightarrow> IAuthConfig \<Rightarrow> browser_lib \<Rightarrow> int \<Rightarrow> jsval js \<Rightarrow> window \<Rightarrow> window" where
  "auth_tick E C Lb now outcome w =
     (if isAuthenticated C w then snd (validateToken E C Lb now outcome w) else stopAuthCheck w)"

text \<open>Whatever the request of \<open>logout\<close> gives, the session is cleared.\<close>

definition logout :: "IAuthConfig \<Rightarrow> browser_lib \<Rightarrow> string \<Rightarrow> window \<Rightarrow> window" where
  "logout C Lb href w = redirectToLogin C Lb href (clearAuth C w)"

section \<open>Messages from other windows\<close>

definition is_trusted :: "IAuthConfig \<Rightarrow> browser_lib \<Rightarrow> string \<Rightarrow> bool" where
  "is_trusted C Lb host \<longleftrightarrow> (\<exists>trusted \<in> set [authServiceUrl C, authInterfaceUrl C]. url_hostname Lb trusted = Some host)"

text \<open>An exception of the listener has no effect.\<close>

definition handleAuthMessage ::
  "js_env \<Rightarrow> IAuthConfig \<Rightarrow> browser_lib \<Rightarrow> string \<Rightarrow> string \<Rightarrow> jsval \<Rightarrow> window \<Rightarrow> window" where
  "handleAuthMessage E C Lb href origin data w =
     (case url_hostname Lb origin of
        None \<Rightarrow> w
      | Some host \<Rightarrow>
          if \<not> is_trusted C Lb host then w
          else (case js_get data ''type'' of
            Inl e \<Rightarrow> w
          | Inr ty \<Rightarrow>
              if ty = JStr ''AUTH_SUCCESS'' \<or> ty = JStr ''AUTH_STATUS_AUTHENTICATED'' then
                (case (js_get data ''access_token'', js_get data ''user'') of
                   (Inr token, Inr user) \<Rightarrow>
                     if js_truthy token \<and> js_truthy user then
                       (case js_toString E token of
                          Inl e \<Rightarrow> w
                        | Inr t \<Rightarrow> (setAuth C Lb t user w)\<lparr>reloads := reloads w + 1\<rparr>)
                     else if ty = JStr ''AUTH_STATUS_AUTHENTICATED'' \<and> \<not> isAuthenticated C w
                     then redirectToLogin C Lb href w
                     else w
                 | _ \<Rightarrow> w)
              else if ty = JStr ''AUTH_LOGOUT'' \<or> ty = JStr ''LOGOUT_SUCCESS'' \<or> ty = JStr ''AUTH_STATUS_UNAUTHENTICATED''
              then clearAuth C w
              else w))"

section \<open>The HTTP client\<close>

record response =
  status :: nat
  content_type :: "string option"
  body_json :: "exn + jsval"
  body_text :: string

datatype fetch_outcome = Response response | Aborted | NetworkError string

record RequestConfig =
  cfg_params :: "(string \<times> string) list"
  cfg_headers :: "(string \<rightharpoonup> string) option"
  cfg_timeout :: "nat option"
  cfg_body :: "string option"

record api_service =
  baseUrl :: string
  defaultHeaders :: "string \<rightharpoonup> string"
  defaultTimeout :: nat

record sent_request =
  sent_url :: string
  sent_method :: string
  sent_headers :: "string \<rightharpoonup> string"
  sent_body :: "string option"

definition normalizedUrl :: "string \<Rightarrow> string \<Rightarrow> string" where
  "normalizedUrl base endpoint =
     (if endsWith base ''/'' then butlast base else base) @ (if startsWith endpoint ''/'' then endpoint else ''/'' @ endpoint)"

text \<open>\<open>new URL(...)\<close> throws on a malformed address; the parameters are appended to its query.\<close>

definition createUrl :: "browser_lib \<Rightarrow> string \<Rightarrow> string \<Rightarrow> (string \<times> string) list \<Rightarrow> string js" where
  "createUrl Lb base endpoint params =
     (case url_toString Lb (normalizedUrl base endpoint) params of None \<Rightarrow> Inl TypeError | Some u \<Rightarrow> Inr u)"

text \<open>\<open>{ method, headers: {...}, timeout, ...config }\<close>: the headers of \<open>config\<close>, when given, replace the merged
  ones.\<close>

definition mergedHeaders :: "api_service \<Rightarrow> RequestConfig \<Rightarrow> string \<rightharpoonup> string" where
  "mergedHeaders S cfg = (case cfg_headers cfg of
     Some h \<Rightarrow> h
   | None \<Rightarrow> [''Content-Type'' \<mapsto> ''application/json''] ++ defaultHeaders S)"

definition request_timeout :: "api_service \<Rightarrow> RequestConfig \<Rightarrow> nat" where
  "request_timeout S cfg = (case cfg_timeout cfg of
     Some t \<Rightarrow> t | None \<Rightarrow> if defaultTimeout S = 0 then 30000 else defaultTimeout S)"

definition applyAuthInterceptor :: "IAuthConfig \<Rightarrow> window \<Rightarrow> (string \<rightharpoonup> string) \<Rightarrow> string \<rightharpoonup> string" where
  "applyAuthInterceptor C w h =
     (case getToken C w of
        None \<Rightarrow> h
      | Some token \<Rightarrow> if token = [] then h else h(''Authorization'' \<mapsto> ''Bearer '' @ token))"

definition applyResponseInterceptor :: "IAuthConfig \<Rightarrow> response \<Rightarrow> window \<Rightarrow> (exn + response) \<times> window" where
  "applyResponseInterceptor C r w =
     (if status r = 401 then (Inl (JsError ''Unauthorized''), navigate ''/login'' (clearAuth C w)) else (Inr r, w))"

definition response_ok :: "response \<Rightarrow> bool" where
  "response_ok r \<longleftrightarrow> 200 \<le> status r \<and> status r \<le> 299"

text \<open>\<open>errorData.message || `Request failed with status ${status}`\<close>\<close>

definition failure :: "js_env \<Rightarrow> response \<Rightarrow> exn" where
  "failure E r =
     (case body_json r of
        Inl e \<Rightarrow> JsError (''Request failed with status '' @ index_string (status r))
      | Inr v \<Rightarrow> (case js_get v ''message'' of
          Inl e \<Rightarrow> e
        | Inr m \<Rightarrow> if js_truthy m then (case js_toString E m of Inl e \<Rightarrow> e | Inr s \<Rightarrow> JsError s)
            else JsError (''Request failed with status '' @ index_string (status r))))"

definition contains :: "string \<Rightarrow> string \<Rightarrow> bool" where
  "contains s t \<longleftrightarrow> list_ex (\<lambda>i. startsWith (drop i s) t) [0..<Suc (length s)]"

definition read_body :: "response \<Rightarrow> jsval js" where
  "read_body r =
     (case content_type r of
        Some ct \<Rightarrow> if contains ct ''application/json'' then body_json r else Inr (JStr (body_text r))
      | None \<Rightarrow> Inr (JStr (body_text r)))"

definition built_request :: "IAuthConfig \<Rightarrow> api_service \<Rightarrow> string \<Rightarrow> string \<Rightarrow> RequestConfig \<Rightarrow> window \<Rightarrow> sent_request" where
  "built_request C S meth url cfg w =
     \<lparr>sent_url = url, sent_method = meth, sent_headers = applyAuthInterceptor C w (mergedHeaders S cfg),
      sent_body = cfg_body cfg\<rparr>"

definition ApiService_request ::
  "js_env \<Rightarrow> IAuthConfig \<Rightarrow> browser_lib \<Rightarrow> (sent_request \<Rightarrow> fetch_outcome) \<Rightarrow> api_service \<Rightarrow> string \<Rightarrow> string \<Rightarrow> RequestConfig \<Rightarrow>
   window \<Rightarrow> jsval js \<times> window" where
  "ApiService_request E C Lb net S meth endpoint cfg w =
     (case createUrl Lb (baseUrl S) endpoint (cfg_params cfg) of
        Inl e \<Rightarrow> (Inl e, w)
      | Inr url \<Rightarrow>
          (case net (built_request C S meth url cfg w) of
             Aborted \<Rightarrow> (Inl (JsError (''Request timeout after '' @
                 index_string (request_timeout S cfg) @ ''ms'')), w)
           | NetworkError m \<Rightarrow> (Inl (JsError m), w)
           | Response r \<Rightarrow>
               (case applyResponseInterceptor C r w of
                  (Inl e, w') \<Rightarrow> (Inl e, w')
                | (Inr r, w') \<Rightarrow> if \<not> response_ok r then (Inl (failure E r), w') else (read_body r, w'))))"

text \<open>\<open>body: data ? JSON.stringify(data) : undefined\<close>\<close>

definition with_data :: "browser_lib \<Rightarrow> jsval \<Rightarrow> RequestConfig \<Rightarrow> RequestConfig" where
  "with_data Lb data cfg = cfg\<lparr>cfg_body := (if js_truthy data then Some (json_stringify Lb data) else None)\<rparr>"

definition ApiService_get where
  "ApiService_get E C Lb net S endpoint cfg = ApiService_request E C Lb net S ''GET'' endpoint cfg"

definition ApiService_post where
  "ApiService_post E C Lb net S endpoint data cfg = ApiService_request E C Lb net S ''POST'' endpoint (with_data Lb data cfg)"

definition ApiService_put where
  "ApiService_put E C Lb net S endpoint data cfg = ApiService_request E C Lb net S ''PUT'' endpoint (with_data Lb data cfg)"

definition ApiService_delete where
  "ApiService_delete E C Lb net S endpoint cfg = ApiService_request E C Lb net S ''DELETE'' endpoint cfg"

definition ApiService_patch where
  "ApiService_patch E C Lb net S endpoint data cfg = ApiService_request E C Lb net S ''PATCH'' endpoint (with_data Lb data cfg)"

section \<open>The client of the session service\<close>

text \<open>
  \<open>BaseService\<close> sends no token, does not look at a 401 and returns the status along with the data.
  The status text and the headers of an answer are not modelled.
\<close>

record IApiResponse =
  resp_data :: jsval
  resp_status :: nat

definition base_timeout :: "api_service \<Rightarrow> RequestConfig \<Rightarrow> nat" where
  "base_timeout S cfg = (case cfg_timeout cfg of Some t \<Rightarrow> t | None \<Rightarrow> defaultTimeout S)"

definition base_sent :: "api_service \<Rightarrow> string \<Rightarrow> string \<Rightarrow> RequestConfig \<Rightarrow> sent_request" where
  "base_sent S meth url cfg =
     \<lparr>sent_url = url, sent_method = meth, sent_headers = mergedHeaders S cfg, sent_body = cfg_body cfg\<rparr>"

definition BaseService_request ::
  "js_env \<Rightarrow> browser_lib \<Rightarrow> (sent_request \<Rightarrow> fetch_outcome) \<Rightarrow> api_service \<Rightarrow> string \<Rightarrow> string \<Rightarrow> RequestConfig \<Rightarrow>
   IApiResponse js" where
  "BaseService_request E Lb net S meth endpoint cfg =
     (case createUrl Lb (baseUrl S) endpoint (cfg_params cfg) of
        Inl e \<Rightarrow> Inl e
      | Inr url \<Rightarrow>
          (case net (base_sent S meth url cfg) of
             Aborted \<Rightarrow> Inl (JsError (''Request timeout after '' @ index_string (base_timeout S cfg) @ ''ms''))
           | NetworkError m \<Rightarrow> Inl (JsError m)
           | Response r \<Rightarrow>
               if \<not> response_ok r then Inl (failure E r)
               else js_bind (read_body r) (\<lambda>data. Inr \<lparr>resp_data = data, resp_status = status r\<rparr>)))"

definition BaseService_get where
  "BaseService_get E Lb net S endpoint cfg = BaseService_request E Lb net S ''GET'' endpoint cfg"

definition BaseService_post where
  "BaseService_post E Lb net S endpoint data cfg = BaseService_request E Lb net S ''POST'' endpoint (with_data Lb data cfg)"

definition BaseService_put where
  "BaseService_put E Lb net S endpoint data cfg = BaseService_request E Lb net S ''PUT'' endpoint (with_data Lb data cfg)"

definition BaseService_delete where
  "BaseService_delete E Lb net S endpoint cfg = BaseService_request E Lb net S ''DELETE'' endpoint cfg"

definition BaseService_patch where
  "BaseService_patch E Lb net S endpoint data cfg = BaseService_request E Lb net S ''PATCH'' endpoint (with_data Lb data cfg)"

definition no_config :: RequestConfig where
  "no_config = \<lparr>cfg_params = [], cfg_headers = None, cfg_timeout = None, cfg_body = None\<rparr>"

text \<open>\<open>super({ baseUrl: AUTH_CONFIG.authServiceUrl })\<close>\<close>

definition auth_client :: "IAuthConfig \<Rightarrow> api_service" where
  "auth_client C = \<lparr>baseUrl = authServiceUrl C, defaultHeaders = Map.empty, defaultTimeout = 30000\<rparr>"

text \<open>The two requests of \<open>AuthService\<close>: the validation posts the token, the logout posts nothing.\<close>

definition validate_post ::
  "js_env \<Rightarrow> IAuthConfig \<Rightarrow> browser_lib \<Rightarrow> (sent_request \<Rightarrow> fetch_outcome) \<Rightarrow> window \<Rightarrow> jsval js" where
  "validate_post E C Lb net w =
     js_bind (BaseService_post E Lb net (auth_client C) ''/api/auth/validate-token''
       (JObj [(''token'', case getToken C w of None \<Rightarrow> JNull | Some t \<Rightarrow> JStr t)]) no_config)
       (\<lambda>response. Inr (resp_data response))"

definition AuthService_validateToken ::
  "js_env \<Rightarrow> IAuthConfig \<Rightarrow> browser_lib \<Rightarrow> (sent_request \<Rightarrow> fetch_outcome) \<Rightarrow> int \<Rightarrow> window \<Rightarrow> bool js \<times> window" where
  "AuthService_validateToken E C Lb net now w = validateToken E C Lb now (validate_post E C Lb net w) w"

definition logout_request :: "IAuthConfig \<Rightarrow> browser_lib \<Rightarrow> sent_request js" where
  "logout_request C Lb =
     js_bind (createUrl Lb (baseUrl (auth_client C)) ''/api/auth/logout'' [])
       (\<lambda>url. Inr (base_sent (auth_client C) ''POST'' url (with_data Lb JUndef no_config)))"

section \<open>The session over time\<close>

text \<open>The keys of the storage are four different ones.\<close>

definition config_ok :: "IAuthConfig \<Rightarrow> bool" where
  "config_ok C \<longleftrightarrow> distinct [tokenKey C, userKey C, last_validation_key, validation_result_key]"

definition boolean_answer :: "jsval js \<Rightarrow> bool" where
  "boolean_answer outcome \<longleftrightarrow> (\<forall>d. outcome = Inr d \<longrightarrow> (\<exists>b. js_get d ''isValid'' = Inr (JBool b)))"

inductive dash_step :: "js_env \<Rightarrow> IAuthConfig \<Rightarrow> browser_lib \<Rightarrow> window \<Rightarrow> window \<Rightarrow> bool" for E C Lb where
  set_auth: "dash_step E C Lb w (setAuth C Lb t u w)"
| clear_auth: "dash_step E C Lb w (clearAuth C w)"
| validate: "boolean_answer outcome \<Longrightarrow> dash_step E C Lb w (snd (validateToken E C Lb now outcome w))"
| message: "dash_step E C Lb w (handleAuthMessage E C Lb href origin data w)"
| start: "dash_step E C Lb w (startAuthCheck C w)"
| tick: "boolean_answer outcome \<Longrightarrow> dash_step E C Lb w (auth_tick E C Lb now outcome w)"
| log_out: "dash_step E C Lb w (logout C Lb href w)"
| request: "dash_step E C Lb w (snd (ApiService_request E C Lb net S meth endpoint cfg w))"

inductive_cases dash_stepE: "dash_step E C Lb w w'"

text \<open>A negative validation is never left in the cache.\<close>

definition no_cached_refusal :: "window \<Rightarrow> bool" where
  "no_cached_refusal w \<longleftrightarrow> local_storage w validation_result_key \<noteq> Some ''false''"

lemma window_simps [simp]:
  "local_storage (broadcastAuthEvent C ty d w) = local_storage w"
  "local_storage (storage_upd f w) = f (local_storage w)"
  "local_storage (navigate u w) = local_storage w"
  by (simp_all add: broadcastAuthEvent_def storage_upd_def navigate_def)

lemma clearAuth_storage [simp]:
  "local_storage (clearAuth C w) =
     (local_storage w)(tokenKey C := None, userKey C := None, last_validation_key := None, validation_result_key := None)"
  by (rule ext) (simp add: clearAuth_def)

lemma clearAuth_not_authenticated: "config_ok C \<Longrightarrow> \<not> isAuthenticated C (clearAuth C w)"
  by (simp add: isAuthenticated_def getToken_def)

lemma setAuth_storage [simp]:
  "local_storage (setAuth C Lb t u w) = (local_storage w)(tokenKey C \<mapsto> t, userKey C \<mapsto> json_stringify Lb u)"
  by (rule ext) (simp add: setAuth_def)

lemma redirect_storage [simp]: "local_storage (redirectToLogin C Lb href w) = local_storage w"
  by (simp add: redirectToLogin_def)

lemma request_storage:
  "local_storage (snd (ApiService_request E C Lb net S meth endpoint cfg w)) \<in>
     {local_storage w, local_storage (clearAuth C w)}"
  by (auto simp: ApiService_request_def applyResponseInterceptor_def split: sum.split fetch_outcome.split)

lemma message_storage:
  assumes "P (local_storage w)" "P (local_storage (clearAuth C w))" "\<And>t u. P (local_storage (setAuth C Lb t u w))"
  shows "P (local_storage (handleAuthMessage E C Lb href origin data w))"
  using assms by (simp add: handleAuthMessage_def split: option.split sum.split)

lemma validate_cases:
  assumes "P (Inr False, clearAuth C w)" "\<And>e. P (Inl e, w)" "\<And>b. cached_result Lb now w = Some b \<Longrightarrow> P (Inr b, w)"
    "P (Inr True, w)" "\<And>d. outcome = Inr d \<Longrightarrow> P (store_validation E C now d w)"
  shows "P (validateToken E C Lb now outcome w)"
  using assms by (simp add: validateToken_def split: option.split sum.split bool.split)

lemma store_validation_boolean:
  "js_get d ''isValid'' = Inr (JBool b) \<Longrightarrow> store_validation E C now d w =
     (let w' = storage_upd (\<lambda>ls. setItem ls validation_result_key (if b then ''true'' else ''false''))
           (storage_upd (\<lambda>ls. setItem ls last_validation_key (numToString E (Fin (of_int now)))) w)
      in if b then (Inr True, w') else (Inr False, clearAuth C w'))"
  by (simp add: store_validation_def Let_def)

lemma no_cached_refusal_clear: "no_cached_refusal (clearAuth C w)"
  by (simp add: no_cached_refusal_def)

lemma no_cached_refusal_validate:
  assumes "boolean_answer outcome" "no_cached_refusal w"
  shows "no_cached_refusal (snd (validateToken E C Lb now outcome w))"
proof (rule validate_cases)
  fix d assume "outcome = Inr d"
  then obtain b where "js_get d ''isValid'' = Inr (JBool b)" using assms(1) by (auto simp: boolean_answer_def)
  then show "no_cached_refusal (snd (store_validation E C now d w))"
    by (simp add: store_validation_boolean Let_def no_cached_refusal_def)
qed (use assms no_cached_refusal_clear in simp_all)

lemma no_cached_refusal_step:
  assumes "dash_step E C Lb w w'" "config_ok C" "no_cached_refusal w"
  shows "no_cached_refusal w'"
  using assms(1)
proof (cases rule: dash_step.cases)
  case (validate outcome now)
  with assms(3) show ?thesis by (simp add: no_cached_refusal_validate)
next
  case (tick outcome now)
  with assms(3) show ?thesis by (simp add: auth_tick_def stopAuthCheck_def no_cached_refusal_validate) (simp add: no_cached_refusal_def)
next
  case start
  with assms(3) show ?thesis by (simp add: startAuthCheck_def no_cached_refusal_def Let_def split: option.split)
next
  case (message href origin data)
  show ?thesis
    unfolding message no_cached_refusal_def
    by (rule message_storage) (use assms in \<open>auto simp: no_cached_refusal_def config_ok_def\<close>)
next
  case (request net S meth endpoint cfg)
  have "local_storage w' \<in> {local_storage w, local_storage (clearAuth C w)}"
    using request_storage unfolding request .
  with assms(3) show ?thesis by (auto simp: no_cached_refusal_def)
qed (use assms in \<open>auto simp: no_cached_refusal_def config_ok_def logout_def\<close>)

lemma no_cached_refusal_steps:
  "(dash_step E C Lb)\<^sup>*\<^sup>* w w' \<Longrightarrow> config_ok C \<Longrightarrow> no_cached_refusal w \<Longrightarrow> no_cached_refusal w'"
  by (induction rule: rtranclp_induct) (auto intro: no_cached_refusal_step)

section \<open>Properties\<close>

definition demo_config :: IAuthConfig where
  "demo_config = \<lparr>tokenKey = ''synkro_token'', userKey = ''synkro_user'', authServiceUrl = ''http://localhost:3000'',
     authInterfaceUrl = ''http://localhost:5173''\<rparr>"

definition demo_browser :: browser_lib where
  "demo_browser = \<lparr>json_stringify = (\<lambda>v. ''{}''), json_parse = (\<lambda>s. None), atob = (\<lambda>s. None), js_parseInt = (\<lambda>s. Fin 0),
     encodeURIComponent = (\<lambda>s. s), url_hostname = (\<lambda>s. if startsWith s ''http://localhost'' then Some ''localhost'' else None),
     url_toString = (\<lambda>s ps. Some s)\<rparr>"

definition fresh_window :: window where
  "fresh_window = \<lparr>local_storage = Map.empty, navigations = [], posted = [], reloads = 0, auth_interval = False, auth_timeouts = 0\<rparr>"

lemma demo_config_ok: "config_ok demo_config"
  by (simp add: config_ok_def demo_config_def last_validation_key_def validation_result_key_def)

text \<open>
  C29: In every state that the dashboard reaches, a validation of the session that answers \<open>false\<close>
  leaves no session behind and one that answers \<open>true\<close> keeps the token it checked, whatever is in the
  cache of validations. It relies on the gateway answering \<open>isValid\<close> with a boolean.
\<close>

theorem validation_ends_session:
  assumes "(dash_step E C Lb)\<^sup>*\<^sup>* w0 w" "no_cached_refusal w0" "config_ok C" "boolean_answer outcome"
    and v: "validateToken E C Lb now outcome w = (Inr b, w')"
  shows "if b then isAuthenticated C w' \<and> getToken C w' = getToken C w else \<not> isAuthenticated C w'"
proof -
  have nc: "no_cached_refusal w" using no_cached_refusal_steps [OF assms(1,3,2)] .
  have c: "cached_result Lb now w \<noteq> Some False"
    using nc by (auto simp: cached_result_def no_cached_refusal_def split: option.splits if_splits)
  show ?thesis
  proof (cases "isAuthenticated C w")
    case False
    then have "getToken C w = None \<or> getToken C w = Some []" by (auto simp: isAuthenticated_def truthy_def)
    with v clearAuth_not_authenticated [OF assms(3)] show ?thesis by (auto simp: validateToken_def)
  next
    case True
    let ?P = "\<lambda>r. r = (Inr b, w') \<longrightarrow> (if b then isAuthenticated C w' \<and> getToken C w' = getToken C w else \<not> isAuthenticated C w')"
    have "?P (validateToken E C Lb now outcome w)"
    proof (rule validate_cases)
      fix d assume "outcome = Inr d"
      then obtain i where i: "js_get d ''isValid'' = Inr (JBool i)" using assms(4) by (auto simp: boolean_answer_def)
      then show "?P (store_validation E C now d w)"
        using True assms(3) clearAuth_not_authenticated [OF assms(3)]
        by (auto simp: store_validation_boolean Let_def isAuthenticated_def getToken_def config_ok_def)
    qed (use True c clearAuth_not_authenticated [OF assms(3)] in auto)
    with v show ?thesis by simp
  qed
qed

theorem validation_ends_session_witness:
  "\<not> isAuthenticated demo_config (snd (validateToken demo_env demo_config demo_browser 0
      (Inr (JObj [(''isValid'', JBool False)])) (setAuth demo_config demo_browser ''tok'' JNull fresh_window)))"
proof -
  let ?w = "setAuth demo_config demo_browser ''tok'' JNull fresh_window"
  let ?o = "Inr (JObj [(''isValid'', JBool False)])"
  have "fst (validateToken demo_env demo_config demo_browser 0 ?o ?w) = Inr False"
    by (simp add: validateToken_def getToken_def isTokenExpired_def parseJwt_def cached_result_def store_validation_def
        demo_config_def fresh_window_def last_validation_key_def)
  moreover have "(dash_step demo_env demo_config demo_browser)\<^sup>*\<^sup>* fresh_window ?w"
    by (rule r_into_rtranclp) (rule dash_step.set_auth)
  moreover have "no_cached_refusal fresh_window" by (simp add: no_cached_refusal_def fresh_window_def)
  moreover have "boolean_answer ?o" by (auto simp: boolean_answer_def)
  moreover obtain w' where "validateToken demo_env demo_config demo_browser 0 ?o ?w = (Inr False, w')"
    using calculation(1) by (metis prod.collapse)
  ultimately show ?thesis
    using validation_ends_session [of demo_env demo_config demo_browser fresh_window ?w ?o 0 False w'] demo_config_ok by simp
qed

text \<open>
  A message from another window changes the session only if the host name of its origin is that
  of the authentication service or interface, and then any origin on that host may, whatever
  its port or scheme: a success message with a token and a user installs that session.
\<close>

theorem messages_trusted_by_hostname:
  assumes "url_hostname Lb origin = Some host" "config_ok C"
  shows "(\<not> is_trusted C Lb host \<longrightarrow> handleAuthMessage E C Lb href origin data w = w) \<and>
    (is_trusted C Lb host \<and> js_get data ''type'' = Inr (JStr ''AUTH_SUCCESS'') \<and>
       js_get data ''access_token'' = Inr (JStr t) \<and> t \<noteq> [] \<and> js_get data ''user'' = Inr (JObj u) \<longrightarrow>
     getToken C (handleAuthMessage E C Lb href origin data w) = Some t)"
  using assms by (auto simp: handleAuthMessage_def getToken_def config_ok_def)

theorem messages_trusted_by_hostname_witness:
  "getToken demo_config (handleAuthMessage demo_env demo_config demo_browser ''/'' ''http://localhost:6666''
     (JObj [(''type'', JStr ''AUTH_SUCCESS''), (''access_token'', JStr ''forged''), (''user'', JObj [])]) fresh_window) = Some ''forged''"
  using messages_trusted_by_hostname [of demo_browser "''http://localhost:6666''" "''localhost''" demo_config, OF _ demo_config_ok]
  by (simp add: demo_browser_def demo_config_def is_trusted_def startsWith_def)

text \<open>
  C30: The HTTP client on every outcome of a request: a 401 ends the session, goes to the login page
  and throws; any other failure, a timeout and a network error throw and leave the session
  alone; a success returns the body. The request carries the session's token.
\<close>

theorem api_request_spec:
  assumes "createUrl Lb (baseUrl S) endpoint (cfg_params cfg) = Inr url" "getToken C w = Some tok" "tok \<noteq> []" "config_ok C"
  shows "let rq = built_request C S meth url cfg w; (res, w') = ApiService_request E C Lb net S meth endpoint cfg w in
     sent_headers rq ''Authorization'' = Some (''Bearer '' @ tok) \<and>
     (case net rq of
        Response r \<Rightarrow>
          if status r = 401 then res = Inl (JsError ''Unauthorized'') \<and> \<not> isAuthenticated C w' \<and> last (navigations w') = ''/login''
          else w' = w \<and> res = (if response_ok r then read_body r else Inl (failure E r))
      | Aborted \<Rightarrow> w' = w \<and> isl res
      | NetworkError m \<Rightarrow> w' = w \<and> res = Inl (JsError m))"
  using assms clearAuth_not_authenticated
  by (auto simp: built_request_def ApiService_request_def applyAuthInterceptor_def applyResponseInterceptor_def
      isAuthenticated_def getToken_def navigate_def Let_def split: fetch_outcome.split)

theorem api_request_spec_witness:
  "let S = \<lparr>baseUrl = ''http://localhost:3000/'', defaultHeaders = Map.empty, defaultTimeout = 30000\<rparr>;
       cfg = \<lparr>cfg_params = [], cfg_headers = None, cfg_timeout = None, cfg_body = None\<rparr>;
       r = \<lparr>status = 401, content_type = None, body_json = Inr JNull, body_text = []\<rparr>
   in fst (ApiService_request demo_env demo_config demo_browser (\<lambda>rq. Response r) S ''GET'' ''api/x'' cfg
        (setAuth demo_config demo_browser ''tok'' JNull fresh_window)) = Inl (JsError ''Unauthorized'')"
proof -
  let ?S = "\<lparr>baseUrl = ''http://localhost:3000/'', defaultHeaders = Map.empty, defaultTimeout = 30000\<rparr>"
  let ?cfg = "\<lparr>cfg_params = [], cfg_headers = None, cfg_timeout = None, cfg_body = None\<rparr>"
  let ?r = "\<lparr>status = 401, content_type = None, body_json = Inr JNull, body_text = []\<rparr>"
  have u: "createUrl demo_browser (baseUrl ?S) ''api/x'' (cfg_params ?cfg) = Inr ''http://localhost:3000/api/x''"
    by (simp add: createUrl_def demo_browser_def normalizedUrl_def endsWith_def startsWith_def)
  have t: "getToken demo_config (setAuth demo_config demo_browser ''tok'' JNull fresh_window) = Some ''tok''"
    by (simp add: getToken_def demo_config_def)
  show ?thesis
    using api_request_spec [OF u t _ demo_config_ok, of "''GET''" demo_env "\<lambda>rq. Response ?r"]
    by (simp add: Let_def case_prod_unfold)
qed

end
