(* ===== verification/Landing.thy ===== *)
theory Landing
  imports JS_Value
begin

text \<open>
  The landing page: \<open>frontend-landing/src/services/auth.service.ts\<close> (the session shared by the tabs
  through \<open>localStorage\<close>), the login drawer \<open>components/molecules/AuthDrawer/AuthDrawer.ts\<close> and the
  drag handle of \<open>components/ui/drawer.ts\<close>. An \<open>async\<close> method is split at its \<open>await\<close>, so that other
  events may come between the request and its answer. \<open>now\<close> is \<open>Date.now()\<close>, \<open>str\<close> its \<open>toString()\<close>.
\<close>

section \<open>The session of one tab\<close>

record landing_config =
  lc_userKey :: string
  lc_tokenKey :: string
  lc_authServiceUrl :: string
  lc_authInterfaceUrl :: string

record tab =
  t_store :: storage
  lastValidationTime :: int
  authCheckInterval :: bool
  state_changes :: nat
  logout_calls :: "string list"
  frames :: "string list"
  visited :: "string list"

definition timestamp_key :: string where
  "timestamp_key = ''auth_state_timestamp''"

text \<open>\<open>envToken ?? legacyToken\<close>\<close>

definition tab_getToken :: "landing_config \<Rightarrow> storage \<Rightarrow> string option" where
  "tab_getToken C ls = coalesce (getItem ls (lc_tokenKey C)) (getItem ls ''token'')"

definition tab_getUser :: "landing_config \<Rightarrow> (string \<Rightarrow> jsval option) \<Rightarrow> storage \<Rightarrow> jsval" where
  "tab_getUser C parse ls =
     (case coalesce (getItem ls (lc_userKey C)) (getItem ls ''user'') of
        None \<Rightarrow> JNull
      | Some userJson \<Rightarrow> if userJson = [] then JNull else (case parse userJson of None \<Rightarrow> JNull | Some v \<Rightarrow> v))"

definition tab_isAuthenticated :: "landing_config \<Rightarrow> storage \<Rightarrow> bool" where
  "tab_isAuthenticated C ls \<longleftrightarrow> truthy (tab_getToken C ls)"

definition cleared_storage :: "landing_config \<Rightarrow> string \<Rightarrow> storage \<Rightarrow> storage" where
  "cleared_storage C stamp ls =
     setItem (removeItem (removeItem (removeItem (removeItem ls (lc_userKey C)) (lc_tokenKey C)) ''user'') ''token'')
       timestamp_key stamp"

definition tab_stopAuthCheck :: "tab \<Rightarrow> tab" where
  "tab_stopAuthCheck t = t\<lparr>authCheckInterval := False\<rparr>"

definition tab_clearAuth :: "landing_config \<Rightarrow> (int \<Rightarrow> string) \<Rightarrow> int \<Rightarrow> tab \<Rightarrow> tab" where
  "tab_clearAuth C str now t =
     tab_stopAuthCheck (t\<lparr>t_store := cleared_storage C (str now) (t_store t), state_changes := state_changes t + 1\<rparr>)"

text \<open>The part of \<open>validateToken\<close> before the request, and the part after it: \<open>(response.ok, data.isValid)\<close>
  or an exception of \<open>fetch\<close> or \<open>json\<close>.\<close>

datatype pending = Done bool | Fetch string

definition tab_validate_begin :: "landing_config \<Rightarrow> (int \<Rightarrow> string) \<Rightarrow> bool \<Rightarrow> int \<Rightarrow> tab \<Rightarrow> pending \<times> tab" where
  "tab_validate_begin C str forceCheck now t =
     (case tab_getToken C (t_store t) of
        None \<Rightarrow> (Done False, tab_clearAuth C str now t)
      | Some token \<Rightarrow>
          if token = [] then (Done False, tab_clearAuth C str now t)
          else if \<not> forceCheck \<and> now - lastValidationTime t < 2000 then (Done True, t)
          else (Fetch token, t\<lparr>lastValidationTime := now\<rparr>))"

definition tab_validate_end :: "landing_config \<Rightarrow> (int \<Rightarrow> string) \<Rightarrow> int \<Rightarrow> exn + (bool \<times> bool) \<Rightarrow> tab \<Rightarrow> bool \<times> tab" where
  "tab_validate_end C str now outcome t =
     (case outcome of
        Inl e \<Rightarrow> (False, t)
      | Inr (ok, isValid) \<Rightarrow> if \<not> ok \<or> \<not> isValid then (False, tab_clearAuth C str now t) else (True, t))"

definition tab_startAuthCheck :: "landing_config \<Rightarrow> (int \<Rightarrow> string) \<Rightarrow> int \<Rightarrow> tab \<Rightarrow> pending \<times> tab" where
  "tab_startAuthCheck C str now t =
     (let (p, t) = tab_validate_begin C str True now (t\<lparr>authCheckInterval := False\<rparr>)
      in (p, t\<lparr>authCheckInterval := True\<rparr>))"

definition watched_keys :: "landing_config \<Rightarrow> string list" where
  "watched_keys C = [timestamp_key, lc_tokenKey C, lc_userKey C, ''token'', ''user'']"

definition tab_handleStorageEvent :: "landing_config \<Rightarrow> (int \<Rightarrow> string) \<Rightarrow> int \<Rightarrow> string \<Rightarrow> tab \<Rightarrow> pending option \<times> tab" where
  "tab_handleStorageEvent C str now key t =
     (if key \<in> set (watched_keys C) then (let (p, t) = tab_validate_begin C str True now t in (Some p, t))
      else (None, t))"

definition tab_logout :: "landing_config \<Rightarrow> (int \<Rightarrow> string) \<Rightarrow> int \<Rightarrow> tab \<Rightarrow> tab" where
  "tab_logout C str now t =
     (let t1 = (case tab_getToken C (t_store t) of
                  None \<Rightarrow> t
                | Some token \<Rightarrow> if token = [] then t else t\<lparr>logout_calls := logout_calls t @ [token]\<rparr>);
          t2 = tab_clearAuth C str now t1
      in t2\<lparr>frames := frames t2 @ [lc_authInterfaceUrl C @ ''/logout'']\<rparr>)"

text \<open>The callback of \<open>setTimeout\<close>, half a second later: the frame is removed and the page left.\<close>

definition tab_logout_timeout :: "landing_config \<Rightarrow> tab \<Rightarrow> tab" where
  "tab_logout_timeout C t =
     t\<lparr>frames := remove1 (lc_authInterfaceUrl C @ ''/logout'') (frames t), visited := visited t @ [''/'']\<rparr>"

definition tab_checkAuthToken :: "landing_config \<Rightarrow> (int \<Rightarrow> string) \<Rightarrow> int \<Rightarrow> tab \<Rightarrow> pending \<times> tab" where
  "tab_checkAuthToken C str now t = tab_validate_begin C str True now t"

section \<open>The login drawer\<close>

text \<open>\<open>AuthDrawer\<close> writes fixed keys; the origins are compared exactly.\<close>

record drawer_page =
  page_store :: storage
  close_events :: nat
  page_reloads :: nat

definition handleAuthSuccess ::
  "js_env \<Rightarrow> landing_config \<Rightarrow> (jsval \<Rightarrow> string) \<Rightarrow> string \<Rightarrow> jsval \<Rightarrow> drawer_page \<Rightarrow> drawer_page" where
  "handleAuthSuccess E C stringify origin data p =
     (if origin \<noteq> lc_authServiceUrl C \<and> origin \<noteq> lc_authInterfaceUrl C then p
      else if js_get data ''type'' = Inr (JStr ''AUTH_SUCCESS'') then
        (case (js_get data ''user'', js_get data ''access_token'') of
           (Inr user, Inr token) \<Rightarrow>
             let p = p\<lparr>page_store := setItem (page_store p) ''synkro_user'' (stringify user)\<rparr>
             in (case js_toString E token of
                   Inl e \<Rightarrow> p
                 | Inr s \<Rightarrow> p\<lparr>page_store := setItem (page_store p) ''synkro_token'' s,
                     close_events := close_events p + 1, page_reloads := page_reloads p + 1\<rparr>)
         | _ \<Rightarrow> p)
      else p)"

text \<open>The drawer is rendered only without a token.\<close>

definition checkAuthStatus :: "drawer_page \<Rightarrow> bool" where
  "checkAuthStatus p \<longleftrightarrow> getItem (page_store p) ''synkro_token'' \<noteq> None"

definition iframeUrl :: "landing_config \<Rightarrow> (string \<Rightarrow> string) \<Rightarrow> string \<Rightarrow> string \<Rightarrow> string" where
  "iframeUrl C encode ty returnUrl =
     lc_authInterfaceUrl C @ (if ty = ''login'' then ''/login'' else ''/register'') @ ''?returnUrl='' @ encode returnUrl @
     ''&theme=neobrutal''"

section \<open>The drag handle\<close>

record drawer =
  isOpen :: bool
  isDragging :: bool
  startY :: int
  currentY :: int
  drag_listeners :: bool
  overflow_hidden :: bool
  mounted :: bool

definition handleOpen :: "drawer \<Rightarrow> drawer" where
  "handleOpen d = d\<lparr>isOpen := True, overflow_hidden := True\<rparr>"

definition handleClose :: "drawer \<Rightarrow> drawer" where
  "handleClose d = d\<lparr>isOpen := False, overflow_hidden := False\<rparr>"

definition handleDragStart :: "int \<Rightarrow> drawer \<Rightarrow> drawer" where
  "handleDragStart y d = d\<lparr>isDragging := True, startY := y, currentY := y, drag_listeners := True\<rparr>"

definition handleDragEnd :: "drawer \<Rightarrow> drawer" where
  "handleDragEnd d = d\<lparr>isDragging := False, drag_listeners := False\<rparr>"

definition handleDragMove :: "int \<Rightarrow> drawer \<Rightarrow> drawer" where
  "handleDragMove y d =
     (if \<not> isDragging d then d
      else let d = d\<lparr>currentY := y\<rparr>
           in if 100 < currentY d - startY d then handleClose (handleDragEnd d) else d)"

definition unmount :: "drawer \<Rightarrow> drawer" where
  "unmount d = d\<lparr>drag_listeners := False, mounted := False\<rparr>"

text \<open>
  The events that can reach the component: the window events while it is mounted, the handle
  and the overlay while it is open, the drag listeners while they are registered.
\<close>

inductive drawer_step :: "drawer \<Rightarrow> drawer \<Rightarrow> bool" where
  open_event: "mounted d \<Longrightarrow> drawer_step d (handleOpen d)"
| close_event: "mounted d \<Longrightarrow> drawer_step d (handleClose d)"
| press: "mounted d \<Longrightarrow> isOpen d \<Longrightarrow> drawer_step d (handleDragStart y d)"
| move: "drag_listeners d \<Longrightarrow> drawer_step d (handleDragMove y d)"
| release: "drag_listeners d \<Longrightarrow> drawer_step d (handleDragEnd d)"
| leave: "mounted d \<Longrightarrow> drawer_step d (unmount d)"

definition initial_drawer :: drawer where
  "initial_drawer = \<lparr>isOpen = False, isDragging = False, startY = 0, currentY = 0, drag_listeners = False,
     overflow_hidden = False, mounted = True\<rparr>"

definition drawer_inv :: "drawer \<Rightarrow> bool" where
  "drawer_inv d \<longleftrightarrow> (overflow_hidden d \<longleftrightarrow> isOpen d) \<and> (mounted d \<longrightarrow> (drag_listeners d \<longleftrightarrow> isDragging d)) \<and>
     (\<not> mounted d \<longrightarrow> \<not> drag_listeners d) \<and> (drag_listeners d \<longrightarrow> currentY d - startY d \<le> 100)"

lemma drawer_inv_step: "drawer_step d d' \<Longrightarrow> drawer_inv d \<Longrightarrow> drawer_inv d'"
  by (induction rule: drawer_step.induct)
    (auto simp: drawer_inv_def handleOpen_def handleClose_def handleDragStart_def handleDragMove_def handleDragEnd_def
      unmount_def Let_def)

lemma drawer_inv_steps: "drawer_step\<^sup>*\<^sup>* d0 d \<Longrightarrow> drawer_inv d0 \<Longrightarrow> drawer_inv d"
  by (induction rule: rtranclp_induct) (auto intro: drawer_inv_step)

lemma initial_drawer_inv: "drawer_inv initial_drawer"
  by (simp add: drawer_inv_def initial_drawer_def)

lemma unmounted_is_final: "drawer_step d d' \<Longrightarrow> drawer_inv d \<Longrightarrow> mounted d"
  by (induction rule: drawer_step.induct) (auto simp: drawer_inv_def)

section \<open>The storage\<close>

lemma cleared_not_authenticated:
  "lc_tokenKey C \<noteq> timestamp_key \<Longrightarrow> tab_getToken C (cleared_storage C stamp ls) = None"
  by (simp add: tab_getToken_def cleared_storage_def timestamp_key_def)

lemma clearAuth_store [simp]: "t_store (tab_clearAuth C str now t) = cleared_storage C (str now) (t_store t)"
  by (simp add: tab_clearAuth_def tab_stopAuthCheck_def)

text \<open>The keys whose value differs: the browser fires a storage event for them in the other tabs.\<close>

definition storage_event :: "landing_config \<Rightarrow> storage \<Rightarrow> storage \<Rightarrow> string option" where
  "storage_event C old new = List.find (\<lambda>k. old k \<noteq> new k) (watched_keys C)"

text \<open>
  Two tabs in turn: the tab that receives an event at the next time of the list handles it, and the
  other one receives the event that this causes, if any. The result is the number of events
  handled.
\<close>

fun tab_turns :: "landing_config \<Rightarrow> (int \<Rightarrow> string) \<Rightarrow> int list \<Rightarrow> string option \<Rightarrow> tab \<Rightarrow> tab \<Rightarrow> nat" where
  "tab_turns C str [] ev a b = 0"
| "tab_turns C str (now # ts) None a b = 0"
| "tab_turns C str (now # ts) (Some key) a b =
     (let a' = snd (tab_handleStorageEvent C str now key a)
      in 1 + tab_turns C str ts (storage_event C (t_store a) (t_store a')) (b\<lparr>t_store := t_store a'\<rparr>) a')"

lemma turns_anonymous:
  assumes "inj str" "lc_tokenKey C \<noteq> timestamp_key"
  shows "sorted_wrt (<) (tm # ts) \<Longrightarrow> key \<in> set (watched_keys C) \<Longrightarrow> tab_getToken C (t_store a) = None \<Longrightarrow>
    t_store a timestamp_key = Some (str tm) \<Longrightarrow> tab_turns C str ts (Some key) a b = length ts"
proof (induction ts arbitrary: tm key a b)
  case (Cons now ts)
  let ?a' = "snd (tab_handleStorageEvent C str now key a)"
  have st: "t_store ?a' = cleared_storage C (str now) (t_store a)"
    using Cons.prems(2,3) by (simp add: tab_handleStorageEvent_def tab_validate_begin_def)
  have "tm < now" using Cons.prems(1) by simp
  with assms(1) have "str tm \<noteq> str now" by (auto dest: injD)
  then have "storage_event C (t_store a) (t_store ?a') = Some timestamp_key"
    using Cons.prems(4) st by (simp add: storage_event_def watched_keys_def cleared_storage_def)
  moreover have "tab_turns C str ts (Some timestamp_key) (b\<lparr>t_store := t_store ?a'\<rparr>) ?a' = length ts"
  proof (rule Cons.IH [where tm = now])
    show "sorted_wrt (<) (now # ts)" using Cons.prems(1) by simp
    show "timestamp_key \<in> set (watched_keys C)" by (simp add: watched_keys_def)
    show "tab_getToken C (t_store (b\<lparr>t_store := t_store ?a'\<rparr>)) = None"
      using assms(2) st by (simp add: cleared_not_authenticated)
    show "t_store (b\<lparr>t_store := t_store ?a'\<rparr>) timestamp_key = Some (str now)"
      using st by (simp add: cleared_storage_def)
  qed
  ultimately show ?case by (simp add: Let_def)
qed simp

section \<open>Properties\<close>

text \<open>
  C33: The drag handle of the drawer: in every reachable state of a mounted drawer the window listens
  to drag events exactly while a drag is on, and the page is locked exactly while the drawer
  is open; a drag of more than 100 pixels closes the drawer, unlocks the page and stops
  listening; once unmounted, no listener is left and nothing happens any more.
\<close>

theorem drawer_drag_correct:
  assumes "drawer_step\<^sup>*\<^sup>* initial_drawer d"
  shows "(mounted d \<longrightarrow> (drag_listeners d \<longleftrightarrow> isDragging d)) \<and> (overflow_hidden d \<longleftrightarrow> isOpen d) \<and>
    (isDragging d \<and> 100 < y - startY d \<longrightarrow>
       (let e = handleDragMove y d in \<not> isOpen e \<and> \<not> overflow_hidden e \<and> \<not> isDragging e \<and> \<not> drag_listeners e)) \<and>
    (\<not> mounted d \<longrightarrow> \<not> drag_listeners d \<and> (\<nexists>e. drawer_step d e))"
proof -
  have inv: "drawer_inv d" using drawer_inv_steps [OF assms initial_drawer_inv] .
  then show ?thesis
    using unmounted_is_final [of d]
    by (auto simp: drawer_inv_def handleDragMove_def handleClose_def handleDragEnd_def Let_def)
qed

theorem drawer_drag_correct_witness:
  "\<not> isOpen (handleDragMove 150 (handleDragStart 10 (handleOpen initial_drawer)))"
proof -
  let ?o = "handleOpen initial_drawer" and ?s = "handleDragStart 10 (handleOpen initial_drawer)"
  have "drawer_step initial_drawer ?o" by (rule drawer_step.open_event) (simp add: initial_drawer_def)
  moreover have "drawer_step ?o ?s" by (rule drawer_step.press) (simp_all add: initial_drawer_def handleOpen_def)
  ultimately have "drawer_step\<^sup>*\<^sup>* initial_drawer ?s" by (meson converse_rtranclp_into_rtranclp rtranclp.rtrancl_refl)
  moreover have "isDragging ?s \<and> 100 < 150 - startY ?s" by (simp add: handleDragStart_def)
  ultimately show ?thesis using drawer_drag_correct [of ?s 150] by (auto simp: Let_def)
qed

text \<open>
  A drawer that is unmounted while it is open leaves the page locked: the body keeps the class
  \<open>overflow-hidden\<close>, and no event of the component can remove it any more.
\<close>

theorem unmount_leaves_page_locked:
  assumes "drawer_step\<^sup>*\<^sup>* initial_drawer d" "mounted d" "isOpen d" "drawer_step\<^sup>*\<^sup>* (unmount d) e"
  shows "overflow_hidden e"
proof -
  have "drawer_inv (unmount d)"
    using drawer_inv_step [OF drawer_step.leave [OF assms(2)]] drawer_inv_steps [OF assms(1) initial_drawer_inv] .
  moreover have "\<not> mounted (unmount d)" "overflow_hidden (unmount d)"
    using drawer_inv_steps [OF assms(1) initial_drawer_inv] assms(3) by (simp_all add: unmount_def drawer_inv_def)
  ultimately have "e = unmount d"
    using assms(4) unmounted_is_final by (metis converse_rtranclpE)
  with \<open>overflow_hidden (unmount d)\<close> show ?thesis by simp
qed

theorem unmount_leaves_page_locked_witness: "overflow_hidden (unmount (handleOpen initial_drawer))"
proof (rule unmount_leaves_page_locked)
  show "drawer_step\<^sup>*\<^sup>* initial_drawer (handleOpen initial_drawer)"
    by (rule r_into_rtranclp) (rule drawer_step.open_event, simp add: initial_drawer_def)
qed (simp_all add: handleOpen_def initial_drawer_def)

definition demo_landing :: landing_config where
  "demo_landing = \<lparr>lc_userKey = ''synkro_user'', lc_tokenKey = ''synkro_token'', lc_authServiceUrl = ''http://localhost:3000'',
     lc_authInterfaceUrl = ''http://localhost:5173''\<rparr>"

definition demo_tab :: tab where
  "demo_tab = \<lparr>t_store = [timestamp_key \<mapsto> []], lastValidationTime = 0, authCheckInterval = True, state_changes = 0,
     logout_calls = [], frames = [], visited = []\<rparr>"

text \<open>
  Two tabs of the landing page without a session never become quiet: each storage event makes
  the tab that receives it clear its session and write a new time stamp, which is an event
  for the other tab, for as long as the clock advances.
\<close>

theorem anonymous_tabs_never_quiet:
  assumes "inj str" "lc_tokenKey C \<noteq> timestamp_key" "tab_getToken C (t_store a) = None"
    and "t_store a timestamp_key = Some (str tm)" "sorted_wrt (<) (tm # ts)"
  shows "tab_turns C str ts (Some timestamp_key) a b = length ts"
  using turns_anonymous [OF assms(1,2,5) _ assms(3,4)] by (simp add: watched_keys_def)

definition demo_str :: "int \<Rightarrow> string" where
  "demo_str n = replicate (nat \<bar>n\<bar>) (CHR ''1'') @ (if n < 0 then ''-'' else [])"

lemma demo_str_inj: "inj demo_str"
proof (rule injI)
  fix x y assume e: "demo_str x = demo_str y"
  have c: "length (filter (\<lambda>c. c = CHR ''1'') (demo_str z)) = nat \<bar>z\<bar>" "CHR ''-'' \<in> set (demo_str z) \<longleftrightarrow> z < 0" for z
    by (auto simp: demo_str_def)
  from e c have "nat \<bar>x\<bar> = nat \<bar>y\<bar>" "(x < 0) = (y < 0)" by metis+
  then show "x = y" by linarith
qed

theorem anonymous_tabs_never_quiet_witness:
  "tab_turns demo_landing demo_str [1, 2, 3] (Some timestamp_key) demo_tab demo_tab = 3"
  using anonymous_tabs_never_quiet [OF demo_str_inj, of demo_landing demo_tab 0 "[1, 2, 3]" demo_tab]
  by (simp add: demo_landing_def demo_tab_def timestamp_key_def tab_getToken_def demo_str_def)

text \<open>
  Logging out sends the token to the gateway and ends the session. A validation that is on its
  way when the user logs in again ends the new session if the gateway refuses the old token:
  the answer is applied to whatever session the tab has by then.
\<close>

theorem stale_validation_ends_new_session:
  assumes "lc_tokenKey C \<noteq> timestamp_key" "tab_getToken C (t_store t) = Some old" "old \<noteq> []"
    and "tab_validate_begin C str True now t = (p, t1)"
  shows "p = Fetch old \<and>
    \<not> tab_isAuthenticated C (t_store (snd (tab_validate_end C str now' (Inr (True, False)) (t1\<lparr>t_store := newer\<rparr>)))) \<and>
    (let t2 = tab_logout C str now t in logout_calls t2 = logout_calls t @ [old] \<and> \<not> tab_isAuthenticated C (t_store t2))"
  using assms
  by (auto simp: tab_validate_begin_def tab_validate_end_def tab_isAuthenticated_def cleared_not_authenticated
      tab_logout_def tab_clearAuth_def tab_stopAuthCheck_def Let_def)

theorem stale_validation_ends_new_session_witness:
  "let t = demo_tab\<lparr>t_store := [''synkro_token'' \<mapsto> ''old'']\<rparr>;
       (p, t1) = tab_validate_begin demo_landing demo_str True 5 t
   in p = Fetch ''old'' \<and> \<not> tab_isAuthenticated demo_landing (t_store (snd (tab_validate_end demo_landing demo_str 9
        (Inr (True, False)) (t1\<lparr>t_store := [''synkro_token'' \<mapsto> ''new'']\<rparr>))))"
proof -
  let ?t = "demo_tab\<lparr>t_store := [''synkro_token'' \<mapsto> ''old'']\<rparr>"
  obtain p t1 where b: "tab_validate_begin demo_landing demo_str True 5 ?t = (p, t1)" by fastforce
  have "lc_tokenKey demo_landing \<noteq> timestamp_key" "tab_getToken demo_landing (t_store ?t) = Some ''old''"
    by (simp_all add: demo_landing_def timestamp_key_def tab_getToken_def)
  from stale_validation_ends_new_session [OF this _ b, of 9 "[''synkro_token'' \<mapsto> ''new'']"] b show ?thesis
    by (simp add: Let_def)
qed

end
