(* ===== verification/Auth_Store.thy ===== *)
theory Auth_Store
  imports JS_Value
begin

text \<open>
  The authentication interface: \<open>frontend-auth/src/stores/auth.store.ts\<close> (the session in memory and in
  \<open>localStorage\<close>), \<open>router/index.ts\<close> (which pages a visitor may see) and \<open>utils/messaging.ts\<close> (what the
  embedding window is told). Answers of the API are arguments; \<open>parse\<close> and \<open>stringify\<close> are those of \<open>JSON\<close>.
\<close>

section \<open>The store\<close>

record auth_keys =
  TOKEN_KEY :: string
  USER_KEY :: string

record json_lib =
  parse :: "string \<Rightarrow> jsval option"
  stringify :: "jsval \<Rightarrow> string"

record auth_store =
  s_token :: "string option"
  s_user :: jsval
  s_loading :: bool
  s_error :: "string option"
  s_interval :: bool
  s_storage :: storage
  validations :: "string list"
  logouts :: "string list"

definition store_isAuthenticated :: "auth_store \<Rightarrow> bool" where
  "store_isAuthenticated s \<longleftrightarrow> truthy (s_token s) \<and> js_truthy (s_user s)"

text \<open>The synchronous part of \<open>validateToken\<close>: the request for the current token, if there is one.\<close>

definition validate_request :: "auth_store \<Rightarrow> auth_store" where
  "validate_request s = (case s_token s of
     None \<Rightarrow> s
   | Some t \<Rightarrow> if t = [] then s else s\<lparr>validations := validations s @ [t]\<rparr>)"

definition store_startAuthCheck :: "auth_store \<Rightarrow> auth_store" where
  "store_startAuthCheck s = (validate_request s)\<lparr>s_interval := True\<rparr>"

definition store_stopAuthCheck :: "auth_store \<Rightarrow> auth_store" where
  "store_stopAuthCheck s = s\<lparr>s_interval := False\<rparr>"

definition store_logout :: "auth_keys \<Rightarrow> auth_store \<Rightarrow> auth_store" where
  "store_logout K s =
     (let currentToken = s_token s;
          s = store_stopAuthCheck s;
          s = s\<lparr>s_token := None, s_user := JNull,
                s_storage := removeItem (removeItem (s_storage s) (TOKEN_KEY K)) (USER_KEY K)\<rparr>
      in case currentToken of
           None \<Rightarrow> s
         | Some t \<Rightarrow> if t = [] then s else s\<lparr>logouts := logouts s @ [t]\<rparr>)"

text \<open>The answer to a validation: \<open>response.data.isValid\<close>, or an exception.\<close>

definition validate_answer :: "auth_keys \<Rightarrow> exn + bool \<Rightarrow> auth_store \<Rightarrow> bool \<times> auth_store" where
  "validate_answer K outcome s =
     (case outcome of
        Inl e \<Rightarrow> (False, s)
      | Inr isValid \<Rightarrow> if isValid then (True, s) else (False, store_logout K s))"

text \<open>The errors of axios: their message and the \<open>response.data.message\<close> that may come with them.\<close>

record api_error =
  err_message :: string
  err_response_message :: "string option"

record auth_data =
  d_access_token :: "string option"
  d_user :: jsval

definition accept_session :: "auth_keys \<Rightarrow> json_lib \<Rightarrow> string \<Rightarrow> jsval \<Rightarrow> auth_store \<Rightarrow> auth_store" where
  "accept_session K J token user s =
     store_startAuthCheck (s\<lparr>s_token := Some token, s_user := user,
       s_storage := setItem (setItem (s_storage s) (TOKEN_KEY K) token) (USER_KEY K) (stringify J user)\<rparr>)"

text \<open>\<open>login\<close> and \<open>register\<close> differ in the error they recognise and in the default message.\<close>

definition error_text :: "string \<Rightarrow> string \<Rightarrow> api_error \<Rightarrow> string" where
  "error_text known fallback err =
     (if err_message err = known then known
      else case err_response_message err of
        Some m \<Rightarrow> if m = [] then fallback else m
      | None \<Rightarrow> fallback)"

definition authenticate ::
  "string \<Rightarrow> string \<Rightarrow> auth_keys \<Rightarrow> json_lib \<Rightarrow> api_error + auth_data \<Rightarrow> auth_store \<Rightarrow> (exn + auth_data) \<times> auth_store" where
  "authenticate known fallback K J outcome s =
     (let s = s\<lparr>s_loading := True, s_error := None\<rparr>;
          result = (case outcome of
              Inl err \<Rightarrow> Inl err
            | Inr d \<Rightarrow> if truthy (d_access_token d) \<and> js_truthy (d_user d) then Inr d
                else Inl \<lparr>err_message = ''Invalid response from server'', err_response_message = None\<rparr>)
      in case result of
           Inr d \<Rightarrow> (Inr d, (accept_session K J (the (d_access_token d)) (d_user d) s)\<lparr>s_loading := False\<rparr>)
         | Inl err \<Rightarrow>
             let m = error_text known fallback err
             in (Inl (JsError m), s\<lparr>s_error := Some m, s_loading := False\<rparr>))"

definition store_login where
  "store_login = authenticate ''Invalid credentials'' ''Failed to login''"

definition store_register where
  "store_register = authenticate ''User already exists'' ''Failed to register''"

text \<open>What \<open>fetchProfile\<close> does with its answer, which may come after other events.\<close>

definition profile_answer :: "auth_keys \<Rightarrow> json_lib \<Rightarrow> exn + jsval \<Rightarrow> auth_store \<Rightarrow> jsval \<times> auth_store" where
  "profile_answer K J outcome s =
     (case outcome of
        Inl e \<Rightarrow> (JNull, s)
      | Inr data \<Rightarrow>
          if js_truthy data
          then (data, s\<lparr>s_user := data, s_storage := setItem (s_storage s) (USER_KEY K) (stringify J data)\<rparr>)
          else (JNull, s))"

definition store_fetchProfile :: "auth_keys \<Rightarrow> json_lib \<Rightarrow> exn + jsval \<Rightarrow> auth_store \<Rightarrow> jsval \<times> auth_store" where
  "store_fetchProfile K J outcome s =
     (if \<not> truthy (s_token s) then (JNull, s) else profile_answer K J outcome s)"

definition parse_user :: "json_lib \<Rightarrow> string option \<Rightarrow> jsval" where
  "parse_user J v = (case parse J (case v of None \<Rightarrow> ''null'' | Some u \<Rightarrow> u) of None \<Rightarrow> JNull | Some x \<Rightarrow> x)"

text \<open>\<open>initAuth\<close> reads the storage, may wait for the profile, and then starts the periodic check.\<close>

definition init_read :: "auth_keys \<Rightarrow> json_lib \<Rightarrow> auth_store \<Rightarrow> auth_store" where
  "init_read K J s = s\<lparr>s_token := getItem (s_storage s) (TOKEN_KEY K),
     s_user := parse_user J (getItem (s_storage s) (USER_KEY K))\<rparr>"

definition init_resume :: "auth_store \<Rightarrow> auth_store" where
  "init_resume s = (if store_isAuthenticated s then store_startAuthCheck s else s)"

definition store_initAuth :: "auth_keys \<Rightarrow> json_lib \<Rightarrow> exn + jsval \<Rightarrow> auth_store \<Rightarrow> auth_store" where
  "store_initAuth K J outcome s =
     (let s = init_read K J s;
          s = (if truthy (s_token s) \<and> \<not> js_truthy (s_user s) then snd (store_fetchProfile K J outcome s) else s)
      in init_resume s)"

text \<open>The set-up of the store reads the storage before \<open>initAuth\<close> does, and outside any \<open>try\<close>.\<close>

definition store_create :: "auth_keys \<Rightarrow> json_lib \<Rightarrow> storage \<Rightarrow> exn + auth_store" where
  "store_create K J ls =
     (case parse J (case getItem ls (USER_KEY K) of None \<Rightarrow> ''null'' | Some u \<Rightarrow> u) of
        None \<Rightarrow> Inl (JsError ''SyntaxError'')
      | Some user \<Rightarrow> Inr \<lparr>s_token = getItem ls (TOKEN_KEY K), s_user = user, s_loading = False, s_error = None,
          s_interval = False, s_storage = ls, validations = [], logouts = []\<rparr>)"

definition store_handleStorageEvent :: "auth_keys \<Rightarrow> json_lib \<Rightarrow> string \<Rightarrow> string option \<Rightarrow> auth_store \<Rightarrow> auth_store" where
  "store_handleStorageEvent K J key newValue s =
     (if key \<notin> {TOKEN_KEY K, USER_KEY K, ''token'', ''user'', ''auth_state_timestamp''} then s
      else if (key = TOKEN_KEY K \<or> key = ''token'') \<and> \<not> truthy newValue then store_logout K s
      else
        let newToken = coalesce (getItem (s_storage s) (TOKEN_KEY K)) (getItem (s_storage s) ''token'')
        in if newToken = s_token s then s
           else
             let userJson = or_else (getItem (s_storage s) (USER_KEY K)) (getItem (s_storage s) ''user'');
                 s = s\<lparr>s_token := newToken, s_user := (if truthy userJson then parse_user J userJson else JNull)\<rparr>
             in if truthy (s_token s) then store_startAuthCheck s else store_stopAuthCheck s)"

text \<open>
  The events of the store: its operations, the answers to its requests, the ticks of its interval, and the
  other tabs, which change the storage under it and make the browser send a storage event.
  \<open>main.ts\<close> calls \<open>initAuth\<close> a second time in the turn in which the set-up of the store called it: the
  storage still holds the token that the store read. Either call may resume much later, when its
  profile has come.
\<close>

inductive store_step :: "auth_keys \<Rightarrow> json_lib \<Rightarrow> auth_store \<Rightarrow> auth_store \<Rightarrow> bool" for K J where
  login: "store_step K J s (snd (store_login K J outcome s))"
| register: "store_step K J s (snd (store_register K J outcome s))"
| logout: "store_step K J s (store_logout K s)"
| answer: "store_step K J s (snd (validate_answer K valid s))"
| profile: "store_step K J s (snd (store_fetchProfile K J prof s))"
| other_tab: "store_step K J s (s\<lparr>s_storage := ls\<rparr>)"
| storage_event: "store_step K J s (store_handleStorageEvent K J key v s)"
| tick: "s_interval s \<Longrightarrow> store_step K J s (validate_request s)"
| second_init: "getItem (s_storage s) (TOKEN_KEY K) = s_token s \<Longrightarrow> store_step K J s (init_read K J s)"
| init_resumes: "store_step K J s (init_resume s)"
| late_profile: "store_step K J s (snd (profile_answer K J prof s))"

section \<open>The router\<close>

record route_meta =
  requiresAuth :: bool
  requiresGuest :: bool

datatype page = Login | Register | Logout | ProfilePage | ValidateTokenPage | NotFound

datatype resolved = Page page | Redirect string

text \<open>
  The path of an address, without its query and fragment, matches as vue-router documents for its default
  options: letters match in either case, and one slash may follow. The first matching route counts.
\<close>

definition strip_slash :: "string \<Rightarrow> string" where
  "strip_slash path = (if path \<noteq> [] \<and> last path = CHR ''/'' then butlast path else path)"

definition route_matches :: "string \<Rightarrow> string \<Rightarrow> bool" where
  "route_matches route path \<longleftrightarrow> map to_lower (strip_slash path) = strip_slash route"

definition match_route :: "string \<Rightarrow> resolved" where
  "match_route path =
     (if route_matches ''/'' path then Redirect ''/login''
      else if route_matches ''/login'' path then Page Login
      else if route_matches ''/register'' path then Page Register
      else if route_matches ''/logout'' path then Page Logout
      else if route_matches ''/profile'' path then Page ProfilePage
      else if route_matches ''/api/validate-token'' path then Page ValidateTokenPage
      else Page NotFound)"

definition page_meta :: "page \<Rightarrow> route_meta" where
  "page_meta p = \<lparr>requiresAuth = (p = ProfilePage), requiresGuest = (p = Login \<or> p = Register)\<rparr>"

definition page_path :: "page \<Rightarrow> string" where
  "page_path p = (if p = Login then ''/login'' else ''/profile'')"

text \<open>\<open>router.beforeEach\<close>: the page the visitor is sent to instead, if any.\<close>

definition beforeEach :: "bool \<Rightarrow> string \<Rightarrow> page \<Rightarrow> page option" where
  "beforeEach auth path p =
     (if startsWith path ''/api/'' then None
      else if requiresAuth (page_meta p) \<and> \<not> auth then Some Login
      else if requiresGuest (page_meta p) \<and> auth then Some ProfilePage
      else None)"

text \<open>Navigation with at most \<open>n\<close> redirections; \<open>None\<close> when they are not enough.\<close>

fun visit :: "nat \<Rightarrow> bool \<Rightarrow> string \<Rightarrow> page option" where
  "visit 0 auth path = None"
| "visit (Suc n) auth path =
     (case match_route path of
        Redirect to \<Rightarrow> visit n auth to
      | Page p \<Rightarrow> (case beforeEach auth path p of None \<Rightarrow> Some p | Some q \<Rightarrow> visit n auth (page_path q)))"

section \<open>Messages to the embedding window\<close>

datatype MessageType = AUTH_SUCCESS | AUTH_ERROR | AUTH_LOGOUT | REGISTRATION_SUCCESS | REGISTRATION_ERROR
  | AUTH_STATUS_AUTHENTICATED | AUTH_STATUS_UNAUTHENTICATED

fun message_name :: "MessageType \<Rightarrow> string" where
  "message_name AUTH_SUCCESS = ''AUTH_SUCCESS''"
| "message_name AUTH_ERROR = ''AUTH_ERROR''"
| "message_name AUTH_LOGOUT = ''AUTH_LOGOUT''"
| "message_name REGISTRATION_SUCCESS = ''REGISTRATION_SUCCESS''"
| "message_name REGISTRATION_ERROR = ''REGISTRATION_ERROR''"
| "message_name AUTH_STATUS_AUTHENTICATED = ''AUTH_STATUS_AUTHENTICATED''"
| "message_name AUTH_STATUS_UNAUTHENTICATED = ''AUTH_STATUS_UNAUTHENTICATED''"

text \<open>\<open>window.parent.postMessage(data, "*")\<close>, when there is a parent: the target origin and the data.\<close>

definition sendMessage :: "bool \<Rightarrow> jsval \<Rightarrow> (string \<times> jsval) list" where
  "sendMessage has_parent data = (if has_parent then [(''*'', data)] else [])"

definition public_user :: "jsval \<Rightarrow> jsval" where
  "public_user user = JObj (map (\<lambda>k. (k, optional_get user k)) [''id'', ''email'', ''name''])"

definition session_message :: "MessageType \<Rightarrow> jsval \<Rightarrow> string \<Rightarrow> jsval" where
  "session_message ty user access_token =
     JObj [(''type'', JStr (message_name ty)), (''user'', public_user user), (''access_token'', JStr access_token)]"

definition sendAuthSuccess :: "bool \<Rightarrow> jsval \<Rightarrow> string \<Rightarrow> (string \<times> jsval) list" where
  "sendAuthSuccess has_parent user access_token =
     sendMessage has_parent (session_message AUTH_SUCCESS user access_token) @
     sendMessage has_parent (session_message AUTH_STATUS_AUTHENTICATED user access_token)"

definition sendRegistrationSuccess :: "bool \<Rightarrow> jsval \<Rightarrow> string \<Rightarrow> (string \<times> jsval) list" where
  "sendRegistrationSuccess has_parent user access_token =
     sendMessage has_parent (session_message REGISTRATION_SUCCESS user access_token) @
     sendMessage has_parent (session_message AUTH_STATUS_AUTHENTICATED user access_token)"

definition error_message :: "MessageType \<Rightarrow> string \<Rightarrow> jsval" where
  "error_message ty m = JObj [(''type'', JStr (message_name ty)), (''message'', JStr m)]"

definition sendAuthError :: "bool \<Rightarrow> string \<Rightarrow> (string \<times> jsval) list" where
  "sendAuthError has_parent m = sendMessage has_parent (error_message AUTH_ERROR m)"

definition sendRegistrationError :: "bool \<Rightarrow> string \<Rightarrow> (string \<times> jsval) list" where
  "sendRegistrationError has_parent m = sendMessage has_parent (error_message REGISTRATION_ERROR m)"

definition sendLogout :: "bool \<Rightarrow> (string \<times> jsval) list" where
  "sendLogout has_parent =
     sendMessage has_parent (JObj [(''type'', JStr (message_name AUTH_LOGOUT))]) @
     sendMessage has_parent (JObj [(''type'', JStr (message_name AUTH_STATUS_UNAUTHENTICATED))])"

definition sendAuthStatus :: "bool \<Rightarrow> bool \<Rightarrow> jsval \<Rightarrow> jsval \<Rightarrow> (string \<times> jsval) list" where
  "sendAuthStatus has_parent auth user access_token =
     sendMessage has_parent (JObj [
       (''type'', JStr (message_name (if auth then AUTH_STATUS_AUTHENTICATED else AUTH_STATUS_UNAUTHENTICATED))),
       (''user'', if auth \<and> js_truthy user then public_user user else JUndef),
       (''access_token'', access_token)])"

section \<open>Lemmas\<close>

text \<open>The periodic check runs only while there is a token, and no operation leaves the store loading.\<close>

definition store_inv :: "auth_store \<Rightarrow> bool" where
  "store_inv s \<longleftrightarrow> \<not> s_loading s \<and> (s_interval s \<longrightarrow> truthy (s_token s)) \<and>
     [] \<notin> set (validations s) \<and> [] \<notin> set (logouts s)"

lemma startAuthCheck_fields [simp]:
  "s_token (store_startAuthCheck s) = s_token s" "s_user (store_startAuthCheck s) = s_user s"
  "s_loading (store_startAuthCheck s) = s_loading s" "s_error (store_startAuthCheck s) = s_error s"
  "s_interval (store_startAuthCheck s)" "s_storage (store_startAuthCheck s) = s_storage s"
  "logouts (store_startAuthCheck s) = logouts s"
  "[] \<in> set (validations (store_startAuthCheck s)) \<longleftrightarrow> [] \<in> set (validations s)"
  by (simp_all add: store_startAuthCheck_def validate_request_def split: option.split)

lemma logout_fields [simp]:
  "s_token (store_logout K s) = None" "s_user (store_logout K s) = JNull" "s_loading (store_logout K s) = s_loading s"
  "\<not> s_interval (store_logout K s)" "validations (store_logout K s) = validations s"
  "s_storage (store_logout K s) = (s_storage s)(TOKEN_KEY K := None, USER_KEY K := None)"
  "logouts (store_logout K s) = logouts s @ (case s_token s of None \<Rightarrow> [] | Some t \<Rightarrow> if t = [] then [] else [t])"
  by (simp_all add: store_logout_def store_stopAuthCheck_def Let_def split: option.split)

lemma logout_inv: "store_inv s \<Longrightarrow> store_inv (store_logout K s)"
  by (auto simp: store_inv_def split: option.splits if_splits)

lemma authenticate_inv: "store_inv s \<Longrightarrow> store_inv (snd (authenticate known fallback K J outcome s))"
  by (auto simp: store_inv_def authenticate_def accept_session_def Let_def truthy_def split: sum.split)

lemma start_inv: "truthy (s_token s) \<Longrightarrow> store_inv (s\<lparr>s_interval := False\<rparr>) \<Longrightarrow> store_inv (store_startAuthCheck s)"
  by (simp add: store_inv_def)

lemma stop_inv: "store_inv (s\<lparr>s_interval := False\<rparr>) \<Longrightarrow> store_inv (store_stopAuthCheck s)"
  by (simp add: store_stopAuthCheck_def)

lemma storage_event_inv:
  assumes "store_inv s"
  shows "store_inv (store_handleStorageEvent K J key v s)"
proof -
  have "store_inv (s\<lparr>s_token := t, s_user := u, s_interval := False\<rparr>)" for t u
    using assms by (simp add: store_inv_def)
  then show ?thesis
    using assms logout_inv [OF assms, of K]
    by (simp add: store_handleStorageEvent_def Let_def start_inv stop_inv)
qed

lemma create_inv: "store_create K J ls = Inr s \<Longrightarrow> store_inv s \<and> \<not> s_interval s"
  by (auto simp: store_create_def store_inv_def split: option.splits)

lemma resume_inv: "store_inv s \<Longrightarrow> store_inv (init_resume s)"
  by (auto simp: init_resume_def store_inv_def store_isAuthenticated_def)

lemma profile_inv: "store_inv s \<Longrightarrow> store_inv (snd (profile_answer K J outcome s))"
  by (auto simp: profile_answer_def store_inv_def split: sum.split)

lemma read_inv: "store_inv s \<Longrightarrow> s_interval s \<longrightarrow> getItem (s_storage s) (TOKEN_KEY K) = s_token s \<Longrightarrow> store_inv (init_read K J s)"
  by (auto simp: init_read_def store_inv_def)

lemma init_inv:
  assumes "store_inv s" "\<not> s_interval s"
  shows "store_inv (store_initAuth K J outcome s)"
  using assms by (simp add: store_initAuth_def store_fetchProfile_def Let_def read_inv profile_inv resume_inv)

lemma store_inv_step: "store_step K J s s' \<Longrightarrow> store_inv s \<Longrightarrow> store_inv s'"
proof (induction rule: store_step.induct)
  case (answer s valid)
  then show ?case by (auto simp: validate_answer_def logout_inv split: sum.split)
next
  case (tick s)
  then show ?case by (auto simp: validate_request_def store_inv_def truthy_def split: option.split)
qed (simp_all add: store_login_def store_register_def authenticate_inv logout_inv storage_event_inv store_fetchProfile_def
    read_inv resume_inv profile_inv, simp add: store_inv_def)

lemma store_inv_steps: "(store_step K J)\<^sup>*\<^sup>* s s' \<Longrightarrow> store_inv s \<Longrightarrow> store_inv s'"
  by (induction rule: rtranclp_induct) (auto intro: store_inv_step)

text \<open>The addresses below \<open>/api/\<close>, which the guard of the router lets pass, belong to no other page.\<close>

lemma strip_slash_simps [simp]:
  "strip_slash ''/'' = []" "strip_slash ''/login'' = ''/login''" "strip_slash ''/register'' = ''/register''"
  "strip_slash ''/logout'' = ''/logout''" "strip_slash ''/profile'' = ''/profile''"
  "strip_slash ''/api/validate-token'' = ''/api/validate-token''"
  by (simp_all add: strip_slash_def)

lemma page_routes [simp]:
  "match_route ''/login'' = Page Login" "match_route ''/profile'' = Page ProfilePage"
  by (simp_all add: match_route_def route_matches_def to_lower_def is_upper_def)

lemma api_routes: "startsWith path ''/api/'' \<Longrightarrow> match_route path \<in> {Page ValidateTokenPage, Page NotFound}"
proof -
  assume "startsWith path ''/api/''"
  then obtain rest where p: "path = ''/api/'' @ rest" by (auto simp: startsWith_iff)
  have "\<exists>r. strip_slash path = ''/api'' @ r"
    by (cases rest rule: rev_cases) (auto simp: strip_slash_def p butlast_append)
  then show ?thesis by (auto simp: match_route_def route_matches_def to_lower_def is_upper_def)
qed

section \<open>Properties\<close>

definition demo_keys :: auth_keys where
  "demo_keys = \<lparr>TOKEN_KEY = ''auth_token'', USER_KEY = ''auth_user''\<rparr>"

definition demo_json :: json_lib where
  "demo_json = \<lparr>parse = (\<lambda>s. if s = ''null'' then Some JNull else None), stringify = (\<lambda>v. ''{}'')\<rparr>"

definition empty_store :: auth_store where
  "empty_store = \<lparr>s_token = None, s_user = JNull, s_loading = False, s_error = None, s_interval = False,
     s_storage = Map.empty, validations = [], logouts = []\<rparr>"

text \<open>
  C39: From the creation of the store on, whatever the storage held, whatever the API answers and whatever
  the other tabs do, no operation leaves the store loading, the periodic check of the token
  runs only while there is a token, and the store never asks the gateway to validate or
  invalidate an empty one.
\<close>

theorem store_checks_only_tokens:
  assumes "store_create K J ls = Inr r" "(store_step K J)\<^sup>*\<^sup>* (store_initAuth K J outcome r) s"
  shows "\<not> s_loading s \<and> (s_interval s \<longrightarrow> truthy (s_token s)) \<and> [] \<notin> set (validations s) \<and> [] \<notin> set (logouts s)"
  using store_inv_steps [OF assms(2)] create_inv [OF assms(1)] init_inv by (simp add: store_inv_def)

theorem store_checks_only_tokens_witness:
  "\<not> s_interval (store_logout demo_keys (store_initAuth demo_keys demo_json (Inl (JsError [])) empty_store))"
proof -
  have c: "store_create demo_keys demo_json Map.empty = Inr empty_store"
    by (simp add: store_create_def demo_json_def empty_store_def)
  show ?thesis
    using store_checks_only_tokens [OF c, OF r_into_rtranclp, OF store_step.logout] by (simp add: truthy_def)
qed

text \<open>
  The outcome of a login: an answer with a token and a user opens the session, in memory and in
  the storage, and starts the periodic check; any other answer and any failure leaves session
  and storage as they were, throws, and shows the message of the API or the default one. In
  both cases the store is no longer loading.
\<close>

theorem store_login_spec:
  assumes "TOKEN_KEY K \<noteq> USER_KEY K"
  shows "case outcome of
      Inr d \<Rightarrow>
        if truthy (d_access_token d) \<and> js_truthy (d_user d)
        then (\<exists>s'. store_login K J outcome s = (Inr d, s') \<and> store_isAuthenticated s' \<and>
           s_storage s' (TOKEN_KEY K) = d_access_token d \<and> s_storage s' (USER_KEY K) = Some (stringify J (d_user d)) \<and>
           s_interval s' \<and> s_error s' = None \<and> \<not> s_loading s' \<and> logouts s' = logouts s)
        else store_login K J outcome s =
          (Inl (JsError ''Failed to login''), s\<lparr>s_loading := False, s_error := Some ''Failed to login''\<rparr>)
    | Inl err \<Rightarrow>
        (let m = (if err_message err = ''Invalid credentials'' then ''Invalid credentials''
                  else case err_response_message err of Some m \<Rightarrow> if m = [] then ''Failed to login'' else m | None \<Rightarrow> ''Failed to login'')
         in store_login K J outcome s = (Inl (JsError m), s\<lparr>s_loading := False, s_error := Some m\<rparr>))"
proof (cases outcome)
  case (Inl err)
  then show ?thesis by (simp add: store_login_def authenticate_def error_text_def Let_def)
next
  case (Inr d)
  show ?thesis
  proof (cases "truthy (d_access_token d) \<and> js_truthy (d_user d)")
    case True
    then obtain t where "d_access_token d = Some t" "t \<noteq> []" by (auto elim: truthyE)
    with True Inr assms show ?thesis
      by (simp add: store_login_def authenticate_def accept_session_def store_isAuthenticated_def Let_def)
  next
    case False
    with Inr show ?thesis by (auto simp: store_login_def authenticate_def error_text_def Let_def)
  qed
qed

theorem store_login_spec_witness:
  "\<exists>s'. store_login demo_keys demo_json (Inr \<lparr>d_access_token = Some ''t'', d_user = JObj []\<rparr>) empty_store =
     (Inr \<lparr>d_access_token = Some ''t'', d_user = JObj []\<rparr>, s') \<and> store_isAuthenticated s'"
  using store_login_spec [of demo_keys demo_json "Inr \<lparr>d_access_token = Some ''t'', d_user = JObj []\<rparr>" empty_store]
  by (auto simp: demo_keys_def)

text \<open>
  C40: Navigation in the authentication interface ends after at most two redirections, for every
  address and every visitor. The visitor sees the page of the address, in whatever letters it is written and
  with or without a slash at its end, but without a session the login page instead of
  the profile, and with one the profile instead of the login and registration pages and of the root.
\<close>

theorem router_settles:
  "visit 3 auth path = Some
     (case match_route path of
        Redirect to \<Rightarrow> if auth then ProfilePage else Login
      | Page p \<Rightarrow>
          if p = ProfilePage \<and> \<not> auth then Login
          else if p \<in> {Login, Register} \<and> auth then ProfilePage
          else p)"
proof -
  have start: "startsWith ''/login'' ''/api/'' = False" "startsWith ''/profile'' ''/api/'' = False"
    by (simp_all add: startsWith_def)
  have redirect: "to = ''/login''" if "match_route path = Redirect to" for to
    using that by (auto simp: match_route_def split: if_splits)
  note v = numeral_3_eq_3 beforeEach_def page_meta_def page_path_def start
  show ?thesis
  proof (cases "startsWith path ''/api/''")
    case True
    then show ?thesis using api_routes [OF True] by (auto simp: v)
  next
    case False
    then show ?thesis by (cases "match_route path") (auto simp: v dest: redirect)
  qed
qed

theorem router_settles_witness:
  "visit 3 False ''/Profile/'' = Some Login \<and> visit 3 True ''/'' = Some ProfilePage"
  using router_settles [of False "''/Profile/''"] router_settles [of True "''/''"]
  by (simp add: match_route_def route_matches_def strip_slash_def to_lower_def is_upper_def, code_simp)

end
