(* ===== verification/Notification.thy ===== *)
theory Notification
  imports JS_Value
begin

text \<open>
  The notification service: \<open>notification-service/src/services/notificationService.ts\<close> and the routes of
  \<open>main.ts\<close> that call it. The body of a request is any JSON value (\<open>body as any\<close>). The random id
  and the time stamp are arguments.
\<close>

section \<open>The service\<close>

record notification_state =
  notifications :: "jsval list"
  notificationsCounter :: "jsval list"

text \<open>The properties that \<open>...dto\<close> adds: an array gives its elements under their indices, other values
  none.\<close>

fun spread_props :: "jsval \<Rightarrow> (string \<times> jsval) list" where
  "spread_props (JObj ps) = ps"
| "spread_props (JArr xs ps) = zip (map index_string [0..<length xs]) xs @ ps"
| "spread_props (JStr s) = zip (map index_string [0..<length s]) (map (\<lambda>c. JStr [c]) s)"
| "spread_props v = []"

definition put_all :: "(string \<times> jsval) list \<Rightarrow> (string \<times> jsval) list \<Rightarrow> (string \<times> jsval) list" where
  "put_all base ps = foldl (\<lambda>obj p. props_put obj (fst p) (snd p)) base ps"

definition new_notification :: "string \<Rightarrow> string \<Rightarrow> jsval \<Rightarrow> jsval" where
  "new_notification uuid now dto =
     JObj (props_put (put_all [(''id'', JStr uuid)] (spread_props dto)) ''createdAt'' (JStr now))"

text \<open>The notification is stored before the type of the body is read for the counter.\<close>

definition createNotification :: "string \<Rightarrow> string \<Rightarrow> jsval \<Rightarrow> notification_state \<Rightarrow> jsval js \<times> notification_state" where
  "createNotification uuid now dto s =
     (let n = new_notification uuid now dto;
          s = s\<lparr>notifications := notifications s @ [n]\<rparr>
      in case js_get dto ''type'' of
           Inl e \<Rightarrow> (Inl e, s)
         | Inr ty \<Rightarrow> (Inr n, s\<lparr>notificationsCounter := notificationsCounter s @ [ty]\<rparr>))"

definition field_is :: "string \<Rightarrow> string \<Rightarrow> jsval \<Rightarrow> bool" where
  "field_is k v n \<longleftrightarrow> js_get n k = Inr (JStr v)"

definition getNotifications :: "string \<Rightarrow> string option \<Rightarrow> notification_state \<Rightarrow> jsval list" where
  "getNotifications tenantId userId s =
     filter (\<lambda>n. field_is ''tenantId'' tenantId n \<and> (\<not> truthy userId \<or> field_is ''userId'' (the userId) n)) (notifications s)"

fun findIndex :: "('a \<Rightarrow> bool) \<Rightarrow> 'a list \<Rightarrow> nat option" where
  "findIndex P [] = None"
| "findIndex P (x # xs) = (if P x then Some 0 else map_option Suc (findIndex P xs))"

definition deleteNotification :: "string \<Rightarrow> string \<Rightarrow> notification_state \<Rightarrow> bool \<times> notification_state" where
  "deleteNotification i tenantId s =
     (case findIndex (\<lambda>n. field_is ''id'' i n \<and> field_is ''tenantId'' tenantId n) (notifications s) of
        None \<Rightarrow> (False, s)
      | Some k \<Rightarrow> (True, s\<lparr>notifications := take k (notifications s) @ drop (Suc k) (notifications s)\<rparr>))"

section \<open>Requests\<close>

datatype notification_request =
    PostNotification string string jsval
  | DeleteNotification string string

fun serve_notification :: "notification_request \<Rightarrow> notification_state \<Rightarrow> notification_state" where
  "serve_notification (PostNotification uuid now body) s = snd (createNotification uuid now body s)"
| "serve_notification (DeleteNotification i tenantId) s = snd (deleteNotification i tenantId s)"

text \<open>The tenant a request is about.\<close>

fun request_tenant :: "notification_request \<Rightarrow> jsval" where
  "request_tenant (PostNotification uuid now body) = prop_lookup (put_all [] (spread_props body)) ''tenantId''"
| "request_tenant (DeleteNotification i tenantId) = JStr tenantId"

section \<open>Lemmas\<close>

lemma put_all_append: "put_all base (ps @ qs) = put_all (put_all base ps) qs"
  by (simp add: put_all_def)

lemma put_all_lookup:
  "prop_lookup (put_all base ps) k = (if k \<in> fst ` set ps then prop_lookup (put_all [] ps) k else prop_lookup base k)"
proof (induction ps rule: rev_induct)
  case Nil
  then show ?case by (simp add: put_all_def)
next
  case (snoc p ps)
  then show ?case by (auto simp: put_all_append put_all_def)
qed

lemma new_notification_field:
  "k \<noteq> ''createdAt'' \<Longrightarrow> js_get (new_notification uuid now dto) k =
     Inr (if k \<in> fst ` set (spread_props dto) then prop_lookup (put_all [] (spread_props dto)) k
          else if k = ''id'' then JStr uuid else JUndef)"
  by (simp add: new_notification_def put_all_lookup [of "[_]"])

lemma new_notification_tenant:
  "field_is ''tenantId'' t (new_notification uuid now body) \<longleftrightarrow> request_tenant (PostNotification uuid now body) = JStr t"
  using put_all_lookup [of "[]" "spread_props body" "''tenantId''"]
  by (auto simp: field_is_def new_notification_field)

lemma findIndex_Some:
  "findIndex P xs = Some k \<Longrightarrow>
   \<exists>ys x zs. xs = ys @ x # zs \<and> take k xs @ drop (Suc k) xs = ys @ zs \<and> P x \<and> (\<forall>y \<in> set ys. \<not> P y)"
proof (induction xs arbitrary: k)
  case (Cons x xs)
  show ?case
  proof (cases "P x")
    case True
    with Cons.prems show ?thesis by (intro exI [of _ "[]"] exI [of _ x] exI [of _ xs]) auto
  next
    case False
    with Cons.prems obtain j where j: "k = Suc j" "findIndex P xs = Some j" by auto
    then obtain ys y zs where "xs = ys @ y # zs" "take j xs @ drop (Suc j) xs = ys @ zs" "P y" "\<forall>y \<in> set ys. \<not> P y"
      using Cons.IH by blast
    with False j show ?thesis by (intro exI [of _ "x # ys"] exI [of _ y] exI [of _ zs]) auto
  qed
qed simp

lemma findIndex_None: "findIndex P xs = None \<longleftrightarrow> (\<forall>x \<in> set xs. \<not> P x)"
  by (induction xs) auto

lemma other_tenant:
  assumes "request_tenant q \<noteq> JStr t"
  shows "getNotifications t u (serve_notification q s) = getNotifications t u s"
proof (cases q)
  case (PostNotification uuid now body)
  then have "\<not> field_is ''tenantId'' t (new_notification uuid now body)"
    using assms new_notification_tenant by simp
  with PostNotification show ?thesis
    by (simp add: createNotification_def getNotifications_def Let_def split: sum.split)
next
  case (DeleteNotification i tenantId)
  show ?thesis
  proof (cases "findIndex (\<lambda>n. field_is ''id'' i n \<and> field_is ''tenantId'' tenantId n) (notifications s)")
    case None
    with DeleteNotification show ?thesis by (simp add: deleteNotification_def)
  next
    case (Some k)
    obtain ys n zs where n: "notifications s = ys @ n # zs"
      "take k (notifications s) @ drop (Suc k) (notifications s) = ys @ zs" "field_is ''tenantId'' tenantId n"
      using findIndex_Some [OF Some] by blast
    then have "\<not> field_is ''tenantId'' t n" using assms DeleteNotification by (auto simp: field_is_def)
    then have "getNotifications t u (s\<lparr>notifications := ys @ zs\<rparr>) = getNotifications t u s"
      using n(1) by (simp add: getNotifications_def)
    with Some n(2) DeleteNotification show ?thesis by (simp add: deleteNotification_def)
  qed
qed

section \<open>Properties\<close>

text \<open>
  C14: Tenants are isolated: any sequence of requests for other tenants leaves what a tenant is shown
  unchanged. A deletion answers \<open>true\<close> exactly when the tenant has a notification with that id, and
  then removes the oldest one and nothing else.
\<close>

theorem tenants_are_isolated:
  assumes "\<forall>q \<in> set qs. request_tenant q \<noteq> JStr t"
  shows "getNotifications t u (fold serve_notification qs s) = getNotifications t u s \<and>
    (case deleteNotification i t s of
       (False, s') \<Rightarrow> s' = s \<and> (\<forall>n \<in> set (getNotifications t None s). \<not> field_is ''id'' i n)
     | (True, s') \<Rightarrow> \<exists>xs n ys. notifications s = xs @ n # ys \<and> notifications s' = xs @ ys \<and> field_is ''id'' i n \<and>
         field_is ''tenantId'' t n \<and> (\<forall>m \<in> set xs. \<not> (field_is ''id'' i m \<and> field_is ''tenantId'' t m)))"
proof
  show "getNotifications t u (fold serve_notification qs s) = getNotifications t u s"
    using assms by (induction qs arbitrary: s) (simp_all add: other_tenant)
  let ?P = "\<lambda>n. field_is ''id'' i n \<and> field_is ''tenantId'' t n"
  show "case deleteNotification i t s of
       (False, s') \<Rightarrow> s' = s \<and> (\<forall>n \<in> set (getNotifications t None s). \<not> field_is ''id'' i n)
     | (True, s') \<Rightarrow> \<exists>xs n ys. notifications s = xs @ n # ys \<and> notifications s' = xs @ ys \<and> field_is ''id'' i n \<and>
         field_is ''tenantId'' t n \<and> (\<forall>m \<in> set xs. \<not> (field_is ''id'' i m \<and> field_is ''tenantId'' t m))"
  proof (cases "findIndex ?P (notifications s)")
    case None
    then have "\<forall>n \<in> set (notifications s). \<not> ?P n" by (simp only: findIndex_None)
    with None show ?thesis by (auto simp: deleteNotification_def getNotifications_def)
  next
    case (Some k)
    then show ?thesis using findIndex_Some [OF Some] by (simp add: deleteNotification_def)
  qed
qed

theorem tenants_are_isolated_witness:
  "getNotifications ''a'' None (fold serve_notification
     [PostNotification ''u1'' ''now'' (JObj [(''tenantId'', JStr ''b''), (''type'', JStr ''INFO'')]), DeleteNotification ''u1'' ''b'']
     \<lparr>notifications = [], notificationsCounter = []\<rparr>) = []"
  using tenants_are_isolated [of "[PostNotification ''u1'' ''now'' (JObj [(''tenantId'', JStr ''b''), (''type'', JStr ''INFO'')]),
      DeleteNotification ''u1'' ''b'']" "''a''" None "\<lparr>notifications = [], notificationsCounter = []\<rparr>" "''x''"]
  by (simp add: put_all_def) (simp add: getNotifications_def)

end
