(* ===== verification/Backoffice_Config.thy ===== *)
theory Backoffice_Config
  imports Time_Series Dashboard_Client Notification
begin

text \<open>
  What the backoffice of the dashboard is configured with
  (\<open>frontend-dashboard/src/backoffice/core/builders/BackofficeBuilder.ts\<close>): the columns of a list, the fields of
  a form, the sections of a detail page, and the rendering and validation functions that
  \<open>BackofficeDirector.tsx\<close> puts into them. A React node is a tree of elements over JavaScript values.
  The locale of the browser, its clock and its time zone are fields of \<open>ui_lib\<close>.
\<close>

section \<open>React nodes\<close>

datatype node =
    NVal jsval
  | NElem string string "node list"
  | NComp string "(string \<times> jsval) list"

abbreviation ntext :: "string \<Rightarrow> node" where
  "ntext s \<equiv> NVal (JStr s)"

abbreviation span :: "string \<Rightarrow> node list \<Rightarrow> node" where
  "span c ns \<equiv> NElem ''span'' c ns"

record ui_lib =
  u_env :: js_env
  u_dates :: date_lib
  u_browser :: browser_lib
  toLocaleString :: "jsnum \<Rightarrow> string"
  toLocaleDateString :: "jsnum \<Rightarrow> string"
  toLocaleTimeString :: "jsnum \<Rightarrow> string"
  local_midnight :: "jsnum \<Rightarrow> jsnum"
  next_day :: "jsnum \<Rightarrow> jsnum"

section \<open>JavaScript: comparison, white space, fixed decimals\<close>

fun str_less :: "string \<Rightarrow> string \<Rightarrow> bool" where
  "str_less s [] = False"
| "str_less [] (d # t) = True"
| "str_less (c # s) (d # t) =
     ((of_char c :: nat) < of_char d \<or> c = d \<and> str_less s t)"

text \<open>\<open>a < b\<close>: two strings compare by their code units, anything else as numbers.\<close>

fun less_primitive :: "js_env \<Rightarrow> jsval \<Rightarrow> jsval \<Rightarrow> bool js" where
  "less_primitive E (JStr s) (JStr t) = Inr (str_less s t)"
| "less_primitive E p q = js_bind (js_toNumber E p) (\<lambda>x. js_bind (js_toNumber E q) (\<lambda>y. Inr (num_lt x y)))"

definition js_less :: "js_env \<Rightarrow> jsval \<Rightarrow> jsval \<Rightarrow> bool js" where
  "js_less E a b = js_bind (js_toPrimitive E a) (\<lambda>p. js_bind (js_toPrimitive E b) (\<lambda>q. less_primitive E p q))"

text \<open>The characters of \<open>\s\<close> among the first 256.\<close>

definition is_space :: "char \<Rightarrow> bool" where
  "is_space c \<longleftrightarrow> (of_char c :: nat) \<in> {9, 10, 11, 12, 13, 32, 160}"

definition trim :: "string \<Rightarrow> string" where
  "trim s = rev (dropWhile is_space (rev (dropWhile is_space s)))"

text \<open>\<open>x.toFixed(2)\<close>: the larger of the two nearest hundredths on a tie.\<close>

definition hundredths :: "nat \<Rightarrow> string" where
  "hundredths n = index_string (n div 100) @ ''.'' @ index_string (n mod 100 div 10) @ index_string (n mod 10)"

fun toFixed2 :: "js_env \<Rightarrow> jsnum \<Rightarrow> string" where
  "toFixed2 E (Fin x) =
     (if 10 ^ 21 \<le> \<bar>x\<bar> then numToString E (Fin x)
      else (if x < 0 then ''-'' else []) @ hundredths (nat \<lfloor>\<bar>x\<bar> * 100 + 1 / 2\<rfloor>))"
| "toFixed2 E NaN = ''NaN''"
| "toFixed2 E PosInf = ''Infinity''"
| "toFixed2 E NegInf = ''-Infinity''"

text \<open>\<open>x.toFixed(d)\<close>, the larger of the two nearest decimals on a tie.\<close>

definition fixed_digits :: "nat \<Rightarrow> nat \<Rightarrow> string" where
  "fixed_digits d n =
     index_string (n div 10 ^ d) @ (if d = 0 then [] else ''.'' @ concat (map (\<lambda>i. index_string (n div 10 ^ i mod 10)) (rev [0..<d])))"

fun toFixed :: "js_env \<Rightarrow> nat \<Rightarrow> jsnum \<Rightarrow> string" where
  "toFixed E d (Fin x) =
     (if 10 ^ 21 \<le> \<bar>x\<bar> then numToString E (Fin x)
      else (if x < 0 then ''-'' else []) @ fixed_digits d (nat \<lfloor>\<bar>x\<bar> * 10 ^ d + 1 / 2\<rfloor>))"
| "toFixed E d NaN = ''NaN''"
| "toFixed E d PosInf = ''Infinity''"
| "toFixed E d NegInf = ''-Infinity''"

text \<open>A method call on a value that is not a number fails.\<close>

fun val_toFixed2 :: "js_env \<Rightarrow> jsval \<Rightarrow> string js" where
  "val_toFixed2 E (JNum n) = Inr (toFixed2 E n)"
| "val_toFixed2 E v = Inl TypeError"

definition val_parseFloat :: "js_env \<Rightarrow> jsval \<Rightarrow> jsnum js" where
  "val_parseFloat E v = js_bind (js_toString E v) (\<lambda>s. Inr (parseFloat E s))"

text \<open>\<open>typeof v === "string" ? parseFloat(v) : v\<close>\<close>

fun number_of_string :: "js_env \<Rightarrow> jsval \<Rightarrow> jsval" where
  "number_of_string E (JStr s) = JNum (parseFloat E s)"
| "number_of_string E v = v"

fun str_method :: "(string \<Rightarrow> 'a) \<Rightarrow> jsval \<Rightarrow> 'a js" where
  "str_method f (JStr s) = Inr (f s)"
| "str_method f v = Inl TypeError"

definition toLowerCase :: "string \<Rightarrow> string" where
  "toLowerCase s = map to_lower s"

definition toUpperCase :: "string \<Rightarrow> string" where
  "toUpperCase s = map to_upper s"

text \<open>\<open>v ?? d\<close>\<close>

definition nullish :: "jsval \<Rightarrow> jsval \<Rightarrow> jsval" where
  "nullish v d = (if v = JUndef \<or> v = JNull then d else v)"

definition get_str :: "js_env \<Rightarrow> jsval \<Rightarrow> string \<Rightarrow> string js" where
  "get_str E item k = js_bind (js_get item k) (js_toString E)"

section \<open>Configurations\<close>

datatype field_type =
    TText | TTextarea | TSelect | TNumber | TBoolean | TDate | TFile | TCustom | TAutocomplete

record autocomplete =
  ac_label :: string
  ac_queryKey :: string
  ac_endpoint :: string
  ac_placeholder :: string
  ac_option :: "jsval \<Rightarrow> jsval js"
  ac_fills_sku :: bool

datatype field_component =
    AutocompleteComponent autocomplete
  | AttributesComponent
  | OrderItemsField
  | ShippingInfoField
  | PaymentInfoField

record form_field =
  ff_name :: string
  ff_label :: string
  ff_type :: field_type
  ff_required :: bool
  ff_placeholder :: "string option"
  ff_helperText :: "string option"
  ff_hidden :: bool
  ff_validation :: "(jsval \<Rightarrow> string option js) option"
  ff_options :: "(string \<times> string) list option"
  ff_component :: "field_component option"

definition field :: "string \<Rightarrow> string \<Rightarrow> field_type \<Rightarrow> form_field" where
  "field name label type =
     \<lparr>ff_name = name, ff_label = label, ff_type = type, ff_required = False, ff_placeholder = None, ff_helperText = None,
      ff_hidden = False, ff_validation = None, ff_options = None, ff_component = None\<rparr>"

definition required_field :: "string \<Rightarrow> string \<Rightarrow> field_type \<Rightarrow> form_field" where
  "required_field name label type = (field name label type)\<lparr>ff_required := True\<rparr>"

definition select_field :: "string \<Rightarrow> string \<Rightarrow> (string \<times> string) list \<Rightarrow> form_field" where
  "select_field name label opts = (required_field name label TSelect)\<lparr>ff_options := Some opts\<rparr>"

record form_config =
  fc_fields :: "form_field list"
  fc_sections :: "(string \<times> string list) list option"

definition form :: "form_field list \<Rightarrow> form_config" where
  "form fs = \<lparr>fc_fields = fs, fc_sections = None\<rparr>"

record column =
  col_field :: string
  col_header :: string
  col_render :: "(jsval \<Rightarrow> jsval \<Rightarrow> node js) option"

definition col :: "string \<Rightarrow> string \<Rightarrow> column" where
  "col f h = \<lparr>col_field = f, col_header = h, col_render = None\<rparr>"

definition rcol :: "string \<Rightarrow> string \<Rightarrow> (jsval \<Rightarrow> jsval \<Rightarrow> node js) \<Rightarrow> column" where
  "rcol f h r = \<lparr>col_field = f, col_header = h, col_render = Some r\<rparr>"

datatype filter_type = FSelect | FText | FDate | FNumber | FBoolean

record filter_config =
  fl_field :: string
  fl_label :: string
  fl_type :: filter_type
  fl_options :: "(string \<times> string) list"

definition select_filter :: "string \<Rightarrow> string \<Rightarrow> (string \<times> string) list \<Rightarrow> filter_config" where
  "select_filter f l opts = \<lparr>fl_field = f, fl_label = l, fl_type = FSelect, fl_options = opts\<rparr>"

text \<open>The actions of the configurations only write to the console.\<close>

record item_action =
  ia_label :: string
  ia_permission :: string
  ia_action :: "jsval \<Rightarrow> (string \<times> jsval) list js"

record list_config =
  lc_columns :: "column list"
  lc_searchFields :: "string list"
  lc_filters :: "filter_config list"
  lc_actions :: "item_action list"

record related =
  re_title :: string
  re_entity :: string
  re_relationField :: string
  re_display :: "jsval \<Rightarrow> node js"

text \<open>A field of a detail page has the shape of a column, with its label as the header.\<close>

record detail_config =
  dc_sections :: "(string \<times> column list) list"
  dc_related :: "related list"

record nav_item =
  nav_label :: string
  nav_href :: string

section \<open>Validation and rendering functions\<close>

text \<open>
  \<open>/\S+@\S+\.\S+/.test(s)\<close> as a search: an at sign after a visible character, a dot two or more
  characters behind it with no white space between them, a visible character after the dot.
\<close>

definition email_at :: "string \<Rightarrow> nat \<Rightarrow> nat \<Rightarrow> bool" where
  "email_at s i j \<longleftrightarrow>
     s ! i = CHR ''@'' \<and> \<not> is_space (s ! (i - 1)) \<and> s ! j = CHR ''.'' \<and>
     list_all (\<lambda>k. \<not> is_space (s ! k)) [Suc i..<j] \<and> \<not> is_space (s ! Suc j)"

definition email_test :: "string \<Rightarrow> bool" where
  "email_test s \<longleftrightarrow> list_ex (\<lambda>i. list_ex (email_at s i) [i + 2..<length s - 1]) [1..<length s]"

definition validate_email :: "js_env \<Rightarrow> jsval \<Rightarrow> string option js" where
  "validate_email E value = js_bind (js_toString E value) (\<lambda>s.
     Inr (if \<not> email_test s then Some ''Invalid email address'' else None))"

definition validate_nonzero :: "js_env \<Rightarrow> jsval \<Rightarrow> string option js" where
  "validate_nonzero E value =
     (if \<not> js_truthy value then Inr (Some ''Quantity cannot be zero'')
      else js_bind (js_toNumber E value) (\<lambda>n. Inr (if n = Fin 0 then Some ''Quantity cannot be zero'' else None)))"

definition validate_at_least_one :: "js_env \<Rightarrow> jsval \<Rightarrow> string option js" where
  "validate_at_least_one E value =
     (if \<not> js_truthy value then Inr (Some ''Quantity must be at least 1'')
      else js_bind (js_toNumber E value) (\<lambda>n. Inr (if num_lt n (Fin 1) then Some ''Quantity must be at least 1'' else None)))"

section \<open>Properties\<close>

text \<open>
  The check of an e-mail address accepts exactly the strings that contain non-empty runs of visible
  characters around an at sign and a later dot, which is what \<open>/\S+@\S+\.\S+/\<close> describes.
\<close>

theorem email_test_matches_regex:
  "email_test s \<longleftrightarrow>
     (\<exists>pre p q r post. s = pre @ p @ ''@'' @ q @ ''.'' @ r @ post \<and> p \<noteq> [] \<and> q \<noteq> [] \<and> r \<noteq> [] \<and>
        list_all (\<lambda>c. \<not> is_space c) (p @ q @ r))"
proof
  assume "email_test s"
  then obtain i j where i: "1 \<le> i" and j: "i + 2 \<le> j" "j < length s - 1" and at: "email_at s i j"
    unfolding email_test_def list_ex_iff by auto
  let ?p = "[s ! (i - 1)]" and ?q = "take (j - Suc i) (drop (Suc i) s)" and ?r = "[s ! Suc j]"
  have "s = take (i - 1) s @ ?p @ ''@'' @ ?q @ ''.'' @ ?r @ drop (j + 2) s"
  proof -
    have "drop (Suc j) s = ?r @ drop (j + 2) s" using j by (simp add: Cons_nth_drop_Suc)
    moreover have "drop j s = s ! j # drop (Suc j) s" using j by (simp add: Cons_nth_drop_Suc)
    moreover have "drop (Suc i) s = ?q @ drop j s"
      using j by (metis Suc_le_lessD add_2_eq_Suc' append_take_drop_id drop_drop le_add_diff_inverse2 less_imp_le_nat less_Suc_eq_le Suc_leD)
    moreover have "drop i s = s ! i # drop (Suc i) s" using i j by (simp add: Cons_nth_drop_Suc)
    moreover have "drop (i - 1) s = ?p @ drop i s"
      using i j Cons_nth_drop_Suc [of "i - 1" s] by simp
    ultimately show ?thesis using at append_take_drop_id [of "i - 1" s] by (simp add: email_at_def)
  qed
  moreover have "?q \<noteq> []" using j by auto
  moreover have "list_all (\<lambda>c. \<not> is_space c) (?p @ ?q @ ?r)"
    using at j by (auto simp: email_at_def list_all_iff in_set_conv_nth)
  ultimately show "\<exists>pre p q r post. s = pre @ p @ ''@'' @ q @ ''.'' @ r @ post \<and> p \<noteq> [] \<and> q \<noteq> [] \<and> r \<noteq> [] \<and>
        list_all (\<lambda>c. \<not> is_space c) (p @ q @ r)"
    by blast
next
  assume "\<exists>pre p q r post. s = pre @ p @ ''@'' @ q @ ''.'' @ r @ post \<and> p \<noteq> [] \<and> q \<noteq> [] \<and> r \<noteq> [] \<and>
        list_all (\<lambda>c. \<not> is_space c) (p @ q @ r)"
  then obtain pre p q r post where s: "s = pre @ p @ ''@'' @ q @ ''.'' @ r @ post"
    and ne: "p \<noteq> []" "q \<noteq> []" "r \<noteq> []" and vis: "list_all (\<lambda>c. \<not> is_space c) (p @ q @ r)" by blast
  let ?i = "length pre + length p" and ?j = "length pre + length p + 1 + length q"
  have "s ! (?i - 1) \<in> set p" using ne(1) s by (cases p rule: rev_cases) (simp_all add: nth_append)
  moreover have "s ! Suc ?j \<in> set r" using ne(3) s by (cases r) (simp_all add: nth_append)
  moreover have "s ! k \<in> set q" if "Suc ?i \<le> k" "k < ?j" for k
  proof -
    have "s = (pre @ p @ ''@'') @ q @ ''.'' @ r @ post" using s by simp
    then have "s ! k = q ! (k - length (pre @ p @ ''@''))" using that by (simp only: nth_append) auto
    with that show ?thesis by simp
  qed
  moreover have "s ! ?i = CHR ''@''" "s ! ?j = CHR ''.''" using s by (simp_all add: nth_append)
  ultimately have "email_at s ?i ?j" using vis by (auto simp: email_at_def list_all_iff)
  moreover have "?i \<in> set [1..<length s]" "?j \<in> set [?i + 2..<length s - 1]"
  proof -
    have "length s = length pre + length p + length q + length r + length post + 2" using s by simp
    moreover have "0 < length p" "0 < length q" "0 < length r" using ne by simp_all
    ultimately show "?i \<in> set [1..<length s]" "?j \<in> set [?i + 2..<length s - 1]"
      unfolding set_upt atLeastLessThan_iff by linarith+
  qed
  ultimately show "email_test s" unfolding email_test_def list_ex_iff by blast
qed

end
