(* ===== verification/Backoffice_Form.thy ===== *)
theory Backoffice_Form
  imports Backoffice_Config
begin

text \<open>
  The forms of the backoffice: the hook \<open>useFormActions\<close>
  (\<open>frontend-dashboard/src/backoffice/hooks/useFormActions.ts\<close>) with its three React states, and the component
  \<open>DynamicForm\<close> that renders a configuration and feeds the hook. A handler is created by a render and
  reads the states of that render, so every handler takes the states it closes over besides the states
  it updates. No value of the forms is a \<open>Date\<close> object: they come from JSON and from input elements.
\<close>

section \<open>useFormActions\<close>

record form_state =
  fs_values :: "(string \<times> jsval) list"
  fs_errors :: "string \<rightharpoonup> string"
  fs_touched :: "string \<rightharpoonup> bool"

definition initial_form :: "(string \<times> jsval) list \<Rightarrow> form_state" where
  "initial_form iv = \<lparr>fs_values = iv, fs_errors = Map.empty, fs_touched = Map.empty\<rparr>"

text \<open>The effect on \<open>[initialValues]\<close>: it takes the new values over and leaves errors and touched marks as they are.\<close>

definition sync_initialValues :: "(string \<times> jsval) list \<Rightarrow> form_state \<Rightarrow> form_state" where
  "sync_initialValues iv s = s\<lparr>fs_values := iv\<rparr>"

definition find_field :: "form_config \<Rightarrow> string \<Rightarrow> form_field option" where
  "find_field cfg name = List.find (\<lambda>f. ff_name f = name) (fc_fields cfg)"

definition validateField :: "form_config \<Rightarrow> string \<Rightarrow> jsval \<Rightarrow> string option js" where
  "validateField cfg name value =
     (case find_field cfg name of
        None \<Rightarrow> Inr None
      | Some f \<Rightarrow>
          if ff_required f \<and> (value = JUndef \<or> value = JNull \<or> value = JStr [])
          then Inr (Some (ff_label f @ '' is required''))
          else (case ff_validation f of Some g \<Rightarrow> g value | None \<Rightarrow> Inr None))"

text \<open>One turn of the \<open>forEach\<close> of \<open>validateForm\<close> on \<open>newErrors\<close> and \<open>isValid\<close>.\<close>

definition validate_step ::
  "form_config \<Rightarrow> (string \<times> jsval) list \<Rightarrow> (string \<rightharpoonup> string) \<times> bool \<Rightarrow> form_field \<Rightarrow> ((string \<rightharpoonup> string) \<times> bool) js" where
  "validate_step cfg values acc f =
     (if ff_hidden f \<and> \<not> ff_required f then Inr acc
      else js_bind (validateField cfg (ff_name f) (prop_lookup values (ff_name f))) (\<lambda>err.
        Inr (if truthy err then ((fst acc)(ff_name f := err), False) else acc)))"

definition validateForm :: "form_config \<Rightarrow> form_state \<Rightarrow> form_state \<Rightarrow> bool js \<times> form_state" where
  "validateForm cfg c s =
     (case js_reduce (validate_step cfg (fs_values c)) (fc_fields cfg) (Map.empty, True) of
        Inl e \<Rightarrow> (Inl e, s)
      | Inr (newErrors, isValid) \<Rightarrow> (Inr isValid, s\<lparr>fs_errors := newErrors\<rparr>))"

text \<open>Both change handlers end alike: the new value is stored and marked as touched, then validated.\<close>

definition handleValueChange :: "form_config \<Rightarrow> form_state \<Rightarrow> string \<Rightarrow> jsval \<Rightarrow> form_state \<Rightarrow> unit js \<times> form_state" where
  "handleValueChange cfg c name value s =
     (let s = s\<lparr>fs_values := props_put (fs_values c) name value, fs_touched := (fs_touched c)(name \<mapsto> True)\<rparr>
      in case validateField cfg name value of
           Inl e \<Rightarrow> (Inl e, s)
         | Inr err \<Rightarrow> (Inr (), s\<lparr>fs_errors := (fs_errors c)(name \<mapsto> case err of None \<Rightarrow> [] | Some m \<Rightarrow> m)\<rparr>))"

record target =
  t_name :: string
  t_value :: string
  t_type :: string
  t_checked :: bool

definition input_value :: "js_env \<Rightarrow> target \<Rightarrow> jsval" where
  "input_value E t =
     (if t_type t = ''checkbox'' then JBool (t_checked t)
      else if t_type t = ''number''
      then (if t_value t = [] then JStr [] else JNum (strToNumber E (t_value t)))
      else JStr (t_value t))"

definition handleChange :: "js_env \<Rightarrow> form_config \<Rightarrow> form_state \<Rightarrow> target \<Rightarrow> form_state \<Rightarrow> unit js \<times> form_state" where
  "handleChange E cfg c t s = handleValueChange cfg c (t_name t) (input_value E t) s"

datatype form_effect = Submitted "(string \<times> jsval) list" | InvalidateQueries string

definition process_date :: "date_lib \<Rightarrow> (string \<times> jsval) list \<Rightarrow> form_field \<Rightarrow> (string \<times> jsval) list js" where
  "process_date L vals f =
     (if ff_type f = TDate \<and> js_truthy (prop_lookup vals (ff_name f))
      then (case prop_lookup vals (ff_name f) of
              JStr d \<Rightarrow>
                if CHR ''T'' \<in> set d then Inr vals
                else js_bind (new_Date L (JStr (d @ ''T00:00:00Z''))) (\<lambda>t.
                  js_bind (toISOString L t) (\<lambda>iso. Inr (props_put vals (ff_name f) (JStr iso))))
            | _ \<Rightarrow> Inr vals)
      else Inr vals)"

definition all_touched :: "form_config \<Rightarrow> string \<rightharpoonup> bool" where
  "all_touched cfg = (\<lambda>n. if n \<in> ff_name ` set (fc_fields cfg) then Some True else None)"

definition handleSubmit ::
  "date_lib \<Rightarrow> form_config \<Rightarrow> string list \<Rightarrow> form_state \<Rightarrow> form_state \<Rightarrow> form_effect list js \<times> form_state" where
  "handleSubmit L cfg queryInvalidations c s =
     (case validateForm cfg c (s\<lparr>fs_touched := all_touched cfg\<rparr>) of
        (Inl e, s) \<Rightarrow> (Inl e, s)
      | (Inr False, s) \<Rightarrow> (Inr [], s)
      | (Inr True, s) \<Rightarrow>
          (js_bind (js_reduce (process_date L) (fc_fields cfg) (fs_values c)) (\<lambda>vals.
             Inr (Submitted vals # map InvalidateQueries queryInvalidations)), s))"

definition reset :: "(string \<times> jsval) list \<Rightarrow> form_state \<Rightarrow> form_state" where
  "reset iv s = s\<lparr>fs_values := iv, fs_errors := Map.empty, fs_touched := Map.empty\<rparr>"

section \<open>DynamicForm\<close>

text \<open>What a field is rendered as; the error and the helper text are those that \<open>FormField\<close> shows.\<close>

datatype control_kind =
    Textarea jsval "string option"
  | Select jsval "(string \<times> string) list" string
  | Checkbox bool
  | Input string jsval "string option"
  | Custom field_component jsval

record control =
  ct_name :: string
  ct_label :: string
  ct_required :: bool
  ct_error :: "string option"
  ct_helperText :: "string option"
  ct_kind :: control_kind

definition FormField ::
  "string \<Rightarrow> string \<Rightarrow> bool \<Rightarrow> string option \<Rightarrow> bool \<Rightarrow> string option \<Rightarrow> control_kind \<Rightarrow> control" where
  "FormField name label required err touched helperText kind =
     (let showError = touched \<and> truthy err
      in \<lparr>ct_name = name, ct_label = label, ct_required = required, ct_error = (if showError then err else None),
          ct_helperText = (if truthy helperText \<and> \<not> showError then helperText else None), ct_kind = kind\<rparr>)"

text \<open>The type of an input element as its DOM property reports it: unknown types are \<open>text\<close>.\<close>

fun input_type :: "field_type \<Rightarrow> string" where
  "input_type TDate = ''date''"
| "input_type TFile = ''file''"
| "input_type _ = ''text''"

definition control_kind_of :: "form_field \<Rightarrow> jsval \<Rightarrow> control_kind" where
  "control_kind_of f value =
     (case ff_component f of
        Some widget \<Rightarrow> Custom widget value
      | None \<Rightarrow>
          (case ff_type f of
             TTextarea \<Rightarrow> Textarea value (ff_placeholder f)
           | TSelect \<Rightarrow> Select value (case ff_options f of None \<Rightarrow> [] | Some opts \<Rightarrow> opts) (''Select '' @ ff_label f)
           | TBoolean \<Rightarrow> Checkbox (js_truthy value)
           | TNumber \<Rightarrow> Input ''number'' value (ff_placeholder f)
           | ty \<Rightarrow> Input (input_type ty) value (ff_placeholder f)))"

definition renderField :: "form_state \<Rightarrow> form_field \<Rightarrow> control option" where
  "renderField s f =
     (if ff_hidden f then None
      else let value = (if prop_lookup (fs_values s) (ff_name f) \<noteq> JUndef then prop_lookup (fs_values s) (ff_name f) else JStr []);
               touched = (fs_touched s (ff_name f) = Some True);
               err = (if touched then fs_errors s (ff_name f) else None)
           in Some (FormField (ff_name f) (ff_label f) (ff_required f) err touched (ff_helperText f) (control_kind_of f value)))"

definition renderFields :: "form_config \<Rightarrow> form_state \<Rightarrow> (string option \<times> control list) list" where
  "renderFields cfg s =
     (case fc_sections cfg of
        Some sections \<Rightarrow>
          map (\<lambda>(title, names). (Some title, List.map_filter (\<lambda>n. Option.bind (find_field cfg n) (renderField s)) names)) sections
      | None \<Rightarrow> [(None, List.map_filter (renderField s) (fc_fields cfg))])"

text \<open>
  The listener of the event \<open>update-hidden-field\<close> is registered by an effect without dependencies: it
  keeps the handler of the first render, whose states are those of \<open>initial_form\<close>.
\<close>

definition handleHiddenFieldUpdate ::
  "form_config \<Rightarrow> (string \<times> jsval) list \<Rightarrow> string \<Rightarrow> jsval \<Rightarrow> form_state \<Rightarrow> form_state" where
  "handleHiddenFieldUpdate cfg iv name value s = snd (handleValueChange cfg (initial_form iv) name value s)"

text \<open>
  \<open>onChange\<close> of an autocomplete field: the field changes, then, where the configuration asks for it, the
  stock-keeping unit of the chosen option is sent to the form by that event.
\<close>

definition option_sku :: "jsval list \<Rightarrow> jsval \<Rightarrow> jsval js" where
  "option_sku options newValue =
     js_bind (js_find (\<lambda>opt. js_bind (js_get opt ''value'') (\<lambda>v. Inr (v = newValue))) options) (\<lambda>found.
       case found of None \<Rightarrow> Inr JUndef | Some opt \<Rightarrow> js_get opt ''sku'')"

definition autocomplete_change ::
  "form_config \<Rightarrow> (string \<times> jsval) list \<Rightarrow> string \<Rightarrow> bool \<Rightarrow> jsval list \<Rightarrow> jsval \<Rightarrow> form_state \<Rightarrow> unit js \<times> form_state" where
  "autocomplete_change cfg iv name fills_sku options newValue s =
     (case handleValueChange cfg s name newValue s of
        (Inl e, s') \<Rightarrow> (Inl e, s')
      | (Inr u, s') \<Rightarrow>
          if \<not> fills_sku then (Inr u, s')
          else (case option_sku options newValue of
                  Inl e \<Rightarrow> (Inl e, s')
                | Inr sku \<Rightarrow> (Inr u, if js_truthy sku then handleHiddenFieldUpdate cfg iv ''sku'' sku s' else s')))"

text \<open>What a user does with a rendered form.\<close>

datatype form_action =
    Typed target
  | Chosen string jsval
  | Picked string "jsval list" jsval
  | Save

definition form_event :: "js_env \<Rightarrow> date_lib \<Rightarrow> form_config \<Rightarrow> string list \<Rightarrow> (string \<times> jsval) list \<Rightarrow> form_action \<Rightarrow> form_state \<Rightarrow>
    form_effect list \<times> form_state" where
  "form_event E L cfg qs iv ev s =
     (case ev of
        Typed t \<Rightarrow> ([], snd (handleChange E cfg s t s))
      | Chosen name v \<Rightarrow> ([], snd (autocomplete_change cfg iv name False [] v s))
      | Picked name options v \<Rightarrow> ([], snd (autocomplete_change cfg iv name True options v s))
      | Save \<Rightarrow> (case handleSubmit L cfg qs s s of (r, s') \<Rightarrow> (case r of Inl e \<Rightarrow> [] | Inr effs \<Rightarrow> effs, s')))"

fun form_run :: "js_env \<Rightarrow> date_lib \<Rightarrow> form_config \<Rightarrow> string list \<Rightarrow> (string \<times> jsval) list \<Rightarrow> form_action list \<Rightarrow> form_state \<Rightarrow>
    form_effect list \<times> form_state" where
  "form_run E L cfg qs iv [] s = ([], s)"
| "form_run E L cfg qs iv (ev # evs) s =
     (case form_event E L cfg qs iv ev s of (effs, s') \<Rightarrow>
        (case form_run E L cfg qs iv evs s' of (effs', t) \<Rightarrow> (effs @ effs', t)))"

section \<open>Validation of a whole form\<close>

definition is_checked :: "form_field \<Rightarrow> bool" where
  "is_checked f \<longleftrightarrow> \<not> (ff_hidden f \<and> \<not> ff_required f)"

definition field_valid :: "form_config \<Rightarrow> (string \<times> jsval) list \<Rightarrow> string \<Rightarrow> bool" where
  "field_valid cfg vals n \<longleftrightarrow> (case validateField cfg n (prop_lookup vals n) of Inl e \<Rightarrow> False | Inr err \<Rightarrow> \<not> truthy err)"

definition form_valid :: "form_config \<Rightarrow> (string \<times> jsval) list \<Rightarrow> bool" where
  "form_valid cfg vals \<longleftrightarrow> list_all (\<lambda>f. is_checked f \<longrightarrow> field_valid cfg vals (ff_name f)) (fc_fields cfg)"

text \<open>The message that a field shows; an empty one is none.\<close>

definition shown :: "string option \<Rightarrow> string option" where
  "shown m = (if truthy m then m else None)"

definition error_of :: "form_config \<Rightarrow> (string \<times> jsval) list \<Rightarrow> string \<Rightarrow> string option" where
  "error_of cfg vals n = (case validateField cfg n (prop_lookup vals n) of Inl e \<Rightarrow> None | Inr err \<Rightarrow> shown err)"

lemma shown_simps [simp]: "shown None = None" "shown (Some m) = (if m = [] then None else Some m)"
  by (simp_all add: shown_def)

lemma shown_shown [simp]: "shown (shown m) = shown m"
  by (simp add: shown_def)

lemma validate_step_result:
  assumes "validate_step cfg vals (errs, b) f = Inr (errs', b')"
  shows "b' \<longleftrightarrow> b \<and> (is_checked f \<longrightarrow> field_valid cfg vals (ff_name f))"
    and "errs' n = (if is_checked f \<and> ff_name f = n \<and> error_of cfg vals n \<noteq> None then error_of cfg vals n else errs n)"
  using assms
  by (auto simp: validate_step_def is_checked_def field_valid_def error_of_def shown_def js_bind_eq_Inr split: if_splits)
    (metis fun_upd_same)+

lemma validate_fields:
  "js_reduce (validate_step cfg vals) fs (errs, b) = Inr (errs', b') \<Longrightarrow>
     (b' \<longleftrightarrow> b \<and> list_all (\<lambda>f. is_checked f \<longrightarrow> field_valid cfg vals (ff_name f)) fs) \<and>
     errs' n = (if list_ex (\<lambda>f. is_checked f \<and> ff_name f = n) fs \<and> error_of cfg vals n \<noteq> None
                then error_of cfg vals n else errs n)"
proof (induction fs arbitrary: errs b)
  case (Cons f fs)
  then obtain e1 b1 where step: "validate_step cfg vals (errs, b) f = Inr (e1, b1)"
    and rest: "js_reduce (validate_step cfg vals) fs (e1, b1) = Inr (errs', b')"
    by (auto simp: js_bind_eq_Inr)
  from validate_step_result [OF step] Cons.IH [OF rest] show ?case by auto
qed simp

lemma validate_fields_total:
  assumes "list_all (\<lambda>f. is_checked f \<longrightarrow> field_valid cfg vals (ff_name f)) fs"
  shows "js_reduce (validate_step cfg vals) fs (errs, b) = Inr (errs, b)"
  using assms
  by (induction fs) (auto simp: validate_step_def is_checked_def field_valid_def split: sum.splits)

lemma validateForm_valid:
  "form_valid cfg (fs_values c) \<Longrightarrow> validateForm cfg c s = (Inr True, s\<lparr>fs_errors := Map.empty\<rparr>)"
  by (simp add: form_valid_def validateForm_def validate_fields_total)

lemma validateForm_invalid:
  assumes "\<not> form_valid cfg (fs_values c)"
  shows "fst (validateForm cfg c s) \<noteq> Inr True"
  using assms validate_fields
  by (fastforce simp: form_valid_def validateForm_def split: sum.splits)

section \<open>Submission\<close>

lemma prop_lookup_put_other: "l \<noteq> k \<Longrightarrow> prop_lookup (props_put ps k v) l = prop_lookup ps l"
  by simp

definition date_names :: "form_field list \<Rightarrow> string set" where
  "date_names fs = set (map ff_name (filter (\<lambda>f. ff_type f = TDate) fs))"

lemma date_names_simps [simp]:
  "date_names [] = {}"
  "date_names (f # fs) = (if ff_type f = TDate then insert (ff_name f) (date_names fs) else date_names fs)"
  by (simp_all add: date_names_def)

lemma process_date_lookup:
  assumes "process_date L vals f = Inr vals'" "ff_type f = TDate \<longrightarrow> n \<noteq> ff_name f"
  shows "prop_lookup vals' n = prop_lookup vals n"
  using assms by (auto simp: process_date_def js_bind_eq_Inr split: if_splits jsval.splits)

lemma process_dates_lookup:
  "js_reduce (process_date L) fs vals = Inr vals' \<Longrightarrow> n \<notin> date_names fs \<Longrightarrow> prop_lookup vals' n = prop_lookup vals n"
proof (induction fs arbitrary: vals)
  case (Cons f fs)
  then obtain w where "process_date L vals f = Inr w" "js_reduce (process_date L) fs w = Inr vals'"
    by (auto simp: js_bind_eq_Inr)
  with Cons show ?case using process_date_lookup [of L vals f w n] by (auto split: if_splits)
qed simp

text \<open>\<open>toISOString\<close> writes a \<open>T\<close> between the date and the time.\<close>

definition iso_law :: "date_lib \<Rightarrow> bool" where
  "iso_law L \<longleftrightarrow> (\<forall>t s. toISOString L t = Inr s \<longrightarrow> CHR ''T'' \<in> set s)"

fun dated :: "jsval \<Rightarrow> bool" where
  "dated (JStr d) = (d = [] \<or> CHR ''T'' \<in> set d)"
| "dated v = True"

lemma process_date_dated:
  assumes "iso_law L" "process_date L vals f = Inr vals'"
  shows "ff_type f = TDate \<longrightarrow> dated (prop_lookup vals' (ff_name f))"
    and "dated (prop_lookup vals n) \<longrightarrow> dated (prop_lookup vals' n)"
  using assms
  by (cases "prop_lookup vals (ff_name f)"; auto simp: process_date_def js_bind_eq_Inr iso_law_def split: if_splits)+

lemma process_dates_dated:
  assumes "iso_law L"
  shows "js_reduce (process_date L) fs vals = Inr vals' \<Longrightarrow>
    n \<in> date_names fs \<or> dated (prop_lookup vals n) \<Longrightarrow> dated (prop_lookup vals' n)"
proof (induction fs arbitrary: vals)
  case Nil
  then show ?case by simp
next
  case (Cons f fs)
  then obtain w where "process_date L vals f = Inr w" "js_reduce (process_date L) fs w = Inr vals'"
    by (auto simp: js_bind_eq_Inr)
  with Cons show ?case using process_date_dated [OF assms, of vals f w] by (auto split: if_splits)
qed

section \<open>Forms under their user\<close>

text \<open>The type of the values that a control without a custom component stores.\<close>

fun has_type :: "field_type \<Rightarrow> jsval \<Rightarrow> bool" where
  "has_type TNumber v \<longleftrightarrow> v = JUndef \<or> v = JStr [] \<or> is_num v"
| "has_type TBoolean v \<longleftrightarrow> v = JUndef \<or> v = JBool True \<or> v = JBool False"
| "has_type _ v \<longleftrightarrow> v = JUndef \<or> is_str v"

definition values_typed :: "form_config \<Rightarrow> (string \<times> jsval) list \<Rightarrow> bool" where
  "values_typed cfg vals \<longleftrightarrow>
     list_all (\<lambda>f. ff_component f = None \<longrightarrow> has_type (ff_type f) (prop_lookup vals (ff_name f))) (fc_fields cfg)"

text \<open>
  The configurations have distinct names; a validation function belongs to a field that stores
  primitive values and does not throw on those.
\<close>

definition form_ok :: "form_config \<Rightarrow> bool" where
  "form_ok cfg \<longleftrightarrow>
     distinct (map ff_name (fc_fields cfg)) \<and>
     (\<forall>f \<in> set (fc_fields cfg). \<forall>g. ff_validation f = Some g \<longrightarrow>
        ff_component f = None \<and> (\<forall>v. \<not> is_object v \<longrightarrow> (\<exists>r. g v = Inr r)))"

text \<open>Whether the component of a control sends the stock-keeping unit of the picked option.\<close>

fun custom_fills :: "control_kind \<Rightarrow> bool option" where
  "custom_fills (Custom (AutocompleteComponent ac) v) = Some (ac_fills_sku ac)"
| "custom_fills (Custom widget v) = Some False"
| "custom_fills k = None"

fun control_type :: "control_kind \<Rightarrow> string option" where
  "control_type (Textarea v p) = Some ''textarea''"
| "control_type (Select v opts p) = Some ''select-one''"
| "control_type (Checkbox b) = Some ''checkbox''"
| "control_type (Input ty v p) = Some ty"
| "control_type (Custom widget v) = None"

definition controls :: "form_config \<Rightarrow> form_state \<Rightarrow> control list" where
  "controls cfg s = concat (map snd (renderFields cfg s))"

text \<open>The events that the rendered controls can raise; the stock-keeping units of the options are strings.\<close>

fun user_event :: "form_config \<Rightarrow> form_state \<Rightarrow> form_action \<Rightarrow> bool" where
  "user_event cfg s (Typed t) \<longleftrightarrow>
     list_ex (\<lambda>c. ct_name c = t_name t \<and> control_type (ct_kind c) = Some (t_type t)) (controls cfg s)"
| "user_event cfg s (Chosen name v) \<longleftrightarrow>
     list_ex (\<lambda>c. ct_name c = name \<and> custom_fills (ct_kind c) = Some False) (controls cfg s)"
| "user_event cfg s (Picked name opts v) \<longleftrightarrow>
     list_ex (\<lambda>c. ct_name c = name \<and> custom_fills (ct_kind c) = Some True) (controls cfg s) \<and>
     (case option_sku opts v of Inl e \<Rightarrow> True | Inr sku \<Rightarrow> js_truthy sku \<longrightarrow> is_str sku) \<and>
     (case find_field cfg ''sku'' of None \<Rightarrow> True | Some f \<Rightarrow> ff_type f = TText)"
| "user_event cfg s Save \<longleftrightarrow> True"

inductive edit_step :: "js_env \<Rightarrow> date_lib \<Rightarrow> form_config \<Rightarrow> string list \<Rightarrow> (string \<times> jsval) list \<Rightarrow> form_state \<Rightarrow> form_state \<Rightarrow> bool"
  for E L cfg qs iv where
  event: "user_event cfg s ev \<Longrightarrow> edit_step E L cfg qs iv s (snd (form_event E L cfg qs iv ev s))"

text \<open>
  The steps of a form: those of its user, and those of the component around it, which may pass other
  initial values at any time, well-typed ones like the first.
\<close>

inductive form_step :: "js_env \<Rightarrow> date_lib \<Rightarrow> form_config \<Rightarrow> string list \<Rightarrow> (string \<times> jsval) list \<Rightarrow> form_state \<Rightarrow> form_state \<Rightarrow> bool"
  for E L cfg qs iv where
  edit: "edit_step E L cfg qs iv s t \<Longrightarrow> form_step E L cfg qs iv s t"
| sync: "values_typed cfg iv' \<Longrightarrow> form_step E L cfg qs iv s (sync_initialValues iv' s)"

definition errors_match :: "form_config \<Rightarrow> form_state \<Rightarrow> bool" where
  "errors_match cfg s \<longleftrightarrow>
     (\<forall>f \<in> set (fc_fields cfg). is_checked f \<longrightarrow> fs_touched s (ff_name f) = Some True \<longrightarrow>
        shown (fs_errors s (ff_name f)) = error_of cfg (fs_values s) (ff_name f))"

lemma find_field_SomeD: "find_field cfg n = Some f \<Longrightarrow> f \<in> set (fc_fields cfg) \<and> ff_name f = n"
  unfolding find_field_def by (rule find_SomeD)

lemma find_field_unique:
  "form_ok cfg \<Longrightarrow> f \<in> set (fc_fields cfg) \<Longrightarrow> find_field cfg (ff_name f) = Some f"
  unfolding find_field_def form_ok_def by (intro find_unique) auto

lemma has_type_primitive: "has_type ty v \<Longrightarrow> \<not> is_object v"
  by (cases v; cases ty) simp_all

lemma validateField_returns:
  assumes "form_ok cfg" "\<And>f. find_field cfg n = Some f \<Longrightarrow> ff_component f = None \<Longrightarrow> has_type (ff_type f) v"
  shows "\<exists>err. validateField cfg n v = Inr err"
proof (cases "find_field cfg n")
  case None
  then show ?thesis by (simp add: validateField_def)
next
  case (Some f)
  then have "f \<in> set (fc_fields cfg)" by (simp add: find_field_SomeD)
  then have "\<forall>g. ff_validation f = Some g \<longrightarrow> (\<exists>r. g v = Inr r)"
    using assms(1) assms(2) [OF Some] has_type_primitive unfolding form_ok_def by meson
  with Some show ?thesis by (auto simp: validateField_def split: option.splits)
qed

lemma values_typedD:
  "values_typed cfg vals \<Longrightarrow> find_field cfg n = Some f \<Longrightarrow> ff_component f = None \<Longrightarrow> has_type (ff_type f) (prop_lookup vals n)"
  by (auto simp: values_typed_def list_all_iff dest: find_field_SomeD)

lemma values_typed_put:
  assumes "form_ok cfg" "values_typed cfg vals"
    and "\<And>f. find_field cfg n = Some f \<Longrightarrow> ff_component f = None \<Longrightarrow> has_type (ff_type f) v"
  shows "values_typed cfg (props_put vals n v)"
  using assms find_field_unique [OF assms(1)] by (auto simp: values_typed_def list_all_iff)

text \<open>Typing alone, and typing with errors that match the values, are kept by the same operations.\<close>

definition form_inv :: "bool \<Rightarrow> form_config \<Rightarrow> form_state \<Rightarrow> bool" where
  "form_inv current cfg s \<longleftrightarrow> values_typed cfg (fs_values s) \<and> (current \<longrightarrow> errors_match cfg s)"

lemma form_inv_weaken: "form_inv current cfg s \<Longrightarrow> form_inv False cfg s"
  by (simp add: form_inv_def)

lemma handleValueChange_inv:
  assumes ok: "form_ok cfg" and c: "form_inv cur cfg c"
    and v: "\<And>f. find_field cfg n = Some f \<Longrightarrow> ff_component f = None \<Longrightarrow> has_type (ff_type f) v"
  shows "form_inv cur cfg (snd (handleValueChange cfg c n v s))" "\<exists>u. fst (handleValueChange cfg c n v s) = Inr u"
proof -
  obtain err where err: "validateField cfg n v = Inr err"
    using validateField_returns [OF ok v] by blast
  have "shown (Some (case err of None \<Rightarrow> [] | Some m \<Rightarrow> m)) = shown err" by (cases err) auto
  with c err values_typed_put [OF ok _ v] show "form_inv cur cfg (snd (handleValueChange cfg c n v s))"
    by (auto simp: handleValueChange_def Let_def form_inv_def errors_match_def error_of_def)
  show "\<exists>u. fst (handleValueChange cfg c n v s) = Inr u"
    using err by (simp add: handleValueChange_def Let_def)
qed

lemma initial_form_inv: "values_typed cfg iv \<Longrightarrow> form_inv cur cfg (initial_form iv)"
  by (simp add: form_inv_def errors_match_def initial_form_def)

lemma autocomplete_change_inv:
  assumes ok: "form_ok cfg" and s: "form_inv cur cfg s" and iv: "values_typed cfg iv"
    and v: "\<And>f. find_field cfg n = Some f \<Longrightarrow> ff_component f \<noteq> None"
    and sku: "\<And>sku. fills \<Longrightarrow> option_sku opts v = Inr sku \<Longrightarrow> js_truthy sku \<Longrightarrow> is_str sku"
    and skuf: "\<And>f. fills \<Longrightarrow> find_field cfg ''sku'' = Some f \<Longrightarrow> ff_type f = TText"
  shows "form_inv cur cfg (snd (autocomplete_change cfg iv n fills opts v s))"
proof -
  obtain u s' where s': "handleValueChange cfg s n v s = (Inr u, s')" "form_inv cur cfg s'"
    using handleValueChange_inv [OF ok s, of n v s] v by (metis prod.collapse)
  have "form_inv cur cfg (handleHiddenFieldUpdate cfg iv ''sku'' sku s')" if "fills" "option_sku opts v = Inr sku" "js_truthy sku" for sku
    unfolding handleHiddenFieldUpdate_def
    using skuf [OF that(1)] sku [OF that] by (intro handleValueChange_inv ok initial_form_inv iv) simp
  with s' show ?thesis by (simp add: autocomplete_change_def split: sum.split)
qed

lemma validate_fields_return:
  assumes "form_ok cfg" "values_typed cfg vals"
  shows "\<exists>r. js_reduce (validate_step cfg vals) fs acc = Inr r"
proof (induction fs arbitrary: acc)
  case (Cons f fs)
  obtain err where "validateField cfg (ff_name f) (prop_lookup vals (ff_name f)) = Inr err"
    using validateField_returns [OF assms(1) values_typedD [OF assms(2)]] by blast
  with Cons show ?case by (auto simp: validate_step_def)
qed simp

lemma shown_error_of [simp]: "shown (error_of cfg vals n) = error_of cfg vals n"
  by (simp add: error_of_def split: sum.split)

lemma handleSubmit_inv:
  assumes "form_ok cfg" "form_inv False cfg s"
  shows "form_inv cur cfg (snd (handleSubmit L cfg qs s s))"
proof -
  obtain errs b where r: "js_reduce (validate_step cfg (fs_values s)) (fc_fields cfg) (Map.empty, True) = Inr (errs, b)"
    using validate_fields_return assms by (fastforce simp: form_inv_def)
  have "snd (handleSubmit L cfg qs s s) = s\<lparr>fs_touched := all_touched cfg, fs_errors := errs\<rparr>"
    by (simp add: handleSubmit_def validateForm_def r split: bool.split)
  moreover have "shown (errs (ff_name f)) = error_of cfg (fs_values s) (ff_name f)"
    if "f \<in> set (fc_fields cfg)" "is_checked f" for f
    using validate_fields [OF r, of "ff_name f"] that by (auto simp: list_ex_iff)
  ultimately show ?thesis using assms(2) by (simp add: form_inv_def errors_match_def)
qed

text \<open>The fields that are rendered, hidden ones included.\<close>

definition rendered_fields :: "form_config \<Rightarrow> form_field set" where
  "rendered_fields cfg =
     (case fc_sections cfg of
        None \<Rightarrow> set (fc_fields cfg)
      | Some sections \<Rightarrow> {f. \<exists>section \<in> set sections. \<exists>n \<in> set (snd section). find_field cfg n = Some f})"

lemma set_map_filter_iff: "y \<in> set (List.map_filter f xs) \<longleftrightarrow> (\<exists>x \<in> set xs. f x = Some y)"
  by (induction xs) (auto simp: map_filter_simps split: option.splits)

lemma control_iff: "c \<in> set (controls cfg s) \<longleftrightarrow> (\<exists>f \<in> rendered_fields cfg. renderField s f = Some c)"
proof (cases "fc_sections cfg")
  case None
  then show ?thesis by (simp add: controls_def renderFields_def rendered_fields_def set_map_filter_iff)
next
  case (Some sections)
  then have "controls cfg s =
      concat (map (\<lambda>x. List.map_filter (\<lambda>n. Option.bind (find_field cfg n) (renderField s)) (snd x)) sections)"
    by (simp add: controls_def renderFields_def case_prod_beta comp_def)
  with Some show ?thesis by (auto simp: rendered_fields_def set_map_filter_iff bind_eq_Some_conv)
qed

lemma control_origin:
  assumes "c \<in> set (controls cfg s)"
  obtains f where "f \<in> set (fc_fields cfg)" "renderField s f = Some c"
  using assms by (auto simp: control_iff rendered_fields_def dest: find_field_SomeD split: option.splits)

lemma FormField_simps [simp]:
  "ct_name (FormField n l r e t h k) = n" "ct_kind (FormField n l r e t h k) = k"
  "ct_error (FormField n l r e t h k) = (if t then shown e else None)"
  by (simp_all add: FormField_def Let_def shown_def)

lemma renderField_SomeD:
  assumes "renderField s f = Some c"
  shows "\<not> ff_hidden f \<and> (\<exists>v. c = FormField (ff_name f) (ff_label f) (ff_required f)
      (if fs_touched s (ff_name f) = Some True then fs_errors s (ff_name f) else None)
      (fs_touched s (ff_name f) = Some True) (ff_helperText f) (control_kind_of f v))"
  using assms by (auto simp: renderField_def Let_def split: if_splits)

lemma control_type_kind:
  "control_type (control_kind_of f v) =
     (if ff_component f \<noteq> None then None
      else Some (case ff_type f of TTextarea \<Rightarrow> ''textarea'' | TSelect \<Rightarrow> ''select-one'' | TBoolean \<Rightarrow> ''checkbox''
                 | TNumber \<Rightarrow> ''number'' | ty \<Rightarrow> input_type ty))"
  by (cases "ff_component f"; cases "ff_type f") (simp_all add: control_kind_of_def)

lemma renderField_control:
  assumes "renderField s f = Some c"
  shows "ct_name c = ff_name f" "\<not> ff_hidden f"
    "control_type (ct_kind c) = None \<longleftrightarrow> ff_component f \<noteq> None"
    "ct_error c = (if fs_touched s (ff_name f) = Some True then shown (fs_errors s (ff_name f)) else None)"
  using renderField_SomeD [OF assms] by (auto simp: control_type_kind split: if_splits)

lemma typed_input:
  assumes "renderField s f = Some c" "control_type (ct_kind c) = Some (t_type t)"
  shows "has_type (ff_type f) (input_value E t)"
  using renderField_SomeD [OF assms(1)] assms(2)
  by (cases "ff_type f") (auto simp: control_type_kind input_value_def split: if_splits)

lemma custom_control:
  assumes "form_ok cfg" "list_ex (\<lambda>c. ct_name c = name \<and> custom_fills (ct_kind c) = Some b) (controls cfg s)"
    and "find_field cfg name = Some g"
  shows "ff_component g \<noteq> None"
proof -
  obtain c where c: "c \<in> set (controls cfg s)" "ct_name c = name" "custom_fills (ct_kind c) = Some b"
    using assms(2) by (auto simp: list_ex_iff)
  then have "control_type (ct_kind c) = None" by (cases "ct_kind c") simp_all
  note c = c(1,2) this
  from c(1) obtain f where f: "f \<in> set (fc_fields cfg)" "renderField s f = Some c" by (rule control_origin)
  then show ?thesis using find_field_unique [OF assms(1) f(1)] assms(3) c renderField_control [OF f(2)] by auto
qed

lemma form_event_inv:
  assumes ok: "form_ok cfg" and s: "form_inv cur cfg s" and iv: "values_typed cfg iv" and ev: "user_event cfg s ev"
  shows "form_inv cur cfg (snd (form_event E L cfg qs iv ev s))"
proof (cases ev)
  case (Typed t)
  with ev obtain c where c: "c \<in> set (controls cfg s)" "ct_name c = t_name t" "control_type (ct_kind c) = Some (t_type t)"
    by (auto simp: list_ex_iff)
  from c(1) obtain f where f: "f \<in> set (fc_fields cfg)" "renderField s f = Some c" by (rule control_origin)
  then have "find_field cfg (t_name t) = Some f"
    using find_field_unique [OF ok f(1)] c(2) renderField_control(1) by fastforce
  with typed_input [OF f(2) c(3)] show ?thesis
    unfolding Typed form_event_def handleChange_def
    using handleValueChange_inv(1) [OF ok s, of "t_name t" "input_value E t" s] by simp
next
  case Save
  then show ?thesis
    using handleSubmit_inv [OF ok form_inv_weaken [OF s], of cur L qs] by (cases "handleSubmit L cfg qs s s") (simp add: form_event_def)
next
  case (Chosen name v)
  then show ?thesis
    using custom_control [OF ok, of name False s] ev autocomplete_change_inv [OF ok s iv, of name False "[]" v]
    by (simp add: form_event_def)
next
  case (Picked name opts v)
  with ev have "\<And>sku. option_sku opts v = Inr sku \<Longrightarrow> js_truthy sku \<Longrightarrow> is_str sku"
    "\<And>f. find_field cfg ''sku'' = Some f \<Longrightarrow> ff_type f = TText"
    by auto
  then show ?thesis
    using custom_control [OF ok, of name True s] ev autocomplete_change_inv [OF ok s iv, of name True opts v]
    by (simp add: form_event_def Picked)
qed

lemma edit_steps_inv:
  assumes "(edit_step E L cfg qs iv)\<^sup>*\<^sup>* s t" "form_ok cfg" "values_typed cfg iv" "form_inv cur cfg s"
  shows "form_inv cur cfg t"
  using assms(1,4)
  by (induction rule: rtranclp_induct) (auto elim!: edit_step.cases intro: form_event_inv [OF assms(2) _ assms(3)])

lemma form_step_typed:
  assumes "form_step E L cfg qs iv s t" "form_ok cfg" "values_typed cfg iv" "form_inv False cfg s"
  shows "form_inv False cfg t"
  using assms(1)
proof (cases rule: form_step.cases)
  case edit
  then show ?thesis using edit_steps_inv [OF r_into_rtranclp assms(2-4)] by blast
next
  case (sync iv')
  then show ?thesis by (simp add: form_inv_def sync_initialValues_def)
qed

lemma form_steps_typed:
  assumes "(form_step E L cfg qs iv)\<^sup>*\<^sup>* (initial_form iv) t" "form_ok cfg" "values_typed cfg iv"
  shows "form_inv False cfg t"
  using assms(1) by (induction rule: rtranclp_induct)
    (auto intro: initial_form_inv [OF assms(3)] form_step_typed [OF _ assms(2,3)])

text \<open>A pick that finds the stock-keeping unit of its option.\<close>

fun finds_sku :: "form_action \<Rightarrow> bool" where
  "finds_sku (Picked name opts v) \<longleftrightarrow> (case option_sku opts v of Inl e \<Rightarrow> False | Inr sku \<Rightarrow> js_truthy sku)"
| "finds_sku ev \<longleftrightarrow> True"

inductive fill_step :: "js_env \<Rightarrow> date_lib \<Rightarrow> form_config \<Rightarrow> string list \<Rightarrow> (string \<times> jsval) list \<Rightarrow> form_state \<Rightarrow> form_state \<Rightarrow> bool"
  for E L cfg qs iv where
  event: "user_event cfg s ev \<Longrightarrow> finds_sku ev \<Longrightarrow> fill_step E L cfg qs iv s (snd (form_event E L cfg qs iv ev s))"

lemma picked_state:
  assumes "form_ok cfg" "form_inv cur cfg s" "user_event cfg s (Picked name opts v)"
    and "option_sku opts v = Inr sku" "js_truthy sku"
  shows "fs_values (snd (form_event E L cfg qs iv (Picked name opts v) s)) = props_put iv ''sku'' sku"
    "fs_touched (snd (form_event E L cfg qs iv (Picked name opts v) s)) = [''sku'' \<mapsto> True]"
proof -
  have "ff_component g \<noteq> None" if "find_field cfg name = Some g" for g
    using custom_control [OF assms(1) _ that, of True s] assms(3) by simp
  then have "\<exists>u. fst (handleValueChange cfg s name v s) = Inr u"
    by (intro handleValueChange_inv(2) [OF assms(1,2)]) simp
  then obtain u t where t: "handleValueChange cfg s name v s = (Inr u, t)"
    by (metis prod.collapse)
  have "fs_values (handleHiddenFieldUpdate cfg iv ''sku'' sku t) = props_put iv ''sku'' sku \<and>
      fs_touched (handleHiddenFieldUpdate cfg iv ''sku'' sku t) = [''sku'' \<mapsto> True]"
    by (simp add: handleHiddenFieldUpdate_def handleValueChange_def initial_form_def Let_def split: sum.split)
  then show "fs_values (snd (form_event E L cfg qs iv (Picked name opts v) s)) = props_put iv ''sku'' sku"
    "fs_touched (snd (form_event E L cfg qs iv (Picked name opts v) s)) = [''sku'' \<mapsto> True]"
    by (simp_all add: form_event_def autocomplete_change_def t assms(4,5))
qed

lemma control_fills:
  assumes "renderField s f = Some c" "ff_component f = Some (AutocompleteComponent ac)"
  shows "custom_fills (ct_kind c) = Some (ac_fills_sku ac)" "control_type (ct_kind c) = None"
  using renderField_SomeD [OF assms(1)] assms(2) by (auto simp: control_kind_of_def)

lemma handleValueChange_values: "fs_values (snd (handleValueChange cfg c n v s)) = props_put (fs_values c) n v"
  by (simp add: handleValueChange_def Let_def split: sum.split)

lemma save_values: "fs_values (snd (form_event E L cfg qs iv Save s)) = fs_values s"
  by (auto simp: form_event_def handleSubmit_def validateForm_def split: sum.splits bool.splits prod.splits)

text \<open>
  A field that fills the stock-keeping unit never keeps what is picked: while the initial values stay as they are, it
  holds its initial value in every state that is reached by picks that find their option.
\<close>

lemma filling_field_step:
  assumes ok: "form_ok cfg" and f: "find_field cfg n = Some f" "ff_component f = Some (AutocompleteComponent ac)"
    "ac_fills_sku ac" "n \<noteq> ''sku''"
    and ev: "user_event cfg s ev" "finds_sku ev" and s: "form_inv cur cfg s" "prop_lookup (fs_values s) n = prop_lookup iv n"
  shows "prop_lookup (fs_values (snd (form_event E L cfg qs iv ev s))) n = prop_lookup iv n"
proof -
  have control: "custom_fills (ct_kind c) = Some True \<and> control_type (ct_kind c) = None"
    if "c \<in> set (controls cfg s)" "ct_name c = n" for c
  proof -
    from that(1) obtain g where g: "g \<in> set (fc_fields cfg)" "renderField s g = Some c" by (rule control_origin)
    then have "g = f" using find_field_unique [OF ok g(1)] renderField_control(1) [OF g(2)] that(2) f(1) by simp
    with g f show ?thesis using control_fills [of s f c ac] by simp
  qed
  show ?thesis
  proof (cases ev)
    case (Typed t)
    with ev control have "t_name t \<noteq> n" by (fastforce simp: list_ex_iff)
    with s Typed show ?thesis by (simp add: form_event_def handleChange_def handleValueChange_values)
  next
    case (Chosen m v)
    with ev control have "m \<noteq> n" by (fastforce simp: list_ex_iff)
    with s Chosen show ?thesis
      using handleValueChange_values [of cfg s m v s]
      by (auto simp: form_event_def autocomplete_change_def split: prod.splits sum.splits)
  next
    case (Picked m opts v)
    with ev(2) obtain sku where "option_sku opts v = Inr sku" "js_truthy sku" by (auto split: sum.splits)
    from picked_state(1) [OF ok s(1) ev(1) [unfolded Picked] this, of E L qs iv] f(4) show ?thesis
      unfolding Picked by simp
  next
    case Save
    with s show ?thesis by (simp add: save_values)
  qed
qed

lemma filling_field_steps:
  assumes steps: "(fill_step E L cfg qs iv)\<^sup>*\<^sup>* (initial_form iv) s" and ok: "form_ok cfg" and iv: "values_typed cfg iv"
    and f: "find_field cfg n = Some f" "ff_component f = Some (AutocompleteComponent ac)" "ac_fills_sku ac" "n \<noteq> ''sku''"
  shows "form_inv cur cfg s \<and> prop_lookup (fs_values s) n = prop_lookup iv n"
  using steps
proof (induction rule: rtranclp_induct)
  case base
  then show ?case using iv by (simp add: initial_form_inv) (simp add: initial_form_def)
next
  case (step s t)
  from step(2) obtain ev where "user_event cfg s ev" "finds_sku ev" "t = snd (form_event E L cfg qs iv ev s)"
    by (auto elim: fill_step.cases)
  with step(3) show ?case using form_event_inv [OF ok _ iv] filling_field_step [OF ok f] by blast
qed

section \<open>Properties\<close>

lemma save_effects:
  "form_event E L cfg qs iv Save s =
     (if form_valid cfg (fs_values s)
      then (case js_reduce (process_date L) (fc_fields cfg) (fs_values s) of
              Inl e \<Rightarrow> [] | Inr vals \<Rightarrow> Submitted vals # map InvalidateQueries qs,
            s\<lparr>fs_touched := all_touched cfg, fs_errors := Map.empty\<rparr>)
      else ([], snd (handleSubmit L cfg qs s s)))"
proof (cases "form_valid cfg (fs_values s)")
  case True
  then show ?thesis by (simp add: form_event_def handleSubmit_def validateForm_valid split: sum.split)
next
  case False
  then have "fst (validateForm cfg s (s\<lparr>fs_touched := all_touched cfg\<rparr>)) \<noteq> Inr True" by (rule validateForm_invalid)
  with False show ?thesis
    by (auto simp: form_event_def handleSubmit_def split: prod.splits sum.splits bool.splits)
qed

definition demo_date_lib :: date_lib where
  "demo_date_lib = \<lparr>parseISO = (\<lambda>s. NaN), new_Date = (\<lambda>v. Inr (Fin 0)), startOf = (\<lambda>p t. t),
     format_date = (\<lambda>t f. Inr []), toISOString = (\<lambda>t. Inr ''1970-01-01T00:00:00.000Z'')\<rparr>"

definition demo_autocomplete :: autocomplete where
  "demo_autocomplete = \<lparr>ac_label = ''Product'', ac_queryKey = ''inventory-search'', ac_endpoint = ''/api/inventory'',
     ac_placeholder = [], ac_option = Inr, ac_fills_sku = True\<rparr>"

definition demo_form :: form_config where
  "demo_form = form [required_field ''quantity'' ''Quantity'' TNumber, field ''expires_at'' ''Expiration Date'' TDate,
     (field ''sku'' ''SKU'' TText)\<lparr>ff_hidden := True\<rparr>,
     (required_field ''product_id'' ''Product'' TAutocomplete)\<lparr>ff_component := Some (AutocompleteComponent demo_autocomplete)\<rparr>]"

lemma demo_form_ok: "form_ok demo_form"
  by (simp add: form_ok_def demo_form_def form_def required_field_def field_def)

lemma demo_iso_law: "iso_law demo_date_lib"
  by (simp add: iso_law_def demo_date_lib_def)

lemma errors_displayed:
  assumes "errors_match cfg s" "c \<in> set (controls cfg s)"
  shows "ct_error c = (if fs_touched s (ct_name c) = Some True then error_of cfg (fs_values s) (ct_name c) else None)"
proof -
  from assms(2) obtain f where f: "f \<in> set (fc_fields cfg)" "renderField s f = Some c" by (rule control_origin)
  moreover have "is_checked f" using renderField_control(2) [OF f(2)] by (simp add: is_checked_def)
  ultimately show ?thesis using assms(1) renderField_control [OF f(2)] by (simp add: errors_match_def)
qed

lemma save_touches:
  "fs_touched (snd (form_event E L cfg qs iv Save s)) = all_touched cfg"
  by (auto simp: form_event_def handleSubmit_def validateForm_def split: sum.splits bool.splits prod.splits)

lemma save_inv:
  assumes "form_ok cfg" "values_typed cfg (fs_values s)"
  shows "form_inv True cfg (snd (form_event E L cfg qs iv Save s))"
  using handleSubmit_inv [OF assms(1), of s True L qs] assms(2)
  by (cases "handleSubmit L cfg qs s s") (simp add: form_event_def form_inv_def)

lemma save_displays:
  assumes "form_ok cfg" "values_typed cfg (fs_values s)" "c \<in> set (controls cfg (snd (form_event E L cfg qs iv Save s)))"
  shows "ct_error c = error_of cfg (fs_values s) (ct_name c)"
proof -
  have "ct_name c \<in> ff_name ` set (fc_fields cfg)"
    using assms(3) by (elim control_origin) (auto dest: renderField_control(1))
  then show ?thesis
    using errors_displayed [OF _ assms(3)] save_inv [OF assms(1,2), of E L qs iv]
    by (simp add: form_inv_def save_touches save_values all_touched_def)
qed

text \<open>
  C13: Submitting a form calls the handler of the page exactly when every field that is visible or
  required passes its validation and every date that is entered can be read; then the handler gets all the values of the
  form, unchanged except that a date of a date field has become a timestamp, and afterwards the given
  queries are invalidated. Otherwise nothing is called. The values shown in the form stay as they are, and when
  they have the types of their fields every control then shows the error of its value, if that has one.
\<close>

theorem form_submit_spec:
  assumes "form_event E L cfg qs iv Save s = (effs, s')" "iso_law L"
  shows "fs_values s' = fs_values s \<and>
    (case js_reduce (process_date L) (fc_fields cfg) (fs_values s) of
       Inl e \<Rightarrow> effs = []
     | Inr vals \<Rightarrow>
         effs = (if form_valid cfg (fs_values s) then Submitted vals # map InvalidateQueries qs else []) \<and>
         (\<forall>n. n \<notin> date_names (fc_fields cfg) \<longrightarrow> prop_lookup vals n = prop_lookup (fs_values s) n) \<and>
         (\<forall>n \<in> date_names (fc_fields cfg). dated (prop_lookup vals n))) \<and>
    (form_ok cfg \<and> values_typed cfg (fs_values s) \<longrightarrow>
       (\<forall>c \<in> set (controls cfg s'). ct_error c = error_of cfg (fs_values s) (ct_name c)))"
proof -
  have "fs_values (snd (handleSubmit L cfg qs s s)) = fs_values s"
    by (auto simp: handleSubmit_def validateForm_def split: sum.split bool.split)
  then show ?thesis
    using assms process_dates_lookup [of L "fc_fields cfg" "fs_values s"] process_dates_dated [OF assms(2), of "fc_fields cfg" "fs_values s"]
      save_displays [of cfg s _ E L qs iv]
    by (auto simp: save_effects split: if_splits sum.split)
qed

definition demo_filled :: form_state where
  "demo_filled = initial_form [(''quantity'', int_val 5), (''expires_at'', JStr ''1970-01-01''), (''product_id'', JStr ''p1'')]"

theorem form_submit_spec_witness:
  "form_event demo_env demo_date_lib demo_form [''inv''] [] Save demo_filled =
     ([Submitted [(''quantity'', int_val 5), (''expires_at'', JStr ''1970-01-01T00:00:00.000Z''), (''product_id'', JStr ''p1'')],
       InvalidateQueries ''inv''], demo_filled\<lparr>fs_touched := all_touched demo_form\<rparr>) \<and>
   dated (JStr ''1970-01-01T00:00:00.000Z'')"
proof -
  have e: "form_event demo_env demo_date_lib demo_form [''inv''] [] Save demo_filled =
     ([Submitted [(''quantity'', int_val 5), (''expires_at'', JStr ''1970-01-01T00:00:00.000Z''), (''product_id'', JStr ''p1'')],
       InvalidateQueries ''inv''], demo_filled\<lparr>fs_touched := all_touched demo_form\<rparr>)"
    by (simp add: save_effects demo_filled_def demo_form_def form_def required_field_def field_def initial_form_def
        form_valid_def field_valid_def validateField_def find_field_def process_date_def demo_date_lib_def)
  from form_submit_spec [OF e demo_iso_law] e show ?thesis
    by (simp add: demo_filled_def demo_form_def form_def required_field_def field_def initial_form_def
        form_valid_def field_valid_def validateField_def find_field_def process_date_def demo_date_lib_def)
qed

lemma process_dates_typed:
  assumes "form_ok cfg" "js_reduce (process_date L) fs vals = Inr vals'" "set fs \<subseteq> set (fc_fields cfg)" "values_typed cfg vals"
  shows "values_typed cfg vals'"
  using assms(2-)
proof (induction fs arbitrary: vals)
  case (Cons f fs)
  then obtain w where w: "process_date L vals f = Inr w" "js_reduce (process_date L) fs w = Inr vals'"
    by (auto simp: js_bind_eq_Inr)
  have "values_typed cfg w"
    using w(1) Cons.prems(2,3) find_field_unique [OF assms(1), of f]
    by (auto simp: process_date_def js_bind_eq_Inr split: if_splits jsval.splits intro!: values_typed_put [OF assms(1)])
  with Cons.IH [OF w(2)] Cons.prems(2) show ?case by simp
qed simp

text \<open>
  C5: Typing of the forms. Whatever a user types, chooses and saves in a form, and whatever well-typed initial
  values the page passes to it at first and later, the values of the form stay well-typed: a number field holds a
  number or is empty, a checkbox a boolean, every other plain field a string. When saving in such a
  state calls the page, the record it gets is well-typed as well, and no checked field of the
  form violated its validation; the record is the form's values with their dates converted.
\<close>

theorem submitted_records_typed:
  assumes "(form_step E L cfg qs iv)\<^sup>*\<^sup>* (initial_form iv) s" "form_ok cfg" "values_typed cfg iv"
  shows "values_typed cfg (fs_values s) \<and>
    (\<forall>vals effs s'. form_event E L cfg qs iv Save s = (Submitted vals # effs, s') \<longrightarrow>
       values_typed cfg vals \<and> form_valid cfg (fs_values s) \<and>
       js_reduce (process_date L) (fc_fields cfg) (fs_values s) = Inr vals)"
proof -
  have "values_typed cfg (fs_values s)"
    using form_steps_typed [OF assms] by (simp add: form_inv_def)
  then show ?thesis
    using process_dates_typed [OF assms(2), of L "fc_fields cfg" "fs_values s"] by (auto simp: save_effects split: if_splits sum.splits)
qed

lemmas demo_form_simps =
  demo_filled_def demo_form_def form_def required_field_def field_def initial_form_def form_valid_def field_valid_def
  validateField_def find_field_def process_date_def demo_date_lib_def values_typed_def

theorem submitted_records_typed_witness:
  "values_typed demo_form [(''product_id'', JStr ''p1''), (''quantity'', JNum NaN)] \<and>
   form_valid demo_form [(''product_id'', JStr ''p1''), (''quantity'', JNum NaN)]"
proof -
  let ?iv = "[(''product_id'', JStr ''p1'')]"
  let ?e = "Typed \<lparr>t_name = ''quantity'', t_value = ''5'', t_type = ''number'', t_checked = False\<rparr>"
  let ?i = "sync_initialValues ?iv (initial_form [])"
  let ?s = "snd (form_event demo_env demo_date_lib demo_form [] [] ?e ?i)"
  have s: "fs_values ?s = [(''product_id'', JStr ''p1''), (''quantity'', JNum NaN)]"
    by (simp add: form_event_def handleChange_def handleValueChange_def input_value_def demo_env_def demo_form_simps
        sync_initialValues_def)
  have "user_event demo_form ?i ?e"
    by (simp add: controls_def renderFields_def map_filter_def renderField_def FormField_def control_kind_of_def demo_form_simps
        sync_initialValues_def)
  then have "form_step demo_env demo_date_lib demo_form [] [] ?i ?s"
    by (intro form_step.edit edit_step.event)
  moreover have "form_step demo_env demo_date_lib demo_form [] [] (initial_form []) ?i"
    by (intro form_step.sync) (simp add: demo_form_simps)
  ultimately have "(form_step demo_env demo_date_lib demo_form [] [])\<^sup>*\<^sup>* (initial_form []) ?s"
    by (meson converse_rtranclp_into_rtranclp r_into_rtranclp)
  moreover have "form_event demo_env demo_date_lib demo_form [] [] Save ?s =
      ([Submitted [(''product_id'', JStr ''p1''), (''quantity'', JNum NaN)]], ?s\<lparr>fs_touched := all_touched demo_form, fs_errors := Map.empty\<rparr>)"
    unfolding save_effects s by (simp add: demo_form_simps)
  moreover have "values_typed demo_form []" by (simp add: demo_form_simps)
  ultimately show ?thesis
    using submitted_records_typed [OF _ demo_form_ok, of demo_env demo_date_lib "[]" "[]" ?s] s by simp
qed

text \<open>
  C27: What a form shows. From its first state on, and again from each submission on, each control shows an error exactly
  when its field has been changed or the form was submitted and the value now in the field fails its
  validation, and the message is the one of that value, also after the stale update of a hidden
  field; this lasts until the page passes other initial values, and those that came before the submission do not matter.
\<close>

theorem errors_shown_are_current:
  assumes "s0 = initial_form iv \<or>
      (\<exists>s. (form_step E L cfg qs iv)\<^sup>*\<^sup>* (initial_form iv) s \<and> s0 = snd (form_event E L cfg qs iv Save s))"
    and "(edit_step E L cfg qs iv)\<^sup>*\<^sup>* s0 s" "form_ok cfg" "values_typed cfg iv"
    and "c \<in> set (controls cfg s)"
  shows "ct_error c =
    (if fs_touched s (ct_name c) = Some True then error_of cfg (fs_values s) (ct_name c) else None)"
proof -
  have "form_inv True cfg s0"
    using assms(1,3,4) by (auto simp: initial_form_inv dest!: form_steps_typed [where cfg = cfg] intro!: save_inv)
      (simp add: form_inv_def)
  then have "errors_match cfg s" using edit_steps_inv [OF assms(2-4)] by (simp add: form_inv_def)
  then show ?thesis by (rule errors_displayed [OF _ assms(5)])
qed

theorem errors_shown_are_current_witness:
  "\<exists>c \<in> set (controls demo_form (snd (form_event demo_env demo_date_lib demo_form [] [] Save (initial_form [])))).
     ct_name c = ''quantity'' \<and> ct_error c = Some ''Quantity is required''"
proof -
  let ?s = "snd (form_event demo_env demo_date_lib demo_form [] [] Save (initial_form []))"
  let ?c = "\<lparr>ct_name = ''quantity'', ct_label = ''Quantity'', ct_required = True, ct_error = Some ''Quantity is required'',
      ct_helperText = None, ct_kind = Input ''number'' (JStr []) None\<rparr>"
  have s: "fs_values ?s = []" "fs_touched ?s ''quantity'' = Some True" "fs_errors ?s ''quantity'' = Some ''Quantity is required''"
    by (simp_all add: save_effects handleSubmit_def validateForm_def validate_step_def is_checked_def demo_form_simps all_touched_def)
  then have "renderField ?s (required_field ''quantity'' ''Quantity'' TNumber) = Some ?c"
    by (simp add: renderField_def FormField_def control_kind_of_def required_field_def field_def)
  then have c: "?c \<in> set (controls demo_form ?s)"
    by (simp add: controls_def renderFields_def map_filter_def demo_form_def form_def)
  have "(edit_step demo_env demo_date_lib demo_form [] [])\<^sup>*\<^sup>* (initial_form []) ?s"
    by (intro r_into_rtranclp edit_step.event) simp
  moreover have "values_typed demo_form []" by (simp add: demo_form_simps)
  ultimately have "ct_error ?c = error_of demo_form [] ''quantity''"
    using errors_shown_are_current [OF disjI1 [OF refl] _ demo_form_ok _ c] s by simp
  moreover have "error_of demo_form [] ''quantity'' = Some ''Quantity is required''"
    by (simp add: error_of_def demo_form_simps)
  ultimately have "ct_error ?c = Some ''Quantity is required''" by (rule trans)
  then show ?thesis by (rule bexI [OF conjI c, rotated]) simp
qed

text \<open>
  When the page passes other initial values the errors stay: a field whose new value is fine may
  go on showing the error of the old one, and one whose new value is missing shows none.
\<close>

theorem new_initial_values_keep_old_errors:
  assumes "c \<in> set (controls cfg (sync_initialValues iv' s))"
  shows "\<exists>d \<in> set (controls cfg s). ct_name d = ct_name c \<and> ct_error d = ct_error c"
proof -
  from assms obtain f where f: "f \<in> rendered_fields cfg" "renderField (sync_initialValues iv' s) f = Some c"
    by (auto simp: control_iff)
  obtain d where d: "renderField s f = Some d"
    using f(2) by (cases "ff_hidden f") (simp_all add: renderField_def Let_def)
  then have "d \<in> set (controls cfg s)" using f(1) by (auto simp: control_iff)
  moreover have "ct_name d = ct_name c" "ct_error d = ct_error c"
    using renderField_control(1,4) [OF d] renderField_control(1,4) [OF f(2)] by (simp_all add: sync_initialValues_def)
  ultimately show ?thesis by blast
qed

theorem new_initial_values_keep_old_errors_witness:
  "let s = snd (form_event demo_env demo_date_lib demo_form [] [] Save (initial_form []));
       s' = sync_initialValues [(''quantity'', int_val 5)] s
   in (\<exists>d \<in> set (controls demo_form s). ct_name d = ''quantity'' \<and> ct_error d = Some ''Quantity is required'') \<and>
      (\<exists>c \<in> set (controls demo_form s'). ct_name c = ''quantity'' \<and> ct_error c = Some ''Quantity is required'') \<and>
      error_of demo_form (fs_values s') ''quantity'' = None"
proof -
  let ?s = "snd (form_event demo_env demo_date_lib demo_form [] [] Save (initial_form []))"
  let ?t = "sync_initialValues [(''quantity'', int_val 5)] ?s"
  have "fs_touched ?t ''quantity'' = Some True" "fs_errors ?t ''quantity'' = Some ''Quantity is required''"
    by (simp_all add: save_effects handleSubmit_def validateForm_def validate_step_def is_checked_def demo_form_simps
        all_touched_def sync_initialValues_def)
  then have "\<exists>c. renderField ?t (required_field ''quantity'' ''Quantity'' TNumber) = Some c \<and> ct_name c = ''quantity'' \<and>
      ct_error c = Some ''Quantity is required''"
    by (simp add: renderField_def FormField_def control_kind_of_def required_field_def field_def)
  then obtain c where c: "c \<in> set (controls demo_form ?t)" "ct_name c = ''quantity''" "ct_error c = Some ''Quantity is required''"
    by (auto simp: control_iff rendered_fields_def demo_form_def form_def)
  have "error_of demo_form (fs_values ?t) ''quantity'' = None"
    by (simp add: error_of_def demo_form_simps sync_initialValues_def)
  moreover have "\<exists>d \<in> set (controls demo_form ?s). ct_name d = ''quantity'' \<and> ct_error d = Some ''Quantity is required''"
    using new_initial_values_keep_old_errors [OF c(1)] c(2,3) by simp
  ultimately show ?thesis unfolding Let_def using c by blast
qed

text \<open>
  Picking an option that fills a hidden field throws away everything else that was entered: the
  listener writes the values of the first render back, so afterwards the form holds its initial values
  and the stock-keeping unit, the picked value itself is lost, and only that field counts as touched.
\<close>

theorem hidden_field_update_discards_input:
  assumes "form_ok cfg" "form_inv cur cfg s" "user_event cfg s (Picked name opts v)"
    and "option_sku opts v = Inr sku" "js_truthy sku"
  shows "let s' = snd (form_event E L cfg qs iv (Picked name opts v) s)
         in fs_values s' = props_put iv ''sku'' sku \<and> fs_touched s' = [''sku'' \<mapsto> True] \<and>
            (name \<noteq> ''sku'' \<longrightarrow> prop_lookup (fs_values s') name = prop_lookup iv name)"
  using picked_state [OF assms, of E L qs iv] by (simp add: Let_def)

theorem hidden_field_update_discards_input_witness:
  "prop_lookup (fs_values (snd (form_event demo_env demo_date_lib demo_form [] []
      (Picked ''product_id'' [JObj [(''value'', JStr ''p1''), (''sku'', JStr ''S-1'')]] (JStr ''p1''))
      (initial_form [(''quantity'', int_val 5)])))) ''product_id'' = JUndef"
proof -
  let ?o = "[JObj [(''value'', JStr ''p1''), (''sku'', JStr ''S-1'')]]"
  let ?s = "initial_form [(''quantity'', int_val 5)]"
  have "user_event demo_form ?s (Picked ''product_id'' ?o (JStr ''p1''))" "option_sku ?o (JStr ''p1'') = Inr (JStr ''S-1'')"
    by (simp_all add: option_sku_def controls_def renderFields_def map_filter_def renderField_def FormField_def
        control_kind_of_def demo_form_simps demo_autocomplete_def)
  moreover have "form_inv True demo_form ?s"
    by (simp add: demo_form_simps form_inv_def errors_match_def)
  ultimately show ?thesis
    using hidden_field_update_discards_input [OF demo_form_ok, of True ?s "''product_id''" ?o "JStr ''p1''" "JStr ''S-1''"
        demo_env demo_date_lib "[]" "[]"]
    by (simp add: Let_def)
qed

end
