(* ===== verification/Backoffice_Director.thy ===== *)
theory Backoffice_Director
  imports Backoffice_Form
begin

text \<open>
  The modules of the backoffice: \<open>BackofficeBuilderImpl.tsx\<close>, which turns configurations into a module over
  the HTTP client, the configurations of \<open>BackofficeDirector.tsx\<close> for customers, warehouses, inventory,
  transactions and reservations with their statistics, and the list cards of \<open>InventoryStats.tsx\<close>. The
  module of the orders is in \<open>Backoffice_Orders\<close>.
\<close>

section \<open>The builder\<close>

record backoffice_config =
  bc_title :: string
  bc_basePath :: string
  bc_permissions :: "string list"

record builder =
  b_config :: "backoffice_config option"
  b_list :: "list_config option"
  b_form :: "form_config option"
  b_detail :: "detail_config option"
  b_apiEndpoint :: "string option"
  b_navItem :: "nav_item option"

definition new_builder :: builder where
  "new_builder = \<lparr>b_config = None, b_list = None, b_form = None, b_detail = None, b_apiEndpoint = None, b_navItem = None\<rparr>"

definition setConfig :: "backoffice_config \<Rightarrow> builder \<Rightarrow> builder" where
  "setConfig config b = b\<lparr>b_config := Some config\<rparr>"

definition setListConfig :: "list_config \<Rightarrow> builder \<Rightarrow> builder" where
  "setListConfig config b = b\<lparr>b_list := Some config\<rparr>"

definition setFormConfig :: "form_config \<Rightarrow> builder \<Rightarrow> builder" where
  "setFormConfig config b = b\<lparr>b_form := Some config\<rparr>"

definition setDetailConfig :: "detail_config \<Rightarrow> builder \<Rightarrow> builder" where
  "setDetailConfig config b = b\<lparr>b_detail := Some config\<rparr>"

definition setApiEndpoint :: "string \<Rightarrow> builder \<Rightarrow> builder" where
  "setApiEndpoint endpoint b = b\<lparr>b_apiEndpoint := Some endpoint\<rparr>"

definition setNavItem :: "nav_item \<Rightarrow> builder \<Rightarrow> builder" where
  "setNavItem item b = b\<lparr>b_navItem := Some item\<rparr>"

text \<open>What the HTTP client of the director runs with; the director's timeout is ten seconds.\<close>

record api_context =
  a_env :: js_env
  a_auth :: IAuthConfig
  a_browser :: browser_lib
  a_net :: "sent_request \<Rightarrow> fetch_outcome"
  a_service :: api_service

definition director_service :: "string \<Rightarrow> api_service" where
  "director_service apiBaseUrl = \<lparr>baseUrl = apiBaseUrl, defaultHeaders = Map.empty, defaultTimeout = 10000\<rparr>"

definition with_params :: "(string \<times> string) list \<Rightarrow> RequestConfig" where
  "with_params ps = no_config\<lparr>cfg_params := ps\<rparr>"

definition api_get :: "api_context \<Rightarrow> string \<Rightarrow> RequestConfig \<Rightarrow> (window, jsval) op" where
  "api_get A = ApiService_get (a_env A) (a_auth A) (a_browser A) (a_net A) (a_service A)"

definition api_post :: "api_context \<Rightarrow> string \<Rightarrow> jsval \<Rightarrow> (window, jsval) op" where
  "api_post A endpoint data = ApiService_post (a_env A) (a_auth A) (a_browser A) (a_net A) (a_service A) endpoint data no_config"

definition api_put :: "api_context \<Rightarrow> string \<Rightarrow> jsval \<Rightarrow> (window, jsval) op" where
  "api_put A endpoint data = ApiService_put (a_env A) (a_auth A) (a_browser A) (a_net A) (a_service A) endpoint data no_config"

definition api_delete :: "api_context \<Rightarrow> string \<Rightarrow> (window, jsval) op" where
  "api_delete A endpoint = ApiService_delete (a_env A) (a_auth A) (a_browser A) (a_net A) (a_service A) endpoint no_config"

record module =
  m_config :: backoffice_config
  m_apiEndpoint :: string
  m_fetchList :: "(string \<times> string) list \<Rightarrow> (window, jsval) op"
  m_fetchItem :: "string \<Rightarrow> (window, jsval) op"
  m_createItem :: "jsval \<Rightarrow> (window, jsval) op"
  m_updateItem :: "string \<Rightarrow> jsval \<Rightarrow> (window, jsval) op"
  m_deleteItem :: "string \<Rightarrow> (window, jsval) op"
  m_listConfig :: "list_config option"
  m_formConfig :: "form_config option"
  m_detailConfig :: "detail_config option"
  m_navItem :: "nav_item option"

definition build :: "api_context \<Rightarrow> builder \<Rightarrow> module js" where
  "build A b =
     (case b_config b of
        None \<Rightarrow> Inl (JsError ''Backoffice config is required'')
      | Some config \<Rightarrow>
          if \<not> truthy (b_apiEndpoint b) then Inl (JsError ''API endpoint is required'')
          else let endpoint = the (b_apiEndpoint b)
               in Inr \<lparr>m_config = config, m_apiEndpoint = endpoint,
                    m_fetchList = (\<lambda>params. api_get A endpoint (with_params params)),
                    m_fetchItem = (\<lambda>i. api_get A (endpoint @ ''/'' @ i) no_config),
                    m_createItem = (\<lambda>data. api_post A endpoint data),
                    m_updateItem = (\<lambda>i data. api_put A (endpoint @ ''/'' @ i) data),
                    m_deleteItem = (\<lambda>i. api_delete A (endpoint @ ''/'' @ i)),
                    m_listConfig = b_list b, m_formConfig = b_form b, m_detailConfig = b_detail b,
                    m_navItem = b_navItem b\<rparr>)"

definition getListPath :: "module \<Rightarrow> string" where
  "getListPath m = bc_basePath (m_config m)"

definition getDetailPath :: "module \<Rightarrow> string \<Rightarrow> string" where
  "getDetailPath m i = bc_basePath (m_config m) @ ''/'' @ i"

definition getCreatePath :: "module \<Rightarrow> string" where
  "getCreatePath m = bc_basePath (m_config m) @ ''/create''"

definition getEditPath :: "module \<Rightarrow> string \<Rightarrow> string" where
  "getEditPath m i = bc_basePath (m_config m) @ ''/'' @ i @ ''/edit''"

section \<open>Customers\<close>

definition customer_config :: backoffice_config where
  "customer_config = \<lparr>bc_title = ''Customers'', bc_basePath = ''/backoffice/customers'',
     bc_permissions = [''view_customers'', ''edit_customers'']\<rparr>"

definition customer_list :: list_config where
  "customer_list =
     \<lparr>lc_columns = [col ''name'' ''Name'', col ''email'' ''Email'', col ''phone'' ''Phone'', col ''created_at'' ''Created At''],
      lc_searchFields = [''name'', ''email'', ''phone''],
      lc_filters = [],
      lc_actions =
        [\<lparr>ia_label = ''Edit'', ia_permission = ''edit_customers'', ia_action = (\<lambda>item. Inr [(''Edit'', item)])\<rparr>,
         \<lparr>ia_label = ''Delete'', ia_permission = ''edit_customers'', ia_action = (\<lambda>item. Inr [(''Delete'', item)])\<rparr>]\<rparr>"

definition customer_form :: "js_env \<Rightarrow> form_config" where
  "customer_form E = form
     [required_field ''name'' ''Name'' TText,
      (required_field ''email'' ''Email'' TText)\<lparr>ff_validation := Some (validate_email E)\<rparr>,
      field ''phone'' ''Phone'' TText]"

definition customer_order_display :: "ui_lib \<Rightarrow> jsval \<Rightarrow> node js" where
  "customer_order_display U item =
     js_bind (get_str (u_env U) item ''id'') (\<lambda>i.
     js_bind (js_get item ''created_at'') (\<lambda>c.
     js_bind (new_Date (u_dates U) c) (\<lambda>t.
     js_bind (toISOString (u_dates U) t) (\<lambda>iso.
       Inr (ntext (i @ '' - '' @ map (\<lambda>x. if x = CHR ''-'' then CHR ''/'' else x) (take 10 iso) @ '' 00:00''))))))"

definition customer_detail :: "ui_lib \<Rightarrow> detail_config" where
  "customer_detail U =
     \<lparr>dc_sections =
        [(''Customer Information'',
          [col ''name'' ''Name'', col ''email'' ''Email'', col ''phone'' ''Phone'', col ''created_at'' ''Created At'']),
         (''Customer Notes'', [col ''notes'' ''Notes''])],
      dc_related = [\<lparr>re_title = ''Orders'', re_entity = ''orders'', re_relationField = ''customer_id'',
        re_display = customer_order_display U\<rparr>]\<rparr>"

definition buildCustomerModule :: "ui_lib \<Rightarrow> api_context \<Rightarrow> module js" where
  "buildCustomerModule U A =
     build A (setDetailConfig (customer_detail U) (setFormConfig (customer_form (u_env U)) (setListConfig customer_list
       (setNavItem \<lparr>nav_label = ''Customers'', nav_href = ''/backoffice/customers''\<rparr>
       (setApiEndpoint ''/api/customers'' (setConfig customer_config new_builder))))))"

section \<open>Warehouses\<close>

definition warehouse_config :: backoffice_config where
  "warehouse_config = \<lparr>bc_title = ''Warehouses'', bc_basePath = ''/backoffice/warehouses'',
     bc_permissions = [''view_warehouses'', ''edit_warehouses'']\<rparr>"

definition warehouse_statuses :: "(string \<times> string) list" where
  "warehouse_statuses = [(''active'', ''Active''), (''inactive'', ''Inactive''), (''maintenance'', ''Maintenance'')]"

definition warehouse_list :: list_config where
  "warehouse_list =
     \<lparr>lc_columns =
        [col ''name'' ''Name'', col ''code'' ''Code'', col ''address_line1'' ''Address Line 1'',
         col ''address_line2'' ''Address Line 2'', col ''city'' ''City'', col ''state'' ''State'',
         col ''postal_code'' ''Postal Code'', col ''country'' ''Country'', col ''contact_name'' ''Contact Name'',
         col ''contact_email'' ''Contact Email'', col ''contact_phone'' ''Contact Phone'', col ''active'' ''Active''],
      lc_searchFields =
        [''name'', ''code'', ''address_line1'', ''city'', ''state'', ''postal_code'', ''country'', ''contact_name'',
         ''contact_email'', ''contact_phone''],
      lc_filters =
        [select_filter ''status'' ''Status'' warehouse_statuses,
         \<lparr>fl_field = ''active'', fl_label = ''Active'', fl_type = FBoolean,
          fl_options = [(''true'', ''Active''), (''false'', ''Inactive'')]\<rparr>],
      lc_actions = []\<rparr>"

definition warehouse_form :: form_config where
  "warehouse_form = form
     [required_field ''name'' ''Name'' TText,
      required_field ''code'' ''Code'' TText,
      required_field ''location'' ''Location'' TText,
      required_field ''address_line1'' ''Address Line 1'' TText,
      field ''address_line2'' ''Address Line 2'' TText,
      required_field ''city'' ''City'' TText,
      required_field ''state'' ''State'' TText,
      required_field ''postal_code'' ''Postal Code'' TText,
      required_field ''country'' ''Country'' TText,
      field ''contact_name'' ''Contact Name'' TText,
      field ''contact_email'' ''Contact Email'' TText,
      field ''contact_phone'' ''Contact Phone'' TText,
      select_field ''status'' ''Status'' warehouse_statuses,
      field ''description'' ''Description'' TTextarea,
      required_field ''price'' ''Price'' TNumber]"

definition warehouse_inventory_display :: "ui_lib \<Rightarrow> jsval \<Rightarrow> node js" where
  "warehouse_inventory_display U item =
     js_bind (js_get item ''product'') (\<lambda>p.
     js_bind (get_str (u_env U) p ''name'') (\<lambda>name.
     js_bind (get_str (u_env U) item ''quantity'') (\<lambda>q. Inr (ntext (name @ '' - '' @ q @ '' units'')))))"

definition warehouse_detail :: "ui_lib \<Rightarrow> detail_config" where
  "warehouse_detail U =
     \<lparr>dc_sections =
        [(''Warehouse Information'',
          [col ''name'' ''Name'', col ''code'' ''Code'', col ''address_line1'' ''Address Line 1'',
           col ''address_line2'' ''Address Line 2'', col ''city'' ''City'', col ''state'' ''State'',
           col ''postal_code'' ''Postal Code'', col ''country'' ''Country'', col ''contact_name'' ''Contact Name'',
           col ''contact_email'' ''Contact Email'', col ''description'' ''Description''])],
      dc_related = [\<lparr>re_title = ''Inventory'', re_entity = ''inventory'', re_relationField = ''warehouse_id'',
        re_display = warehouse_inventory_display U\<rparr>]\<rparr>"

definition buildWarehouseModule :: "ui_lib \<Rightarrow> api_context \<Rightarrow> module js" where
  "buildWarehouseModule U A =
     build A (setDetailConfig (warehouse_detail U) (setFormConfig warehouse_form (setListConfig warehouse_list
       (setNavItem \<lparr>nav_label = ''Warehouses'', nav_href = ''/backoffice/warehouses''\<rparr>
       (setApiEndpoint ''/api/warehouses'' (setConfig warehouse_config new_builder))))))"

section \<open>Inventory\<close>

definition inventory_config :: backoffice_config where
  "inventory_config = \<lparr>bc_title = ''Inventory'', bc_basePath = ''/backoffice/inventory'',
     bc_permissions = [''view_inventory'', ''edit_inventory'']\<rparr>"

definition inventory_categories :: "(string \<times> string) list" where
  "inventory_categories =
     [(''electronics'', ''Electronics''), (''clothing'', ''Clothing''), (''furniture'', ''Furniture''), (''books'', ''Books''),
      (''toys'', ''Toys''), (''food'', ''Food & Beverages''), (''health'', ''Health & Beauty''),
      (''sports'', ''Sports & Outdoors''), (''automotive'', ''Automotive''), (''office'', ''Office Supplies''), (''other'', ''Other'')]"

text \<open>The optional call \<open>priceAsNumber?.toFixed(2)\<close> of a missing price is \<open>undefined\<close>.\<close>

definition render_price :: "ui_lib \<Rightarrow> jsval \<Rightarrow> jsval \<Rightarrow> node js" where
  "render_price U value item =
     (let price = number_of_string (u_env U) value
      in if price = JUndef \<or> price = JNull then Inr (ntext ''$undefined'')
         else js_bind (val_toFixed2 (u_env U) price) (\<lambda>t. Inr (ntext (''$'' @ t))))"

text \<open>\<open>JSON.parse\<close> of a string, any other value as it is; \<open>None\<close> when the text does not parse.\<close>

fun parsed_attributes :: "browser_lib \<Rightarrow> jsval \<Rightarrow> jsval option" where
  "parsed_attributes Lb (JStr s) = json_parse Lb s"
| "parsed_attributes Lb v = Some v"

definition render_attributes :: "string \<Rightarrow> string \<Rightarrow> string \<Rightarrow> ui_lib \<Rightarrow> jsval \<Rightarrow> jsval \<Rightarrow> node js" where
  "render_attributes none invalid component U value item =
     Inr (if \<not> js_truthy value then ntext none
          else case parsed_attributes (u_browser U) value of
                 None \<Rightarrow> ntext invalid
               | Some attrs \<Rightarrow> NComp component [(''attributes'', attrs)])"

definition inventory_list :: "ui_lib \<Rightarrow> list_config" where
  "inventory_list U =
     \<lparr>lc_columns =
        [col ''sku'' ''Sku'', col ''name'' ''Name'', col ''category'' ''Category'', col ''description'' ''Description'',
         col ''warehouse_name'' ''Warehouse'', col ''quantity'' ''Quantity'',
         rcol ''price'' ''Price'' (render_price U),
         col ''low_stock_threshold'' ''Low Stock Threshold'', col ''overstock_threshold'' ''Overstock Threshold'',
         rcol ''attributes'' ''Attributes'' (render_attributes ''None'' ''Invalid format'' ''AttributesBadges'' U)],
      lc_searchFields = [''sku'', ''name'', ''description'', ''warehouse_name'', ''category''],
      lc_filters = [select_filter ''warehouse_id'' ''Warehouse'' [], select_filter ''category'' ''Category'' inventory_categories],
      lc_actions = []\<rparr>"

definition named_option :: "jsval \<Rightarrow> jsval js" where
  "named_option item = js_bind (js_get item ''id'') (\<lambda>i. js_bind (js_get item ''name'') (\<lambda>n.
     Inr (JObj [(''value'', i), (''label'', n)])))"

definition warehouse_autocomplete :: autocomplete where
  "warehouse_autocomplete = \<lparr>ac_label = ''Warehouse'', ac_queryKey = ''warehouses-search'', ac_endpoint = ''/api/warehouses'',
     ac_placeholder = ''Search for a warehouse...'', ac_option = named_option, ac_fills_sku = False\<rparr>"

definition fetchOptions :: "api_context \<Rightarrow> autocomplete \<Rightarrow> string \<Rightarrow> window \<Rightarrow> jsval list \<times> window" where
  "fetchOptions A ac search w =
     (case api_get A (ac_endpoint ac) (with_params [(''search'', search)]) w of
        (Inl e, w') \<Rightarrow> ([], w')
      | (Inr response, w') \<Rightarrow>
          (case js_bind (js_get response ''data'') (\<lambda>d. js_bind (js_elements d) (js_map (ac_option ac))) of
             Inl e \<Rightarrow> [] | Inr opts \<Rightarrow> opts, w'))"

definition warehouse_field :: form_field where
  "warehouse_field = (required_field ''warehouse_id'' ''Warehouse'' TAutocomplete)
     \<lparr>ff_component := Some (AutocompleteComponent warehouse_autocomplete)\<rparr>"

text \<open>The value that the attributes field gives to its editor.\<close>

fun attributesObj :: "browser_lib \<Rightarrow> jsval \<Rightarrow> jsval" where
  "attributesObj Lb (JStr s) = (case json_parse Lb s of None \<Rightarrow> JObj [] | Some v \<Rightarrow> v)"
| "attributesObj Lb JUndef = JNull"
| "attributesObj Lb v = v"

definition inventory_form :: form_config where
  "inventory_form = form
     [required_field ''sku'' ''Sku'' TText,
      required_field ''name'' ''Name'' TText,
      select_field ''category'' ''Category'' inventory_categories,
      field ''description'' ''Description'' TText,
      warehouse_field,
      required_field ''quantity'' ''Quantity'' TNumber,
      required_field ''price'' ''Price'' TNumber,
      (field ''attributes'' ''Attributes'' TCustom)\<lparr>ff_component := Some AttributesComponent\<rparr>,
      field ''low_stock_threshold'' ''Low Stock Threshold'' TNumber,
      field ''overstock_threshold'' ''Overstock Threshold'' TNumber]"

definition render_available :: "ui_lib \<Rightarrow> jsval \<Rightarrow> jsval \<Rightarrow> node js" where
  "render_available U value item =
     (if value = JNum (Fin 0) then Inr (span ''text-red-600 font-bold'' [ntext ''0 - Out of Stock''])
      else js_bind (js_get item ''low_stock_threshold'') (\<lambda>low.
        js_bind (if js_truthy low then js_less (u_env U) value low else Inr False) (\<lambda>b.
          Inr (if b then span ''text-amber-600 font-bold'' [NVal value, ntext '' - Low Stock'']
               else span ''text-green-600 font-bold'' [NVal value]))))"

definition render_total_value :: "ui_lib \<Rightarrow> jsval \<Rightarrow> jsval \<Rightarrow> node js" where
  "render_total_value U value item =
     js_bind (js_get item ''price'') (\<lambda>p. js_bind (js_get item ''quantity'') (\<lambda>q.
     js_bind (js_times (u_env U) p q) (\<lambda>total. Inr (ntext (''$'' @ toFixed2 (u_env U) total)))))"

definition stock_badge :: "string \<Rightarrow> string \<Rightarrow> node" where
  "stock_badge colour text =
     span (''text-'' @ colour @ ''-600 bg-'' @ colour @ ''-100 px-2 py-1 rounded'') [ntext text]"

definition render_stock_status :: "ui_lib \<Rightarrow> jsval \<Rightarrow> jsval \<Rightarrow> node js" where
  "render_stock_status U value item =
     js_bind (js_get item ''quantity'') (\<lambda>q.
       if q = JNum (Fin 0) then Inr (stock_badge ''red'' ''Out of Stock'')
       else js_bind (js_get item ''low_stock_threshold'') (\<lambda>low. js_bind (js_less (u_env U) q low) (\<lambda>is_low.
         if is_low then Inr (stock_badge ''amber'' ''Low Stock'')
         else js_bind (js_get item ''overstock_threshold'') (\<lambda>over. js_bind (js_less (u_env U) over q) (\<lambda>is_over.
           Inr (if is_over then stock_badge ''blue'' ''Overstock'' else stock_badge ''green'' ''Optimal''))))))"

definition render_datetime :: "ui_lib \<Rightarrow> jsval \<Rightarrow> jsval \<Rightarrow> node js" where
  "render_datetime U value item = js_bind (new_Date (u_dates U) value) (\<lambda>t. Inr (ntext (toLocaleString U t)))"

definition render_datetime_or_na :: "ui_lib \<Rightarrow> jsval \<Rightarrow> jsval \<Rightarrow> node js" where
  "render_datetime_or_na U value item = (if js_truthy value then render_datetime U value item else Inr (ntext ''N/A''))"

text \<open>\<open>item.type === "add" || item.type === "release"\<close>\<close>

definition is_incoming :: "jsval \<Rightarrow> bool js" where
  "is_incoming item = js_bind (js_get item ''type'') (\<lambda>ty. Inr (ty = JStr ''add'' \<or> ty = JStr ''release''))"

definition inventory_transaction_display :: "ui_lib \<Rightarrow> jsval \<Rightarrow> node js" where
  "inventory_transaction_display U item =
     js_bind (js_get item ''timestamp'') (\<lambda>ts. js_bind (new_Date (u_dates U) ts) (\<lambda>t.
     js_bind (is_incoming item) (\<lambda>inc. js_bind (get_str (u_env U) item ''quantity'') (\<lambda>q.
     js_bind (js_get item ''type'') (\<lambda>ty. js_bind (str_method toUpperCase ty) (\<lambda>TY.
       Inr (ntext (toLocaleDateString U t @ '' '' @ toLocaleTimeString U t @ '' - '' @ TY @ '' '' @
         (if inc then ''+'' else ''-'') @ q))))))))"

definition inventory_reservation_display :: "ui_lib \<Rightarrow> jsval \<Rightarrow> node js" where
  "inventory_reservation_display U item =
     js_bind (js_get item ''status'') (\<lambda>st.
       if st \<noteq> JStr ''pending'' then Inr (NVal JNull)
       else js_bind (js_get item ''order_id'') (\<lambda>o_id. js_bind (str_method (take 8) o_id) (\<lambda>oid.
         js_bind (get_str (u_env U) item ''quantity'') (\<lambda>q.
         js_bind (js_get item ''expires_at'') (\<lambda>x. js_bind (new_Date (u_dates U) x) (\<lambda>t.
           Inr (ntext (''Order #'' @ oid @ '' - '' @ q @ '' units - Expires: '' @ toLocaleDateString U t))))))))"

definition inventory_detail_levels :: "ui_lib \<Rightarrow> column list" where
  "inventory_detail_levels U =
     [col ''quantity'' ''Total Quantity'', col ''reserved'' ''Reserved Quantity'',
      rcol ''available'' ''Available Quantity'' (render_available U), col ''price'' ''Unit Price'',
      rcol ''total_value'' ''Total Value'' (render_total_value U)]"

definition inventory_detail_stock :: "ui_lib \<Rightarrow> column list" where
  "inventory_detail_stock U =
     [col ''low_stock_threshold'' ''Low Stock Threshold'', col ''overstock_threshold'' ''Overstock Threshold'',
      rcol ''stock_status'' ''Stock Status'' (render_stock_status U),
      rcol ''last_updated'' ''Last Updated'' (render_datetime_or_na U)]"

definition inventory_related :: "ui_lib \<Rightarrow> related list" where
  "inventory_related U =
     [\<lparr>re_title = ''Recent Transactions'', re_entity = ''transactions'', re_relationField = ''item_id'',
       re_display = inventory_transaction_display U\<rparr>,
      \<lparr>re_title = ''Active Reservations'', re_entity = ''reservations'', re_relationField = ''product_id'',
       re_display = inventory_reservation_display U\<rparr>]"

definition inventory_detail :: "ui_lib \<Rightarrow> detail_config" where
  "inventory_detail U =
     \<lparr>dc_sections =
        [(''General Information'',
          [col ''sku'' ''Sku'', col ''name'' ''Name'', col ''category'' ''Category'', col ''description'' ''Description'',
           col ''warehouse_name'' ''Warehouse'']),
         (''Inventory Levels'', inventory_detail_levels U),
         (''Stock Management'', inventory_detail_stock U),
         (''Product Attributes'',
          [rcol ''attributes'' ''Attributes''
             (render_attributes ''No attributes defined'' ''Invalid attribute format'' ''AttributesDisplay'' U)])],
      dc_related = inventory_related U\<rparr>"

definition buildInventoryModule :: "ui_lib \<Rightarrow> api_context \<Rightarrow> module js" where
  "buildInventoryModule U A =
     build A (setDetailConfig (inventory_detail U) (setFormConfig inventory_form (setListConfig (inventory_list U)
       (setNavItem \<lparr>nav_label = ''Inventory'', nav_href = ''/backoffice/inventory''\<rparr>
       (setApiEndpoint ''/api/inventory'' (setConfig inventory_config new_builder))))))"

text \<open>The cards of the statistics, each with its title and its value.\<close>

definition count_rows :: "(jsval \<Rightarrow> bool js) \<Rightarrow> jsval list \<Rightarrow> nat js" where
  "count_rows p rows = js_bind (js_filter p rows) (\<lambda>ys. Inr (length ys))"

definition status_is :: "string \<Rightarrow> jsval \<Rightarrow> bool js" where
  "status_is st item = js_bind (js_get item ''status'') (\<lambda>v. Inr (v = JStr st))"

definition js_or_else :: "bool js \<Rightarrow> bool js \<Rightarrow> bool js" where
  "js_or_else a b = js_bind a (\<lambda>x. if x then Inr True else b)"

definition js_and_then :: "bool js \<Rightarrow> bool js \<Rightarrow> bool js" where
  "js_and_then a b = js_bind a (\<lambda>x. if x then b else Inr False)"

definition quantity_below :: "js_env \<Rightarrow> string \<Rightarrow> jsval \<Rightarrow> bool js" where
  "quantity_below E k item = js_bind (js_get item ''quantity'') (\<lambda>q. js_bind (js_get item k) (\<lambda>t. js_less E q t))"

definition quantity_above :: "js_env \<Rightarrow> string \<Rightarrow> jsval \<Rightarrow> bool js" where
  "quantity_above E k item = js_bind (js_get item ''quantity'') (\<lambda>q. js_bind (js_get item k) (\<lambda>t. js_less E t q))"

definition quantity_positive :: "js_env \<Rightarrow> jsval \<Rightarrow> bool js" where
  "quantity_positive E item = js_bind (js_get item ''quantity'') (\<lambda>q. js_less E (JNum (Fin 0)) q)"

definition quantity_zero :: "jsval \<Rightarrow> bool js" where
  "quantity_zero item = js_bind (js_get item ''quantity'') (\<lambda>q. Inr (q = JNum (Fin 0)))"

definition low_stock :: "js_env \<Rightarrow> string \<Rightarrow> jsval \<Rightarrow> bool js" where
  "low_stock E k item =
     js_or_else (status_is ''Low Stock'' item) (js_and_then (quantity_below E k item) (quantity_positive E item))"

definition out_of_stock :: "jsval \<Rightarrow> bool js" where
  "out_of_stock item = js_or_else (status_is ''Out of Stock'' item) (quantity_zero item)"

definition overstocked :: "js_env \<Rightarrow> jsval \<Rightarrow> bool js" where
  "overstocked E item = js_or_else (status_is ''Overstock'' item) (quantity_above E ''overstock_threshold'' item)"

definition inventory_renderStats :: "js_env \<Rightarrow> jsval list \<Rightarrow> (string \<times> nat) list js" where
  "inventory_renderStats E rows =
     js_bind (count_rows (low_stock E ''low_stock_threshold'') rows) (\<lambda>low.
     js_bind (count_rows (overstocked E) rows) (\<lambda>over.
     js_bind (count_rows out_of_stock rows) (\<lambda>out.
       Inr [(''Total Items'', length rows), (''Low Stock Alerts'', low), (''Overstock Items'', over), (''Out of Stock'', out)])))"

text \<open>\<open>InventoryStats\<close>, the cards that the list page shows.\<close>

definition InventoryStats :: "js_env \<Rightarrow> jsval list \<Rightarrow> (string \<times> nat) list js" where
  "InventoryStats E rows =
     js_bind (count_rows (low_stock E ''minQuantity'') rows) (\<lambda>low.
     js_bind (count_rows out_of_stock rows) (\<lambda>out.
       Inr [(''Total Items'', length rows), (''Low Stock Alerts'', low), (''Out of Stock'', out)]))"

section \<open>Inventory transactions\<close>

definition transactions_config :: backoffice_config where
  "transactions_config = \<lparr>bc_title = ''Inv. Transactions'', bc_basePath = ''/backoffice/transactions'',
     bc_permissions = [''view_inventory'', ''edit_inventory'']\<rparr>"

definition stock_option :: "js_env \<Rightarrow> jsval \<Rightarrow> jsval js" where
  "stock_option E item =
     js_bind (js_get item ''id'') (\<lambda>i. js_bind (get_str E item ''name'') (\<lambda>name.
     js_bind (get_str E item ''sku'') (\<lambda>s. js_bind (get_str E item ''quantity'') (\<lambda>q.
     js_bind (js_get item ''sku'') (\<lambda>sku.
       Inr (JObj [(''value'', i), (''label'', JStr (name @ '' ('' @ s @ '') - '' @ q @ '' in stock'')), (''sku'', sku)]))))))"

definition item_autocomplete :: "js_env \<Rightarrow> autocomplete" where
  "item_autocomplete E = \<lparr>ac_label = ''Inventory Item'', ac_queryKey = ''inventory-search'', ac_endpoint = ''/api/inventory'',
     ac_placeholder = ''Search for an inventory item...'', ac_option = stock_option E, ac_fills_sku = True\<rparr>"

definition transaction_types :: "(string \<times> string) list" where
  "transaction_types =
     [(''add'', ''Add Stock''), (''remove'', ''Remove Stock''), (''transfer'', ''Transfer Stock''), (''adjust'', ''Adjustment''),
      (''reserve'', ''Reserve''), (''unreserve'', ''Release Reservation''), (''allocate'', ''Allocate for Order''),
      (''deallocate'', ''Deallocate from Order'')]"

definition transactions_form :: "js_env \<Rightarrow> form_config" where
  "transactions_form E = form
     [(required_field ''item_id'' ''Inventory Item'' TAutocomplete)
        \<lparr>ff_component := Some (AutocompleteComponent (item_autocomplete E))\<rparr>,
      (field ''sku'' ''SKU'' TText)\<lparr>ff_hidden := True\<rparr>,
      warehouse_field,
      (required_field ''quantity'' ''Quantity'' TNumber)\<lparr>ff_validation := Some (validate_nonzero E)\<rparr>,
      select_field ''transaction_type'' ''Transaction Type'' transaction_types,
      (field ''reference'' ''Reference'' TText)\<lparr>ff_helperText := Some ''Order ID, adjustment reference, etc.''\<rparr>]"

fun num_abs :: "jsnum \<Rightarrow> jsnum" where
  "num_abs (Fin x) = Fin \<bar>x\<bar>"
| "num_abs NaN = NaN"
| "num_abs PosInf = PosInf"
| "num_abs NegInf = PosInf"

definition render_transaction_quantity :: "ui_lib \<Rightarrow> jsval \<Rightarrow> jsval \<Rightarrow> node js" where
  "render_transaction_quantity U value row =
     js_bind (is_incoming row) (\<lambda>isPositive. js_bind (js_toNumber (u_env U) value) (\<lambda>n.
       Inr (span (if isPositive then ''text-green-600'' else ''text-red-600'')
              [ntext (if isPositive then ''+'' else ''-''), NVal (JNum (num_abs n))])))"

definition transaction_class :: "jsval \<Rightarrow> string" where
  "transaction_class value =
     (if value = JStr ''add'' then ''text-green-600 bg-green-100''
      else if value = JStr ''remove'' then ''text-red-600 bg-red-100''
      else if value = JStr ''allocate'' then ''text-amber-600 bg-amber-100''
      else if value = JStr ''release'' then ''text-blue-600 bg-blue-100''
      else ''text-gray-600 bg-gray-100'')"

definition render_badge :: "(jsval \<Rightarrow> string) \<Rightarrow> jsval \<Rightarrow> jsval \<Rightarrow> node js" where
  "render_badge cls value item = Inr (span (cls value @ '' px-2 py-1 rounded'') [NVal value])"

definition transactions_list :: "ui_lib \<Rightarrow> list_config" where
  "transactions_list U =
     \<lparr>lc_columns =
        [col ''id'' ''Transaction ID'', col ''item_name'' ''Item Name'', col ''item_sku'' ''SKU'', col ''warehouse_name'' ''Warehouse'',
         rcol ''quantity'' ''Quantity'' (render_transaction_quantity U),
         rcol ''transaction_type'' ''Transaction Type'' (render_badge transaction_class),
         col ''reference'' ''Reference'',
         rcol ''timestamp'' ''Date/Time'' (render_datetime U)],
      lc_searchFields = [''item_name'', ''item_sku'', ''reference''],
      lc_filters =
        [select_filter ''type'' ''Transaction Type''
           [(''add'', ''Add''), (''remove'', ''Remove''), (''allocate'', ''Allocate''), (''release'', ''Release'')],
         select_filter ''warehouse_id'' ''Warehouse'' []],
      lc_actions = []\<rparr>"

definition transactions_detail :: "ui_lib \<Rightarrow> detail_config" where
  "transactions_detail U =
     \<lparr>dc_sections =
        [(''Transaction Details'',
          [col ''id'' ''Transaction ID'', col ''item_name'' ''Item Name'', col ''item_sku'' ''SKU'', col ''warehouse_name'' ''Warehouse'',
           col ''quantity'' ''Quantity'', col ''type'' ''Transaction Type'', col ''reference'' ''Reference'',
           rcol ''timestamp'' ''Date/Time'' (render_datetime U)])],
      dc_related = []\<rparr>"

definition buildInventoryTransactionsModule :: "ui_lib \<Rightarrow> api_context \<Rightarrow> module js" where
  "buildInventoryTransactionsModule U A =
     build A (setDetailConfig (transactions_detail U) (setListConfig (transactions_list U) (setFormConfig (transactions_form (u_env U))
       (setNavItem \<lparr>nav_label = ''Inv. Transactions'', nav_href = ''/backoffice/transactions''\<rparr>
       (setApiEndpoint ''/api/inventory/transactions'' (setConfig transactions_config new_builder))))))"

definition type_is :: "string \<Rightarrow> jsval \<Rightarrow> bool js" where
  "type_is ty tx = js_bind (js_get tx ''type'') (\<lambda>v. Inr (v = JStr ty))"

text \<open>\<open>a >= b\<close> of numbers is false when one of them is not a number.\<close>

definition num_le :: "jsnum \<Rightarrow> jsnum \<Rightarrow> bool" where
  "num_le a b \<longleftrightarrow> a \<noteq> NaN \<and> b \<noteq> NaN \<and> \<not> num_lt b a"

definition is_today :: "ui_lib \<Rightarrow> jsnum \<Rightarrow> jsval \<Rightarrow> bool js" where
  "is_today U now tx = js_bind (js_get tx ''timestamp'') (\<lambda>ts. js_bind (new_Date (u_dates U) ts) (\<lambda>d.
     Inr (num_le (local_midnight U now) d)))"

definition transactions_renderStats :: "ui_lib \<Rightarrow> jsnum \<Rightarrow> jsval list \<Rightarrow> (string \<times> nat) list js" where
  "transactions_renderStats U now rows =
     js_bind (count_rows (is_today U now) rows) (\<lambda>today.
     js_bind (count_rows (type_is ''add'') rows) (\<lambda>added.
     js_bind (count_rows (type_is ''remove'') rows) (\<lambda>removed.
       Inr [(''Total Transactions'', length rows), (''Today'' @ [char_of (39 :: nat)] @ ''s Transactions'', today),
            (''Stock Additions'', added), (''Stock Removals'', removed)])))"

section \<open>Inventory reservations\<close>

definition reservations_config :: backoffice_config where
  "reservations_config = \<lparr>bc_title = ''Inv. Reservations'', bc_basePath = ''/backoffice/reservations'',
     bc_permissions = [''view_inventory'', ''edit_inventory'']\<rparr>"

definition order_option :: "js_env \<Rightarrow> jsval \<Rightarrow> jsval js" where
  "order_option E order =
     js_bind (js_get order ''id'') (\<lambda>i. js_bind (str_method (take 8) i) (\<lambda>short.
     js_bind (get_str E order ''customer_name'') (\<lambda>c. js_bind (get_str E order ''status'') (\<lambda>st.
       Inr (JObj [(''value'', i), (''label'', JStr (''Order #'' @ short @ '' - '' @ c @ '' - '' @ st))])))))"

definition order_autocomplete :: "js_env \<Rightarrow> autocomplete" where
  "order_autocomplete E = \<lparr>ac_label = ''Order'', ac_queryKey = ''orders-search'', ac_endpoint = ''/api/orders'',
     ac_placeholder = ''Search for an order...'', ac_option = order_option E, ac_fills_sku = False\<rparr>"

definition product_autocomplete :: "js_env \<Rightarrow> autocomplete" where
  "product_autocomplete E = \<lparr>ac_label = ''Product'', ac_queryKey = ''inventory-search'', ac_endpoint = ''/api/inventory'',
     ac_placeholder = ''Search for a product...'', ac_option = stock_option E, ac_fills_sku = True\<rparr>"

definition reservation_statuses :: "(string \<times> string) list" where
  "reservation_statuses =
     [(''pending'', ''Pending''), (''committed'', ''Committed''), (''cancelled'', ''Cancelled''), (''expired'', ''Expired'')]"

definition reservations_form :: "js_env \<Rightarrow> form_config" where
  "reservations_form E = form
     [(required_field ''order_id'' ''Order'' TAutocomplete)
        \<lparr>ff_component := Some (AutocompleteComponent (order_autocomplete E))\<rparr>,
      (required_field ''product_id'' ''Product'' TAutocomplete)
        \<lparr>ff_component := Some (AutocompleteComponent (product_autocomplete E))\<rparr>,
      (required_field ''sku'' ''SKU'' TText)
        \<lparr>ff_hidden := True, ff_helperText := Some ''This will be auto-filled when a product is selected''\<rparr>,
      (required_field ''quantity'' ''Quantity'' TNumber)\<lparr>ff_validation := Some (validate_at_least_one E)\<rparr>,
      select_field ''status'' ''Status'' reservation_statuses,
      (field ''expires_at'' ''Expiration Date'' TDate)
        \<lparr>ff_helperText := Some ''When this reservation expires if not committed''\<rparr>]"

definition reservation_class :: "jsval \<Rightarrow> string" where
  "reservation_class value =
     (if value = JStr ''pending'' then ''text-yellow-600 bg-yellow-100''
      else if value = JStr ''committed'' then ''text-green-600 bg-green-100''
      else if value = JStr ''cancelled'' then ''text-red-600 bg-red-100''
      else if value = JStr ''expired'' then ''text-gray-600 bg-gray-100''
      else ''text-blue-600 bg-blue-100'')"

definition pending_action :: "string \<Rightarrow> item_action" where
  "pending_action label = \<lparr>ia_label = label, ia_permission = ''edit_inventory'',
     ia_action = (\<lambda>item. js_bind (status_is ''pending'' item) (\<lambda>b. Inr (if b then [(label, item)] else [])))\<rparr>"

definition reservations_list :: "ui_lib \<Rightarrow> list_config" where
  "reservations_list U =
     \<lparr>lc_columns =
        [col ''id'' ''Reservation ID'', col ''order_id'' ''Order ID'', col ''product_name'' ''Product'', col ''quantity'' ''Quantity'',
         rcol ''status'' ''Status'' (render_badge reservation_class),
         rcol ''created_at'' ''Created At'' (render_datetime U),
         rcol ''expires_at'' ''Expires At'' (render_datetime_or_na U),
         rcol ''completed_at'' ''Completed At'' (render_datetime_or_na U)],
      lc_searchFields = [''order_id'', ''product_name'', ''sku''],
      lc_filters = [select_filter ''status'' ''Status'' reservation_statuses],
      lc_actions = [pending_action ''Commit'', pending_action ''Cancel'']\<rparr>"

definition reservations_detail :: "ui_lib \<Rightarrow> detail_config" where
  "reservations_detail U =
     \<lparr>dc_sections =
        [(''Reservation Details'',
          [col ''id'' ''Reservation ID'', col ''order_id'' ''Order ID'', col ''product_name'' ''Product'', col ''sku'' ''SKU'',
           col ''quantity'' ''Quantity'', col ''status'' ''Status'',
           rcol ''created_at'' ''Created At'' (render_datetime U),
           rcol ''expires_at'' ''Expires At'' (render_datetime_or_na U),
           rcol ''completed_at'' ''Completed At'' (render_datetime_or_na U)])],
      dc_related = []\<rparr>"

definition buildInventoryReservationsModule :: "ui_lib \<Rightarrow> api_context \<Rightarrow> module js" where
  "buildInventoryReservationsModule U A =
     build A (setDetailConfig (reservations_detail U) (setListConfig (reservations_list U) (setFormConfig (reservations_form (u_env U))
       (setNavItem \<lparr>nav_label = ''Inv. Reservations'', nav_href = ''/backoffice/reservations''\<rparr>
       (setApiEndpoint ''/api/inventory/reservations'' (setConfig reservations_config new_builder))))))"

definition expires_soon :: "ui_lib \<Rightarrow> jsnum \<Rightarrow> jsval \<Rightarrow> bool js" where
  "expires_soon U now r = js_bind (js_get r ''expires_at'') (\<lambda>x.
     if \<not> js_truthy x then Inr False
     else js_bind (new_Date (u_dates U) x) (\<lambda>expiryDate.
       Inr (num_le expiryDate (next_day U now) \<and> num_lt now expiryDate)))"

definition reservations_renderStats :: "ui_lib \<Rightarrow> jsnum \<Rightarrow> jsval list \<Rightarrow> (string \<times> nat) list js" where
  "reservations_renderStats U now rows =
     js_bind (js_filter (status_is ''pending'') rows) (\<lambda>pending.
     js_bind (count_rows (status_is ''committed'') rows) (\<lambda>committed.
     js_bind (count_rows (status_is ''cancelled'') rows) (\<lambda>cancelled.
     js_bind (count_rows (status_is ''expired'') rows) (\<lambda>expired.
     js_bind (count_rows (expires_soon U now) pending) (\<lambda>soon.
       Inr [(''Pending Reservations'', length pending), (''Committed Reservations'', committed),
            (''Cancelled Reservations'', cancelled), (''Expiring Soon'', soon)])))))"

section \<open>The forms are well formed\<close>

lemma toNumber_primitive: "\<not> is_object v \<Longrightarrow> \<exists>n. js_toNumber E v = Inr n"
  by (cases v) simp_all

lemma toString_primitive: "\<not> is_object v \<Longrightarrow> \<exists>s. js_toString E v = Inr s"
  by (cases v) simp_all

lemma validations_return:
  assumes "\<not> is_object v"
  shows "\<exists>r. validate_nonzero E v = Inr r" "\<exists>r. validate_at_least_one E v = Inr r" "\<exists>r. validate_email E v = Inr r"
  using toNumber_primitive [OF assms, of E] toString_primitive [OF assms, of E]
  by (auto simp: validate_nonzero_def validate_at_least_one_def validate_email_def)

lemmas field_simps = form_def field_def required_field_def select_field_def warehouse_field_def

lemma module_forms_ok:
  "form_ok (customer_form E)" "form_ok warehouse_form" "form_ok inventory_form"
  "form_ok (transactions_form E)" "form_ok (reservations_form E)"
  by (simp_all add: form_ok_def customer_form_def warehouse_form_def inventory_form_def transactions_form_def
      reservations_form_def field_simps validations_return)

section \<open>Properties\<close>

lemma filling_forms:
  "find_field (transactions_form E) ''item_id'' = Some (hd (fc_fields (transactions_form E)))"
  "find_field (reservations_form E) ''product_id'' = Some (fc_fields (reservations_form E) ! 1)"
  "values_typed (transactions_form E) []" "values_typed (reservations_form E) []"
  by (simp_all add: find_field_def transactions_form_def reservations_form_def field_simps values_typed_def)

lemma missing_field_invalid:
  assumes "find_field cfg n = Some f" "ff_required f" "prop_lookup vals n = JUndef"
  shows "\<not> form_valid cfg vals"
  using assms find_field_SomeD [OF assms(1)]
  by (auto simp: form_valid_def list_all_iff is_checked_def field_valid_def validateField_def intro!: bexI [of _ f])

text \<open>
  The create forms of transactions and of reservations can never be saved. Whatever their user types,
  chooses and picks, as long as each picked item is one of the options loaded from the server and has a
  stock-keeping unit, saving calls nothing, because the pick of the required item is lost each time.
\<close>

theorem stock_forms_never_save:
  assumes "(fill_step E L cfg qs [])\<^sup>*\<^sup>* (initial_form []) s" "cfg = transactions_form E \<or> cfg = reservations_form E"
  shows "fst (form_event E L cfg qs [] Save s) = []"
proof -
  have "\<not> form_valid cfg (fs_values s)"
    using assms(2)
  proof
    assume cfg: "cfg = transactions_form E"
    from filling_field_steps [OF assms(1) [unfolded cfg] module_forms_ok(4) filling_forms(3,1), of "item_autocomplete E"] show ?thesis
      unfolding cfg by (intro missing_field_invalid [OF filling_forms(1)])
        (simp_all add: transactions_form_def field_simps item_autocomplete_def)
  next
    assume cfg: "cfg = reservations_form E"
    from filling_field_steps [OF assms(1) [unfolded cfg] module_forms_ok(5) filling_forms(4,2), of "product_autocomplete E"] show ?thesis
      unfolding cfg by (intro missing_field_invalid [OF filling_forms(2)])
        (simp_all add: reservations_form_def field_simps product_autocomplete_def)
  qed
  then show ?thesis by (simp add: save_effects)
qed

theorem stock_forms_never_save_witness:
  "fst (form_event demo_env demo_date_lib (transactions_form demo_env) [] [] Save
     (snd (form_event demo_env demo_date_lib (transactions_form demo_env) [] []
        (Picked ''item_id'' [JObj [(''value'', JStr ''i1''), (''sku'', JStr ''S-1'')]] (JStr ''i1'')) (initial_form [])))) = []"
proof -
  have "user_event (transactions_form demo_env) (initial_form [])
      (Picked ''item_id'' [JObj [(''value'', JStr ''i1''), (''sku'', JStr ''S-1'')]] (JStr ''i1''))"
    by (simp add: option_sku_def controls_def renderFields_def map_filter_def renderField_def FormField_def initial_form_def
        control_kind_of_def transactions_form_def field_simps item_autocomplete_def warehouse_autocomplete_def find_field_def)
  then show ?thesis
    by (intro stock_forms_never_save r_into_rtranclp fill_step.event) (simp_all add: option_sku_def)
qed

text \<open>
  A row of the inventory with a stock that is not negative, ordered thresholds and no status of its own.
\<close>

fun finite_num :: "jsval \<Rightarrow> rat option" where
  "finite_num (JNum (Fin x)) = Some x"
| "finite_num v = None"

fun well_stocked :: "jsval \<Rightarrow> bool" where
  "well_stocked (JObj ps) =
     (case (finite_num (prop_lookup ps ''quantity''), finite_num (prop_lookup ps ''low_stock_threshold''),
            finite_num (prop_lookup ps ''overstock_threshold'')) of
        (Some q, Some low, Some over) \<Rightarrow>
          0 \<le> q \<and> low \<le> over \<and> 0 \<le> over \<and>
          prop_lookup ps ''status'' \<notin> {JStr ''Low Stock'', JStr ''Overstock'', JStr ''Out of Stock''}
      | _ \<Rightarrow> False)"
| "well_stocked v = False"

definition shows_badge :: "ui_lib \<Rightarrow> string \<Rightarrow> string \<Rightarrow> jsval \<Rightarrow> bool" where
  "shows_badge U colour text item \<longleftrightarrow> render_stock_status U JUndef item = Inr (stock_badge colour text)"

lemma js_less_nums [simp]: "js_less E (JNum a) (JNum b) = Inr (num_lt a b)"
  by (simp add: js_less_def js_toPrimitive_def)

lemma count_rows_pure: "(\<And>x. x \<in> set xs \<Longrightarrow> p x = Inr (P x)) \<Longrightarrow> count_rows p xs = Inr (length (filter P xs))"
  by (simp add: count_rows_def js_filter_pure)

lemma finite_num_Some: "finite_num v = Some x \<longleftrightarrow> v = JNum (Fin x)"
  by (cases v rule: finite_num.cases) auto

lemma well_stockedE:
  assumes "well_stocked item"
  obtains ps q low over where "item = JObj ps" "prop_lookup ps ''quantity'' = JNum (Fin q)"
    "prop_lookup ps ''low_stock_threshold'' = JNum (Fin low)" "prop_lookup ps ''overstock_threshold'' = JNum (Fin over)"
    "0 \<le> q" "low \<le> over" "0 \<le> over"
    "prop_lookup ps ''status'' \<notin> {JStr ''Low Stock'', JStr ''Overstock'', JStr ''Out of Stock''}"
  using assms by (cases item) (auto simp: finite_num_Some split: option.splits)

lemmas card_simps =
  low_stock_def overstocked_def out_of_stock_def js_or_else_def js_and_then_def status_is_def quantity_below_def
  quantity_above_def quantity_positive_def quantity_zero_def

lemma badge_of_row:
  assumes "well_stocked item"
  shows "low_stock E ''low_stock_threshold'' item = Inr (shows_badge U ''amber'' ''Low Stock'' item)"
    "overstocked E item = Inr (shows_badge U ''blue'' ''Overstock'' item)"
    "out_of_stock item = Inr (shows_badge U ''red'' ''Out of Stock'' item)"
proof -
  from assms obtain ps q low over where item: "item = JObj ps" "prop_lookup ps ''quantity'' = JNum (Fin q)"
    "prop_lookup ps ''low_stock_threshold'' = JNum (Fin low)" "prop_lookup ps ''overstock_threshold'' = JNum (Fin over)"
    "prop_lookup ps ''status'' \<notin> {JStr ''Low Stock'', JStr ''Overstock'', JStr ''Out of Stock''}"
    and o: "0 \<le> q" "low \<le> over" "0 \<le> over" by (rule well_stockedE)
  have b: "render_stock_status U JUndef item =
      Inr (if q = 0 then stock_badge ''red'' ''Out of Stock'' else if q < low then stock_badge ''amber'' ''Low Stock''
           else if over < q then stock_badge ''blue'' ''Overstock'' else stock_badge ''green'' ''Optimal'')"
    by (simp add: render_stock_status_def item)
  show "low_stock E ''low_stock_threshold'' item = Inr (shows_badge U ''amber'' ''Low Stock'' item)"
    "overstocked E item = Inr (shows_badge U ''blue'' ''Overstock'' item)"
    "out_of_stock item = Inr (shows_badge U ''red'' ''Out of Stock'' item)"
    using item(5) o by (auto simp: shows_badge_def b [unfolded item(1)] stock_badge_def card_simps item(1-4))
qed

text \<open>
  The cards of the inventory module agree with the badges of its detail pages: for rows with ordered
  thresholds the numbers of low, overstocked and sold-out items are the numbers of rows whose badge says
  so, and since a row has one badge they add up to at most the number of rows.
\<close>

theorem inventory_cards_count_badges:
  assumes "list_all well_stocked rows"
  shows "\<exists>low over out. inventory_renderStats (u_env U) rows =
      Inr [(''Total Items'', length rows), (''Low Stock Alerts'', low), (''Overstock Items'', over), (''Out of Stock'', out)] \<and>
    low = length (filter (shows_badge U ''amber'' ''Low Stock'') rows) \<and>
    over = length (filter (shows_badge U ''blue'' ''Overstock'') rows) \<and>
    out = length (filter (shows_badge U ''red'' ''Out of Stock'') rows) \<and>
    low + over + out \<le> length rows"
proof -
  have rows: "\<And>x. x \<in> set rows \<Longrightarrow> well_stocked x" using assms by (simp add: list_all_iff)
  have "length (filter (shows_badge U ''amber'' ''Low Stock'') xs) + length (filter (shows_badge U ''blue'' ''Overstock'') xs) +
      length (filter (shows_badge U ''red'' ''Out of Stock'') xs) \<le> length xs" for xs
    by (induction xs) (auto simp: shows_badge_def stock_badge_def)
  then show ?thesis
    by (simp add: inventory_renderStats_def count_rows_pure [OF badge_of_row(1) [OF rows, where U = U]]
        count_rows_pure [OF badge_of_row(2) [OF rows, where U = U]] count_rows_pure [OF badge_of_row(3) [OF rows, where U = U]])
qed

definition demo_stock :: "int \<Rightarrow> jsval" where
  "demo_stock q = JObj [(''quantity'', int_val q), (''low_stock_threshold'', int_val 5), (''overstock_threshold'', int_val 50)]"

definition demo_ui :: ui_lib where
  "demo_ui = \<lparr>u_env = demo_env, u_dates = demo_date_lib, u_browser = demo_browser, toLocaleString = (\<lambda>t. ''1/1/1970, 12:00:00 AM''),
     toLocaleDateString = (\<lambda>t. ''1/1/1970''), toLocaleTimeString = (\<lambda>t. ''12:00:00 AM''), local_midnight = (\<lambda>t. t), next_day = (\<lambda>t. t)\<rparr>"

theorem inventory_cards_count_badges_witness:
  "inventory_renderStats demo_env [demo_stock 0, demo_stock 3, demo_stock 20, demo_stock 70] =
     Inr [(''Total Items'', 4), (''Low Stock Alerts'', 1), (''Overstock Items'', 1), (''Out of Stock'', 1)]"
proof -
  have "list_all well_stocked [demo_stock 0, demo_stock 3, demo_stock 20, demo_stock 70]"
    by (simp add: demo_stock_def)
  from inventory_cards_count_badges [OF this, of demo_ui] show ?thesis
    by (simp add: shows_badge_def render_stock_status_def demo_stock_def stock_badge_def demo_ui_def)
qed

text \<open>
  The cards of the list page compare the stock with \<open>minQuantity\<close>, which is no field of the inventory:
  rows that carry \<open>low_stock_threshold\<close> are never counted as low, however small their stock.
\<close>

theorem list_page_misses_low_stock:
  assumes "list_all well_stocked rows" "list_all (\<lambda>item. js_get item ''minQuantity'' = Inr JUndef) rows"
  shows "InventoryStats E rows =
    Inr [(''Total Items'', length rows), (''Low Stock Alerts'', 0), (''Out of Stock'', length (filter (shows_badge U ''red'' ''Out of Stock'') rows))]"
proof -
  have "low_stock E ''minQuantity'' item = Inr False" if "item \<in> set rows" for item
  proof -
    from that assms obtain "well_stocked item" "js_get item ''minQuantity'' = Inr JUndef" by (auto simp: list_all_iff)
    then show ?thesis by (auto elim!: well_stockedE simp: card_simps js_less_def js_toPrimitive_def)
  qed
  moreover have "out_of_stock item = Inr (shows_badge U ''red'' ''Out of Stock'' item)" if "item \<in> set rows" for item
    using assms(1) that badge_of_row(3) by (simp add: list_all_iff)
  ultimately show ?thesis
    by (simp add: InventoryStats_def count_rows_pure [where P = "\<lambda>_. False"]
        count_rows_pure [where P = "shows_badge U ''red'' ''Out of Stock''"])
qed

theorem list_page_misses_low_stock_witness:
  "InventoryStats demo_env [demo_stock 3] = Inr [(''Total Items'', 1), (''Low Stock Alerts'', 0), (''Out of Stock'', 0)]"
proof -
  have "list_all well_stocked [demo_stock 3]" "list_all (\<lambda>item. js_get item ''minQuantity'' = Inr JUndef) [demo_stock 3]"
    by (simp_all add: demo_stock_def)
  from list_page_misses_low_stock [OF this, of demo_env demo_ui] show ?thesis
    by (simp add: shows_badge_def render_stock_status_def demo_stock_def stock_badge_def demo_ui_def)
qed

text \<open>
  The list of transactions marks every row as an outgoing one: the sign and the colour are read from
  \<open>type\<close>, while the rows, the form and the column next to it carry \<open>transaction_type\<close>.
\<close>

theorem transaction_rows_show_minus:
  assumes "js_get row ''type'' = Inr JUndef" "js_toNumber (u_env U) value = Inr n"
  shows "render_transaction_quantity U value row = Inr (span ''text-red-600'' [ntext ''-'', NVal (JNum (num_abs n))])"
  using assms by (simp add: render_transaction_quantity_def is_incoming_def)

theorem transaction_rows_show_minus_witness:
  "render_transaction_quantity demo_ui (int_val 5) (JObj [(''quantity'', int_val 5), (''transaction_type'', JStr ''add'')]) =
     Inr (span ''text-red-600'' [ntext ''-'', NVal (int_val 5)])"
  using transaction_rows_show_minus [of "JObj [(''quantity'', int_val 5), (''transaction_type'', JStr ''add'')]" demo_ui "int_val 5" "Fin 5"]
  by simp

end
