(* ===== verification/Backoffice_Orders.thy ===== *)
theory Backoffice_Orders
  imports Backoffice_Director
begin

unbundle bit_operations_syntax

text \<open>
  The orders of the backoffice: the product picker \<open>components/ui/MultiSelectAutocomplete.tsx\<close>, the three custom
  fields of the order form and the order module of \<open>BackofficeDirector.tsx\<close> with its own \<open>createItem\<close>
  and \<open>updateItem\<close>, the summary \<open>components/ui/OrderSummary.tsx\<close>, the temporary identifiers of
  \<open>generateUUID\<close>, and the store of the modules \<open>BackofficeStore.tsx\<close>.
\<close>

section \<open>The product picker\<close>

record picker =
  pk_isOpen :: bool
  pk_search :: string

text \<open>Options and selected values are objects; only their primitive properties are compared.\<close>

definition value_of :: "jsval \<Rightarrow> jsval js" where
  "value_of item = js_get item ''value''"

definition availableOptions :: "jsval list \<Rightarrow> jsval list \<Rightarrow> jsval list js" where
  "availableOptions options values =
     js_filter (\<lambda>opt. js_bind (value_of opt) (\<lambda>v.
       js_bind (js_find (\<lambda>item. js_bind (value_of item) (\<lambda>u. Inr (u = v))) values) (\<lambda>r. Inr (r = None)))) options"

text \<open>The new selection that is reported, if any, and the state of the picker.\<close>

definition picker_handleSelect :: "nat option \<Rightarrow> jsval \<Rightarrow> jsval list \<Rightarrow> picker \<Rightarrow> (jsval list option \<times> picker) js" where
  "picker_handleSelect maxItems opt values p =
     (let mx = (case maxItems of None \<Rightarrow> 0 | Some m \<Rightarrow> m)
      in if mx \<noteq> 0 \<and> mx \<le> length values then Inr (None, p)
         else js_bind (js_get opt ''quantity'') (\<lambda>q.
           let newOption = JObj (props_put (spread_props opt) ''quantity'' (js_or q (int_val 1)));
               p = p\<lparr>pk_search := []\<rparr>
           in Inr (Some (values @ [newOption]),
                   if mx = 0 \<or> length values + 1 < mx then p else p\<lparr>pk_isOpen := False\<rparr>)))"

definition picker_handleRemove :: "jsval \<Rightarrow> jsval list \<Rightarrow> jsval list js" where
  "picker_handleRemove optionValue values = js_filter (\<lambda>item. js_bind (value_of item) (\<lambda>v. Inr (v \<noteq> optionValue))) values"

definition picker_handleQuantityChange :: "js_env \<Rightarrow> jsval \<Rightarrow> int \<Rightarrow> jsval list \<Rightarrow> jsval list js" where
  "picker_handleQuantityChange E optionValue delta values =
     js_map (\<lambda>item. js_bind (value_of item) (\<lambda>v.
       if v = optionValue
       then js_bind (js_get item ''quantity'') (\<lambda>q. js_bind (js_plus E (js_or q (int_val 1)) (int_val delta)) (\<lambda>sum.
         js_bind (js_toNumber E sum) (\<lambda>n.
           Inr (JObj (props_put (spread_props item) ''quantity'' (JNum (Math_max (Fin 1) n)))))))
       else Inr item)) values"

definition picker_handleClose :: "picker \<Rightarrow> picker" where
  "picker_handleClose p = p\<lparr>pk_isOpen := False, pk_search := []\<rparr>"

section \<open>OrderItemsField\<close>

definition to_order_item :: "jsval \<Rightarrow> jsval js" where
  "to_order_item opt =
     js_bind (js_get opt ''id'') (\<lambda>i. js_bind (js_get opt ''value'') (\<lambda>v. js_bind (js_get opt ''sku'') (\<lambda>sku.
     js_bind (js_get opt ''name'') (\<lambda>name. js_bind (js_get opt ''quantity'') (\<lambda>q. js_bind (js_get opt ''price'') (\<lambda>price.
       Inr (JObj [(''product_id'', nullish i v), (''sku'', nullish sku (JStr [])), (''name'', nullish name (JStr [])),
         (''quantity'', nullish q (int_val 1)), (''unit_price'', nullish price (int_val 0))])))))))"

definition OrderItemsField_values :: "jsval \<Rightarrow> jsval list js" where
  "OrderItemsField_values value = js_elements (js_or value (arr []))"

definition OrderItemsField_onChange :: "jsval list \<Rightarrow> jsval js" where
  "OrderItemsField_onChange selectedOptions = js_bind (js_map to_order_item selectedOptions) (\<lambda>items. Inr (arr items))"

definition handleUpdateQuantity :: "jsval \<Rightarrow> jsval \<Rightarrow> jsval \<Rightarrow> jsval js" where
  "handleUpdateQuantity value productId newQuantity =
     js_bind (OrderItemsField_values value) (\<lambda>items.
     js_bind (js_map (\<lambda>item. js_bind (js_get item ''product_id'') (\<lambda>p.
        Inr (if p = productId then JObj (props_put (spread_props item) ''quantity'' newQuantity) else item))) items) (\<lambda>ys.
       Inr (arr ys)))"

definition product_option :: "js_env \<Rightarrow> jsval \<Rightarrow> jsval js" where
  "product_option E product =
     js_bind (js_get product ''price'') (\<lambda>p. let price = number_of_string E p in
     js_bind (js_get product ''id'') (\<lambda>i. js_bind (get_str E product ''name'') (\<lambda>n. js_bind (get_str E product ''sku'') (\<lambda>k.
     js_bind (val_toFixed2 E price) (\<lambda>t. js_bind (js_get product ''name'') (\<lambda>name. js_bind (js_get product ''sku'') (\<lambda>sku.
       Inr (JObj [(''value'', i), (''label'', JStr (n @ '' ('' @ k @ '') - $'' @ t)), (''id'', i), (''name'', name), (''sku'', sku),
         (''price'', price)]))))))))"

definition products_search :: "js_env \<Rightarrow> autocomplete" where
  "products_search E = \<lparr>ac_label = ''Products'', ac_queryKey = ''products-search'', ac_endpoint = ''/api/inventory'',
     ac_placeholder = ''Search for products to add...'', ac_option = product_option E, ac_fills_sku = False\<rparr>"

text \<open>Picking a product in the field: the picker works on the order items that the form holds.\<close>

definition pick_product :: "jsval \<Rightarrow> jsval \<Rightarrow> jsval js" where
  "pick_product opt value =
     js_bind (OrderItemsField_values value) (\<lambda>values.
     js_bind (picker_handleSelect None opt values \<lparr>pk_isOpen = True, pk_search = []\<rparr>) (\<lambda>r.
       case fst r of None \<Rightarrow> Inr value | Some selected \<Rightarrow> OrderItemsField_onChange selected))"

definition remove_product :: "jsval \<Rightarrow> jsval \<Rightarrow> jsval js" where
  "remove_product item value =
     js_bind (OrderItemsField_values value) (\<lambda>values. js_bind (value_of item) (\<lambda>v.
     js_bind (picker_handleRemove v values) OrderItemsField_onChange))"

section \<open>OrderSummary\<close>

definition line_total :: "js_env \<Rightarrow> jsval \<Rightarrow> jsnum js" where
  "line_total E item = js_bind (js_get item ''quantity'') (\<lambda>q. js_bind (js_get item ''unit_price'') (\<lambda>p. js_times E q p))"

definition subtotal :: "js_env \<Rightarrow> jsval list \<Rightarrow> jsnum js" where
  "subtotal E items = js_reduce (\<lambda>sum item. js_bind (line_total E item) (\<lambda>t. Inr (num_add sum t))) items (Fin 0)"

definition tax :: "jsnum \<Rightarrow> jsnum" where
  "tax sub = num_mul sub (fl (1 / 10))"

definition total :: "jsnum \<Rightarrow> jsnum" where
  "total sub = num_add sub (tax sub)"

definition handleIncreaseQuantity :: "js_env \<Rightarrow> jsval \<Rightarrow> jsval js" where
  "handleIncreaseQuantity E currentQuantity = js_plus E currentQuantity (int_val 1)"

text \<open>The quantity that is reported, if any.\<close>

definition handleDecreaseQuantity :: "js_env \<Rightarrow> jsval \<Rightarrow> jsval option js" where
  "handleDecreaseQuantity E currentQuantity =
     js_bind (js_less E (int_val 1) currentQuantity) (\<lambda>b.
       if b then js_bind (js_minus E currentQuantity (int_val 1)) (\<lambda>n. Inr (Some (JNum n))) else Inr None)"

text \<open>\<open>item.quantity <= 1\<close>\<close>

definition at_most_one :: "js_env \<Rightarrow> jsval \<Rightarrow> bool js" where
  "at_most_one E q = js_bind (js_toNumber E q) (\<lambda>n. Inr (num_le n (Fin 1)))"

definition summary_line :: "js_env \<Rightarrow> bool \<Rightarrow> jsval \<Rightarrow> node js" where
  "summary_line E editable item =
     js_bind (js_get item ''name'') (\<lambda>name. js_bind (js_get item ''sku'') (\<lambda>sku. js_bind (js_get item ''quantity'') (\<lambda>q.
     js_bind (at_most_one E q) (\<lambda>least. js_bind (line_total E item) (\<lambda>t. js_bind (js_get item ''unit_price'') (\<lambda>p.
     js_bind (val_toFixed2 E p) (\<lambda>u.
       Inr (NElem ''div'' ''flex justify-between items-center py-2 border-b border-gray-200''
         ([NElem ''div'' ''flex-1'' [NElem ''p'' ''font-medium'' [NVal name],
             NElem ''p'' ''text-sm text-gray-500'' [ntext ''SKU: '', NVal sku]]] @
          (if editable then [NElem ''div'' ''flex items-center mx-4''
             [NComp ''button'' [(''aria-label'', JStr ''Decrease quantity''), (''disabled'', JBool least)],
              span ''mx-2 font-medium w-6 text-center'' [NVal q],
              NComp ''button'' [(''aria-label'', JStr ''Increase quantity'')]]] else []) @
          [NElem ''div'' ''text-right'' [NElem ''p'' ''font-medium'' [ntext (''$'' @ toFixed2 E t)],
             NElem ''p'' ''text-sm text-gray-500'' [ntext (''$'' @ u @ '' each'')]]])))))))))"

definition OrderSummary :: "js_env \<Rightarrow> bool \<Rightarrow> jsval list \<Rightarrow> node list js" where
  "OrderSummary E editable items =
     js_bind (subtotal E items) (\<lambda>sub.
       if items = [] then Inr [NElem ''p'' ''text-gray-500 italic'' [ntext ''No items added to order'']]
       else js_bind (js_map (summary_line E editable) items) (\<lambda>ls.
         Inr (ls @ [NElem ''div'' ''flex justify-between'' [span [] [ntext ''Subtotal''], span [] [ntext (''$'' @ toFixed2 E sub)]],
           NElem ''div'' ''flex justify-between'' [span [] [ntext ''Tax (10%)''], span [] [ntext (''$'' @ toFixed2 E (tax sub))]],
           NElem ''div'' ''flex justify-between font-bold text-lg pt-2 border-t border-gray-300''
             [span [] [ntext ''Total''], span [] [ntext (''$'' @ toFixed2 E (total sub))]]])))"

section \<open>ShippingInfoField and PaymentInfoField\<close>

definition shipping_default :: jsval where
  "shipping_default = JObj [(''order_id'', JStr []), (''address_line1'', JStr []), (''address_line2'', JStr []), (''city'', JStr []),
     (''state'', JStr []), (''postal_code'', JStr []), (''country'', JStr []), (''recipient_name'', JStr []),
     (''recipient_phone'', JStr []), (''shipping_method'', JStr ''standard''), (''shipping_cost'', int_val 0)]"

definition payment_default :: jsval where
  "payment_default = JObj [(''order_id'', JStr []), (''payment_method'', JStr ''credit_card''), (''transaction_id'', JStr []),
     (''amount'', int_val 0), (''currency'', JStr ''USD'')]"

text \<open>The state of such a field: what it starts with, and the effect on a new value of the form.\<close>

definition ShippingInfoField_initial :: "jsval \<Rightarrow> jsval" where
  "ShippingInfoField_initial value = js_or value shipping_default"

definition PaymentInfoField_initial :: "jsval \<Rightarrow> jsval" where
  "PaymentInfoField_initial value = js_or value payment_default"

definition info_sync :: "jsval \<Rightarrow> jsval \<Rightarrow> jsval" where
  "info_sync value info = (if js_truthy value then value else info)"

text \<open>The new state, which is also the value that the form gets.\<close>

definition ShippingInfoField_handleChange :: "string \<Rightarrow> string \<Rightarrow> jsval \<Rightarrow> jsval" where
  "ShippingInfoField_handleChange name value info = JObj (props_put (spread_props info) name (JStr value))"

definition PaymentInfoField_handleChange :: "string \<Rightarrow> string \<Rightarrow> jsval \<Rightarrow> jsval" where
  "PaymentInfoField_handleChange name value info = JObj (props_put (spread_props info) name (JStr value))"

record info_input =
  ii_name :: string
  ii_label :: string
  ii_type :: string
  ii_required :: bool
  ii_default :: jsval
  ii_options :: "(string \<times> string) list"

definition text_input :: "string \<Rightarrow> string \<Rightarrow> bool \<Rightarrow> info_input" where
  "text_input name label req = \<lparr>ii_name = name, ii_label = label, ii_type = ''text'', ii_required = req, ii_default = JStr [],
     ii_options = []\<rparr>"

definition shipping_inputs_person :: "info_input list" where
  "shipping_inputs_person =
     [text_input ''recipient_name'' ''Recipient Name'' True, text_input ''recipient_phone'' ''Recipient Phone'' False,
      text_input ''address_line1'' ''Address Line 1'' True, text_input ''address_line2'' ''Address Line 2'' False,
      text_input ''city'' ''City'' True, text_input ''state'' ''State/Province'' True]"

definition shipping_inputs_rest :: "info_input list" where
  "shipping_inputs_rest =
     [text_input ''postal_code'' ''Postal Code'' True, text_input ''country'' ''Country'' True,
      \<lparr>ii_name = ''shipping_method'', ii_label = ''Shipping Method'', ii_type = ''select-one'', ii_required = True,
       ii_default = JStr ''standard'',
       ii_options = [(''standard'', ''Standard Shipping''), (''express'', ''Express Shipping''), (''overnight'', ''Overnight Shipping''),
         (''international'', ''International Shipping'')]\<rparr>,
      \<lparr>ii_name = ''shipping_cost'', ii_label = ''Shipping Cost'', ii_type = ''number'', ii_required = True, ii_default = int_val 0,
       ii_options = []\<rparr>]"

definition currencies :: "(string \<times> string) list" where
  "currencies = [(''USD'', ''USD''), (''EUR'', ''EUR''), (''GBP'', ''GBP''), (''CAD'', ''CAD''), (''AUD'', ''AUD''), (''JPY'', ''JPY'')]"

definition payment_inputs :: "info_input list" where
  "payment_inputs =
     [\<lparr>ii_name = ''payment_method'', ii_label = ''Payment Method'', ii_type = ''select-one'', ii_required = True,
       ii_default = JStr ''credit_card'',
       ii_options = [(''credit_card'', ''Credit Card''), (''paypal'', ''PayPal''), (''bank_transfer'', ''Bank Transfer''),
         (''cash_on_delivery'', ''Cash on Delivery'')]\<rparr>,
      text_input ''transaction_id'' ''Transaction ID'' False,
      \<lparr>ii_name = ''amount'', ii_label = ''Amount'', ii_type = ''number'', ii_required = True, ii_default = int_val 0, ii_options = []\<rparr>,
      \<lparr>ii_name = ''currency'', ii_label = ''Currency'', ii_type = ''select-one'', ii_required = True, ii_default = JStr ''USD'',
       ii_options = currencies\<rparr>]"

text \<open>The value that an input shows: \<open>info[name] || default\<close>.\<close>

definition info_shown :: "jsval \<Rightarrow> info_input \<Rightarrow> jsval js" where
  "info_shown info i = js_bind (js_get info (ii_name i)) (\<lambda>v. Inr (js_or v (ii_default i)))"

section \<open>The order module\<close>

definition order_config :: backoffice_config where
  "order_config = \<lparr>bc_title = ''Orders'', bc_basePath = ''/backoffice/orders'', bc_permissions = [''view_orders'', ''edit_orders'']\<rparr>"

definition order_statuses :: "(string \<times> string) list" where
  "order_statuses = [(''pending'', ''Pending''), (''processing'', ''Processing''), (''shipped'', ''Shipped''),
     (''delivered'', ''Delivered''), (''cancelled'', ''Cancelled'')]"

definition render_amount :: "ui_lib \<Rightarrow> jsval \<Rightarrow> jsval \<Rightarrow> node js" where
  "render_amount U value item = js_bind (val_parseFloat (u_env U) value) (\<lambda>n. Inr (ntext (''$'' @ toFixed2 (u_env U) n)))"

text \<open>\<open>status?.toLowerCase()\<close>: a value that is not a string has no such method.\<close>

definition getStatusClass :: "jsval \<Rightarrow> string js" where
  "getStatusClass st =
     js_bind (if st = JUndef \<or> st = JNull then Inr None else js_bind (str_method toLowerCase st) (\<lambda>s. Inr (Some s))) (\<lambda>s.
       Inr (if s = Some ''pending'' then ''text-yellow-600 bg-yellow-100 px-2 py-1 rounded''
            else if s = Some ''processing'' then ''text-blue-600 bg-blue-100 px-2 py-1 rounded''
            else if s = Some ''shipped'' then ''text-purple-600 bg-purple-100 px-2 py-1 rounded''
            else if s = Some ''delivered'' then ''text-green-600 bg-green-100 px-2 py-1 rounded''
            else if s = Some ''cancelled'' then ''text-red-600 bg-red-100 px-2 py-1 rounded''
            else ''text-gray-600 bg-gray-100 px-2 py-1 rounded''))"

definition render_order_status :: "jsval \<Rightarrow> jsval \<Rightarrow> node js" where
  "render_order_status value item = js_bind (getStatusClass value) (\<lambda>c. Inr (span c [NVal value]))"

definition render_date :: "ui_lib \<Rightarrow> jsval \<Rightarrow> jsval \<Rightarrow> node js" where
  "render_date U value item = js_bind (new_Date (u_dates U) value) (\<lambda>t. Inr (ntext (toLocaleDateString U t)))"

definition render_date_or_na :: "ui_lib \<Rightarrow> jsval \<Rightarrow> jsval \<Rightarrow> node js" where
  "render_date_or_na U value item = (if js_truthy value then render_date U value item else Inr (ntext ''N/A''))"

definition order_list :: "ui_lib \<Rightarrow> list_config" where
  "order_list U =
     \<lparr>lc_columns =
        [col ''customer_name'' ''Customer'', rcol ''total_amount'' ''Total Amount'' (render_amount U),
         rcol ''status'' ''Status'' render_order_status, rcol ''created_at'' ''Created At'' (render_date U)],
      lc_searchFields = [''order_number'', ''customer.name''],
      lc_filters = [select_filter ''status'' ''Status'' order_statuses],
      lc_actions = []\<rparr>"

definition customer_autocomplete :: autocomplete where
  "customer_autocomplete = \<lparr>ac_label = ''Customer'', ac_queryKey = ''customers-search'', ac_endpoint = ''/api/customers'',
     ac_placeholder = ''Search for a customer...'', ac_option = named_option, ac_fills_sku = False\<rparr>"

definition order_form :: form_config where
  "order_form = form
     [(required_field ''customer_id'' ''Customer'' TAutocomplete)\<lparr>ff_component := Some (AutocompleteComponent customer_autocomplete)\<rparr>,
      (required_field ''items'' ''Order Items'' TCustom)\<lparr>ff_component := Some OrderItemsField\<rparr>,
      (required_field ''shipping_info'' ''Shipping Information'' TCustom)\<lparr>ff_component := Some ShippingInfoField\<rparr>,
      (required_field ''payment_info'' ''Payment Information'' TCustom)\<lparr>ff_component := Some PaymentInfoField\<rparr>,
      field ''notes'' ''Order Notes'' TTextarea,
      select_field ''currency'' ''Currency'' currencies,
      select_field ''status'' ''Status'' order_statuses]"

definition order_detail_info :: "ui_lib \<Rightarrow> column list" where
  "order_detail_info U =
     [col ''id'' ''Order ID'', col ''order_number'' ''Order Number'', col ''customer.name'' ''Customer'',
      rcol ''total_amount'' ''Total Amount'' (render_amount U), rcol ''status'' ''Status'' render_order_status,
      col ''notes'' ''Notes'', rcol ''created_at'' ''Created At'' (render_date U), rcol ''updated_at'' ''Updated At'' (render_date U)]"

definition render_order_items :: "ui_lib \<Rightarrow> jsval \<Rightarrow> jsval \<Rightarrow> node js" where
  "render_order_items U items item =
     js_bind (js_elements (js_or items (arr []))) (\<lambda>xs. js_bind (OrderSummary (u_env U) False xs) (\<lambda>ns.
       Inr (NElem ''div'' ''mt-4'' ns)))"

definition order_detail_shipping :: "ui_lib \<Rightarrow> column list" where
  "order_detail_shipping U =
     [col ''shipping_info.recipient_name'' ''Recipient Name'', col ''shipping_info.recipient_phone'' ''Recipient Phone'',
      col ''shipping_info.address_line1'' ''Address Line 1'', col ''shipping_info.address_line2'' ''Address Line 2'',
      col ''shipping_info.city'' ''City'', col ''shipping_info.state'' ''State/Province'',
      col ''shipping_info.postal_code'' ''Postal Code'', col ''shipping_info.country'' ''Country'',
      col ''shipping_info.shipping_method'' ''Shipping Method'',
      rcol ''shipping_info.shipping_cost'' ''Shipping Cost'' (render_amount U),
      col ''shipping_info.tracking_number'' ''Tracking Number'']"

definition render_yes_no :: "jsval \<Rightarrow> jsval \<Rightarrow> node js" where
  "render_yes_no value item = Inr (ntext (if js_truthy value then ''Yes'' else ''No''))"

definition order_detail_payment :: "ui_lib \<Rightarrow> column list" where
  "order_detail_payment U =
     [col ''payment_info.payment_method'' ''Payment Method'', col ''payment_info.transaction_id'' ''Transaction ID'',
      rcol ''payment_info.amount'' ''Amount'' (render_amount U), col ''payment_info.currency'' ''Currency'',
      col ''payment_info.status'' ''Payment Status'', rcol ''payment_info.is_paid'' ''Is Paid'' render_yes_no,
      rcol ''payment_info.payment_date'' ''Payment Date'' (render_date_or_na U)]"

definition order_detail :: "ui_lib \<Rightarrow> detail_config" where
  "order_detail U =
     \<lparr>dc_sections =
        [(''Order Information'', order_detail_info U), (''Order Items'', [rcol ''items'' ''Order Items'' (render_order_items U)]),
         (''Shipping Information'', order_detail_shipping U), (''Payment Information'', order_detail_payment U)],
      dc_related = []\<rparr>"

text \<open>
  The copy \<open>{ ...data }\<close> is shallow, so turning a cost into a number also changes the object that the
  caller passed. The function gives the nested value as the caller keeps it and the one that is sent.
\<close>

definition with_order_id :: "js_env \<Rightarrow> string \<Rightarrow> string \<Rightarrow> jsval \<Rightarrow> (jsval \<times> jsval) js" where
  "with_order_id E order_id costKey v =
     js_bind (js_get v costKey) (\<lambda>cost.
     js_bind (case cost of JStr s \<Rightarrow> js_put v costKey (JNum (parseFloat E s)) | _ \<Rightarrow> Inr v) (\<lambda>v'.
       Inr (v', JObj (props_put (spread_props v') ''order_id'' (JStr order_id)))))"

definition normalise_nested :: "js_env \<Rightarrow> string \<Rightarrow> string \<Rightarrow> string \<Rightarrow> (string \<times> jsval) list \<times> (string \<times> jsval) list \<Rightarrow>
    ((string \<times> jsval) list \<times> (string \<times> jsval) list) js" where
  "normalise_nested E order_id name costKey dp =
     (case dp of (data, payload) \<Rightarrow>
        if js_truthy (prop_lookup payload name)
        then js_bind (with_order_id E order_id costKey (prop_lookup payload name)) (\<lambda>(v', sent).
          Inr (props_put data name v', props_put payload name sent))
        else Inr (data, payload))"

definition normalise_order :: "js_env \<Rightarrow> string \<Rightarrow> (string \<times> jsval) list \<Rightarrow> ((string \<times> jsval) list \<times> (string \<times> jsval) list) js" where
  "normalise_order E order_id data =
     js_bind (normalise_nested E order_id ''shipping_info'' ''shipping_cost'' (data, data))
       (normalise_nested E order_id ''payment_info'' ''amount'')"

text \<open>The order gets the identifier that \<open>generateUUID\<close> returns when the item is created.\<close>

definition order_createItem :: "js_env \<Rightarrow> (window \<Rightarrow> string) \<Rightarrow> module \<Rightarrow> jsval \<Rightarrow> (window, jsval) op" where
  "order_createItem E tempOrderId m data w =
     (case normalise_order E (tempOrderId w) (spread_props data) of
        Inl e \<Rightarrow> (Inl e, w)
      | Inr (_, modifiedData) \<Rightarrow> m_createItem m (JObj modifiedData) w)"

definition order_updateItem :: "js_env \<Rightarrow> module \<Rightarrow> string \<Rightarrow> jsval \<Rightarrow> (window, jsval) op" where
  "order_updateItem E m i data w =
     (case normalise_order E i (spread_props data) of
        Inl e \<Rightarrow> (Inl e, w)
      | Inr (_, modifiedData) \<Rightarrow> m_updateItem m i (JObj modifiedData) w)"

definition buildOrderModule :: "ui_lib \<Rightarrow> api_context \<Rightarrow> (window \<Rightarrow> string) \<Rightarrow> module js" where
  "buildOrderModule U A tempOrderId =
     js_bind (build A (setDetailConfig (order_detail U) (setFormConfig order_form (setListConfig (order_list U)
       (setNavItem \<lparr>nav_label = ''Orders'', nav_href = ''/backoffice/orders''\<rparr>
       (setApiEndpoint ''/api/orders'' (setConfig order_config new_builder))))))) (\<lambda>m.
     Inr (m\<lparr>m_createItem := order_createItem (u_env U) tempOrderId m, m_updateItem := order_updateItem (u_env U) m\<rparr>))"

section \<open>generateUUID\<close>

definition hex_digit :: "nat \<Rightarrow> char" where
  "hex_digit n = (if n < 10 then char_of (48 + n) else char_of (87 + n))"

fun toString16 :: "nat \<Rightarrow> string" where
  "toString16 n = (if n < 16 then [hex_digit n] else toString16 (n div 16) @ [hex_digit (n mod 16)])"

declare toString16.simps [simp del]

text \<open>The draws of \<open>Math.random\<close> are the values of \<open>rnd\<close>; \<open>| 0\<close> truncates.\<close>

definition uuid_digit :: "rat \<Rightarrow> char \<Rightarrow> string" where
  "uuid_digit x c =
     (let r = \<lfloor>x * 16\<rfloor>; v = (if c = CHR ''x'' then r else (r AND 3) OR 8)
      in toString16 (nat v))"

fun fill_template :: "(nat \<Rightarrow> rat) \<Rightarrow> nat \<Rightarrow> string \<Rightarrow> string" where
  "fill_template rnd k [] = []"
| "fill_template rnd k (c # cs) =
     (if c = CHR ''x'' \<or> c = CHR ''y'' then uuid_digit (rnd k) c @ fill_template rnd (Suc k) cs
      else c # fill_template rnd k cs)"

definition uuid_template :: string where
  "uuid_template = ''xxxxxxxx-xxxx-4xxx-yxxx-xxxxxxxxxxxx''"

definition generateUUID :: "string option \<Rightarrow> (nat \<Rightarrow> rat) \<Rightarrow> string" where
  "generateUUID randomUUID rnd = (case randomUUID of Some u \<Rightarrow> u | None \<Rightarrow> fill_template rnd 0 uuid_template)"

section \<open>The store of the modules\<close>

record backoffice_store =
  bs_modules :: "(string \<times> module) list"
  bs_isInitialized :: bool

definition empty_backoffice :: backoffice_store where
  "empty_backoffice = \<lparr>bs_modules = [], bs_isInitialized = False\<rparr>"

text \<open>\<open>modules[name]\<close> of an object also finds what every object inherits.\<close>

datatype module_hit = Found module | Inherited string

definition object_prototype :: "string list" where
  "object_prototype = [''constructor'', ''__defineGetter__'', ''__defineSetter__'', ''hasOwnProperty'', ''__lookupGetter__'',
     ''__lookupSetter__'', ''isPrototypeOf'', ''propertyIsEnumerable'', ''toString'', ''valueOf'', ''__proto__'', ''toLocaleString'']"

definition getModule :: "string \<Rightarrow> backoffice_store \<Rightarrow> module_hit option" where
  "getModule name st =
     (case map_of (bs_modules st) name of
        Some m \<Rightarrow> Some (Found m)
      | None \<Rightarrow> if name \<in> set object_prototype then Some (Inherited name) else None)"

definition getModuleByPathSegment :: "string \<Rightarrow> backoffice_store \<Rightarrow> module_hit option" where
  "getModuleByPathSegment pathSegment st =
     (let seg = toLowerCase pathSegment
      in case getModule seg st of
           Some h \<Rightarrow> Some h
         | None \<Rightarrow>
             (case (if endsWith seg ''s'' then getModule (butlast seg) st else None) of
                Some h \<Rightarrow> Some h
              | None \<Rightarrow>
                  (case getModule (seg @ ''s'') st of
                     Some h \<Rightarrow> Some h
                   | None \<Rightarrow>
                       (case List.find (\<lambda>key. toLowerCase key = seg) (map fst (bs_modules st)) of
                          Some key \<Rightarrow> getModule key st
                        | None \<Rightarrow> None))))"

definition initialize :: "ui_lib \<Rightarrow> api_context \<Rightarrow> (window \<Rightarrow> string) \<Rightarrow> string \<Rightarrow> backoffice_store \<Rightarrow> backoffice_store js" where
  "initialize U A tempOrderId apiBaseUrl st =
     (if bs_isInitialized st then Inr st
      else let A = A\<lparr>a_service := director_service apiBaseUrl\<rparr>
           in js_bind (buildCustomerModule U A) (\<lambda>customers. js_bind (buildWarehouseModule U A) (\<lambda>warehouses.
              js_bind (buildInventoryModule U A) (\<lambda>inventory. js_bind (buildOrderModule U A tempOrderId) (\<lambda>orders.
              js_bind (buildInventoryTransactionsModule U A) (\<lambda>transactions.
              js_bind (buildInventoryReservationsModule U A) (\<lambda>reservations.
                Inr \<lparr>bs_modules = [(''customers'', customers), (''warehouses'', warehouses), (''inventory'', inventory),
                  (''orders'', orders), (''transactions'', transactions), (''reservations'', reservations)],
                  bs_isInitialized = True\<rparr>)))))))"

section \<open>Picking products\<close>

text \<open>What the field stores has no \<open>id\<close>, \<open>value\<close> or \<open>price\<close>; what the search offers has an \<open>id\<close> and a \<open>price\<close>.\<close>

fun stored_item :: "jsval \<Rightarrow> bool" where
  "stored_item (JObj ps) \<longleftrightarrow> prop_lookup ps ''id'' = JUndef \<and> prop_lookup ps ''value'' = JUndef \<and> prop_lookup ps ''price'' = JUndef"
| "stored_item v \<longleftrightarrow> False"

fun offered_option :: "jsval \<Rightarrow> bool" where
  "offered_option (JObj ps) \<longleftrightarrow>
     nullish (prop_lookup ps ''id'') JUndef \<noteq> JUndef \<and> nullish (prop_lookup ps ''price'') JUndef \<noteq> JUndef"
| "offered_option v \<longleftrightarrow> False"

definition own :: "string \<Rightarrow> jsval \<Rightarrow> jsval" where
  "own k v = (case js_get v k of Inl e \<Rightarrow> JUndef | Inr x \<Rightarrow> x)"

lemma own_JObj [simp]: "own k (JObj ps) = prop_lookup ps k"
  by (simp add: own_def)

lemma nullish_simps [simp]: "nullish JUndef d = d" "nullish JNull d = d"
  by (simp_all add: nullish_def)

lemma to_order_item_stored:
  assumes "stored_item item"
  shows "\<exists>item'. to_order_item item = Inr item' \<and> stored_item item' \<and> own ''product_id'' item' = JUndef \<and> own ''unit_price'' item' = int_val 0"
  using assms by (cases item) (auto simp: to_order_item_def)

lemma to_order_item_offered:
  assumes "offered_option (JObj ps)"
  shows "\<exists>item'. to_order_item (JObj (props_put ps ''quantity'' q)) = Inr item' \<and> stored_item item' \<and>
    own ''product_id'' item' = prop_lookup ps ''id'' \<and> own ''unit_price'' item' = prop_lookup ps ''price''"
  using assms by (auto simp: to_order_item_def nullish_def split: if_splits)

lemma to_order_items_stored:
  "list_all stored_item items \<Longrightarrow>
     \<exists>items'. js_map to_order_item items = Inr items' \<and> list_all stored_item items' \<and>
       map (own ''product_id'') items' = map (\<lambda>_. JUndef) items \<and> map (own ''unit_price'') items' = map (\<lambda>_. int_val 0) items"
proof (induction items)
  case (Cons item items)
  then show ?case using to_order_item_stored [of item] by fastforce
qed simp

lemma js_map_append: "js_map f (xs @ ys) = js_bind (js_map f xs) (\<lambda>as. js_bind (js_map f ys) (\<lambda>bs. Inr (as @ bs)))"
  by (induction xs) (auto simp: js_bind_def split: sum.splits)

lemma pick_product_result:
  assumes "list_all stored_item items" "offered_option (JObj ps)"
  shows "\<exists>items'. pick_product (JObj ps) (arr items) = Inr (arr items') \<and> list_all stored_item items' \<and>
    map (own ''product_id'') items' = map (\<lambda>_. JUndef) items @ [prop_lookup ps ''id''] \<and>
    map (own ''unit_price'') items' = map (\<lambda>_. int_val 0) items @ [prop_lookup ps ''price'']"
proof -
  obtain new where "to_order_item (JObj (props_put ps ''quantity'' (js_or (prop_lookup ps ''quantity'') (int_val 1)))) = Inr new"
    "stored_item new" "own ''product_id'' new = prop_lookup ps ''id''" "own ''unit_price'' new = prop_lookup ps ''price''"
    using to_order_item_offered [OF assms(2)] by blast
  with to_order_items_stored [OF assms(1)] show ?thesis
    by (auto simp: pick_product_def OrderItemsField_values_def js_or_def picker_handleSelect_def Let_def
        OrderItemsField_onChange_def js_map_append)
qed

section \<open>Properties\<close>

lemma pick_products_result:
  assumes "list_all stored_item items" "list_all offered_option opts" "opts \<noteq> []"
  shows "\<exists>items'. js_reduce (\<lambda>v opt. pick_product opt v) opts (arr items) = Inr (arr items') \<and> list_all stored_item items' \<and>
    map (own ''product_id'') items' = replicate (length items + length opts - 1) JUndef @ [own ''id'' (last opts)] \<and>
    map (own ''unit_price'') items' = replicate (length items + length opts - 1) (int_val 0) @ [own ''price'' (last opts)]"
  using assms
proof (induction opts arbitrary: items)
  case (Cons opt opts)
  then obtain ps where ps: "opt = JObj ps" "offered_option (JObj ps)" by (cases opt) auto
  obtain items1 where i1: "pick_product (JObj ps) (arr items) = Inr (arr items1)" "list_all stored_item items1"
    "map (own ''product_id'') items1 = map (\<lambda>_. JUndef) items @ [prop_lookup ps ''id'']"
    "map (own ''unit_price'') items1 = map (\<lambda>_. int_val 0) items @ [prop_lookup ps ''price'']"
    using pick_product_result [OF Cons.prems(1) ps(2)] by blast
  then have len: "length items1 = Suc (length items)" by (metis length_append_singleton length_map)
  show ?case
  proof (cases opts)
    case Nil
    with i1 ps show ?thesis by (simp add: map_replicate_const)
  next
    case (Cons o' os)
    then have ne: "opts \<noteq> []" by simp
    from Cons.IH [OF i1(2) _ ne] Cons.prems(2) ps i1(1) len ne show ?thesis by simp
  qed
qed simp

text \<open>
  An order that is put together with the product picker keeps the identity and the price of the last
  product only: after picking any products one after the other, every earlier line has no
  \<open>product_id\<close> and the unit price zero. And removing any one line removes them all.
\<close>

theorem order_keeps_last_product_only:
  assumes "list_all offered_option opts" "opts \<noteq> []"
  shows "\<exists>items. js_reduce (\<lambda>v opt. pick_product opt v) opts (arr []) = Inr (arr items) \<and>
    map (own ''product_id'') items = replicate (length opts - 1) JUndef @ [own ''id'' (last opts)] \<and>
    map (own ''unit_price'') items = replicate (length opts - 1) (int_val 0) @ [own ''price'' (last opts)] \<and>
    (\<forall>item \<in> set items. remove_product item (arr items) = Inr (arr []))"
proof -
  obtain items where items: "js_reduce (\<lambda>v opt. pick_product opt v) opts (arr []) = Inr (arr items)" "list_all stored_item items"
    "map (own ''product_id'') items = replicate (length opts - 1) JUndef @ [own ''id'' (last opts)]"
    "map (own ''unit_price'') items = replicate (length opts - 1) (int_val 0) @ [own ''price'' (last opts)]"
    using pick_products_result [of "[]", OF _ assms] by auto
  have undef: "value_of item = Inr JUndef" if "item \<in> set items" for item
    using items(2) that by (cases item) (auto simp: list_all_iff value_of_def)
  then have "picker_handleRemove JUndef items = Inr []"
    unfolding picker_handleRemove_def
    by (subst js_filter_pure [where P = "\<lambda>_. False"]) simp_all
  with undef have "remove_product item (arr items) = Inr (arr [])" if "item \<in> set items" for item
    using that by (simp add: remove_product_def OrderItemsField_values_def js_or_def OrderItemsField_onChange_def)
  with items show ?thesis by blast
qed

definition demo_product :: "string \<Rightarrow> int \<Rightarrow> jsval" where
  "demo_product i price = JObj [(''value'', JStr i), (''id'', JStr i), (''name'', JStr i), (''sku'', JStr i), (''price'', int_val price)]"

theorem order_keeps_last_product_only_witness:
  "\<exists>items. js_reduce (\<lambda>v opt. pick_product opt v) [demo_product ''a'' 10, demo_product ''b'' 20] (arr []) = Inr (arr items) \<and>
     map (own ''product_id'') items = [JUndef, JStr ''b''] \<and> map (own ''unit_price'') items = [int_val 0, int_val 20]"
  using order_keeps_last_product_only [of "[demo_product ''a'' 10, demo_product ''b'' 20]"]
  by (auto simp: demo_product_def nullish_def)

definition is_hex :: "char \<Rightarrow> bool" where
  "is_hex c \<longleftrightarrow> c \<in> set ''0123456789abcdef''"

definition uuid_v4 :: "string \<Rightarrow> bool" where
  "uuid_v4 u \<longleftrightarrow> length u = 36 \<and>
     list_all (\<lambda>i. if i \<in> {8, 13, 18, 23} then u ! i = CHR ''-''
       else if i = 14 then u ! i = CHR ''4''
       else if i = 19 then u ! i \<in> set ''89ab'' else is_hex (u ! i)) [0..<36]"

lemma hex_digit_hex: "n < 16 \<Longrightarrow> is_hex (hex_digit n)"
proof -
  assume "n < 16"
  then have "n \<in> set [0..<16]" by simp
  moreover have "list_all (\<lambda>n. is_hex (hex_digit n)) [0..<16]" by code_simp
  ultimately show ?thesis by (simp only: list_all_iff)
qed

lemma variant_digit:
  assumes "0 \<le> r" "r < (16 :: int)"
  shows "nat ((r AND 3) OR 8) < 16 \<and> hex_digit (nat ((r AND 3) OR 8)) \<in> set ''89ab''"
proof -
  have "r \<in> set [0..15]" using assms by simp
  moreover have "list_all (\<lambda>r. nat ((r AND 3) OR 8) < 16 \<and> hex_digit (nat ((r AND 3) OR 8)) \<in> set ''89ab'') [0..15 :: int]"
    by code_simp
  ultimately show ?thesis by (simp only: list_all_iff)
qed

lemma uuid_digit_char:
  assumes "0 \<le> x" "x < 1"
  shows "\<exists>d. uuid_digit x (CHR ''x'') = [d] \<and> is_hex d" "\<exists>d. uuid_digit x (CHR ''y'') = [d] \<and> d \<in> set ''89ab''"
proof -
  have r: "0 \<le> \<lfloor>x * 16\<rfloor>" "\<lfloor>x * 16\<rfloor> < 16" using assms by (simp_all add: floor_less_iff)
  then show "\<exists>d. uuid_digit x (CHR ''x'') = [d] \<and> is_hex d"
    by (simp add: uuid_digit_def toString16.simps hex_digit_hex nat_less_iff)
  show "\<exists>d. uuid_digit x (CHR ''y'') = [d] \<and> d \<in> set ''89ab''"
    using variant_digit [OF r] by (simp add: uuid_digit_def toString16.simps)
qed

lemma uuid_chars:
  assumes "\<forall>k. 0 \<le> rnd k \<and> rnd k < 1"
  obtains h v where "\<And>k. uuid_digit (rnd k) (CHR ''x'') = [h k]" "\<And>k. is_hex (h k)"
    "\<And>k. uuid_digit (rnd k) (CHR ''y'') = [v k]" "\<And>k. v k \<in> set ''89ab''"
proof -
  have "\<forall>k. \<exists>d. uuid_digit (rnd k) (CHR ''x'') = [d] \<and> is_hex d"
    "\<forall>k. \<exists>d. uuid_digit (rnd k) (CHR ''y'') = [d] \<and> d \<in> set ''89ab''"
    using uuid_digit_char assms by simp_all
  with that show ?thesis by metis
qed

text \<open>
  The identifiers that the fallback of \<open>generateUUID\<close> makes are well-formed version 4 UUIDs, whatever the
  random numbers: 36 characters, dashes at the four places, the version digit 4, the variant digit 8, 9, a
  or b, and hexadecimal digits everywhere else.
\<close>

theorem fallback_uuid_well_formed:
  assumes "\<forall>k. 0 \<le> rnd k \<and> rnd k < 1"
  shows "uuid_v4 (generateUUID None rnd)"
proof -
  from assms obtain h v where "\<And>k. uuid_digit (rnd k) (CHR ''x'') = [h k]" "\<And>k. is_hex (h k)"
    "\<And>k. uuid_digit (rnd k) (CHR ''y'') = [v k]" "\<And>k. v k \<in> set ''89ab''"
    using uuid_chars by blast
  then show ?thesis
    by (simp add: generateUUID_def uuid_template_def uuid_v4_def upt_rec nth_Cons')
qed

theorem fallback_uuid_well_formed_witness:
  "uuid_v4 (generateUUID None (\<lambda>k. 1 / 2)) \<and> generateUUID None (\<lambda>k. 1 / 2) = ''88888888-8888-4888-8888-888888888888''"
proof -
  have "generateUUID None (\<lambda>k. 1 / 2) = ''88888888-8888-4888-8888-888888888888''"
  proof -
    have "hex_digit 8 = CHR ''8''" by code_simp
    then show ?thesis by (simp add: generateUUID_def uuid_template_def uuid_digit_def toString16.simps)
  qed
  then show ?thesis using fallback_uuid_well_formed [of "\<lambda>k. 1 / 2"] by simp
qed

lemma props_put_commute:
  "k \<noteq> l \<Longrightarrow> k \<in> fst ` set ps \<Longrightarrow> props_put (props_put ps k v) l w = props_put (props_put ps l w) k v"
  by (induction ps) auto

lemma prop_lookup_key: "prop_lookup ps k \<noteq> JUndef \<Longrightarrow> k \<in> fst ` set ps"
  by (induction ps) (auto split: if_splits)

lemma keys_put [simp]: "fst ` set (props_put ps k v) = insert k (fst ` set ps)"
  by (induction ps) auto

definition number_at :: "js_env \<Rightarrow> string \<Rightarrow> (string \<times> jsval) list \<Rightarrow> (string \<times> jsval) list" where
  "number_at E k ps = (case prop_lookup ps k of JStr s \<Rightarrow> props_put ps k (JNum (parseFloat E s)) | _ \<Rightarrow> ps)"

lemma number_at_idem [simp]: "number_at E k (number_at E k ps) = number_at E k ps"
  by (auto simp: number_at_def split: jsval.splits)

text \<open>A text becomes the number it reads as; anything else stays.\<close>

definition numeric :: "js_env \<Rightarrow> jsval \<Rightarrow> jsval" where
  "numeric E v = (case v of JStr s \<Rightarrow> JNum (parseFloat E s) | _ \<Rightarrow> v)"

lemma number_at_lookup:
  "prop_lookup (number_at E k ps) k = numeric E (prop_lookup ps k)" "l \<noteq> k \<Longrightarrow> prop_lookup (number_at E k ps) l = prop_lookup ps l"
  by (auto simp: number_at_def numeric_def split: jsval.splits)

lemma with_order_id_JObj:
  "with_order_id E i k (JObj ps) = Inr (JObj (number_at E k ps), JObj (props_put (number_at E k ps) ''order_id'' (JStr i)))"
  by (auto simp: with_order_id_def number_at_def split: jsval.splits)

lemma normalise_order_JObj:
  assumes "prop_lookup data ''shipping_info'' = JObj sp" "prop_lookup data ''payment_info'' = JObj pp"
  shows "normalise_order E i data =
    Inr (props_put (props_put data ''shipping_info'' (JObj (number_at E ''shipping_cost'' sp)))
           ''payment_info'' (JObj (number_at E ''amount'' pp)),
         props_put (props_put data ''shipping_info'' (JObj (props_put (number_at E ''shipping_cost'' sp) ''order_id'' (JStr i))))
           ''payment_info'' (JObj (props_put (number_at E ''amount'' pp) ''order_id'' (JStr i))))"
  using assms by (simp add: normalise_order_def normalise_nested_def with_order_id_JObj)

text \<open>
  C37: What the order module sends. The shipping and the payment part both carry the given order
  identifier; a cost or an amount that is a text is sent as the number it reads as, any other is sent as it is; and
  nothing else of the order is changed. The caller's object is changed in place, but harmlessly: saving it again,
  with whatever identifier the second attempt generates, sends what a first attempt with that identifier would
  have sent, and changes nothing more.
\<close>

theorem order_payload_spec:
  assumes "prop_lookup data ''shipping_info'' = JObj sp" "prop_lookup data ''payment_info'' = JObj pp"
  shows "\<exists>kept sent ship pay. normalise_order E i data = Inr (kept, sent) \<and>
    prop_lookup sent ''shipping_info'' = JObj ship \<and> prop_lookup sent ''payment_info'' = JObj pay \<and>
    prop_lookup ship ''order_id'' = JStr i \<and> prop_lookup pay ''order_id'' = JStr i \<and>
    prop_lookup ship ''shipping_cost'' = numeric E (prop_lookup sp ''shipping_cost'') \<and>
    prop_lookup pay ''amount'' = numeric E (prop_lookup pp ''amount'') \<and>
    (\<forall>k. k \<notin> {''order_id'', ''shipping_cost''} \<longrightarrow> prop_lookup ship k = prop_lookup sp k) \<and>
    (\<forall>k. k \<notin> {''order_id'', ''amount''} \<longrightarrow> prop_lookup pay k = prop_lookup pp k) \<and>
    (\<forall>k. k \<notin> {''shipping_info'', ''payment_info''} \<longrightarrow> prop_lookup sent k = prop_lookup data k) \<and>
    (\<forall>j. normalise_order E j kept = normalise_order E j data \<and> fst (projr (normalise_order E j kept)) = kept)"
proof -
  let ?s = "JObj (number_at E ''shipping_cost'' sp)" and ?p = "JObj (number_at E ''amount'' pp)"
  let ?kept = "props_put (props_put data ''shipping_info'' ?s) ''payment_info'' ?p"
  have keys: "''shipping_info'' \<in> fst ` set data" "''payment_info'' \<in> fst ` set data"
    using assms by (auto intro: prop_lookup_key)
  have swap: "props_put (props_put (props_put data ''shipping_info'' a) ''payment_info'' b) ''shipping_info'' c =
      props_put (props_put data ''shipping_info'' c) ''payment_info'' b" for a b c
    using keys by (subst props_put_commute) simp_all
  let ?sent = "\<lambda>j. props_put (props_put data ''shipping_info'' (JObj (props_put (number_at E ''shipping_cost'' sp) ''order_id'' (JStr j))))
    ''payment_info'' (JObj (props_put (number_at E ''amount'' pp) ''order_id'' (JStr j)))"
  have first: "normalise_order E j data = Inr (?kept, ?sent j)" for j by (rule normalise_order_JObj [OF assms])
  have again: "normalise_order E j ?kept = Inr (?kept, ?sent j)" for j
    by (subst normalise_order_JObj [where sp = "number_at E ''shipping_cost'' sp" and pp = "number_at E ''amount'' pp"])
      (simp_all add: swap)
  show ?thesis
    by (intro exI [of _ ?kept] exI [of _ "?sent i"] exI [of _ "props_put (number_at E ''shipping_cost'' sp) ''order_id'' (JStr i)"]
        exI [of _ "props_put (number_at E ''amount'' pp) ''order_id'' (JStr i)"]) (simp add: number_at_lookup first again)
qed

theorem order_payload_spec_witness:
  "\<exists>kept sent. normalise_order demo_env ''o1''
       [(''shipping_info'', JObj [(''shipping_cost'', JStr ''7'')]), (''payment_info'', JObj [(''amount'', int_val 9)])] = Inr (kept, sent) \<and>
     normalise_order demo_env ''o2'' kept = normalise_order demo_env ''o2''
       [(''shipping_info'', JObj [(''shipping_cost'', JStr ''7'')]), (''payment_info'', JObj [(''amount'', int_val 9)])] \<and>
     sent = [(''shipping_info'', JObj [(''shipping_cost'', JNum NaN), (''order_id'', JStr ''o1'')]),
       (''payment_info'', JObj [(''amount'', int_val 9), (''order_id'', JStr ''o1'')])]"
proof -
  let ?d = "[(''shipping_info'', JObj [(''shipping_cost'', JStr ''7'')]), (''payment_info'', JObj [(''amount'', int_val 9)])]"
  obtain kept sent where ks: "normalise_order demo_env ''o1'' ?d = Inr (kept, sent)"
    "normalise_order demo_env ''o2'' kept = normalise_order demo_env ''o2'' ?d"
    using order_payload_spec [of ?d "[(''shipping_cost'', JStr ''7'')]" "[(''amount'', int_val 9)]" demo_env "''o1''"] by auto
  moreover have "normalise_order demo_env ''o1'' ?d =
      Inr ([(''shipping_info'', JObj [(''shipping_cost'', JNum NaN)]), (''payment_info'', JObj [(''amount'', int_val 9)])],
        [(''shipping_info'', JObj [(''shipping_cost'', JNum NaN), (''order_id'', JStr ''o1'')]),
         (''payment_info'', JObj [(''amount'', int_val 9), (''order_id'', JStr ''o1'')])])"
    by (simp add: normalise_order_JObj number_at_def demo_env_def)
  ultimately show ?thesis by auto
qed

lemma order_form_ok: "form_ok order_form"
  by (simp add: form_ok_def order_form_def field_simps)

section \<open>Quantities and totals\<close>

definition whole_item :: "int \<Rightarrow> int \<Rightarrow> jsval \<Rightarrow> bool" where
  "whole_item q p item \<longleftrightarrow> js_get item ''quantity'' = Inr (int_val q) \<and> js_get item ''unit_price'' = Inr (int_val p)"

lemma subtotal_from:
  assumes "list_all2 (\<lambda>(q, p) item. whole_item q p item) qps items" "list_all (\<lambda>(q, p). 0 \<le> q \<and> 0 \<le> p) qps" "0 \<le> a"
    and "a + (\<Sum>(q, p) \<leftarrow> qps. q * p) < 2 ^ 53"
  shows "js_reduce (\<lambda>sum item. js_bind (line_total E item) (\<lambda>t. Inr (num_add sum t))) items (Fin (of_int a)) =
    Inr (Fin (of_int (a + (\<Sum>(q, p) \<leftarrow> qps. q * p))))"
  using assms
proof (induction qps arbitrary: items a)
  case Nil
  then show ?case by simp
next
  case (Cons qp qps)
  obtain q p where qp: "qp = (q, p)" by (cases qp)
  with Cons.prems(1) obtain item items' where items: "items = item # items'" "whole_item q p item"
    "list_all2 (\<lambda>(q, p) item. whole_item q p item) qps items'"
    by (auto simp: list_all2_Cons1)
  have pos: "0 \<le> q * p" "0 \<le> (\<Sum>(q, p) \<leftarrow> qps. q * p)"
    using Cons.prems(2) qp by (fastforce simp: list_all_iff intro!: sum_list_nonneg mult_nonneg_nonneg)+
  have small: "\<bar>q * p\<bar> < 2 ^ 53" "\<bar>a + q * p\<bar> < 2 ^ 53" using pos Cons.prems(3,4) qp by auto
  have "line_total E item = Inr (Fin (of_int (q * p)))"
    using items(2) fl_int [OF small(1)] by (simp add: line_total_def whole_item_def js_times_def)
  moreover have "num_add (Fin (of_int a)) (Fin (of_int (q * p))) = Fin (of_int (a + q * p))"
    using fl_int [OF small(2)] by simp
  ultimately show ?case
    using Cons.IH [OF items(3), of "a + q * p"] Cons.prems pos qp items(1) by (simp add: add.assoc)
qed

text \<open>
  The subtotal of an order with whole quantities and prices is exact, as long as it stays below
  \<open>2\<^sup>5\<^sup>3\<close>: no rounding of the double-precision additions is ever visible.
\<close>

theorem subtotal_exact:
  assumes "list_all2 (\<lambda>(q, p) item. whole_item q p item) qps items" "list_all (\<lambda>(q, p). 0 \<le> q \<and> 0 \<le> p) qps"
    and "(\<Sum>(q, p) \<leftarrow> qps. q * p) < 2 ^ 53"
  shows "subtotal E items = Inr (Fin (of_int (\<Sum>(q, p) \<leftarrow> qps. q * p)))"
  using subtotal_from [OF assms(1,2), of 0 E] assms(3) by (simp add: subtotal_def)

theorem subtotal_exact_witness:
  "subtotal demo_env [JObj [(''quantity'', int_val 2), (''unit_price'', int_val 30)], JObj [(''quantity'', int_val 1), (''unit_price'', int_val 5)]] =
     Inr (Fin 65)"
  using subtotal_exact [of "[(2, 30), (1, 5)]" "[JObj [(''quantity'', int_val 2), (''unit_price'', int_val 30)],
      JObj [(''quantity'', int_val 1), (''unit_price'', int_val 5)]]" demo_env]
  by (simp add: whole_item_def)

text \<open>
  The buttons of the order summary and of the picker never take a whole quantity below one: plus adds
  one, minus takes one away and does nothing at one, and a change in the picker is clamped at one.
\<close>

theorem quantities_stay_positive:
  assumes "1 \<le> q" "q < 2 ^ 53 - 1" "\<bar>d\<bar> \<le> 1"
  shows "handleIncreaseQuantity E (int_val q) = Inr (int_val (q + 1)) \<and>
    handleDecreaseQuantity E (int_val q) = Inr (if 1 < q then Some (int_val (q - 1)) else None) \<and>
    picker_handleQuantityChange E v d [JObj [(''value'', v), (''quantity'', int_val q)]] =
      Inr [JObj [(''value'', v), (''quantity'', int_val (max 1 (q + d)))]]"
proof -
  have fl: "fl (of_int (q + 1)) = Fin (of_int (q + 1))" "fl (of_int (q - 1)) = Fin (of_int (q - 1))" "fl (of_int (q + d)) = Fin (of_int (q + d))"
    using assms by (intro fl_int; linarith)+
  then have fl': "fl (of_int q + 1) = Fin (of_int q + 1)" "fl (of_int q - 1) = Fin (of_int q - 1)" "fl (of_int q + of_int d) = Fin (of_int q + of_int d)"
    by simp_all
  have "of_int q \<noteq> (0 :: rat)" using assms(1) by simp
  moreover have "Math_max (Fin 1) (Fin (of_int q + of_int d)) = Fin (of_int (max 1 (q + d)))"
    by (auto simp: Math_max_def max_def simp flip: of_int_add)
  ultimately show ?thesis
    using fl' by (simp add: handleIncreaseQuantity_def handleDecreaseQuantity_def js_plus_def js_minus_def num_sub_def
        js_toPrimitive_def picker_handleQuantityChange_def value_of_def js_or_def)
qed

theorem quantities_stay_positive_witness:
  "handleDecreaseQuantity demo_env (int_val 1) = Inr None \<and> handleDecreaseQuantity demo_env (int_val 3) = Inr (Some (int_val 2))"
  using quantities_stay_positive [of 1 0 demo_env] quantities_stay_positive [of 3 0 demo_env] by simp

definition segment_variants :: "string \<Rightarrow> string list" where
  "segment_variants k = [k, k @ ''s''] @ (if endsWith k ''s'' then [butlast k] else [])"

lemma modules_build:
  "\<exists>c w i oo t r. buildCustomerModule U A = Inr c \<and> buildWarehouseModule U A = Inr w \<and> buildInventoryModule U A = Inr i \<and>
     buildOrderModule U A tmp = Inr oo \<and> buildInventoryTransactionsModule U A = Inr t \<and> buildInventoryReservationsModule U A = Inr r"
  by (simp add: buildCustomerModule_def buildWarehouseModule_def buildInventoryModule_def buildOrderModule_def
      buildInventoryTransactionsModule_def buildInventoryReservationsModule_def build_def setConfig_def setApiEndpoint_def
      setNavItem_def setListConfig_def setFormConfig_def setDetailConfig_def Let_def)

definition module_keys :: "string list" where
  "module_keys = [''customers'', ''warehouses'', ''inventory'', ''orders'', ''transactions'', ''reservations'']"

text \<open>The module key that a lower-case segment leads to, as a function on the keys alone.\<close>

definition segment_key :: "string \<Rightarrow> string option" where
  "segment_key seg =
     (if seg \<in> set module_keys then Some seg
      else if endsWith seg ''s'' \<and> butlast seg \<in> set module_keys then Some (butlast seg)
      else if seg @ ''s'' \<in> set module_keys then Some (seg @ ''s'') else None)"

lemma variants_lead_to_key:
  "list_all (\<lambda>k. list_all (\<lambda>v. segment_key v = Some k \<and> v \<notin> set object_prototype \<and> butlast v \<notin> set object_prototype) (segment_variants k)) module_keys"
  by code_simp

lemma getModule_key:
  assumes "map fst (bs_modules st) = module_keys"
  shows "k \<in> set module_keys \<Longrightarrow> \<exists>m. map_of (bs_modules st) k = Some m \<and> getModule k st = Some (Found m)"
    "k \<notin> set module_keys \<Longrightarrow> k \<notin> set object_prototype \<Longrightarrow> getModule k st = None"
proof -
  have dom: "map_of (bs_modules st) k = None \<longleftrightarrow> k \<notin> set module_keys"
    using assms by (metis map_of_eq_None_iff set_map)
  show "k \<in> set module_keys \<Longrightarrow> \<exists>m. map_of (bs_modules st) k = Some m \<and> getModule k st = Some (Found m)"
    using dom by (cases "map_of (bs_modules st) k") (simp_all add: getModule_def)
  show "k \<notin> set module_keys \<Longrightarrow> k \<notin> set object_prototype \<Longrightarrow> getModule k st = None"
    using dom by (simp add: getModule_def)
qed

lemma segment_lookup:
  assumes "map fst (bs_modules st) = module_keys" "segment_key (toLowerCase seg) = Some k"
    and "toLowerCase seg \<notin> set object_prototype" "butlast (toLowerCase seg) \<notin> set object_prototype"
  shows "\<exists>m. map_of (bs_modules st) k = Some m \<and> getModuleByPathSegment seg st = Some (Found m)"
  using assms(2-4) getModule_key [OF assms(1)]
  by (auto simp: segment_key_def getModuleByPathSegment_def Let_def split: if_splits option.splits; force)

text \<open>
  The store of the modules. The first initialisation registers the six modules, later ones change
  nothing, whatever address they are given; then each module is found under its name, its singular and its
  name with a superfluous plural, in any mixture of upper and lower case.
\<close>

theorem store_finds_modules:
  "\<exists>st. initialize U A tmp url empty_backoffice = Inr st \<and> map fst (bs_modules st) = module_keys \<and>
     initialize U' A' tmp' url' st = Inr st \<and>
     (\<forall>k \<in> set module_keys. \<forall>seg. toLowerCase seg \<in> set (segment_variants k) \<longrightarrow>
        (\<exists>m. map_of (bs_modules st) k = Some m \<and> getModuleByPathSegment seg st = Some (Found m)))"
proof -
  let ?A = "A\<lparr>a_service := director_service url\<rparr>"
  obtain st where st: "initialize U A tmp url empty_backoffice = Inr st" "map fst (bs_modules st) = module_keys" "bs_isInitialized st"
    using modules_build [of U ?A tmp] by (auto simp: initialize_def empty_backoffice_def module_keys_def)
  have "\<exists>m. map_of (bs_modules st) k = Some m \<and> getModuleByPathSegment seg st = Some (Found m)"
    if "k \<in> set module_keys" "toLowerCase seg \<in> set (segment_variants k)" for k seg
    using variants_lead_to_key that by (intro segment_lookup [OF st(2)]) (auto simp: list_all_iff)
  with st show ?thesis by (auto simp: initialize_def)
qed

definition demo_backoffice_api :: api_context where
  "demo_backoffice_api = \<lparr>a_env = demo_env, a_auth = demo_config, a_browser = demo_browser, a_net = (\<lambda>r. Aborted),
     a_service = director_service ''http://localhost:3001''\<rparr>"

theorem store_finds_modules_witness:
  "\<exists>st m. initialize demo_ui demo_backoffice_api (\<lambda>w. ''o1'') ''http://localhost'' empty_backoffice = Inr st \<and> getModuleByPathSegment ''Order'' st = Some (Found m)"
proof -
  have "toLowerCase ''Order'' \<in> set (segment_variants ''orders'')" "''orders'' \<in> set module_keys" by code_simp+
  then show ?thesis using store_finds_modules [of demo_ui demo_backoffice_api "\<lambda>w. ''o1''" "''http://localhost''" demo_ui demo_backoffice_api "\<lambda>w. ''o1''" "''http://localhost''"] by blast
qed

end
