(* ===== verification/Backoffice_Views.thy ===== *)
theory Backoffice_Views
  imports Backoffice_Orders
begin

text \<open>
  The pages of the backoffice under \<open>frontend-dashboard/src/backoffice/components\<close> and the tables they use: the
  three lookups of a dotted field, sorting and selection in \<open>organisms/DataTable.tsx\<close>, the cells of
  \<open>components/ui/DataTable.tsx\<close>, the debounced search and the deletion of \<open>ListPage.tsx\<close>, loading and saving
  of \<open>FormPage.tsx\<close>, loading and rendering of \<open>DetailPage.tsx\<close> and \<open>DetailView.tsx\<close>, and the editor of
  product attributes \<open>components/molecules/AttributesEditor.tsx\<close>.
\<close>

section \<open>Dotted fields\<close>

definition getNestedValue :: "jsval \<Rightarrow> string \<Rightarrow> jsval js" where
  "getNestedValue obj path =
     js_reduce (\<lambda>prev k. if js_truthy prev then js_get prev k else Inr JNull) (split_on (CHR ''.'') path) obj"

fun walk_path :: "jsval \<Rightarrow> string list \<Rightarrow> jsval \<Rightarrow> jsval js" where
  "walk_path missing [] v = Inr v"
| "walk_path missing (k # ks) v =
     (if v = JNull \<or> v = JUndef then Inr missing else js_bind (js_get v k) (walk_path missing ks))"

definition DataTable_getValue :: "jsval \<Rightarrow> string \<Rightarrow> jsval js" where
  "DataTable_getValue item fld = walk_path JNull (split_on (CHR ''.'') fld) item"

definition ModularTable_getValue :: "jsval \<Rightarrow> string \<Rightarrow> jsval js" where
  "ModularTable_getValue item fld = walk_path (JStr []) (split_on (CHR ''.'') fld) item"

text \<open>\<open>value?.toString() || ""\<close>\<close>

definition DataTable_renderCell :: "js_env \<Rightarrow> jsval \<Rightarrow> column \<Rightarrow> node js" where
  "DataTable_renderCell E item c =
     js_bind (DataTable_getValue item (col_field c)) (\<lambda>v.
       case col_render c of
         Some r \<Rightarrow> r v item
       | None \<Rightarrow> if v = JUndef \<or> v = JNull then Inr (ntext []) else js_bind (js_toString E v) (\<lambda>s. Inr (ntext s)))"

definition ModularTable_renderCell :: "jsval \<Rightarrow> column \<Rightarrow> node js" where
  "ModularTable_renderCell item c =
     js_bind (ModularTable_getValue item (col_field c)) (\<lambda>v.
       case col_render c of Some r \<Rightarrow> r v item | None \<Rightarrow> Inr (NElem ''div'' ''text-sm'' [NVal v]))"

section \<open>The sortable table\<close>

datatype direction = Asc | Desc

record table =
  sortField :: "string option"
  sortDirection :: direction
  selectedItems :: "jsval list"

definition handleSort :: "string \<Rightarrow> table \<Rightarrow> table" where
  "handleSort fld t =
     (if sortField t = Some fld
      then t\<lparr>sortDirection := (if sortDirection t = Asc then Desc else Asc)\<rparr>
      else t\<lparr>sortField := Some fld, sortDirection := Asc\<rparr>)"

definition compare_rows :: "js_env \<Rightarrow> string \<Rightarrow> direction \<Rightarrow> jsval \<Rightarrow> jsval \<Rightarrow> jsnum js" where
  "compare_rows E fld dir a b =
     js_bind (getNestedValue a fld) (\<lambda>x. js_bind (getNestedValue b fld) (\<lambda>y.
       if strict_eq x y then Inr (Fin 0)
       else if x = JNull \<or> x = JUndef then Inr (Fin 1)
       else if y = JNull \<or> y = JUndef then Inr (Fin (- 1))
       else js_bind (js_less E y x) (\<lambda>gt.
         let comparison = (if gt then 1 else - 1)
         in Inr (Fin (if dir = Asc then comparison else - comparison)))))"

definition sortedData :: "js_env \<Rightarrow> table \<Rightarrow> jsval list \<Rightarrow> jsval list js" where
  "sortedData E t data =
     (if \<not> truthy (sortField t) then Inr data
      else js_sort E (compare_rows E (the (sortField t)) (sortDirection t)) data)"

definition row_id :: "jsval \<Rightarrow> jsval js" where
  "row_id item = js_get item ''id''"

definition is_selected :: "table \<Rightarrow> jsval \<Rightarrow> bool js" where
  "is_selected t item =
     js_bind (js_find (\<lambda>i. js_bind (row_id i) (\<lambda>x. js_bind (row_id item) (\<lambda>y. Inr (strict_eq x y)))) (selectedItems t))
       (\<lambda>r. Inr (r \<noteq> None))"

definition handleSelectItem :: "jsval \<Rightarrow> bool \<Rightarrow> table \<Rightarrow> table js" where
  "handleSelectItem item isSelected t =
     (if isSelected then Inr (t\<lparr>selectedItems := selectedItems t @ [item]\<rparr>)
      else js_bind (js_filter (\<lambda>i. js_bind (row_id i) (\<lambda>x. js_bind (row_id item) (\<lambda>y. Inr (\<not> strict_eq x y)))) (selectedItems t))
        (\<lambda>xs. Inr (t\<lparr>selectedItems := xs\<rparr>)))"

definition handleSelectAll :: "jsval list \<Rightarrow> bool \<Rightarrow> table \<Rightarrow> table" where
  "handleSelectAll data isSelected t = t\<lparr>selectedItems := (if isSelected then data else [])\<rparr>"

text \<open>A click on a row.\<close>

definition row_onSelect :: "jsval \<Rightarrow> table \<Rightarrow> table js" where
  "row_onSelect item t = js_bind (is_selected t item) (\<lambda>b. handleSelectItem item (\<not> b) t)"

definition all_checked :: "jsval list \<Rightarrow> table \<Rightarrow> bool" where
  "all_checked data t \<longleftrightarrow> length (selectedItems t) = length data \<and> 0 < length data"

definition table_renderCell :: "jsval \<Rightarrow> column \<Rightarrow> node js" where
  "table_renderCell item c =
     js_bind (getNestedValue item (col_field c)) (\<lambda>v. case col_render c of Some r \<Rightarrow> r v item | None \<Rightarrow> Inr (NVal v))"

section \<open>The debounced search\<close>

record debounce =
  db_debounced :: string
  db_timer :: "(string \<times> nat) option"

definition debounce_initial :: "nat \<Rightarrow> nat \<Rightarrow> string \<Rightarrow> debounce" where
  "debounce_initial delay now v = \<lparr>db_debounced = v, db_timer = Some (v, now + delay)\<rparr>"

text \<open>A render with a new value: the clean-up clears the old timer, the effect starts a new one.\<close>

definition debounce_change :: "nat \<Rightarrow> nat \<Rightarrow> string \<Rightarrow> debounce \<Rightarrow> debounce" where
  "debounce_change delay now v d = d\<lparr>db_timer := Some (v, now + delay)\<rparr>"

definition debounce_tick :: "nat \<Rightarrow> debounce \<Rightarrow> debounce" where
  "debounce_tick now d =
     (case db_timer d of
        Some (v, due) \<Rightarrow> if due \<le> now then d\<lparr>db_debounced := v, db_timer := None\<rparr> else d
      | None \<Rightarrow> d)"

section \<open>ListPage\<close>

definition list_params :: "(string \<times> string) list \<Rightarrow> string \<Rightarrow> (string \<times> string) list" where
  "list_params filters search =
     (if search = [] then filters
      else if ''search'' \<in> set (map fst filters)
      then map (\<lambda>(k, v). (k, if k = ''search'' then search else v)) filters
      else filters @ [(''search'', search)])"

definition list_queryKey :: "module \<Rightarrow> string \<Rightarrow> (string \<times> string) list \<Rightarrow> string \<times> string \<times> (string \<times> string) list" where
  "list_queryKey m search filters = (bc_title (m_config m), search, filters)"

definition list_queryFn :: "module \<Rightarrow> (string \<times> string) list \<Rightarrow> string \<Rightarrow> (window, jsval) op" where
  "list_queryFn m filters search = m_fetchList m (list_params filters search)"

text \<open>\<open>response.data || response\<close>\<close>

definition unwrap :: "jsval \<Rightarrow> jsval js" where
  "unwrap response = js_bind (js_get response ''data'') (\<lambda>d. Inr (js_or d response))"

definition delete_prompt :: "module \<Rightarrow> string" where
  "delete_prompt m = ''Are you sure you want to delete this '' @ toLowerCase (bc_title (m_config m)) @ ''?''"

text \<open>The deletion of a row: nothing without the confirmation, else the request; whether the list is
  invalidated afterwards.\<close>

definition list_handleDelete :: "module \<Rightarrow> bool \<Rightarrow> string \<Rightarrow> window \<Rightarrow> (bool \<times> exn option) \<times> window" where
  "list_handleDelete m confirmed i w =
     (if \<not> confirmed then ((False, None), w)
      else case m_deleteItem m i w of
             (Inl e, w') \<Rightarrow> ((False, Some e), w')
           | (Inr _, w') \<Rightarrow> ((True, None), w'))"

definition list_columns :: "module \<Rightarrow> column list" where
  "list_columns m = (case m_listConfig m of None \<Rightarrow> [] | Some lc \<Rightarrow> lc_columns lc)"

definition list_stats :: "js_env \<Rightarrow> module \<Rightarrow> jsval list \<Rightarrow> (string \<times> nat) list js" where
  "list_stats E m data = (if bc_title (m_config m) = ''Inventory'' then InventoryStats E data else Inr [])"

section \<open>FormPage\<close>

record form_page =
  fp_initialValues :: jsval
  fp_isLoading :: bool
  fp_isSaving :: bool
  fp_error :: "string option"
  fp_pushed :: "string list"

definition new_form_page :: "bool \<Rightarrow> form_page" where
  "new_form_page isEdit = \<lparr>fp_initialValues = JObj [], fp_isLoading = isEdit, fp_isSaving = False, fp_error = None, fp_pushed = []\<rparr>"

definition form_title :: "module \<Rightarrow> bool \<Rightarrow> string" where
  "form_title m isEdit =
     (if isEdit then ''Edit '' @ butlast (bc_title (m_config m)) else ''Create '' @ bc_title (m_config m))"

definition form_fetchItem :: "module \<Rightarrow> string \<Rightarrow> form_page \<Rightarrow> window \<Rightarrow> form_page \<times> window" where
  "form_fetchItem m i p w =
     (let p = p\<lparr>fp_isLoading := True, fp_error := None\<rparr>
      in case m_fetchItem m i w of
           (Inl e, w') \<Rightarrow> (p\<lparr>fp_error := Some ''Failed to load data. Please try again later.'', fp_isLoading := False\<rparr>, w')
         | (Inr response, w') \<Rightarrow>
             (case unwrap response of
                Inl e \<Rightarrow> (p\<lparr>fp_error := Some ''Failed to load data. Please try again later.'', fp_isLoading := False\<rparr>, w')
              | Inr v \<Rightarrow> (p\<lparr>fp_initialValues := v, fp_isLoading := False\<rparr>, w')))"

text \<open>The effect on mounting: an edit page with an identifier loads the item.\<close>

definition form_mount :: "module \<Rightarrow> bool \<Rightarrow> string \<Rightarrow> window \<Rightarrow> form_page \<times> window" where
  "form_mount m isEdit i w =
     (if isEdit \<and> i \<noteq> [] then form_fetchItem m i (new_form_page isEdit) w else (new_form_page isEdit, w))"

definition form_handleSubmit :: "module \<Rightarrow> bool \<Rightarrow> string \<Rightarrow> (string \<times> jsval) list \<Rightarrow> form_page \<Rightarrow> window \<Rightarrow> form_page \<times> window" where
  "form_handleSubmit m isEdit i values p w =
     (let p = p\<lparr>fp_isSaving := True, fp_error := None\<rparr>
      in case (if isEdit \<and> i \<noteq> [] then m_updateItem m i (JObj values) w else m_createItem m (JObj values) w) of
           (Inr _, w') \<Rightarrow> (p\<lparr>fp_pushed := fp_pushed p @ [getListPath m]\<rparr>, w')
         | (Inl e, w') \<Rightarrow> (p\<lparr>fp_error := Some (exn_message e), fp_isSaving := False\<rparr>, w'))"

definition form_handleCancel :: "module \<Rightarrow> form_page \<Rightarrow> form_page" where
  "form_handleCancel m p = p\<lparr>fp_pushed := fp_pushed p @ [getListPath m]\<rparr>"

definition form_queryInvalidations :: "module \<Rightarrow> string list" where
  "form_queryInvalidations m =
     (let moduleName = toLowerCase (bc_title (m_config m)) in [moduleName, moduleName @ ''-detail''])"

section \<open>DetailPage and DetailView\<close>

record detail_page =
  dp_data :: jsval
  dp_related :: "(string \<times> jsval) list"
  dp_isLoading :: bool
  dp_error :: "string option"
  dp_pushed :: "string list"

definition new_detail_page :: detail_page where
  "new_detail_page = \<lparr>dp_data = JNull, dp_related = [], dp_isLoading = True, dp_error = None, dp_pushed = []\<rparr>"

text \<open>The related entities are fetched from the dashboard's own address; one that fails is left out.\<close>

definition fetch_related :: "(string \<Rightarrow> jsval js) \<Rightarrow> string \<Rightarrow> related list \<Rightarrow> (string \<times> jsval) list" where
  "fetch_related net i rs =
     foldl (\<lambda>acc r. case js_bind (net (''/api/'' @ re_entity r @ ''?'' @ re_relationField r @ ''='' @ i)) unwrap of
                      Inl e \<Rightarrow> acc | Inr v \<Rightarrow> props_put acc (re_entity r) v) [] rs"

definition detail_fetchData ::
  "module \<Rightarrow> (string \<Rightarrow> jsval js) \<Rightarrow> string \<Rightarrow> detail_page \<Rightarrow> window \<Rightarrow> detail_page \<times> window" where
  "detail_fetchData m net i p w =
     (let p = p\<lparr>dp_isLoading := True, dp_error := None\<rparr>;
          failed = (\<lambda>p. p\<lparr>dp_error := Some ''Failed to load data. Please try again later.'', dp_isLoading := False\<rparr>)
      in case m_fetchItem m i w of
           (Inl e, w') \<Rightarrow> (failed p, w')
         | (Inr response, w') \<Rightarrow>
             (case unwrap response of
                Inl e \<Rightarrow> (failed p, w')
              | Inr v \<Rightarrow>
                  (case m_detailConfig m of
                     None \<Rightarrow> (p\<lparr>dp_data := v, dp_isLoading := False\<rparr>, w')
                   | Some dc \<Rightarrow> (p\<lparr>dp_data := v, dp_related := fetch_related net i (dc_related dc), dp_isLoading := False\<rparr>, w'))))"

definition detail_handleDelete :: "module \<Rightarrow> bool \<Rightarrow> string \<Rightarrow> detail_page \<Rightarrow> window \<Rightarrow> detail_page \<times> window" where
  "detail_handleDelete m confirmed i p w =
     (if \<not> confirmed then (p, w)
      else case m_deleteItem m i w of
             (Inr _, w') \<Rightarrow> (p\<lparr>dp_pushed := dp_pushed p @ [getListPath m]\<rparr>, w')
           | (Inl e, w') \<Rightarrow> (p\<lparr>dp_error := Some ''Failed to delete item. Please try again later.''\<rparr>, w'))"

definition detail_handleEdit :: "module \<Rightarrow> string \<Rightarrow> detail_page \<Rightarrow> detail_page" where
  "detail_handleEdit m i p = p\<lparr>dp_pushed := dp_pushed p @ [getEditPath m i]\<rparr>"

definition detail_handleBack :: "module \<Rightarrow> detail_page \<Rightarrow> detail_page" where
  "detail_handleBack m p = p\<lparr>dp_pushed := dp_pushed p @ [getListPath m]\<rparr>"

definition renderValue :: "browser_lib \<Rightarrow> jsval \<Rightarrow> column \<Rightarrow> node js" where
  "renderValue Lb data f =
     js_bind (getNestedValue data (col_field f)) (\<lambda>v.
       case col_render f of
         Some r \<Rightarrow> r v data
       | None \<Rightarrow> Inr (if v = JNull \<or> v = JUndef then span ''text-neutral-400'' [ntext ''-'']
                       else (case v of
                               JBool b \<Rightarrow> ntext (if b then ''Yes'' else ''No'')
                             | JArr xs ps \<Rightarrow> ntext (json_stringify Lb v)
                             | JObj ps \<Rightarrow> ntext (json_stringify Lb v)
                             | _ \<Rightarrow> NVal v)))"

definition detail_sections :: "browser_lib \<Rightarrow> detail_config \<Rightarrow> jsval \<Rightarrow> (string \<times> (string \<times> node) list) list js" where
  "detail_sections Lb dc data =
     js_map (\<lambda>(title, fs). js_bind (js_map (\<lambda>f. js_bind (renderValue Lb data f) (\<lambda>n. Inr (col_header f, n))) fs) (\<lambda>xs. Inr (title, xs)))
       (dc_sections dc)"

definition detail_related :: "detail_config \<Rightarrow> (string \<times> jsval) list \<Rightarrow> (string \<times> node list) list js" where
  "detail_related dc rel =
     (if rel = [] then Inr []
      else js_map (\<lambda>r. js_bind (js_elements (js_or (prop_lookup rel (re_entity r)) (arr []))) (\<lambda>xs.
        js_bind (if xs = [] then Inr [ntext (''No '' @ toLowerCase (re_title r) @ '' found'')] else js_map (re_display r) xs) (\<lambda>ns.
          Inr (re_title r, ns)))) (dc_related dc))"

section \<open>AttributesEditor\<close>

text \<open>The rows of the editor, and the object that it gives to the form.\<close>

type_synonym attributes = "(string \<times> jsval) list"

definition attribute_rows :: "jsval \<Rightarrow> attributes" where
  "attribute_rows v = (if js_truthy v then spread_props v else [])"

definition editor_sync :: "jsval \<Rightarrow> attributes \<Rightarrow> attributes" where
  "editor_sync v rows = (if js_truthy v then spread_props v else rows)"

definition updateParentValue :: "attributes \<Rightarrow> (string \<times> jsval) list" where
  "updateParentValue attrs = foldl (\<lambda>obj (k, v). if trim k \<noteq> [] then props_put obj (trim k) v else obj) [] attrs"

definition handleAddAttribute :: "attributes \<Rightarrow> attributes" where
  "handleAddAttribute attrs = attrs @ [([], JStr [])]"

definition handleRemoveAttribute :: "nat \<Rightarrow> attributes \<Rightarrow> attributes" where
  "handleRemoveAttribute i attrs = take i attrs @ drop (Suc i) attrs"

datatype attribute_field = Key | Val

definition handleAttributeChange :: "nat \<Rightarrow> attribute_field \<Rightarrow> string \<Rightarrow> attributes \<Rightarrow> attributes js" where
  "handleAttributeChange i fld newValue attrs =
     (if i < length attrs
      then Inr (attrs[i := (case fld of Key \<Rightarrow> (newValue, snd (attrs ! i)) | Val \<Rightarrow> (fst (attrs ! i), JStr newValue))])
      else Inl TypeError)"

definition quick_attributes :: attributes where
  "quick_attributes = [(''brand'', JStr []), (''color'', JStr []), (''model'', JStr []), (''weight'', JStr [])]"

text \<open>
  An edit ends with \<open>onChange\<close>: the form stores the object and renders the editor with it, whose effect
  replaces the rows by the entries of that object.
\<close>

definition after_change :: "attributes \<Rightarrow> attributes" where
  "after_change attrs = editor_sync (JObj (updateParentValue attrs)) attrs"

section \<open>The attributes as a map\<close>

datatype attribute_edit =
    SetValue string string
  | Rename string string
  | Remove string
  | QuickFill
  | AddRow

text \<open>
  The edit of the first row with the given key, as the buttons and inputs of that row perform it; a row that
  was added and not named yet has the empty key.
\<close>

definition row_index :: "string \<Rightarrow> attributes \<Rightarrow> nat" where
  "row_index k rows = (case findIndex (\<lambda>r. fst r = k) rows of Some i \<Rightarrow> i | None \<Rightarrow> length rows)"

definition changed_rows :: "nat \<Rightarrow> attribute_field \<Rightarrow> string \<Rightarrow> attributes \<Rightarrow> attributes" where
  "changed_rows i fld v rows = (case handleAttributeChange i fld v rows of Inl e \<Rightarrow> rows | Inr rows' \<Rightarrow> after_change rows')"

fun editor_step :: "attribute_edit \<Rightarrow> attributes \<Rightarrow> attributes" where
  "editor_step (SetValue k v) rows = changed_rows (row_index k rows) Val v rows"
| "editor_step (Rename k k') rows = changed_rows (row_index k rows) Key k' rows"
| "editor_step (Remove k) rows = after_change (handleRemoveAttribute (row_index k rows) rows)"
| "editor_step QuickFill rows = editor_sync (JObj quick_attributes) quick_attributes"
| "editor_step AddRow rows = handleAddAttribute rows"

text \<open>
  What the editor is for: a finite map from names to values. Naming an added row enters the name with the empty
  value; a row whose name becomes blank is gone.
\<close>

definition named_rows :: "attributes \<Rightarrow> attributes" where
  "named_rows rows = filter (\<lambda>r. fst r \<noteq> []) rows"

definition editor_map :: "attributes \<Rightarrow> string \<rightharpoonup> jsval" where
  "editor_map rows = map_of (named_rows rows)"

fun attribute_spec :: "attribute_edit \<Rightarrow> (string \<rightharpoonup> jsval) \<Rightarrow> string \<rightharpoonup> jsval" where
  "attribute_spec (SetValue k v) m = (if k = [] then m else m(k \<mapsto> JStr v))"
| "attribute_spec (Rename k k') m =
     (if trim k' = [] then m(k := None)
      else (m(k := None))(trim k' := if k = [] then Some (JStr []) else m k))"
| "attribute_spec (Remove k) m = m(k := None)"
| "attribute_spec QuickFill m = map_of quick_attributes"
| "attribute_spec AddRow m = m"

definition row_tidy :: "string \<times> jsval \<Rightarrow> bool" where
  "row_tidy r \<longleftrightarrow> trim (fst r) = fst r \<and> (fst r = [] \<longrightarrow> snd r = JStr [])"

definition editor_inv :: "attributes \<Rightarrow> bool" where
  "editor_inv rows \<longleftrightarrow> distinct (map fst (named_rows rows)) \<and> list_all row_tidy rows"

text \<open>Every edit of a row there is, but a row is not renamed to the name of another row.\<close>

fun edit_ok :: "attribute_edit \<Rightarrow> attributes \<Rightarrow> bool" where
  "edit_ok (SetValue k v) rows \<longleftrightarrow> k \<in> set (map fst rows)"
| "edit_ok (Rename k k') rows \<longleftrightarrow> k \<in> set (map fst rows) \<and> (trim k' = [] \<or> trim k' = k \<or> trim k' \<notin> set (map fst rows))"
| "edit_ok (Remove k) rows \<longleftrightarrow> k \<in> set (map fst rows)"
| "edit_ok QuickFill rows \<longleftrightarrow> True"
| "edit_ok AddRow rows \<longleftrightarrow> True"

lemma trim_trim [simp]: "trim (trim s) = trim s"
proof -
  let ?t = "dropWhile is_space s"
  let ?u = "dropWhile is_space (rev ?t)"
  have u: "dropWhile is_space ?u = ?u" by (metis dropWhile_idem comp_apply)
  have "dropWhile is_space (rev ?u) = rev ?u"
  proof (cases "rev ?u")
    case (Cons c cs)
    then have ne: "?u \<noteq> []" by auto
    obtain q where q: "rev ?t = q @ ?u" by (metis takeWhile_dropWhile_id)
    then have t: "?t = rev ?u @ rev q" by (metis rev_append rev_rev_ident)
    then have "?t \<noteq> []" using ne by (metis append_is_Nil_conv rev_is_Nil_conv)
    then have "\<not> is_space (hd ?t)" by (metis hd_dropWhile)
    moreover have "hd ?t = c" using t Cons by (metis append_Cons list.sel(1))
    ultimately show ?thesis using Cons by simp
  next
    case Nil
    then show ?thesis by (metis dropWhile.simps(1))
  qed
  with u show ?thesis by (simp add: trim_def)
qed

lemma props_put_fresh: "k \<notin> fst ` set ps \<Longrightarrow> props_put ps k v = ps @ [(k, v)]"
  by (induction ps) auto

lemma updateParentValue_distinct:
  assumes "distinct (map (trim \<circ> fst) rows)" "list_all (\<lambda>r. trim (fst r) \<noteq> []) rows"
  shows "updateParentValue rows = map (map_prod trim id) rows"
proof -
  have "foldl (\<lambda>obj (k, v). if trim k \<noteq> [] then props_put obj (trim k) v else obj) acc rows = acc @ map (map_prod trim id) rows"
    if "fst ` set acc \<inter> trim ` fst ` set rows = {}" for acc
    using assms that
  proof (induction rows arbitrary: acc)
    case (Cons r rows)
    obtain k v where r: "r = (k, v)" by (cases r)
    with Cons.prems have "props_put acc (trim k) v = acc @ [(trim k, v)]" by (intro props_put_fresh) auto
    with Cons r show ?case by (auto simp: image_image)
  qed simp
  from this [of "[]"] show ?thesis by (simp add: updateParentValue_def)
qed

lemma after_change_distinct:
  assumes "distinct (map (trim \<circ> fst) rows)" "list_all (\<lambda>r. trim (fst r) \<noteq> []) rows"
  shows "after_change rows = map (map_prod trim id) rows"
  using updateParentValue_distinct [OF assms] by (simp add: after_change_def editor_sync_def)

lemma row_index_split:
  assumes "k \<in> set (map fst rows)"
  obtains xs v ys where "rows = xs @ (k, v) # ys" "k \<notin> fst ` set xs" "row_index k rows = length xs"
proof -
  have "\<exists>xs v ys. rows = xs @ (k, v) # ys \<and> k \<notin> fst ` set xs \<and> findIndex (\<lambda>r. fst r = k) rows = Some (length xs)"
    using assms
  proof (induction rows)
    case (Cons r rows)
    show ?case
    proof (cases "fst r = k")
      case True
      then show ?thesis by (intro exI [of _ "[]"] exI [of _ "snd r"] exI [of _ rows]) auto
    next
      case False
      with Cons obtain xs v ys where "rows = xs @ (k, v) # ys" "k \<notin> fst ` set xs" "findIndex (\<lambda>r. fst r = k) rows = Some (length xs)"
        by auto
      with False show ?thesis by (intro exI [of _ "r # xs"] exI [of _ v] exI [of _ ys]) auto
    qed
  qed simp
  with that show ?thesis by (auto simp: row_index_def)
qed

lemma after_change_named: "after_change rows = after_change (filter (\<lambda>r. trim (fst r) \<noteq> []) rows)"
proof -
  have "foldl (\<lambda>obj (k, v). if trim k \<noteq> [] then props_put obj (trim k) v else obj) acc rows =
      foldl (\<lambda>obj (k, v). if trim k \<noteq> [] then props_put obj (trim k) v else obj) acc (filter (\<lambda>r. trim (fst r) \<noteq> []) rows)" for acc
    by (induction rows arbitrary: acc) auto
  then show ?thesis by (simp add: after_change_def editor_sync_def updateParentValue_def)
qed

lemma tidy_rows:
  "list_all row_tidy rows \<Longrightarrow> map (map_prod trim id) (filter (\<lambda>r. trim (fst r) \<noteq> []) rows) = named_rows rows"
  by (induction rows) (auto simp: row_tidy_def named_rows_def)

lemma after_change_result:
  assumes "map (map_prod trim id) (filter (\<lambda>r. trim (fst r) \<noteq> []) rows) = R" "distinct (map fst R)"
  shows "after_change rows = R \<and> editor_inv R \<and> named_rows R = R"
proof -
  let ?rows = "filter (\<lambda>r. trim (fst r) \<noteq> []) rows"
  have keys: "map (trim \<circ> fst) ?rows = map fst R" using assms(1) by auto
  have "list_all (\<lambda>r. trim (fst r) \<noteq> []) ?rows" by (simp add: list_all_iff)
  then have "after_change ?rows = R" using after_change_distinct [of ?rows] keys assms by simp
  moreover have "\<forall>r \<in> set R. fst r \<noteq> [] \<and> trim (fst r) = fst r" unfolding assms(1) [symmetric] by auto
  ultimately show ?thesis
    using assms(2) after_change_named [of rows]
    by (auto simp: editor_inv_def named_rows_def row_tidy_def list_all_iff filter_id_conv)
qed

text \<open>Replacing the row with key \<open>k\<close>, which covers the edits that end with \<open>onChange\<close>.\<close>

lemma edit_row:
  assumes inv: "editor_inv (xs @ (k, w) # ys)" and k: "k \<notin> fst ` set xs"
    and new: "trim k2 = [] \<or> trim k2 = k \<or> trim k2 \<notin> fst ` set (xs @ (k, w) # ys)"
  shows "editor_inv (after_change (xs @ (k2, w2) # ys)) \<and>
    editor_map (after_change (xs @ (k2, w2) # ys)) =
      (if trim k2 = [] then (editor_map (xs @ (k, w) # ys))(k := None)
       else ((editor_map (xs @ (k, w) # ys))(k := None))(trim k2 \<mapsto> w2))"
proof -
  let ?X = "named_rows xs" and ?Y = "named_rows ys"
  define R where "R = ?X @ (if trim k2 = [] then [] else [(trim k2, w2)]) @ ?Y"
  have tidy: "list_all row_tidy xs" "list_all row_tidy ys" and
    old: "named_rows (xs @ (k, w) # ys) = ?X @ (if k = [] then [] else [(k, w)]) @ ?Y"
    using inv by (simp_all add: editor_inv_def) (simp add: named_rows_def)
  have dist: "distinct (map fst (?X @ (if k = [] then [] else [(k, w)]) @ ?Y))"
    using inv by (simp only: editor_inv_def old)
  have sub: "fst ` set ?X \<subseteq> fst ` set xs" "fst ` set ?Y \<subseteq> fst ` set ys" by (auto simp: named_rows_def)
  have kX: "k \<notin> fst ` set ?X" and kY: "k \<noteq> [] \<Longrightarrow> k \<notin> fst ` set ?Y" using k sub dist by auto
  have kk: "trim k2 \<noteq> [] \<Longrightarrow> trim k2 \<notin> fst ` set ?X \<and> trim k2 \<notin> fst ` set ?Y" using new kX kY sub by auto
  have "map (map_prod trim id) (filter (\<lambda>r. trim (fst r) \<noteq> []) (xs @ (k2, w2) # ys)) = R"
    using tidy_rows [OF tidy(1)] tidy_rows [OF tidy(2)] by (simp add: R_def)
  moreover have "distinct (map fst R)" using dist kk by (auto simp: R_def)
  ultimately have R: "after_change (xs @ (k2, w2) # ys) = R" "editor_inv R" "named_rows R = R"
    using after_change_result [of "xs @ (k2, w2) # ys" R] by blast+
  have "k = [] \<Longrightarrow> map_of ?Y k = None" by (auto simp: map_of_eq_None_iff named_rows_def)
  then have none: "map_of ?X k = None" "map_of ?Y k = None"
    using kX kY by (cases "k = []"; simp add: map_of_eq_None_iff)+
  have "trim k2 \<noteq> [] \<Longrightarrow> map_of ?X (trim k2) = None \<and> map_of ?Y (trim k2) = None"
    using kk by (simp add: map_of_eq_None_iff)
  with none have "map_of R = (if trim k2 = [] then (map_of (named_rows (xs @ (k, w) # ys)))(k := None)
      else ((map_of (named_rows (xs @ (k, w) # ys)))(k := None))(trim k2 \<mapsto> w2))"
    unfolding old R_def by (auto simp: fun_eq_iff map_add_def split: option.splits)
  with R show ?thesis by (simp add: editor_map_def)
qed

lemma after_change_removed: "after_change (xs @ ys) = after_change (xs @ ([], v) # ys)"
  using after_change_named [of "xs @ ys"] after_change_named [of "xs @ ([], v) # ys"] by (simp add: trim_def)

lemma editor_map_first:
  assumes "editor_inv (xs @ (k, w) # ys)" "k \<notin> fst ` set xs"
  shows "editor_map (xs @ (k, w) # ys) k = (if k = [] then None else Some w)" "k = [] \<Longrightarrow> w = JStr []"
proof -
  have "map_of (named_rows xs) k = None" using assms(2) by (auto simp: map_of_eq_None_iff named_rows_def)
  moreover have "map_of (named_rows ys) [] = None" "map_of (named_rows xs) [] = None"
    by (auto simp: map_of_eq_None_iff named_rows_def)
  ultimately show "editor_map (xs @ (k, w) # ys) k = (if k = [] then None else Some w)"
    by (simp add: editor_map_def map_add_def) (simp add: named_rows_def map_add_def)
  show "k = [] \<Longrightarrow> w = JStr []" using assms(1) by (simp add: editor_inv_def row_tidy_def)
qed

lemma editor_step_rows:
  assumes inv: "editor_inv rows" and ok: "edit_ok e rows"
  shows "editor_inv (editor_step e rows) \<and> editor_map (editor_step e rows) = attribute_spec e (editor_map rows)"
proof (cases e)
  case (SetValue k v)
  with ok have "k \<in> set (map fst rows)" by simp
  then obtain xs w ys where r: "rows = xs @ (k, w) # ys" "k \<notin> fst ` set xs" "row_index k rows = length xs"
    by (rule row_index_split)
  have k: "trim k = k" using inv r(1) by (simp add: editor_inv_def row_tidy_def)
  have "editor_step e rows = after_change (xs @ (k, JStr v) # ys)"
    using r by (simp add: SetValue changed_rows_def handleAttributeChange_def)
  then show ?thesis
    using edit_row [OF inv [unfolded r(1)] r(2), of k "JStr v"] editor_map_first [OF inv [unfolded r(1)] r(2)] r(1)
    by (auto simp: SetValue k fun_eq_iff)
next
  case (Rename k k')
  with ok have "k \<in> set (map fst rows)" by simp
  then obtain xs w ys where r: "rows = xs @ (k, w) # ys" "k \<notin> fst ` set xs" "row_index k rows = length xs"
    by (rule row_index_split)
  have "editor_step e rows = after_change (xs @ (k', w) # ys)"
    using r by (simp add: Rename changed_rows_def handleAttributeChange_def)
  moreover have "trim k' = [] \<or> trim k' = k \<or> trim k' \<notin> fst ` set (xs @ (k, w) # ys)"
    using ok r(1) by (auto simp: Rename)
  note edit_row [OF inv [unfolded r(1)] r(2) this, of w]
  moreover have "(if k = [] then Some (JStr []) else editor_map rows k) = Some w"
    using editor_map_first [OF inv [unfolded r(1)] r(2)] r(1) by simp
  ultimately show ?thesis using r(1) by (simp only: Rename attribute_spec.simps)
next
  case (Remove k)
  with ok have "k \<in> set (map fst rows)" by simp
  then obtain xs w ys where r: "rows = xs @ (k, w) # ys" "k \<notin> fst ` set xs" "row_index k rows = length xs"
    by (rule row_index_split)
  have "editor_step e rows = after_change (xs @ ([], JStr []) # ys)"
    using r after_change_removed [of xs ys "JStr []"] by (simp add: Remove handleRemoveAttribute_def)
  then show ?thesis
    using edit_row [OF inv [unfolded r(1)] r(2), of "[]" "JStr []"] r(1) by (simp add: Remove trim_def)
next
  case QuickFill
  have "editor_inv quick_attributes" "named_rows quick_attributes = quick_attributes" by code_simp+
  then show ?thesis by (simp add: QuickFill editor_sync_def editor_map_def)
next
  case AddRow
  then show ?thesis
    using inv by (simp add: handleAddAttribute_def editor_inv_def named_rows_def row_tidy_def editor_map_def trim_def)
qed

interpretation attributes_editor: functional_refinement editor_inv editor_map edit_ok editor_step attribute_spec
  by unfold_locales (simp_all add: editor_step_rows)

section \<open>Properties\<close>

text \<open>
  C9: The attributes editor refines a finite map. Starting from the entries of an attributes object with
  trimmed names, any sequence of added rows, edits of values, removals, quick fills and renamings, blank
  names included, leaves the editor with the entries of exactly the object that those edits specify, as long
  as no row is renamed to the name that another row has at that moment.
\<close>

theorem attributes_editor_refines_map:
  assumes "editor_inv rows" "run_ok edit_ok editor_step es rows"
  shows "editor_inv (fold editor_step es rows) \<and>
    editor_map (fold editor_step es rows) = fold attribute_spec es (editor_map rows)"
  using assms by (rule attributes_editor.run_refines)

theorem attributes_editor_refines_map_witness:
  "editor_map (fold editor_step [SetValue ''color'' ''red'', AddRow, Rename [] ''size'', Rename ''color'' '' hue '', Rename ''size'' '' '']
     [(''color'', JStr ''blue'')]) = [''hue'' \<mapsto> JStr ''red'']"
proof -
  let ?es = "[SetValue ''color'' ''red'', AddRow, Rename [] ''size'', Rename ''color'' '' hue '', Rename ''size'' '' '']"
  have "editor_inv [(''color'', JStr ''blue'')]" "run_ok edit_ok editor_step ?es [(''color'', JStr ''blue'')]"
    "trim '' hue '' = ''hue''" "trim '' '' = []" "trim ''size'' = ''size''"
    by code_simp+
  from attributes_editor_refines_map [OF this(1,2)] this(3-) show ?thesis by (auto simp: fun_eq_iff editor_map_def named_rows_def)
qed

text \<open>
  Renaming an attribute to a name that another row has destroys one of the two values: the one of the
  row that comes first.
\<close>

theorem renaming_can_lose_attribute:
  assumes "trim k = k" "k \<noteq> []" "trim k' = k'" "k' \<noteq> []" "k \<noteq> k'"
  shows "editor_step (Rename k k') [(k, v), (k', v')] = [(k', v')] \<and> editor_step (Rename k' k) [(k, v), (k', v')] = [(k, v')]"
  using assms by (simp add: changed_rows_def row_index_def handleAttributeChange_def after_change_def editor_sync_def updateParentValue_def)

lemma nested_null: "js_reduce (\<lambda>prev k. if js_truthy prev then js_get prev k else Inr JNull) ks JNull = Inr JNull"
  by (induction ks) simp_all

lemma truthy_get: "js_truthy v \<Longrightarrow> \<exists>x. js_get v k = Inr x"
  by (cases v) simp_all

lemma falsy_get:
  assumes "\<not> js_truthy v" "v \<noteq> JNull" "v \<noteq> JUndef" "k \<noteq> ''length''"
  shows "js_get v k = Inr JUndef"
  using assms by (cases v) (auto simp: find_index_def)

lemma paths_agree:
  assumes "''length'' \<notin> set ks"
  shows "\<exists>a b c. js_reduce (\<lambda>prev k. if js_truthy prev then js_get prev k else Inr JNull) ks v = Inr a \<and>
    walk_path JNull ks v = Inr b \<and> walk_path (JStr []) ks v = Inr c \<and>
    nullish a (JStr []) = nullish c (JStr []) \<and> nullish b (JStr []) = nullish c (JStr [])"
  using assms
proof (induction ks arbitrary: v)
  case (Cons k ks)
  consider "v = JNull \<or> v = JUndef" | "\<not> js_truthy v" "v \<noteq> JNull" "v \<noteq> JUndef" | "js_truthy v" "v \<noteq> JNull" "v \<noteq> JUndef" by auto
  then show ?case
  proof cases
    case 1
    then show ?thesis
      by (intro exI [of _ JNull] exI [of _ JNull] exI [of _ "JStr []"] conjI) (auto simp: nested_null nullish_def)
  next
    case 2
    moreover from Cons.prems have "k \<noteq> ''length''" by auto
    ultimately have "js_get v k = Inr JUndef" by (rule falsy_get)
    then show ?thesis using 2 by (cases ks) (simp_all add: nested_null nullish_def)
  next
    case 3
    then obtain x where "js_get v k = Inr x" using truthy_get by blast
    with 3 Cons show ?thesis by simp
  qed
qed simp

text \<open>
  The three lookups of a dotted field, which the tables and the detail page each implement for
  themselves, find the same value in every item, once a missing one is shown as the empty text. They
  differ only below a segment named \<open>length\<close>.
\<close>

theorem field_lookups_agree:
  assumes "''length'' \<notin> set (split_on (CHR ''.'') path)"
  shows "\<exists>a b c. getNestedValue item path = Inr a \<and> DataTable_getValue item path = Inr b \<and> ModularTable_getValue item path = Inr c \<and>
    nullish a (JStr []) = nullish c (JStr []) \<and> nullish b (JStr []) = nullish c (JStr [])"
  using paths_agree [OF assms, of item] by (simp add: getNestedValue_def DataTable_getValue_def ModularTable_getValue_def)

theorem field_lookups_agree_witness:
  "\<exists>a b c. getNestedValue (JObj [(''customer'', JStr [])]) ''customer.name'' = Inr a \<and>
     DataTable_getValue (JObj [(''customer'', JStr [])]) ''customer.name'' = Inr b \<and>
     ModularTable_getValue (JObj [(''customer'', JStr [])]) ''customer.name'' = Inr c \<and>
     nullish a (JStr []) = nullish c (JStr []) \<and> nullish b (JStr []) = nullish c (JStr [])"
proof -
  have "''length'' \<notin> set (split_on (CHR ''.'') ''customer.name'')" by code_simp
  then show ?thesis by (rule field_lookups_agree)
qed

section \<open>Sorting a column\<close>

text \<open>A column of numbers in which some rows may have no value; all those miss it in the same way.\<close>

definition cell :: "string \<Rightarrow> jsval \<Rightarrow> jsval" where
  "cell fld row = (case getNestedValue row fld of Inl e \<Rightarrow> JUndef | Inr v \<Rightarrow> v)"

definition number_column :: "string \<Rightarrow> jsval \<Rightarrow> jsval list \<Rightarrow> bool" where
  "number_column fld missing rows \<longleftrightarrow>
     missing \<in> {JNull, JUndef} \<and>
     list_all (\<lambda>r. getNestedValue r fld = Inr (cell fld r) \<and> (cell fld r = missing \<or> finite_num (cell fld r) \<noteq> None)) rows"

definition cell_num :: "string \<Rightarrow> jsval \<Rightarrow> rat" where
  "cell_num fld row = (case finite_num (cell fld row) of None \<Rightarrow> 0 | Some x \<Rightarrow> x)"

definition has_number :: "string \<Rightarrow> jsval \<Rightarrow> bool" where
  "has_number fld row \<longleftrightarrow> finite_num (cell fld row) \<noteq> None"

lemma insort_key_same: "(\<And>y. y \<in> set (x # ys) \<Longrightarrow> k y = k' y) \<Longrightarrow> insort_key k x ys = insort_key k' x ys"
  by (induction ys) auto

lemma sort_key_same: "(\<And>x. x \<in> set xs \<Longrightarrow> k x = k' x) \<Longrightarrow> sort_key k xs = sort_key k' xs"
  by (induction xs) (auto intro!: insort_key_same)

lemma sort_key_missing_last:
  assumes "\<And>x. x \<in> set xs \<Longrightarrow> P x \<Longrightarrow> k x < B" "\<And>x. x \<in> set xs \<Longrightarrow> \<not> P x \<Longrightarrow> k x = B"
  shows "sort_key k xs = sort_key k (filter P xs) @ filter (\<lambda>x. \<not> P x) xs"
proof (rule properties_for_sort_key)
  show "mset (sort_key k (filter P xs) @ filter (\<lambda>x. \<not> P x) xs) = mset xs" by simp
  have "map k (filter (\<lambda>x. \<not> P x) xs) = replicate (length (filter (\<lambda>x. \<not> P x) xs)) B"
    using assms(2) by (intro replicate_eqI) auto
  then have "sorted (map k (filter (\<lambda>x. \<not> P x) xs))" by (metis sorted_replicate)
  then show "sorted (map k (sort_key k (filter P xs) @ filter (\<lambda>x. \<not> P x) xs))"
    using assms by (fastforce simp: sorted_append)
next
  fix x assume x: "x \<in> set (sort_key k (filter P xs) @ filter (\<lambda>x. \<not> P x) xs)"
  show "filter (\<lambda>y. k x = k y) (sort_key k (filter P xs) @ filter (\<lambda>x. \<not> P x) xs) = filter (\<lambda>y. k x = k y) xs"
  proof (cases "P x")
    case True
    with x have xs: "x \<in> set xs" "k x < B" using assms(1) by auto
    then have "filter (\<lambda>y. k x = k y) (filter (\<lambda>x. \<not> P x) xs) = []" using assms(2) by (auto simp: filter_empty_conv)
    moreover have "filter (\<lambda>y. k x = k y) xs = filter (\<lambda>y. k x = k y) (filter P xs)"
    proof -
      have "P y" if "y \<in> set xs" "k x = k y" for y using xs(2) assms(2) [OF that(1)] that(2) by (cases "P y") auto
      then show ?thesis by (auto intro: filter_cong)
    qed
    moreover have "filter (\<lambda>y. k x = k y) (sort_key k (filter P xs)) = filter (\<lambda>y. k x = k y) (filter P xs)"
      using sort_key_stable [of k "k x" "filter P xs"] by (simp only: eq_commute)
    ultimately show ?thesis by simp
  next
    case False
    with x have xs: "k x = B" using assms(2) by auto
    then have "filter (\<lambda>y. k x = k y) (sort_key k (filter P xs)) = []" using assms(1) by (fastforce simp: filter_empty_conv)
    moreover have "filter (\<lambda>y. k x = k y) (filter (\<lambda>x. \<not> P x) xs) = filter (\<lambda>y. k x = k y) xs"
    proof -
      have "\<not> P y" if "y \<in> set xs" "k x = k y" for y using xs assms(1) [OF that(1)] that(2) by (cases "P y") auto
      then show ?thesis by (auto intro: filter_cong)
    qed
    ultimately show ?thesis by simp
  qed
qed

definition column_key :: "string \<Rightarrow> direction \<Rightarrow> jsval \<Rightarrow> rat" where
  "column_key fld dir row = (if dir = Asc then cell_num fld row else - cell_num fld row)"

lemma compare_numbers:
  assumes "number_column fld missing rows" "a \<in> set rows" "b \<in> set rows"
  shows "compare_rows E fld dir a b = Inr (Fin (
    if has_number fld a then if has_number fld b then
      (if column_key fld dir a = column_key fld dir b then 0 else if column_key fld dir b < column_key fld dir a then 1 else - 1) else - 1
    else if has_number fld b then 1 else 0))"
proof -
  have m: "missing = JNull \<or> missing = JUndef" using assms(1) by (simp add: number_column_def)
  have cells: "getNestedValue a fld = Inr (cell fld a)" "getNestedValue b fld = Inr (cell fld b)"
    "cell fld a = missing \<or> has_number fld a" "cell fld b = missing \<or> has_number fld b"
    using assms by (auto simp: number_column_def list_all_iff has_number_def)
  have num: "has_number fld r \<Longrightarrow> cell fld r = JNum (Fin (cell_num fld r))" for r
    by (auto simp: has_number_def cell_num_def finite_num_Some)
  have not_num: "cell fld r = missing \<Longrightarrow> \<not> has_number fld r" for r
    using m by (auto simp: has_number_def)
  show ?thesis
  proof (cases "has_number fld a"; cases "has_number fld b")
    assume "has_number fld a" "has_number fld b"
    then show ?thesis using num [of a] num [of b] cells(1,2)
      by (auto simp: compare_rows_def strict_eq_def column_key_def)
  next
    assume "has_number fld a" "\<not> has_number fld b"
    then show ?thesis using num [of a] cells m by (auto simp: compare_rows_def strict_eq_def)
  next
    assume "\<not> has_number fld a" "has_number fld b"
    then show ?thesis using num [of b] cells m by (auto simp: compare_rows_def strict_eq_def)
  next
    assume "\<not> has_number fld a" "\<not> has_number fld b"
    then show ?thesis using cells m by (auto simp: compare_rows_def strict_eq_def)
  qed
qed

text \<open>
  C16: Sorting the table by a column of numbers: the rows with a number come first, in ascending or
  descending order as chosen and with equal rows in their given order, and the rows without one follow
  unsorted, in both directions. No row is lost or doubled.
\<close>

theorem sorted_column_spec:
  assumes "sort_law E" "number_column fld missing rows" "sortField t = Some fld" "fld \<noteq> []"
  shows "sortedData E t rows =
    Inr (sort_key (column_key fld (sortDirection t)) (filter (has_number fld) rows) @ filter (\<lambda>r. \<not> has_number fld r) rows)"
proof -
  let ?k = "column_key fld (sortDirection t)"
  define B where "B = 1 + sum_list (map (\<lambda>r. \<bar>?k r\<bar>) rows)"
  let ?key = "\<lambda>r. if has_number fld r then ?k r else B"
  have below: "?k r < B" if "r \<in> set rows" for r
  proof -
    have "\<bar>?k r\<bar> \<le> sum_list (map (\<lambda>r. \<bar>?k r\<bar>) rows)"
      using that by (intro member_le_sum_list) auto
    then show ?thesis unfolding B_def by linarith
  qed
  have "consistent (compare_rows E fld (sortDirection t)) ?key rows"
    unfolding consistent_def
    using below by (auto simp: compare_numbers [OF assms(2)] not_less_iff_gr_or_eq dest: less_asym)
  then have "sortedData E t rows = Inr (sort_key ?key rows)"
    using assms by (simp add: sortedData_def sort_law_def)
  also have "sort_key ?key rows = sort_key ?key (filter (has_number fld) rows) @ filter (\<lambda>r. \<not> has_number fld r) rows"
    using below by (intro sort_key_missing_last) auto
  also have "sort_key ?key (filter (has_number fld) rows) = sort_key ?k (filter (has_number fld) rows)"
    by (rule sort_key_same) simp
  finally show ?thesis .
qed

definition priced :: "int \<Rightarrow> jsval" where
  "priced p = JObj [(''price'', int_val p)]"

theorem sorted_column_spec_witness:
  "sortedData demo_env \<lparr>sortField = Some ''price'', sortDirection = Desc, selectedItems = []\<rparr> [priced 2, JObj [], priced 3] =
     Inr [priced 3, priced 2, JObj []]"
proof -
  have c: "number_column ''price'' JUndef [priced 2, JObj [], priced 3]" by code_simp
  have "has_number ''price'' (priced 2)" "\<not> has_number ''price'' (JObj [])" "has_number ''price'' (priced 3)"
    "cell_num ''price'' (priced 2) = 2" "cell_num ''price'' (priced 3) = 3"
    by code_simp+
  then show ?thesis
    using sorted_column_spec [OF demo_sort_law c, of "\<lparr>sortField = Some ''price'', sortDirection = Desc, selectedItems = []\<rparr>"]
    by (simp add: column_key_def)
qed

section \<open>Selecting rows\<close>

text \<open>Rows that are told apart by a primitive \<open>id\<close>.\<close>

fun identified :: "jsval \<Rightarrow> bool" where
  "identified (JObj ps) \<longleftrightarrow> \<not> is_object (prop_lookup ps ''id'') \<and> prop_lookup ps ''id'' \<noteq> JNum NaN"
| "identified v \<longleftrightarrow> False"

definition rows_ok :: "jsval list \<Rightarrow> bool" where
  "rows_ok rows \<longleftrightarrow> list_all identified rows \<and> distinct (map (own ''id'') rows)"

inductive table_step :: "jsval list \<Rightarrow> table \<Rightarrow> table \<Rightarrow> bool" for rows where
  click: "item \<in> set rows \<Longrightarrow> row_onSelect item t = Inr t' \<Longrightarrow> table_step rows t t'"
| all: "table_step rows t (handleSelectAll rows b t)"
| sort: "table_step rows t (handleSort fld t)"

definition selection_inv :: "jsval list \<Rightarrow> table \<Rightarrow> bool" where
  "selection_inv rows t \<longleftrightarrow> set (selectedItems t) \<subseteq> set rows \<and> distinct (selectedItems t)"

lemma row_id_own: "identified r \<Longrightarrow> row_id r = Inr (own ''id'' r)"
  by (cases r) (simp_all add: row_id_def)

lemma same_row:
  assumes "rows_ok rows" "a \<in> set rows" "b \<in> set rows"
  shows "strict_eq (own ''id'' a) (own ''id'' b) \<longleftrightarrow> a = b"
proof -
  have "identified a" using assms by (simp add: rows_ok_def list_all_iff)
  then have "\<not> is_object (own ''id'' a)" "own ''id'' a \<noteq> JNum NaN" by (cases a; simp)+
  moreover have "own ''id'' a = own ''id'' b \<longleftrightarrow> a = b"
    using assms by (auto simp: rows_ok_def distinct_map dest: inj_onD)
  ultimately show ?thesis by (simp add: strict_eq_def)
qed

lemma find_eq_iff: "(\<exists>y. List.find (\<lambda>i. i = x) xs = Some y) \<longleftrightarrow> x \<in> set xs"
  by (induction xs) auto

lemma is_selected_iff:
  assumes "rows_ok rows" "set (selectedItems t) \<subseteq> set rows" "item \<in> set rows"
  shows "is_selected t item = Inr (item \<in> set (selectedItems t))"
proof -
  have "js_bind (row_id i) (\<lambda>x. js_bind (row_id item) (\<lambda>y. Inr (strict_eq x y))) = Inr (i = item)" if "i \<in> set (selectedItems t)" for i
    using that assms same_row [OF assms(1), of i item] by (auto simp: row_id_own rows_ok_def list_all_iff subset_iff)
  then have "js_find (\<lambda>i. js_bind (row_id i) (\<lambda>x. js_bind (row_id item) (\<lambda>y. Inr (strict_eq x y)))) (selectedItems t) =
      Inr (List.find (\<lambda>i. i = item) (selectedItems t))" by (rule js_find_pure)
  then show ?thesis by (simp add: is_selected_def find_eq_iff)
qed

lemma row_onSelect_toggles:
  assumes "rows_ok rows" "set (selectedItems t) \<subseteq> set rows" "item \<in> set rows"
  shows "row_onSelect item t = Inr (t\<lparr>selectedItems :=
    (if item \<in> set (selectedItems t) then filter (\<lambda>i. i \<noteq> item) (selectedItems t) else selectedItems t @ [item])\<rparr>)"
proof -
  have "js_bind (row_id i) (\<lambda>x. js_bind (row_id item) (\<lambda>y. Inr (\<not> strict_eq x y))) = Inr (i \<noteq> item)" if "i \<in> set (selectedItems t)" for i
    using that assms same_row [OF assms(1), of i item] by (auto simp: row_id_own rows_ok_def list_all_iff subset_iff)
  then have "js_filter (\<lambda>i. js_bind (row_id i) (\<lambda>x. js_bind (row_id item) (\<lambda>y. Inr (\<not> strict_eq x y)))) (selectedItems t) =
      Inr (filter (\<lambda>i. i \<noteq> item) (selectedItems t))" by (rule js_filter_pure)
  then show ?thesis by (simp add: row_onSelect_def is_selected_iff [OF assms] handleSelectItem_def)
qed

lemma table_step_inv:
  assumes "rows_ok rows" "table_step rows t t'" "selection_inv rows t"
  shows "selection_inv rows t'"
  using assms(2,3)
proof cases
  case (click item)
  with assms(1,3) row_onSelect_toggles [OF assms(1), of t item] show ?thesis
    by (auto simp: selection_inv_def split: if_splits)
next
  case (all b)
  with assms(1) show ?thesis by (simp add: selection_inv_def handleSelectAll_def rows_ok_def distinct_map)
next
  case (sort fld)
  with assms(3) show ?thesis by (simp add: selection_inv_def handleSort_def)
qed

lemma table_steps_inv:
  "(table_step rows)\<^sup>*\<^sup>* t t' \<Longrightarrow> rows_ok rows \<Longrightarrow> selection_inv rows t \<Longrightarrow> selection_inv rows t'"
  by (induction rule: rtranclp_induct) (auto intro: table_step_inv)

text \<open>
  The selection of a table. Whatever its user clicks, a click on a row toggles that row and no other,
  and the box in the header is ticked exactly when there are rows and all of them are selected.
\<close>

theorem table_selection_spec:
  assumes "(table_step rows)\<^sup>*\<^sup>* \<lparr>sortField = None, sortDirection = Asc, selectedItems = []\<rparr> t" "rows_ok rows"
  shows "(all_checked rows t \<longleftrightarrow> rows \<noteq> [] \<and> (\<forall>r \<in> set rows. is_selected t r = Inr True)) \<and>
    (\<forall>item \<in> set rows. \<exists>t'. row_onSelect item t = Inr t' \<and>
       (\<forall>r \<in> set rows. is_selected t' r = (if r = item then map_sum id Not (is_selected t r) else is_selected t r)))"
proof -
  have inv: "selection_inv rows t" using table_steps_inv [OF assms] by (simp add: selection_inv_def)
  then have sub: "set (selectedItems t) \<subseteq> set rows" and d: "distinct (selectedItems t)" by (simp_all add: selection_inv_def)
  have dr: "distinct rows" using assms(2) by (simp add: rows_ok_def distinct_map)
  have "length (selectedItems t) = length rows \<longleftrightarrow> set rows \<subseteq> set (selectedItems t)"
    using sub d dr by (metis card_subset_eq distinct_card finite_set subset_antisym order_refl)
  then have "all_checked rows t \<longleftrightarrow> rows \<noteq> [] \<and> (\<forall>r \<in> set rows. is_selected t r = Inr True)"
    by (auto simp: all_checked_def is_selected_iff [OF assms(2) sub])
  moreover have "\<exists>t'. row_onSelect item t = Inr t' \<and>
      (\<forall>r \<in> set rows. is_selected t' r = (if r = item then map_sum id Not (is_selected t r) else is_selected t r))"
    if item: "item \<in> set rows" for item
  proof -
    let ?t' = "t\<lparr>selectedItems := (if item \<in> set (selectedItems t) then filter (\<lambda>i. i \<noteq> item) (selectedItems t) else selectedItems t @ [item])\<rparr>"
    have "set (selectedItems ?t') \<subseteq> set rows" using sub item by auto
    then show ?thesis
      using row_onSelect_toggles [OF assms(2) sub item] is_selected_iff [OF assms(2), of ?t'] is_selected_iff [OF assms(2) sub]
      by (intro exI [of _ ?t']) auto
  qed
  ultimately show ?thesis by blast
qed

definition demo_rows2 :: "jsval list" where
  "demo_rows2 = [JObj [(''id'', JStr ''a'')], JObj [(''id'', JStr ''b'')]]"

theorem table_selection_spec_witness:
  "all_checked demo_rows2 (handleSelectAll demo_rows2 True \<lparr>sortField = None, sortDirection = Asc, selectedItems = []\<rparr>) \<and>
   is_selected (handleSelectAll demo_rows2 True \<lparr>sortField = None, sortDirection = Asc, selectedItems = []\<rparr>) (hd demo_rows2) = Inr True"
proof -
  let ?t = "handleSelectAll demo_rows2 True \<lparr>sortField = None, sortDirection = Asc, selectedItems = []\<rparr>"
  have "rows_ok demo_rows2" by code_simp
  moreover have "(table_step demo_rows2)\<^sup>*\<^sup>* \<lparr>sortField = None, sortDirection = Asc, selectedItems = []\<rparr> ?t"
    by (intro r_into_rtranclp table_step.all)
  moreover have "all_checked demo_rows2 ?t" by (simp add: all_checked_def handleSelectAll_def demo_rows2_def)
  moreover have "hd demo_rows2 \<in> set demo_rows2" by (simp add: demo_rows2_def)
  ultimately show ?thesis using table_selection_spec [of demo_rows2 ?t] by blast
qed

section \<open>Debouncing\<close>

text \<open>
  Typed values and ticks of the clock with their times, in order; no tick comes as late as the delay
  after the last typed value.
\<close>

fun busy :: "nat \<Rightarrow> nat \<Rightarrow> (nat \<times> string option) list \<Rightarrow> bool" where
  "busy delay t0 [] \<longleftrightarrow> True"
| "busy delay t0 ((now, Some v) # evs) \<longleftrightarrow> t0 \<le> now \<and> busy delay now evs"
| "busy delay t0 ((now, None) # evs) \<longleftrightarrow> t0 \<le> now \<and> now < t0 + delay \<and> busy delay t0 evs"

fun debounce_run :: "nat \<Rightarrow> (nat \<times> string option) list \<Rightarrow> debounce \<Rightarrow> debounce" where
  "debounce_run delay [] d = d"
| "debounce_run delay ((now, Some v) # evs) d = debounce_run delay evs (debounce_change delay now v d)"
| "debounce_run delay ((now, None) # evs) d = debounce_run delay evs (debounce_tick now d)"

fun last_typed :: "nat \<times> string \<Rightarrow> (nat \<times> string option) list \<Rightarrow> nat \<times> string" where
  "last_typed p [] = p"
| "last_typed p ((now, Some v) # evs) = last_typed (now, v) evs"
| "last_typed p ((now, None) # evs) = last_typed p evs"

lemma debounce_run_busy:
  "busy delay t0 evs \<Longrightarrow> db_timer d = Some (v0, t0 + delay) \<Longrightarrow>
     debounce_run delay evs d =
       d\<lparr>db_timer := Some (snd (last_typed (t0, v0) evs), fst (last_typed (t0, v0) evs) + delay)\<rparr>"
proof (induction delay t0 evs arbitrary: d v0 rule: busy.induct)
  case (1 delay t0)
  then show ?case by simp
next
  case (2 delay t0 now v evs)
  then show ?case by (simp add: debounce_change_def)
next
  case (3 delay t0 now evs)
  then show ?case by (simp add: debounce_tick_def)
qed

text \<open>
  The debounced search. While the user keeps typing, with pauses shorter than the delay, the term
  that is searched for stays as it was; as soon as the delay has passed since the last change it becomes
  the last term typed, and none of those in between is ever searched for.
\<close>

theorem debounce_settles:
  assumes "busy delay t0 evs" "last_typed (t0, v0) evs = (t, v)" "t + delay \<le> now"
  shows "db_debounced (debounce_run delay evs (debounce_change delay t0 v0 d)) = db_debounced d \<and>
    debounce_tick now (debounce_run delay evs (debounce_change delay t0 v0 d)) = \<lparr>db_debounced = v, db_timer = None\<rparr>"
  using debounce_run_busy [OF assms(1), of "debounce_change delay t0 v0 d" v0] assms(2,3)
  by (simp add: debounce_change_def debounce_tick_def)

theorem debounce_settles_witness:
  "debounce_tick 900 (debounce_run 500 [(100, Some ''wi''), (150, None), (200, Some ''wid'')]
     (debounce_change 500 0 ''w'' (debounce_initial 500 0 []))) = \<lparr>db_debounced = ''wid'', db_timer = None\<rparr>"
  using debounce_settles [of 500 0 "[(100, Some ''wi''), (150, None), (200, Some ''wid'')]" "''w''" 200 "''wid''" 900 "debounce_initial 500 0 []"]
  by simp

section \<open>Saving\<close>

lemma module_titles:
  assumes "initialize U A tmp url empty_backoffice = Inr st" "m \<in> snd ` set (bs_modules st)"
  shows "bc_title (m_config m) \<in> set [''Customers'', ''Warehouses'', ''Inventory'', ''Orders'', ''Inv. Transactions'', ''Inv. Reservations'']"
  using assms
  by (auto simp: initialize_def empty_backoffice_def buildCustomerModule_def buildWarehouseModule_def buildInventoryModule_def
      buildInventoryTransactionsModule_def buildInventoryReservationsModule_def buildOrderModule_def build_def setConfig_def setApiEndpoint_def
      setNavItem_def setListConfig_def setFormConfig_def setDetailConfig_def Let_def
      customer_config_def warehouse_config_def inventory_config_def transactions_config_def reservations_config_def order_config_def)

lemma titles_have_capitals:
  "list_all (\<lambda>s. toLowerCase s \<noteq> s) [''Customers'', ''Warehouses'', ''Inventory'', ''Orders'', ''Inv. Transactions'', ''Inv. Reservations'']"
  by code_simp

text \<open>
  What a save tells the list. None of the keys that the form of a module invalidates is the first
  part of the key under which the list of that module keeps its rows, whatever the search and the
  filters: the keys are the title in lower case and with a suffix, and every title has a capital.
  The rows of the list thus stay marked as fresh, and for half a minute a return to it shows them without the saved record.
\<close>

theorem saving_leaves_list_stale:
  assumes "initialize U A tmp url empty_backoffice = Inr st" "m \<in> snd ` set (bs_modules st)"
  shows "fst (list_queryKey m search filters) \<notin> set (form_queryInvalidations m)"
proof -
  have "toLowerCase (bc_title (m_config m)) \<noteq> bc_title (m_config m)"
    using module_titles [OF assms] titles_have_capitals by (auto simp: list_all_iff)
  moreover have "bc_title (m_config m) \<noteq> toLowerCase (bc_title (m_config m)) @ ''-detail''"
  proof
    assume "bc_title (m_config m) = toLowerCase (bc_title (m_config m)) @ ''-detail''"
    then have "length (bc_title (m_config m)) = length (toLowerCase (bc_title (m_config m)) @ ''-detail'')" by (rule arg_cong)
    then show False by (simp add: toLowerCase_def)
  qed
  ultimately show ?thesis by (simp add: list_queryKey_def form_queryInvalidations_def Let_def)
qed

theorem saving_leaves_list_stale_witness:
  "\<exists>st m. initialize demo_ui demo_backoffice_api (\<lambda>w. ''o1'') ''http://localhost'' empty_backoffice = Inr st \<and> map_of (bs_modules st) ''orders'' = Some m \<and>
     fst (list_queryKey m ''ann'' []) \<notin> set (form_queryInvalidations m)"
proof -
  obtain st where st: "initialize demo_ui demo_backoffice_api (\<lambda>w. ''o1'') ''http://localhost'' empty_backoffice = Inr st" "map fst (bs_modules st) = module_keys"
    using modules_build [of demo_ui "demo_backoffice_api\<lparr>a_service := director_service ''http://localhost''\<rparr>" "\<lambda>w. ''o1''"]
    by (auto simp: initialize_def empty_backoffice_def module_keys_def)
  then obtain m where m: "map_of (bs_modules st) ''orders'' = Some m"
    using getModule_key(1) [OF st(2), of "''orders''"] by (auto simp: module_keys_def)
  then have "m \<in> snd ` set (bs_modules st)" by (metis image_eqI map_of_SomeD snd_conv)
  then show ?thesis using saving_leaves_list_stale [OF st(1)] m st(1) by blast
qed

text \<open>
  The life of a form page after mounting: the form is shown when the page is not loading, and its button
  is enabled when it is not saving. The last component lists the requests that succeeded.
\<close>

inductive form_page_step ::
  "module \<Rightarrow> bool \<Rightarrow> string \<Rightarrow> form_page \<times> window \<times> jsval list \<Rightarrow> form_page \<times> window \<times> jsval list \<Rightarrow> bool" for m isEdit i where
  saved: "\<not> fp_isSaving p \<Longrightarrow> \<not> fp_isLoading p \<Longrightarrow> form_handleSubmit m isEdit i values p w = (p', w') \<Longrightarrow>
    fp_error p' = None \<Longrightarrow> form_page_step m isEdit i (p, w, ok) (p', w', ok @ [JObj values])"
| failed: "\<not> fp_isSaving p \<Longrightarrow> \<not> fp_isLoading p \<Longrightarrow> form_handleSubmit m isEdit i values p w = (p', w') \<Longrightarrow>
    fp_error p' \<noteq> None \<Longrightarrow> form_page_step m isEdit i (p, w, ok) (p', w', ok)"

inductive_cases form_page_stepE: "form_page_step m isEdit i (p, w, ok) s"

definition form_page_inv :: "module \<Rightarrow> form_page \<times> window \<times> jsval list \<Rightarrow> bool" where
  "form_page_inv m s \<longleftrightarrow> (case s of (p, w, ok) \<Rightarrow>
     fp_pushed p = map (\<lambda>_. getListPath m) ok \<and> length ok \<le> 1 \<and> (fp_isSaving p \<longleftrightarrow> ok \<noteq> []))"

lemma form_page_step_inv: "form_page_step m isEdit i s s' \<Longrightarrow> form_page_inv m s \<Longrightarrow> form_page_inv m s'"
  by (induction rule: form_page_step.induct)
    (auto simp: form_page_inv_def form_handleSubmit_def Let_def split: prod.splits sum.splits if_splits)

lemma form_page_steps_inv:
  "(form_page_step m isEdit i)\<^sup>*\<^sup>* s s' \<Longrightarrow> form_page_inv m s \<Longrightarrow> form_page_inv m s'"
  by (induction rule: rtranclp_induct) (auto intro: form_page_step_inv)

lemma form_mount_inv: "form_mount m isEdit i w = (p, w') \<Longrightarrow> form_page_inv m (p, w', [])"
  by (auto simp: form_page_inv_def form_mount_def form_fetchItem_def new_form_page_def Let_def split: prod.splits sum.splits if_splits)

text \<open>
  One visit of a form page saves at most one record. However often the user presses the save button, after
  the page has loaded, a request that succeeds leads to the list, once, and leaves the button disabled, so that
  nothing is submitted after it; a request that fails leaves the page where it is, with a message and
  the button enabled.
\<close>

theorem form_page_saves_once:
  assumes "form_mount m isEdit i w0 = (p0, w1)" "(form_page_step m isEdit i)\<^sup>*\<^sup>* (p0, w1, []) (p, w, ok)"
  shows "fp_pushed p = map (\<lambda>_. getListPath m) ok \<and> length ok \<le> 1 \<and>
    (ok \<noteq> [] \<longrightarrow> (\<nexists>s. form_page_step m isEdit i (p, w, ok) s)) \<and>
    (ok = [] \<longrightarrow> \<not> fp_isSaving p)"
  using form_page_steps_inv [OF assms(2) form_mount_inv [OF assms(1)]]
  by (auto simp: form_page_inv_def elim: form_page_stepE)

definition demo_module :: module where
  "demo_module = \<lparr>m_config = customer_config, m_apiEndpoint = ''/api/customers'',
     m_fetchList = (\<lambda>ps w. (Inr (arr []), w)), m_fetchItem = (\<lambda>i w. (Inr JNull, w)),
     m_createItem = (\<lambda>v w. (Inr v, w)), m_updateItem = (\<lambda>i v w. (Inr v, w)), m_deleteItem = (\<lambda>i w. (Inr JNull, w)),
     m_listConfig = None, m_formConfig = None, m_detailConfig = None, m_navItem = None\<rparr>"

theorem form_page_saves_once_witness:
  "\<nexists>s. form_page_step demo_module False []
     (fst (form_handleSubmit demo_module False [] [] (new_form_page False) fresh_window), fresh_window, [JObj []]) s"
proof -
  let ?p = "fst (form_handleSubmit demo_module False [] [] (new_form_page False) fresh_window)"
  have mount: "form_mount demo_module False [] fresh_window = (new_form_page False, fresh_window)" by (simp add: form_mount_def)
  have "form_handleSubmit demo_module False [] [] (new_form_page False) fresh_window = (?p, fresh_window)" "fp_error ?p = None"
    by (simp_all add: form_handleSubmit_def demo_module_def Let_def)
  then have "form_page_step demo_module False [] (new_form_page False, fresh_window, []) (?p, fresh_window, [] @ [JObj []])"
    by (intro form_page_step.saved) (simp_all add: new_form_page_def)
  then show ?thesis using form_page_saves_once [OF mount] by (metis append_Nil list.distinct(1) r_into_rtranclp)
qed

end
