(* ===== verification/Dashboard_Hooks.thy ===== *)
theory Dashboard_Hooks
  imports Backoffice_Director
begin

text \<open>
  The data hooks of the dashboard (\<open>hooks/useInventory.ts\<close>, \<open>useOrders.ts\<close>, \<open>useShipping.ts\<close>,
  \<open>usePayments.ts\<close> and \<open>useCustomers.ts\<close>) over \<open>ApiService\<close>. A method of a hook is one step when
  nothing overlaps with it (\<open>hook_call\<close>); overlapping calls are sequences of its two halves
  (\<open>hook_run\<close>).
\<close>

section \<open>The state of a hook\<close>

record hook =
  h_loading :: bool
  h_error :: "exn option"

definition new_hook :: hook where
  "new_hook = \<lparr>h_loading = False, h_error = None\<rparr>"

text \<open>What every method does before its request, and after the request has ended.\<close>

definition hook_begin :: "hook \<Rightarrow> hook" where
  "hook_begin h = h\<lparr>h_loading := True, h_error := None\<rparr>"

definition hook_end :: "exn + 'a \<Rightarrow> hook \<Rightarrow> hook" where
  "hook_end r h =
     (let h = (case r of Inl err \<Rightarrow> h\<lparr>h_error := Some err\<rparr> | Inr _ \<Rightarrow> h) in h\<lparr>h_loading := False\<rparr>)"

type_synonym hook_op = "(hook \<times> window, jsval) op"

definition hook_call :: "(window, jsval) op \<Rightarrow> hook_op" where
  "hook_call request s =
     (case s of (h, w) \<Rightarrow> (case request w of (r, w') \<Rightarrow> (r, (hook_end r (hook_begin h), w'))))"

text \<open>The methods that wait for a deletion return nothing.\<close>

definition hook_void :: "(window, jsval) op \<Rightarrow> hook_op" where
  "hook_void request s = (case hook_call request s of (r, s') \<Rightarrow> (map_sum id (\<lambda>_. JUndef) r, s'))"

text \<open>\<open>new ApiService({ baseUrl })\<close>\<close>

definition hook_service :: "string \<Rightarrow> api_service" where
  "hook_service base = \<lparr>baseUrl = base, defaultHeaders = Map.empty, defaultTimeout = 30000\<rparr>"

named_theorems hook_methods \<open>the methods of the hooks\<close>

section \<open>useInventory\<close>

definition listInventoryItems :: "api_context \<Rightarrow> hook_op" where [hook_methods]:
  "listInventoryItems A = hook_call (api_get A ''/api/inventory'' no_config)"

definition getInventoryItem :: "api_context \<Rightarrow> string \<Rightarrow> hook_op" where [hook_methods]:
  "getInventoryItem A i = hook_call (api_get A (''/api/inventory/'' @ i) no_config)"

definition createInventoryItem :: "api_context \<Rightarrow> jsval \<Rightarrow> hook_op" where [hook_methods]:
  "createInventoryItem A data = hook_call (api_post A ''/api/inventory'' data)"

definition updateInventoryItem :: "api_context \<Rightarrow> string \<Rightarrow> jsval \<Rightarrow> hook_op" where [hook_methods]:
  "updateInventoryItem A i data = hook_call (api_put A (''/api/inventory/'' @ i) data)"

definition deleteInventoryItem :: "api_context \<Rightarrow> string \<Rightarrow> hook_op" where [hook_methods]:
  "deleteInventoryItem A i = hook_void (api_delete A (''/api/inventory/'' @ i))"

definition adjustQuantity :: "api_context \<Rightarrow> string \<Rightarrow> jsval \<Rightarrow> hook_op" where [hook_methods]:
  "adjustQuantity A i quantity = hook_call (api_put A (''/api/inventory/'' @ i @ ''/adjust'') (JObj [(''quantity'', quantity)]))"

definition listTransactions :: "api_context \<Rightarrow> hook_op" where [hook_methods]:
  "listTransactions A = hook_call (api_get A ''/api/inventory/transactions'' no_config)"

definition createTransaction :: "api_context \<Rightarrow> jsval \<Rightarrow> hook_op" where [hook_methods]:
  "createTransaction A data = hook_call (api_post A ''/api/inventory/transactions'' data)"

definition listReservations :: "api_context \<Rightarrow> hook_op" where [hook_methods]:
  "listReservations A = hook_call (api_get A ''/api/inventory/reservations'' no_config)"

definition createReservation :: "api_context \<Rightarrow> jsval \<Rightarrow> hook_op" where [hook_methods]:
  "createReservation A data = hook_call (api_post A ''/api/inventory/reservations'' data)"

definition updateReservation :: "api_context \<Rightarrow> string \<Rightarrow> jsval \<Rightarrow> hook_op" where [hook_methods]:
  "updateReservation A i data = hook_call (api_put A (''/api/inventory/reservations/'' @ i) data)"

definition deleteReservation :: "api_context \<Rightarrow> string \<Rightarrow> hook_op" where [hook_methods]:
  "deleteReservation A i = hook_void (api_delete A (''/api/inventory/reservations/'' @ i))"

section \<open>useOrders\<close>

definition listOrders :: "api_context \<Rightarrow> hook_op" where [hook_methods]:
  "listOrders A = hook_call (api_get A ''/api/orders'' no_config)"

definition getOrder :: "api_context \<Rightarrow> string \<Rightarrow> hook_op" where [hook_methods]:
  "getOrder A i = hook_call (api_get A (''/api/orders/'' @ i) no_config)"

definition createOrder :: "api_context \<Rightarrow> jsval \<Rightarrow> hook_op" where [hook_methods]:
  "createOrder A data = hook_call (api_post A ''/api/orders'' data)"

definition updateOrder :: "api_context \<Rightarrow> string \<Rightarrow> jsval \<Rightarrow> hook_op" where [hook_methods]:
  "updateOrder A i data = hook_call (api_put A (''/api/orders/'' @ i) data)"

definition updateOrderStatus :: "api_context \<Rightarrow> string \<Rightarrow> jsval \<Rightarrow> hook_op" where [hook_methods]:
  "updateOrderStatus A i st = hook_call (api_put A (''/api/orders/'' @ i @ ''/status'') (JObj [(''status'', st)]))"

definition getOrderItems :: "api_context \<Rightarrow> string \<Rightarrow> hook_op" where [hook_methods]:
  "getOrderItems A i = hook_call (api_get A (''/api/orders/'' @ i @ ''/items'') no_config)"

definition updateOrderItem :: "api_context \<Rightarrow> string \<Rightarrow> string \<Rightarrow> jsval \<Rightarrow> hook_op" where [hook_methods]:
  "updateOrderItem A i j data = hook_call (api_put A (''/api/orders/'' @ i @ ''/items/'' @ j) data)"

definition deleteOrderItem :: "api_context \<Rightarrow> string \<Rightarrow> string \<Rightarrow> hook_op" where [hook_methods]:
  "deleteOrderItem A i j = hook_void (api_delete A (''/api/orders/'' @ i @ ''/items/'' @ j))"

section \<open>useShipping\<close>

definition listShipments :: "api_context \<Rightarrow> hook_op" where [hook_methods]:
  "listShipments A = hook_call (api_get A ''/api/shipping'' no_config)"

definition getShipment :: "api_context \<Rightarrow> string \<Rightarrow> hook_op" where [hook_methods]:
  "getShipment A i = hook_call (api_get A (''/api/shipping/'' @ i) no_config)"

definition createShipment :: "api_context \<Rightarrow> jsval \<Rightarrow> hook_op" where [hook_methods]:
  "createShipment A data = hook_call (api_post A ''/api/shipping'' data)"

definition updateShipment :: "api_context \<Rightarrow> string \<Rightarrow> jsval \<Rightarrow> hook_op" where [hook_methods]:
  "updateShipment A i data = hook_call (api_put A (''/api/shipping/'' @ i) data)"

definition deleteShipment :: "api_context \<Rightarrow> string \<Rightarrow> hook_op" where [hook_methods]:
  "deleteShipment A i = hook_void (api_delete A (''/api/shipping/'' @ i))"

definition updateShipmentStatus :: "api_context \<Rightarrow> string \<Rightarrow> jsval \<Rightarrow> hook_op" where [hook_methods]:
  "updateShipmentStatus A i st = hook_call (api_put A (''/api/shipping/'' @ i @ ''/status'') (JObj [(''status'', st)]))"

definition markAsDelivered :: "api_context \<Rightarrow> string \<Rightarrow> hook_op" where [hook_methods]:
  "markAsDelivered A i = hook_call (api_post A (''/api/shipping/'' @ i @ ''/deliver'') JUndef)"

definition getShipmentByTracking :: "api_context \<Rightarrow> string \<Rightarrow> hook_op" where [hook_methods]:
  "getShipmentByTracking A i = hook_call (api_get A (''/api/shipping/tracking/'' @ i) no_config)"

section \<open>usePayments\<close>

definition listPayments :: "api_context \<Rightarrow> hook_op" where [hook_methods]:
  "listPayments A = hook_call (api_get A ''/api/payments'' no_config)"

definition getPayment :: "api_context \<Rightarrow> string \<Rightarrow> hook_op" where [hook_methods]:
  "getPayment A i = hook_call (api_get A (''/api/payments/'' @ i) no_config)"

definition createPayment :: "api_context \<Rightarrow> jsval \<Rightarrow> hook_op" where [hook_methods]:
  "createPayment A data = hook_call (api_post A ''/api/payments'' data)"

definition updatePayment :: "api_context \<Rightarrow> string \<Rightarrow> jsval \<Rightarrow> hook_op" where [hook_methods]:
  "updatePayment A i data = hook_call (api_put A (''/api/payments/'' @ i) data)"

definition deletePayment :: "api_context \<Rightarrow> string \<Rightarrow> hook_op" where [hook_methods]:
  "deletePayment A i = hook_void (api_delete A (''/api/payments/'' @ i))"

definition processPayment :: "api_context \<Rightarrow> string \<Rightarrow> hook_op" where [hook_methods]:
  "processPayment A i = hook_call (api_post A (''/api/payments/'' @ i @ ''/process'') JUndef)"

definition refundPayment :: "api_context \<Rightarrow> string \<Rightarrow> jsval \<Rightarrow> hook_op" where [hook_methods]:
  "refundPayment A i amount = hook_call (api_post A (''/api/payments/'' @ i @ ''/refund'') (JObj [(''amount'', amount)]))"

section \<open>useCustomers\<close>

definition listCustomers :: "api_context \<Rightarrow> hook_op" where [hook_methods]:
  "listCustomers A = hook_call (api_get A ''/api/customers'' no_config)"

definition getCustomer :: "api_context \<Rightarrow> string \<Rightarrow> hook_op" where [hook_methods]:
  "getCustomer A i = hook_call (api_get A (''/api/customers/'' @ i) no_config)"

definition createCustomer :: "api_context \<Rightarrow> jsval \<Rightarrow> hook_op" where [hook_methods]:
  "createCustomer A data = hook_call (api_post A ''/api/customers'' data)"

definition updateCustomer :: "api_context \<Rightarrow> string \<Rightarrow> jsval \<Rightarrow> hook_op" where [hook_methods]:
  "updateCustomer A i data = hook_call (api_put A (''/api/customers/'' @ i) data)"

definition deleteCustomer :: "api_context \<Rightarrow> string \<Rightarrow> hook_op" where [hook_methods]:
  "deleteCustomer A i = hook_void (api_delete A (''/api/customers/'' @ i))"

text \<open>All methods of a hook, on given identifiers and data.\<close>

definition useInventory :: "api_context \<Rightarrow> string \<Rightarrow> string \<Rightarrow> jsval \<Rightarrow> hook_op list" where [hook_methods]:
  "useInventory A i j data =
     [listInventoryItems A, getInventoryItem A i, createInventoryItem A data, updateInventoryItem A i data,
      deleteInventoryItem A i, adjustQuantity A i data, listTransactions A, createTransaction A data,
      listReservations A, createReservation A data, updateReservation A i data, deleteReservation A i]"

definition useOrders :: "api_context \<Rightarrow> string \<Rightarrow> string \<Rightarrow> jsval \<Rightarrow> hook_op list" where [hook_methods]:
  "useOrders A i j data =
     [listOrders A, getOrder A i, createOrder A data, updateOrder A i data, updateOrderStatus A i data,
      getOrderItems A i, updateOrderItem A i j data, deleteOrderItem A i j]"

definition useShipping :: "api_context \<Rightarrow> string \<Rightarrow> string \<Rightarrow> jsval \<Rightarrow> hook_op list" where [hook_methods]:
  "useShipping A i j data =
     [listShipments A, getShipment A i, createShipment A data, updateShipment A i data, deleteShipment A i,
      updateShipmentStatus A i data, markAsDelivered A i, getShipmentByTracking A i]"

definition usePayments :: "api_context \<Rightarrow> string \<Rightarrow> string \<Rightarrow> jsval \<Rightarrow> hook_op list" where [hook_methods]:
  "usePayments A i j data =
     [listPayments A, getPayment A i, createPayment A data, updatePayment A i data, deletePayment A i,
      processPayment A i, refundPayment A i data]"

definition useCustomers :: "api_context \<Rightarrow> string \<Rightarrow> string \<Rightarrow> jsval \<Rightarrow> hook_op list" where [hook_methods]:
  "useCustomers A i j data =
     [listCustomers A, getCustomer A i, createCustomer A data, updateCustomer A i data, deleteCustomer A i]"

section \<open>Overlapping calls\<close>

text \<open>A call starts or a request of an earlier call ends; \<open>None\<close> when no request is under way.\<close>

datatype hook_event = Begin | End "exn + jsval"

fun hook_run :: "hook_event list \<Rightarrow> hook \<times> nat \<Rightarrow> (hook \<times> nat) option" where
  "hook_run [] s = Some s"
| "hook_run (Begin # evs) (h, n) = hook_run evs (hook_begin h, Suc n)"
| "hook_run (End r # evs) (h, n) = (if n = 0 then None else hook_run evs (hook_end r h, n - 1))"

text \<open>The error that ended last since a call was started.\<close>

fun last_error :: "exn option \<Rightarrow> hook_event list \<Rightarrow> exn option" where
  "last_error e [] = e"
| "last_error e (Begin # evs) = last_error None evs"
| "last_error e (End (Inl e') # evs) = last_error (Some e') evs"
| "last_error e (End (Inr v) # evs) = last_error e evs"

section \<open>Lemmas\<close>

lemma hook_simps [simp]:
  "h_loading (hook_begin h)" "h_error (hook_begin h) = None"
  "\<not> h_loading (hook_end r h)"
  "h_error (hook_end r h) = (case r of Inl e \<Rightarrow> Some e | Inr _ \<Rightarrow> h_error h)"
  by (auto simp: hook_begin_def hook_end_def Let_def split: sum.split)

lemma hook_run_append:
  "hook_run (evs @ evs') s = Option.bind (hook_run evs s) (hook_run evs')"
  by (induction evs s rule: hook_run.induct) auto

lemma hook_run_state:
  "hook_run evs (h, n) = Some (h', n') \<Longrightarrow>
     h_error h' = last_error (h_error h) evs \<and> (h_loading h' \<longleftrightarrow> (if evs = [] then h_loading h else last evs = Begin))"
proof (induction evs "(h, n)" arbitrary: h n rule: hook_run.induct)
  case (3 r evs h n)
  then show ?case by (cases r) (auto split: if_splits)
qed (auto split: if_splits)

lemma hook_run_pending:
  "hook_run evs (h, n) = Some (h', n') \<Longrightarrow>
     n' + length (filter (\<lambda>ev. ev \<noteq> Begin) evs) = n + length (filter (\<lambda>ev. ev = Begin) evs)"
  by (induction evs "(h, n)" arbitrary: h n rule: hook_run.induct) (auto split: if_splits)

text \<open>A call whose request is not overlapped by another is its two halves.\<close>

lemma hook_call_run:
  "hook_call request (h, w) = (r, (h', w')) \<Longrightarrow> request w = (r, w') \<and> hook_run [Begin, End r] (h, n) = Some (h', n)"
  by (auto simp: hook_call_def split: prod.splits)

text \<open>What a request does to the browser: nothing, or the end of the session.\<close>

definition keeps_session :: "api_context \<Rightarrow> window \<Rightarrow> window \<Rightarrow> bool" where
  "keeps_session A w w' \<longleftrightarrow> local_storage w' \<in> {local_storage w, local_storage (clearAuth (a_auth A) w)}"

definition settles :: "api_context \<Rightarrow> hook_op \<Rightarrow> bool" where
  "settles A m \<longleftrightarrow> (\<forall>h w r h' w'. m (h, w) = (r, (h', w')) \<longrightarrow>
     \<not> h_loading h' \<and> h_error h' = (case r of Inl e \<Rightarrow> Some e | Inr _ \<Rightarrow> None) \<and> keeps_session A w w')"

definition session_safe :: "api_context \<Rightarrow> (window, jsval) op \<Rightarrow> bool" where
  "session_safe A request \<longleftrightarrow> (\<forall>w. keeps_session A w (snd (request w)))"

lemma api_session_safe [simp]:
  "session_safe A (api_get A e c)" "session_safe A (api_post A e d)" "session_safe A (api_put A e d)" "session_safe A (api_delete A e)"
  by (simp_all add: session_safe_def keeps_session_def api_get_def api_post_def api_put_def api_delete_def
      ApiService_get_def ApiService_post_def ApiService_put_def ApiService_delete_def request_storage [simplified])

lemma hook_call_settles [simp]: "session_safe A m \<Longrightarrow> settles A (hook_call m)"
  by (auto simp: settles_def session_safe_def hook_call_def split: prod.splits sum.splits) (metis snd_conv)+

lemma hook_void_settles [simp]: "session_safe A m \<Longrightarrow> settles A (hook_void m)"
  by (auto simp: settles_def session_safe_def hook_void_def hook_call_def split: prod.splits sum.splits) (metis snd_conv)+

section \<open>Properties\<close>

text \<open>
  The methods of the data hooks. Each of the forty methods, whatever the network does, ends with the
  hook not loading and with the error it throws, or none when it returns; and it leaves the session of the
  browser as it is, or ends it, but never changes it.
\<close>

theorem hook_methods_settle:
  "list_all (settles A) (useInventory A i j data @ useOrders A i j data @ useShipping A i j data @ usePayments A i j data @
     useCustomers A i j data)"
  by (simp add: hook_methods)

text \<open>
  The flags of a hook while calls overlap. In every state that starting and ending requests can lead
  to, the error is the one that ended last since a call was started, the hook is not loading when no
  request is under way, and it is loading exactly when the last thing that happened was the start of a
  call. So the end of any one request clears the flag, while others are still under way.
\<close>

theorem hook_flags_spec:
  assumes "hook_run evs (new_hook, 0) = Some (h, n)"
  shows "h_error h = last_error None evs \<and> (h_loading h \<longleftrightarrow> evs \<noteq> [] \<and> last evs = Begin) \<and> (n = 0 \<longrightarrow> \<not> h_loading h) \<and>
    n + length (filter (\<lambda>ev. ev \<noteq> Begin) evs) = length (filter (\<lambda>ev. ev = Begin) evs) \<and>
    (0 < n \<longrightarrow> (\<exists>h'. hook_run (evs @ [End r]) (new_hook, 0) = Some (h', n - 1) \<and> \<not> h_loading h'))"
proof -
  have st: "h_error h = last_error None evs" "h_loading h \<longleftrightarrow> evs \<noteq> [] \<and> last evs = Begin"
    using hook_run_state [OF assms] by (auto simp: new_hook_def split: if_splits)
  have n: "n + length (filter (\<lambda>ev. ev \<noteq> Begin) evs) = length (filter (\<lambda>ev. ev = Begin) evs)"
    using hook_run_pending [OF assms] by simp
  have "\<not> h_loading h" if "n = 0"
  proof
    assume "h_loading h"
    then obtain evs' where evs: "evs = evs' @ [Begin]" using st(2) by (metis append_butlast_last_id)
    then obtain h0 n0 where "hook_run evs' (new_hook, 0) = Some (h0, n0)" "n = Suc n0"
      using assms by (auto simp: hook_run_append bind_eq_Some_conv)
    then show False using that by simp
  qed
  then show ?thesis using st n assms by (auto simp: hook_run_append)
qed

theorem hook_flags_spec_witness:
  "\<exists>h. hook_run [Begin, Begin, End (Inr JNull)] (new_hook, 0) = Some (h, 1) \<and> \<not> h_loading h"
  using hook_flags_spec [of "[Begin, Begin]" "hook_begin (hook_begin new_hook)" 2 "Inr JNull"] by simp

end
