(* ===== verification/Dashboard_Services.thy ===== *)
theory Dashboard_Services
  imports Dashboard_Hooks
begin

text \<open>
  The client of the predictions (\<open>services/ai-prediction.service.ts\<close>) over \<open>ApiService\<close>, and the
  analytics service and controller (\<open>services/analytics.service.ts\<close>,
  \<open>controllers/analytics.controller.ts\<close>) over \<open>BaseService\<close> with \<open>formatChartData\<close> of
  \<open>utils/helpers.ts\<close> and the endpoints of \<open>utils/constants.ts\<close>.
\<close>

section \<open>The client of the predictions\<close>

definition prediction_service :: "string \<Rightarrow> api_service" where
  "prediction_service url = \<lparr>baseUrl = url, defaultHeaders = Map.empty, defaultTimeout = 30000\<rparr>"

definition baseEndpoint :: string where
  "baseEndpoint = ''api/v1/predictions''"

text \<open>\<open>if (modelName) params.model = modelName\<close>\<close>

definition model_param :: "string option \<Rightarrow> (string \<times> string) list" where
  "model_param modelName = (if truthy modelName then [(''model'', the modelName)] else [])"

definition getPredictions :: "api_context \<Rightarrow> jsnum \<Rightarrow> jsnum \<Rightarrow> string option \<Rightarrow> (window, jsval) op" where
  "getPredictions A page pageSize modelName =
     api_get A baseEndpoint (with_params
       ([(''page'', numToString (a_env A) page), (''page_size'', numToString (a_env A) pageSize)] @ model_param modelName))"

definition getPrediction :: "api_context \<Rightarrow> string \<Rightarrow> (window, jsval) op" where
  "getPrediction A i = api_get A (baseEndpoint @ ''/'' @ i) no_config"

definition getModels :: "api_context \<Rightarrow> (window, jsval) op" where
  "getModels A = api_get A (baseEndpoint @ ''/models'') no_config"

text \<open>\<open>toISOString\<close> throws on an invalid date, before anything is sent.\<close>

definition getPredictionsByTimeRange ::
  "api_context \<Rightarrow> date_lib \<Rightarrow> jsnum \<Rightarrow> jsnum \<Rightarrow> string option \<Rightarrow> (window, jsval) op" where
  "getPredictionsByTimeRange A L startDate endDate modelName w =
     (case js_bind (toISOString L startDate) (\<lambda>s. js_bind (toISOString L endDate) (\<lambda>e. Inr (s, e))) of
        Inl err \<Rightarrow> (Inl err, w)
      | Inr (s, e) \<Rightarrow>
          api_get A (baseEndpoint @ ''/time-range'') (with_params ([(''start'', s), (''end'', e)] @ model_param modelName)) w)"

definition generatePrediction :: "api_context \<Rightarrow> (window, jsval) op" where
  "generatePrediction A = api_post A (baseEndpoint @ ''/generate'') JUndef"

definition getConfidenceDistribution :: "api_context \<Rightarrow> string option \<Rightarrow> (window, jsval) op" where
  "getConfidenceDistribution A modelName =
     api_get A (baseEndpoint @ ''/confidence-distribution'') (with_params (model_param modelName))"

definition getPredictionsForItem :: "api_context \<Rightarrow> string \<Rightarrow> (window, jsval) op" where
  "getPredictionsForItem A itemId = api_get A (baseEndpoint @ ''/item/'' @ itemId) no_config"

text \<open>The text and the type of the blob.\<close>

definition downloadPredictionsCSV :: "api_context \<Rightarrow> string option \<Rightarrow> (window, string \<times> string) op" where
  "downloadPredictionsCSV A modelName w =
     (case ApiService_request (a_env A) (a_auth A) (a_browser A) (a_net A) (a_service A) ''GET'' (baseEndpoint @ ''/export'')
             (no_config\<lparr>cfg_params := model_param modelName, cfg_headers := Some [''Accept'' \<mapsto> ''text/csv'']\<rparr>) w of
        (Inl e, w') \<Rightarrow> (Inl e, w')
      | (Inr response, w') \<Rightarrow> (js_bind (js_toString (a_env A) response) (\<lambda>s. Inr (s, ''text/csv'')), w'))"

section \<open>formatChartData\<close>

text \<open>\<open>item[metadata.field || dflt]\<close>\<close>

definition picked_value :: "js_env \<Rightarrow> jsval \<Rightarrow> string \<Rightarrow> string \<Rightarrow> jsval \<Rightarrow> jsval js" where
  "picked_value E metadata fld dflt item =
     js_bind (js_get metadata fld) (\<lambda>f. js_bind (js_toString E (js_or f (JStr dflt))) (\<lambda>k. js_get item k))"

definition xy_row :: "js_env \<Rightarrow> jsval \<Rightarrow> jsval \<Rightarrow> jsval js" where
  "xy_row E metadata item =
     js_bind (picked_value E metadata ''xAxis'' ''x'' item) (\<lambda>x.
     js_bind (picked_value E metadata ''yAxis'' ''y'' item) (\<lambda>y. Inr (JObj [(''x'', x), (''y'', y)])))"

definition slice_row :: "js_env \<Rightarrow> jsval \<Rightarrow> jsval \<Rightarrow> jsval js" where
  "slice_row E metadata item =
     js_bind (picked_value E metadata ''dimension'' ''label'' item) (\<lambda>l.
     js_bind (picked_value E metadata ''metric'' ''value'' item) (\<lambda>v. Inr (JObj [(''label'', l), (''value'', v)])))"

definition node_row :: "js_env \<Rightarrow> jsval \<Rightarrow> jsval \<Rightarrow> jsval js" where
  "node_row E metadata item =
     js_bind (js_get item ''id'') (\<lambda>i. js_bind (js_get item ''parent'') (\<lambda>p.
     js_bind (picked_value E metadata ''value'' ''value'' item) (\<lambda>v.
       Inr (JObj [(''id'', i), (''parent'', p), (''value'', v)]))))"

definition chart :: "jsval \<Rightarrow> jsval \<Rightarrow> jsval" where
  "chart data metadata = JObj [(''data'', data), (''metadata'', metadata)]"

definition mapped_chart :: "(jsval \<Rightarrow> jsval js) \<Rightarrow> jsval list \<Rightarrow> jsval \<Rightarrow> jsval js" where
  "mapped_chart f rows metadata = js_bind (js_map f rows) (\<lambda>rows'. Inr (chart (arr rows') metadata))"

definition formatChartData :: "js_env \<Rightarrow> jsval \<Rightarrow> jsval \<Rightarrow> jsval js" where
  "formatChartData E data metadata =
     (case data of
        JArr rows ps \<Rightarrow>
          js_bind (js_get metadata ''type'') (\<lambda>ty.
            if ty = JStr ''line'' \<or> ty = JStr ''bar'' then mapped_chart (xy_row E metadata) rows metadata
            else if ty = JStr ''pie'' \<or> ty = JStr ''donut'' then mapped_chart (slice_row E metadata) rows metadata
            else if ty = JStr ''tree'' \<or> ty = JStr ''network'' then mapped_chart (node_row E metadata) rows metadata
            else Inr (chart data metadata))
      | _ \<Rightarrow> Inr (chart (arr []) metadata))"

section \<open>AnalyticsService\<close>

text \<open>What \<open>BaseService\<close> runs with.\<close>

record analytics_context =
  n_env :: js_env
  n_browser :: browser_lib
  n_net :: "sent_request \<Rightarrow> fetch_outcome"
  n_baseUrl :: string

text \<open>The constructor: \<open>super({ baseUrl: ANALYTICS_CONFIG.baseUrl })\<close>.\<close>

definition analytics_service :: "string \<Rightarrow> api_service" where
  "analytics_service url = \<lparr>baseUrl = url, defaultHeaders = Map.empty, defaultTimeout = 30000\<rparr>"

text \<open>\<open>ANALYTICS_CONFIG.endpoints\<close>, group by group.\<close>

definition inventory_endpoints :: "(string \<times> string) list" where
  "inventory_endpoints =
     [(''stockTrends'', ''/api/analytics/inventory/stock-trends''),
      (''distribution'', ''/api/analytics/inventory/distribution''),
      (''warehouseDistribution'', ''/api/analytics/inventory/warehouse-distribution''),
      (''reorderPoints'', ''/api/analytics/inventory/reorder-points'')]"

definition orders_endpoints :: "(string \<times> string) list" where
  "orders_endpoints =
     [(''flow'', ''/api/analytics/orders/flow''), (''pipeline'', ''/api/analytics/orders/pipeline''),
      (''lifecycle'', ''/api/analytics/orders/lifecycle''),
      (''volumeTrends'', ''/api/analytics/orders/volume-trends''),
      (''valueDistribution'', ''/api/analytics/orders/value-distribution''),
      (''peakTimes'', ''/api/analytics/orders/peak-times'')]"

definition transactions_endpoints :: "(string \<times> string) list" where
  "transactions_endpoints =
     [(''volume'', ''/api/analytics/transactions/volume''),
      (''stockMovements'', ''/api/analytics/transactions/stock-movements''),
      (''metrics'', ''/api/analytics/transactions/metrics''), (''patterns'', ''/api/analytics/transactions/patterns''),
      (''clusters'', ''/api/analytics/transactions/clusters''), (''flow'', ''/api/analytics/transactions/flow'')]"

definition performance_endpoints :: "(string \<times> string) list" where
  "performance_endpoints =
     [(''metrics'', ''/api/analytics/performance/metrics''), (''trends'', ''/api/analytics/performance/trends''),
      (''health'', ''/api/analytics/performance/health''), (''resources'', ''/api/analytics/performance/resources'')]"

definition business_endpoints :: "(string \<times> string) list" where
  "business_endpoints =
     [(''financial'', ''/api/analytics/business/financial''), (''revenue'', ''/api/analytics/business/revenue''),
      (''hierarchical'', ''/api/analytics/business/hierarchical''),
      (''forecast'', ''/api/analytics/business/forecast''), (''trends'', ''/api/analytics/business/trends'')]"

text \<open>\<open>this.config.endpoints.group.name\<close>; a name that is missing would be \<open>undefined\<close>, and \<open>createUrl\<close> throws.\<close>

definition analytics_chart :: "analytics_context \<Rightarrow> (string \<times> string) list \<Rightarrow> string \<Rightarrow> jsval js" where
  "analytics_chart X endpoints name =
     (case map_of endpoints name of
        None \<Rightarrow> Inl TypeError
      | Some endpoint \<Rightarrow>
          js_bind (BaseService_get (n_env X) (n_browser X) (n_net X) (analytics_service (n_baseUrl X)) endpoint no_config) (\<lambda>response.
          js_bind (js_get (resp_data response) ''data'') (\<lambda>d.
          js_bind (js_get (resp_data response) ''metadata'') (\<lambda>m. formatChartData (n_env X) d m))))"

named_theorems analytics_methods \<open>the methods of the analytics service\<close>

definition service_getStockLevelTrends :: "analytics_context \<Rightarrow> jsval js" where [analytics_methods]:
  "service_getStockLevelTrends X = analytics_chart X inventory_endpoints ''stockTrends''"

definition service_getInventoryDistribution :: "analytics_context \<Rightarrow> jsval js" where [analytics_methods]:
  "service_getInventoryDistribution X = analytics_chart X inventory_endpoints ''distribution''"

definition service_getWarehouseDistribution :: "analytics_context \<Rightarrow> jsval js" where [analytics_methods]:
  "service_getWarehouseDistribution X = analytics_chart X inventory_endpoints ''warehouseDistribution''"

definition service_getReorderPoints :: "analytics_context \<Rightarrow> jsval js" where [analytics_methods]:
  "service_getReorderPoints X = analytics_chart X inventory_endpoints ''reorderPoints''"

definition service_getOrderFlow :: "analytics_context \<Rightarrow> jsval js" where [analytics_methods]:
  "service_getOrderFlow X = analytics_chart X orders_endpoints ''flow''"

definition service_getOrderPipeline :: "analytics_context \<Rightarrow> jsval js" where [analytics_methods]:
  "service_getOrderPipeline X = analytics_chart X orders_endpoints ''pipeline''"

definition service_getOrderLifecycle :: "analytics_context \<Rightarrow> jsval js" where [analytics_methods]:
  "service_getOrderLifecycle X = analytics_chart X orders_endpoints ''lifecycle''"

definition service_getOrderVolumeTrends :: "analytics_context \<Rightarrow> jsval js" where [analytics_methods]:
  "service_getOrderVolumeTrends X = analytics_chart X orders_endpoints ''volumeTrends''"

definition service_getOrderValueDistribution :: "analytics_context \<Rightarrow> jsval js" where [analytics_methods]:
  "service_getOrderValueDistribution X = analytics_chart X orders_endpoints ''valueDistribution''"

definition service_getOrderPeakTimes :: "analytics_context \<Rightarrow> jsval js" where [analytics_methods]:
  "service_getOrderPeakTimes X = analytics_chart X orders_endpoints ''peakTimes''"

definition service_getTransactionVolume :: "analytics_context \<Rightarrow> jsval js" where [analytics_methods]:
  "service_getTransactionVolume X = analytics_chart X transactions_endpoints ''volume''"

definition service_getStockMovements :: "analytics_context \<Rightarrow> jsval js" where [analytics_methods]:
  "service_getStockMovements X = analytics_chart X transactions_endpoints ''stockMovements''"

definition service_getTransactionMetrics :: "analytics_context \<Rightarrow> jsval js" where [analytics_methods]:
  "service_getTransactionMetrics X = analytics_chart X transactions_endpoints ''metrics''"

definition service_getTransactionPatterns :: "analytics_context \<Rightarrow> jsval js" where [analytics_methods]:
  "service_getTransactionPatterns X = analytics_chart X transactions_endpoints ''patterns''"

definition service_getTransactionClusters :: "analytics_context \<Rightarrow> jsval js" where [analytics_methods]:
  "service_getTransactionClusters X = analytics_chart X transactions_endpoints ''clusters''"

definition service_getTransactionFlow :: "analytics_context \<Rightarrow> jsval js" where [analytics_methods]:
  "service_getTransactionFlow X = analytics_chart X transactions_endpoints ''flow''"

definition service_getRealTimeMetrics :: "analytics_context \<Rightarrow> jsval js" where [analytics_methods]:
  "service_getRealTimeMetrics X = analytics_chart X performance_endpoints ''metrics''"

definition service_getPerformanceTrends :: "analytics_context \<Rightarrow> jsval js" where [analytics_methods]:
  "service_getPerformanceTrends X = analytics_chart X performance_endpoints ''trends''"

definition service_getSystemHealth :: "analytics_context \<Rightarrow> jsval js" where [analytics_methods]:
  "service_getSystemHealth X = analytics_chart X performance_endpoints ''health''"

definition service_getResourceUtilization :: "analytics_context \<Rightarrow> jsval js" where [analytics_methods]:
  "service_getResourceUtilization X = analytics_chart X performance_endpoints ''resources''"

definition service_getFinancialAnalytics :: "analytics_context \<Rightarrow> jsval js" where [analytics_methods]:
  "service_getFinancialAnalytics X = analytics_chart X business_endpoints ''financial''"

definition service_getRevenueAnalysis :: "analytics_context \<Rightarrow> jsval js" where [analytics_methods]:
  "service_getRevenueAnalysis X = analytics_chart X business_endpoints ''revenue''"

definition service_getHierarchicalData :: "analytics_context \<Rightarrow> jsval js" where [analytics_methods]:
  "service_getHierarchicalData X = analytics_chart X business_endpoints ''hierarchical''"

definition service_getForecastData :: "analytics_context \<Rightarrow> jsval js" where [analytics_methods]:
  "service_getForecastData X = analytics_chart X business_endpoints ''forecast''"

definition service_getTrendPredictions :: "analytics_context \<Rightarrow> jsval js" where [analytics_methods]:
  "service_getTrendPredictions X = analytics_chart X business_endpoints ''trends''"

section \<open>AnalyticsController\<close>

text \<open>The object with the charts under their names, in the order of the source.\<close>

definition labelled :: "nat list \<Rightarrow> (string \<times> jsval js) list \<Rightarrow> jsval js" where
  "labelled order rs = js_bind (promise_all order (map snd rs)) (\<lambda>vs. Inr (JObj (zip (map fst rs) vs)))"

definition getInventoryAnalytics :: "analytics_context \<Rightarrow> nat list \<Rightarrow> jsval js" where
  "getInventoryAnalytics X order =
     labelled order [(''stockTrends'', service_getStockLevelTrends X),
       (''distribution'', service_getInventoryDistribution X),
       (''warehouseDistribution'', service_getWarehouseDistribution X), (''reorderPoints'', service_getReorderPoints X)]"

definition getOrderAnalytics :: "analytics_context \<Rightarrow> nat list \<Rightarrow> jsval js" where
  "getOrderAnalytics X order =
     labelled order [(''flow'', service_getOrderFlow X), (''pipeline'', service_getOrderPipeline X),
       (''lifecycle'', service_getOrderLifecycle X), (''volumeTrends'', service_getOrderVolumeTrends X),
       (''valueDistribution'', service_getOrderValueDistribution X), (''peakTimes'', service_getOrderPeakTimes X)]"

definition getTransactionAnalytics :: "analytics_context \<Rightarrow> nat list \<Rightarrow> jsval js" where
  "getTransactionAnalytics X order =
     labelled order [(''volume'', service_getTransactionVolume X), (''stockMovements'', service_getStockMovements X),
       (''metrics'', service_getTransactionMetrics X), (''patterns'', service_getTransactionPatterns X),
       (''clusters'', service_getTransactionClusters X), (''flow'', service_getTransactionFlow X)]"

definition getPerformanceAnalytics :: "analytics_context \<Rightarrow> nat list \<Rightarrow> jsval js" where
  "getPerformanceAnalytics X order =
     labelled order [(''realTimeMetrics'', service_getRealTimeMetrics X), (''trends'', service_getPerformanceTrends X),
       (''health'', service_getSystemHealth X), (''resources'', service_getResourceUtilization X)]"

definition getBusinessAnalytics :: "analytics_context \<Rightarrow> nat list \<Rightarrow> jsval js" where
  "getBusinessAnalytics X order =
     labelled order [(''financial'', service_getFinancialAnalytics X), (''revenue'', service_getRevenueAnalysis X),
       (''hierarchical'', service_getHierarchicalData X), (''forecast'', service_getForecastData X),
       (''trends'', service_getTrendPredictions X)]"

section \<open>Lemmas\<close>

lemma labelled_values:
  assumes "set order = {..<length rs}"
  shows "labelled order rs = Inr v \<longleftrightarrow> (\<exists>ps. v = JObj ps \<and> rs = map (map_prod id Inr) ps)"
proof
  assume "labelled order rs = Inr v"
  then obtain vs where "promise_all order (map snd rs) = Inr vs" and v: "v = JObj (zip (map fst rs) vs)"
    by (auto simp: labelled_def js_bind_def split: sum.splits)
  then have vs: "map snd rs = map Inr vs" using promise_all_spec [of order "map snd rs" vs] assms by simp
  then have "length vs = length rs" by (metis length_map)
  with vs have "rs = map (map_prod id Inr) (zip (map fst rs) vs)"
    by (intro nth_equalityI) (auto simp: list_eq_iff_nth_eq prod_eq_iff)
  with v show "\<exists>ps. v = JObj ps \<and> rs = map (map_prod id Inr) ps" by blast
next
  assume "\<exists>ps. v = JObj ps \<and> rs = map (map_prod id Inr) ps"
  then obtain ps where v: "v = JObj ps" and rs: "rs = map (map_prod id Inr) ps" by blast
  have "map snd rs = map Inr (map snd ps)" "map fst rs = map fst ps" by (simp_all add: rs)
  moreover have "promise_all order (map snd rs) = Inr (map snd ps)"
    using promise_all_spec [of order "map snd rs" "map snd ps"] assms by (simp add: rs)
  ultimately show "labelled order rs = Inr v" by (simp add: labelled_def v zip_map_fst_snd)
qed

lemma labelled_error:
  assumes "set order = {..<length rs}"
  shows "labelled order rs = Inl e \<longleftrightarrow> (\<exists>k. first_rejected order (map snd rs) = Some k \<and> map snd rs ! k = Inl e)"
proof -
  have "labelled order rs = Inl e \<longleftrightarrow> promise_all order (map snd rs) = Inl e"
    by (auto simp: labelled_def js_bind_def split: sum.splits)
  then show ?thesis using promise_all_spec [of order "map snd rs" _ e] assms by simp
qed

section \<open>Properties\<close>

text \<open>The charts of a group, each with the name that the controller gives it.\<close>

definition group_charts :: "analytics_context \<Rightarrow> (string \<times> string) list \<Rightarrow> (string \<times> string) list \<Rightarrow> (string \<times> jsval js) list" where
  "group_charts X endpoints names = map (\<lambda>(name, key). (name, analytics_chart X endpoints key)) names"

text \<open>Which endpoint belongs to which chart: those of the configuration, under the same names, but for the metrics.\<close>

definition controller_groups :: "analytics_context \<Rightarrow> nat list \<Rightarrow> (jsval js \<times> (string \<times> jsval js) list) list" where
  "controller_groups X order =
     [(getInventoryAnalytics X order, group_charts X inventory_endpoints (map (\<lambda>(k, _). (k, k)) inventory_endpoints)),
      (getOrderAnalytics X order, group_charts X orders_endpoints (map (\<lambda>(k, _). (k, k)) orders_endpoints)),
      (getTransactionAnalytics X order, group_charts X transactions_endpoints (map (\<lambda>(k, _). (k, k)) transactions_endpoints)),
      (getPerformanceAnalytics X order, group_charts X performance_endpoints
         (map (\<lambda>(k, _). (if k = ''metrics'' then ''realTimeMetrics'' else k, k)) performance_endpoints)),
      (getBusinessAnalytics X order, group_charts X business_endpoints (map (\<lambda>(k, _). (k, k)) business_endpoints))]"

lemma controller_groups_labelled:
  "list_all (\<lambda>(result, charts). result = labelled order charts) (controller_groups X order)"
  by (simp add: controller_groups_def group_charts_def getInventoryAnalytics_def getOrderAnalytics_def getTransactionAnalytics_def
      getPerformanceAnalytics_def getBusinessAnalytics_def analytics_methods inventory_endpoints_def orders_endpoints_def
      transactions_endpoints_def performance_endpoints_def business_endpoints_def)

text \<open>
  C36: The groups of charts. Whatever the order in which the requests of a group settle, the controller
  returns an object exactly when all of them succeed, with every chart of the configured endpoints of the group under its
  own name; otherwise it throws the error of the request that failed first.
\<close>

theorem analytics_groups_spec:
  assumes "(result, charts) \<in> set (controller_groups X order)" "set order = {..<length charts}"
  shows "(result = Inr v \<longleftrightarrow> (\<exists>ps. v = JObj ps \<and> charts = map (map_prod id Inr) ps)) \<and>
    (result = Inl e \<longleftrightarrow> (\<exists>k. first_rejected order (map snd charts) = Some k \<and> map snd charts ! k = Inl e))"
proof -
  have "result = labelled order charts"
    using controller_groups_labelled [of order X] assms(1) by (auto simp: list_all_iff)
  then show ?thesis using labelled_values [OF assms(2)] labelled_error [OF assms(2)] by simp
qed

definition demo_analytics :: analytics_context where
  "demo_analytics = \<lparr>n_env = demo_env, n_browser = demo_browser, n_net = (\<lambda>r. NetworkError ''offline''), n_baseUrl = ''http://localhost:3000''\<rparr>"

theorem analytics_groups_spec_witness:
  "getInventoryAnalytics demo_analytics [2, 0, 1, 3] = Inl (JsError ''offline'')"
proof -
  let ?c = "group_charts demo_analytics inventory_endpoints (map (\<lambda>(k, _). (k, k)) inventory_endpoints)"
  have off: "map snd ?c = replicate 4 (Inl (JsError ''offline''))"
    by (simp add: group_charts_def inventory_endpoints_def analytics_chart_def BaseService_get_def BaseService_request_def createUrl_def
        demo_analytics_def demo_browser_def numeral_eq_Suc)
  have "(getInventoryAnalytics demo_analytics [2, 0, 1, 3], ?c) \<in> set (controller_groups demo_analytics [2, 0, 1, 3])"
    by (simp add: controller_groups_def)
  moreover have "set [2, 0, 1, 3] = {..<length ?c}" by (auto simp: group_charts_def inventory_endpoints_def)
  ultimately show ?thesis
    using analytics_groups_spec [of _ ?c demo_analytics "[2, 0, 1, 3]" _ "JsError ''offline''"]
    by (simp add: off first_rejected_def is_error_def numeral_eq_Suc)
qed

end
