(* ===== verification/Auth_Views.thy ===== *)
theory Auth_Views
  imports Auth_Store Backoffice_Config
begin

text \<open>
  The pages of the authentication interface: \<open>views/LoginView.vue\<close>, \<open>RegisterView.vue\<close>,
  \<open>ProfileView.vue\<close>, \<open>LogoutView.vue\<close> and \<open>ValidateTokenView.vue\<close>, and the forms \<open>LoginForm.vue\<close>,
  \<open>RegisterForm.vue\<close> and \<open>UserProfile.vue\<close>. A page works on its own state and on the store; \<open>framed\<close>
  says whether another application embeds it (\<open>window.parent !== window\<close>). What is posted to the
  embedding window and where the router is sent is recorded in the state of the page.
\<close>

section \<open>The pages\<close>

record auth_page =
  v_name :: string
  v_email :: string
  v_password :: string
  v_confirmPassword :: string
  v_loading :: bool
  v_error :: string
  v_showError :: bool
  v_pushed :: "string list"
  v_posted :: "(string \<times> jsval) list"
  v_neobrutal :: bool

definition new_page :: auth_page where
  "new_page = \<lparr>v_name = [], v_email = [], v_password = [], v_confirmPassword = [], v_loading = False, v_error = [],
     v_showError = False, v_pushed = [], v_posted = [], v_neobrutal = False\<rparr>"

definition push :: "string \<Rightarrow> auth_page \<Rightarrow> auth_page" where
  "push path v = v\<lparr>v_pushed := v_pushed v @ [path]\<rparr>"

definition post :: "(string \<times> jsval) list \<Rightarrow> auth_page \<Rightarrow> auth_page" where
  "post ms v = v\<lparr>v_posted := v_posted v @ ms\<rparr>"

text \<open>The message that is shown at the top of a page: \<open>v-if="error && showError"\<close>.\<close>

definition shown_error :: "auth_page \<Rightarrow> string option" where
  "shown_error v = (if v_error v \<noteq> [] \<and> v_showError v then Some (v_error v) else None)"

text \<open>\<open>localStorage.getItem(import.meta.env.VITE_AUTH_TOKEN_KEY || "auth_token") || ''\<close>\<close>

definition stored_token :: "auth_keys \<Rightarrow> auth_store \<Rightarrow> string" where
  "stored_token K s = (case getItem (s_storage s) (TOKEN_KEY K) of None \<Rightarrow> [] | Some t \<Rightarrow> t)"

definition start_request :: "auth_page \<Rightarrow> auth_page" where
  "start_request v = v\<lparr>v_loading := True, v_error := [], v_showError := False\<rparr>"

text \<open>\<open>err.message || fallback\<close>, and what the page does with it.\<close>

definition report_error :: "bool \<Rightarrow> (bool \<Rightarrow> string \<Rightarrow> (string \<times> jsval) list) \<Rightarrow> string \<Rightarrow> auth_page \<Rightarrow> auth_page" where
  "report_error framed send m v =
     (let v = v\<lparr>v_error := m\<rparr>
      in if framed then post (send framed (v_error v) @ sendAuthStatus framed False JUndef JUndef) v
         else v\<lparr>v_showError := True\<rparr>)"

definition handleLogin ::
  "auth_keys \<Rightarrow> json_lib \<Rightarrow> bool \<Rightarrow> api_error + auth_data \<Rightarrow> auth_page \<times> auth_store \<Rightarrow> auth_page \<times> auth_store" where
  "handleLogin K J framed outcome st =
     (case st of (v, s) \<Rightarrow>
        let v = start_request v
        in case store_login K J outcome s of
             (Inr d, s') \<Rightarrow>
               let token = the (d_access_token d);
                   v = (if framed
                        then post (sendAuthSuccess framed (s_user s') token @ sendAuthStatus framed True (s_user s') (JStr token)) v
                        else push ''/profile'' (v\<lparr>v_showError := True\<rparr>))
               in (v\<lparr>v_loading := False\<rparr>, s')
           | (Inl e, s') \<Rightarrow>
               let m = (if exn_message e = [] then ''Failed to login'' else exn_message e)
               in ((report_error framed sendAuthError m v)\<lparr>v_loading := False\<rparr>, s'))"

definition login_onMounted :: "auth_keys \<Rightarrow> bool \<Rightarrow> string option \<Rightarrow> auth_page \<times> auth_store \<Rightarrow> auth_page \<times> auth_store" where
  "login_onMounted K framed theme st =
     (case st of (v, s) \<Rightarrow>
        let v = (if framed
                 then (if store_isAuthenticated s
                       then post (sendAuthSuccess framed (s_user s) (stored_token K s) @
                                  sendAuthStatus framed True (s_user s) (JStr (stored_token K s))) v
                       else post (sendAuthStatus framed False JUndef JUndef) v)
                 else v);
            v = (if store_isAuthenticated s
                 then (if framed then post (sendAuthSuccess framed (s_user s) (stored_token K s)) v else push ''/profile'' v)
                 else v)
        in (v\<lparr>v_neobrutal := (theme = Some ''neobrutal'')\<rparr>, s))"

definition handleRegister ::
  "auth_keys \<Rightarrow> json_lib \<Rightarrow> bool \<Rightarrow> api_error + auth_data \<Rightarrow> auth_page \<times> auth_store \<Rightarrow> auth_page \<times> auth_store" where
  "handleRegister K J framed outcome st =
     (case st of (v, s) \<Rightarrow>
        let v = start_request v
        in if v_password v \<noteq> v_confirmPassword v
           then ((report_error framed sendRegistrationError ''Passwords do not match'' v)\<lparr>v_loading := False\<rparr>, s)
           else case store_register K J outcome s of
             (Inr d, s') \<Rightarrow>
               let token = the (d_access_token d);
                   v = (if framed
                        then post (sendRegistrationSuccess framed (s_user s') token @
                                   sendAuthStatus framed True (s_user s') (JStr token)) v
                        else push ''/profile'' v)
               in (v\<lparr>v_loading := False\<rparr>, s')
           | (Inl e, s') \<Rightarrow>
               let m = (if exn_message e = [] then ''Failed to register'' else exn_message e)
               in ((report_error framed sendRegistrationError m v)\<lparr>v_loading := False\<rparr>, s'))"

definition register_onMounted :: "auth_keys \<Rightarrow> bool \<Rightarrow> string option \<Rightarrow> auth_page \<times> auth_store \<Rightarrow> auth_page \<times> auth_store" where
  "register_onMounted K framed theme st =
     (case st of (v, s) \<Rightarrow>
        let v = (if framed
                 then post (if store_isAuthenticated s then sendAuthStatus framed True (s_user s) (JStr (stored_token K s))
                            else sendAuthStatus framed False JUndef JUndef) v
                 else v);
            v = (if store_isAuthenticated s
                 then (if framed then post (sendRegistrationSuccess framed (s_user s) (stored_token K s)) v else push ''/profile'' v)
                 else v)
        in (v\<lparr>v_neobrutal := (theme = Some ''neobrutal'')\<rparr>, s))"

text \<open>\<open>registerUrl\<close> and \<open>loginUrl\<close>, the links between the two pages.\<close>

definition page_link :: "(string \<Rightarrow> string) \<Rightarrow> string \<Rightarrow> string option \<Rightarrow> bool \<Rightarrow> string" where
  "page_link encode path returnUrl neobrutal =
     path @ ''?returnUrl='' @ encode (if truthy returnUrl then the returnUrl else ''/'') @
       (if neobrutal then ''&theme=neobrutal'' else [])"

definition profile_handleLogout :: "auth_keys \<Rightarrow> bool \<Rightarrow> auth_page \<times> auth_store \<Rightarrow> auth_page \<times> auth_store" where
  "profile_handleLogout K framed st =
     (case st of (v, s) \<Rightarrow>
        let v = (if framed then post (sendLogout framed @ sendAuthStatus framed False JUndef JUndef) v else v)
        in (push ''/login'' v, store_logout K s))"

definition profile_onMounted :: "auth_keys \<Rightarrow> bool \<Rightarrow> string option \<Rightarrow> auth_page \<times> auth_store \<Rightarrow> auth_page \<times> auth_store" where
  "profile_onMounted K framed theme st =
     (case st of (v, s) \<Rightarrow>
        if \<not> store_isAuthenticated s then (push ''/login'' v, s)
        else let v = (if framed then post (sendAuthStatus framed True (s_user s) (JStr (stored_token K s))) v else v)
             in (v\<lparr>v_neobrutal := (theme = Some ''neobrutal'')\<rparr>, s))"

text \<open>\<open>LogoutView\<close>: the time stamp tells the other tabs.\<close>

definition logout_onMounted :: "auth_keys \<Rightarrow> bool \<Rightarrow> string \<Rightarrow> auth_page \<times> auth_store \<Rightarrow> auth_page \<times> auth_store" where
  "logout_onMounted K framed now st =
     (case st of (v, s) \<Rightarrow>
        let s = store_logout K s
        in if framed
           then (post (sendLogout framed @ sendAuthStatus framed False JUndef JUndef) v,
                 s\<lparr>s_storage := setItem (s_storage s) ''auth_state_timestamp'' now\<rparr>)
           else (push ''/login'' v, s))"

section \<open>ValidateTokenView\<close>

text \<open>\<open>response.data.isValid === true\<close>; a failed request counts as not valid.\<close>

definition page_validateToken :: "exn + jsval \<Rightarrow> bool" where
  "page_validateToken outcome = (case outcome of Inl e \<Rightarrow> False | Inr d \<Rightarrow> js_get d ''isValid'' = Inr (JBool True))"

text \<open>The token of the address, the answer of the gateway, and what the page shows and posts.\<close>

definition validate_onMounted ::
  "auth_keys \<Rightarrow> bool \<Rightarrow> string option \<Rightarrow> exn + jsval \<Rightarrow> auth_store \<Rightarrow> jsval \<times> (string \<times> jsval) list" where
  "validate_onMounted K framed token outcome s =
     (if \<not> truthy token
      then (JObj [(''valid'', JBool False), (''message'', JStr ''No token provided'')],
            if framed then sendAuthStatus framed False JUndef JUndef else [])
      else let isValid = page_validateToken outcome
           in (JObj [(''valid'', JBool isValid)],
               if \<not> framed then []
               else if isValid
               then (if store_isAuthenticated s then sendAuthStatus framed True (s_user s) (JStr (stored_token K s))
                     else sendAuthStatus framed True JUndef JUndef)
               else sendAuthStatus framed False JUndef JUndef))"

section \<open>The forms\<close>

text \<open>\<open>/^[^\s@]+@[^\s@]+\.[^\s@]+$/\<close>\<close>

definition word_char :: "char \<Rightarrow> bool" where
  "word_char c \<longleftrightarrow> \<not> is_space c \<and> c \<noteq> CHR ''@''"

definition strict_email_test :: "string \<Rightarrow> bool" where
  "strict_email_test s =
     (case split_on (CHR ''@'') s of
        [p, d] \<Rightarrow> p \<noteq> [] \<and> list_all word_char p \<and> list_all word_char d \<and>
          list_ex (\<lambda>i. d ! i = CHR ''.'') [1..<length d - 1]
      | _ \<Rightarrow> False)"

record form_errors =
  fe_email :: string
  fe_password :: string
  fe_name :: string
  fe_general :: string

record auth_form =
  f_email :: string
  f_password :: string
  f_name :: string
  f_errors :: form_errors
  f_isSubmitting :: bool
  f_pushed :: "string list"

definition no_errors :: form_errors where
  "no_errors = \<lparr>fe_email = [], fe_password = [], fe_name = [], fe_general = []\<rparr>"

definition email_error :: "string \<Rightarrow> string" where
  "email_error email =
     (if email = [] then ''Email is required''
      else if \<not> strict_email_test email then ''Please enter a valid email address'' else [])"

definition password_error :: "string \<Rightarrow> string" where
  "password_error password =
     (if password = [] then ''Password is required''
      else if length password < 8 then ''Password must be at least 8 characters'' else [])"

definition name_error :: "string \<Rightarrow> string" where
  "name_error name = (if name = [] then ''Name is required'' else [])"

definition login_validateForm :: "auth_form \<Rightarrow> bool \<times> auth_form" where
  "login_validateForm f =
     (let errs = no_errors\<lparr>fe_email := email_error (f_email f), fe_password := password_error (f_password f)\<rparr>
      in (fe_email errs = [] \<and> fe_password errs = [], f\<lparr>f_errors := errs\<rparr>))"

definition register_validateForm :: "auth_form \<Rightarrow> bool \<times> auth_form" where
  "register_validateForm f =
     (let errs = no_errors\<lparr>fe_email := email_error (f_email f), fe_password := password_error (f_password f),
            fe_name := name_error (f_name f)\<rparr>
      in (fe_email errs = [] \<and> fe_password errs = [] \<and> fe_name errs = [], f\<lparr>f_errors := errs\<rparr>))"

text \<open>
  The request ends with the store's answer. The errors that the store throws are plain \<open>Error\<close> objects,
  so \<open>error.response\<close> is undefined and the message is the one of the form.
\<close>

definition form_request ::
  "string \<Rightarrow> (auth_store \<Rightarrow> (exn + auth_data) \<times> auth_store) \<Rightarrow> auth_form \<times> auth_store \<Rightarrow> auth_form \<times> auth_store" where
  "form_request fallback request st =
     (case st of (f, s) \<Rightarrow>
        (case request s of
           (Inr d, s') \<Rightarrow> (f\<lparr>f_pushed := f_pushed f @ [''/profile''], f_isSubmitting := False\<rparr>, s')
         | (Inl e, s') \<Rightarrow> (f\<lparr>f_errors := (f_errors f)\<lparr>fe_general := fallback\<rparr>, f_isSubmitting := False\<rparr>, s')))"

definition login_handleSubmit ::
  "auth_keys \<Rightarrow> json_lib \<Rightarrow> api_error + auth_data \<Rightarrow> auth_form \<times> auth_store \<Rightarrow> auth_form \<times> auth_store" where
  "login_handleSubmit K J outcome st =
     (case login_validateForm (fst st) of
        (False, f) \<Rightarrow> (f, snd st)
      | (True, f) \<Rightarrow> form_request ''Login failed. Please try again.'' (store_login K J outcome) (f\<lparr>f_isSubmitting := True\<rparr>, snd st))"

definition register_handleSubmit ::
  "auth_keys \<Rightarrow> json_lib \<Rightarrow> api_error + auth_data \<Rightarrow> auth_form \<times> auth_store \<Rightarrow> auth_form \<times> auth_store" where
  "register_handleSubmit K J outcome st =
     (case register_validateForm (fst st) of
        (False, f) \<Rightarrow> (f, snd st)
      | (True, f) \<Rightarrow>
          form_request ''Registration failed. Please try again.'' (store_register K J outcome) (f\<lparr>f_isSubmitting := True\<rparr>, snd st))"

section \<open>UserProfile\<close>

definition userName :: "auth_store \<Rightarrow> jsval" where
  "userName s = js_or (optional_get (s_user s) ''name'') (JStr ''-'')"

definition userRole :: "auth_store \<Rightarrow> jsval" where
  "userRole s = js_or (optional_get (s_user s) ''role'') (JStr ''user'')"

definition isActive :: "auth_store \<Rightarrow> jsval" where
  "isActive s = (let v = optional_get (s_user s) ''isActive'' in if v \<noteq> JUndef then v else JBool True)"

definition getRoleBadgeClass :: "jsval \<Rightarrow> string" where
  "getRoleBadgeClass role = (if role = JStr ''admin'' then ''bg-purple-100 text-purple-800'' else ''bg-blue-100 text-blue-800'')"

section \<open>Lemmas\<close>

lemma word_chars_no_at: "list_all word_char p \<Longrightarrow> CHR ''@'' \<notin> set p"
  by (auto simp: list_all_iff word_char_def)

lemma inner_dot_iff:
  "list_ex (\<lambda>i. d ! i = CHR ''.'') [1..<length d - 1] \<longleftrightarrow> (\<exists>q r. d = q @ ''.'' @ r \<and> q \<noteq> [] \<and> r \<noteq> [])"
proof
  assume "list_ex (\<lambda>i. d ! i = CHR ''.'') [1..<length d - 1]"
  then obtain i where i: "1 \<le> i" "i < length d - 1" "d ! i = CHR ''.''" by (auto simp: list_ex_iff)
  then have "d = take i d @ ''.'' @ drop (Suc i) d" using id_take_nth_drop [of i d] by simp
  moreover have "take i d \<noteq> []" "drop (Suc i) d \<noteq> []" using i by auto
  ultimately show "\<exists>q r. d = q @ ''.'' @ r \<and> q \<noteq> [] \<and> r \<noteq> []" by blast
next
  assume "\<exists>q r. d = q @ ''.'' @ r \<and> q \<noteq> [] \<and> r \<noteq> []"
  then obtain q r where d: "d = q @ ''.'' @ r" "q \<noteq> []" "r \<noteq> []" by blast
  then have "length q \<in> set [1..<length d - 1]" "d ! length q = CHR ''.''"
    by (cases q; simp add: neq_Nil_conv; auto)+
  then show "list_ex (\<lambda>i. d ! i = CHR ''.'') [1..<length d - 1]" unfolding list_ex_iff by blast
qed

lemma two_parts:
  "split_on c s = [p, d] \<longleftrightarrow> s = p @ c # d \<and> c \<notin> set p \<and> c \<notin> set d"
proof
  assume a: "split_on c s = [p, d]"
  then have "join_with c [p, d] = s" using join_split [of c s] by simp
  moreover have "c \<notin> set p" "c \<notin> set d" using split_on_parts_free [of _ c s] a by auto
  ultimately show "s = p @ c # d \<and> c \<notin> set p \<and> c \<notin> set d" by simp
qed (simp add: split_on_append split_on_free)

text \<open>
  C35: The e-mail check of the forms accepts exactly the strings that consist of three non-empty runs of
  characters other than blanks and at signs, joined by an at sign and a dot, which is what its anchored
  regular expression describes; and all of those pass the looser check of the backoffice.
\<close>

theorem strict_email_matches_regex:
  "(strict_email_test s \<longleftrightarrow>
     (\<exists>p q r. s = p @ ''@'' @ q @ ''.'' @ r \<and> p \<noteq> [] \<and> q \<noteq> [] \<and> r \<noteq> [] \<and> list_all word_char (p @ q @ r))) \<and>
   (strict_email_test s \<longrightarrow> email_test s)"
proof -
  have iff: "strict_email_test s \<longleftrightarrow>
     (\<exists>p q r. s = p @ ''@'' @ q @ ''.'' @ r \<and> p \<noteq> [] \<and> q \<noteq> [] \<and> r \<noteq> [] \<and> list_all word_char (p @ q @ r))" (is "_ \<longleftrightarrow> ?R")
  proof
    assume "strict_email_test s"
    then obtain p d where pd: "split_on (CHR ''@'') s = [p, d]" "p \<noteq> []" "list_all word_char p" "list_all word_char d"
      "list_ex (\<lambda>i. d ! i = CHR ''.'') [1..<length d - 1]"
      by (auto simp: strict_email_test_def split: list.splits)
    obtain q r where "d = q @ ''.'' @ r" "q \<noteq> []" "r \<noteq> []" using pd(5) unfolding inner_dot_iff by blast
    with pd have "s = p @ ''@'' @ q @ ''.'' @ r \<and> p \<noteq> [] \<and> q \<noteq> [] \<and> r \<noteq> [] \<and> list_all word_char (p @ q @ r)"
      by (simp add: two_parts)
    then show ?R by blast
  next
    assume ?R
    then obtain p q r where s: "s = p @ ''@'' @ q @ ''.'' @ r" "p \<noteq> []" "q \<noteq> []" "r \<noteq> []" "list_all word_char (p @ q @ r)" by blast
    then have "split_on (CHR ''@'') s = [p, q @ ''.'' @ r]" using word_chars_no_at [of "p @ q @ r"] by (auto simp: two_parts)
    moreover have "list_ex (\<lambda>i. (q @ ''.'' @ r) ! i = CHR ''.'') [1..<length (q @ ''.'' @ r) - 1]"
      unfolding inner_dot_iff using s by blast
    moreover have "word_char (CHR ''.'')" by code_simp
    ultimately show "strict_email_test s" using s by (simp add: strict_email_test_def)
  qed
  have "email_test s" if ?R
  proof -
    from that obtain p q r where "s = [] @ p @ ''@'' @ q @ ''.'' @ r @ []" "p \<noteq> []" "q \<noteq> []" "r \<noteq> []"
      "list_all (\<lambda>c. \<not> is_space c) (p @ q @ r)" by (auto simp: list_all_iff word_char_def)
    then show ?thesis unfolding email_test_matches_regex by blast
  qed
  with iff show ?thesis by blast
qed

theorem strict_email_matches_regex_witness:
  "strict_email_test ''ann@shop.org'' \<and> email_test ''ann@shop.org''"
proof -
  have "strict_email_test ''ann@shop.org''" by code_simp
  then show ?thesis using strict_email_matches_regex [of "''ann@shop.org''"] by blast
qed

lemma report_error_fields [simp]:
  "v_error (report_error framed send m v) = m" "v_pushed (report_error framed send m v) = v_pushed v"
  "v_showError (report_error framed send m v) \<longleftrightarrow> (if framed then v_showError v else True)"
  by (simp_all add: report_error_def post_def Let_def)

text \<open>The store after a session has been accepted, and the two ways in which a request of it can end.\<close>

definition session_store :: "auth_keys \<Rightarrow> json_lib \<Rightarrow> auth_data \<Rightarrow> auth_store \<Rightarrow> auth_store" where
  "session_store K J d s =
     (accept_session K J (the (d_access_token d)) (d_user d) (s\<lparr>s_loading := True, s_error := None\<rparr>))\<lparr>s_loading := False\<rparr>"

lemma session_store_fields:
  "s_token (session_store K J d s) = Some (the (d_access_token d))" "s_user (session_store K J d s) = d_user d"
  "s_storage (session_store K J d s) =
     (s_storage s)(TOKEN_KEY K \<mapsto> the (d_access_token d), USER_KEY K \<mapsto> stringify J (d_user d))"
  by (simp_all add: session_store_def accept_session_def)

lemma authenticate_cases:
  assumes "known \<noteq> []" "fallback \<noteq> []"
  shows "(\<exists>d. authenticate known fallback K J outcome s = (Inr d, session_store K J d s) \<and> truthy (d_access_token d) \<and> js_truthy (d_user d)) \<or>
    (\<exists>m. m \<noteq> [] \<and> authenticate known fallback K J outcome s = (Inl (JsError m), s\<lparr>s_error := Some m, s_loading := False\<rparr>))"
proof -
  have "error_text known fallback err \<noteq> []" for err
    using assms by (auto simp: error_text_def split: option.split)
  then show ?thesis by (auto simp: authenticate_def session_store_def Let_def split: sum.split)
qed

text \<open>
  C32: Logging in on the page. A refused login leaves the session as it was and ends with a message that is
  never empty; a page on its own shows it, but an embedded page shows nothing and only posts it. An
  accepted login stores the token and leads to the profile, or tells the embedding window about the
  session. In every case the page is ready for the next attempt.
\<close>

theorem login_page_spec:
  assumes "handleLogin K J framed outcome (v, s) = (v', s')" "TOKEN_KEY K \<noteq> USER_KEY K"
  shows "\<not> v_loading v' \<and>
    (case fst (store_login K J outcome s) of
       Inl e \<Rightarrow> s_token s' = s_token s \<and> s_storage s' = s_storage s \<and> v_pushed v' = v_pushed v \<and> v_error v' \<noteq> [] \<and>
         shown_error v' = (if framed then None else Some (v_error v')) \<and>
         v_posted v' = v_posted v @ (if framed then sendAuthError True (v_error v') @ sendAuthStatus True False JUndef JUndef else [])
     | Inr d \<Rightarrow> getItem (s_storage s') (TOKEN_KEY K) = d_access_token d \<and> store_isAuthenticated s' \<and> v_error v' = [] \<and>
         v_pushed v' = v_pushed v @ (if framed then [] else [''/profile'']) \<and>
         v_posted v' = v_posted v @ (if framed
           then sendAuthSuccess True (d_user d) (the (d_access_token d)) @
                sendAuthStatus True True (d_user d) (JStr (the (d_access_token d)))
           else []))"
  using authenticate_cases [of "''Invalid credentials''" "''Failed to login''" K J outcome s, OF list.distinct(2) list.distinct(2)]
proof (elim disjE exE conjE)
  fix d assume d: "authenticate ''Invalid credentials'' ''Failed to login'' K J outcome s = (Inr d, session_store K J d s)"
    and tu: "truthy (d_access_token d)" "js_truthy (d_user d)"
  then show ?thesis
    using assms by (auto simp: handleLogin_def store_login_def session_store_fields start_request_def push_def post_def Let_def
        store_isAuthenticated_def truthy_def)
next
  fix m assume "m \<noteq> []" "authenticate ''Invalid credentials'' ''Failed to login'' K J outcome s = (Inl (JsError m), s\<lparr>s_error := Some m, s_loading := False\<rparr>)"
  then show ?thesis
    using assms by (cases framed) (auto simp: handleLogin_def store_login_def start_request_def report_error_def post_def shown_error_def Let_def)
qed

definition demo_data :: auth_data where
  "demo_data = \<lparr>d_access_token = Some ''tok'', d_user = JObj [(''id'', JStr ''u1'')]\<rparr>"

theorem login_page_spec_witness:
  "shown_error (fst (handleLogin demo_keys demo_json True (Inl \<lparr>err_message = ''Invalid credentials'', err_response_message = None\<rparr>)
     (new_page, empty_store))) = None"
proof -
  obtain v' s' where r: "handleLogin demo_keys demo_json True (Inl \<lparr>err_message = ''Invalid credentials'', err_response_message = None\<rparr>)
     (new_page, empty_store) = (v', s')" by fastforce
  have "TOKEN_KEY demo_keys \<noteq> USER_KEY demo_keys" by (simp add: demo_keys_def)
  then show ?thesis using login_page_spec [OF r] r by (simp add: store_login_def authenticate_def Let_def)
qed

definition demo_form_input :: auth_form where
  "demo_form_input = \<lparr>f_email = ''ann@shop.org'', f_password = ''secret'', f_name = ''Ann'', f_errors = no_errors, f_isSubmitting = False,
     f_pushed = []\<rparr>"

text \<open>
  Submitting the registration form. A request is made exactly when the e-mail is well-formed, the
  password has at least eight characters and the name is not empty; otherwise the store is not touched and
  each field that is wrong, and no other, has a message.
\<close>

theorem register_form_spec:
  assumes "register_handleSubmit K J outcome (f, s) = (f', s')"
  shows "if strict_email_test (f_email f) \<and> 8 \<le> length (f_password f) \<and> f_name f \<noteq> []
    then s' = snd (store_register K J outcome s) \<and> \<not> f_isSubmitting f' \<and>
      (f_pushed f' = f_pushed f @ [''/profile''] \<longleftrightarrow> fe_general (f_errors f') = [])
    else s' = s \<and> f_pushed f' = f_pushed f \<and>
      (fe_email (f_errors f') \<noteq> [] \<longleftrightarrow> \<not> strict_email_test (f_email f)) \<and>
      (fe_password (f_errors f') \<noteq> [] \<longleftrightarrow> length (f_password f) < 8) \<and> (fe_name (f_errors f') \<noteq> [] \<longleftrightarrow> f_name f = [])"
proof -
  have empty: "\<not> strict_email_test []" by code_simp
  show ?thesis
    using assms empty
    by (auto simp: register_handleSubmit_def register_validateForm_def email_error_def password_error_def name_error_def
        form_request_def no_errors_def Let_def split: if_splits sum.splits prod.splits bool.splits)
qed

theorem register_form_spec_witness:
  "snd (register_handleSubmit demo_keys demo_json (Inr demo_data) (demo_form_input, empty_store)) = empty_store"
proof -
  obtain f' s' where r: "register_handleSubmit demo_keys demo_json (Inr demo_data) (demo_form_input, empty_store) = (f', s')" by fastforce
  have "length (f_password demo_form_input) < 8" by (simp add: demo_form_input_def)
  then show ?thesis using register_form_spec [OF r] r by (auto split: if_splits)
qed

end
