(* ===== verification/Dashboard_App.thy ===== *)
theory Dashboard_App
  imports Dashboard_Client
begin

text \<open>
  The frame of the dashboard, \<open>pages/_app.tsx\<close>, and \<open>middleware.ts\<close>: which of the login frame, the loading
  card and the page is on the screen. React keeps the last committed screen while the new values of the
  state wait for the next commit; an effect captures the values of its render, so \<open>checkAuth\<close> is a closure
  over \<open>authCheckAttempts\<close> and \<open>lastAuthCheck\<close>, and the timers, the listeners and the requests that are under
  way keep the closure they started with. A run is a list of events, in any order that the browser may
  choose. Times are milliseconds since the epoch.
\<close>

section \<open>A validation in two steps\<close>

text \<open>\<open>validateToken\<close> up to its request, and what it does with the answer.\<close>

datatype validation = Resolved "bool js" | Requested int

definition validate_begin :: "js_env \<Rightarrow> IAuthConfig \<Rightarrow> browser_lib \<Rightarrow> int \<Rightarrow> window \<Rightarrow> validation \<times> window" where
  "validate_begin E C Lb now w =
     (case getToken C w of
        None \<Rightarrow> (Resolved (Inr False), clearAuth C w)
      | Some token \<Rightarrow>
          if token = [] then (Resolved (Inr False), clearAuth C w)
          else (case isTokenExpired E Lb now token of
            Inl e \<Rightarrow> (Resolved (Inl e), w)
          | Inr True \<Rightarrow> (Resolved (Inr False), clearAuth C w)
          | Inr False \<Rightarrow>
              (case cached_result Lb now w of Some b \<Rightarrow> (Resolved (Inr b), w) | None \<Rightarrow> (Requested now, w))))"

definition validate_end :: "js_env \<Rightarrow> IAuthConfig \<Rightarrow> validation \<Rightarrow> jsval js \<Rightarrow> window \<Rightarrow> bool js \<times> window" where
  "validate_end E C v outcome w =
     (case v of
        Resolved r \<Rightarrow> (r, w)
      | Requested now \<Rightarrow> (case outcome of Inl e \<Rightarrow> (Inr True, w) | Inr data \<Rightarrow> store_validation E C now data w))"

section \<open>The state\<close>

datatype screen = Login_frame string | Loading_card | Page

text \<open>\<open>authCheckAttempts\<close> and \<open>lastAuthCheck\<close> as an effect captured them.\<close>

type_synonym closure = "nat \<times> int"

record app =
  isLoading :: bool
  showAuthIframe :: bool
  authIframeSrc :: string
  authCheckAttempts :: nat
  lastAuthCheck :: int
  on_screen :: screen
  app_effect :: "closure option"
  app_routed :: bool
  visibility_listeners :: "closure list"
  validations :: "(closure \<times> validation) list"
  timeouts :: "(int \<times> closure) list"
  app_win :: window
  app_clock :: int

definition new_app :: "int \<Rightarrow> window \<Rightarrow> app" where
  "new_app now w =
     \<lparr>isLoading = True, showAuthIframe = False, authIframeSrc = [], authCheckAttempts = 0, lastAuthCheck = 0,
      on_screen = Loading_card, app_effect = None, app_routed = False, visibility_listeners = [], validations = [], timeouts = [],
      app_win = w, app_clock = now\<rparr>"

definition app_render :: "app \<Rightarrow> screen" where
  "app_render a =
     (if showAuthIframe a then Login_frame (authIframeSrc a) else if isLoading a then Loading_card else Page)"

section \<open>The effect\<close>

definition login_src :: "IAuthConfig \<Rightarrow> browser_lib \<Rightarrow> string \<Rightarrow> string" where
  "login_src C Lb href = authInterfaceUrl C @ ''/login?returnUrl='' @ encodeURIComponent Lb href @ ''&theme=neobrutal''"

definition showLoginIframe :: "IAuthConfig \<Rightarrow> browser_lib \<Rightarrow> string \<Rightarrow> app \<Rightarrow> app" where
  "showLoginIframe C Lb href a = a\<lparr>authIframeSrc := login_src C Lb href, showAuthIframe := True, isLoading := False\<rparr>"

text \<open>\<open>checkAuth\<close> up to its \<open>await\<close>.\<close>

definition checkAuth :: "js_env \<Rightarrow> IAuthConfig \<Rightarrow> browser_lib \<Rightarrow> string \<Rightarrow> closure \<Rightarrow> app \<Rightarrow> app" where
  "checkAuth E C Lb href c a =
     (let now = app_clock a
      in if now - snd c < 5000 then a\<lparr>isLoading := False\<rparr>
         else let a = a\<lparr>lastAuthCheck := now\<rparr>
              in if \<not> isAuthenticated C (app_win a) then showLoginIframe C Lb href a
                 else case validate_begin E C Lb now (app_win a) of
                   (v, w) \<Rightarrow> a\<lparr>isLoading := True, validations := validations a @ [(c, v)], app_win := w\<rparr>)"

text \<open>The rest of \<open>checkAuth\<close>, when its validation has ended.\<close>

definition checkAuth_rest :: "IAuthConfig \<Rightarrow> browser_lib \<Rightarrow> string \<Rightarrow> closure \<Rightarrow> bool js \<Rightarrow> app \<Rightarrow> app" where
  "checkAuth_rest C Lb href c result a =
     (case result of
        Inl e \<Rightarrow> a\<lparr>showAuthIframe := False, isLoading := False\<rparr>
      | Inr True \<Rightarrow> a\<lparr>showAuthIframe := False, isLoading := False, authCheckAttempts := 0\<rparr>
      | Inr False \<Rightarrow>
          if fst c < 2
          then a\<lparr>authCheckAttempts := authCheckAttempts a + 1, timeouts := timeouts a @ [(app_clock a + 2000, c)]\<rparr>
          else (showLoginIframe C Lb href a)\<lparr>authCheckAttempts := 0\<rparr>)"

text \<open>
  The effect runs after a commit when the router or one of the two counters has changed. It checks at
  once and installs the listeners. The clean-up removes the first two; \<open>removeEventListener\<close> with a fresh
  function removes nothing, so the listeners of \<open>visibilitychange\<close> stay.
\<close>

definition run_effect :: "js_env \<Rightarrow> IAuthConfig \<Rightarrow> browser_lib \<Rightarrow> string \<Rightarrow> app \<Rightarrow> app" where
  "run_effect E C Lb href a =
     (let c = (authCheckAttempts a, lastAuthCheck a);
          a = checkAuth E C Lb href c (a\<lparr>app_effect := Some c, app_routed := False\<rparr>)
      in a\<lparr>visibility_listeners := visibility_listeners a @ [c]\<rparr>)"

definition commit :: "js_env \<Rightarrow> IAuthConfig \<Rightarrow> browser_lib \<Rightarrow> string \<Rightarrow> app \<Rightarrow> app" where
  "commit E C Lb href a =
     (let a = a\<lparr>on_screen := app_render a\<rparr>
      in if app_routed a \<or> app_effect a \<noteq> Some (authCheckAttempts a, lastAuthCheck a) then run_effect E C Lb href a else a)"

definition handleAuthChange :: "js_env \<Rightarrow> IAuthConfig \<Rightarrow> browser_lib \<Rightarrow> string \<Rightarrow> app \<Rightarrow> app" where
  "handleAuthChange E C Lb href a = (case app_effect a of None \<Rightarrow> a | Some c \<Rightarrow> checkAuth E C Lb href c a)"

definition handleStorageChange :: "js_env \<Rightarrow> IAuthConfig \<Rightarrow> browser_lib \<Rightarrow> string \<Rightarrow> string \<Rightarrow> app \<Rightarrow> app" where
  "handleStorageChange E C Lb href key a =
     (case app_effect a of
        None \<Rightarrow> a
      | Some c \<Rightarrow>
          if key = ''auth_state_timestamp'' \<or> key = tokenKey C \<or> key = userKey C \<or> key = ''token'' \<or> key = ''user''
          then checkAuth E C Lb href c a else a)"

definition visibility_change :: "js_env \<Rightarrow> IAuthConfig \<Rightarrow> browser_lib \<Rightarrow> string \<Rightarrow> bool \<Rightarrow> app \<Rightarrow> app" where
  "visibility_change E C Lb href visible a =
     (if visible then fold (checkAuth E C Lb href) (visibility_listeners a) a else a)"

text \<open>The answer of a request arrives; a validation that made no request ends by itself.\<close>

definition settle :: "js_env \<Rightarrow> IAuthConfig \<Rightarrow> browser_lib \<Rightarrow> string \<Rightarrow> nat \<Rightarrow> jsval js \<Rightarrow> app \<Rightarrow> app" where
  "settle E C Lb href i outcome a =
     (if i < length (validations a)
      then case validations a ! i of
        (c, v) \<Rightarrow> (case validate_end E C v outcome (app_win a) of
          (result, w) \<Rightarrow>
            checkAuth_rest C Lb href c result
              (a\<lparr>app_win := w, validations := take i (validations a) @ drop (Suc i) (validations a)\<rparr>))
      else a)"

definition fire :: "js_env \<Rightarrow> IAuthConfig \<Rightarrow> browser_lib \<Rightarrow> string \<Rightarrow> nat \<Rightarrow> app \<Rightarrow> app" where
  "fire E C Lb href i a =
     (if i < length (timeouts a) \<and> fst (timeouts a ! i) \<le> app_clock a
      then checkAuth E C Lb href (snd (timeouts a ! i)) (a\<lparr>timeouts := take i (timeouts a) @ drop (Suc i) (timeouts a)\<rparr>)
      else a)"

section \<open>Runs\<close>

text \<open>
  \<open>Elsewhere w\<close>: other code of the page or another tab has changed the window. \<open>Reload\<close> starts the
  application again in the same browser.
\<close>

datatype app_event =
  Commit | Auth_changed | Storage_changed string | Visibility_changed bool | Settled nat "jsval js" | Fired nat |
  Route_changed | Wait nat | Elsewhere window | Reload

fun app_step :: "js_env \<Rightarrow> IAuthConfig \<Rightarrow> browser_lib \<Rightarrow> string \<Rightarrow> app_event \<Rightarrow> app \<Rightarrow> app" where
  "app_step E C Lb href Commit a = commit E C Lb href a"
| "app_step E C Lb href Auth_changed a = handleAuthChange E C Lb href a"
| "app_step E C Lb href (Storage_changed key) a = handleStorageChange E C Lb href key a"
| "app_step E C Lb href (Visibility_changed b) a = visibility_change E C Lb href b a"
| "app_step E C Lb href (Settled i outcome) a = settle E C Lb href i outcome a"
| "app_step E C Lb href (Fired i) a = fire E C Lb href i a"
| "app_step E C Lb href Route_changed a = a\<lparr>app_routed := True\<rparr>"
| "app_step E C Lb href (Wait d) a = a\<lparr>app_clock := app_clock a + int d\<rparr>"
| "app_step E C Lb href (Elsewhere w) a = a\<lparr>app_win := w\<rparr>"
| "app_step E C Lb href Reload a = new_app (app_clock a) (app_win a)"

definition app_run :: "js_env \<Rightarrow> IAuthConfig \<Rightarrow> browser_lib \<Rightarrow> string \<Rightarrow> app_event list \<Rightarrow> app \<Rightarrow> app" where
  "app_run E C Lb href es a = fold (app_step E C Lb href) es a"

text \<open>\<open>middleware.ts\<close>: both branches let the request through.\<close>

definition middleware :: "string option \<Rightarrow> bool" where
  "middleware token = (if token = None then True else True)"

section \<open>Lemmas\<close>

lemma validate_two_steps:
  "(case validate_begin E C Lb now w of (v, w') \<Rightarrow> validate_end E C v outcome w') = validateToken E C Lb now outcome w"
  by (simp add: validate_begin_def validate_end_def validateToken_def split: option.split sum.split bool.split)

lemma negative_validation_clears:
  assumes "fst (validateToken E C Lb now outcome w) = Inr False" "config_ok C" "boolean_answer outcome" "no_cached_refusal w"
  shows "\<not> isAuthenticated C (snd (validateToken E C Lb now outcome w))"
proof -
  have c: "cached_result Lb now w \<noteq> Some False"
    using assms(4) by (auto simp: cached_result_def no_cached_refusal_def split: option.splits if_splits)
  let ?P = "\<lambda>r. fst r = Inr False \<longrightarrow> \<not> isAuthenticated C (snd r)"
  have "?P (validateToken E C Lb now outcome w)"
  proof (rule validate_cases)
    fix d assume "outcome = Inr d"
    then obtain b where "js_get d ''isValid'' = Inr (JBool b)" using assms(3) by (auto simp: boolean_answer_def)
    then show "?P (store_validation E C now d w)"
      using clearAuth_not_authenticated [OF assms(2)] by (simp add: store_validation_boolean Let_def)
  qed (use c clearAuth_not_authenticated [OF assms(2)] in auto)
  with assms(1) show ?thesis by simp
qed

lemma checkAuth_fields [simp]:
  "app_effect (checkAuth E C Lb href c a) = app_effect a" "app_routed (checkAuth E C Lb href c a) = app_routed a"
  "timeouts (checkAuth E C Lb href c a) = timeouts a" "app_clock (checkAuth E C Lb href c a) = app_clock a"
  "visibility_listeners (checkAuth E C Lb href c a) = visibility_listeners a"
  "on_screen (checkAuth E C Lb href c a) = on_screen a"
  "authCheckAttempts (checkAuth E C Lb href c a) = authCheckAttempts a"
  by (simp_all add: checkAuth_def Let_def showLoginIframe_def split: prod.split)

lemma checkAuth_rest_fields [simp]:
  "app_effect (checkAuth_rest C Lb href c r a) = app_effect a" "app_clock (checkAuth_rest C Lb href c r a) = app_clock a"
  "visibility_listeners (checkAuth_rest C Lb href c r a) = visibility_listeners a"
  by (simp_all add: checkAuth_rest_def showLoginIframe_def split: sum.split bool.split)

text \<open>Who is loading waits for something.\<close>

definition loading_ok :: "app \<Rightarrow> bool" where
  "loading_ok a \<longleftrightarrow> isLoading a \<longrightarrow> app_effect a = None \<or> validations a \<noteq> [] \<or> timeouts a \<noteq> []"

lemma checkAuth_loading_ok: "loading_ok (checkAuth E C Lb href c a)"
  by (simp add: loading_ok_def checkAuth_def Let_def showLoginIframe_def split: prod.split)

lemma checkAuth_rest_loading_ok: "loading_ok (checkAuth_rest C Lb href c result a)"
  by (simp add: loading_ok_def checkAuth_rest_def showLoginIframe_def split: sum.split bool.split)

lemma checks_loading_ok: "loading_ok a \<Longrightarrow> loading_ok (fold (checkAuth E C Lb href) cs a)"
  by (induction cs arbitrary: a) (simp_all add: checkAuth_loading_ok)

lemma checks_keep_validations:
  "validations a \<noteq> [] \<Longrightarrow> validations (fold (checkAuth E C Lb href) cs a) \<noteq> []"
  by (induction cs arbitrary: a) (simp_all add: checkAuth_def Let_def showLoginIframe_def split: prod.split)

lemma checks_fields [simp]:
  "app_effect (fold (checkAuth E C Lb href) cs a) = app_effect a" "app_clock (fold (checkAuth E C Lb href) cs a) = app_clock a"
  "visibility_listeners (fold (checkAuth E C Lb href) cs a) = visibility_listeners a"
  by (induction cs arbitrary: a) simp_all

text \<open>The first listener of \<open>visibilitychange\<close> is never removed, and its closure has no last check.\<close>

definition first_listener_stays :: "app \<Rightarrow> bool" where
  "first_listener_stays a \<longleftrightarrow>
     5000 \<le> app_clock a \<and> (if app_effect a = None then visibility_listeners a = [] \<and> authCheckAttempts a = 0 \<and> lastAuthCheck a = 0 \<and>
        validations a = [] \<and> timeouts a = []
      else visibility_listeners a \<noteq> [] \<and> hd (visibility_listeners a) = (0, 0))"

lemma commit_keeps:
  assumes "loading_ok a" "first_listener_stays a"
  shows "loading_ok (commit E C Lb href a) \<and> first_listener_stays (commit E C Lb href a)"
proof -
  have l: "loading_ok (run_effect E C Lb href b)" for b
    using checkAuth_loading_ok [of E C Lb href "(authCheckAttempts b, lastAuthCheck b)"
        "b\<lparr>app_effect := Some (authCheckAttempts b, lastAuthCheck b), app_routed := False\<rparr>"]
    by (simp add: run_effect_def Let_def loading_ok_def)
  have f: "first_listener_stays b \<Longrightarrow> first_listener_stays (run_effect E C Lb href b)" for b
    by (auto simp: run_effect_def Let_def first_listener_stays_def split: if_splits)
  have a: "loading_ok (a\<lparr>on_screen := app_render a\<rparr>)" "first_listener_stays (a\<lparr>on_screen := app_render a\<rparr>)"
    using assms by (simp_all add: loading_ok_def first_listener_stays_def)
  show ?thesis
    unfolding commit_def Let_def using a l f [OF a(2)] by simp
qed

lemma settle_keeps:
  assumes "loading_ok a" "first_listener_stays a"
  shows "loading_ok (settle E C Lb href i outcome a) \<and> first_listener_stays (settle E C Lb href i outcome a)"
proof (cases "i < length (validations a)")
  case True
  then have "validations a \<noteq> []" by auto
  with assms(2) obtain c where "app_effect a = Some c" "first_listener_stays a"
    by (cases "app_effect a") (auto simp: first_listener_stays_def)
  with True show ?thesis
    by (simp add: settle_def checkAuth_rest_loading_ok case_prod_beta) (simp add: first_listener_stays_def)
qed (use assms in \<open>simp add: settle_def\<close>)

lemma fire_keeps:
  assumes "loading_ok a" "first_listener_stays a"
  shows "loading_ok (fire E C Lb href i a) \<and> first_listener_stays (fire E C Lb href i a)"
proof (cases "i < length (timeouts a)")
  case True
  then have "timeouts a \<noteq> []" by auto
  with assms show ?thesis
    by (simp add: fire_def checkAuth_loading_ok) (simp add: first_listener_stays_def split: if_splits)
qed (use assms in \<open>simp add: fire_def\<close>)

lemma app_step_keeps:
  assumes "loading_ok a" "first_listener_stays a"
  shows "loading_ok (app_step E C Lb href e a) \<and> first_listener_stays (app_step E C Lb href e a)"
  using assms
proof (cases e)
  case Auth_changed
  with assms show ?thesis
    by (cases "app_effect a") (simp_all add: handleAuthChange_def checkAuth_loading_ok, simp add: first_listener_stays_def)
next
  case (Storage_changed key)
  with assms show ?thesis
    by (cases "app_effect a") (simp_all add: handleStorageChange_def checkAuth_loading_ok, simp add: first_listener_stays_def)
next
  case (Visibility_changed b)
  with assms show ?thesis
    by (cases "app_effect a") (simp_all add: visibility_change_def checks_loading_ok first_listener_stays_def)
qed (simp_all add: commit_keeps settle_keeps fire_keeps, simp_all add: loading_ok_def first_listener_stays_def new_app_def)

lemma app_run_keeps:
  assumes "5000 \<le> now"
  shows "loading_ok (app_run E C Lb href es (new_app now w)) \<and> first_listener_stays (app_run E C Lb href es (new_app now w))"
proof -
  have "loading_ok a \<Longrightarrow> first_listener_stays a \<Longrightarrow>
      loading_ok (fold (app_step E C Lb href) es a) \<and> first_listener_stays (fold (app_step E C Lb href) es a)" for a
    by (induction es arbitrary: a) (simp_all add: app_step_keeps)
  then show ?thesis using assms by (simp add: app_run_def loading_ok_def first_listener_stays_def new_app_def)
qed

section \<open>Properties\<close>

lemma demo_session:
  "getToken demo_config (setAuth demo_config demo_browser ''tok'' JNull fresh_window) = Some ''tok''"
  "isAuthenticated demo_config (setAuth demo_config demo_browser ''tok'' JNull fresh_window)"
  by (simp_all add: getToken_def isAuthenticated_def truthy_def demo_config_def)

lemma demo_no_cache: "cached_result demo_browser now (setAuth demo_config demo_browser ''tok'' JNull fresh_window) = None"
  by (simp add: cached_result_def demo_config_def fresh_window_def last_validation_key_def)

lemma demo_expired: "isTokenExpired demo_env demo_browser now ''tok'' = Inr False"
  by (simp add: isTokenExpired_def parseJwt_def)

text \<open>
  C28: In every run of the dashboard, a state in which the application is loading has a validation under way
  or a timer that will check again, or the application is not mounted yet: the loading card never stays
  without anything to take it away. And whenever the tab becomes visible while there is a session, a
  validation is under way afterwards, however recent the last check was: the listener of the first
  effect is never removed and never sees a cooldown.
\<close>

theorem app_run_invariant:
  assumes "5000 \<le> now"
  shows "let a = app_run E C Lb href es (new_app now w) in
     (isLoading a \<longrightarrow> app_effect a = None \<or> validations a \<noteq> [] \<or> timeouts a \<noteq> []) \<and>
     (app_effect a \<noteq> None \<and> isAuthenticated C (app_win a) \<longrightarrow> validations (visibility_change E C Lb href True a) \<noteq> [])"
proof -
  let ?a = "app_run E C Lb href es (new_app now w)"
  have k: "loading_ok ?a" "first_listener_stays ?a" using app_run_keeps [OF assms] by auto
  have "validations (visibility_change E C Lb href True ?a) \<noteq> []" if e: "app_effect ?a \<noteq> None" and "isAuthenticated C (app_win ?a)"
  proof -
    from k(2) e obtain cs where cs: "visibility_listeners ?a = (0, 0) # cs" "5000 \<le> app_clock ?a"
      by (cases "visibility_listeners ?a") (auto simp: first_listener_stays_def)
    with that(2) have "validations (checkAuth E C Lb href (0, 0) ?a) \<noteq> []"
      by (simp add: checkAuth_def Let_def split: prod.split)
    with cs show ?thesis by (simp add: visibility_change_def checks_keep_validations)
  qed
  with k(1) show ?thesis by (simp add: loading_ok_def Let_def)
qed

theorem app_run_invariant_witness:
  "let w = setAuth demo_config demo_browser ''tok'' JNull fresh_window;
       a = app_run demo_env demo_config demo_browser ''/'' [Commit, Commit, Wait 10] (new_app 5000 w)
   in app_effect a \<noteq> None \<and> isAuthenticated demo_config (app_win a) \<and>
      validations (visibility_change demo_env demo_config demo_browser ''/'' True a) \<noteq> []"
proof -
  let ?w = "setAuth demo_config demo_browser ''tok'' JNull fresh_window"
  let ?a = "app_run demo_env demo_config demo_browser ''/'' [Commit, Commit, Wait 10] (new_app 5000 ?w)"
  have "app_effect ?a \<noteq> None \<and> isAuthenticated demo_config (app_win ?a)"
    by (simp add: demo_session demo_expired demo_no_cache app_run_def new_app_def commit_def run_effect_def checkAuth_def
        app_render_def validate_begin_def Let_def)
  then show ?thesis
    using app_run_invariant [of 5000 demo_env demo_config demo_browser "''/''" "[Commit, Commit, Wait 10]" ?w]
    by (simp add: Let_def)
qed

text \<open>The mounted application with a session in the browser, before its first validation has ended.\<close>

lemma mounted_with_session:
  assumes "5000 \<le> now" "isAuthenticated C w" "d < 5000" "validate_begin E C Lb now w = (v, w')"
  shows "app_run E C Lb href [Commit, Wait d, Commit, Commit] (new_app now w) =
    (new_app now w)\<lparr>isLoading := False, lastAuthCheck := now, on_screen := Page, app_effect := Some (0, now),
       visibility_listeners := [(0, 0), (0, now)], validations := [((0, 0), v)], app_win := w', app_clock := now + int d\<rparr>"
  using assms
  by (simp add: app_run_def new_app_def commit_def run_effect_def checkAuth_def app_render_def Let_def)

lemma app_run_append: "app_run E C Lb href (es @ fs) a = app_run E C Lb href fs (app_run E C Lb href es a)"
  by (simp add: app_run_def)

text \<open>
  C6: A session that the gateway refuses. The page is on the screen before the first validation has
  ended, although the application set \<open>isLoading\<close> for it, because the second run of the effect, which comes
  with the commit that follows the first within five seconds, finds a recent check and clears the flag.
  A negative answer within five seconds of the start of the validation leaves the page until the timer of two seconds
  fires; then the login frame replaces it. A later answer shows the login frame at once.
\<close>

theorem refused_session_reaches_login:
  assumes "5000 \<le> now" "isAuthenticated C w" "d < 5000" "config_ok C" "boolean_answer outcome" "no_cached_refusal w"
    and neg: "fst (validateToken E C Lb now outcome w) = Inr False"
  shows "let mounted = app_run E C Lb href [Commit, Wait d, Commit, Commit] (new_app now w);
             refused = app_run E C Lb href [Wait e, Settled 0 outcome, Commit, Commit] mounted;
             later = (\<lambda>t. app_run E C Lb href [Wait t, Fired 0, Commit] refused);
             frame = Login_frame (login_src C Lb href) in
     on_screen mounted = Page \<and> length (validations mounted) = 1 \<and>
     on_screen refused = (if d + e < 5000 then Page else frame) \<and> \<not> isAuthenticated C (app_win refused) \<and>
     (\<forall>t. on_screen (later t) = (if d + e < 5000 \<and> t < 2000 then Page else frame))"
proof -
  obtain v w' where v: "validate_begin E C Lb now w = (v, w')" by force
  have "validate_end E C v outcome w' = validateToken E C Lb now outcome w"
    using validate_two_steps [where E = E and C = C and Lb = Lb and now = now and w = w and outcome = outcome] v by simp
  then obtain w'' where w'': "validate_end E C v outcome w' = (Inr False, w'')" "\<not> isAuthenticated C w''"
    using neg negative_validation_clears [OF neg assms(4-6)] by (metis prod.collapse)
  let ?checked = "\<lambda>t. (new_app now w)\<lparr>isLoading := False, lastAuthCheck := t, app_effect := Some (1, t),
       authCheckAttempts := 1, timeouts := [(now + int d + int e + 2000, (0, 0))], app_win := w'', app_clock := now + int d + int e\<rparr>"
  have m: "app_run E C Lb href [Commit, Wait d, Commit, Commit] (new_app now w) =
    (new_app now w)\<lparr>isLoading := False, lastAuthCheck := now, on_screen := Page, app_effect := Some (0, now),
       visibility_listeners := [(0, 0), (0, now)], validations := [((0, 0), v)], app_win := w', app_clock := now + int d\<rparr>"
    using mounted_with_session [OF assms(1,2) assms(3) v] by simp
  have r: "app_run E C Lb href [Wait e, Settled 0 outcome, Commit, Commit]
      (app_run E C Lb href [Commit, Wait d, Commit, Commit] (new_app now w)) =
    (if d + e < 5000
     then (?checked now)\<lparr>on_screen := Page, visibility_listeners := [(0, 0), (0, now), (1, now)]\<rparr>
     else (?checked (now + int d + int e))\<lparr>on_screen := Login_frame (login_src C Lb href), showAuthIframe := True,
       authIframeSrc := login_src C Lb href,
       visibility_listeners := [(0, 0), (0, now), (1, now), (1, now + int d + int e)]\<rparr>)"
    using w'' unfolding m
    by (simp add: app_run_def new_app_def settle_def checkAuth_rest_def commit_def run_effect_def checkAuth_def app_render_def
        showLoginIframe_def Let_def)
  show ?thesis
    unfolding Let_def r unfolding m using assms(1) w''(2)
    by (auto simp: app_run_def new_app_def fire_def commit_def run_effect_def checkAuth_def showLoginIframe_def app_render_def Let_def)
qed

theorem refused_session_reaches_login_witness:
  "let w = setAuth demo_config demo_browser ''tok'' JNull fresh_window;
       no = Inr (JObj [(''isValid'', JBool False)]);
       start = [Commit, Wait 100, Commit, Commit];
       answer = [Wait 300, Settled 0 no, Commit, Commit];
       show_after = (\<lambda>t. on_screen (app_run demo_env demo_config demo_browser ''/'' [Wait t, Fired 0, Commit]
          (app_run demo_env demo_config demo_browser ''/'' answer
            (app_run demo_env demo_config demo_browser ''/'' start (new_app 5000 w)))))
   in show_after 1000 = Page \<and> show_after 2000 = Login_frame (login_src demo_config demo_browser ''/'')"
proof -
  let ?w = "setAuth demo_config demo_browser ''tok'' JNull fresh_window"
  let ?no = "Inr (JObj [(''isValid'', JBool False)])"
  have "fst (validateToken demo_env demo_config demo_browser 5000 ?no ?w) = Inr False"
    by (simp add: validateToken_def demo_session(1) demo_expired demo_no_cache store_validation_def)
  moreover have "boolean_answer ?no" by (auto simp: boolean_answer_def)
  moreover have "no_cached_refusal ?w"
    by (simp add: no_cached_refusal_def fresh_window_def demo_config_def validation_result_key_def)
  ultimately show ?thesis
    using refused_session_reaches_login [of 5000 demo_config ?w 100 ?no demo_env demo_browser "''/''" 300] demo_config_ok demo_session(2)
    by (simp add: Let_def)
qed

end
