(* ===== verification/Gateway_Ops.thy ===== *)
theory Gateway_Ops
  imports Gateway_Guards JS_Value
begin

text \<open>
  The gateway as a proxy and its own supervision: \<open>routing.service.ts\<close> and \<open>routing.controller.ts\<close>,
  \<open>monitoring.service.ts\<close>, \<open>metrics.service.ts\<close> and \<open>request-metrics.interceptor.ts\<close>, and the migration
  \<open>combine-name-fields.ts\<close> of the user table. What the clients of the microservices answer, the
  decisions of the rate limiter and the library's \<open>getStatus\<close> are parameters; what is sent to the clients is recorded.
\<close>

section \<open>Routing\<close>

datatype target = NOTIFICATION_SERVICE | INVENTORY_SERVICE | AI_ML_SERVICE

text \<open>\<open>send\<close> and \<open>emit\<close> of a client, a pattern and the data.\<close>

datatype message = Send target string jsval | Emit target string jsval

datatype proxy_route = Post_notifications | Post_inventory | Post_predictions | Post_broadcast

text \<open>A request as the rate limiter sees it: the route, the address of the client and the time in seconds.\<close>

type_synonym hit = "proxy_route \<times> string \<times> nat"

text \<open>
  The state: the database, the messages sent so far, the requests the rate limiter has seen, the counter by
  path, method and status, and the gauge.
\<close>

record 's gateway =
  gw_db :: 's
  gw_sent :: "message list"
  rl_hits :: "hit list"
  http_requests_total :: "string \<times> string \<times> string \<Rightarrow> nat"
  memory_usage_bytes :: nat

text \<open>\<open>lastValueFrom(client.send(pattern, data))\<close>: \<open>answer\<close> is the value or the error of the client.\<close>

definition client_call :: "(message \<Rightarrow> jsval js) \<Rightarrow> message \<Rightarrow> ('s gateway, jsval) op" where
  "client_call answer m g = (answer m, g\<lparr>gw_sent := gw_sent g @ [m]\<rparr>)"

definition routeToNotificationService :: "(message \<Rightarrow> jsval js) \<Rightarrow> string \<Rightarrow> jsval \<Rightarrow> ('s gateway, jsval) op" where
  "routeToNotificationService answer pattern data = client_call answer (Send NOTIFICATION_SERVICE pattern data)"

definition routeToInventoryService :: "(message \<Rightarrow> jsval js) \<Rightarrow> string \<Rightarrow> jsval \<Rightarrow> ('s gateway, jsval) op" where
  "routeToInventoryService answer pattern data = client_call answer (Send INVENTORY_SERVICE pattern data)"

definition routeToAiMlService :: "(message \<Rightarrow> jsval js) \<Rightarrow> string \<Rightarrow> jsval \<Rightarrow> ('s gateway, jsval) op" where
  "routeToAiMlService answer pattern data = client_call answer (Send AI_ML_SERVICE pattern data)"

text \<open>All three are called before the first answer is awaited; \<open>order\<close> is the order of the answers.\<close>

definition broadcastEvent :: "nat list \<Rightarrow> (message \<Rightarrow> jsval js) \<Rightarrow> string \<Rightarrow> jsval \<Rightarrow> ('s gateway, jsval) op" where
  "broadcastEvent order answer pattern data g =
     (let ms = map (\<lambda>t. Emit t pattern data) [NOTIFICATION_SERVICE, INVENTORY_SERVICE, AI_ML_SERVICE]
      in (js_bind (promise_all order (map answer ms)) (\<lambda>vs. Inr (JArr vs [])), g\<lparr>gw_sent := gw_sent g @ ms\<rparr>))"

fun proxy_handler :: "nat list \<Rightarrow> (message \<Rightarrow> jsval js) \<Rightarrow> proxy_route \<Rightarrow> jsval \<Rightarrow> ('s gateway, jsval) op" where
  "proxy_handler order answer Post_notifications data = routeToNotificationService answer ''createNotification'' data"
| "proxy_handler order answer Post_inventory data = routeToInventoryService answer ''updateInventory'' data"
| "proxy_handler order answer Post_predictions data = routeToAiMlService answer ''getPrediction'' data"
| "proxy_handler order answer Post_broadcast data = broadcastEvent order answer ''globalEvent'' data"

section \<open>Rate limits\<close>

text \<open>The options of the \<open>@RateLimit\<close> decorators.\<close>

record rate_limit =
  points :: nat
  duration :: nat
  errorMessage :: string

fun route_limit :: "proxy_route \<Rightarrow> rate_limit" where
  "route_limit Post_notifications =
     \<lparr>points = 10, duration = 60, errorMessage = ''Too many requests, please try again later''\<rparr>"
| "route_limit Post_inventory =
     \<lparr>points = 20, duration = 60, errorMessage = ''Too many inventory requests, please try again later''\<rparr>"
| "route_limit Post_predictions =
     \<lparr>points = 5, duration = 60, errorMessage = ''Too many prediction requests, please try again later''\<rparr>"
| "route_limit Post_broadcast =
     \<lparr>points = 5, duration = 60, errorMessage = ''Too many broadcast requests, please try again later''\<rparr>"

text \<open>
  nestjs-rate-limiter is a parameter: \<open>rl_allows\<close> decides from the options of the route, the
  requests it has seen and the one that arrives, and refuses with status 429 and the message of the options;
  \<open>rl_first\<close> says whether its guard runs before those of the routes. Its decorator only attaches
  the options. A gateway that does not register its guard, and \<open>app.module.ts\<close> registers none, is the
  one whose limiter allows everything.
\<close>

record limiter =
  rl_allows :: "rate_limit \<Rightarrow> hit list \<Rightarrow> hit \<Rightarrow> bool"
  rl_first :: bool

definition RateLimiter_canActivate :: "limiter \<Rightarrow> hit \<Rightarrow> ('s gateway, unit) op" where
  "RateLimiter_canActivate L h g =
     (let o' = route_limit (fst h)
      in (if rl_allows L o' (rl_hits g) h then Inr () else Inl (TooManyRequestsException (errorMessage o')),
          g\<lparr>rl_hits := rl_hits g @ [h]\<rparr>))"

section \<open>Metrics\<close>

definition incrementRequestCounter :: "string \<Rightarrow> string \<Rightarrow> nat \<Rightarrow> 's gateway \<Rightarrow> 's gateway" where
  "incrementRequestCounter path meth statusCode g =
     (let k = (path, meth, index_string statusCode)
      in g\<lparr>http_requests_total := (http_requests_total g)(k := http_requests_total g k + 1)\<rparr>)"

text \<open>\<open>Math.round\<close> of the megabytes, and the threshold.\<close>

definition updateMemoryMetrics :: "nat \<Rightarrow> 's gateway \<Rightarrow> (nat \<times> nat) \<times> 's gateway" where
  "updateMemoryMetrics heapUsed g =
     (((heapUsed + 524288) div 1048576, 1024), g\<lparr>memory_usage_bytes := heapUsed\<rparr>)"

text \<open>\<open>intercept\<close>: the handler runs, then the counter; \<open>error.status || 500\<close>.\<close>

definition intercept :: "string \<Rightarrow> string \<Rightarrow> ('s gateway, 'a) op \<Rightarrow> ('s gateway, 'a) op" where
  "intercept url meth handler g =
     (case handler g of
        (Inr v, g') \<Rightarrow> (Inr v, incrementRequestCounter url meth 200 g')
      | (Inl e, g') \<Rightarrow>
          (Inl e, incrementRequestCounter url meth (case exn_status e of Some n \<Rightarrow> n | None \<Rightarrow> 500) g'))"

text \<open>
  A request to the proxy, at time \<open>now\<close> from the client at \<open>ip\<close>. The guards come before the interceptor; the routes
  carry no roles and \<open>JwtAuthGuard\<close> as their only guard beside the rate limiter's.
\<close>

definition on_db :: "('s, 'a) op \<Rightarrow> ('s gateway, 'a) op" where
  "on_db m g = (case m (gw_db g) of (r, s') \<Rightarrow> (r, g\<lparr>gw_db := s'\<rparr>))"

definition proxy_request ::
  "(User, 's) repo \<Rightarrow> 's passport \<Rightarrow> (guard list \<Rightarrow> guard list \<Rightarrow> guard list) \<Rightarrow> limiter \<Rightarrow> guard list \<Rightarrow> nat \<Rightarrow>
   string \<Rightarrow> string option \<Rightarrow> nat list \<Rightarrow> (message \<Rightarrow> jsval js) \<Rightarrow> string \<Rightarrow> proxy_route \<Rightarrow> jsval \<Rightarrow>
   ('s gateway, jsval) op" where
  "proxy_request UR PP order L gs now ip bearer answers answer url r data =
     (let limit = RateLimiter_canActivate L (r, ip, now);
          guards = on_db (run_guards UR PP now bearer None (order gs [JwtAuthGuard]) None)
      in bind_op
           (if rl_first L then bind_op limit (\<lambda>u. guards) else bind_op guards (\<lambda>user. bind_op limit (\<lambda>u. ret user)))
           (\<lambda>user. intercept url ''POST'' (proxy_handler answers answer r data)))"

section \<open>Monitoring\<close>

text \<open>\<open>this.routingService[name]\<close>\<close>

definition routing_method :: "(message \<Rightarrow> jsval js) \<Rightarrow> string \<Rightarrow> (string \<Rightarrow> jsval \<Rightarrow> ('s gateway, jsval) op) option" where
  "routing_method answer name =
     (if name = ''routeToNotificationService'' then Some (routeToNotificationService answer)
      else if name = ''routeToInventoryService'' then Some (routeToInventoryService answer)
      else if name = ''routeToAiMlService'' then Some (routeToAiMlService answer)
      else None)"

definition method_name :: "string \<Rightarrow> string" where
  "method_name service = ''routeTo'' @ map to_upper (take 1 service) @ drop 1 service @ ''Service''"

text \<open>One ping: a missing method is a \<open>TypeError\<close>, which is caught like an error of the client.\<close>

definition ping :: "(message \<Rightarrow> jsval js) \<Rightarrow> string \<Rightarrow> 's gateway \<Rightarrow> bool \<times> 's gateway" where
  "ping answer service g =
     (case routing_method answer (method_name service) of
        None \<Rightarrow> (False, g)
      | Some f \<Rightarrow> (case f ''health'' (JObj []) g of (Inr v, g') \<Rightarrow> (True, g') | (Inl e, g') \<Rightarrow> (False, g')))"

fun pings :: "(message \<Rightarrow> jsval js) \<Rightarrow> string list \<Rightarrow> 's gateway \<Rightarrow> bool list \<times> 's gateway" where
  "pings answer [] g = ([], g)"
| "pings answer (x # xs) g = (case ping answer x g of (b, g') \<Rightarrow> (case pings answer xs g' of (bs, g'') \<Rightarrow> (b # bs, g'')))"

definition checkMicroservices ::
  "(string \<Rightarrow> bool \<Rightarrow> (string \<times> jsval) list \<Rightarrow> jsval) \<Rightarrow> (message \<Rightarrow> jsval js) \<Rightarrow> 's gateway \<Rightarrow> jsval \<times> 's gateway" where
  "checkMicroservices getStatus answer g =
     (let services = [''notification'', ''inventory'', ''aiMl'']
      in case pings answer services g of
           (results, g') \<Rightarrow>
             let servicesStatus = zip services (map (\<lambda>b. JStr (if b then ''up'' else ''down'')) results);
                 isHealthy = list_all (\<lambda>(k, v). v = JStr ''up'') servicesStatus
             in (getStatus ''microservices'' isHealthy [(''services'', JObj servicesStatus)], g'))"

definition checkDatabase :: "(string \<Rightarrow> bool \<Rightarrow> (string \<times> jsval) list \<Rightarrow> jsval) \<Rightarrow> jsval" where
  "checkDatabase getStatus =
     getStatus ''database'' True [(''responseTime'', JNum (Fin 0)), (''connections'', JNum (Fin 1))]"

text \<open>\<open>Math.round((heapUsed / threshold) * 100)\<close>\<close>

definition checkMemoryUsage ::
  "(string \<Rightarrow> bool \<Rightarrow> (string \<times> jsval) list \<Rightarrow> jsval) \<Rightarrow> nat \<Rightarrow> 's gateway \<Rightarrow> jsval \<times> 's gateway" where
  "checkMemoryUsage getStatus heapUsed g =
     (case updateMemoryMetrics heapUsed g of
        ((used, threshold), g') \<Rightarrow>
          (getStatus ''memory'' (used < threshold)
             [(''heapUsedMB'', JNum (Fin (of_nat used))), (''thresholdMB'', JNum (Fin (of_nat threshold))),
              (''percentage'', JNum (Fin (of_nat ((2 * used * 100 + threshold) div (2 * threshold)))))], g'))"

section \<open>The migration of the names\<close>

text \<open>A row of \<open>users\<close>, as far as the migration reads it: \<open>firstName\<close> and \<open>lastName\<close> before, \<open>name\<close> after.\<close>

definition combine_names :: "string option \<times> string option \<Rightarrow> string option" where
  "combine_names r =
     (case r of
        (Some f, Some l) \<Rightarrow> Some (f @ '' '' @ l)
      | (Some f, None) \<Rightarrow> Some f
      | (None, Some l) \<Rightarrow> Some l
      | (None, None) \<Rightarrow> None)"

text \<open>\<open>SPLIT_PART(name, ' ', 1)\<close> and \<open>SUBSTRING(name FROM POSITION(' ' IN name) + 1)\<close>\<close>

definition split_name :: "string option \<Rightarrow> string option \<times> string option" where
  "split_name n =
     (case n of
        None \<Rightarrow> (None, None)
      | Some s \<Rightarrow>
          (Some (takeWhile (\<lambda>c. c \<noteq> CHR '' '') s),
           if CHR '' '' \<in> set s then Some (tl (dropWhile (\<lambda>c. c \<noteq> CHR '' '') s)) else None))"

definition migration_up :: "(string \<times> string option \<times> string option) list \<Rightarrow> (string \<times> string option) list" where
  "migration_up = map (\<lambda>(i, r). (i, combine_names r))"

definition migration_down :: "(string \<times> string option) list \<Rightarrow> (string \<times> string option \<times> string option) list" where
  "migration_down = map (\<lambda>(i, n). (i, split_name n))"

section \<open>Lemmas\<close>

lemma guard_of_proxy:
  assumes "passport_jwt_laws J PP"
  shows "run_guards UR PP now bearer None ([RolesGuard] @ [JwtAuthGuard]) None s =
    run_guards UR PP now bearer None [JwtAuthGuard] None s"
  by (simp add: RolesGuard_canActivate_def)

text \<open>A request passes the guard exactly with a verifying token of a stored and active user.\<close>

definition admitted :: "jwt \<Rightarrow> nat \<Rightarrow> string option \<Rightarrow> User list \<Rightarrow> bool" where
  "admitted J now bearer us \<longleftrightarrow> (\<exists>t p u. bearer = Some t \<and> jwt_verify J now t = Inr p \<and> u \<in> set us \<and>
     u_id u = Some (p_sub p) \<and> u_isActive u)"

lemma guard_admits:
  assumes db: "gateway_db UR RR B U R" and ok: "db_ok (U s) (R s)" and pp: "passport_jwt_laws J PP"
  shows "(if admitted J now bearer (U s) then (\<exists>u. run_guards UR PP now bearer None [JwtAuthGuard] None s = (Inr u, s))
    else (\<exists>e. run_guards UR PP now bearer None [JwtAuthGuard] None s = (Inl e, s)))"
proof -
  let ?g = "run_guards UR PP now bearer None [JwtAuthGuard] None s"
  have st: "snd ?g = s" by (rule run_guards_state [OF pp])
  show ?thesis
  proof (cases "fst ?g")
    case (Inl e)
    have "\<not> admitted J now bearer (U s)"
    proof
      assume "admitted J now bearer (U s)"
      then obtain t p u where "bearer = Some t" "jwt_verify J now t = Inr p" "u \<in> set (U s)" "u_id u = Some (p_sub p)" "u_isActive u"
        by (auto simp: admitted_def)
      then have "?g = (Inr (Some u), s)"
        using Jwt_stored_user [OF db ok pp, of now t p u] by (simp add: handleRequest_def ret_def)
      with Inl show False by simp
    qed
    with Inl st show ?thesis by (metis prod.collapse)
  next
    case (Inr v)
    then obtain me where me: "?g = (Inr (Some me), s)"
      using st by (auto simp: ret_def throw_def split: prod.splits sum.splits)
    then have "admitted J now bearer (U s)"
      using gateway_db.run_guards_user [OF db me pp ok] by (auto simp: admitted_def)
    with me show ?thesis by auto
  qed
qed

text \<open>What a request sends to the services.\<close>

fun proxy_messages :: "proxy_route \<Rightarrow> jsval \<Rightarrow> message list" where
  "proxy_messages Post_notifications d = [Send NOTIFICATION_SERVICE ''createNotification'' d]"
| "proxy_messages Post_inventory d = [Send INVENTORY_SERVICE ''updateInventory'' d]"
| "proxy_messages Post_predictions d = [Send AI_ML_SERVICE ''getPrediction'' d]"
| "proxy_messages Post_broadcast d =
     [Emit NOTIFICATION_SERVICE ''globalEvent'' d, Emit INVENTORY_SERVICE ''globalEvent'' d, Emit AI_ML_SERVICE ''globalEvent'' d]"

lemmas routing_defs = routeToNotificationService_def routeToInventoryService_def routeToAiMlService_def client_call_def

lemma proxy_handler_state: "snd (proxy_handler answers answer r data g) = g\<lparr>gw_sent := gw_sent g @ proxy_messages r data\<rparr>"
  by (cases r) (simp_all add: routing_defs broadcastEvent_def)

lemma proxy_handler_result:
  assumes "set answers = {..<3}"
  shows "isl (fst (proxy_handler answers answer r data g)) \<longleftrightarrow> (\<exists>m \<in> set (proxy_messages r data). isl (answer m))"
proof (cases "r = Post_broadcast")
  case True
  let ?rs = "map answer (proxy_messages r data)"
  have n: "length ?rs = 3" using True by simp
  have "(\<exists>vs. promise_all answers ?rs = Inr vs) \<longleftrightarrow> (\<forall>m \<in> set (proxy_messages r data). \<not> isl (answer m))"
  proof
    assume "\<exists>vs. promise_all answers ?rs = Inr vs"
    then obtain vs where "?rs = map Inr vs" using promise_all_spec [of answers ?rs] assms n by auto
    then show "\<forall>m \<in> set (proxy_messages r data). \<not> isl (answer m)"
      by (metis (no_types, lifting) ex_map_conv image_eqI image_set sum.disc(2))
  next
    assume "\<forall>m \<in> set (proxy_messages r data). \<not> isl (answer m)"
    then have "?rs = map Inr (map (\<lambda>m. projr (answer m)) (proxy_messages r data))" by auto
    then show "\<exists>vs. promise_all answers ?rs = Inr vs" using promise_all_spec [of answers ?rs] assms n by metis
  qed
  moreover have "fst (proxy_handler answers answer r data g) = js_bind (promise_all answers ?rs) (\<lambda>vs. Inr (JArr vs []))"
    using True by (simp add: broadcastEvent_def Let_def)
  ultimately show ?thesis by (cases "promise_all answers ?rs") (auto simp: js_bind_def)
qed (cases r; simp add: routing_defs)

section \<open>Properties\<close>

text \<open>
  C4: A request to the proxy. Without a verifying token of a stored and active user it is refused. With one it
  is refused when the rate limiter does not allow it, with status 429 and the message of its route.
  A refused request reaches no service, does not touch the database and is not counted. Any other sends
  exactly the messages of its route, with the data of the request; it succeeds exactly when every service that was
  called answers; it is counted once, as 200 or with the status of the error, 500 by default; the
  database is not touched.
\<close>

theorem proxy_request_spec:
  assumes "gateway_db UR RR B U R" "db_ok (U (gw_db g)) (R (gw_db g))" "passport_jwt_laws J PP"
    and "\<And>c. order app_guards c = app_guards @ c" "set answers = {..<3}"
  shows "case proxy_request UR PP order L app_guards now ip bearer answers answer url r data g of (result, g') \<Rightarrow>
     let allowed = rl_allows L (route_limit r) (rl_hits g) (r, ip, now);
         verified = admitted J now bearer (U (gw_db g))
     in if verified \<and> allowed
     then (isl result \<longleftrightarrow> (\<exists>m \<in> set (proxy_messages r data). isl (answer m))) \<and>
       gw_sent g' = gw_sent g @ proxy_messages r data \<and> gw_db g' = gw_db g \<and>
       (\<exists>n. (case result of Inr v \<Rightarrow> n = 200 | Inl e \<Rightarrow> exn_status e = Some n \<or> exn_status e = None \<and> n = 500) \<and>
         http_requests_total g' = (http_requests_total g)((url, ''POST'', index_string n) :=
           http_requests_total g (url, ''POST'', index_string n) + 1))
     else isl result \<and> (\<exists>hits. g' = g\<lparr>rl_hits := hits\<rparr>) \<and>
       (verified \<longrightarrow> result = Inl (TooManyRequestsException (errorMessage (route_limit r))))"
proof -
  let ?run = "run_guards UR PP now bearer None (order app_guards [JwtAuthGuard]) None (gw_db g)"
  let ?h = "(r, ip, now)"
  let ?g = "g\<lparr>rl_hits := rl_hits g @ [?h]\<rparr>"
  let ?v = "admitted J now bearer (U (gw_db g))" and ?a = "rl_allows L (route_limit r) (rl_hits g) ?h"
  have run: "?run = run_guards UR PP now bearer None [JwtAuthGuard] None (gw_db g)"
    using guard_of_proxy [OF assms(3)] assms(4) [of "[JwtAuthGuard]"] by (simp add: app_guards_def)
  note guard = guard_admits [OF assms(1-3), of now bearer, folded run]
  note req = proxy_request_def RateLimiter_canActivate_def bind_op_def on_db_def ret_def Let_def
  show ?thesis
  proof (cases "?v \<and> ?a")
    case True
    with guard obtain u where "?run = (Inr u, gw_db g)" by auto
    with True have req: "proxy_request UR PP order L app_guards now ip bearer answers answer url r data g =
        intercept url ''POST'' (proxy_handler answers answer r data) ?g"
      by (simp add: req)
    obtain res where h: "proxy_handler answers answer r data ?g = (res, ?g\<lparr>gw_sent := gw_sent g @ proxy_messages r data\<rparr>)"
      using proxy_handler_state [of answers answer r data ?g] by (cases "proxy_handler answers answer r data ?g") simp
    with proxy_handler_result [OF assms(5), of answer r data ?g]
    have isl: "isl res \<longleftrightarrow> (\<exists>m \<in> set (proxy_messages r data). isl (answer m))" by simp
    show ?thesis
      unfolding req intercept_def h using True isl
      by (cases res) (auto simp: incrementRequestCounter_def Let_def split: option.split)
  next
    case False
    show ?thesis
    proof (cases ?v)
      case True
      with guard obtain u where "?run = (Inr u, gw_db g)" by auto
      with True False show ?thesis by (auto simp: req)
    next
      case nv: False
      with guard obtain e where "?run = (Inl e, gw_db g)" by auto
      moreover have "\<exists>hits. g = g\<lparr>rl_hits := hits\<rparr>" by (rule exI [of _ "rl_hits g"]) simp
      ultimately show ?thesis using nv by (auto simp: req)
    qed
  qed
qed

definition demo_gateway :: "'s \<Rightarrow> 's gateway" where
  "demo_gateway s = \<lparr>gw_db = s, gw_sent = [], rl_hits = [], http_requests_total = (\<lambda>k. 0), memory_usage_bytes = 0\<rparr>"

text \<open>A limiter that counts the requests of the client on the route within the duration.\<close>

definition window_limiter :: limiter where
  "window_limiter = \<lparr>rl_allows = (\<lambda>o' hits (r, ip, now).
       length (filter (\<lambda>(r', ip', t). r' = r \<and> ip' = ip \<and> now < t + duration o') hits) < points o'),
     rl_first = True\<rparr>"

theorem proxy_request_spec_witness:
  "gw_sent (snd (proxy_request (pg_users plain_bcrypt) (demo_passport demo_jwt) (@) window_limiter app_guards 5 ''::1'' (Some demo_token) [2, 0, 1]
     (\<lambda>m. Inr JNull) ''/api/broadcast'' Post_broadcast JNull (demo_gateway demo_tables))) =
   [Emit NOTIFICATION_SERVICE ''globalEvent'' JNull, Emit INVENTORY_SERVICE ''globalEvent'' JNull,
    Emit AI_ML_SERVICE ''globalEvent'' JNull] \<and>
   fst (proxy_request (pg_users plain_bcrypt) (demo_passport demo_jwt) (@) window_limiter app_guards 5 ''::1'' (Some demo_token) [2, 0, 1]
     (\<lambda>m. Inr JNull) ''/api/predictions'' Post_predictions JNull
     ((demo_gateway demo_tables)\<lparr>rl_hits := replicate 5 (Post_predictions, ''::1'', 4)\<rparr>)) =
   Inl (TooManyRequestsException ''Too many prediction requests, please try again later'')"
proof -
  have adm: "admitted demo_jwt 5 (Some demo_token) (pg_urows demo_tables)"
    using demo_verifies demo_active demo_user(1,2) by (fastforce simp: admitted_def)
  have ans: "set [2, 0, 1] = {..<3::nat}" by auto
  note spec = proxy_request_spec [OF pg.gateway_db_axioms [of plain_bcrypt] _ demo_passport_laws _ ans, where J = demo_jwt
      and order = "(@)" and now = 5 and ip = "''::1''" and L = window_limiter
      and bearer = "Some demo_token" and answer = "\<lambda>m. Inr JNull" and data = JNull]
  let ?hits = "replicate 5 (Post_predictions, ''::1'', 4)"
  have blocked: "\<not> rl_allows window_limiter (route_limit Post_predictions) ?hits (Post_predictions, ''::1'', 5)"
    by (simp add: window_limiter_def)
  have allowed: "rl_allows window_limiter (route_limit Post_broadcast) [] (Post_broadcast, ''::1'', 5)"
    by (simp add: window_limiter_def)
  have "fst (proxy_request (pg_users plain_bcrypt) (demo_passport demo_jwt) (@) window_limiter app_guards 5 ''::1'' (Some demo_token) [2, 0, 1]
     (\<lambda>m. Inr JNull) ''/api/predictions'' Post_predictions JNull ((demo_gateway demo_tables)\<lparr>rl_hits := ?hits\<rparr>)) =
     Inl (TooManyRequestsException ''Too many prediction requests, please try again later'')"
    using spec [where g = "(demo_gateway demo_tables)\<lparr>rl_hits := ?hits\<rparr>" and url = "''/api/predictions''" and r = Post_predictions]
      demo_ok adm blocked
    by (simp add: demo_gateway_def Let_def split: prod.splits)
  then show ?thesis
    using spec [where g = "demo_gateway demo_tables" and url = "''/api/broadcast''" and r = Post_broadcast] demo_ok adm allowed
    by (simp add: demo_gateway_def Let_def split: prod.splits)
qed

lemma method_names:
  "method_name ''notification'' = ''routeToNotificationService''" "method_name ''inventory'' = ''routeToInventoryService''"
  "method_name ''aiMl'' = ''routeToAiMlService''"
  by code_simp+

lemma ping_answer:
  "ping answer ''notification'' g =
     (\<not> isl (answer (Send NOTIFICATION_SERVICE ''health'' (JObj []))), g\<lparr>gw_sent := gw_sent g @ [Send NOTIFICATION_SERVICE ''health'' (JObj [])]\<rparr>)"
  "ping answer ''inventory'' g =
     (\<not> isl (answer (Send INVENTORY_SERVICE ''health'' (JObj []))), g\<lparr>gw_sent := gw_sent g @ [Send INVENTORY_SERVICE ''health'' (JObj [])]\<rparr>)"
  "ping answer ''aiMl'' g =
     (\<not> isl (answer (Send AI_ML_SERVICE ''health'' (JObj []))), g\<lparr>gw_sent := gw_sent g @ [Send AI_ML_SERVICE ''health'' (JObj [])]\<rparr>)"
  by (simp_all add: ping_def method_names routing_method_def routing_defs split: sum.split)

text \<open>
  The health of the microservices: each of the three is asked once, is reported up exactly when it answers,
  and the whole is healthy exactly when all three answer.
\<close>

theorem microservices_health_spec:
  "let asked = map (\<lambda>t. Send t ''health'' (JObj [])) [NOTIFICATION_SERVICE, INVENTORY_SERVICE, AI_ML_SERVICE];
       state = (\<lambda>m. JStr (if isl (answer m) then ''down'' else ''up''))
   in checkMicroservices getStatus answer g =
     (getStatus ''microservices'' (\<forall>m \<in> set asked. \<not> isl (answer m))
        [(''services'', JObj (zip [''notification'', ''inventory'', ''aiMl''] (map state asked)))],
      g\<lparr>gw_sent := gw_sent g @ asked\<rparr>)"
  by (simp add: checkMicroservices_def ping_answer Let_def)

text \<open>
  The memory check: healthy exactly below 1023.5 megabytes, with a percentage of at most 100; the gauge
  holds the bytes in use.
\<close>

theorem memory_check_bounds:
  "\<exists>used pct. checkMemoryUsage getStatus heap g =
     (getStatus ''memory'' (2 * heap < 2047 * 1048576)
        [(''heapUsedMB'', JNum (Fin (of_nat used))), (''thresholdMB'', JNum (Fin 1024)),
         (''percentage'', JNum (Fin (of_nat pct)))],
      g\<lparr>memory_usage_bytes := heap\<rparr>) \<and>
     (2 * heap < 2047 * 1048576 \<longrightarrow> pct \<le> 100) \<and> \<bar>int heap - 1048576 * int used\<bar> \<le> 524288"
proof -
  let ?used = "(heap + 524288) div 1048576"
  have "?used < 1024 \<longleftrightarrow> 2 * heap < 2047 * 1048576" by linarith
  moreover have "?used < 1024 \<Longrightarrow> (2 * ?used * 100 + 1024) div (2 * 1024) \<le> 100"
    using div_le_mono [of "2 * ?used * 100 + 1024" 205624 2048] by simp
  moreover have "\<bar>int heap - 1048576 * int ?used\<bar> \<le> 524288" by linarith
  ultimately show ?thesis
    unfolding checkMemoryUsage_def updateMemoryMetrics_def by (intro exI conjI) auto
qed

lemma split_name_space:
  "CHR '' '' \<notin> set p \<Longrightarrow> split_name (Some (p @ CHR '' '' # q)) = (Some p, Some q)"
  by (induction p) (auto simp: split_name_def)

lemma split_name_no_space: "CHR '' '' \<notin> set p \<Longrightarrow> split_name (Some p) = (Some p, None)"
  by (induction p) (auto simp: split_name_def)

lemma first_part_no_space: "fst (split_name (Some s)) = Some p \<Longrightarrow> CHR '' '' \<notin> set p"
  by (auto simp: split_name_def dest: set_takeWhileD)

text \<open>
  C25: Undoing the migration of the names and doing it again gives every name back. Doing it and undoing it
  gives first and last name back exactly when there is no last name without a first name and the
  first name has no space.
\<close>

theorem names_roundtrip:
  "combine_names (split_name n) = n \<and>
   (split_name (combine_names (f, l)) = (f, l) \<longleftrightarrow>
     \<not> (f = None \<and> l \<noteq> None) \<and> (case f of None \<Rightarrow> True | Some x \<Rightarrow> CHR '' '' \<notin> set x))"
proof
  show "combine_names (split_name n) = n"
  proof (cases n)
    case (Some s)
    show ?thesis
    proof (cases "CHR '' '' \<in> set s")
      case True
      then obtain p q where "s = p @ CHR '' '' # q" "CHR '' '' \<notin> set p" using split_list_first by fastforce
      with Some show ?thesis by (simp add: split_name_space) (simp add: combine_names_def)
    next
      case False
      with Some show ?thesis by (simp add: split_name_no_space) (simp add: combine_names_def)
    qed
  qed (simp add: combine_names_def split_name_def)
  show "split_name (combine_names (f, l)) = (f, l) \<longleftrightarrow>
     \<not> (f = None \<and> l \<noteq> None) \<and> (case f of None \<Rightarrow> True | Some x \<Rightarrow> CHR '' '' \<notin> set x)"
  proof (cases f)
    case None
    then show ?thesis by (cases l) (simp_all add: combine_names_def, simp_all add: split_name_def)
  next
    case (Some x)
    show ?thesis
    proof (cases "CHR '' '' \<in> set x")
      case True
      have "split_name (combine_names (f, l)) \<noteq> (f, l)"
      proof
        assume "split_name (combine_names (f, l)) = (f, l)"
        moreover obtain s where "combine_names (f, l) = Some s" using Some by (cases l) (simp_all add: combine_names_def)
        ultimately show False using first_part_no_space [of s x] True Some by simp
      qed
      with True Some show ?thesis by simp
    next
      case False
      then show ?thesis
        using Some by (cases l) (simp_all add: combine_names_def split_name_space split_name_no_space)
    qed
  qed
qed

end
