(* ===== verification/Sankey_Layout.thy ===== *)
theory Sankey_Layout
  imports JS_Value
begin

text \<open>
  The layout of the Sankey diagram, \<open>drawSankeyDiagram\<close> of \<open>components/builders/D3Chart.tsx\<close>: the rows become
  nodes and links, the nodes are put into layers by following the links, and every node gets its
  rectangle. Sets and maps of the source keep the order of insertion, here as lists. Two cells name the same
  node when they are equal values; the keys of the source's map are compared by identity when they are objects, so
  the model is of diagrams whose source and target cells are not objects or arrays (\<open>NaN\<close> cells are one node in both).
\<close>

section \<open>Nodes and links\<close>

definition set_add :: "'a list \<Rightarrow> 'a \<Rightarrow> 'a list" where
  "set_add xs x = (if x \<in> set xs then xs else xs @ [x])"

text \<open>The position of a name in \<open>nodeMap\<close>.\<close>

definition position_of :: "'a list \<Rightarrow> 'a \<Rightarrow> nat" where
  "position_of xs x = length (takeWhile (\<lambda>y. y \<noteq> x) xs)"

record SankeyLink =
  lk_source :: nat
  lk_target :: nat
  lk_value :: jsnum

definition node_names :: "string \<Rightarrow> string \<Rightarrow> jsval list \<Rightarrow> jsval list js" where
  "node_names sourceField targetField rows =
     js_reduce (\<lambda>names d. js_bind (js_get d sourceField) (\<lambda>s. js_bind (js_get d targetField) (\<lambda>t.
       Inr (set_add (set_add names s) t)))) rows []"

text \<open>\<open>+d[valueField] || 1\<close>\<close>

definition link_value :: "js_env \<Rightarrow> string \<Rightarrow> jsval \<Rightarrow> jsnum js" where
  "link_value E valueField d =
     js_bind (js_get d valueField) (\<lambda>v. js_bind (js_toNumber E v) (\<lambda>n.
       Inr (if n = NaN \<or> n = Fin 0 then Fin 1 else n)))"

definition row_link :: "js_env \<Rightarrow> string \<Rightarrow> string \<Rightarrow> string \<Rightarrow> jsval list \<Rightarrow> jsval \<Rightarrow> SankeyLink js" where
  "row_link E sourceField targetField valueField names d =
     js_bind (js_get d sourceField) (\<lambda>s. js_bind (js_get d targetField) (\<lambda>t. js_bind (link_value E valueField d) (\<lambda>v.
       Inr \<lparr>lk_source = position_of names s, lk_target = position_of names t, lk_value = v\<rparr>)))"

definition sankey_data ::
  "js_env \<Rightarrow> string \<Rightarrow> string \<Rightarrow> string \<Rightarrow> jsval list \<Rightarrow> (jsval list \<times> SankeyLink list) js" where
  "sankey_data E sourceField targetField valueField rows =
     js_bind (node_names sourceField targetField rows) (\<lambda>names.
       js_bind (js_map (row_link E sourceField targetField valueField names) rows) (\<lambda>links. Inr (names, links)))"

section \<open>Layers\<close>

record layering =
  nodeLayer :: "nat \<rightharpoonup> nat"
  processed :: "nat list"
  layerSizes :: "nat list"
  layerCount :: nat
  currentLayer :: nat

text \<open>The nodes of a layer are entered into \<open>nodeLayer\<close> and \<open>processed\<close>.\<close>

definition assign_layer :: "nat \<Rightarrow> nat list \<Rightarrow> layering \<Rightarrow> layering" where
  "assign_layer k ns st =
     st\<lparr>nodeLayer := (\<lambda>i. if i \<in> set ns then Some k else nodeLayer st i), processed := processed st @ ns,
        layerSizes := layerSizes st @ [length ns], layerCount := layerCount st + 1\<rparr>"

definition no_layers :: layering where
  "no_layers = \<lparr>nodeLayer = Map.empty, processed = [], layerSizes = [], layerCount = 0, currentLayer = 0\<rparr>"

definition source_nodes :: "nat \<Rightarrow> SankeyLink list \<Rightarrow> nat list" where
  "source_nodes n links = filter (\<lambda>i. i \<notin> lk_target ` set links) [0..<n]"

definition first_layer :: "nat \<Rightarrow> SankeyLink list \<Rightarrow> layering" where
  "first_layer n links = (let ns = source_nodes n links in if ns = [] then no_layers else assign_layer 0 ns no_layers)"

text \<open>The targets of the processed nodes that are not processed themselves, in the order they are found.\<close>

definition nextLayerNodes :: "SankeyLink list \<Rightarrow> nat list \<Rightarrow> nat list" where
  "nextLayerNodes links done =
     fold (\<lambda>t ns. set_add ns t)
       (concat (map (\<lambda>s. map lk_target (filter (\<lambda>l. lk_source l = s \<and> lk_target l \<notin> set done) links)) done)) []"

definition unassigned :: "nat \<Rightarrow> nat list \<Rightarrow> nat list" where
  "unassigned n done = filter (\<lambda>i. i \<notin> set done) [0..<n]"

definition layer_step :: "nat \<Rightarrow> SankeyLink list \<Rightarrow> layering \<Rightarrow> layering" where
  "layer_step n links st =
     (let st = st\<lparr>currentLayer := currentLayer st + 1\<rparr>;
          next = nextLayerNodes links (processed st)
      in if next \<noteq> [] then assign_layer (currentLayer st) next st
         else let rest = unassigned n (processed st)
              in if rest \<noteq> [] then assign_layer (currentLayer st) rest st else st)"

lemma unassigned_remaining:
  assumes "length done < n"
  shows "unassigned n done \<noteq> []"
proof
  assume "unassigned n done = []"
  then have "{..<n} \<subseteq> set done" by (auto simp: unassigned_def filter_empty_conv)
  then have "n \<le> card (set done)" by (metis card_lessThan card_mono finite_set)
  with assms card_length [of "done"] show False by linarith
qed

function layer_loop :: "nat \<Rightarrow> SankeyLink list \<Rightarrow> layering \<Rightarrow> layering" where
  "layer_loop n links st =
     (if 0 < int n - int (length (processed st)) then layer_loop n links (layer_step n links st) else st)"
  by auto

termination
proof (relation "measure (\<lambda>(n, links, st). n - length (processed st))")
  fix n links and st :: layering
  assume a: "0 < int n - int (length (processed st))"
  then have "length (processed st) < length (processed (layer_step n links st))"
    using unassigned_remaining [of "processed st" n] by (simp add: layer_step_def assign_layer_def Let_def)
  with a show "((n, links, layer_step n links st), n, links, st) \<in> measure (\<lambda>(n, links, st). n - length (processed st))"
    by auto
qed simp

declare layer_loop.simps [simp del]

definition sankey_layers :: "nat \<Rightarrow> SankeyLink list \<Rightarrow> layering" where
  "sankey_layers n links = layer_loop n links (first_layer n links)"

section \<open>Positions\<close>

record SankeyNode =
  x0 :: jsnum
  x1 :: jsnum
  y0 :: jsnum
  y1 :: jsnum

definition layer_of :: "layering \<Rightarrow> nat \<Rightarrow> nat" where
  "layer_of st i = (case nodeLayer st i of None \<Rightarrow> 0 | Some l \<Rightarrow> l)"

definition posInLayer :: "layering \<Rightarrow> nat \<Rightarrow> nat" where
  "posInLayer st i = length (filter (\<lambda>j. layer_of st j = layer_of st i) [0..<i])"

text \<open>\<open>layerSizes[layer]\<close>: undefined outside the array, which every operator turns into \<open>NaN\<close>.\<close>

definition nodesInThisLayer :: "layering \<Rightarrow> nat \<Rightarrow> jsnum" where
  "nodesInThisLayer st i =
     (if layer_of st i < length (layerSizes st) then Fin (of_nat (layerSizes st ! layer_of st i)) else NaN)"

definition node_position :: "jsnum \<Rightarrow> jsnum \<Rightarrow> layering \<Rightarrow> nat \<Rightarrow> SankeyNode" where
  "node_position innerWidth innerHeight st i =
     (let layerWidth = num_div innerWidth (Fin (of_nat (max 1 (layerCount st))));
          count = nodesInThisLayer st i;
          layerHeight = num_div innerHeight count;
          verticalOffset = num_div (num_sub innerHeight (num_mul count layerHeight)) (Fin 2);
          left = num_mul (Fin (of_nat (layer_of st i))) layerWidth;
          top = num_add (num_mul (Fin (of_nat (posInLayer st i))) layerHeight) verticalOffset
      in \<lparr>x0 = left, x1 = num_add left (Fin 50), y0 = top, y1 = num_sub (num_add top layerHeight) (Fin 20)\<rparr>)"

definition sankey_nodes :: "jsnum \<Rightarrow> jsnum \<Rightarrow> nat \<Rightarrow> SankeyLink list \<Rightarrow> SankeyNode list" where
  "sankey_nodes width height n links =
     (let innerWidth = num_sub (num_sub width (Fin 80)) (Fin 80);
          innerHeight = num_sub (num_sub height (Fin 20)) (Fin 20);
          st = sankey_layers n links
      in map (node_position innerWidth innerHeight st) [0..<n])"

text \<open>\<open>minWidth + (d.value / maxValue) * (maxWidth - minWidth)\<close>\<close>

definition link_width :: "SankeyLink list \<Rightarrow> SankeyLink \<Rightarrow> jsnum" where
  "link_width links d =
     (let maxValue = fold (\<lambda>l m. Math_max m (lk_value l)) links NegInf
      in num_add (Fin 2) (num_mul (num_div (lk_value d) maxValue) (Fin 18)))"

section \<open>Lemmas\<close>

lemma set_add_set [simp]: "set (set_add xs x) = insert x (set xs)"
  by (auto simp: set_add_def)

lemma set_add_distinct [simp]: "distinct (set_add xs x) \<longleftrightarrow> distinct xs"
  by (auto simp: set_add_def)

lemma fold_set_add:
  "set (fold (\<lambda>t ns. set_add ns t) ts ns) = set ns \<union> set ts"
  "distinct (fold (\<lambda>t ns. set_add ns t) ts ns) \<longleftrightarrow> distinct ns"
  by (induction ts arbitrary: ns) auto

lemma nextLayerNodes_set:
  "set (nextLayerNodes links done) =
     {t. t \<notin> set done \<and> (\<exists>l \<in> set links. lk_source l \<in> set done \<and> lk_target l = t)}"
  by (auto simp: nextLayerNodes_def fold_set_add)

lemma nextLayerNodes_distinct: "distinct (nextLayerNodes links done)"
  by (simp add: nextLayerNodes_def fold_set_add)

lemma unassigned_set: "set (unassigned n done) = {..<n} - set done"
  by (auto simp: unassigned_def)

lemma unassigned_distinct: "distinct (unassigned n done)"
  by (simp add: unassigned_def)

lemma position_of_less: "x \<in> set xs \<Longrightarrow> position_of xs x < length xs"
  by (induction xs) (auto simp: position_of_def)

lemma position_of_nth: "x \<in> set xs \<Longrightarrow> xs ! position_of xs x = x"
  by (induction xs) (auto simp: position_of_def)

text \<open>Every link joins two nodes.\<close>

definition links_ok :: "nat \<Rightarrow> SankeyLink list \<Rightarrow> bool" where
  "links_ok n links \<longleftrightarrow> (\<forall>l \<in> set links. lk_source l < n \<and> lk_target l < n)"

lemma js_reduce_names:
  assumes "js_reduce (\<lambda>names d. js_bind (js_get d sf) (\<lambda>s. js_bind (js_get d tf) (\<lambda>t.
       Inr (set_add (set_add names s) t)))) rows ns = Inr names" "distinct ns"
  shows "distinct names \<and> set ns \<subseteq> set names \<and>
    (\<forall>d \<in> set rows. \<exists>s t. js_get d sf = Inr s \<and> js_get d tf = Inr t \<and> s \<in> set names \<and> t \<in> set names)"
  using assms
proof (induction rows arbitrary: ns)
  case (Cons d rows)
  then obtain s t where st: "js_get d sf = Inr s" "js_get d tf = Inr t" by (auto simp: js_bind_eq_Inr)
  with Cons.prems have "js_reduce (\<lambda>names d. js_bind (js_get d sf) (\<lambda>s. js_bind (js_get d tf) (\<lambda>t.
       Inr (set_add (set_add names s) t)))) rows (set_add (set_add ns s) t) = Inr names" by simp
  from Cons.IH [OF this] Cons.prems(2) st show ?case by auto
qed simp

lemma js_map_Inr_set: "js_map f xs = Inr ys \<Longrightarrow> y \<in> set ys \<Longrightarrow> \<exists>x \<in> set xs. f x = Inr y"
  by (induction xs arbitrary: ys) (auto simp: js_bind_eq_Inr)

lemma sankey_data_ok:
  assumes "sankey_data E sf tf vf rows = Inr (names, links)"
  shows "distinct names" "links_ok (length names) links"
proof -
  from assms have n: "node_names sf tf rows = Inr names" and l: "js_map (row_link E sf tf vf names) rows = Inr links"
    by (auto simp: sankey_data_def js_bind_eq_Inr)
  from js_reduce_names [OF n [unfolded node_names_def]]
  have names: "distinct names" "\<forall>d \<in> set rows. \<exists>s t. js_get d sf = Inr s \<and> js_get d tf = Inr t \<and> s \<in> set names \<and> t \<in> set names"
    by auto
  then show "distinct names" by simp
  show "links_ok (length names) links"
    unfolding links_ok_def
  proof
    fix k assume "k \<in> set links"
    then obtain d where d: "d \<in> set rows" "row_link E sf tf vf names d = Inr k" using js_map_Inr_set [OF l] by blast
    with names(2) show "lk_source k < length names \<and> lk_target k < length names"
      by (auto simp: row_link_def js_bind_eq_Inr position_of_less)
  qed
qed

text \<open>
  What the loop keeps. Nodes and layers: each processed node has one layer, and the size of a layer is the
  number of its nodes.
\<close>

definition sized :: "nat \<Rightarrow> layering \<Rightarrow> bool" where
  "sized n st \<longleftrightarrow> distinct (processed st) \<and> set (processed st) \<subseteq> {..<n} \<and> dom (nodeLayer st) = set (processed st) \<and>
     layerCount st = Suc (currentLayer st) \<and> length (layerSizes st) = layerCount st \<and>
     (\<forall>i l. nodeLayer st i = Some l \<longrightarrow> l \<le> currentLayer st) \<and>
     (\<forall>l \<le> currentLayer st. layerSizes st ! l = card {i. nodeLayer st i = Some l})"

text \<open>Links: from a finished layer they lead at most one layer further, and a node is where it is for a reason.\<close>

definition forward :: "SankeyLink list \<Rightarrow> layering \<Rightarrow> bool" where
  "forward links st \<longleftrightarrow>
     (\<forall>k \<in> set links. \<forall>a. nodeLayer st (lk_source k) = Some a \<and> a < currentLayer st \<longrightarrow>
        (\<exists>b. nodeLayer st (lk_target k) = Some b \<and> b \<le> Suc a))"

definition reasoned :: "SankeyLink list \<Rightarrow> layering \<Rightarrow> bool" where
  "reasoned links st \<longleftrightarrow>
     (\<forall>i. nodeLayer st i = Some 0 \<longrightarrow> i \<notin> lk_target ` set links) \<and>
     (\<forall>i a. nodeLayer st i = Some (Suc a) \<longrightarrow>
        (\<exists>k \<in> set links. lk_target k = i \<and> nodeLayer st (lk_source k) = Some a) \<or>
        (\<forall>k \<in> set links. lk_target k = i \<longrightarrow> nodeLayer st (lk_source k) = Some (Suc a)))"

text \<open>The next layer of a state.\<close>

abbreviation add_layer :: "nat list \<Rightarrow> layering \<Rightarrow> layering" where
  "add_layer ns st \<equiv> assign_layer (Suc (currentLayer st)) ns (st\<lparr>currentLayer := Suc (currentLayer st)\<rparr>)"

lemma add_layer_fields [simp]:
  "nodeLayer (add_layer ns st) i = (if i \<in> set ns then Some (Suc (currentLayer st)) else nodeLayer st i)"
  "processed (add_layer ns st) = processed st @ ns" "layerSizes (add_layer ns st) = layerSizes st @ [length ns]"
  "layerCount (add_layer ns st) = Suc (layerCount st)" "currentLayer (add_layer ns st) = Suc (currentLayer st)"
  by (simp_all add: assign_layer_def)

lemma sizedD:
  assumes "sized n st"
  shows "nodeLayer st i = None \<longleftrightarrow> i \<notin> set (processed st)" "nodeLayer st i = Some a \<Longrightarrow> a \<le> currentLayer st"
  using assms by (auto simp: sized_def)

lemma add_layer_keeps:
  assumes "sized n st" "set ns \<inter> set (processed st) = {}" "nodeLayer st i = Some a"
  shows "nodeLayer (add_layer ns st) i = Some a"
  using assms sizedD(1) [OF assms(1), of i] by auto

lemma assign_layer_sized:
  assumes st: "sized n st" and ns: "distinct ns" "set ns \<subseteq> {..<n}" "set ns \<inter> set (processed st) = {}"
  shows "sized n (add_layer ns st)"
proof -
  have fresh: "nodeLayer st i = None" if "i \<in> set ns" for i using that ns(3) sizedD(1) [OF st, of i] by auto
  have "{i. nodeLayer (add_layer ns st) i = Some (Suc (currentLayer st))} = set ns"
    using sizedD(2) [OF st] by force
  moreover have "{i. nodeLayer (add_layer ns st) i = Some l} = {i. nodeLayer st i = Some l}" if "l \<le> currentLayer st" for l
    using that fresh by (auto split: if_splits)
  ultimately have sizes: "layerSizes (add_layer ns st) ! l = card {i. nodeLayer (add_layer ns st) i = Some l}"
    if "l \<le> Suc (currentLayer st)" for l
    using that st ns(1)
    by (cases "l = Suc (currentLayer st)") (simp_all only: add_layer_fields sized_def, auto simp: nth_append distinct_card)
  have "dom (nodeLayer (add_layer ns st)) = set (processed (add_layer ns st))" using st by (auto simp: sized_def dom_def)
  moreover have "nodeLayer (add_layer ns st) i = Some l \<Longrightarrow> l \<le> currentLayer (add_layer ns st)" for i l
    using sizedD(2) [OF st, of i l] by (auto split: if_splits)
  moreover have "distinct (processed (add_layer ns st))" "set (processed (add_layer ns st)) \<subseteq> {..<n}"
    "layerCount (add_layer ns st) = Suc (currentLayer (add_layer ns st))" "length (layerSizes (add_layer ns st)) = layerCount (add_layer ns st)"
    using st ns by (auto simp: sized_def)
  ultimately show ?thesis
    unfolding sized_def [of n "add_layer ns st"] using sizes by (simp del: add_layer_fields(1-4))
qed

lemma add_layer_forward:
  assumes st: "sized n st" "forward links st" and ns: "set ns \<inter> set (processed st) = {}"
    and all: "set (nextLayerNodes links (processed st)) \<subseteq> set ns"
  shows "forward links (add_layer ns st)"
  unfolding forward_def
proof (intro ballI allI impI, elim conjE)
  fix k a
  assume k: "k \<in> set links" and a: "nodeLayer (add_layer ns st) (lk_source k) = Some a" "a < currentLayer (add_layer ns st)"
  then have s: "nodeLayer st (lk_source k) = Some a" by (auto split: if_splits)
  note keep = add_layer_keeps [OF st(1) ns, of "lk_target k"]
  consider "a < currentLayer st" | "a = currentLayer st" using a(2) by force
  then show "\<exists>b. nodeLayer (add_layer ns st) (lk_target k) = Some b \<and> b \<le> Suc a"
  proof cases
    case 1
    with st(2) k s keep show ?thesis unfolding forward_def by blast
  next
    case 2
    show ?thesis
    proof (cases "nodeLayer st (lk_target k)")
      case None
      have "lk_source k \<in> set (processed st)" using s sizedD(1) [OF st(1)] by force
      with None k have "lk_target k \<in> set (nextLayerNodes links (processed st))"
        using sizedD(1) [OF st(1)] by (auto simp: nextLayerNodes_set)
      with all 2 show ?thesis by auto
    next
      case (Some b)
      with keep sizedD(2) [OF st(1) Some] 2 show ?thesis by (metis le_SucI)
    qed
  qed
qed

text \<open>A new layer holds either the nodes that the links lead to or, when there are none, all the others.\<close>

definition next_or_rest :: "nat \<Rightarrow> SankeyLink list \<Rightarrow> nat list \<Rightarrow> nat list \<Rightarrow> bool" where
  "next_or_rest n links done ns \<longleftrightarrow> set ns = set (nextLayerNodes links done) \<or>
     set ns = {..<n} - set done \<and> nextLayerNodes links done = []"

lemma new_node_reason:
  assumes st: "sized n st" "forward links st" and ok: "links_ok n links"
    and why: "next_or_rest n links (processed st) ns" and i: "i \<in> set ns"
  shows "(\<exists>k \<in> set links. lk_target k = i \<and> nodeLayer st (lk_source k) = Some (currentLayer st)) \<or>
    (\<forall>k \<in> set links. lk_target k = i \<longrightarrow> lk_source k \<in> set ns)"
proof (cases "set ns = set (nextLayerNodes links (processed st))")
  case True
  with i obtain k where k: "k \<in> set links" "lk_target k = i" "lk_source k \<in> set (processed st)" "i \<notin> set (processed st)"
    by (auto simp: nextLayerNodes_set)
  then obtain b where b: "nodeLayer st (lk_source k) = Some b" using sizedD(1) [OF st(1), of "lk_source k"] by auto
  have "\<not> b < currentLayer st"
    using k b st(2) sizedD(1) [OF st(1), of i] unfolding forward_def by fastforce
  with sizedD(2) [OF st(1) b] b k show ?thesis by (metis nat_less_le)
next
  case False
  with why have "set ns = {..<n} - set (processed st)" "nextLayerNodes links (processed st) = []"
    by (auto simp: next_or_rest_def)
  with i ok nextLayerNodes_set [of links "processed st"] show ?thesis by (auto simp: links_ok_def)
qed

lemma add_layer_reasoned:
  assumes st: "sized n st" "forward links st" "reasoned links st" and ok: "links_ok n links"
    and ns: "set ns \<inter> set (processed st) = {}" and why: "next_or_rest n links (processed st) ns"
  shows "reasoned links (add_layer ns st)"
  unfolding reasoned_def
proof (intro conjI allI impI)
  fix i assume "nodeLayer (add_layer ns st) i = Some 0"
  then show "i \<notin> lk_target ` set links" using st(3) by (auto simp: reasoned_def split: if_splits)
next
  fix i a assume i: "nodeLayer (add_layer ns st) i = Some (Suc a)"
  note keep = add_layer_keeps [OF st(1) ns]
  show "(\<exists>k \<in> set links. lk_target k = i \<and> nodeLayer (add_layer ns st) (lk_source k) = Some a) \<or>
        (\<forall>k \<in> set links. lk_target k = i \<longrightarrow> nodeLayer (add_layer ns st) (lk_source k) = Some (Suc a))"
  proof (cases "i \<in> set ns")
    case False
    with i have "nodeLayer st i = Some (Suc a)" by simp
    with st(3) keep show ?thesis unfolding reasoned_def by meson
  next
    case True
    with i have "a = currentLayer st" by simp
    with new_node_reason [OF st(1,2) ok why True] keep show ?thesis by (auto simp del: add_layer_fields(1)) auto
  qed
qed

definition layers_ok :: "nat \<Rightarrow> SankeyLink list \<Rightarrow> layering \<Rightarrow> bool" where
  "layers_ok n links st \<longleftrightarrow> sized n st \<and> forward links st \<and> reasoned links st"

lemma layer_step_ok:
  assumes "layers_ok n links st" "links_ok n links" "length (processed st) < n"
  shows "layers_ok n links (layer_step n links st)"
proof -
  let ?next = "nextLayerNodes links (processed st)" and ?rest = "unassigned n (processed st)"
  have step: "layer_step n links st = add_layer (if ?next \<noteq> [] then ?next else ?rest) st"
    using unassigned_remaining [OF assms(3)] by (simp add: layer_step_def Let_def)
  have ns: "distinct ns" "set ns \<subseteq> {..<n}" "set ns \<inter> set (processed st) = {}" "next_or_rest n links (processed st) ns"
    "set ?next \<subseteq> set ns" if "ns = (if ?next \<noteq> [] then ?next else ?rest)" for ns
    using that assms(2)
    by (auto simp: nextLayerNodes_distinct unassigned_distinct nextLayerNodes_set unassigned_set next_or_rest_def links_ok_def)
  show ?thesis
    unfolding step layers_ok_def
    using assms(1,2) assign_layer_sized add_layer_forward add_layer_reasoned ns [OF refl] unfolding layers_ok_def by blast
qed

lemma layer_loop_ok:
  assumes "layers_ok n links st" "links_ok n links"
  shows "layers_ok n links (layer_loop n links st) \<and> set (processed (layer_loop n links st)) = {..<n}"
  using assms
proof (induction n links st rule: layer_loop.induct)
  case (1 n links st)
  show ?case
  proof (cases "length (processed st) < n")
    case True
    with 1 layer_step_ok [OF 1(2,3) True] show ?thesis by (simp add: layer_loop.simps [of n links st])
  next
    case False
    have "distinct (processed st)" "set (processed st) \<subseteq> {..<n}" using 1(2) by (auto simp: layers_ok_def sized_def)
    with False have "set (processed st) = {..<n}"
      using card_mono [of "{..<n}" "set (processed st)"] by (intro card_subset_eq) (auto simp: distinct_card)
    with False 1(2) show ?thesis by (simp add: layer_loop.simps [of n links st])
  qed
qed

lemma first_layer_ok:
  assumes "source_nodes n links \<noteq> []"
  shows "layers_ok n links (first_layer n links)"
proof -
  have "distinct (source_nodes n links)" "set (source_nodes n links) \<subseteq> {..<n}" by (auto simp: source_nodes_def)
  then have "sized n (first_layer n links)"
    using assms by (auto simp: sized_def first_layer_def Let_def assign_layer_def no_layers_def dom_def distinct_card)
  moreover have "forward links (first_layer n links)"
    by (simp add: forward_def first_layer_def Let_def assign_layer_def no_layers_def)
  moreover have "reasoned links (first_layer n links)"
    by (auto simp: reasoned_def first_layer_def Let_def assign_layer_def no_layers_def source_nodes_def)
  ultimately show ?thesis by (simp add: layers_ok_def)
qed

section \<open>Properties\<close>

lemma sankey_layers_ok:
  assumes "source_nodes n links \<noteq> []" "links_ok n links"
  shows "layers_ok n links (sankey_layers n links)" "dom (nodeLayer (sankey_layers n links)) = {..<n}"
  using layer_loop_ok [OF first_layer_ok [OF assms(1)] assms(2)]
  by (auto simp: sankey_layers_def layers_ok_def sized_def)

lemma sankey_layer_of:
  assumes "source_nodes n links \<noteq> []" "links_ok n links" "i < n"
  shows "nodeLayer (sankey_layers n links) i = Some (layer_of (sankey_layers n links) i)"
proof -
  have "i \<in> dom (nodeLayer (sankey_layers n links))" using sankey_layers_ok(2) [OF assms(1,2)] assms(3) by simp
  then show ?thesis by (auto simp: layer_of_def)
qed

lemma sankey_layer_iff:
  assumes "source_nodes n links \<noteq> []" "links_ok n links"
  shows "nodeLayer (sankey_layers n links) i = Some l \<longleftrightarrow> i < n \<and> layer_of (sankey_layers n links) i = l"
proof (cases "i < n")
  case False
  then have "i \<notin> dom (nodeLayer (sankey_layers n links))" using sankey_layers_ok(2) [OF assms] by simp
  with False show ?thesis by auto
qed (auto simp: sankey_layer_of [OF assms])

text \<open>The layer of a node never changes.\<close>

lemma layer_loop_keeps:
  assumes "layers_ok n links st" "links_ok n links" "nodeLayer st i = Some l"
  shows "nodeLayer (layer_loop n links st) i = Some l"
  using assms
proof (induction n links st rule: layer_loop.induct)
  case (1 n links st)
  show ?case
  proof (cases "length (processed st) < n")
    case True
    have "i \<in> set (processed st)" using 1(2,4) by (auto simp: layers_ok_def sized_def)
    then have "nodeLayer (layer_step n links st) i = Some l"
      using 1(4) by (simp add: layer_step_def assign_layer_def Let_def nextLayerNodes_set unassigned_set)
    with 1 layer_step_ok [OF 1(2,3) True] True show ?thesis by (simp add: layer_loop.simps [of n links st])
  next
    case False
    with 1(4) show ?thesis by (simp add: layer_loop.simps [of n links st])
  qed
qed

lemma source_layer:
  assumes "source_nodes n links \<noteq> []" "links_ok n links" "i \<in> set (source_nodes n links)"
  shows "nodeLayer (sankey_layers n links) i = Some 0"
  unfolding sankey_layers_def
  by (rule layer_loop_keeps [OF first_layer_ok [OF assms(1)] assms(2)])
    (use assms(1,3) in \<open>simp add: first_layer_def Let_def assign_layer_def\<close>)

text \<open>When every node is a target, as in a cycle, the nodes are put into layer 1 while only layer 0 has a size.\<close>

lemma cycle_layers:
  assumes "source_nodes n links = []" "0 < n"
  shows "sankey_layers n links = assign_layer 1 [0..<n] (no_layers\<lparr>currentLayer := 1\<rparr>)"
proof -
  have nx: "nextLayerNodes links [] = []" "unassigned n [] = [0..<n]" by (simp_all add: nextLayerNodes_def unassigned_def)
  have "layer_step n links no_layers = assign_layer 1 [0..<n] (no_layers\<lparr>currentLayer := 1\<rparr>)"
    using assms(2) nx by (simp add: layer_step_def no_layers_def Let_def)
  moreover have "layer_loop n links (assign_layer 1 [0..<n] (no_layers\<lparr>currentLayer := 1\<rparr>)) =
      assign_layer 1 [0..<n] (no_layers\<lparr>currentLayer := 1\<rparr>)"
    by (subst layer_loop.simps) (simp add: assign_layer_def no_layers_def)
  ultimately have "layer_loop n links no_layers = assign_layer 1 [0..<n] (no_layers\<lparr>currentLayer := 1\<rparr>)"
    using assms(2) by (subst layer_loop.simps) (simp add: no_layers_def)
  with assms(1) show ?thesis by (simp add: sankey_layers_def first_layer_def)
qed

lemma cycle_layer_of:
  assumes "source_nodes n links = []" "i < n"
  shows "nodeLayer (sankey_layers n links) i = Some 1" "layer_of (sankey_layers n links) i = 1"
    "layerSizes (sankey_layers n links) = [n]"
  using assms cycle_layers [of n links] by (auto simp: layer_of_def assign_layer_def no_layers_def)

text \<open>The layers when some node is no target.\<close>

lemma sourced_layers:
  assumes "sankey_data E sf tf vf rows = Inr (names, links)" "source_nodes (length names) links \<noteq> []"
  shows "let st = sankey_layers (length names) links; layer = layer_of st in
    (\<forall>i < length names. layer i < layerCount st \<and> length (layerSizes st) = layerCount st \<and>
       layerSizes st ! layer i = card {j. j < length names \<and> layer j = layer i} \<and>
       (layer i = 0 \<longleftrightarrow> i \<notin> lk_target ` set links) \<and>
       (0 < layer i \<longrightarrow> (\<exists>k \<in> set links. lk_target k = i \<and> layer (lk_source k) + 1 = layer i) \<or>
          (\<forall>k \<in> set links. lk_target k = i \<longrightarrow> layer (lk_source k) = layer i))) \<and>
    (\<forall>k \<in> set links. layer (lk_target k) \<le> layer (lk_source k) + 1)"
proof -
  note ok = sankey_data_ok(2) [OF assms(1)]
  let ?n = "length names"
  define st where "st = sankey_layers ?n links"
  note st = sankey_layers_ok [OF assms(2) ok, folded st_def] and some = sankey_layer_of [OF assms(2) ok, folded st_def]
  have ends: "lk_source k < ?n" "lk_target k < ?n" if "k \<in> set links" for k using that ok by (auto simp: links_ok_def)
  note eq = sankey_layer_iff [OF assms(2) ok, folded st_def]
  have s: "sized ?n st" and f: "forward links st" and r: "reasoned links st" using st(1) by (simp_all add: layers_ok_def)
  have one: "layer_of st i < layerCount st \<and> length (layerSizes st) = layerCount st \<and>
       layerSizes st ! layer_of st i = card {j. j < ?n \<and> layer_of st j = layer_of st i}" if "i < ?n" for i
    using s some [OF that] by (auto simp: sized_def eq)
  have two: "layer_of st i = 0 \<longleftrightarrow> i \<notin> lk_target ` set links" if "i < ?n" for i
  proof
    show "layer_of st i = 0 \<Longrightarrow> i \<notin> lk_target ` set links" using r some [OF that] by (auto simp: reasoned_def)
    assume i: "i \<notin> lk_target ` set links"
    then have "i \<in> set (source_nodes ?n links)" using that by (simp add: source_nodes_def)
    then show "layer_of st i = 0" using source_layer [OF assms(2) ok] by (simp add: st_def layer_of_def)
  qed
  have three: "(\<exists>k \<in> set links. lk_target k = i \<and> layer_of st (lk_source k) + 1 = layer_of st i) \<or>
          (\<forall>k \<in> set links. lk_target k = i \<longrightarrow> layer_of st (lk_source k) = layer_of st i)" if "i < ?n" "0 < layer_of st i" for i
    using r some [OF that(1)] that(2) unfolding reasoned_def eq by (cases "layer_of st i") auto
  have four: "layer_of st (lk_target k) \<le> layer_of st (lk_source k) + 1" if k: "k \<in> set links" for k
  proof (cases "layer_of st (lk_source k) < currentLayer st")
    case True
    with f k some [OF ends(1) [OF k]] show ?thesis unfolding forward_def eq by fastforce
  next
    case False
    with sizedD(2) [OF s some [OF ends(2) [OF k]]] show ?thesis by simp
  qed
  show ?thesis unfolding Let_def st_def [symmetric] using one two three four by blast
qed

text \<open>
  C3: The layers of a Sankey diagram: the loop ends, with every node in a layer. When some node is no target,
  the size kept for a layer is the number of its nodes; the first layer holds exactly the nodes that
  are no targets; a link leads at most one layer to the right; and a node of a later layer is the target of a
  link from the layer before, or only of links from its own layer. When every node is a target, all of them are put
  into layer 1, while the only size kept is the one at index 0, which is their number.
\<close>

theorem sankey_layers_spec:
  assumes "sankey_data E sf tf vf rows = Inr (names, links)"
  shows "let n = length names; st = sankey_layers n links; layer = layer_of st in
    (\<forall>i < n. nodeLayer st i = Some (layer i)) \<and>
    (if source_nodes n links = [] then \<forall>i < n. layer i = 1 \<and> layerSizes st = [n]
     else
      (\<forall>i < n. layer i < layerCount st \<and> length (layerSizes st) = layerCount st \<and>
         layerSizes st ! layer i = card {j. j < n \<and> layer j = layer i} \<and>
         (layer i = 0 \<longleftrightarrow> i \<notin> lk_target ` set links) \<and>
         (0 < layer i \<longrightarrow> (\<exists>k \<in> set links. lk_target k = i \<and> layer (lk_source k) + 1 = layer i) \<or>
            (\<forall>k \<in> set links. lk_target k = i \<longrightarrow> layer (lk_source k) = layer i))) \<and>
      (\<forall>k \<in> set links. layer (lk_target k) \<le> layer (lk_source k) + 1))"
proof (cases "source_nodes (length names) links = []")
  case True
  then show ?thesis by (simp add: Let_def cycle_layer_of)
next
  case False
  have "nodeLayer (sankey_layers (length names) links) i = Some (layer_of (sankey_layers (length names) links) i)"
    if "i < length names" for i
    by (rule sankey_layer_of [OF False sankey_data_ok(2) [OF assms] that])
  with sourced_layers [OF assms False] False show ?thesis by (simp only: Let_def if_False) blast
qed

definition demo_rows :: "jsval list" where
  "demo_rows = [JObj [(''from'', JStr ''new''), (''to'', JStr ''paid''), (''n'', JNum (Fin 3))],
     JObj [(''from'', JStr ''paid''), (''to'', JStr ''sent''), (''n'', JNum (Fin 2))]]"

lemma demo_sankey:
  "sankey_data demo_env ''from'' ''to'' ''n'' demo_rows =
     Inr ([JStr ''new'', JStr ''paid'', JStr ''sent''],
       [\<lparr>lk_source = 0, lk_target = 1, lk_value = Fin 3\<rparr>, \<lparr>lk_source = 1, lk_target = 2, lk_value = Fin 2\<rparr>])"
  by (simp add: demo_rows_def sankey_data_def node_names_def row_link_def link_value_def set_add_def position_of_def prop_lookup_def)

theorem sankey_layers_spec_witness:
  "let st = sankey_layers 3 [\<lparr>lk_source = 0, lk_target = 1, lk_value = Fin 3\<rparr>, \<lparr>lk_source = 1, lk_target = 2, lk_value = Fin 2\<rparr>]
   in layer_of st 0 = 0 \<and> layer_of st 1 = 1"
proof -
  let ?links = "[\<lparr>lk_source = 0, lk_target = 1, lk_value = Fin 3\<rparr>, \<lparr>lk_source = 1, lk_target = 2, lk_value = Fin 2\<rparr>]"
  define st where "st = sankey_layers 3 ?links"
  have n: "source_nodes (length [JStr ''new'', JStr ''paid'', JStr ''sent'']) ?links \<noteq> []"
    by (simp add: source_nodes_def upt_rec)
  from sankey_layers_spec [OF demo_sankey] n
  have all: "\<forall>i < 3. layer_of st i = 0 \<longleftrightarrow> i \<notin> lk_target ` set ?links" "\<forall>k \<in> set ?links. layer_of st (lk_target k) \<le> layer_of st (lk_source k) + 1"
    by (simp_all add: Let_def st_def numeral_3_eq_3)
  have "layer_of st 0 = 0" "layer_of st 1 \<noteq> 0" using all(1) [rule_format, of 0] all(1) [rule_format, of 1] by auto
  moreover have "layer_of st 1 \<le> layer_of st 0 + 1" using all(2) by simp
  ultimately show ?thesis by (simp add: Let_def st_def)
qed

text \<open>
  Two nodes of a layer have different places in it, counted from zero in the order of the nodes, and every
  place is below the number of nodes of the layer, so that the rectangles of a layer share its height.
\<close>

theorem sankey_places_spec:
  assumes "sankey_data E sf tf vf rows = Inr (names, links)" "source_nodes (length names) links \<noteq> []"
    and "i < j" "j < length names" "layer_of (sankey_layers (length names) links) i = layer_of (sankey_layers (length names) links) j"
  shows "let st = sankey_layers (length names) links in
     posInLayer st i < posInLayer st j \<and> posInLayer st j < layerSizes st ! layer_of st j \<and>
     nodesInThisLayer st j = Fin (of_nat (layerSizes st ! layer_of st j))"
proof -
  note ok = sankey_data_ok(2) [OF assms(1)]
  let ?n = "length names"
  define st where "st = sankey_layers ?n links"
  have pos: "posInLayer st m = card {k. k < m \<and> layer_of st k = layer_of st m}" for m
    unfolding posInLayer_def by (subst length_filter_conv_card) (auto intro!: arg_cong [where f = card])
  have s: "sized ?n st" using sankey_layers_ok(1) [OF assms(2) ok] by (simp add: st_def layers_ok_def)
  have j: "nodeLayer st j = Some (layer_of st j)" using sankey_layer_of [OF assms(2) ok assms(4)] by (simp add: st_def)
  have size: "layerSizes st ! layer_of st j = card {k. k < ?n \<and> layer_of st k = layer_of st j}"
    and "layer_of st j < length (layerSizes st)"
    using s sizedD(2) [OF s j] by (auto simp: sized_def sankey_layer_iff [OF assms(2) ok, folded st_def])
  moreover have "{k. k < i \<and> layer_of st k = layer_of st i} \<subset> {k. k < j \<and> layer_of st k = layer_of st j}"
    using assms(3,5) by (auto simp: st_def)
  moreover have "{k. k < j \<and> layer_of st k = layer_of st j} \<subset> {k. k < ?n \<and> layer_of st k = layer_of st j}"
    using assms(4) by auto
  ultimately show ?thesis
    unfolding Let_def st_def [symmetric] by (auto simp: pos size nodesInThisLayer_def intro!: psubset_card_mono)
qed

definition fork_rows :: "jsval list" where
  "fork_rows = [JObj [(''from'', JStr ''new''), (''to'', JStr ''paid'')], JObj [(''from'', JStr ''new''), (''to'', JStr ''void'')]]"

theorem sankey_places_spec_witness:
  "posInLayer (sankey_layers 3 [\<lparr>lk_source = 0, lk_target = 1, lk_value = Fin 1\<rparr>, \<lparr>lk_source = 0, lk_target = 2, lk_value = Fin 1\<rparr>]) 1
   < posInLayer (sankey_layers 3 [\<lparr>lk_source = 0, lk_target = 1, lk_value = Fin 1\<rparr>, \<lparr>lk_source = 0, lk_target = 2, lk_value = Fin 1\<rparr>]) 2"
proof -
  let ?links = "[\<lparr>lk_source = 0, lk_target = 1, lk_value = Fin 1\<rparr>, \<lparr>lk_source = 0, lk_target = 2, lk_value = Fin 1\<rparr>]"
  let ?names = "[JStr ''new'', JStr ''paid'', JStr ''void'']"
  have "sankey_data demo_env ''from'' ''to'' ''n'' fork_rows = Inr (?names, ?links)"
    by (simp add: fork_rows_def sankey_data_def node_names_def row_link_def link_value_def set_add_def position_of_def prop_lookup_def)
  moreover have "source_nodes (length ?names) ?links \<noteq> []" by (simp add: source_nodes_def upt_rec)
  moreover have "layer_of (sankey_layers (length ?names) ?links) 1 = layer_of (sankey_layers (length ?names) ?links) 2"
    by code_simp
  ultimately show ?thesis
    using sankey_places_spec [of demo_env "''from''" "''to''" "''n''" fork_rows ?names ?links 1 2] by (simp add: Let_def numeral_3_eq_3)
qed

text \<open>
  When every node is a target, as in a cycle, the vertical coordinates of every node are \<open>NaN\<close>.
\<close>

theorem sankey_cycle_not_drawn:
  assumes "sankey_data E sf tf vf rows = Inr (names, links)" "source_nodes (length names) links = []"
    and "p \<in> set (sankey_nodes width height (length names) links)"
  shows "y0 p = NaN \<and> y1 p = NaN"
proof -
  let ?n = "length names"
  have "nodesInThisLayer (sankey_layers ?n links) i = NaN" if "i < ?n" for i
    using cycle_layer_of [OF assms(2) that] by (simp add: nodesInThisLayer_def)
  moreover have nan: "num_div a NaN = NaN" "num_mul a NaN = NaN" "num_add a NaN = NaN" for a by (cases a; simp)+
  ultimately show ?thesis
    using assms(3) by (auto simp: sankey_nodes_def node_position_def Let_def num_sub_def nan)
qed

definition cycle_rows :: "jsval list" where
  "cycle_rows = [JObj [(''from'', JStr ''a''), (''to'', JStr ''b'')], JObj [(''from'', JStr ''b''), (''to'', JStr ''a'')]]"

theorem sankey_cycle_not_drawn_witness:
  "y0 (hd (sankey_nodes (Fin 600) (Fin 400) 2
     [\<lparr>lk_source = 0, lk_target = 1, lk_value = Fin 1\<rparr>, \<lparr>lk_source = 1, lk_target = 0, lk_value = Fin 1\<rparr>])) = NaN"
proof -
  let ?links = "[\<lparr>lk_source = 0, lk_target = 1, lk_value = Fin 1\<rparr>, \<lparr>lk_source = 1, lk_target = 0, lk_value = Fin 1\<rparr>]"
  let ?names = "[JStr ''a'', JStr ''b'']"
  have "sankey_data demo_env ''from'' ''to'' ''n'' cycle_rows = Inr (?names, ?links)"
    by (simp add: cycle_rows_def sankey_data_def node_names_def row_link_def link_value_def set_add_def position_of_def prop_lookup_def)
  moreover have "source_nodes (length ?names) ?links = []" by (simp add: source_nodes_def upt_rec)
  moreover have "hd (sankey_nodes (Fin 600) (Fin 400) (length ?names) ?links) \<in> set (sankey_nodes (Fin 600) (Fin 400) (length ?names) ?links)"
    by (simp add: sankey_nodes_def Let_def upt_rec)
  ultimately show ?thesis
    using sankey_cycle_not_drawn [of demo_env "''from''" "''to''" "''n''" cycle_rows ?names ?links] by (simp add: numeral_2_eq_2)
qed

end
