(* ===== verification/D3_Charts.thy ===== *)
theory D3_Charts
  imports Chart_Validation Sankey_Layout
begin

text \<open>
  The charts of \<open>components/builders/D3Chart.tsx\<close>: which charts are drawn and with which message the others fail, and the
  numbers behind each kind of chart. The markup is left out; the parts of D3 that compute (\<open>min\<close>, \<open>max\<close> and
  the linear scale) are a parameter. Cells come from \<open>JSON.parse\<close>, so none is a \<open>Date\<close>.
\<close>

record d3_lib =
  d3_min :: "jsnum list \<Rightarrow> jsnum option"
  d3_max :: "jsnum list \<Rightarrow> jsnum option"
  d3_sum :: "jsnum list \<Rightarrow> jsnum"
  scaleLinear :: "jsnum \<times> jsnum \<Rightarrow> jsnum \<times> jsnum \<Rightarrow> jsnum \<Rightarrow> jsnum"

section \<open>Rows and metadata\<close>

text \<open>\<open>!data || !Array.isArray(data) || data.length === 0\<close>\<close>

definition chart_rows :: "string \<Rightarrow> jsval \<Rightarrow> jsval list js" where
  "chart_rows msg d =
     js_bind (js_get d ''data'') (\<lambda>v. case v of JArr (x # xs) ps \<Rightarrow> Inr (x # xs) | _ \<Rightarrow> Inl (JsError msg))"

text \<open>\<open>+d[k] || 0\<close>\<close>

definition number_cell :: "js_env \<Rightarrow> string \<Rightarrow> jsval \<Rightarrow> jsnum js" where
  "number_cell E k d = js_bind (js_get d k) (\<lambda>v. js_bind (js_toNumber E v) (\<lambda>n. Inr (if n = NaN then Fin 0 else n)))"

text \<open>The start of the line, area and bar charts.\<close>

definition axis_guard :: "string \<Rightarrow> jsval \<Rightarrow> (jsval list \<times> jsval \<times> jsval) js" where
  "axis_guard kind d =
     js_bind (chart_rows (''Invalid data for '' @ kind @ '' chart'') d) (\<lambda>rows.
     js_bind (meta_get d ''xAxis'') (\<lambda>x.
     if \<not> js_truthy x then Inl (JsError ''Missing xAxis or yAxis metadata'')
     else js_bind (meta_get d ''yAxis'') (\<lambda>y.
     if \<not> js_truthy y then Inl (JsError ''Missing xAxis or yAxis metadata'') else Inr (rows, x, y))))"

text \<open>\<open>rows.some(p)\<close>\<close>

definition js_some :: "('a \<Rightarrow> bool js) \<Rightarrow> 'a list \<Rightarrow> bool js" where
  "js_some p xs = js_bind (js_find p xs) (\<lambda>r. Inr (r \<noteq> None))"

section \<open>Line and area\<close>

definition by_timestamp :: "js_env \<Rightarrow> jsval \<Rightarrow> jsval \<Rightarrow> jsnum js" where
  "by_timestamp E a b =
     js_bind (js_get a ''timestamp'') (\<lambda>s. js_bind (date_time E s) (\<lambda>m.
     js_bind (js_get b ''timestamp'') (\<lambda>t. js_bind (date_time E t) (\<lambda>n. Inr (num_sub m n)))))"

definition chronological :: "js_env \<Rightarrow> jsval list \<Rightarrow> jsval list js" where
  "chronological E rows =
     (case rows of
        [] \<Rightarrow> Inr []
      | d # ds \<Rightarrow> js_bind (js_get d ''timestamp'') (\<lambda>t. if js_truthy t then js_sort E (by_timestamp E) rows else Inr rows))"

text \<open>\<open>metadata.metrics && Array.isArray(metadata.metrics) ? metadata.metrics : [metadata.yAxis]\<close>\<close>

definition line_series :: "js_env \<Rightarrow> jsval \<Rightarrow> jsval \<Rightarrow> string list js" where
  "line_series E d y =
     js_bind (meta_get d ''metrics'') (\<lambda>ms. js_map (js_toString E) (case ms of JArr xs ps \<Rightarrow> xs | _ \<Rightarrow> [y]))"

definition all_values :: "js_env \<Rightarrow> string list \<Rightarrow> jsval list \<Rightarrow> jsnum list js" where
  "all_values E series rows = js_bind (js_map (\<lambda>k. js_map (number_cell E k) rows) series) (\<lambda>vs. Inr (concat vs))"

definition or_zero :: "jsnum option \<Rightarrow> jsnum" where
  "or_zero m = (case m of None \<Rightarrow> Fin 0 | Some n \<Rightarrow> n)"

text \<open>The domain of the vertical scale, with a tenth on top.\<close>

definition y_domain :: "d3_lib \<Rightarrow> jsnum list \<Rightarrow> jsnum \<times> jsnum" where
  "y_domain L vs = (Math_min (Fin 0) (or_zero (d3_min L vs)), num_mul (or_zero (d3_max L vs)) (fl (11 / 10)))"

definition is_date_axis :: "js_env \<Rightarrow> string \<Rightarrow> jsval list \<Rightarrow> bool js" where
  "is_date_axis E x rows =
     js_some (\<lambda>d. js_bind (js_get d x) (\<lambda>v. Inr (is_date_string E v))) rows"

definition line_chart :: "js_env \<Rightarrow> d3_lib \<Rightarrow> jsval \<Rightarrow> (jsval list \<times> bool \<times> (jsnum \<times> jsnum)) js" where
  "line_chart E L d =
     js_bind (axis_guard ''line'' d) (\<lambda>(rows, x, y).
     js_bind (line_series E d y) (\<lambda>series.
     js_bind (chronological E rows) (\<lambda>sorted.
     js_bind (js_toString E x) (\<lambda>xk.
     js_bind (is_date_axis E xk sorted) (\<lambda>isDate.
     js_bind (all_values E series sorted) (\<lambda>vs.
     Inr (sorted, isDate, y_domain L vs)))))))"

definition area_chart :: "js_env \<Rightarrow> d3_lib \<Rightarrow> jsval \<Rightarrow> (jsval list \<times> bool \<times> (jsnum \<times> jsnum)) js" where
  "area_chart E L d =
     js_bind (axis_guard ''area'' d) (\<lambda>(rows, x, y).
     js_bind (js_toString E x) (\<lambda>xk.
     js_bind (is_date_axis E xk rows) (\<lambda>isDate.
     js_bind (js_toString E y) (\<lambda>yk.
     js_bind (all_values E [yk] rows) (\<lambda>vs.
     Inr (rows, isDate, y_domain L vs))))))"

section \<open>Pie\<close>

definition pie_slice :: "js_env \<Rightarrow> string \<Rightarrow> string \<Rightarrow> jsval \<Rightarrow> (string \<times> jsnum) js" where
  "pie_slice E dimension metric d =
     js_bind (js_get d dimension) (\<lambda>v. js_bind (js_toString E v) (\<lambda>label. js_bind (number_cell E metric d) (\<lambda>n. Inr (label, n))))"

text \<open>Both texts of the errors name the dimension and the metric.\<close>

definition pie_message :: "string \<Rightarrow> string \<Rightarrow> string \<Rightarrow> string" where
  "pie_message m dimension metric = m @ ''. Dimension: '' @ dimension @ '', Metric: '' @ metric"

definition some_undefined :: "string \<Rightarrow> jsval list \<Rightarrow> bool js" where
  "some_undefined k rows = js_some (\<lambda>d. js_bind (js_get d k) (\<lambda>v. Inr (v = JUndef))) rows"

definition pie_chart :: "js_env \<Rightarrow> jsval \<Rightarrow> (string \<times> jsnum) list js" where
  "pie_chart E d =
     js_bind (chart_rows ''Invalid data for pie chart'' d) (\<lambda>rows.
     js_bind (meta_get d ''dimension'') (\<lambda>dv. js_bind (meta_get d ''metric'') (\<lambda>mv.
     js_bind (js_toString E dv) (\<lambda>dimension. js_bind (js_toString E mv) (\<lambda>metric.
     if \<not> js_truthy dv \<or> \<not> js_truthy mv then Inl (JsError (pie_message ''Missing dimension or metric metadata'' dimension metric))
     else js_bind (some_undefined dimension rows) (\<lambda>nodim. js_bind (some_undefined metric rows) (\<lambda>nomet.
     if nodim \<or> nomet then Inl (JsError (pie_message ''Data is missing required yFields'' dimension metric))
     else js_map (pie_slice E dimension metric) rows)))))))"

section \<open>Stacked bars\<close>

text \<open>\<open>metadata.k || s\<close> as a name of a field.\<close>

definition field_name :: "js_env \<Rightarrow> jsval \<Rightarrow> string \<Rightarrow> string \<Rightarrow> string js" where
  "field_name E d k s = js_bind (meta_get d k) (\<lambda>v. js_toString E (js_or v (JStr s)))"

definition has_key :: "jsval \<Rightarrow> string \<Rightarrow> bool js" where
  "has_key d k = js_bind (Object_keys d) (\<lambda>ks. if is_object d then Inr (k \<in> set ks) else Inl TypeError)"

text \<open>A row with \<open>used\<close> and \<open>available\<close> becomes two.\<close>

definition resource_rows :: "string \<Rightarrow> jsval \<Rightarrow> jsval list js" where
  "resource_rows categoryField d =
     js_bind (js_get d categoryField) (\<lambda>c. js_bind (js_get d ''used'') (\<lambda>u. js_bind (js_get d ''available'') (\<lambda>a.
       Inr (map (\<lambda>(ty, v). JObj (props_put (props_put [(categoryField, c)] ''type'' (JStr ty)) ''value'' (js_or v (JNum (Fin 0)))))
         [(''used'', u), (''available'', a)]))))"

definition stacked_rows :: "string \<Rightarrow> string \<Rightarrow> jsval list \<Rightarrow> (jsval list \<times> jsval list) js" where
  "stacked_rows categoryField groupField rows =
     js_bind (has_key (hd rows) ''used'') (\<lambda>u. js_bind (if u then has_key (hd rows) ''available'' else Inr False) (\<lambda>res.
       if res then js_bind (js_map (resource_rows categoryField) rows) (\<lambda>rss.
         Inr (map JStr [''used'', ''available''], concat rss))
       else js_bind (js_map (\<lambda>d. js_get d groupField) rows) (\<lambda>gs. Inr (fold (\<lambda>x xs. set_add xs x) gs [], rows))))"

text \<open>The cell of a category and a group, and the height of the highest stack.\<close>

definition stacked_find :: "string \<Rightarrow> string \<Rightarrow> jsval list \<Rightarrow> jsval \<Rightarrow> jsval \<Rightarrow> jsval option js" where
  "stacked_find categoryField groupField rows category grp =
     js_find (\<lambda>d. js_bind (js_get d categoryField) (\<lambda>c. if c \<noteq> category then Inr False
       else js_bind (js_get d groupField) (\<lambda>g. Inr (g = grp)))) rows"

definition stacked_cell :: "js_env \<Rightarrow> string \<Rightarrow> string \<Rightarrow> string \<Rightarrow> jsval list \<Rightarrow> jsval \<Rightarrow> jsval \<Rightarrow> jsnum js" where
  "stacked_cell E categoryField groupField valueField rows category grp =
     js_bind (stacked_find categoryField groupField rows category grp) (\<lambda>r. case r of
        None \<Rightarrow> Inr (Fin 0)
      | Some d \<Rightarrow> js_bind (js_get d valueField) (js_toNumber E))"

definition stacked_max ::
  "js_env \<Rightarrow> d3_lib \<Rightarrow> string \<Rightarrow> string \<Rightarrow> string \<Rightarrow> jsval list \<Rightarrow> jsval list \<Rightarrow> jsval list \<Rightarrow> jsnum js" where
  "stacked_max E L categoryField groupField valueField rows categories groups =
     js_bind (js_map (\<lambda>c. js_bind (js_map (stacked_cell E categoryField groupField valueField rows c) groups)
       (\<lambda>vs. Inr (d3_sum L vs))) categories) (\<lambda>totals. Inr (or_zero (d3_max L totals)))"

text \<open>The height of a bar: \<open>innerHeight - y(value)\<close>, where the scale starts at \<open>height - margin.bottom\<close>.\<close>

definition stacked_height :: "d3_lib \<Rightarrow> jsnum \<Rightarrow> jsnum \<Rightarrow> jsnum \<Rightarrow> jsnum" where
  "stacked_height L height stackedMax value =
     num_sub (num_sub (num_sub height (Fin 20)) (Fin 50))
       (scaleLinear L (Fin 0, num_mul stackedMax (fl (11 / 10))) (num_sub height (Fin 50), Fin 20) value)"

section \<open>Bars\<close>

definition snake_field :: "string \<Rightarrow> string" where
  "snake_field s = concat (map (\<lambda>c. if is_upper c then [CHR ''_'', to_lower c] else [c]) s)"

definition getFieldValue :: "js_env \<Rightarrow> string \<Rightarrow> jsval \<Rightarrow> jsnum js" where
  "getFieldValue E fieldName item =
     js_bind (has_key item fieldName) (\<lambda>b. if b then number_cell E fieldName item
     else js_bind (has_key item (snake_field fieldName)) (\<lambda>b.
       if b then number_cell E (snake_field fieldName) item else Inr (Fin 0)))"

definition bar_fields :: "js_env \<Rightarrow> jsval \<Rightarrow> string list js" where
  "bar_fields E y = js_map (js_toString E) (case y of JArr xs ps \<Rightarrow> xs | _ \<Rightarrow> [y])"

definition bar_values :: "js_env \<Rightarrow> string list \<Rightarrow> jsval list \<Rightarrow> jsnum list list js" where
  "bar_values E yFields rows = js_map (\<lambda>d. js_map (\<lambda>f. getFieldValue E f d) yFields) rows"

definition bar_max :: "jsnum list \<Rightarrow> jsnum" where
  "bar_max vs = fold (\<lambda>v m. if v \<noteq> NaN \<and> num_lt m v then v else m) vs (Fin 0)"

definition bar_chart :: "js_env \<Rightarrow> jsval \<Rightarrow> (jsnum list list \<times> jsnum) js" where
  "bar_chart E d =
     js_bind (axis_guard ''bar'' d) (\<lambda>(rows, x, y).
     js_bind (bar_fields E y) (\<lambda>yFields.
     js_bind (bar_values E yFields rows) (\<lambda>vs. Inr (vs, num_mul (bar_max (concat vs)) (fl (11 / 10))))))"

section \<open>Gauge\<close>

definition percentValue :: "js_env \<Rightarrow> jsval \<Rightarrow> jsval js" where
  "percentValue E d =
     js_bind (js_get d ''total_orders'') (\<lambda>t. js_bind (js_get d ''completed_orders'') (\<lambda>c.
     js_bind (js_get d ''completion_rate'') (\<lambda>r.
       let total = js_or t (JNum (Fin 0)); completed = js_or c (JNum (Fin 0)); rate = js_or r (JNum (Fin 0))
       in js_bind (js_toNumber E rate) (\<lambda>rn. if num_lt (Fin 1) rn then Inr rate
          else js_bind (js_toNumber E total) (\<lambda>tn.
            if num_lt (Fin 0) tn
            then js_bind (js_toNumber E completed) (\<lambda>cn. Inr (JNum (Math_round (num_mul (num_div cn tn) (Fin 100)))))
            else Inr (JNum (Fin 0)))))))"

section \<open>Funnel\<close>

text \<open>\<open>getMetricValue\<close>; the renamed field is not defaulted.\<close>

definition getMetricValue :: "js_env \<Rightarrow> string \<Rightarrow> jsval \<Rightarrow> jsnum js" where
  "getMetricValue E metricName item =
     js_bind (if metricName = ''avgProcessingTime'' then has_key item ''avg_processing_time'' else Inr False) (\<lambda>b.
       if b then js_bind (js_get item ''avg_processing_time'') (js_toNumber E) else number_cell E metricName item)"

definition primaryMetric :: "js_env \<Rightarrow> jsval \<Rightarrow> string js" where
  "primaryMetric E d =
     js_bind (meta_get d ''metrics'') (\<lambda>ms. case ms of
        JArr (m # rest) ps \<Rightarrow> js_toString E m
      | _ \<Rightarrow> js_bind (meta_get d ''metric'') (\<lambda>m. js_toString E (js_or m (JStr ''count''))))"

definition funnel_order :: "js_env \<Rightarrow> string \<Rightarrow> jsval \<Rightarrow> jsval \<Rightarrow> jsnum js" where
  "funnel_order E m a b =
     js_bind (getMetricValue E m b) (\<lambda>y. js_bind (getMetricValue E m a) (\<lambda>x. Inr (num_sub y x)))"

record segment =
  seg_value :: jsnum
  seg_percentage :: jsnum
  seg_width :: jsnum
  seg_y :: jsnum

definition funnel_segment :: "jsnum \<Rightarrow> jsnum \<Rightarrow> nat \<Rightarrow> jsnum \<Rightarrow> nat \<Rightarrow> jsnum \<Rightarrow> segment" where
  "funnel_segment width height n maxValue i value =
     (let barHeight = num_div (num_mul height (fl (8 / 10))) (Fin (of_nat (n + 1)));
          startY = num_div (num_sub height (num_mul barHeight (Fin (of_nat n)))) (Fin 2);
          percentage = num_div value maxValue
      in \<lparr>seg_value = value, seg_percentage = percentage, seg_width = num_mul (num_mul width (fl (6 / 10))) percentage,
          seg_y = num_add startY (num_mul (Fin (of_nat i)) barHeight)\<rparr>)"

definition funnel_chart :: "js_env \<Rightarrow> d3_lib \<Rightarrow> jsnum \<Rightarrow> jsnum \<Rightarrow> jsval \<Rightarrow> segment list js" where
  "funnel_chart E L width height d =
     js_bind (chart_rows ''Invalid data for funnel chart'' d) (\<lambda>rows.
     js_bind (meta_get d ''dimension'') (\<lambda>dimension.
     if \<not> js_truthy dimension then Inl (JsError ''Missing dimension metadata'')
     else js_bind (primaryMetric E d) (\<lambda>m.
     js_bind (js_sort E (funnel_order E m) rows) (\<lambda>sorted.
     js_bind (js_map (getMetricValue E m) sorted) (\<lambda>vs.
     let maxValue = or_zero (d3_max L vs)
     in Inr (map (\<lambda>(i, v). funnel_segment width height (length vs) maxValue i v) (enumerate 0 vs)))))))"

text \<open>\<open>formatTime\<close>; \<open>fixed n x\<close> stands for \<open>x.toFixed(n)\<close>.\<close>

definition formatTime :: "(nat \<Rightarrow> jsnum \<Rightarrow> string) \<Rightarrow> jsnum \<Rightarrow> string" where
  "formatTime fixed ms =
     (if num_lt ms (Fin 1000) then fixed 0 ms @ ''ms''
      else if num_lt ms (Fin 60000) then fixed 1 (num_div ms (Fin 1000)) @ ''s''
      else if num_lt ms (Fin 3600000) then fixed 1 (num_div ms (Fin 60000)) @ ''m''
      else if num_lt ms (Fin 86400000) then fixed 1 (num_div ms (Fin 3600000)) @ ''h''
      else fixed 1 (num_div ms (Fin 86400000)) @ ''d'')"

definition stacked_chart :: "js_env \<Rightarrow> d3_lib \<Rightarrow> jsval \<Rightarrow> (jsval list \<times> jsval list \<times> jsnum) js" where
  "stacked_chart E L d =
     js_bind (chart_rows ''Invalid data for stacked bar chart'' d) (\<lambda>rows.
     js_bind (field_name E d ''xAxis'' ''resource'') (\<lambda>categoryField.
     js_bind (field_name E d ''yAxis'' ''value'') (\<lambda>valueField.
     js_bind (field_name E d ''groupBy'' ''type'') (\<lambda>groupField.
     js_bind (js_map (\<lambda>r. js_get r categoryField) rows) (\<lambda>cs.
     let categories = fold (\<lambda>x xs. set_add xs x) cs []
     in js_bind (stacked_rows categoryField groupField rows) (\<lambda>(groups, stacked).
     js_bind (stacked_max E L categoryField groupField valueField stacked categories groups) (\<lambda>m.
     Inr (categories, groups, m))))))))"

section \<open>Sankey\<close>

text \<open>Without \<open>source\<close> or \<open>target\<close> the rows are drawn as a pie.\<close>

definition pie_instead :: "jsval \<Rightarrow> jsval js" where
  "pie_instead d =
     js_bind (js_get d ''data'') (\<lambda>rows. js_bind (meta_get d ''nodes'') (\<lambda>n. js_bind (meta_get d ''value'') (\<lambda>v.
       Inr (JObj [(''data'', rows), (''metadata'', JObj [(''type'', JStr ''pie''), (''dimension'', js_or n (JStr ''status'')),
         (''metric'', js_or v (JStr ''count''))])]))))"

definition sankey_chart ::
  "js_env \<Rightarrow> jsnum \<Rightarrow> jsnum \<Rightarrow> jsval \<Rightarrow> ((string \<times> jsnum) list + jsval list \<times> SankeyLink list \<times> SankeyNode list) js" where
  "sankey_chart E width height d =
     js_bind (meta_get d ''source'') (\<lambda>s. js_bind (meta_get d ''target'') (\<lambda>t.
     if \<not> js_truthy s \<or> \<not> js_truthy t
     then js_bind (pie_instead d) (\<lambda>p. js_bind (pie_chart E p) (\<lambda>slices. Inr (Inl slices)))
     else js_bind (js_toString E s) (\<lambda>sf. js_bind (js_toString E t) (\<lambda>tf.
     js_bind (field_name E d ''value'' ''value'') (\<lambda>vf.
     js_bind (chart_rows ''Invalid data for Sankey diagram'' d) (\<lambda>rows.
     js_bind (sankey_data E sf tf vf rows) (\<lambda>(names, links).
     Inr (Inr (names, links, sankey_nodes width height (length names) links)))))))))"

section \<open>The component\<close>

datatype drawing =
    Line "jsval list" bool "jsnum \<times> jsnum"
  | Area "jsval list" bool "jsnum \<times> jsnum"
  | Pie "(string \<times> jsnum) list"
  | Stacked "jsval list" "jsval list" jsnum
  | Sankey "jsval list" "SankeyLink list" "SankeyNode list"
  | Gauge jsval
  | Combo
  | Funnel "segment list"
  | Bars "jsnum list list" jsnum
  | Error_text string

text \<open>Most of the drawing functions catch their errors and write them into the picture.\<close>

definition caught :: "drawing js \<Rightarrow> drawing" where
  "caught r =
     (case r of Inr p \<Rightarrow> p | Inl e \<Rightarrow> Error_text (''Error: '' @ (if exn_message e = [] then ''Unknown error'' else exn_message e)))"

text \<open>
  The body of the effect, \<open>Inl\<close> for the status \<open>error\<close> with its message. The size is that of the picture less the margins.
  \<open>combo\<close> says whether the combo chart, which is not modelled further, throws.
\<close>

definition d3_draw :: "js_env \<Rightarrow> d3_lib \<Rightarrow> (jsval \<Rightarrow> unit js) \<Rightarrow> jsnum \<Rightarrow> jsnum \<Rightarrow> jsval list \<Rightarrow> jsval \<Rightarrow> drawing js" where
  "d3_draw E L combo width height rows d =
     js_bind (meta_get d ''type'') (\<lambda>ty.
       if ty = JStr ''line'' then Inr (caught (js_bind (line_chart E L d) (\<lambda>(rows, b, y). Inr (Line rows b y))))
       else if ty = JStr ''pie'' then Inr (caught (js_bind (pie_chart E d) (\<lambda>ps. Inr (Pie ps))))
       else if ty = JStr ''stacked-bar'' then Inr (caught (js_bind (stacked_chart E L d) (\<lambda>(cs, gs, m). Inr (Stacked cs gs m))))
       else if ty = JStr ''area'' then Inr (caught (js_bind (area_chart E L d) (\<lambda>(rows, b, y). Inr (Area rows b y))))
       else if ty = JStr ''sankey'' then Inr (caught (js_bind (sankey_chart E width height d) (\<lambda>r. Inr (case r of
           Inl ps \<Rightarrow> Pie ps | Inr (names, links, nodes) \<Rightarrow> Sankey names links nodes))))
       else if ty = JStr ''gauge'' then
         js_bind (percentValue E (hd rows)) (\<lambda>p. Inr (Gauge p))
       else if ty = JStr ''combo'' then js_bind (combo d) (\<lambda>_. Inr Combo)
       else if ty = JStr ''funnel'' then Inr (caught (js_bind (funnel_chart E L width height d) (\<lambda>ss. Inr (Funnel ss))))
       else if ty = JStr ''bar'' then Inr (caught (js_bind (bar_chart E d) (\<lambda>(vs, m). Inr (Bars vs m))))
       else js_bind (js_toString E ty) (\<lambda>s. Inl (JsError (''Unsupported chart type: '' @ s))))"

definition d3_effect ::
  "js_env \<Rightarrow> d3_lib \<Rightarrow> (jsval \<Rightarrow> unit js) \<Rightarrow> jsnum \<Rightarrow> jsnum \<Rightarrow> jsval \<Rightarrow> drawing js" where
  "d3_effect E L combo width height d =
     (if \<not> js_truthy d then Inl (JsError ''Data is null or undefined'')
      else js_bind (chart_rows ''Data array is empty or invalid'' d) (\<lambda>rows.
        js_bind (js_get d ''metadata'') (\<lambda>m.
        if \<not> js_truthy m then Inl (JsError ''Missing metadata or chart type'')
        else js_bind (js_get m ''type'') (\<lambda>ty.
        if \<not> js_truthy ty then Inl (JsError ''Missing metadata or chart type'')
        else d3_draw E L combo (num_sub (num_sub width (Fin 50)) (Fin 30)) (num_sub (num_sub height (Fin 20)) (Fin 40)) rows d))))"

section \<open>Lemmas\<close>

lemma bar_max_aux:
  fixes vs :: "jsnum list"
  assumes "m \<noteq> NaN"
  shows "let r = fold (\<lambda>v m. if v \<noteq> NaN \<and> num_lt m v then v else m) vs m
    in r \<noteq> NaN \<and> r \<in> insert m (set vs) \<and> \<not> num_lt r m \<and> (\<forall>v \<in> set vs. \<not> num_lt r v)"
  using assms
proof (induction vs arbitrary: m)
  case Nil
  then show ?case by (cases m) auto
next
  case (Cons v vs)
  have trans: "\<not> num_lt a b \<Longrightarrow> \<not> num_lt b c \<Longrightarrow> a \<noteq> NaN \<Longrightarrow> b \<noteq> NaN \<Longrightarrow> \<not> num_lt a c" for a b c
    by (cases a; cases b; cases c) auto
  have asym: "num_lt a b \<Longrightarrow> \<not> num_lt b a" for a b by (cases a; cases b) auto
  let ?m = "if v \<noteq> NaN \<and> num_lt m v then v else m"
  have m: "?m \<noteq> NaN" using Cons.prems by auto
  have nan: "\<not> num_lt a NaN" for a by (cases a) auto
  have "\<not> num_lt ?m m" "\<not> num_lt ?m v" using asym [of m v] nan by (cases m; cases v; auto)+
  moreover define r where "r = fold (\<lambda>v m. if v \<noteq> NaN \<and> num_lt m v then v else m) vs ?m"
  ultimately have "\<not> num_lt r m" "\<not> num_lt r v" and ih: "r \<noteq> NaN" "r \<in> insert ?m (set vs)" "\<forall>v \<in> set vs. \<not> num_lt r v"
    using trans [of r ?m] m Cons.IH [OF m] unfolding Let_def r_def [symmetric] by blast+
  moreover have "insert ?m (set vs) \<subseteq> insert m (set (v # vs))" by auto
  ultimately show ?case unfolding Let_def fold_Cons o_apply r_def [symmetric] by auto
qed

section \<open>Properties\<close>

text \<open>
  C7: A validated chart with rows, in the component \<open>D3Chart\<close>. A line, area, pie, funnel, Sankey, stacked-bar or bar chart
  never ends in the component's error status: something is drawn. A line and an area have both axes, so they do not
  draw the error that they are missing, and a Sankey diagram is never replaced by a pie. Bar charts are the
  exception, because validation has no case for them: one without both axes draws that error.
\<close>

theorem validated_chart_is_drawable:
  assumes "data = JObj qs" "map_of qs ''metadata'' = Some (JObj ms)" "chart_complete data" "validateChartData E data = Inr d"
    and "js_get d ''data'' = Inr (JArr (r # rows) ps)" "meta_get d ''type'' = Inr (JStr ty)"
    and "ty \<in> {''line'', ''area'', ''pie'', ''funnel'', ''sankey'', ''stacked-bar'', ''bar''}"
  shows "\<exists>p. d3_effect E L combo width height d = Inr p \<and>
     (ty = ''line'' \<or> ty = ''area'' \<longrightarrow> (\<exists>x y. axis_guard ty d = Inr (r # rows, x, y))) \<and>
     (ty = ''sankey'' \<longrightarrow> (\<forall>slices. p \<noteq> Pie slices)) \<and>
     (ty = ''bar'' \<and> (meta_get d ''xAxis'' = Inr JUndef \<or> meta_get d ''yAxis'' = Inr JUndef) \<longrightarrow>
        p = Error_text ''Error: Missing xAxis or yAxis metadata'')"
proof -
  obtain qs' ns where d: "d = JObj qs'" "map_of qs' ''metadata'' = Some (JObj ns)"
    and k: "\<forall>k \<in> set (required_fields (prop_lookup ns ''type'')). js_truthy (prop_lookup ns k)"
    using validated_fields [OF assms(1-4)] by blast
  have get: "meta_get d k = Inr (prop_lookup ns k)" for k using d by (simp add: meta_get_def prop_lookup_def)
  with assms(6) have ty: "prop_lookup ns ''type'' = JStr ty" by simp
  have rows: "chart_rows m d = Inr (r # rows)" for m using assms(5) by (simp add: chart_rows_def)
  have md: "js_get d ''metadata'' = Inr (JObj ns)" using d by (simp add: prop_lookup_def)
  have tr: "js_truthy d" by (simp add: d(1))
  have effect: "\<exists>p. d3_effect E L combo width height d = Inr p \<and> d3_draw E L combo (num_sub (num_sub width (Fin 50)) (Fin 30))
      (num_sub (num_sub height (Fin 20)) (Fin 40)) (r # rows) d = Inr p"
    using assms(7) tr by (auto simp: d3_effect_def rows md ty d3_draw_def get)
  have axes: "ty = ''line'' \<or> ty = ''area'' \<longrightarrow> (\<exists>x y. axis_guard ty d = Inr (r # rows, x, y))"
    using k by (auto simp: ty required_fields_def axis_guard_def rows get)
  have sankey: "ty = ''sankey'' \<longrightarrow> sankey_chart E w h d \<noteq> Inr (Inl slices)" for w h slices
    using k by (auto simp: ty required_fields_def get sankey_chart_def js_bind_eq_Inr)
  have bar: "prop_lookup ns ''xAxis'' = JUndef \<or> prop_lookup ns ''yAxis'' = JUndef \<Longrightarrow>
      bar_chart E d = Inl (JsError ''Missing xAxis or yAxis metadata'')"
    by (auto simp: bar_chart_def axis_guard_def rows get)
  let ?W = "num_sub (num_sub width (Fin 50)) (Fin 30)" and ?H = "num_sub (num_sub height (Fin 20)) (Fin 40)"
  obtain p where p: "d3_effect E L combo width height d = Inr p" "d3_draw E L combo ?W ?H (r # rows) d = Inr p"
    using effect by blast
  have "p \<noteq> Pie slices" if "ty = ''sankey''" for slices
    using p(2) sankey [of ?W ?H] that
    by (cases "sankey_chart E ?W ?H d") (auto simp: d3_draw_def get ty caught_def split: sum.splits)
  moreover have "p = Error_text ''Error: Missing xAxis or yAxis metadata''"
    if "ty = ''bar''" "prop_lookup ns ''xAxis'' = JUndef \<or> prop_lookup ns ''yAxis'' = JUndef"
    using p(2) bar [OF that(2)] that(1) by (simp add: d3_draw_def get ty caught_def)
  ultimately show ?thesis using p(1) axes get by auto
qed

theorem validated_chart_is_drawable_witness:
  "\<exists>x y. axis_guard ''line'' demo_validated = Inr ([JObj [(''day'', JStr ''2023-01-01''), (''stock'', int_val 7)]], x, y)"
  using validated_chart_is_drawable [OF demo_chart_def _ demo_complete demo_validate,
      where r = "JObj [(''day'', JStr ''2023-01-01''), (''stock'', int_val 7)]" and rows = "[]" and ps = "[]"
        and ty = "''line''"]
  by (simp add: demo_validated_def meta_get_def prop_lookup_def)

text \<open>
  The scale of a bar chart: the largest value is zero or one of the values, and no value is larger.
\<close>

theorem bar_max_spec:
  "bar_max vs \<in> insert (Fin 0) (set vs) \<and> (\<forall>v \<in> set vs. \<not> num_lt (bar_max vs) v) \<and> \<not> num_lt (bar_max vs) (Fin 0)"
  using bar_max_aux [of "Fin 0" vs] by (simp add: bar_max_def Let_def)

text \<open>
  The percentage of the gauge, when the rate is at most one: of a number of completed orders among a
  positive number of orders it is a whole number from 0 to 100.
\<close>

theorem gauge_percentage_bounds:
  assumes "0 < t" "c \<le> t"
    and "d = JObj [(''total_orders'', JNum (Fin (of_nat t))), (''completed_orders'', JNum (Fin (of_nat c))),
      (''completion_rate'', JNum (Fin rate))]" "rate \<le> 1"
  shows "\<exists>p. percentValue E d = Inr (int_val p) \<and> 0 \<le> p \<and> p \<le> 100"
proof -
  have q: "0 \<le> (of_nat c :: rat) / of_nat t" "(of_nat c :: rat) / of_nat t \<le> of_int 1"
    using assms(1,2) by (simp_all add: divide_le_eq)
  obtain a where a: "fl (of_nat c / of_nat t) = Fin a" "0 \<le> a" "a \<le> 1" using fl_between [OF q] by auto
  then obtain b where b: "fl (a * 100) = Fin b" "0 \<le> b" "b \<le> 100" using fl_between [of "a * 100" 100] by auto
  have r: "0 \<le> \<lfloor>b + 1 / 2\<rfloor>" "\<lfloor>b + 1 / 2\<rfloor> \<le> 100" using b by (simp_all add: floor_le_iff)
  have or0: "js_or (JNum (Fin x)) (JNum (Fin 0)) = JNum (Fin x)" for x by (simp add: js_or_def)
  have "percentValue E d = Inr (int_val \<lfloor>b + 1 / 2\<rfloor>)"
    using assms a b by (simp add: percentValue_def prop_lookup_def or0 Let_def)
  with r show ?thesis by blast
qed

theorem gauge_percentage_bounds_witness:
  "\<exists>p. percentValue demo_env (JObj [(''total_orders'', JNum (Fin (of_nat 8))), (''completed_orders'', JNum (Fin (of_nat 3))),
      (''completion_rate'', JNum (Fin 0))]) = Inr (int_val p) \<and> 0 \<le> p \<and> p \<le> 100"
  by (rule gauge_percentage_bounds [of 8 3 _ 0]) simp_all

text \<open>
  The bars of a stacked chart are twenty units too low: their height is measured from \<open>innerHeight\<close> while the
  scale starts twenty units below it, so the bar of a value of zero has a negative height. It relies on the linear
  scale mapping the start of its domain to the start of its range.
\<close>

theorem stacked_bar_of_zero:
  assumes "\<And>a b. scaleLinear L (Fin 0, a) (b, Fin 20) (Fin 0) = b" "\<bar>h\<bar> < 2 ^ 52"
  shows "stacked_height L (Fin (of_int h)) stackedMax (Fin 0) = Fin (- 20)"
proof -
  have fl: "fl (of_int i) = Fin (of_int i)" if "\<bar>i\<bar> < 2 ^ 53" for i using fl_int [OF that] .
  have "num_sub (Fin (of_int h)) (Fin 50) = Fin (of_int (h - 50))" using fl [of "h - 50"] assms(2) by (simp add: num_sub_def)
  moreover have "num_sub (num_sub (Fin (of_int h)) (Fin 20)) (Fin 50) = Fin (of_int (h - 70))"
    using fl [of "h - 20"] fl [of "h - 70"] assms(2) by (simp add: num_sub_def)
  ultimately show ?thesis
    using fl [of "- 20"] assms(1) by (simp add: stacked_height_def num_sub_def)
qed

definition demo_d3 :: d3_lib where
  "demo_d3 = \<lparr>d3_min = (\<lambda>vs. None), d3_max = (\<lambda>vs. if vs = [] then None else Some (bar_max vs)), d3_sum = (\<lambda>vs. fold num_add vs (Fin 0)),
     scaleLinear = (\<lambda>dom rng v. if v = fst dom then fst rng else snd rng)\<rparr>"

theorem stacked_bar_of_zero_witness: "stacked_height demo_d3 (Fin (of_int 400)) (Fin 10) (Fin 0) = Fin (- 20)"
  by (rule stacked_bar_of_zero) (simp_all add: demo_d3_def)

definition funnel_row :: "string \<times> int \<Rightarrow> jsval" where
  "funnel_row x = JObj [(''stage'', JStr (fst x)), (''count'', int_val (snd x))]"

fun row_count :: "jsval \<Rightarrow> rat" where
  "row_count (JObj ps) = (case prop_lookup ps ''count'' of JNum (Fin x) \<Rightarrow> - x | _ \<Rightarrow> 0)"
| "row_count v = 0"

lemma funnel_row_value [simp]:
  "getMetricValue E ''count'' (funnel_row x) = Inr (Fin (of_int (snd x)))" "row_count (funnel_row x) = - of_int (snd x)"
  by (simp_all add: funnel_row_def getMetricValue_def number_cell_def prop_lookup_def)

lemma funnel_sorted:
  assumes "sort_law E"
  shows "js_sort E (funnel_order E ''count'') (map funnel_row rows) = Inr (map funnel_row (sort_key (\<lambda>x. - snd x) rows))"
proof -
  have "funnel_order E ''count'' (funnel_row x) (funnel_row y) = Inr (fl (of_int (snd y - snd x)))" for x y
    by (simp add: funnel_order_def num_sub_def)
  then have "consistent (funnel_order E ''count'') row_count (map funnel_row rows)"
    by (auto simp: consistent_def fl_int_sign simp del: of_int_diff)
  with assms have "js_sort E (funnel_order E ''count'') (map funnel_row rows) = Inr (sort_key row_count (map funnel_row rows))"
    unfolding sort_law_def by blast
  also have "sort_key row_count (map funnel_row rows) = map funnel_row (sort_key (\<lambda>x. - snd x) rows)"
    unfolding sort_key_map by (intro arg_cong [where f = "map funnel_row"] sort_key_order) simp
  finally show ?thesis .
qed

lemma js_map_funnel: "js_map (getMetricValue E ''count'') (map funnel_row rows) = Inr (map (\<lambda>x. Fin (of_int (snd x))) rows)"
  by (induction rows) auto

text \<open>
  The segments of a funnel: one for each row, in descending order of the counts (rows with equal counts in the order of
  the response), each with its share of the largest count; when all counts are zero every share is \<open>NaN\<close>. It
  relies on \<open>sort\<close> sorting stably and on \<open>d3.max\<close> giving the largest number.
\<close>

theorem funnel_segments_spec:
  assumes "sort_law E" "rows \<noteq> []" "\<And>ns. ns \<noteq> [] \<Longrightarrow> d3_max L (map (\<lambda>n. Fin (of_int n)) ns) = Some (Fin (of_int (Max (set ns))))"
    and "d = JObj [(''data'', arr (map funnel_row rows)),
      (''metadata'', JObj [(''type'', JStr ''funnel''), (''dimension'', JStr ''stage''), (''metric'', JStr ''count'')])]"
  shows "\<exists>ss. funnel_chart E L w h d = Inr ss \<and>
     map seg_value ss = map (\<lambda>x. Fin (of_int (snd x))) (sort_key (\<lambda>x. - snd x) rows) \<and>
     (\<forall>s \<in> set ss. seg_percentage s = num_div (seg_value s) (Fin (of_int (Max (snd ` set rows))))) \<and>
     ((\<forall>x \<in> set rows. snd x = 0) \<longrightarrow> (\<forall>s \<in> set ss. seg_percentage s = NaN))"
proof -
  let ?sorted = "sort_key (\<lambda>x. - snd x) rows" and ?max = "Fin (of_int (Max (snd ` set rows)))"
  let ?vs = "map (\<lambda>x. Fin (of_int (snd x))) ?sorted"
  define ss where "ss = map (\<lambda>(i, v). funnel_segment w h (length ?vs) ?max i v) (enumerate 0 ?vs)"
  have "d3_max L (map (\<lambda>n. Fin (of_int n)) (map snd ?sorted)) = Some (Fin (of_int (Max (set (map snd ?sorted)))))"
    using assms(2) by (intro assms(3)) (simp flip: length_greater_0_conv)
  then have max: "or_zero (d3_max L ?vs) = ?max" by (simp add: or_zero_def comp_def)
  obtain r rs where rows: "map funnel_row rows = r # rs" using assms(2) by (cases rows) auto
  have data: "chart_rows msg d = Inr (map funnel_row rows)" for msg unfolding chart_rows_def assms(4) by (simp add: prop_lookup_def rows)
  have meta: "meta_get d ''dimension'' = Inr (JStr ''stage'')" "primaryMetric E d = Inr ''count''"
    unfolding assms(4) by (simp_all add: meta_get_def prop_lookup_def primaryMetric_def js_or_def)
  have "funnel_chart E L w h d = Inr ss"
    unfolding funnel_chart_def data meta js_bind_simps funnel_sorted [OF assms(1)] js_map_funnel max Let_def ss_def by simp
  moreover have vals: "map seg_value ss = ?vs"
    unfolding ss_def by (intro nth_equalityI) (simp_all add: funnel_segment_def Let_def nth_enumerate_eq)
  moreover have share: "\<forall>s \<in> set ss. seg_percentage s = num_div (seg_value s) ?max"
    by (auto simp: ss_def funnel_segment_def Let_def)
  moreover have "\<forall>s \<in> set ss. seg_percentage s = NaN" if "\<forall>x \<in> set rows. snd x = 0"
  proof -
    have "snd ` set rows = {0}" using that assms(2) by (cases rows) auto
    moreover have "seg_value ` set ss = (\<lambda>x. Fin (of_int (snd x))) ` set rows"
      using arg_cong [OF vals, of set] by simp
    with that have "seg_value s = Fin 0" if "s \<in> set ss" for s using imageI [OF that, of seg_value] by auto
    ultimately show ?thesis using share by (simp add: inf_of_sgn_def)
  qed
  ultimately show ?thesis by blast
qed

lemma demo_d3_max: "ns \<noteq> [] \<Longrightarrow> d3_max zero_d3 (map (\<lambda>n. Fin (of_int n)) ns) = Some (Fin (of_int (Max (set ns))))"
  if "zero_d3 = demo_d3\<lparr>d3_max := (\<lambda>vs. case vs of [] \<Rightarrow> None | v # us \<Rightarrow> Some (fold Math_max us v))\<rparr>" for zero_d3
proof (cases ns)
  case (Cons n ms)
  have "fold Math_max (map (\<lambda>n. Fin (of_int n)) ms) (Fin (of_int m)) = Fin (of_int (fold max ms m))" for m
    by (induction ms arbitrary: m) (auto simp: Math_max_def max_def)
  moreover have "Max (set ns) = fold max ms n" unfolding Cons by (rule Max.set_eq_fold)
  ultimately show ?thesis by (simp add: that Cons)
qed simp

theorem funnel_segments_spec_witness:
  "\<exists>ss. funnel_chart demo_env (demo_d3\<lparr>d3_max := (\<lambda>vs. case vs of [] \<Rightarrow> None | v # us \<Rightarrow> Some (fold Math_max us v))\<rparr>) (Fin 600) (Fin 400)
     (JObj [(''data'', arr (map funnel_row [(''new'', 0), (''paid'', 0)])),
       (''metadata'', JObj [(''type'', JStr ''funnel''), (''dimension'', JStr ''stage''), (''metric'', JStr ''count'')])]) = Inr ss \<and>
     seg_percentage (hd ss) = NaN"
proof -
  obtain ss where ss: "funnel_chart demo_env (demo_d3\<lparr>d3_max := (\<lambda>vs. case vs of [] \<Rightarrow> None | v # us \<Rightarrow> Some (fold Math_max us v))\<rparr>) (Fin 600) (Fin 400)
     (JObj [(''data'', arr (map funnel_row [(''new'', 0), (''paid'', 0)])),
       (''metadata'', JObj [(''type'', JStr ''funnel''), (''dimension'', JStr ''stage''), (''metric'', JStr ''count'')])]) = Inr ss"
    "map seg_value ss = [Fin 0, Fin 0]" "\<forall>s \<in> set ss. seg_percentage s = NaN"
    using funnel_segments_spec [OF demo_sort_law _ demo_d3_max [OF refl] refl, where rows = "[(''new'', 0), (''paid'', 0)]"
        and w = "Fin 600" and h = "Fin 400"] by auto
  then have "hd ss \<in> set ss" by (cases ss) auto
  with ss show ?thesis by blast
qed

end
