(* ===== verification/Dashboard_Widgets.thy ===== *)
theory Dashboard_Widgets
  imports Backoffice_Config D3_Charts
begin

text \<open>
  Smaller parts of the dashboard with a state of their own: \<open>ui/AutocompleteSelect.tsx\<close>,
  \<open>backoffice/components/organisms/SearchAndFilter.tsx\<close> and \<open>BackofficeNavigation.tsx\<close>, the loading of chart data in
  \<open>templates/ChartBuilder.tsx\<close>, and the choice of a chart in \<open>utils/ChartBuilder.ts\<close> and \<open>organisms/ChartFactory.tsx\<close>.
  The query cache is reduced to the options that arrive.
\<close>

section \<open>AutocompleteSelect\<close>

record ac_option =
  opt_value :: string
  opt_label :: string

text \<open>\<open>ac_value\<close> is the property that the parent passes, \<open>ac_changes\<close> the calls of \<open>onChange\<close>.\<close>

record autocomplete =
  ac_isOpen :: bool
  ac_search :: string
  ac_selectedLabel :: string
  ac_value :: string
  ac_options :: "ac_option list"
  ac_changes :: "string list"

definition new_autocomplete :: "string \<Rightarrow> autocomplete" where
  "new_autocomplete v =
     \<lparr>ac_isOpen = False, ac_search = [], ac_selectedLabel = [], ac_value = v, ac_options = [], ac_changes = []\<rparr>"

text \<open>The effect on \<open>[value, options]\<close>.\<close>

definition label_effect :: "autocomplete \<Rightarrow> autocomplete" where
  "label_effect a =
     (if ac_value a \<noteq> [] \<and> ac_options a \<noteq> []
      then case List.find (\<lambda>opt. opt_value opt = ac_value a) (ac_options a) of
        Some opt \<Rightarrow> a\<lparr>ac_selectedLabel := opt_label opt\<rparr> | None \<Rightarrow> a
      else a)"

definition ac_handleClose :: "autocomplete \<Rightarrow> autocomplete" where
  "ac_handleClose a = a\<lparr>ac_isOpen := False, ac_search := []\<rparr>"

definition ac_handleSelect :: "ac_option \<Rightarrow> autocomplete \<Rightarrow> autocomplete" where
  "ac_handleSelect opt a =
     a\<lparr>ac_changes := ac_changes a @ [opt_value opt], ac_selectedLabel := opt_label opt, ac_isOpen := False, ac_search := []\<rparr>"

definition toggleDropdown :: "autocomplete \<Rightarrow> autocomplete" where
  "toggleDropdown a = a\<lparr>ac_isOpen := \<not> ac_isOpen a\<rparr>"

definition ac_handleKeyDown :: "string \<Rightarrow> autocomplete \<Rightarrow> autocomplete" where
  "ac_handleKeyDown key a = (if key = ''Enter'' then toggleDropdown a else a)"

text \<open>\<open>(selectedLabel || placeholder) ?? `Select ${label}...`\<close>\<close>

definition displayLabel :: "string option \<Rightarrow> string \<Rightarrow> autocomplete \<Rightarrow> string" where
  "displayLabel placeholder label a =
     (if ac_selectedLabel a \<noteq> [] then ac_selectedLabel a
      else case placeholder of Some p \<Rightarrow> p | None \<Rightarrow> ''Select '' @ label @ ''...'')"

datatype ac_event =
  Toggle | Key string | Type string | Outside | Options "ac_option list" | Pick ac_option | Parent string

text \<open>
  A click on the search field lies inside the control, so it is a \<open>Toggle\<close> as well. When an option is picked the parent
  answers \<open>onChange\<close> with the new value.
\<close>

fun ac_step :: "ac_event \<Rightarrow> autocomplete \<Rightarrow> autocomplete" where
  "ac_step Toggle a = toggleDropdown a"
| "ac_step (Key k) a = ac_handleKeyDown k a"
| "ac_step (Type s) a = a\<lparr>ac_search := s\<rparr>"
| "ac_step Outside a = ac_handleClose a"
| "ac_step (Options os) a = label_effect (a\<lparr>ac_options := os\<rparr>)"
| "ac_step (Pick opt) a = label_effect ((ac_handleSelect opt a)\<lparr>ac_value := opt_value opt\<rparr>)"
| "ac_step (Parent v) a = label_effect (a\<lparr>ac_value := v\<rparr>)"

section \<open>SearchAndFilter\<close>

record search_filter =
  searchTerm :: string
  activeFilters :: "(string \<times> jsval) list"
  searched :: "string list"
  filtered_by :: "(string \<times> jsval) list"

definition sf_handleSearch :: "search_filter \<Rightarrow> search_filter" where
  "sf_handleSearch s = s\<lparr>searched := searched s @ [searchTerm s]\<rparr>"

definition sf_handleFilterChange :: "string \<Rightarrow> jsval \<Rightarrow> search_filter \<Rightarrow> search_filter" where
  "sf_handleFilterChange f v s =
     s\<lparr>activeFilters := props_put (activeFilters s) f v, filtered_by := filtered_by s @ [(f, v)]\<rparr>"

text \<open>\<open>e.target.valueAsNumber || null\<close> for a number, \<open>e.target.value\<close> otherwise; \<open>number\<close> is the value of the control.\<close>

definition sf_control_value :: "string \<Rightarrow> string \<Rightarrow> jsnum \<Rightarrow> jsval" where
  "sf_control_value ty text number =
     (if ty = ''number'' then js_or (JNum number) JNull else JStr text)"

text \<open>What the control shows: \<open>activeFilters[field] || ""\<close>.\<close>

definition sf_shown :: "search_filter \<Rightarrow> string \<Rightarrow> jsval" where
  "sf_shown s f = js_or (prop_lookup (activeFilters s) f) (JStr [])"

section \<open>BackofficeNavigation\<close>

definition nav_isActive :: "string \<Rightarrow> string option \<Rightarrow> string \<Rightarrow> bool" where
  "nav_isActive pathname moduleId href \<longleftrightarrow>
     (if href = ''/'' then pathname = href
      else startsWith pathname href \<or>
        list_ex (\<lambda>i. startsWith (drop i href) (case moduleId of Some m \<Rightarrow> m | None \<Rightarrow> ''undefined'')) [0..<Suc (length href)])"

text \<open>\<open>a ?? b ?? c\<close> on the title, the label and the addresses of a module.\<close>

definition nav_label :: "string option \<Rightarrow> string option \<Rightarrow> string" where
  "nav_label title label = (case title of Some t \<Rightarrow> t | None \<Rightarrow> (case label of Some l \<Rightarrow> l | None \<Rightarrow> ''Unknown''))"

definition nav_href :: "string option \<Rightarrow> string option \<Rightarrow> string" where
  "nav_href href basePath = (case href of Some h \<Rightarrow> h | None \<Rightarrow> (case basePath of Some b \<Rightarrow> b | None \<Rightarrow> ''#''))"

section \<open>Loading the data of a chart\<close>

record chart_loader =
  cl_data :: jsval
  cl_loading :: bool
  cl_error :: "exn option"

definition new_loader :: chart_loader where
  "new_loader = \<lparr>cl_data = JNull, cl_loading = True, cl_error = None\<rparr>"

text \<open>\<open>fetchData\<close> up to its \<open>await\<close>, and the rest of it.\<close>

definition fetch_begin :: "chart_loader \<Rightarrow> chart_loader" where
  "fetch_begin c = c\<lparr>cl_loading := True\<rparr>"

definition fetch_end :: "jsval js \<Rightarrow> chart_loader \<Rightarrow> chart_loader" where
  "fetch_end outcome c =
     (case outcome of
        Inr d \<Rightarrow> c\<lparr>cl_data := d, cl_error := None, cl_loading := False\<rparr>
      | Inl e \<Rightarrow> c\<lparr>cl_error := Some e, cl_loading := False\<rparr>)"

datatype chart_view = Spinner | Failed | No_data | Chart jsval

definition chart_view_of :: "chart_loader \<Rightarrow> chart_view" where
  "chart_view_of c =
     (if cl_loading c \<and> \<not> js_truthy (cl_data c) then Spinner
      else if cl_error c \<noteq> None then Failed
      else if \<not> js_truthy (cl_data c) then No_data else Chart (cl_data c))"

datatype fetch_event = Begin | End "jsval js"

fun fetch_step :: "fetch_event \<Rightarrow> chart_loader \<Rightarrow> chart_loader" where
  "fetch_step Begin c = fetch_begin c"
| "fetch_step (End r) c = fetch_end r c"

section \<open>Legends and the choice of a chart\<close>

definition defaultColors :: "string list" where
  "defaultColors = [''#ff5470'', ''#6bf178'', ''#ffe74c'', ''#5364ff'', ''#9b5de5'', ''#00bbf9'', ''#00f5d4'']"

definition getSeriesNames :: "js_env \<Rightarrow> jsval \<Rightarrow> jsval list js" where
  "getSeriesNames E d =
     js_bind (meta_get d ''type'') (\<lambda>ty.
       if ty = JStr ''pie'' \<or> ty = JStr ''donut''
       then js_bind (meta_get d ''dimension'') (\<lambda>k. js_bind (js_get d ''data'') (\<lambda>rows.
         js_bind (js_toString E (js_or k (JStr ''dimension''))) (\<lambda>key.
           case rows of JArr xs ps \<Rightarrow> js_map (\<lambda>r. js_get r key) xs | _ \<Rightarrow> Inl TypeError)))
       else js_bind (meta_get d ''yAxis'') (\<lambda>y. js_bind (meta_get d ''metrics'') (\<lambda>ms.
         case (y, ms) of
           (JArr ys ps, _) \<Rightarrow> Inr ys
         | (_, JArr xs ps) \<Rightarrow> Inr xs
         | (JStr s, _) \<Rightarrow> Inr (if s = [] then [JStr ''value''] else [JStr s])
         | _ \<Rightarrow> Inr [JStr ''value''])))"

text \<open>\<open>colors[index % colors.length]\<close>; an empty palette gives \<open>undefined\<close>.\<close>

definition legend_color :: "string list \<Rightarrow> nat \<Rightarrow> jsval" where
  "legend_color colors i = (if colors = [] then JUndef else JStr (colors ! (i mod length colors)))"

definition generateLegendItems :: "js_env \<Rightarrow> string list option \<Rightarrow> jsval \<Rightarrow> (jsval \<times> jsval) list js" where
  "generateLegendItems E palette d =
     (let colors = (case palette of Some p \<Rightarrow> p | None \<Rightarrow> defaultColors)
      in js_bind (getSeriesNames E d) (\<lambda>names. Inr (map (\<lambda>(i, n). (n, legend_color colors i)) (enumerate 0 names))))"

text \<open>The component that \<open>ChartFactory\<close> renders, with the keys it passes.\<close>

datatype chart_choice =
    No_data_display
  | LineChart jsval jsval
  | BarChart jsval jsval bool bool
  | PieChart jsval jsval bool
  | Not_implemented jsval

definition chart_factory :: "js_env \<Rightarrow> jsval \<Rightarrow> chart_choice js" where
  "chart_factory E d =
     js_bind (has_rows E d) (\<lambda>b. if \<not> b then Inr No_data_display
     else js_bind (meta_get d ''type'') (\<lambda>ty. js_bind (meta_get d ''xAxis'') (\<lambda>x. js_bind (meta_get d ''yAxis'') (\<lambda>y.
       js_bind (meta_get d ''metrics'') (\<lambda>ms. js_bind (meta_get d ''dimension'') (\<lambda>dm. js_bind (meta_get d ''metric'') (\<lambda>m.
       Inr (if ty = JStr ''line'' \<or> ty = JStr ''area'' then LineChart (nullish x (JStr ''x'')) (nullish y (JStr ''y''))
         else if ty = JStr ''bar'' \<or> ty = JStr ''stacked-bar'' \<or> ty = JStr ''horizontal-bar''
         then BarChart (nullish x (JStr ''x'')) (js_or (js_or y ms) (JStr ''y'')) (ty = JStr ''stacked-bar'') (ty = JStr ''horizontal-bar'')
         else if ty = JStr ''pie'' \<or> ty = JStr ''donut''
         then PieChart (nullish dm (JStr ''dimension'')) (nullish m (JStr ''value'')) (ty = JStr ''donut'')
         else Not_implemented ty))))))))"

section \<open>Properties\<close>

lemma label_effect_fields [simp]:
  "ac_value (label_effect a) = ac_value a" "ac_options (label_effect a) = ac_options a" "ac_isOpen (label_effect a) = ac_isOpen a"
  by (simp_all add: label_effect_def split: option.split)

text \<open>Every option that an event brings has the label of its value.\<close>

definition event_ok :: "(string \<Rightarrow> string) \<Rightarrow> ac_event \<Rightarrow> bool" where
  "event_ok L e \<longleftrightarrow> (case e of
       Options os \<Rightarrow> \<forall>opt \<in> set os. opt_label opt = L (opt_value opt)
     | Pick opt \<Rightarrow> opt_label opt = L (opt_value opt)
     | Parent v \<Rightarrow> False
     | _ \<Rightarrow> True)"

definition label_ok :: "(string \<Rightarrow> string) \<Rightarrow> autocomplete \<Rightarrow> bool" where
  "label_ok L a \<longleftrightarrow> (ac_selectedLabel a = [] \<or> ac_selectedLabel a = L (ac_value a)) \<and>
     (\<forall>opt \<in> set (ac_options a). opt_label opt = L (opt_value opt))"

lemma label_effect_ok:
  assumes "label_ok L a"
  shows "label_ok L (label_effect a)"
proof -
  have "opt_label opt = L (ac_value a)" if "List.find (\<lambda>opt. opt_value opt = ac_value a) (ac_options a) = Some opt" for opt
    using that assms unfolding label_ok_def find_Some_iff by (metis nth_mem)
  with assms show ?thesis by (auto simp: label_ok_def label_effect_def split: option.split)
qed

lemma ac_step_ok:
  assumes "label_ok L a" "event_ok L e"
  shows "label_ok L (ac_step e a)"
proof (cases e)
  case (Options os)
  with assms have "label_ok L (a\<lparr>ac_options := os\<rparr>)" by (auto simp: label_ok_def event_ok_def)
  with Options show ?thesis by (simp add: label_effect_ok)
next
  case (Pick opt)
  with assms have "label_ok L ((ac_handleSelect opt a)\<lparr>ac_value := opt_value opt\<rparr>)"
    by (auto simp: label_ok_def event_ok_def ac_handleSelect_def)
  with Pick show ?thesis by (simp add: label_effect_ok)
qed (use assms in \<open>auto simp: label_ok_def event_ok_def toggleDropdown_def ac_handleKeyDown_def ac_handleClose_def\<close>)

text \<open>
  The label of an autocomplete field. As long as only the user changes the value, whatever is typed, opened,
  loaded and picked, the field shows no label or the label of its value. When the form around it clears the value,
  the label of the old value stays.
\<close>

theorem autocomplete_label_spec:
  assumes "\<forall>e \<in> set es. event_ok L e"
  shows "let a = fold ac_step es (new_autocomplete v) in
     (ac_selectedLabel a = [] \<or> ac_selectedLabel a = L (ac_value a)) \<and>
     ac_value (ac_step (Parent []) a) = [] \<and> ac_selectedLabel (ac_step (Parent []) a) = ac_selectedLabel a"
proof -
  have "label_ok L a \<Longrightarrow> label_ok L (fold ac_step es a)" for a
    using assms by (induction es arbitrary: a) (auto intro: ac_step_ok)
  moreover have "label_ok L (new_autocomplete v)" by (simp add: label_ok_def new_autocomplete_def)
  ultimately have "label_ok L (fold ac_step es (new_autocomplete v))" by blast
  then show ?thesis by (simp add: Let_def label_ok_def label_effect_def)
qed

theorem autocomplete_label_spec_witness:
  "displayLabel None ''Item'' (ac_step (Parent []) (fold ac_step [Toggle, Options [\<lparr>opt_value = ''1'', opt_label = ''Chair''\<rparr>],
     Pick \<lparr>opt_value = ''1'', opt_label = ''Chair''\<rparr>] (new_autocomplete []))) = ''Chair''"
proof -
  let ?es = "[Toggle, Options [\<lparr>opt_value = ''1'', opt_label = ''Chair''\<rparr>], Pick \<lparr>opt_value = ''1'', opt_label = ''Chair''\<rparr>]"
  have "ac_selectedLabel (fold ac_step ?es (new_autocomplete [])) = ''Chair''"
    by (simp add: new_autocomplete_def label_effect_def ac_handleSelect_def toggleDropdown_def)
  then show ?thesis
    using autocomplete_label_spec [of ?es "\<lambda>v. ''Chair''" "[]"] by (simp add: event_ok_def displayLabel_def Let_def)
qed

text \<open>The outcomes of the requests in the order in which they ended.\<close>

fun outcomes :: "fetch_event list \<Rightarrow> jsval js list" where
  "outcomes [] = []"
| "outcomes (Begin # es) = outcomes es"
| "outcomes (End r # es) = r # outcomes es"

definition last_data :: "jsval js list \<Rightarrow> jsval" where
  "last_data rs = fold (\<lambda>r d. case r of Inr v \<Rightarrow> v | Inl e \<Rightarrow> d) rs JNull"

lemma outcomes_append [simp]: "outcomes (es @ fs) = outcomes es @ outcomes fs"
  by (induction es rule: outcomes.induct) auto

lemma loader_state:
  "fold fetch_step es new_loader =
     \<lparr>cl_data = last_data (outcomes es), cl_loading = (es = [] \<or> last es = Begin),
      cl_error = (if outcomes es = [] then None else (case last (outcomes es) of Inl e \<Rightarrow> Some e | Inr d \<Rightarrow> None))\<rparr>"
proof (induction es rule: rev_induct)
  case (snoc e es)
  then show ?case
    by (cases e) (auto simp: fetch_begin_def fetch_end_def last_data_def split: sum.split)
qed (simp add: new_loader_def last_data_def)

text \<open>
  What a chart with a refresh interval shows, for every interleaving of its requests: the answer that arrived last,
  however late it was sent; a failure replaces the chart even when there are data; the spinner is shown only before
  the first data.
\<close>

theorem chart_loader_spec:
  assumes "es \<noteq> []" "\<forall>d. Inr d \<in> set (outcomes es) \<longrightarrow> js_truthy d"
  shows "chart_view_of (fold fetch_step es new_loader) =
     (if last es = Begin \<and> (\<forall>d. Inr d \<notin> set (outcomes es)) then Spinner
      else case last (outcomes es) of Inl e \<Rightarrow> Failed | Inr d \<Rightarrow> Chart d)"
proof -
  have t: "(\<forall>d. Inr d \<in> set rs \<longrightarrow> js_truthy d) \<Longrightarrow> js_truthy (last_data rs) \<longleftrightarrow> (\<exists>d. Inr d \<in> set rs)" for rs
    by (induction rs rule: rev_induct) (auto simp: last_data_def split: sum.splits)
  have l: "rs \<noteq> [] \<Longrightarrow> last rs = Inr d \<Longrightarrow> last_data rs = d" for rs d
    by (induction rs rule: rev_induct) (auto simp: last_data_def)
  have e: "outcomes es \<noteq> []" if "last es \<noteq> Begin"
    using that assms(1) by (cases es rule: rev_cases; cases "last es") auto
  show ?thesis
  proof (cases "outcomes es = []")
    case True
    with e assms(1) show ?thesis by (auto simp: chart_view_of_def loader_state last_data_def)
  next
    case False
    show ?thesis
    proof (cases "last (outcomes es)")
      case (Inl x)
      with False t [OF assms(2)] show ?thesis by (auto simp: chart_view_of_def loader_state)
    next
      case (Inr d)
      then have "Inr d \<in> set (outcomes es)" using False by (metis last_in_set)
      with Inr False l [OF False Inr] assms(2) show ?thesis by (auto simp: chart_view_of_def loader_state)
    qed
  qed
qed

theorem chart_loader_spec_witness:
  "chart_view_of (fold fetch_step [Begin, Begin, End (Inr (JStr ''new'')), End (Inr (JStr ''old''))] new_loader) = Chart (JStr ''old'')"
  using chart_loader_spec [of "[Begin, Begin, End (Inr (JStr ''new'')), End (Inr (JStr ''old''))]"] by auto

text \<open>A filter for the number zero is taken for no filter.\<close>

theorem zero_filter_lost: "sf_control_value ''number'' ''0'' (Fin 0) = JNull"
  by (simp add: sf_control_value_def js_or_def)

end
