(* ===== verification/Landing_Toasts.thy ===== *)
theory Landing_Toasts
  imports JS_Value
begin

text \<open>
  The notices of the landing page, \<open>ToastManager\<close> in \<open>components/molecules/ToastContainer.astro\<close>: which messages from
  other windows become a notice, what it contains and when the same notice may appear again. Times are milliseconds.
\<close>

record toast =
  t_id :: string
  t_class :: string
  t_html :: string
  t_until :: nat

record toast_manager =
  container :: "toast list"
  activeToasts :: "(string \<times> nat) list"

definition typeClass :: "string \<Rightarrow> string" where
  "typeClass ty =
     (if ty = ''success'' then ''bg-accent border-black text-black''
      else if ty = ''error'' then ''bg-primary border-black text-white''
      else if ty = ''warning'' then ''bg-[#FFA500] border-black text-black''
      else ''bg-secondary border-black text-black'')"

text \<open>The markup without its indentation; title and description are inserted as they are.\<close>

definition toast_html :: "string \<Rightarrow> string \<Rightarrow> string" where
  "toast_html title description =
     ''<div class=\"flex justify-between items-start\"><div><h3 class=\"font-bold text-lg\">'' @ title @ ''</h3>'' @
     (if description = [] then [] else ''<p class=\"mt-1\">'' @ description @ ''</p>'') @
     ''</div><button class=\"text-2xl font-bold leading-none\" data-close-toast>&times;</button></div>''"

text \<open>\<open>showToast\<close> with the duration of five seconds; the notice fades out for 300 milliseconds before it is
  removed, and the key is free again half a second after the five seconds.\<close>

definition showToast :: "nat \<Rightarrow> string \<Rightarrow> string \<Rightarrow> string \<Rightarrow> string \<Rightarrow> toast_manager \<Rightarrow> toast_manager" where
  "showToast now title description ty key m =
     m\<lparr>activeToasts := (key, now + 5500) # activeToasts m,
       container := container m @ [\<lparr>t_id = ''toast-'' @ key, t_class = ''fixed right-4 -top-20 z-50 w-80 p-4 rounded-md border-[3px] shadow-neo transition-all duration-300 '' @ typeClass ty,
         t_html = toast_html title description,
         t_until = now + 5000 + 300\<rparr>]\<rparr>"

text \<open>The timers that have run by now: keys are deleted and notices removed.\<close>

definition toast_tick :: "nat \<Rightarrow> toast_manager \<Rightarrow> toast_manager" where
  "toast_tick now m =
     m\<lparr>activeToasts := filter (\<lambda>(k, t). now < t) (activeToasts m), container := filter (\<lambda>t. now < t_until t) (container m)\<rparr>"

text \<open>A click on the cross of a notice.\<close>

definition hideToast :: "nat \<Rightarrow> string \<Rightarrow> toast_manager \<Rightarrow> toast_manager" where
  "hideToast now i m =
     m\<lparr>container := map (\<lambda>t. if t_id t = i then t\<lparr>t_until := min (t_until t) (now + 300)\<rparr> else t) (container m)\<rparr>"

text \<open>\<open>data.message || fallback\<close> as a text.\<close>

definition message_or :: "js_env \<Rightarrow> jsval \<Rightarrow> string \<Rightarrow> string js" where
  "message_or E data fallback = js_bind (js_get data ''message'') (\<lambda>v. js_toString E (js_or v (JStr fallback)))"

text \<open>The listener of \<open>message\<close>; an exception has no effect. The origin of the message is not looked at.\<close>

definition handleAuthToast :: "js_env \<Rightarrow> nat \<Rightarrow> string \<Rightarrow> jsval \<Rightarrow> toast_manager \<Rightarrow> toast_manager js" where
  "handleAuthToast E now origin data m =
     (if \<not> js_truthy data then Inr m
      else js_bind (js_get data ''type'') (\<lambda>ty. js_bind (js_get data ''source'') (\<lambda>src.
        if \<not> js_truthy ty \<or> src = JStr ''react-devtools-content-script'' then Inr m
        else js_bind (js_toString E ty) (\<lambda>tys. js_bind (message_or E data []) (\<lambda>ms.
          let key = tys @ ''-'' @ ms
          in if key \<in> fst ` set (activeToasts m) then Inr m
             else if ty = JStr ''AUTH_SUCCESS'' then
               Inr (showToast now ''Authentication Successful'' ''You have been successfully logged in.'' ''success'' key m)
             else if ty = JStr ''AUTH_ERROR'' then
               js_bind (message_or E data ''Please check your credentials and try again.'') (\<lambda>d.
                 Inr (showToast now ''Authentication Failed'' d ''error'' key m))
             else if ty = JStr ''AUTH_LOGOUT'' then
               Inr (showToast now ''Logged Out'' ''You have been successfully logged out.'' ''info'' key m)
             else if ty = JStr ''REGISTRATION_SUCCESS'' then
               Inr (showToast now ''Registration Successful'' ''Your account has been created. You can now log in.'' ''success'' key m)
             else if ty = JStr ''REGISTRATION_ERROR'' then
               js_bind (message_or E data ''Please check your information and try again.'') (\<lambda>d.
                 Inr (showToast now ''Registration Failed'' d ''error'' key m))
             else Inr m)))))"

definition receive_toast :: "js_env \<Rightarrow> nat \<Rightarrow> string \<Rightarrow> jsval \<Rightarrow> toast_manager \<Rightarrow> toast_manager" where
  "receive_toast E now origin data m =
     (case handleAuthToast E now origin data (toast_tick now m) of Inl e \<Rightarrow> toast_tick now m | Inr m' \<Rightarrow> m')"

section \<open>Properties\<close>

definition no_toasts :: toast_manager where
  "no_toasts = \<lparr>container = [], activeToasts = []\<rparr>"

definition auth_error :: "string \<Rightarrow> jsval" where
  "auth_error t = JObj [(''type'', JStr ''AUTH_ERROR''), (''message'', JStr t)]"

lemma auth_error_received:
  assumes "t \<noteq> []"
  shows "receive_toast E now orig (auth_error t) m =
    (if ''AUTH_ERROR-'' @ t \<in> fst ` set (activeToasts (toast_tick now m)) then toast_tick now m
     else showToast now ''Authentication Failed'' t ''error'' (''AUTH_ERROR-'' @ t) (toast_tick now m))"
  using assms by (simp add: receive_toast_def handleAuthToast_def auth_error_def message_or_def js_or_def prop_lookup_def Let_def)

lemma toast_html_described:
  assumes "d \<noteq> []"
  shows "\<exists>pre rest. toast_html title d = pre @ ''<p class=\"mt-1\">'' @ d @ ''</p>'' @ rest"
  unfolding toast_html_def using assms
  by (intro exI [of _ "''<div class=\"flex justify-between items-start\"><div><h3 class=\"font-bold text-lg\">'' @ title @ ''</h3>''"]
        exI [of _ "''</div><button class=\"text-2xl font-bold leading-none\" data-close-toast>&times;</button></div>''"]) simp

lemma first_auth_error:
  assumes "t \<noteq> []"
  shows "receive_toast E now orig (auth_error t) no_toasts =
    showToast now ''Authentication Failed'' t ''error'' (''AUTH_ERROR-'' @ t) no_toasts"
  unfolding auth_error_received [OF assms] by (simp add: toast_tick_def no_toasts_def)

text \<open>
  A notice of a failed login. A message from any window, of any origin, puts its text unchanged into the markup of
  the page. The same message within five and a half seconds adds no second notice, and after that it does; the notice is
  gone 200 milliseconds before its key is free again.
\<close>

theorem toast_shows_foreign_markup:
  assumes "t \<noteq> []"
  shows "let m = receive_toast E now orig (auth_error t) no_toasts;
             again = (\<lambda>d. receive_toast E (now + d) orig (auth_error t) m) in
     (\<exists>pre rest. map t_html (container m) = [pre @ ''<p class=\"mt-1\">'' @ t @ ''</p>'' @ rest]) \<and>
     (\<forall>d. length (activeToasts (again d)) = 1 \<and>
        length (container (again d)) = (if d < 5300 then 1 else if d < 5500 then 0 else 1))"
proof -
  define m where "m = showToast now ''Authentication Failed'' t ''error'' (''AUTH_ERROR-'' @ t) no_toasts"
  have m: "map t_html (container m) = [toast_html ''Authentication Failed'' t]"
    "map t_until (container m) = [now + 5300]" "activeToasts m = [(''AUTH_ERROR-'' @ t, now + 5500)]"
    by (simp_all add: m_def showToast_def no_toasts_def)
  then obtain x where x: "container m = [x]" "t_until x = now + 5300" by auto
  have "length (activeToasts (receive_toast E (now + d) orig (auth_error t) m)) = 1 \<and>
      length (container (receive_toast E (now + d) orig (auth_error t) m)) = (if d < 5300 then 1 else if d < 5500 then 0 else 1)" for d
    unfolding auth_error_received [OF assms] by (simp add: toast_tick_def showToast_def m(3) x)
  moreover have "\<exists>pre rest. map t_html (container m) = [pre @ ''<p class=\"mt-1\">'' @ t @ ''</p>'' @ rest]"
    using toast_html_described [OF assms] unfolding m(1) by simp
  ultimately show ?thesis
    unfolding first_auth_error [OF assms] Let_def m_def [symmetric] by blast
qed

theorem toast_shows_foreign_markup_witness:
  "\<exists>pre rest. map t_html (container (receive_toast demo_env 0 ''https://evil.example'' (auth_error ''<img src=x>'') no_toasts)) =
     [pre @ ''<p class=\"mt-1\">'' @ ''<img src=x>'' @ ''</p>'' @ rest]"
  using toast_shows_foreign_markup [of "''<img src=x>''" demo_env 0 "''https://evil.example''"] unfolding Let_def by blast

end
