(* ===== verification/Analytics_Pages.thy ===== *)
theory Analytics_Pages
  imports Analytics_Hook
begin

text \<open>
  The pages under \<open>pages/analytics\<close> that load their charts together: \<open>inventory.tsx\<close>, \<open>orders.tsx\<close>, \<open>transactions.tsx\<close>,
  \<open>performance.tsx\<close> and \<open>business.tsx\<close>. Each starts its getters of \<open>useAnalytics\<close> at once, waits for all of them with
  \<open>Promise.all\<close> and shares one loading flag and one error between them; the getters settle in any order.
\<close>

section \<open>The pages\<close>

type_synonym getter = "(string \<Rightarrow> jsval js) \<Rightarrow> analytics_state \<Rightarrow> jsval js \<times> analytics_state"

text \<open>\<open>page_calls\<close>: the variable that receives the chart, and the getter, in the order of \<open>Promise.all\<close>;
  \<open>page_panels\<close>: the headings with the variable they show.\<close>

record analytics_page =
  page_calls :: "(string \<times> getter) list"
  page_panels :: "(string \<times> string) list"

definition inventory_page :: "js_env \<Rightarrow> analytics_page" where
  "inventory_page E =
     \<lparr>page_calls = [(''stockTrends'', getStockLevelTrends E), (''distribution'', getInventoryDistribution E),
        (''warehouseDistribution'', getWarehouseDistribution E), (''reorderPoints'', getReorderPoints E)],
      page_panels = [(''Stock Level Trends'', ''stockTrends''), (''Reorder Point Analysis'', ''reorderPoints''),
        (''Category Distribution'', ''distribution''), (''Warehouse Distribution'', ''warehouseDistribution'')]\<rparr>"

definition orders_page :: "js_env \<Rightarrow> analytics_page" where
  "orders_page E =
     \<lparr>page_calls = [(''orderFlow'', getOrderFlow E), (''orderLifecycle'', getOrderLifecycle E), (''volumeTrends'', getOrderVolumeTrends E),
        (''valueDistribution'', getOrderValueDistribution E), (''peakTimes'', getOrderPeakTimes E)],
      page_panels = [(''Order Flow Analysis'', ''orderFlow''), (''Order Lifecycle'', ''orderLifecycle''), (''Volume Trends'', ''volumeTrends''),
        (''Value Distribution'', ''valueDistribution''), (''Peak Order Times'', ''peakTimes'')]\<rparr>"

definition transactions_page :: "js_env \<Rightarrow> date_lib \<Rightarrow> analytics_page" where
  "transactions_page E L =
     \<lparr>page_calls = [(''transactionVolume'', getTransactionVolume E L), (''stockMovements'', getStockMovements E),
        (''metrics'', getTransactionMetrics E), (''patterns'', getTransactionPatterns E), (''clusters'', getTransactionClusters E),
        (''flow'', getTransactionFlow E)],
      page_panels = [(''Transaction Volume'', ''transactionVolume''), (''Stock Movements'', ''stockMovements''),
        (''Transaction Metrics'', ''metrics''), (''Transaction Patterns'', ''patterns''), (''Transaction Clusters'', ''clusters''),
        (''Transaction Flow'', ''flow'')]\<rparr>"

definition performance_page :: "js_env \<Rightarrow> (int \<Rightarrow> string) \<Rightarrow> int \<Rightarrow> analytics_page" where
  "performance_page E iso_day now =
     \<lparr>page_calls = [(''realTimeMetrics'', getRealTimeMetrics), (''trends'', getPerformanceTrends E iso_day now),
        (''health'', getSystemHealth E), (''resources'', getResourceUtilization E)],
      page_panels = [(''Real-Time Metrics'', ''realTimeMetrics''), (''Performance Trends'', ''trends''), (''System Health'', ''health''),
        (''Resource Utilization'', ''resources'')]\<rparr>"

definition business_page :: analytics_page where
  "business_page =
     \<lparr>page_calls = [(''financial'', getFinancialAnalytics), (''revenue'', getRevenueAnalysis), (''hierarchical'', getHierarchicalData),
        (''forecast'', getForecastData), (''trends'', getTrendPredictions)],
      page_panels = [(''Financial Overview'', ''financial''), (''Revenue Analysis'', ''revenue''), (''Data Hierarchy'', ''hierarchical''),
        (''Forecast'', ''forecast''), (''Trend Predictions'', ''trends'')]\<rparr>"

section \<open>Loading\<close>

record page_state =
  pg_hook :: analytics_state
  pg_done :: "nat list"
  pg_vars :: "(string \<times> jsval) list"

text \<open>\<open>useState(null)\<close> for every chart, \<open>useState(false)\<close> and \<open>useState(null)\<close> in the hook.\<close>

definition new_page_state :: page_state where
  "new_page_state = \<lparr>pg_hook = \<lparr>loading = False, hook_error = None\<rparr>, pg_done = [], pg_vars = []\<rparr>"

text \<open>The effect: every getter runs up to its request, \<open>setLoading(true); setError(null)\<close>.\<close>

definition page_mount :: "analytics_page \<Rightarrow> page_state \<Rightarrow> page_state" where
  "page_mount P s = s\<lparr>pg_hook := fold (\<lambda>c h. h\<lparr>loading := True, hook_error := None\<rparr>) (page_calls P) (pg_hook s)\<rparr>"

text \<open>What the getters return, each of which would also be returned in any other state of the flags.\<close>

definition page_results :: "analytics_page \<Rightarrow> (string \<Rightarrow> jsval js) \<Rightarrow> jsval js list" where
  "page_results P api = map (\<lambda>(v, g). fst (g api \<lparr>loading = True, hook_error = None\<rparr>)) (page_calls P)"

text \<open>
  The getter at position \<open>k\<close> ends, with \<open>setLoading(false)\<close>. When it is the last one, \<open>Promise.all\<close> is settled: the charts
  are set, or the error is written to the console.
\<close>

definition page_settle :: "analytics_page \<Rightarrow> (string \<Rightarrow> jsval js) \<Rightarrow> nat \<Rightarrow> page_state \<Rightarrow> page_state" where
  "page_settle P api k s =
     (let s = s\<lparr>pg_hook := (pg_hook s)\<lparr>loading := False\<rparr>, pg_done := pg_done s @ [k]\<rparr>
      in if set (pg_done s) = {..<length (page_calls P)}
         then case promise_all (pg_done s) (page_results P api) of
           Inr charts \<Rightarrow> s\<lparr>pg_vars := zip (map fst (page_calls P)) charts\<rparr>
         | Inl e \<Rightarrow> s
         else s)"

section \<open>Rendering\<close>

datatype panel = Skeleton | D3Chart jsval | Empty_panel

text \<open>\<open>loading && !chart ? <skeleton> : chart ? <D3Chart data={chart} /> : null\<close>\<close>

definition panel_view :: "page_state \<Rightarrow> string \<Rightarrow> panel" where
  "panel_view s v =
     (let chart = prop_lookup (pg_vars s) v
      in if loading (pg_hook s) \<and> \<not> js_truthy chart then Skeleton
         else if js_truthy chart then D3Chart chart else Empty_panel)"

text \<open>
  A page is the error or its panels. Above the chart of the transaction volume a header shows the number of rows and their
  total, which is \<open>volume_total\<close> below and not part of the panels. The very first paint comes before
  the effect, with the flag still false: \<open>render_page P new_page_state\<close>, where every panel is empty.
\<close>

datatype page_view = Page_error string | Panels "(string \<times> panel) list"

definition render_page :: "analytics_page \<Rightarrow> page_state \<Rightarrow> page_view" where
  "render_page P s =
     (case hook_error (pg_hook s) of
        Some e \<Rightarrow> Page_error (''Error loading analytics data: '' @ exn_message e)
      | None \<Rightarrow> Panels (map (\<lambda>(h, v). (h, panel_view s v)) (page_panels P)))"

text \<open>The total above the chart of the transaction volume; the count of a row has one of three names.\<close>

definition volume_count :: "jsval \<Rightarrow> jsval js" where
  "volume_count item =
     js_bind (js_get item ''count'') (\<lambda>c. if c \<noteq> JUndef then Inr c
     else js_bind (js_get item ''transaction_count'') (\<lambda>c. if c \<noteq> JUndef then Inr c
     else js_bind (js_get item ''transactionCount'') (\<lambda>c. Inr (js_or c (JNum (Fin 0))))))"

definition volume_total :: "js_env \<Rightarrow> jsval \<Rightarrow> jsval js" where
  "volume_total E d =
     js_bind (js_get d ''data'') (\<lambda>data. js_bind (js_elements data) (\<lambda>rows.
       js_reduce (\<lambda>sum item. js_bind (volume_count item) (js_plus E sum)) rows (JNum (Fin 0))))"

section \<open>Lemmas\<close>

definition analytics_pages :: "js_env \<Rightarrow> date_lib \<Rightarrow> (int \<Rightarrow> string) \<Rightarrow> int \<Rightarrow> analytics_page list" where
  "analytics_pages E L iso_day now =
     [inventory_page E, orders_page E, transactions_page E L, performance_page E iso_day now, business_page]"

lemmas page_defs = inventory_page_def orders_page_def transactions_page_def performance_page_def business_page_def

text \<open>The variables of a page are distinct, its panels show variables that are set, and its getters are those of the hook.\<close>

definition page_ok :: "getter set \<Rightarrow> analytics_page \<Rightarrow> bool" where
  "page_ok G P \<longleftrightarrow> page_calls P \<noteq> [] \<and> distinct (map fst (page_calls P)) \<and> snd ` set (page_panels P) \<subseteq> fst ` set (page_calls P) \<and>
     snd ` set (page_calls P) \<subseteq> G"

lemma pages_ok:
  "P \<in> set (analytics_pages E L iso_day now) \<Longrightarrow> page_ok (set (validated_getters E L @ raw_getters E iso_day now)) P"
  "P \<in> {inventory_page E, orders_page E, transactions_page E L} \<Longrightarrow> page_ok (set (validated_getters E L)) P"
  by (auto simp: analytics_pages_def page_ok_def page_defs validated_getters_def raw_getters_def)

lemma mount_flags:
  "page_calls P \<noteq> [] \<Longrightarrow> page_mount P new_page_state = new_page_state\<lparr>pg_hook := \<lparr>loading = True, hook_error = None\<rparr>\<rparr>"
proof -
  have "cs \<noteq> [] \<Longrightarrow> fold (\<lambda>c h. h\<lparr>loading := True, hook_error := None\<rparr>) cs h = \<lparr>loading = True, hook_error = None\<rparr>"
    for cs :: "(string \<times> getter) list" and h :: analytics_state
    by (induction cs arbitrary: h rule: rev_induct) auto
  then show "page_calls P \<noteq> [] \<Longrightarrow> page_mount P new_page_state = new_page_state\<lparr>pg_hook := \<lparr>loading = True, hook_error = None\<rparr>\<rparr>"
    by (simp add: page_mount_def)
qed

lemma positions_exhausted:
  assumes "distinct ks" "set ks \<subseteq> {..<n}"
  shows "set ks = {..<n} \<longleftrightarrow> length ks = n"
  using assms by (metis card_lessThan card_subset_eq distinct_card finite_lessThan)

text \<open>What a getter returns does not depend on the flags.\<close>

lemma getter_result:
  assumes "g \<in> set (validated_getters E L @ raw_getters E iso_day now)"
  shows "fst (g api st) = fst (g api st')"
  using assms
  by (auto simp: validated_getters_def raw_getters_def getStockLevelTrends_def getInventoryDistribution_def
      getWarehouseDistribution_def getReorderPoints_def getOrderFlow_def getOrderPipeline_def getOrderLifecycle_def
      getOrderVolumeTrends_def getOrderValueDistribution_def getOrderPeakTimes_def getTransactionVolume_def
      getStockMovements_def getTransactionMetrics_def getTransactionPatterns_def getTransactionClusters_def
      getTransactionFlow_def getRealTimeMetrics_def getPerformanceTrends_def getSystemHealth_def
      getResourceUtilization_def getFinancialAnalytics_def getRevenueAnalysis_def getHierarchicalData_def
      getForecastData_def getTrendPredictions_def validated_or_sample_def load_chart_eq)

text \<open>
  What a page relies on: in whatever state the flags are, a getter ends with a chart, not loading and without an error.
\<close>

locale chart_source =
  fixes api :: "string \<Rightarrow> jsval js" and G :: "getter set" and chart :: "getter \<Rightarrow> jsval"
  assumes settles: "g \<in> G \<Longrightarrow> g api st = (Inr (chart g), st\<lparr>loading := False, hook_error := None\<rparr>)"
begin

lemma page_results_charts:
  assumes "page_ok G P"
  shows "page_results P api = map Inr (map (chart \<circ> snd) (page_calls P))"
  using assms unfolding page_results_def page_ok_def by (auto simp: settles image_subset_iff)

lemma settled_prefix:
  assumes "page_ok G P" "distinct ks" "set ks \<subseteq> {..<length (page_calls P)}"
  shows "fold (page_settle P api) ks (page_mount P new_page_state) =
    \<lparr>pg_hook = \<lparr>loading = (ks = []), hook_error = None\<rparr>, pg_done = ks,
     pg_vars = (if length ks = length (page_calls P) then map (\<lambda>(v, g). (v, chart g)) (page_calls P) else [])\<rparr>"
  using assms(2,3)
proof (induction ks rule: rev_induct)
  case Nil
  have "page_calls P \<noteq> []" using assms(1) by (simp add: page_ok_def)
  then show ?case by (simp add: mount_flags) (simp add: new_page_state_def)
next
  case (snoc k ks)
  let ?n = "length (page_calls P)"
  have all: "set (ks @ [k]) = {..<?n} \<longleftrightarrow> length (ks @ [k]) = ?n" by (rule positions_exhausted [OF snoc.prems])
  have "length ks \<noteq> ?n"
    using positions_exhausted [of ks ?n] snoc.prems by auto
  moreover have "zip (map fst cs) (map (chart \<circ> snd) cs) = map (\<lambda>(v, g). (v, chart g)) cs" for cs :: "(string \<times> getter) list"
    by (induction cs) auto
  moreover have "promise_all (ks @ [k]) (page_results P api) = Inr (map (chart \<circ> snd) (page_calls P))" if "length (ks @ [k]) = ?n"
    using promise_all_spec [of "ks @ [k]" "page_results P api"] that all page_results_charts [OF assms(1)] by simp
  moreover have "fold (page_settle P api) ks (page_mount P new_page_state) =
      \<lparr>pg_hook = \<lparr>loading = (ks = []), hook_error = None\<rparr>, pg_done = ks,
       pg_vars = (if length ks = ?n then map (\<lambda>(v, g). (v, chart g)) (page_calls P) else [])\<rparr>"
    using snoc by simp
  ultimately show ?case using all by (simp add: page_settle_def [of _ _ k] Let_def)
qed

lemma chart_of_variable:
  assumes "page_ok G P" "(h, v) \<in> set (page_panels P)"
  shows "\<exists>g \<in> G. map_of (page_calls P) v = Some g \<and> prop_lookup (map (\<lambda>(v, g). (v, chart g)) (page_calls P)) v = chart g"
proof -
  obtain g where g: "map_of (page_calls P) v = Some g"
    using assms by (metis domD dom_map_of_conv_image_fst image_subset_iff page_ok_def snd_conv)
  then have "g \<in> G" using assms(1) map_of_SomeD [OF g] by (auto simp: page_ok_def)
  with g show ?thesis by (simp add: prop_lookup_def map_of_map)
qed

text \<open>The page after the getters at the given positions have ended.\<close>

lemma page_rendered:
  assumes "page_ok G P" "distinct ks" "set ks \<subseteq> {..<length (page_calls P)}"
  shows "render_page P (fold (page_settle P api) ks (page_mount P new_page_state)) =
    Panels (map (\<lambda>(h, v). (h, if ks = [] then Skeleton else if length ks < length (page_calls P) then Empty_panel
       else let d = chart (the (map_of (page_calls P) v)) in if js_truthy d then D3Chart d else Empty_panel)) (page_panels P))"
proof -
  have "page_calls P \<noteq> []" using assms(1) by (simp add: page_ok_def)
  moreover have "length ks \<le> length (page_calls P)"
    using card_mono [OF _ assms(3)] distinct_card [OF assms(2)] by simp
  moreover have "prop_lookup (map (\<lambda>(v, g). (v, chart g)) (page_calls P)) v = chart (the (map_of (page_calls P) v))"
    if "(h, v) \<in> set (page_panels P)" for h v
    using chart_of_variable [OF assms(1) that] by auto
  moreover have "prop_lookup [] v = JUndef" for v by (simp add: prop_lookup_def)
  ultimately show ?thesis
    unfolding settled_prefix [OF assms] by (auto simp: render_page_def panel_view_def Let_def)
qed

end

text \<open>The hook keeps that promise for all of its getters.\<close>

definition getter_chart :: "(string \<Rightarrow> jsval js) \<Rightarrow> getter \<Rightarrow> jsval" where
  "getter_chart api g = (case fst (g api \<lparr>loading = True, hook_error = None\<rparr>) of Inr d \<Rightarrow> d | Inl e \<Rightarrow> JUndef)"

interpretation hook_charts: chart_source api "set (validated_getters E L @ raw_getters E iso_day now)" "getter_chart api"
  for api E L iso_day now
proof
  fix g st assume g: "g \<in> set (validated_getters E L @ raw_getters E iso_day now)"
  note settles = every_getter_settles [of E L iso_day now _ api, unfolded settled_def, rule_format, OF g]
  have "fst (g api st) = fst (g api \<lparr>loading = True, hook_error = None\<rparr>)" by (rule getter_result [OF g])
  with settles [of st] settles [of "\<lparr>loading = True, hook_error = None\<rparr>"]
  show "g api st = (Inr (getter_chart api g), st\<lparr>loading := False, hook_error := None\<rparr>)"
    by (auto simp: getter_chart_def)
qed

section \<open>Properties\<close>

text \<open>
  C20: What an analytics page shows, for every backend and every order in which its requests end. Skeletons at first; after the
  first request has ended and until the last one has, every panel is empty, because all getters share one loading flag and
  the charts are set together; at the end each panel shows the chart of its own getter. The page never shows an error: the getters
  replace failures by sample data.
\<close>

theorem analytics_page_spec:
  assumes "P \<in> set (analytics_pages E L iso_day now)" "distinct ks" "set ks \<subseteq> {..<length (page_calls P)}"
  shows "render_page P (fold (page_settle P api) ks (page_mount P new_page_state)) =
    Panels (map (\<lambda>(h, v). (h, if ks = [] then Skeleton else if length ks < length (page_calls P) then Empty_panel
       else let d = getter_chart api (the (map_of (page_calls P) v)) in if js_truthy d then D3Chart d else Empty_panel)) (page_panels P))"
  using hook_charts.page_rendered [OF pages_ok(1) [OF assms(1)] assms(2,3)] .

theorem analytics_page_spec_witness:
  "render_page business_page (fold (page_settle business_page demo_api) [3] (page_mount business_page new_page_state)) =
     Panels (map (\<lambda>(h, v). (h, Empty_panel)) (page_panels business_page))"
proof -
  have "business_page \<in> set (analytics_pages demo_env demo_dates (\<lambda>t. []) 0)" by (simp add: analytics_pages_def)
  from analytics_page_spec [OF this, of "[3]" demo_api] show ?thesis by (simp add: business_page_def)
qed

text \<open>
  The pages of inventory, orders and transactions, when the backend sends charts with a type or fails: once
  all requests have ended every panel shows a chart that has all the metadata its drawing needs.
\<close>

theorem analytics_pages_ready:
  assumes "backend_api api" "P \<in> {inventory_page E, orders_page E, transactions_page E L}"
    and "distinct ks" "set ks = {..<length (page_calls P)}"
  shows "\<exists>charts. render_page P (fold (page_settle P api) ks (page_mount P new_page_state)) =
      Panels (zip (map fst (page_panels P)) (map D3Chart charts)) \<and>
    length charts = length (page_panels P) \<and> (\<forall>d \<in> set charts. chart_ready d)"
proof -
  let ?chart = "\<lambda>v. getter_chart api (the (map_of (page_calls P) v))"
  let ?charts = "map (?chart \<circ> snd) (page_panels P)"
  have ok: "page_ok (set (validated_getters E L)) P" by (rule pages_ok(2) [OF assms(2)])
  have "page_ok (set (validated_getters E L @ raw_getters E (\<lambda>t. []) 0)) P" using ok by (auto simp: page_ok_def)
  note page = hook_charts.page_rendered [OF this assms(3), of api] and var = hook_charts.chart_of_variable [OF this]
  have n: "length ks = length (page_calls P)" using assms(3,4) distinct_card [OF assms(3)] by simp
  have ready: "chart_ready (?chart v)" if hv: "(h, v) \<in> set (page_panels P)" for h v
  proof -
    obtain g where g: "map_of (page_calls P) v = Some g" using var [OF hv] by auto
    then have "g \<in> set (validated_getters E L)" using map_of_SomeD [OF g] ok by (auto simp: page_ok_def)
    then obtain d where "fst (g api \<lparr>loading = True, hook_error = None\<rparr>) = Inr d" "chart_ready d"
      using getters_ready [OF assms(1)] by blast
    with g show ?thesis by (simp add: getter_chart_def)
  qed
  have truthy: "js_truthy d" if "chart_ready d" for d using that by (auto simp: chart_ready_def)
  have "map (\<lambda>(h, v). (h, if js_truthy (?chart v) then D3Chart (?chart v) else Empty_panel)) (page_panels P) =
      zip (map fst (page_panels P)) (map D3Chart ?charts)"
    using ready truthy by (intro nth_equalityI) (auto simp: split_beta dest!: nth_mem, (metis prod.collapse)+)
  moreover have "ks \<noteq> []" using n ok by (auto simp: page_ok_def)
  ultimately show ?thesis
    using page n assms(4) ready by (intro exI [of _ ?charts]) (auto simp: Let_def)
qed

theorem analytics_pages_ready_witness:
  "\<exists>charts. render_page (inventory_page demo_env)
      (fold (page_settle (inventory_page demo_env) demo_api) [2, 0, 3, 1] (page_mount (inventory_page demo_env) new_page_state)) =
    Panels (zip (map fst (page_panels (inventory_page demo_env))) (map D3Chart charts))"
proof -
  have "set [2, 0, 3, 1] = {..<length (page_calls (inventory_page demo_env))}" by (auto simp: inventory_page_def)
  with analytics_pages_ready [OF demo_api_ok, of "inventory_page demo_env" demo_env demo_dates "[2, 0, 3, 1]"]
  show ?thesis by fastforce
qed

text \<open>
  The total above the transaction volume is exact below two to the fifty-third, whichever of the three names the rows use.
\<close>

lemma volume_total_exact:
  assumes "\<forall>(k, n) \<in> set cs. k \<in> {''count'', ''transaction_count'', ''transactionCount''} \<and> 0 \<le> n" "(\<Sum>(k, n) \<leftarrow> cs. n) < 2 ^ 53"
  shows "volume_total E (JObj [(''data'', arr (map (\<lambda>(k, n). JObj [(k, int_val n)]) cs)), (''metadata'', m)]) =
    Inr (int_val (\<Sum>(k, n) \<leftarrow> cs. n))"
proof -
  let ?row = "\<lambda>(k, n). JObj [(k, int_val n)]"
  have count: "volume_count (JObj [(k, int_val n)]) = Inr (int_val n)"
    if "k \<in> {''count'', ''transaction_count'', ''transactionCount''}" for k n
    using that by (auto simp: volume_count_def prop_lookup_def js_or_def)
  have "js_reduce (\<lambda>sum item. js_bind (volume_count item) (js_plus E sum)) (map ?row xs) (int_val a) =
      Inr (int_val (a + (\<Sum>(k, n) \<leftarrow> xs. n)))"
    if "\<forall>(k, n) \<in> set xs. k \<in> {''count'', ''transaction_count'', ''transactionCount''} \<and> 0 \<le> n" "0 \<le> a" "a + (\<Sum>(k, n) \<leftarrow> xs. n) < 2 ^ 53"
    for xs a
    using that
  proof (induction xs arbitrary: a)
    case (Cons x xs)
    obtain k n where x: "x = (k, n)" by force
    have "0 \<le> (\<Sum>(k, n) \<leftarrow> xs. n)" using Cons.prems(1) by (intro sum_list_nonneg) auto
    then have "js_plus E (int_val a) (int_val n) = Inr (int_val (a + n))"
      using Cons.prems x fl_int [of "a + n"] by (simp add: js_plus_def js_toPrimitive_def)
    with Cons.IH [of "a + n"] Cons.prems x count [of k n] show ?case by (simp add: add.assoc)
  qed simp
  from this [of cs 0] show ?thesis using assms by (simp add: volume_total_def prop_lookup_def)
qed

end
