(* ===== verification/Prediction_Charts.thy ===== *)
theory Prediction_Charts
  imports Dashboard_Services "HOL-Library.AList"
begin

text \<open>
  The pages of the AI predictions: \<open>pages/analytics/ai/index.tsx\<close> and \<open>predictions.tsx\<close> with the charts and tables they show
  (\<open>components/organisms/*Chart.tsx\<close>, \<open>RecentPredictionsTable.tsx\<close>, \<open>DetailedPredictionsTable.tsx\<close>). A prediction is an
  arbitrary value, because the charts guard against missing fields; responses are arrays where their interfaces say so.
\<close>

section \<open>Counting\<close>

text \<open>\<open>m.set(k, (m.get(k) || 0) + 1)\<close>: a \<open>Map\<close> keeps the order in which its keys came.\<close>

definition bump_count :: "'k \<Rightarrow> ('k \<times> nat) list \<Rightarrow> ('k \<times> nat) list" where
  "bump_count k m = AList.update k (case map_of m k of None \<Rightarrow> 1 | Some n \<Rightarrow> n + 1) m"

definition prepareModelDistributionData :: "jsval list \<Rightarrow> (jsval \<times> nat) list" where
  "prepareModelDistributionData predictions =
     fold (\<lambda>p m. let v = optional_get p ''model_name'' in if js_truthy v then bump_count v m else m) predictions []"

text \<open>\<open>p?.model_name === selectedModel\<close>\<close>

definition of_model :: "string \<Rightarrow> jsval \<Rightarrow> bool" where
  "of_model selectedModel p \<longleftrightarrow> strict_eq (optional_get p ''model_name'') (JStr selectedModel)"

text \<open>\<open>typeof v === "string" ? v.slice(0, 8) : other\<close>\<close>

fun short_id :: "string \<Rightarrow> jsval \<Rightarrow> string" where
  "short_id other (JStr s) = take 8 s"
| "short_id other v = other"

definition prepareItemDistributionData :: "string \<Rightarrow> jsval list \<Rightarrow> (string \<times> nat) list" where
  "prepareItemDistributionData selectedModel predictions =
     fold (\<lambda>p m. let v = optional_get p ''item_id'' in if js_truthy v then bump_count (short_id ''Unknown'' v) m else m)
       (filter (of_model selectedModel) predictions) []"

section \<open>Ranges\<close>

record value_range =
  rg_name :: string
  rg_low :: jsnum
  rg_high :: jsnum
  rg_count :: nat

definition five_ranges :: "value_range list" where
  "five_ranges =
     [\<lparr>rg_name = ''0.0-0.2'', rg_low = Fin 0, rg_high = fl (2 / 10), rg_count = 0\<rparr>,
      \<lparr>rg_name = ''0.2-0.4'', rg_low = fl (2 / 10), rg_high = fl (4 / 10), rg_count = 0\<rparr>,
      \<lparr>rg_name = ''0.4-0.6'', rg_low = fl (4 / 10), rg_high = fl (6 / 10), rg_count = 0\<rparr>,
      \<lparr>rg_name = ''0.6-0.8'', rg_low = fl (6 / 10), rg_high = fl (8 / 10), rg_count = 0\<rparr>,
      \<lparr>rg_name = ''0.8-1.0'', rg_low = fl (8 / 10), rg_high = PosInf, rg_count = 0\<rparr>]"

text \<open>\<open>value >= range[0] && value < range[1]\<close>\<close>

definition in_range :: "jsnum \<Rightarrow> value_range \<Rightarrow> bool" where
  "in_range x r \<longleftrightarrow> x \<noteq> NaN \<and> \<not> num_lt x (rg_low r) \<and> num_lt x (rg_high r)"

text \<open>The loop over the ranges, which ends at the first that fits.\<close>

fun bump_range :: "jsnum \<Rightarrow> value_range list \<Rightarrow> value_range list" where
  "bump_range x [] = []"
| "bump_range x (r # rs) = (if in_range x r then r\<lparr>rg_count := rg_count r + 1\<rparr> # rs else r # bump_range x rs)"

definition range_counts :: "js_env \<Rightarrow> string \<Rightarrow> jsval list \<Rightarrow> value_range list js" where
  "range_counts E k predictions =
     js_reduce (\<lambda>rs p. let v = optional_get p k
       in if v = JUndef then Inr rs else js_bind (js_toNumber E v) (\<lambda>x. Inr (bump_range x rs))) predictions five_ranges"

definition prepareConfidenceDistributionData :: "js_env \<Rightarrow> jsval list \<Rightarrow> value_range list js" where
  "prepareConfidenceDistributionData E predictions = range_counts E ''confidence_score'' predictions"

definition preparePredictionDistributionData :: "js_env \<Rightarrow> string \<Rightarrow> jsval list \<Rightarrow> value_range list js" where
  "preparePredictionDistributionData E selectedModel predictions =
     range_counts E ''predicted_demand'' (filter (of_model selectedModel) predictions)"

section \<open>Series and tables\<close>

record series_point =
  sp_timestamp :: string
  sp_predictedDemand :: jsval
  sp_confidenceScore :: jsval
  sp_itemId :: string

definition point_time :: "js_env \<Rightarrow> jsval \<Rightarrow> jsnum js" where
  "point_time E p = date_time E (js_or (optional_get p ''timestamp'') (JNum (Fin 0)))"

definition by_point_time :: "js_env \<Rightarrow> jsval \<Rightarrow> jsval \<Rightarrow> jsnum js" where
  "by_point_time E a b = js_bind (point_time E a) (\<lambda>m. js_bind (point_time E b) (\<lambda>n. Inr (num_sub m n)))"

definition locale_time :: "ui_lib \<Rightarrow> string \<Rightarrow> jsval \<Rightarrow> string js" where
  "locale_time U other p =
     (let t = optional_get p ''timestamp''
      in if js_truthy t then js_bind (date_time (u_env U) t) (\<lambda>n. Inr (toLocaleString U n)) else Inr other)"

definition series_point_of :: "ui_lib \<Rightarrow> jsval \<Rightarrow> series_point js" where
  "series_point_of U p =
     js_bind (locale_time U ''Unknown'' p) (\<lambda>t.
       Inr \<lparr>sp_timestamp = t, sp_predictedDemand = js_or (optional_get p ''predicted_demand'') (JNum (Fin 0)),
            sp_confidenceScore = js_or (optional_get p ''confidence_score'') (JNum (Fin 0)),
            sp_itemId = short_id ''Unknown'' (optional_get p ''item_id'')\<rparr>)"

definition prepareTimeSeriesData :: "ui_lib \<Rightarrow> string \<Rightarrow> jsval list \<Rightarrow> series_point list js" where
  "prepareTimeSeriesData U selectedModel predictions =
     js_bind (js_sort (u_env U) (by_point_time (u_env U)) (filter (of_model selectedModel) predictions))
       (js_map (series_point_of U))"

definition prepareConfidenceData :: "string \<Rightarrow> jsval list \<Rightarrow> (string \<times> jsval) list" where
  "prepareConfidenceData selectedModel predictions =
     map (\<lambda>p. (short_id ''Unknown'' (optional_get p ''item_id''), js_or (optional_get p ''confidence_score'') (JNum (Fin 0))))
       (filter (of_model selectedModel) predictions)"

definition confidence_class :: "jsnum \<Rightarrow> string" where
  "confidence_class score =
     ''px-2 py-1 rounded-full '' @
     (if num_lt (fl (7 / 10)) score then ''bg-green-100 text-green-800''
      else if num_lt (fl (4 / 10)) score then ''bg-yellow-100 text-yellow-800''
      else ''bg-red-100 text-red-800'')"

definition confidence_text :: "js_env \<Rightarrow> jsnum \<Rightarrow> string" where
  "confidence_text E score = toFixed E 1 (num_mul score (Fin 100)) @ ''%''"

definition id_cell :: "js_env \<Rightarrow> jsval \<Rightarrow> string js" where
  "id_cell E v =
     (case v of JStr s \<Rightarrow> Inr (take 8 s)
      | _ \<Rightarrow> if js_truthy v then js_bind (js_toString E v) (\<lambda>s. Inr (take 8 s)) else Inr ''N/A'')"

text \<open>
  The demand of a row: the recent table calls \<open>?.toFixed(3)\<close>, which shows nothing for \<open>null\<close>, the detailed one \<open>.toFixed(3)\<close>,
  which throws.
\<close>

fun demand_cell :: "js_env \<Rightarrow> bool \<Rightarrow> jsval \<Rightarrow> string js" where
  "demand_cell E chained JUndef = Inr ''N/A''"
| "demand_cell E chained JNull = (if chained then Inr [] else Inl TypeError)"
| "demand_cell E chained (JNum n) = Inr (toFixed E 3 n)"
| "demand_cell E chained v = Inl TypeError"

text \<open>The class and the text of the confidence; a missing one is red in the recent table and plain in the detailed one.\<close>

definition confidence_cell :: "js_env \<Rightarrow> bool \<Rightarrow> jsval \<Rightarrow> (string \<times> string) js" where
  "confidence_cell E chained v =
     js_bind (js_toNumber E v) (\<lambda>n.
       if v = JUndef then Inr (if chained then confidence_class n else [], ''N/A'')
       else Inr (confidence_class n, confidence_text E n))"

record prediction_row =
  pr_id :: string
  pr_item :: string
  pr_model :: jsval
  pr_demand :: string
  pr_confidence :: "string \<times> string"
  pr_time :: string

definition prediction_row_of :: "ui_lib \<Rightarrow> bool \<Rightarrow> jsval \<Rightarrow> prediction_row js" where
  "prediction_row_of U chained p =
     js_bind (id_cell (u_env U) (optional_get p ''id'')) (\<lambda>i.
     js_bind (demand_cell (u_env U) chained (optional_get p ''predicted_demand'')) (\<lambda>d.
     js_bind (confidence_cell (u_env U) chained (optional_get p ''confidence_score'')) (\<lambda>c.
     js_bind (locale_time U ''N/A'' p) (\<lambda>t.
       Inr \<lparr>pr_id = i, pr_item = short_id ''N/A'' (optional_get p ''item_id''),
            pr_model = js_or (optional_get p ''model_name'') (JStr ''N/A''), pr_demand = d, pr_confidence = c, pr_time = t\<rparr>))))"

definition recent_rows :: "ui_lib \<Rightarrow> jsval list \<Rightarrow> prediction_row list js" where
  "recent_rows U predictions = js_map (prediction_row_of U True) (take 5 predictions)"

definition detailed_rows :: "ui_lib \<Rightarrow> string \<Rightarrow> jsval list \<Rightarrow> prediction_row list js" where
  "detailed_rows U selectedModel predictions = js_map (prediction_row_of U False) (take 10 (filter (of_model selectedModel) predictions))"

section \<open>The overview page\<close>

record ai_stats =
  totalPredictions :: jsval
  totalModels :: nat
  averageConfidence :: jsnum
  recentPredictions :: nat

record ai_page =
  ai_predictions :: "jsval list"
  ai_models :: "jsval list"
  ai_isLoading :: bool
  ai_error :: "string option"
  ai_stats_of :: ai_stats

definition new_ai_page :: ai_page where
  "new_ai_page = \<lparr>ai_predictions = [], ai_models = [], ai_isLoading = True, ai_error = None,
     ai_stats_of = \<lparr>totalPredictions = JNum (Fin 0), totalModels = 0, averageConfidence = Fin 0, recentPredictions = 0\<rparr>\<rparr>"

text \<open>\<open>items.reduce((acc, item) => acc + item.confidence_score, 0) / (items.length || 1)\<close>\<close>

definition average_confidence :: "js_env \<Rightarrow> jsval list \<Rightarrow> jsnum js" where
  "average_confidence E items =
     js_bind (js_reduce (\<lambda>acc item. js_bind (js_get item ''confidence_score'') (js_plus E acc)) items (JNum (Fin 0))) (\<lambda>sum.
     js_bind (js_toNumber E sum) (\<lambda>s. Inr (num_div s (Fin (of_nat (if items = [] then 1 else length items))))))"

definition recent_items :: "js_env \<Rightarrow> jsnum \<Rightarrow> jsval list \<Rightarrow> jsval list js" where
  "recent_items E oneDayAgo items =
     js_filter (\<lambda>item. js_bind (js_get item ''timestamp'') (\<lambda>t. js_bind (date_time E t) (\<lambda>n. Inr (num_lt oneDayAgo n)))) items"

text \<open>
  \<open>fetchData\<close> with the answers of the two requests: total and items of the predictions, and the models. The second request is made only
  after the first has succeeded, and what was set before a failure stays set.
\<close>

definition ai_failed :: "ai_page \<Rightarrow> ai_page" where
  "ai_failed s = s\<lparr>ai_error := Some ''Failed to fetch AI analytics data. Please try again later.'', ai_isLoading := False\<rparr>"

definition ai_fetchData :: "js_env \<Rightarrow> jsnum \<Rightarrow> (jsval \<times> jsval list) js \<Rightarrow> jsval list js \<Rightarrow> ai_page \<Rightarrow> ai_page" where
  "ai_fetchData E oneDayAgo predictionData modelData s =
     (let s = s\<lparr>ai_isLoading := True, ai_error := None\<rparr>
      in case predictionData of
        Inl e \<Rightarrow> ai_failed s
      | Inr (tot, items) \<Rightarrow>
          let s = s\<lparr>ai_predictions := items\<rparr>
          in case modelData of
            Inl e \<Rightarrow> ai_failed s
          | Inr models \<Rightarrow>
              let s = s\<lparr>ai_models := models\<rparr>
              in case js_bind (average_confidence E items) (\<lambda>avg. js_bind (recent_items E oneDayAgo items) (\<lambda>recent. Inr (avg, recent))) of
                Inl e \<Rightarrow> ai_failed s
              | Inr (avg, recent) \<Rightarrow>
                  s\<lparr>ai_stats_of := \<lparr>totalPredictions = tot, totalModels = length models, averageConfidence = avg,
                      recentPredictions = length recent\<rparr>, ai_isLoading := False\<rparr>)"

section \<open>The page of the predictions\<close>

text \<open>\<open>pp_pending\<close> counts the requests for a new prediction that are under way.\<close>

record predictions_page =
  pp_predictions :: "jsval list"
  pp_models :: "jsval list"
  pp_isLoading :: bool
  pp_selectedModel :: string
  pp_error :: "string option"
  pp_pending :: nat

definition new_predictions_page :: predictions_page where
  "new_predictions_page =
     \<lparr>pp_predictions = [], pp_models = [], pp_isLoading = True, pp_selectedModel = [], pp_error = None, pp_pending = 0\<rparr>"

definition pp_failed :: "predictions_page \<Rightarrow> predictions_page" where
  "pp_failed s = s\<lparr>pp_error := Some ''Failed to fetch prediction data. Please try again later.'', pp_isLoading := False\<rparr>"

text \<open>The models by their names; the first one is selected.\<close>

definition pp_fetchData :: "jsval list js \<Rightarrow> (string \<times> jsval) list js \<Rightarrow> predictions_page \<Rightarrow> predictions_page" where
  "pp_fetchData predictionData modelData s =
     (let s = s\<lparr>pp_isLoading := True, pp_error := None\<rparr>
      in case predictionData of
        Inl e \<Rightarrow> pp_failed s
      | Inr items \<Rightarrow>
          let s = s\<lparr>pp_predictions := items\<rparr>
          in case modelData of
            Inl e \<Rightarrow> pp_failed s
          | Inr models \<Rightarrow>
              let s = s\<lparr>pp_models := map snd models\<rparr>
              in (case models of [] \<Rightarrow> s | (name, m) # ms \<Rightarrow> s\<lparr>pp_selectedModel := name\<rparr>)\<lparr>pp_isLoading := False\<rparr>)"

text \<open>\<open>handleGenerateNewPrediction\<close> up to its request, and the rest of it.\<close>

definition generate_begin :: "predictions_page \<Rightarrow> predictions_page" where
  "generate_begin s = (if pp_selectedModel s = [] then s else s\<lparr>pp_error := None, pp_pending := pp_pending s + 1\<rparr>)"

definition generate_end :: "jsval js \<Rightarrow> predictions_page \<Rightarrow> predictions_page" where
  "generate_end response s =
     (let s = s\<lparr>pp_pending := pp_pending s - 1\<rparr>
      in case response of
        Inr p \<Rightarrow> s\<lparr>pp_predictions := p # pp_predictions s\<rparr>
      | Inl e \<Rightarrow> s\<lparr>pp_error := Some ''Failed to generate a new prediction''\<rparr>)"

datatype predictions_event = Generate | Generated "jsval js" | Choose string

text \<open>
  What the page lets happen: with an error it shows only the message and a button that reloads the window; the button for a new
  prediction is disabled while the page loads and without a model.
\<close>

fun pp_enabled :: "predictions_event \<Rightarrow> predictions_page \<Rightarrow> bool" where
  "pp_enabled Generate s \<longleftrightarrow> pp_error s = None \<and> \<not> (pp_isLoading s \<or> pp_selectedModel s = [])"
| "pp_enabled (Generated r) s \<longleftrightarrow> 0 < pp_pending s"
| "pp_enabled (Choose m) s \<longleftrightarrow> pp_error s = None \<and> \<not> pp_isLoading s"

fun pp_step :: "predictions_event \<Rightarrow> predictions_page \<Rightarrow> predictions_page" where
  "pp_step Generate s = generate_begin s"
| "pp_step (Generated r) s = generate_end r s"
| "pp_step (Choose m) s = s\<lparr>pp_selectedModel := m\<rparr>"

section \<open>Counts\<close>

text \<open>A \<open>Map\<close> of counters, by the only law that the charts rely on.\<close>

locale tally =
  fixes lookup :: "'m \<Rightarrow> 'k \<Rightarrow> nat option" and put :: "'k \<Rightarrow> nat \<Rightarrow> 'm \<Rightarrow> 'm"
  assumes lookup_put: "lookup (put k n m) = (lookup m)(k \<mapsto> n)"
begin

lemma count_run:
  "lookup (fold (\<lambda>k m. put k (case lookup m k of None \<Rightarrow> 1 | Some n \<Rightarrow> n + 1) m) ks m) k =
     (case lookup m k of Some n \<Rightarrow> Some (n + count_list ks k)
      | None \<Rightarrow> if k \<in> set ks then Some (count_list ks k) else None)"
proof (induction ks arbitrary: m)
  case Nil
  then show ?case by (simp split: option.split)
next
  case (Cons l ks)
  have "count_list ks k = 0" if "k \<notin> set ks" using that by (simp add: count_notin)
  with Cons show ?case by (auto simp: lookup_put split: option.split)
qed

end

interpretation map_tally: tally map_of AList.update
  by unfold_locales (simp add: update_conv')

lemma bump_counts:
  "map_of (fold bump_count ks []) k = (if k \<in> set ks then Some (count_list ks k) else None)"
  using map_tally.count_run [of ks "[]" k] by (simp add: bump_count_def [abs_def])

lemma bump_keys: "distinct (map fst m) \<Longrightarrow> distinct (map fst (fold bump_count ks m))"
  by (induction ks arbitrary: m) (simp_all add: bump_count_def distinct_update)

lemma bump_count_set:
  "set (fold bump_count ks []) = {(k, count_list ks k) |k. k \<in> set ks}"
proof -
  have d: "distinct (map fst (fold bump_count ks []))" by (rule bump_keys) simp
  have "(k, n) \<in> set (fold bump_count ks []) \<longleftrightarrow> k \<in> set ks \<and> n = count_list ks k" for k n
    using map_of_eq_Some_iff [OF d, of k n] by (auto simp: bump_counts split: if_splits)
  then show ?thesis by auto
qed

lemma bump_total: "(\<Sum>(k, n) \<leftarrow> fold bump_count ks m. n) = (\<Sum>(k, n) \<leftarrow> m. n) + length ks"
proof (induction ks arbitrary: m)
  case (Cons l ks)
  have "(\<Sum>(k, n) \<leftarrow> AList.update l (case map_of m l of None \<Rightarrow> 1 | Some n \<Rightarrow> n + 1) m. n) = (\<Sum>(k, n) \<leftarrow> m. n) + 1"
    by (induction m) auto
  with Cons show ?case by (simp add: bump_count_def)
qed simp

lemma tallied:
  "distinct (map fst (fold bump_count ks [])) \<and> set (fold bump_count ks []) = {(k, count_list ks k) |k. k \<in> set ks} \<and>
   (\<Sum>(k, n) \<leftarrow> fold bump_count ks []. n) = length ks"
  using bump_keys [of "[]" ks] bump_total [of ks "[]"] by (simp add: bump_count_set)

lemma fold_guarded: "fold (\<lambda>x m. if P x then f (g x) m else m) xs m = fold f (map g (filter P xs)) m"
  by (induction xs arbitrary: m) auto

lemma model_counts:
  "prepareModelDistributionData ps =
     fold bump_count (filter js_truthy (map (\<lambda>p. optional_get p ''model_name'') ps)) []"
  unfolding prepareModelDistributionData_def Let_def
  using fold_guarded [of "\<lambda>p. js_truthy (optional_get p ''model_name'')" bump_count "\<lambda>p. optional_get p ''model_name''" ps "[]"]
  by (simp add: filter_map comp_def)

lemma item_counts:
  "prepareItemDistributionData m ps =
     fold bump_count (map (short_id ''Unknown'') (filter js_truthy (map (\<lambda>p. optional_get p ''item_id'') (filter (of_model m) ps)))) []"
  unfolding prepareItemDistributionData_def Let_def
  using fold_guarded [of "\<lambda>p. js_truthy (optional_get p ''item_id'')" bump_count "\<lambda>p. short_id ''Unknown'' (optional_get p ''item_id'')"
      "filter (of_model m) ps" "[]"]
  by (simp add: filter_map comp_def)

section \<open>Ranges\<close>

text \<open>No value lies in two of the ranges.\<close>

definition apart :: "value_range list \<Rightarrow> bool" where
  "apart rs \<longleftrightarrow> sorted_wrt (\<lambda>r r'. \<forall>x. \<not> (in_range x r \<and> in_range x r')) rs"

lemma in_range_count [simp]: "in_range x (r\<lparr>rg_count := n\<rparr>) = in_range x r"
  by (simp add: in_range_def)

lemma bump_range_apart: "apart rs \<Longrightarrow> bump_range x rs = map (\<lambda>r. if in_range x r then r\<lparr>rg_count := rg_count r + 1\<rparr> else r) rs"
  by (induction rs) (auto simp: apart_def intro!: map_idI [symmetric])

lemma bump_ranges:
  "apart rs \<Longrightarrow> fold bump_range xs rs = map (\<lambda>r. r\<lparr>rg_count := rg_count r + length (filter (\<lambda>x. in_range x r) xs)\<rparr>) rs"
proof (induction xs arbitrary: rs)
  case (Cons x xs)
  have "apart (bump_range x rs)"
    using Cons.prems by (auto simp: bump_range_apart apart_def sorted_wrt_map elim!: sorted_wrt_mono_rel [rotated])
  with Cons show ?case by (auto simp: bump_range_apart)
qed simp

lemma quotients_fifths: "quotient_of (1/5) = (1,5)" "quotient_of (2/5) = (2,5)" "quotient_of (3/5) = (3,5)" "quotient_of (4/5) = (4,5)" by code_simp+
lemma floorlogs_small: "floorlog 2 (Suc 0) = 1" "floorlog 2 2 = 2"  "floorlog 2 3 = 2" "floorlog 2 4 = 3" "floorlog 2 5 = 3" by (simp_all add: compute_floorlog)
lemma ilog2_fifths: "ilog2 (1/5) = -3" "ilog2 (2/5) = -2" "ilog2 (3/5) = -1" "ilog2 (4/5) = -1"
  by (simp_all add: ilog2_def quotients_fifths floorlogs_small exp2_def)
lemma tenths:
  "fl (1 / 5) = Fin (7205759403792794 / 36028797018963968)" "fl (2 / 5) = Fin (7205759403792794 / 18014398509481984)"
  "fl (3 / 5) = Fin (5404319552844595 / 9007199254740992)" "fl (4 / 5) = Fin (7205759403792794 / 9007199254740992)"
  using fl_eval [OF ilog2_fifths(1), of 7205759403792794] fl_eval [OF ilog2_fifths(2), of 7205759403792794] fl_eval [OF ilog2_fifths(3), of 5404319552844595]
     fl_eval [OF ilog2_fifths(4), of 7205759403792794] by (simp_all add: exp2_def)
lemma all_jsnum: "(\<forall>x. P x) \<longleftrightarrow> P NaN \<and> P PosInf \<and> P NegInf \<and> (\<forall>q. P (Fin q))"
  by (metis jsnum.exhaust)

lemma five_apart: "apart five_ranges"
  by (auto simp: apart_def five_ranges_def all_jsnum in_range_def tenths)

text \<open>
  The scores that are counted: numbers, and \<open>null\<close>, which the AI service sends for a prediction without a score and which
  counts as zero. Only a property that is missing altogether is passed over.
\<close>

definition scores :: "string \<Rightarrow> jsval list \<Rightarrow> jsnum list" where
  "scores k ps = List.map_filter (\<lambda>p. case optional_get p k of JNum x \<Rightarrow> Some x | JNull \<Rightarrow> Some (Fin 0) | _ \<Rightarrow> None) ps"

definition scored :: "string \<Rightarrow> jsval \<Rightarrow> bool" where
  "scored k p \<longleftrightarrow> optional_get p k \<in> {JUndef, JNull} \<or> (\<exists>x. optional_get p k = JNum x)"

lemma range_counts_scores:
  assumes "\<forall>p \<in> set ps. scored k p"
  shows "range_counts E k ps = Inr (fold bump_range (scores k ps) five_ranges)"
proof -
  have "js_reduce (\<lambda>rs p. let v = optional_get p k
       in if v = JUndef then Inr rs else js_bind (js_toNumber E v) (\<lambda>x. Inr (bump_range x rs))) ps rs =
      Inr (fold bump_range (scores k ps) rs)" for rs
    using assms by (induction ps arbitrary: rs) (auto simp: scores_def scored_def map_filter_simps)
  then show ?thesis by (simp add: range_counts_def)
qed

lemma in_some_range:
  "length (filter (in_range x) five_ranges) = (if x \<noteq> NaN \<and> x \<noteq> PosInf \<and> \<not> num_lt x (Fin 0) then 1 else 0)"
  by (cases x) (auto simp: five_ranges_def in_range_def tenths)

text \<open>
  C38: The distribution of the confidences. When every score is a number, \<open>null\<close> or missing, the count of each of the five ranges is the
  number of the scores in it, where \<open>null\<close> is a score of zero and falls in the first range; and each score from zero on is
  counted in exactly one range, those above one in the last. Negative scores and missing ones are not counted.
\<close>

theorem confidence_distribution_spec:
  assumes "\<forall>p \<in> set ps. scored ''confidence_score'' p"
  shows "\<exists>rs. prepareConfidenceDistributionData E ps = Inr rs \<and> map rg_name rs = map rg_name five_ranges \<and>
    map rg_count rs = map (\<lambda>r. length (filter (\<lambda>x. in_range x r) (scores ''confidence_score'' ps))) five_ranges \<and>
    sum_list (map rg_count rs) =
      length (filter (\<lambda>x. x \<noteq> NaN \<and> x \<noteq> PosInf \<and> \<not> num_lt x (Fin 0)) (scores ''confidence_score'' ps))"
proof -
  let ?xs = "scores ''confidence_score'' ps"
  let ?rs = "map (\<lambda>r. r\<lparr>rg_count := rg_count r + length (filter (\<lambda>x. in_range x r) ?xs)\<rparr>) five_ranges"
  have zero: "rg_count r = 0" if "r \<in> set five_ranges" for r using that by (auto simp: five_ranges_def)
  have count: "map rg_count ?rs = map (\<lambda>r. length (filter (\<lambda>x. in_range x r) ?xs)) five_ranges" using zero by simp
  have "(\<Sum>r \<leftarrow> five_ranges. length (filter (\<lambda>x. in_range x r) xs)) = (\<Sum>x \<leftarrow> xs. length (filter (in_range x) five_ranges))" for xs
    by (induction xs) (simp_all add: sum_list_addf five_ranges_def)
  also have "\<dots> xs = length (filter (\<lambda>x. x \<noteq> NaN \<and> x \<noteq> PosInf \<and> \<not> num_lt x (Fin 0)) xs)" for xs
    unfolding in_some_range by (induction xs) auto
  finally have tot: "(\<Sum>r \<leftarrow> five_ranges. length (filter (\<lambda>x. in_range x r) ?xs)) =
      length (filter (\<lambda>x. x \<noteq> NaN \<and> x \<noteq> PosInf \<and> \<not> num_lt x (Fin 0)) ?xs)" .
  show ?thesis
  proof (intro exI conjI)
    show "prepareConfidenceDistributionData E ps = Inr ?rs"
      by (simp add: prepareConfidenceDistributionData_def range_counts_scores [OF assms] bump_ranges [OF five_apart])
    show "map rg_name ?rs = map rg_name five_ranges" by simp
  qed (simp_all only: count tot)
qed

theorem confidence_distribution_spec_witness:
  "\<exists>rs. prepareConfidenceDistributionData demo_env [JObj [(''confidence_score'', JNull)], JObj [], JObj [(''confidence_score'', JNum (Fin 1))]] =
     Inr rs \<and> sum_list (map rg_count rs) = 2 \<and> map rg_count rs = [1, 0, 0, 0, 1]"
proof -
  let ?ps = "[JObj [(''confidence_score'', JNull)], JObj [], JObj [(''confidence_score'', JNum (Fin 1))]]"
  have "\<forall>p \<in> set ?ps. scored ''confidence_score'' p" by (simp add: scored_def optional_get_def prop_lookup_def)
  moreover have "scores ''confidence_score'' ?ps = [Fin 0, Fin 1]"
    by (simp add: scores_def optional_get_def prop_lookup_def map_filter_simps)
  moreover have "map (\<lambda>r. length (filter (\<lambda>x. in_range x r) [Fin 0, Fin 1])) five_ranges = [1, 0, 0, 0, 1]"
    by (simp add: five_ranges_def in_range_def tenths)
  moreover from calculation(1) obtain rs where "prepareConfidenceDistributionData demo_env ?ps = Inr rs"
    and "map rg_count rs = map (\<lambda>r. length (filter (\<lambda>x. in_range x r) (scores ''confidence_score'' ?ps))) five_ranges"
    using confidence_distribution_spec [of ?ps demo_env] by blast
  ultimately show ?thesis by (intro exI [of _ rs]) simp
qed

text \<open>
  The distribution of the models: one entry for each name of a model that occurs, with the number of its predictions; the
  counts add up to the number of predictions that name a model.
\<close>

theorem model_distribution_spec:
  "let m = prepareModelDistributionData ps; names = filter js_truthy (map (\<lambda>p. optional_get p ''model_name'') ps) in
   distinct (map fst m) \<and> set m = {(k, count_list names k) |k. k \<in> set names} \<and> (\<Sum>(k, n) \<leftarrow> m. n) = length names"
  unfolding model_counts Let_def by (rule tallied)

section \<open>Statistics and series\<close>

definition confident :: "jsval \<Rightarrow> bool" where
  "confident p \<longleftrightarrow> (\<exists>x. js_get p ''confidence_score'' = Inr (JNum (Fin x)) \<and> 0 \<le> x \<and> x \<le> 1)"

lemma confidence_sum:
  assumes "\<forall>p \<in> set items. confident p" "0 \<le> s" "s \<le> of_int (int k)" "int k + int (length items) < 2 ^ 52"
  shows "\<exists>r. js_reduce (\<lambda>acc item. js_bind (js_get item ''confidence_score'') (js_plus E acc)) items (JNum (Fin s)) = Inr (JNum (Fin r)) \<and>
    0 \<le> r \<and> r \<le> of_int (int k + int (length items))"
  using assms
proof (induction items arbitrary: s k)
  case (Cons p items)
  then obtain x where x: "js_get p ''confidence_score'' = Inr (JNum (Fin x))" "0 \<le> x" "x \<le> 1" by (auto simp: confident_def)
  have "0 \<le> s + x" "s + x \<le> of_int (int (Suc k))" "int (Suc k) < 2 ^ 52" using Cons.prems x by simp_all
  then obtain r where r: "fl (s + x) = Fin r" "0 \<le> r" "r \<le> of_int (int (Suc k))" using fl_between by blast
  with Cons.IH [of r "Suc k"] Cons.prems x show ?case by (simp add: js_plus_def js_toPrimitive_def algebra_simps)
qed simp

text \<open>
  The average confidence of the overview: for scores from zero to one it is a number from zero to one, whatever the
  roundings of its sum and of its quotient.
\<close>

theorem average_confidence_bounds:
  assumes "items \<noteq> []" "\<forall>p \<in> set items. confident p" "length items < 2 ^ 52"
  shows "\<exists>a. average_confidence E items = Inr (Fin a) \<and> 0 \<le> a \<and> a \<le> 1"
proof -
  let ?n = "rat_of_int (int (length items))"
  have "int (length items) < 2 ^ 52" using assms(3) by (metis of_nat_less_iff of_nat_numeral of_nat_power)
  then obtain s where s: "js_reduce (\<lambda>acc item. js_bind (js_get item ''confidence_score'') (js_plus E acc)) items (JNum (Fin 0)) =
      Inr (JNum (Fin s))" "0 \<le> s" "s \<le> ?n"
    using confidence_sum [OF assms(2), of 0 0 E] by auto
  have n: "0 < ?n" using assms(1) by simp
  have "0 \<le> s / ?n" "s / ?n \<le> of_int 1" using s n by simp_all
  then obtain a where "fl (s / ?n) = Fin a" "0 \<le> a" "a \<le> of_int 1" using fl_between [of "s / ?n" 1] by auto
  with s(1) n assms(1) show ?thesis by (simp add: average_confidence_def)
qed

theorem average_confidence_bounds_witness:
  "\<exists>a. average_confidence demo_env [JObj [(''confidence_score'', JNum (Fin 0))], JObj [(''confidence_score'', JNum (Fin 1))]] = Inr (Fin a) \<and>
     0 \<le> a \<and> a \<le> 1"
  by (rule average_confidence_bounds) (simp_all add: confident_def prop_lookup_def)

text \<open>
  The time series of a model: with whole time stamps its points are the predictions of the model in the order of time, and those of
  one instant in the order of the response. It relies on \<open>sort\<close> sorting stably.
\<close>

theorem time_series_spec:
  assumes "sort_law (u_env U)" "\<And>p. p \<in> set ps \<Longrightarrow> point_time (u_env U) p = Inr (Fin (of_int (tm p)))"
  shows "prepareTimeSeriesData U m ps = js_map (series_point_of U) (sort_key tm (filter (of_model m) ps))"
proof -
  have "consistent (by_point_time (u_env U)) (\<lambda>p. of_int (tm p)) (filter (of_model m) ps)"
    unfolding consistent_def
  proof (intro ballI)
    fix a b assume "a \<in> set (filter (of_model m) ps)" "b \<in> set (filter (of_model m) ps)"
    then have "by_point_time (u_env U) a b = Inr (fl (of_int (tm a - tm b)))"
      using assms(2) by (simp add: by_point_time_def num_sub_def)
    then show "\<exists>n. by_point_time (u_env U) a b = Inr n \<and> n \<noteq> NaN \<and>
        (num_lt (Fin 0) n \<longleftrightarrow> rat_of_int (tm b) < of_int (tm a)) \<and> (num_lt n (Fin 0) \<longleftrightarrow> rat_of_int (tm a) < of_int (tm b))"
      using fl_int_sign [of "tm a - tm b"] by simp
  qed
  then have "js_sort (u_env U) (by_point_time (u_env U)) (filter (of_model m) ps) =
      Inr (sort_key (\<lambda>p. rat_of_int (tm p)) (filter (of_model m) ps))"
    using assms(1) unfolding sort_law_def by blast
  moreover have "sort_key (\<lambda>p. rat_of_int (tm p)) xs = sort_key tm xs" for xs
  proof (rule sort_key_order)
  qed simp
  ultimately show ?thesis by (simp add: prepareTimeSeriesData_def)
qed

theorem time_series_spec_witness:
  "prepareTimeSeriesData (demo_ui\<lparr>u_env := demo_env\<lparr>Date_parse := (\<lambda>s. Fin (of_nat (length s)))\<rparr>\<rparr>) ''m''
     [JObj [(''model_name'', JStr ''m''), (''timestamp'', JStr ''late'')], JObj [(''model_name'', JStr ''m''), (''timestamp'', JStr ''soo'')]] =
   js_map (series_point_of (demo_ui\<lparr>u_env := demo_env\<lparr>Date_parse := (\<lambda>s. Fin (of_nat (length s)))\<rparr>\<rparr>))
     [JObj [(''model_name'', JStr ''m''), (''timestamp'', JStr ''soo'')], JObj [(''model_name'', JStr ''m''), (''timestamp'', JStr ''late'')]]"
proof -
  let ?U = "demo_ui\<lparr>u_env := demo_env\<lparr>Date_parse := (\<lambda>s. Fin (of_nat (length s)))\<rparr>\<rparr>"
  let ?p = "JObj [(''model_name'', JStr ''m''), (''timestamp'', JStr ''late'')]" and ?q = "JObj [(''model_name'', JStr ''m''), (''timestamp'', JStr ''soo'')]"
  let ?t = "\<lambda>p. if p = ?p then 4 else (3 :: int)"
  have "sort_law (u_env ?U)" using demo_sort_law by (simp add: sort_law_def demo_env_def)
  moreover have "point_time (u_env ?U) p = Inr (Fin (of_int (?t p)))" if "p \<in> set [?p, ?q]" for p
    using that by (auto simp: point_time_def optional_get_def prop_lookup_def js_or_def date_time_def js_toPrimitive_def)
  ultimately have "prepareTimeSeriesData ?U ''m'' [?p, ?q] = js_map (series_point_of ?U) (sort_key ?t (filter (of_model ''m'') [?p, ?q]))"
    by (rule time_series_spec)
  then show ?thesis by (simp add: of_model_def optional_get_def prop_lookup_def strict_eq_def)
qed

section \<open>The page of the predictions\<close>

text \<open>What the page promises: its predictions, the requests under way, and whether one has failed.\<close>

fun prediction_spec :: "predictions_event \<Rightarrow> jsval list \<times> nat \<times> bool \<Rightarrow> jsval list \<times> nat \<times> bool" where
  "prediction_spec Generate (ps, n, failed) = (ps, n + 1, failed)"
| "prediction_spec (Generated (Inr p)) (ps, n, failed) = (p # ps, n - 1, failed)"
| "prediction_spec (Generated (Inl e)) (ps, n, failed) = (ps, n - 1, True)"
| "prediction_spec (Choose m) s = s"

definition page_promise :: "predictions_page \<Rightarrow> jsval list \<times> nat \<times> bool" where
  "page_promise s = (pp_predictions s, pp_pending s, pp_error s \<noteq> None)"

interpretation predictions_page: functional_refinement "\<lambda>s. \<not> pp_isLoading s" page_promise pp_enabled pp_step prediction_spec
proof
  fix e and s :: predictions_page
  assume "\<not> pp_isLoading s" "pp_enabled e s"
  then show "\<not> pp_isLoading (pp_step e s)"
    by (cases e) (auto simp: generate_begin_def generate_end_def Let_def split: sum.split)
  show "page_promise (pp_step e s) = prediction_spec e (page_promise s)"
    using \<open>pp_enabled e s\<close>
    by (cases e) (auto simp: page_promise_def generate_begin_def generate_end_def Let_def split: sum.split)
qed

text \<open>The predictions that arrived and the failures.\<close>

definition arrived :: "predictions_event list \<Rightarrow> jsval list" where
  "arrived es = List.map_filter (\<lambda>e. case e of Generated (Inr p) \<Rightarrow> Some p | _ \<Rightarrow> None) es"

definition refused :: "predictions_event \<Rightarrow> bool" where
  "refused e \<longleftrightarrow> (case e of Generated (Inl x) \<Rightarrow> True | _ \<Rightarrow> False)"

lemma promise_run:
  "\<exists>n'. fold prediction_spec es (ps, n, f) = (rev (arrived es) @ ps, n', f \<or> list_ex refused es)"
proof (induction es arbitrary: ps n f)
  case (Cons e es)
  show ?case
  proof (cases e)
    case (Generated r)
    then show ?thesis using Cons [of "case r of Inr p \<Rightarrow> p # ps | Inl x \<Rightarrow> ps" "n - 1" "f \<or> isl r"]
      by (cases r) (simp_all add: arrived_def refused_def map_filter_simps)
  qed (use Cons [of ps "n + 1" f] Cons [of ps n f] in \<open>simp_all add: arrived_def refused_def map_filter_simps\<close>)
qed (simp add: arrived_def map_filter_simps)

text \<open>
  C12: The page of the predictions after it has loaded, for every order in which its requests for new predictions end. It
  shows the predictions that arrived, the latest first, before those that were loaded. It shows an error exactly when
  one of the requests has failed, however many succeeded, and then it offers nothing but to reload the window: no further
  prediction can be made and no model chosen.
\<close>

theorem predictions_page_spec:
  assumes "s = pp_fetchData (Inr items) (Inr models) new_predictions_page" "run_ok pp_enabled pp_step es s"
  shows "let s' = fold pp_step es s in
     pp_predictions s' = rev (arrived es) @ items \<and> (pp_error s' \<noteq> None \<longleftrightarrow> list_ex refused es) \<and>
     (list_ex refused es \<longrightarrow> \<not> pp_enabled Generate s' \<and> \<not> pp_enabled (Choose m) s')"
proof -
  have s: "\<not> pp_isLoading s" "page_promise s = (items, 0, False)"
    by (auto simp: assms(1) pp_fetchData_def new_predictions_page_def page_promise_def Let_def split: list.split)
  have "page_promise (fold pp_step es s) = fold prediction_spec es (items, 0, False)"
    using predictions_page.run_refines [OF s(1) assms(2)] s(2) by simp
  then have "pp_predictions (fold pp_step es s) = rev (arrived es) @ items" "pp_error (fold pp_step es s) \<noteq> None \<longleftrightarrow> list_ex refused es"
    using promise_run [of es items 0 False] by (auto simp: page_promise_def)
  then show ?thesis by (auto simp: Let_def)
qed

theorem predictions_page_spec_witness:
  "pp_error (fold pp_step [Generate, Generate, Generated (Inl TypeError), Generated (Inr (JStr ''p''))]
     (pp_fetchData (Inr []) (Inr [(''arima'', JNull)]) new_predictions_page)) \<noteq> None"
proof -
  let ?es = "[Generate, Generate, Generated (Inl TypeError), Generated (Inr (JStr ''p''))]"
  let ?s = "pp_fetchData (Inr []) (Inr [(''arima'', JNull)]) new_predictions_page"
  have "run_ok pp_enabled pp_step ?es ?s"
    by (simp add: pp_fetchData_def new_predictions_page_def generate_begin_def generate_end_def)
  then show ?thesis using predictions_page_spec [OF refl, of ?es "[]" "[(''arima'', JNull)]"] by (simp add: refused_def Let_def)
qed

end
