(* ===== verification/Older_Backoffice.thy ===== *)
theory Older_Backoffice
  imports Backoffice_Director
begin

text \<open>
  The earlier backoffice that is still in the repository: \<open>backoffice/core/organisms/BackofficeBuilderImpl.ts\<close> and
  \<open>BackofficeDirector.ts\<close>, \<open>backoffice/ui/templates/FormPage.tsx\<close>, \<open>backoffice/ui/organisms/Sidebar.tsx\<close> and
  \<open>app-disabled/backoffice-tmp/BackofficeApp.tsx\<close>, which puts them together. The records of the configurations are those of the
  current one.
\<close>

section \<open>The builder\<close>

record old_builder =
  o_config :: "backoffice_config option"
  o_apiEndpoint :: "string option"
  o_navItem :: "nav_item option"
  o_list :: "list_config option"
  o_form :: "form_config option"
  o_detail :: "detail_config option"
  o_queryInvalidations :: "string list"

definition new_old_builder :: old_builder where
  "new_old_builder = \<lparr>o_config = None, o_apiEndpoint = None, o_navItem = None, o_list = None, o_form = None, o_detail = None,
     o_queryInvalidations = []\<rparr>"

definition old_setConfig :: "backoffice_config \<Rightarrow> old_builder \<Rightarrow> old_builder" where
  "old_setConfig config b = b\<lparr>o_config := Some config\<rparr>"

definition addQueryInvalidation :: "string \<Rightarrow> old_builder \<Rightarrow> old_builder" where
  "addQueryInvalidation queryKey b =
     (if queryKey \<in> set (o_queryInvalidations b) then b else b\<lparr>o_queryInvalidations := o_queryInvalidations b @ [queryKey]\<rparr>)"

definition old_setApiEndpoint :: "string \<Rightarrow> old_builder \<Rightarrow> old_builder" where
  "old_setApiEndpoint endpoint b = addQueryInvalidation endpoint (b\<lparr>o_apiEndpoint := Some endpoint\<rparr>)"

definition old_setNavItem :: "nav_item \<Rightarrow> old_builder \<Rightarrow> old_builder" where
  "old_setNavItem item b = b\<lparr>o_navItem := Some item\<rparr>"

definition old_setListConfig :: "list_config \<Rightarrow> old_builder \<Rightarrow> old_builder" where
  "old_setListConfig config b = b\<lparr>o_list := Some config\<rparr>"

definition old_setFormConfig :: "form_config \<Rightarrow> old_builder \<Rightarrow> old_builder" where
  "old_setFormConfig config b = b\<lparr>o_form := Some config\<rparr>"

definition old_setDetailConfig :: "detail_config \<Rightarrow> old_builder \<Rightarrow> old_builder" where
  "old_setDetailConfig config b = b\<lparr>o_detail := Some config\<rparr>"

definition old_reset :: "old_builder \<Rightarrow> old_builder" where
  "old_reset b = new_old_builder"

record old_module = module +
  om_queryInvalidations :: "string list"
  om_queryKeys :: "string \<times> (string option \<Rightarrow> string)"

text \<open>The key of the list and the keys of the details; an empty id counts as none.\<close>

definition getQueryKeys :: "string \<Rightarrow> string \<times> (string option \<Rightarrow> string)" where
  "getQueryKeys moduleName =
     (moduleName, \<lambda>i. if truthy i then moduleName @ ''-'' @ the i else moduleName @ ''-detail'')"

definition old_build :: "api_context \<Rightarrow> old_builder \<Rightarrow> old_module js" where
  "old_build A b =
     (case o_config b of
        None \<Rightarrow> Inl (JsError ''BackofficeConfig must be set before building a module'')
      | Some config \<Rightarrow>
          if \<not> truthy (o_apiEndpoint b) then Inl (JsError ''API endpoint must be set before building a module'')
          else let endpoint = the (o_apiEndpoint b)
               in Inr \<lparr>m_config = config, m_apiEndpoint = endpoint,
                    m_fetchList = (\<lambda>params. api_get A endpoint (with_params params)),
                    m_fetchItem = (\<lambda>i. api_get A (endpoint @ ''/'' @ i) no_config),
                    m_createItem = (\<lambda>data. api_post A endpoint data),
                    m_updateItem = (\<lambda>i data. api_put A (endpoint @ ''/'' @ i) data),
                    m_deleteItem = (\<lambda>i. api_delete A (endpoint @ ''/'' @ i)),
                    m_listConfig = o_list b, m_formConfig = o_form b, m_detailConfig = o_detail b,
                    m_navItem = o_navItem b, om_queryInvalidations = o_queryInvalidations b,
                    om_queryKeys = getQueryKeys (toLowerCase (bc_title config))\<rparr>)"

section \<open>The director\<close>

definition plain_list :: "(string \<times> string) list \<Rightarrow> string list \<Rightarrow> list_config" where
  "plain_list cols ss = \<lparr>lc_columns = map (\<lambda>(f, h). col f h) cols, lc_searchFields = ss, lc_filters = [], lc_actions = []\<rparr>"

text \<open>The chain of calls that every module goes through, starting from a new builder.\<close>

definition old_chain :: "api_context \<Rightarrow> backoffice_config \<Rightarrow> string \<Rightarrow> nav_item \<Rightarrow> list_config \<Rightarrow> form_config \<Rightarrow> old_module js" where
  "old_chain A config endpoint nav lst frm =
     old_build A (old_setFormConfig frm (old_setListConfig lst (old_setNavItem nav (old_setApiEndpoint endpoint
       (old_setConfig config new_old_builder)))))"

definition old_buildCustomerModule :: "js_env \<Rightarrow> api_context \<Rightarrow> old_module js" where
  "old_buildCustomerModule E A = old_chain A
     \<lparr>bc_title = ''Customers'', bc_basePath = ''/backoffice/customers'', bc_permissions = [''view_customers'', ''edit_customers'']\<rparr>
     ''/api/customers'' \<lparr>nav_label = ''Customers'', nav_href = ''/backoffice/customers''\<rparr>
     (plain_list [(''name'', ''Name''), (''email'', ''Email''), (''phone'', ''Phone''), (''created_at'', ''Created At'')]
        [''name'', ''email'', ''phone''])
     (form
        [required_field ''name'' ''Name'' TText,
         (required_field ''email'' ''Email'' TText)\<lparr>ff_validation := Some (validate_email E)\<rparr>,
         field ''phone'' ''Phone'' TText])"

definition old_buildWarehouseModule :: "api_context \<Rightarrow> old_module js" where
  "old_buildWarehouseModule A = old_chain A
     \<lparr>bc_title = ''Warehouses'', bc_basePath = ''/backoffice/warehouses'', bc_permissions = [''view_warehouses'', ''edit_warehouses'']\<rparr>
     ''/api/warehouses'' \<lparr>nav_label = ''Warehouses'', nav_href = ''/backoffice/warehouses''\<rparr>
     (plain_list [(''name'', ''Name''), (''code'', ''Code''), (''city'', ''City''), (''state'', ''State''), (''country'', ''Country''),
        (''active'', ''Active'')] [''name'', ''code'', ''city'', ''state'', ''country''])
     (form
        [required_field ''name'' ''Name'' TText, required_field ''code'' ''Code'' TText,
         required_field ''address_line1'' ''Address Line 1'' TText, required_field ''city'' ''City'' TText,
         required_field ''state'' ''State'' TText, required_field ''postal_code'' ''Postal Code'' TText,
         required_field ''country'' ''Country'' TText, field ''active'' ''Active'' TBoolean])"

definition old_buildInventoryModule :: "api_context \<Rightarrow> old_module js" where
  "old_buildInventoryModule A = old_chain A
     \<lparr>bc_title = ''Inventory'', bc_basePath = ''/backoffice/inventory'', bc_permissions = [''view_inventory'', ''edit_inventory'']\<rparr>
     ''/api/inventory'' \<lparr>nav_label = ''Inventory'', nav_href = ''/backoffice/inventory''\<rparr>
     (plain_list [(''name'', ''Name''), (''sku'', ''SKU''), (''quantity'', ''Quantity''), (''reorder_point'', ''Reorder Point''),
        (''price'', ''Price''), (''active'', ''Active'')] [''name'', ''sku''])
     \<lparr>fc_fields =
        [required_field ''name'' ''Product Name'' TText, required_field ''sku'' ''SKU'' TText, field ''description'' ''Description'' TTextarea,
         required_field ''quantity'' ''Quantity'' TNumber, required_field ''reorder_point'' ''Reorder Point'' TNumber,
         required_field ''price'' ''Price'' TNumber, field ''active'' ''Active'' TBoolean],
      fc_sections = Some [(''Basic Information'', [''name'', ''sku'', ''description'']),
        (''Inventory Details'', [''quantity'', ''reorder_point'', ''price'', ''active''])]\<rparr>"

definition old_buildOrderModule :: "api_context \<Rightarrow> old_module js" where
  "old_buildOrderModule A = old_chain A
     \<lparr>bc_title = ''Orders'', bc_basePath = ''/backoffice/orders'', bc_permissions = [''view_orders'', ''edit_orders'']\<rparr>
     ''/api/orders'' \<lparr>nav_label = ''Orders'', nav_href = ''/backoffice/orders''\<rparr>
     (plain_list [(''id'', ''Order ID''), (''customer_name'', ''Customer''), (''status'', ''Status''), (''total'', ''Total''),
        (''created_at'', ''Created At'')] [''id'', ''customer_name'', ''status''])
     (form
        [select_field ''customer_id'' ''Customer'' [],
         select_field ''status'' ''Status'' [(''pending'', ''Pending''), (''processing'', ''Processing''), (''shipped'', ''Shipped''),
           (''delivered'', ''Delivered''), (''cancelled'', ''Cancelled'')],
         required_field ''total'' ''Total'' TNumber, field ''notes'' ''Notes'' TTextarea])"

definition old_buildInventoryTransactionsModule :: "api_context \<Rightarrow> old_module js" where
  "old_buildInventoryTransactionsModule A = old_chain A
     \<lparr>bc_title = ''Transactions'', bc_basePath = ''/backoffice/transactions'', bc_permissions = [''view_inventory_transactions'']\<rparr>
     ''/api/inventory/transactions'' \<lparr>nav_label = ''Transactions'', nav_href = ''/backoffice/transactions''\<rparr>
     (plain_list [(''id'', ''Transaction ID''), (''item_name'', ''Item''), (''quantity'', ''Quantity''), (''type'', ''Type''),
        (''reason'', ''Reason''), (''created_at'', ''Created At'')] [''id'', ''item_name'', ''reason''])
     (form
        [select_field ''item_id'' ''Item'' [], required_field ''quantity'' ''Quantity'' TNumber,
         select_field ''type'' ''Type'' [(''in'', ''Stock In''), (''out'', ''Stock Out'')], required_field ''reason'' ''Reason'' TText])"

definition old_buildInventoryReservationsModule :: "api_context \<Rightarrow> old_module js" where
  "old_buildInventoryReservationsModule A = old_chain A
     \<lparr>bc_title = ''Reservations'', bc_basePath = ''/backoffice/reservations'', bc_permissions = [''view_inventory_reservations'']\<rparr>
     ''/api/inventory/reservations'' \<lparr>nav_label = ''Reservations'', nav_href = ''/backoffice/reservations''\<rparr>
     (plain_list [(''id'', ''Reservation ID''), (''item_name'', ''Item''), (''quantity'', ''Quantity''), (''status'', ''Status''),
        (''order_id'', ''Order ID''), (''expires_at'', ''Expires At'')] [''id'', ''item_name'', ''order_id''])
     (form
        [select_field ''item_id'' ''Item'' [], required_field ''quantity'' ''Quantity'' TNumber,
         select_field ''status'' ''Status'' [(''pending'', ''Pending''), (''confirmed'', ''Confirmed''), (''cancelled'', ''Cancelled'')],
         field ''order_id'' ''Order ID'' TText, required_field ''expires_at'' ''Expires At'' TDate])"

section \<open>The application\<close>

definition backofficeModules :: "js_env \<Rightarrow> api_context \<Rightarrow> old_module list js" where
  "backofficeModules E A = js_map id
     [old_buildCustomerModule E A, old_buildWarehouseModule A, old_buildInventoryModule A, old_buildOrderModule A,
      old_buildInventoryTransactionsModule A, old_buildInventoryReservationsModule A]"

definition old_navItems :: "old_module list \<Rightarrow> nav_item list" where
  "old_navItems ms = List.map_filter m_navItem ms"

text \<open>The types of fields that the form of the application does not have, by their names.\<close>

definition mapped_type :: "string \<Rightarrow> string" where
  "mapped_type type =
     (if type \<in> {''multiselect'', ''checkbox'', ''radio''} then ''select''
      else if type = ''datetime'' then ''date''
      else if type \<in> {''color'', ''tel'', ''url''} then ''text'' else type)"

datatype old_page = List_page | New_form | Edit_form

text \<open>The routes of a module: the path, the page and its title.\<close>

definition renderModuleRoutes :: "old_module \<Rightarrow> (string \<times> old_page \<times> string) list" where
  "renderModuleRoutes m =
     (let basePath = bc_basePath (m_config m); title = bc_title (m_config m)
      in (if m_listConfig m \<noteq> None then [(basePath, List_page, title)] else []) @
         (if m_formConfig m \<noteq> None
          then [(basePath @ ''/new'', New_form, ''New '' @ title), (basePath @ ''/:id'', Edit_form, ''Edit '' @ title)] else []))"

text \<open>\<open>s.replace(old, new)\<close>: the first occurrence.\<close>

fun replace_first :: "string \<Rightarrow> string \<Rightarrow> string \<Rightarrow> string" where
  "replace_first old new s =
     (if startsWith s old then new @ drop (length old) s
      else case s of [] \<Rightarrow> [] | c # t \<Rightarrow> c # replace_first old new t)"

declare replace_first.simps [simp del]

definition old_listPath :: "string \<Rightarrow> string" where
  "old_listPath apiEndpoint = replace_first ''/api'' ''/backoffice'' apiEndpoint"

text \<open>One form for each section, with the fields it names.\<close>

definition fieldsBySection :: "form_config \<Rightarrow> (string \<times> form_field list) list" where
  "fieldsBySection fc =
     (case fc_sections fc of
        None \<Rightarrow> [([], fc_fields fc)]
      | Some ss \<Rightarrow> map (\<lambda>(title, names). (title, filter (\<lambda>f. ff_name f \<in> set names) (fc_fields fc))) ss)"

text \<open>
  \<open>handleSubmit\<close> of the page with the answer of the backend: the request that is sent, the query that is invalidated and
  where the page goes; a failure is written to the console.
\<close>

record old_submission =
  os_sent :: "(string \<times> string \<times> jsval) list"
  os_invalidated :: "string list"
  os_path :: "string option"

definition old_handleSubmit :: "string \<Rightarrow> string option \<Rightarrow> jsval \<Rightarrow> jsval js \<Rightarrow> old_submission" where
  "old_handleSubmit apiEndpoint i formData answer =
     (let sent = (case i of None \<Rightarrow> (''POST'', apiEndpoint, formData) | Some i \<Rightarrow> (''PUT'', apiEndpoint @ ''/'' @ i, formData))
      in if isl answer then \<lparr>os_sent = [sent], os_invalidated = [], os_path = None\<rparr>
         else \<lparr>os_sent = [sent], os_invalidated = [apiEndpoint], os_path = Some (old_listPath apiEndpoint)\<rparr>)"

text \<open>\<open>onSubmit\<close> of the form of a section: only the last one is sent.\<close>

definition section_submit :: "form_config \<Rightarrow> string \<Rightarrow> string option \<Rightarrow> nat \<Rightarrow> jsval \<Rightarrow> jsval js \<Rightarrow> old_submission" where
  "section_submit fc apiEndpoint i index formData answer =
     (if Suc index = length (fieldsBySection fc) then old_handleSubmit apiEndpoint i formData answer
      else \<lparr>os_sent = [], os_invalidated = [], os_path = None\<rparr>)"

text \<open>The sidebar marks every item whose address is a prefix of the path.\<close>

definition sidebar_active :: "string \<Rightarrow> nav_item \<Rightarrow> bool" where
  "sidebar_active pathname item = startsWith pathname (nav_href item)"

section \<open>Properties\<close>

text \<open>Building fails exactly without a configuration or an endpoint; the endpoint is always among the queries to invalidate, once.\<close>

definition endpoint_known :: "old_builder \<Rightarrow> bool" where
  "endpoint_known b \<longleftrightarrow> distinct (o_queryInvalidations b) \<and>
     (case o_apiEndpoint b of None \<Rightarrow> True | Some e \<Rightarrow> e \<in> set (o_queryInvalidations b))"

lemma endpoint_known_steps:
  "endpoint_known new_old_builder" "endpoint_known b \<Longrightarrow> endpoint_known (old_setApiEndpoint e b)"
  "endpoint_known b \<Longrightarrow> endpoint_known (addQueryInvalidation k b)" "endpoint_known b \<Longrightarrow> endpoint_known (old_setConfig c b)"
  "endpoint_known b \<Longrightarrow> endpoint_known (old_setNavItem n b)" "endpoint_known b \<Longrightarrow> endpoint_known (old_setListConfig l b)"
  "endpoint_known b \<Longrightarrow> endpoint_known (old_setFormConfig f b)" "endpoint_known b \<Longrightarrow> endpoint_known (old_setDetailConfig d b)"
  "endpoint_known (old_reset b)"
  by (auto simp: endpoint_known_def new_old_builder_def old_setApiEndpoint_def addQueryInvalidation_def old_setConfig_def
      old_setNavItem_def old_setListConfig_def old_setFormConfig_def old_setDetailConfig_def old_reset_def split: option.splits)

theorem old_build_spec:
  assumes "endpoint_known b"
  shows "(isl (old_build A b) \<longleftrightarrow> o_config b = None \<or> \<not> truthy (o_apiEndpoint b)) \<and>
    (old_build A b = Inr m \<longrightarrow> distinct (om_queryInvalidations m) \<and> m_apiEndpoint m \<in> set (om_queryInvalidations m))"
  using assms by (auto simp: old_build_def endpoint_known_def Let_def truthy_def split: option.splits)

lemmas old_modules_defs = old_buildCustomerModule_def old_buildWarehouseModule_def old_buildInventoryModule_def
  old_buildOrderModule_def old_buildInventoryTransactionsModule_def old_buildInventoryReservationsModule_def

lemma old_chain_eq:
  "endpoint \<noteq> [] \<Longrightarrow> \<exists>m. old_chain A config endpoint nav lst frm = Inr m \<and> m_config m = config \<and> m_apiEndpoint m = endpoint \<and>
     m_listConfig m = Some lst \<and> m_formConfig m = Some frm \<and> m_navItem m = Some nav"
  by (simp add: old_chain_def old_build_def old_setFormConfig_def old_setListConfig_def old_setNavItem_def old_setApiEndpoint_def
      addQueryInvalidation_def old_setConfig_def new_old_builder_def truthy_def Let_def)

lemma old_build_needs_config: "isl (old_build A (old_setApiEndpoint ''/api/x'' new_old_builder))"
  using old_build_spec [OF endpoint_known_steps(2) [OF endpoint_known_steps(1)], of A "''/api/x''"]
  by (simp add: old_setApiEndpoint_def addQueryInvalidation_def new_old_builder_def)

lemma list_paths:
  "old_listPath ''/api/customers'' = ''/backoffice/customers''" "old_listPath ''/api/warehouses'' = ''/backoffice/warehouses''"
  "old_listPath ''/api/inventory'' = ''/backoffice/inventory''" "old_listPath ''/api/orders'' = ''/backoffice/orders''"
  "old_listPath ''/api/inventory/transactions'' = ''/backoffice/inventory/transactions''"
  "old_listPath ''/api/inventory/reservations'' = ''/backoffice/inventory/reservations''"
  by (simp_all add: old_listPath_def replace_first.simps startsWith_def)

text \<open>
  All six modules are built. Saving leads back to the list of the module for customers, warehouses, inventory and orders; for transactions
  and reservations, whose endpoints lie below that of the inventory, it leads to an address of the inventory's edit form.
\<close>

theorem old_save_destination:
  "\<exists>ms. backofficeModules E A = Inr ms \<and>
     map (\<lambda>m. bc_title (m_config m)) ms = [''Customers'', ''Warehouses'', ''Inventory'', ''Orders'', ''Transactions'', ''Reservations''] \<and>
     map (\<lambda>m. os_path (old_handleSubmit (m_apiEndpoint m) i formData (Inr v)) = Some (bc_basePath (m_config m))) ms =
       [True, True, True, True, False, False] \<and>
     map (\<lambda>m. os_path (old_handleSubmit (m_apiEndpoint m) i formData (Inr v))) (drop 4 ms) =
       [Some (bc_basePath (m_config (ms ! 2)) @ ''/transactions''), Some (bc_basePath (m_config (ms ! 2)) @ ''/reservations'')]"
  by (simp add: backofficeModules_def old_modules_defs old_chain_def old_build_def old_setFormConfig_def old_setListConfig_def
      old_setNavItem_def old_setApiEndpoint_def addQueryInvalidation_def old_setConfig_def new_old_builder_def truthy_def Let_def
      old_handleSubmit_def list_paths)

text \<open>
  The form of the inventory is cut into two forms, of which the first sends nothing and the second sends its own
  fields only: the required name and SKU are never sent together with the rest.
\<close>

theorem inventory_sections_lose_fields:
  "\<exists>m fc. old_buildInventoryModule A = Inr m \<and> m_formConfig m = Some fc \<and>
     map (map ff_name \<circ> snd) (fieldsBySection fc) = [[''name'', ''sku'', ''description''], [''quantity'', ''reorder_point'', ''price'', ''active'']] \<and>
     map ff_name (filter ff_required (snd (fieldsBySection fc ! 0))) = [''name'', ''sku''] \<and>
     os_sent (section_submit fc (m_apiEndpoint m) i 0 formData answer) = [] \<and>
     length (os_sent (section_submit fc (m_apiEndpoint m) i 1 formData answer)) = 1"
  by (simp add: old_buildInventoryModule_def old_chain_def old_build_def old_setFormConfig_def old_setListConfig_def
      old_setNavItem_def old_setApiEndpoint_def addQueryInvalidation_def old_setConfig_def new_old_builder_def truthy_def Let_def
      fieldsBySection_def section_submit_def old_handleSubmit_def required_field_def field_def split: option.split)

end
