(* ===== verification/Molecule_Charts.thy ===== *)
theory Molecule_Charts
  imports Dashboard_Widgets
begin

text \<open>
  The charts that \<open>ChartFactory\<close> renders: \<open>components/molecules/BarChart.tsx\<close>, \<open>BarGroup.tsx\<close>, \<open>StackedBarGroup.tsx\<close>, \<open>LineChart.tsx\<close> and
  \<open>PieChart.tsx\<close> with their builders in \<open>utils\<close>: the domains of the scales, the rectangles of the bars, the points of the lines, the
  percentages and the tooltips. The scales of D3 and its stack generator are parameters.
\<close>

section \<open>Common parts\<close>

record chart_frame =
  cf_width :: jsnum
  cf_height :: jsnum
  cf_top :: jsnum
  cf_right :: jsnum
  cf_bottom :: jsnum
  cf_left :: jsnum

definition default_frame :: chart_frame where
  "default_frame = \<lparr>cf_width = Fin 600, cf_height = Fin 400, cf_top = Fin 20, cf_right = Fin 30, cf_bottom = Fin 50, cf_left = Fin 60\<rparr>"

definition contentWidth :: "chart_frame \<Rightarrow> jsnum" where
  "contentWidth c = num_sub (num_sub (cf_width c) (cf_left c)) (cf_right c)"

definition contentHeight :: "chart_frame \<Rightarrow> jsnum" where
  "contentHeight c = num_sub (num_sub (cf_height c) (cf_top c)) (cf_bottom c)"

text \<open>\<open>Array.isArray(yKey) ? yKey : [yKey]\<close>, as names of properties.\<close>

definition y_keys :: "js_env \<Rightarrow> jsval \<Rightarrow> string list js" where
  "y_keys E yKey = js_map (js_toString E) (case yKey of JArr ys ps \<Rightarrow> ys | v \<Rightarrow> [v])"

text \<open>\<open>Number(d[key] || 0)\<close>\<close>

definition number_or_zero :: "js_env \<Rightarrow> string \<Rightarrow> jsval \<Rightarrow> jsnum js" where
  "number_or_zero E k d = js_bind (js_get d k) (\<lambda>v. js_toNumber E (js_or v (JNum (Fin 0))))"

text \<open>\<open>d3.max(...) * 1.1\<close>, where the maximum of nothing is \<open>undefined\<close>.\<close>

definition tenth_more :: "jsnum option \<Rightarrow> jsnum" where
  "tenth_more m = (case m of None \<Rightarrow> NaN | Some x \<Rightarrow> num_mul x (fl (11 / 10)))"

definition string_cell :: "js_env \<Rightarrow> string \<Rightarrow> jsval \<Rightarrow> string js" where
  "string_cell E k d = js_bind (js_get d k) (js_toString E)"

section \<open>Bars\<close>

datatype bar_mode = Simple | Grouped | Stacked

text \<open>Both flags together mean stacked.\<close>

definition mode_of :: "bool \<Rightarrow> bool \<Rightarrow> bar_mode" where
  "mode_of stacked grouped = (if stacked then Stacked else if grouped then Grouped else Simple)"

text \<open>\<open>yKeys[0]\<close> of an empty list is \<open>undefined\<close>, which is also the name it reads.\<close>

definition first_key :: "string list \<Rightarrow> string" where
  "first_key ks = (case ks of [] \<Rightarrow> ''undefined'' | k # ks \<Rightarrow> k)"

definition setupSimple :: "js_env \<Rightarrow> d3_lib \<Rightarrow> string list \<Rightarrow> jsval list \<Rightarrow> jsnum js" where
  "setupSimple E L ks rows = js_bind (js_map (number_or_zero E (first_key ks)) rows) (\<lambda>ns. Inr (tenth_more (d3_max L ns)))"

text \<open>The inner maximum of a row without keys is \<open>undefined\<close>, which the outer one skips.\<close>

definition setupGrouped :: "js_env \<Rightarrow> d3_lib \<Rightarrow> string list \<Rightarrow> jsval list \<Rightarrow> jsnum js" where
  "setupGrouped E L ks rows =
     js_bind (js_map (\<lambda>d. js_map (\<lambda>k. number_or_zero E k d) ks) rows) (\<lambda>ns.
       Inr (tenth_more (d3_max L (List.map_filter (d3_max L) ns))))"

definition row_sum :: "js_env \<Rightarrow> string list \<Rightarrow> jsval \<Rightarrow> jsnum js" where
  "row_sum E ks d = js_reduce (\<lambda>sum k. js_bind (number_or_zero E k d) (\<lambda>n. Inr (num_add sum n))) ks (Fin 0)"

definition setupStacked :: "js_env \<Rightarrow> d3_lib \<Rightarrow> string list \<Rightarrow> jsval list \<Rightarrow> jsnum js" where
  "setupStacked E L ks rows = js_bind (js_map (row_sum E ks) rows) (\<lambda>ns. Inr (tenth_more (d3_max L ns)))"

definition bar_domain :: "js_env \<Rightarrow> d3_lib \<Rightarrow> bar_mode \<Rightarrow> string list \<Rightarrow> jsval list \<Rightarrow> jsnum js" where
  "bar_domain E L mode ks rows =
     (case mode of Simple \<Rightarrow> setupSimple E L ks rows | Grouped \<Rightarrow> setupGrouped E L ks rows | Stacked \<Rightarrow> setupStacked E L ks rows)"

text \<open>The scales once their domains are set; a band scale knows the texts of its domain only.\<close>

record bar_scales =
  mainScale :: "string \<Rightarrow> jsnum option"
  main_bandwidth :: jsnum
  valueScale :: "jsnum \<Rightarrow> jsnum"
  groupScale :: "string \<Rightarrow> jsnum option"
  group_bandwidth :: jsnum

record bar =
  bar_x :: "jsnum option"
  bar_y :: "jsnum option"
  bar_width :: jsnum
  bar_height :: jsnum
  bar_fill :: jsval

text \<open>\<open>colors[i % colors.length]\<close> with an index that may be negative: JavaScript keeps the sign, and there is no such element.\<close>

definition cycled_color :: "string list \<Rightarrow> int \<Rightarrow> jsval" where
  "cycled_color colors i = (if colors = [] \<or> i < 0 \<and> i mod int (length colors) \<noteq> 0 then JUndef
     else JStr (colors ! nat (i mod int (length colors))))"

definition make_bar :: "bool \<Rightarrow> jsnum option \<Rightarrow> jsnum \<Rightarrow> jsnum \<Rightarrow> jsnum \<Rightarrow> jsval \<Rightarrow> bar" where
  "make_bar horizontal pos bandwidth start stop fill =
     (if horizontal
      then \<lparr>bar_x = Some start, bar_y = pos, bar_width = num_sub stop start, bar_height = bandwidth, bar_fill = fill\<rparr>
      else \<lparr>bar_x = pos, bar_y = Some stop, bar_width = bandwidth, bar_height = num_sub start stop, bar_fill = fill\<rparr>)"

definition simple_bar :: "js_env \<Rightarrow> bar_scales \<Rightarrow> bool \<Rightarrow> string list \<Rightarrow> string \<Rightarrow> string list \<Rightarrow> jsval \<Rightarrow> bar js" where
  "simple_bar E S horizontal colors xKey ks d =
     js_bind (number_or_zero E (first_key ks) d) (\<lambda>value. js_bind (string_cell E xKey d) (\<lambda>x.
       Inr (make_bar horizontal (mainScale S x) (main_bandwidth S) (valueScale S (Fin 0)) (valueScale S value)
         (if colors = [] then JUndef else JStr (hd colors)))))"

text \<open>A sum with \<open>undefined\<close> is \<open>NaN\<close>.\<close>

definition plus_option :: "jsnum option \<Rightarrow> jsnum option \<Rightarrow> jsnum" where
  "plus_option a b = (case (a, b) of (Some x, Some y) \<Rightarrow> num_add x y | _ \<Rightarrow> NaN)"

definition group_bars :: "js_env \<Rightarrow> bar_scales \<Rightarrow> bool \<Rightarrow> string list \<Rightarrow> string \<Rightarrow> string list \<Rightarrow> jsval \<Rightarrow> bar list js" where
  "group_bars E S horizontal colors xKey ks d =
     js_bind (string_cell E xKey d) (\<lambda>x.
       js_map (\<lambda>(i, k). js_bind (number_or_zero E k d) (\<lambda>value.
         Inr (make_bar horizontal (Some (plus_option (mainScale S x) (groupScale S k))) (group_bandwidth S) (valueScale S (Fin 0))
           (valueScale S value) (cycled_color colors (int i))))) (enumerate 0 ks))"

text \<open>The rows that are given to the stack generator.\<close>

definition stack_item :: "js_env \<Rightarrow> string \<Rightarrow> string list \<Rightarrow> jsval \<Rightarrow> jsval js" where
  "stack_item E xKey ks d =
     js_bind (js_get d xKey) (\<lambda>x.
     js_bind (js_map (\<lambda>k. js_bind (number_or_zero E k d) (\<lambda>n. Inr (k, JNum n))) ks) (\<lambda>ps.
       Inr (JObj (fold (\<lambda>(k, v) qs. props_put qs k v) ps [(xKey, x)]))))"

text \<open>One series for each key: for each row where its part starts and ends, and the row itself.\<close>

type_synonym stack_lib = "string list \<Rightarrow> jsval list \<Rightarrow> (jsnum \<times> jsnum \<times> jsval) list list"

definition generateStackedData :: "js_env \<Rightarrow> stack_lib \<Rightarrow> string \<Rightarrow> string list \<Rightarrow> jsval list \<Rightarrow> (jsnum \<times> jsnum \<times> jsval) list list js" where
  "generateStackedData E stack xKey ks rows = js_bind (js_map (stack_item E xKey ks) rows) (\<lambda>items. Inr (stack ks items))"

text \<open>The bar is placed by \<open>String(d.data[0])\<close>.\<close>

definition stacked_bar :: "js_env \<Rightarrow> bar_scales \<Rightarrow> bool \<Rightarrow> jsval \<Rightarrow> jsnum \<times> jsnum \<times> jsval \<Rightarrow> bar js" where
  "stacked_bar E S horizontal color part =
     (case part of (lo, hi, item) \<Rightarrow>
        js_bind (js_get item ''0'') (\<lambda>v. js_bind (js_toString E v) (\<lambda>x.
          let pos = mainScale S x; a = valueScale S lo; b = valueScale S hi
          in Inr (if horizontal
             then \<lparr>bar_x = Some a, bar_y = pos, bar_width = Math_max (Fin 0) (num_sub b a), bar_height = main_bandwidth S, bar_fill = color\<rparr>
             else \<lparr>bar_x = pos, bar_y = Some b, bar_width = main_bandwidth S, bar_height = Math_max (Fin 0) (num_sub a b), bar_fill = color\<rparr>))))"

definition renderBars ::
  "js_env \<Rightarrow> stack_lib \<Rightarrow> bar_scales \<Rightarrow> bar_mode \<Rightarrow> bool \<Rightarrow> string list \<Rightarrow> string \<Rightarrow> string list \<Rightarrow> jsval list \<Rightarrow> bar list js" where
  "renderBars E stack S mode horizontal colors xKey ks rows =
     (case mode of
        Stacked \<Rightarrow> js_bind (generateStackedData E stack xKey ks rows) (\<lambda>series.
          js_bind (js_map (\<lambda>(i, s). js_map (stacked_bar E S horizontal (cycled_color colors (int i))) s) (enumerate 0 series))
            (\<lambda>bss. Inr (concat bss)))
      | Grouped \<Rightarrow> js_bind (js_map (group_bars E S horizontal colors xKey ks) rows) (\<lambda>bss. Inr (concat bss))
      | Simple \<Rightarrow> js_map (simple_bar E S horizontal colors xKey ks) rows)"

section \<open>Tooltips\<close>

record tooltip =
  tip_visible :: bool
  tip_x :: jsnum
  tip_y :: jsnum
  tip_data :: jsval

definition no_tooltip :: tooltip where
  "no_tooltip = \<lparr>tip_visible = False, tip_x = Fin 0, tip_y = Fin 0, tip_data = JNull\<rparr>"

text \<open>\<open>key\<close> is \<open>undefined\<close> when the part of a stack under the pointer does not carry one.\<close>

definition handleBarHover :: "chart_frame \<Rightarrow> jsnum \<times> jsnum \<Rightarrow> jsval \<Rightarrow> string option \<Rightarrow> tooltip js" where
  "handleBarHover c pointer d key =
     js_bind (js_get d (case key of None \<Rightarrow> ''undefined'' | Some k \<Rightarrow> k)) (\<lambda>v.
       Inr \<lparr>tip_visible = True, tip_x = num_add (fst pointer) (cf_left c), tip_y = num_add (snd pointer) (cf_top c),
         tip_data = JObj (props_put (props_put (put_all [] (spread_props d)) ''key'' (case key of None \<Rightarrow> JUndef | Some k \<Rightarrow> JStr k)) ''value'' v)\<rparr>)"

definition handleBarLeave :: "tooltip \<Rightarrow> tooltip" where
  "handleBarLeave t = t\<lparr>tip_visible := False\<rparr>"

text \<open>\<open>colors[yKeys.indexOf(key) % colors.length]\<close>\<close>

definition tooltip_color :: "string list \<Rightarrow> string list \<Rightarrow> jsval \<Rightarrow> jsval" where
  "tooltip_color colors ks key =
     cycled_color colors (case List.find (\<lambda>i. JStr (ks ! i) = key) [0..<length ks] of None \<Rightarrow> - 1 | Some i \<Rightarrow> int i)"

section \<open>Lines\<close>

text \<open>\<open>/^\d{4}-\d{2}-\d{2}/\<close>\<close>

definition is_digit :: "char \<Rightarrow> bool" where
  "is_digit c \<longleftrightarrow> of_char c \<in> {48..57 :: nat}"

definition dated :: "string \<Rightarrow> bool" where
  "dated s \<longleftrightarrow> 10 \<le> length s \<and> list_all (\<lambda>i. is_digit (s ! i)) [0, 1, 2, 3, 5, 6, 8, 9] \<and> s ! 4 = CHR ''-'' \<and> s ! 7 = CHR ''-''"

text \<open>A place on the horizontal axis: a date, or the value as it is.\<close>

datatype x_value = XDate jsnum | XValue jsval

definition parse_x :: "js_env \<Rightarrow> string \<Rightarrow> jsval \<Rightarrow> x_value js" where
  "parse_x E xKey d =
     js_bind (js_get d xKey) (\<lambda>v. Inr (case v of JStr s \<Rightarrow> if dated s then XDate (Date_parse E s) else XValue v | _ \<Rightarrow> XValue v))"

definition time_axis :: "x_value list \<Rightarrow> bool" where
  "time_axis xs \<longleftrightarrow> (case xs of XDate t # ys \<Rightarrow> True | _ \<Rightarrow> False)"

text \<open>The number of a row under a key, where the cell of the axis may be a date by now.\<close>

definition line_number :: "js_env \<Rightarrow> string \<Rightarrow> string \<Rightarrow> jsval \<Rightarrow> jsnum js" where
  "line_number E xKey key d =
     (if key = xKey then js_bind (parse_x E xKey d) (\<lambda>x. case x of XDate t \<Rightarrow> Inr t | XValue v \<Rightarrow> js_toNumber E (js_or v (JNum (Fin 0))))
      else number_or_zero E key d)"

text \<open>\<open>Math.max(...values)\<close>, which is minus infinity for no values.\<close>

definition math_max_all :: "jsnum list \<Rightarrow> jsnum" where
  "math_max_all ns = fold (\<lambda>n m. Math_max m n) ns NegInf"

definition line_domain :: "js_env \<Rightarrow> d3_lib \<Rightarrow> string \<Rightarrow> string list \<Rightarrow> jsval list \<Rightarrow> jsnum js" where
  "line_domain E L xKey ks rows =
     js_bind (js_map (\<lambda>d. js_map (\<lambda>k. line_number E xKey k d) ks) rows) (\<lambda>ns. Inr (tenth_more (d3_max L (map math_max_all ns))))"

definition getValidDataForKey :: "string \<Rightarrow> jsval list \<Rightarrow> jsval list js" where
  "getValidDataForKey key rows = js_filter (\<lambda>d. js_bind (js_get d key) (\<lambda>v. Inr (v \<noteq> JUndef \<and> v \<noteq> JNull))) rows"

text \<open>The dots of a line; the line runs through the same points.\<close>

definition line_dots :: "js_env \<Rightarrow> (x_value \<Rightarrow> jsnum option) \<Rightarrow> (jsnum \<Rightarrow> jsnum) \<Rightarrow> string \<Rightarrow> string \<Rightarrow> jsval list \<Rightarrow> (jsnum option \<times> jsnum) list js" where
  "line_dots E xScale yScale xKey key rows =
     js_bind (getValidDataForKey key rows) (js_map (\<lambda>d. js_bind (parse_x E xKey d) (\<lambda>x. js_bind (line_number E xKey key d) (\<lambda>n.
       Inr (xScale x, yScale n)))))"

definition handleDotHover :: "chart_frame \<Rightarrow> jsnum \<times> jsnum \<Rightarrow> jsval \<Rightarrow> string \<Rightarrow> tooltip" where
  "handleDotHover c pointer d key =
     \<lparr>tip_visible = True, tip_x = num_add (fst pointer) (cf_left c), tip_y = num_add (snd pointer) (cf_top c),
       tip_data = JObj (props_put (put_all [] (spread_props d)) ''key'' (JStr key))\<rparr>"

section \<open>Pies\<close>

definition calculateTotal :: "js_env \<Rightarrow> string \<Rightarrow> jsval list \<Rightarrow> jsnum js" where
  "calculateTotal E valueKey rows = js_reduce (\<lambda>sum d. js_bind (number_or_zero E valueKey d) (\<lambda>n. Inr (num_add sum n))) rows (Fin 0)"

definition slice_share :: "jsnum \<Rightarrow> jsnum \<Rightarrow> jsnum" where
  "slice_share tot value = num_mul (num_div value tot) (Fin 100)"

definition calculatePercentage :: "js_env \<Rightarrow> jsnum \<Rightarrow> jsnum \<Rightarrow> string" where
  "calculatePercentage E tot value = (if num_lt (Fin 0) tot then toFixed E 1 (slice_share tot value) @ ''%'' else ''0%'')"

definition chartRadius :: "jsnum \<Rightarrow> jsnum \<Rightarrow> jsnum" where
  "chartRadius width height = num_div (Math_min width height) (Fin 2)"

definition handleSliceHover :: "jsnum \<Rightarrow> jsnum \<Rightarrow> jsnum \<times> jsnum \<Rightarrow> jsval \<Rightarrow> tooltip" where
  "handleSliceHover width height pointer d =
     \<lparr>tip_visible = True, tip_x = num_add (fst pointer) (num_div width (Fin 2)), tip_y = num_add (snd pointer) (num_div height (Fin 2)),
       tip_data = d\<rparr>"

definition outerRadius :: "jsnum \<Rightarrow> jsnum \<Rightarrow> jsnum" where
  "outerRadius width height = num_sub (chartRadius width height) (Fin 10)"


section \<open>The bars fit under the axis\<close>

text \<open>What \<open>max\<close> of D3 gives for finite numbers.\<close>

definition d3_max_law :: "d3_lib \<Rightarrow> bool" where
  "d3_max_law L \<longleftrightarrow> (\<forall>xs. d3_max L (map Fin xs) = (if xs = [] then None else Some (Fin (Max (set xs)))))"

lemma js_map_length: "js_map f xs = Inr ys \<Longrightarrow> length ys = length xs"
  by (simp add: js_map_Inr list_all2_lengthD)

lemma Max_of_int: "finite A \<Longrightarrow> A \<noteq> {} \<Longrightarrow> Max (rat_of_int ` A) = of_int (Max A)"
  by (rule mono_Max_commute [symmetric]) (simp_all add: mono_def)

text \<open>A tenth more is enough for the number itself.\<close>

lemma tenth_more_above:
  assumes "0 \<le> n" "n < 2 ^ 50"
  shows "\<exists>r. tenth_more (Some (Fin (of_int n))) = Fin r \<and> of_int n \<le> r"
proof -
  obtain c where c: "fl (11 / 10) = Fin c" "1 \<le> c" "c \<le> 2" using fl_within [of 1 "11 / 10" 2] by auto
  have n: "(0::rat) \<le> of_int n" using assms(1) by simp
  have "of_int n \<le> of_int n * c" using mult_left_mono [OF c(2) n] by simp
  moreover have "of_int n * c \<le> of_int (2 * n)" using mult_left_mono [OF c(3) n] by (simp add: mult.commute)
  ultimately obtain r where "fl (of_int n * c) = Fin r" "of_int n \<le> r"
    using fl_within [of n "of_int n * c" "2 * n"] assms by auto
  with c(1) show ?thesis by (simp add: tenth_more_def)
qed

lemma max_above:
  assumes "d3_max_law L" "x \<in> set xs" "\<And>y. y \<in> set xs \<Longrightarrow> 0 \<le> y \<and> y < (2 ^ 50 :: int)"
  shows "\<exists>r. tenth_more (d3_max L (map (\<lambda>y. Fin (of_int y)) xs)) = Fin r \<and> (\<forall>y \<in> set xs. of_int y \<le> r)"
proof -
  let ?m = "Max (set xs)"
  have m: "?m \<in> set xs" using assms(2) by (intro Max_in) auto
  have "Max (set (map rat_of_int xs)) = of_int ?m"
    using length_pos_if_in_set [OF assms(2)] Max_of_int [of "set xs"] by simp
  moreover have "map (\<lambda>y. Fin (of_int y)) xs = map Fin (map rat_of_int xs)" by simp
  ultimately have d: "d3_max L (map (\<lambda>y. Fin (of_int y)) xs) = Some (Fin (of_int ?m))"
    using assms(1,2) unfolding d3_max_law_def by (metis empty_iff list.map_disc_iff list.set(1))
  obtain r where r: "tenth_more (Some (Fin (of_int ?m))) = Fin r" "of_int ?m \<le> r"
    using tenth_more_above assms(3) [OF m] by blast
  have "of_int y \<le> r" if "y \<in> set xs" for y
  proof -
    have "rat_of_int y \<le> of_int ?m" using that by simp
    with r(2) show ?thesis by (rule order.trans [rotated])
  qed
  with d r(1) show ?thesis by simp
qed

text \<open>Sums of whole numbers are exact.\<close>

lemma reduce_whole:
  assumes "\<And>x. x \<in> set xs \<Longrightarrow> f x = Inr (Fin (of_int (v x))) \<and> 0 \<le> v x" "0 \<le> a" "a + (\<Sum>x \<leftarrow> xs. v x) < 2 ^ 50"
  shows "js_reduce (\<lambda>sum x. js_bind (f x) (\<lambda>n. Inr (num_add sum n))) xs (Fin (of_int a)) = Inr (Fin (of_int (a + (\<Sum>x \<leftarrow> xs. v x))))"
  using assms
proof (induction xs arbitrary: a)
  case (Cons x xs)
  have "0 \<le> (\<Sum>x \<leftarrow> xs. v x)" using Cons.prems(1) by (intro sum_list_nonneg) auto
  with Cons.prems have "\<bar>a + v x\<bar> < 2 ^ 53" by fastforce
  then have "fl (of_int a + of_int (v x)) = Fin (of_int (a + v x))" using fl_int [of "a + v x"] by simp
  with Cons.IH [of "a + v x"] Cons.prems show ?case by (simp add: add.assoc)
qed simp

definition bar_end :: "bar_mode \<Rightarrow> string list \<Rightarrow> (string \<Rightarrow> int) \<Rightarrow> int" where
  "bar_end mode ks v = (case mode of Simple \<Rightarrow> v (first_key ks) | Grouped \<Rightarrow> Max (v ` set ks) | Stacked \<Rightarrow> (\<Sum>k \<leftarrow> ks. v k))"

lemma bar_domain_whole:
  assumes "d3_max_law L" "ks \<noteq> []"
    and "\<And>d k. d \<in> set rows \<Longrightarrow> k \<in> set ks \<Longrightarrow> number_or_zero E k d = Inr (Fin (of_int (v d k))) \<and> 0 \<le> v d k"
    and "\<And>d. d \<in> set rows \<Longrightarrow> (\<Sum>k \<leftarrow> ks. v d k) < 2 ^ 50"
  shows "bar_domain E L mode ks rows = Inr (tenth_more (d3_max L (map (\<lambda>y. Fin (of_int y)) (map (\<lambda>d. bar_end mode ks (v d)) rows))))"
proof (cases mode)
  case Simple
  have k: "first_key ks \<in> set ks" using assms(2) by (cases ks) (auto simp: first_key_def)
  have "js_map (number_or_zero E (first_key ks)) rows = Inr (map (\<lambda>d. Fin (of_int (v d (first_key ks)))) rows)"
    using assms(3) k by (intro js_map_pure) blast
  with Simple show ?thesis by (simp add: bar_domain_def setupSimple_def bar_end_def comp_def)
next
  case Grouped
  have cells: "js_map (\<lambda>d. js_map (\<lambda>k. number_or_zero E k d) ks) rows = Inr (map (\<lambda>d. map (\<lambda>k. Fin (of_int (v d k))) ks) rows)"
    using assms(3) by (intro js_map_pure) blast
  have "d3_max L (map (\<lambda>k. Fin (of_int (v d k))) ks) = Some (Fin (of_int (Max (v d ` set ks))))" for d
  proof -
    have "Max (set (map (\<lambda>k. rat_of_int (v d k)) ks)) = of_int (Max (v d ` set ks))"
      using assms(2) Max_of_int [of "v d ` set ks"] by (simp add: image_image)
    moreover have "map (\<lambda>k. Fin (of_int (v d k))) ks = map Fin (map (\<lambda>k. rat_of_int (v d k)) ks)" by simp
    ultimately show ?thesis using assms(1,2) unfolding d3_max_law_def by (metis list.map_disc_iff)
  qed
  then have "List.map_filter (d3_max L) (map (\<lambda>d. map (\<lambda>k. Fin (of_int (v d k))) ks) rows) =
      map (\<lambda>d. Fin (of_int (Max (v d ` set ks)))) rows"
    by (induction rows) (simp_all add: List.map_filter_simps)
  with cells Grouped show ?thesis by (simp add: bar_domain_def setupGrouped_def bar_end_def comp_def)
next
  case Stacked
  have "row_sum E ks d = Inr (Fin (of_int (\<Sum>k \<leftarrow> ks. v d k)))" if "d \<in> set rows" for d
    using reduce_whole [of ks "\<lambda>k. number_or_zero E k d" "v d" 0] assms(3,4) that by (simp add: row_sum_def)
  then have "js_map (row_sum E ks) rows = Inr (map (\<lambda>d. Fin (of_int (\<Sum>k \<leftarrow> ks. v d k))) rows)" by (intro js_map_pure)
  with Stacked show ?thesis by (simp add: bar_domain_def setupStacked_def bar_end_def comp_def)
qed


lemma bar_end_bounds:
  assumes "ks \<noteq> []" "\<And>k. k \<in> set ks \<Longrightarrow> 0 \<le> v k" "(\<Sum>k \<leftarrow> ks. v k) < m"
  shows "0 \<le> bar_end mode ks v \<and> bar_end mode ks v < m"
proof -
  have part: "0 \<le> v k \<and> v k < m" if "k \<in> set ks" for k
    using member_le_sum_list [of "v k" "map v ks"] assms that by fastforce
  have "0 \<le> (\<Sum>k \<leftarrow> ks. v k)" using assms(2) by (intro sum_list_nonneg) auto
  moreover have "Max (v ` set ks) \<in> v ` set ks" using assms(1) by (intro Max_in) auto
  moreover have "first_key ks \<in> set ks" using assms(1) by (cases ks) (auto simp: first_key_def)
  ultimately show ?thesis using part assms(3) by (cases mode) (auto simp: bar_end_def)
qed

text \<open>
  C22: In each of the three modes every bar ends below the end of the axis: when the cells under the keys are whole numbers from zero on
  whose sums stay below 2 to the 50, the domain reaches at least to the end of the tallest bar, for all roundings.
\<close>

theorem bars_fit:
  assumes "d3_max_law L" "ks \<noteq> []" "d \<in> set rows"
    and "\<And>d k. d \<in> set rows \<Longrightarrow> k \<in> set ks \<Longrightarrow> number_or_zero E k d = Inr (Fin (of_int (v d k))) \<and> 0 \<le> v d k"
    and "\<And>d. d \<in> set rows \<Longrightarrow> (\<Sum>k \<leftarrow> ks. v d k) < 2 ^ 50"
  shows "\<exists>top. bar_domain E L mode ks rows = Inr (Fin top) \<and> of_int (bar_end mode ks (v d)) \<le> top"
proof -
  have "0 \<le> bar_end mode ks (v d') \<and> bar_end mode ks (v d') < 2 ^ 50" if "d' \<in> set rows" for d'
    using bar_end_bounds [OF assms(2), of "v d'"] assms(4,5) that by blast
  then obtain r where "tenth_more (d3_max L (map (\<lambda>y. Fin (of_int y)) (map (\<lambda>d. bar_end mode ks (v d)) rows))) = Fin r"
    "of_int (bar_end mode ks (v d)) \<le> r"
    using max_above [OF assms(1), of "bar_end mode ks (v d)" "map (\<lambda>d. bar_end mode ks (v d)) rows"] assms(3) by auto
  moreover have "bar_domain E L mode ks rows =
      Inr (tenth_more (d3_max L (map (\<lambda>y. Fin (of_int y)) (map (\<lambda>d. bar_end mode ks (v d)) rows))))"
    by (rule bar_domain_whole [OF assms(1,2)]) (use assms(4,5) in blast)+
  ultimately show ?thesis by (intro exI [of _ r]) simp
qed

definition demo_max :: d3_lib where
  "demo_max = demo_d3\<lparr>d3_max := \<lambda>ns. if ns = [] then None else Some (Fin (Max ((\<lambda>n. case n of Fin x \<Rightarrow> x | _ \<Rightarrow> 0) ` set ns)))\<rparr>"

definition demo_rows :: "jsval list" where
  "demo_rows = [JObj [(''m'', JStr ''Jan''), (''a'', int_val 3), (''b'', int_val 4)], JObj [(''m'', JStr ''Feb''), (''a'', int_val 5)]]"

theorem bars_fit_witness:
  "\<exists>top. bar_domain demo_env demo_max Stacked [''a'', ''b''] demo_rows = Inr (Fin top) \<and>
     of_int (bar_end Stacked [''a'', ''b''] (\<lambda>k. if k = ''a'' then 3 else 4)) \<le> top"
proof -
  let ?v = "\<lambda>d k. if d = hd demo_rows then if k = ''a'' then 3 else 4 else if k = ''a'' then 5 else 0"
  have "\<exists>top. bar_domain demo_env demo_max Stacked [''a'', ''b''] demo_rows = Inr (Fin top) \<and>
      of_int (bar_end Stacked [''a'', ''b''] (?v (hd demo_rows))) \<le> top"
  proof (rule bars_fit [where v = ?v and d = "hd demo_rows"])
    show "d3_max_law demo_max" by (auto simp: d3_max_law_def demo_max_def image_image)
  qed (auto simp: demo_rows_def number_or_zero_def prop_lookup_def js_or_def)
  then show ?thesis by simp
qed

section \<open>Where the bars are drawn\<close>

text \<open>What the stack generator of D3 gives: one series for each key, with a part for each row, which it carries.\<close>

definition stack_law :: "stack_lib \<Rightarrow> bool" where
  "stack_law stack \<longleftrightarrow> (\<forall>ks items. length (stack ks items) = length ks \<and> (\<forall>s \<in> set (stack ks items). map (snd \<circ> snd) s = items))"

definition bar_place :: "bool \<Rightarrow> bar \<Rightarrow> jsnum option" where
  "bar_place horizontal b = (if horizontal then bar_y b else bar_x b)"

lemma props_fold_other:
  "k \<notin> fst ` set ps \<Longrightarrow> prop_lookup (fold (\<lambda>(k, v) qs. props_put qs k v) ps qs) k = prop_lookup qs k"
  by (induction ps arbitrary: qs) auto

lemma stack_item_zero:
  assumes "stack_item E xKey ks d = Inr it" "xKey \<noteq> ''0''" "''0'' \<notin> set ks"
  shows "js_get it ''0'' = Inr JUndef"
proof -
  obtain x ps where ps: "js_map (\<lambda>k. js_bind (number_or_zero E k d) (\<lambda>n. Inr (k, JNum n))) ks = Inr ps"
    "it = JObj (fold (\<lambda>(k, v) qs. props_put qs k v) ps [(xKey, x)])"
    using assms(1) by (auto simp: stack_item_def js_bind_eq_Inr)
  have "fst ` set ps \<subseteq> set ks" using js_map_Inr_set [OF ps(1)] by (fastforce simp: js_bind_eq_Inr)
  with assms(2,3) ps(2) show ?thesis using props_fold_other [of "''0''" ps "[(xKey, x)]"] by (auto simp: prop_lookup_def)
qed

lemma stacked_bar_place:
  assumes "js_get item ''0'' = Inr JUndef" "stacked_bar E S horizontal c (lo, hi, item) = Inr b"
  shows "bar_place horizontal b = mainScale S ''undefined''"
  using assms by (auto simp: stacked_bar_def bar_place_def Let_def split: if_splits)

lemma concat_length: "(\<And>xs. xs \<in> set xss \<Longrightarrow> length xs = n) \<Longrightarrow> length (concat xss) = length xss * n"
  by (induction xss) simp_all

text \<open>
  Stacked bars. There is one rectangle for each row and each key, but all of them are placed at the position of the
  text \<open>undefined\<close>, since the rows have no property \<open>0\<close>: no row keeps a place of its own.
\<close>

theorem stacked_bars_not_placed:
  assumes "stack_law stack" "xKey \<noteq> ''0''" "''0'' \<notin> set ks" "renderBars E stack S Stacked horizontal colors xKey ks rows = Inr bs"
  shows "length bs = length ks * length rows \<and> (\<forall>b \<in> set bs. bar_place horizontal b = mainScale S ''undefined'')"
proof -
  obtain items bss where items: "js_map (stack_item E xKey ks) rows = Inr items"
    and bss: "js_map (\<lambda>(i, s). js_map (stacked_bar E S horizontal (cycled_color colors (int i))) s) (enumerate 0 (stack ks items)) = Inr bss"
    and bs: "bs = concat bss"
    using assms(4) by (auto simp: renderBars_def generateStackedData_def js_bind_eq_Inr)
  have law: "length (stack ks items) = length ks" "\<And>s. s \<in> set (stack ks items) \<Longrightarrow> map (snd \<circ> snd) s = items"
    using assms(1) by (auto simp: stack_law_def)
  have each: "length b = length rows \<and> (\<forall>x \<in> set b. bar_place horizontal x = mainScale S ''undefined'')" if b: "b \<in> set bss" for b
  proof -
    obtain i s where s: "s \<in> set (stack ks items)" "js_map (stacked_bar E S horizontal (cycled_color colors (int i))) s = Inr b"
      using js_map_Inr_set [OF bss b] by (auto simp: in_set_enumerate_eq) (metis nth_mem)
    have "length s = length rows" using law(2) [OF s(1)] js_map_length [OF items] by (metis length_map)
    moreover have "bar_place horizontal x = mainScale S ''undefined''" if x: "x \<in> set b" for x
    proof -
      obtain lo hi it where p: "(lo, hi, it) \<in> set s" "stacked_bar E S horizontal (cycled_color colors (int i)) (lo, hi, it) = Inr x"
        using js_map_Inr_set [OF s(2) x] by auto
      have "it \<in> set items" using law(2) [OF s(1)] p(1) by force
      then obtain d where "stack_item E xKey ks d = Inr it" using js_map_Inr_set [OF items] by blast
      with p(2) stacked_bar_place stack_item_zero [OF _ assms(2,3)] show ?thesis by blast
    qed
    ultimately show ?thesis using js_map_length [OF s(2)] by simp
  qed
  have "length bs = length bss * length rows" using each bs by (simp add: concat_length)
  moreover have "length bss = length ks" using js_map_length [OF bss] law(1) by simp
  ultimately show ?thesis using each bs by auto
qed


definition demo_stack :: stack_lib where
  "demo_stack ks items =
     map (\<lambda>i. map (\<lambda>it. let upto = \<lambda>n. fold (\<lambda>k s. num_add s (case js_get it k of Inr (JNum m) \<Rightarrow> m | _ \<Rightarrow> NaN)) (take n ks) (Fin 0)
       in (upto i, upto (Suc i), it)) items) [0..<length ks]"

definition demo_scales :: bar_scales where
  "demo_scales = \<lparr>mainScale = (\<lambda>x. if x = ''Jan'' then Some (Fin 0) else if x = ''Feb'' then Some (Fin 50) else None), main_bandwidth = Fin 40,
     valueScale = (\<lambda>n. n), groupScale = (\<lambda>k. None), group_bandwidth = Fin 10\<rparr>"

lemma demo_stack_law: "stack_law demo_stack"
  by (auto simp: stack_law_def demo_stack_def Let_def comp_def)

theorem stacked_bars_not_placed_witness:
  "\<exists>bs. renderBars demo_env demo_stack demo_scales Stacked False [''red''] ''m'' [''a''] demo_rows = Inr bs \<and> length bs = 2 \<and>
     list_all (\<lambda>b. bar_place False b = None) bs"
proof -
  obtain bs where bs: "renderBars demo_env demo_stack demo_scales Stacked False [''red''] ''m'' [''a''] demo_rows = Inr bs"
    by (simp add: renderBars_def generateStackedData_def stack_item_def demo_rows_def number_or_zero_def prop_lookup_def js_or_def
      demo_stack_def stacked_bar_def Let_def)
  have "length bs = length [''a''] * length demo_rows \<and> (\<forall>b \<in> set bs. bar_place False b = mainScale demo_scales ''undefined'')"
    by (rule stacked_bars_not_placed [OF demo_stack_law _ _ bs]) simp_all
  with bs show ?thesis by (auto simp: list_all_iff demo_rows_def demo_scales_def)
qed

section \<open>Lines and pies\<close>

text \<open>
  The dots of a line: of rows that are objects those with a value under the key, in their order; the rows without one are left out
  of the line and not drawn at zero.
\<close>

theorem line_dots_spec:
  assumes "\<And>d. d \<in> set rows \<Longrightarrow> \<exists>ps. d = JObj ps"
    and "\<And>d. d \<in> set rows \<Longrightarrow> optional_get d key \<notin> {JUndef, JNull} \<Longrightarrow> line_number E xKey key d = Inr (n d) \<and> parse_x E xKey d = Inr (x d)"
  shows "line_dots E xScale yScale xKey key rows =
    Inr (map (\<lambda>d. (xScale (x d), yScale (n d))) (filter (\<lambda>d. optional_get d key \<notin> {JUndef, JNull}) rows))"
proof -
  have "js_get d key = Inr (optional_get d key)" if "d \<in> set rows" for d
    using assms(1) [OF that] by (auto simp: optional_get_def)
  then have "getValidDataForKey key rows = Inr (filter (\<lambda>d. optional_get d key \<notin> {JUndef, JNull}) rows)"
    unfolding getValidDataForKey_def by (intro js_filter_pure) simp
  moreover have "js_map (\<lambda>d. js_bind (parse_x E xKey d) (\<lambda>x. js_bind (line_number E xKey key d) (\<lambda>n. Inr (xScale x, yScale n))))
      (filter (\<lambda>d. optional_get d key \<notin> {JUndef, JNull}) rows) =
      Inr (map (\<lambda>d. (xScale (x d), yScale (n d))) (filter (\<lambda>d. optional_get d key \<notin> {JUndef, JNull}) rows))"
    using assms(2) by (intro js_map_pure) simp
  ultimately show ?thesis by (simp add: line_dots_def)
qed

theorem line_dots_spec_witness:
  "line_dots demo_env (\<lambda>x. Some (Fin 7)) (\<lambda>n. n) ''m'' ''b'' demo_rows = Inr [(Some (Fin 7), Fin 4)]"
proof -
  have "line_dots demo_env (\<lambda>x. Some (Fin 7)) (\<lambda>n. n) ''m'' ''b'' demo_rows =
      Inr (map (\<lambda>d. (Some (Fin 7), Fin 4)) (filter (\<lambda>d. optional_get d ''b'' \<notin> {JUndef, JNull}) demo_rows))"
    by (rule line_dots_spec [where n = "\<lambda>d. Fin 4" and x = "\<lambda>d. XValue (JStr ''Jan'')"])
      (auto simp: demo_rows_def optional_get_def prop_lookup_def line_number_def number_or_zero_def js_or_def parse_x_def dated_def)
  then show ?thesis by (simp add: demo_rows_def optional_get_def prop_lookup_def)
qed

lemma share_bounds:
  assumes "0 \<le> v" "v \<le> t" "0 < (t :: int)"
  shows "\<exists>r. slice_share (Fin (of_int t)) (Fin (of_int v)) = Fin r \<and> 0 \<le> r \<and> r \<le> 100"
proof -
  have "(0::rat) \<le> of_int v / of_int t" "(of_int v / of_int t :: rat) \<le> of_int 1" using assms by (simp_all add: divide_le_eq)
  then obtain q where q: "fl (of_int v / of_int t) = Fin q" "0 \<le> q" "q \<le> of_int 1" using fl_between [of _ 1] by auto
  then have "0 \<le> q * 100" "q * 100 \<le> of_int 100" by simp_all
  then show ?thesis using fl_between [of "q * 100" 100] q(1) assms(3) by (auto simp: slice_share_def)
qed

lemma sum_list_all_zero: "(\<And>x. x \<in> set xs \<Longrightarrow> v x = 0) \<Longrightarrow> (\<Sum>x \<leftarrow> xs. v x) = (0 :: int)"
  by (induction xs) simp_all

text \<open>
  The percentages of a pie: with whole values from zero on the share of every slice is a number from 0 to 100 whatever the
  roundings of the quotient and the product; a pie of zeros shows the text 0\%.
\<close>

theorem pie_share_bounds:
  assumes "\<And>d. d \<in> set rows \<Longrightarrow> number_or_zero E k d = Inr (Fin (of_int (v d))) \<and> 0 \<le> v d" "(\<Sum>d \<leftarrow> rows. v d) < 2 ^ 50"
  shows "\<exists>tot. calculateTotal E k rows = Inr tot \<and>
    (if \<exists>d \<in> set rows. v d \<noteq> 0
     then \<forall>d \<in> set rows. \<exists>r. slice_share tot (Fin (of_int (v d))) = Fin r \<and> 0 \<le> r \<and> r \<le> 100
     else \<forall>x. calculatePercentage E tot x = ''0%'')"
proof (intro exI conjI)
  let ?t = "\<Sum>d \<leftarrow> rows. v d"
  show "calculateTotal E k rows = Inr (Fin (of_int ?t))"
    using reduce_whole [of rows "number_or_zero E k" v 0] assms by (simp add: calculateTotal_def)
  have part: "0 \<le> v d \<and> v d \<le> ?t" if "d \<in> set rows" for d
    using member_le_sum_list [of "v d" "map v rows"] assms(1) that by fastforce
  show "if \<exists>d \<in> set rows. v d \<noteq> 0
     then \<forall>d \<in> set rows. \<exists>r. slice_share (Fin (of_int ?t)) (Fin (of_int (v d))) = Fin r \<and> 0 \<le> r \<and> r \<le> 100
     else \<forall>x. calculatePercentage E (Fin (of_int ?t)) x = ''0%''"
  proof (cases "\<exists>d \<in> set rows. v d \<noteq> 0")
    case True
    then have t: "0 < ?t" using part by force
    have "\<exists>r. slice_share (Fin (of_int ?t)) (Fin (of_int (v d))) = Fin r \<and> 0 \<le> r \<and> r \<le> 100" if "d \<in> set rows" for d
      using share_bounds [OF _ _ t, of "v d"] part [OF that] by simp
    with True show ?thesis by simp
  next
    case False
    then have "?t = 0" by (intro sum_list_all_zero) simp
    with False show ?thesis by (simp add: calculatePercentage_def)
  qed
qed

theorem pie_share_bounds_witness:
  "\<exists>tot. calculateTotal demo_env ''a'' demo_rows = Inr tot \<and> (\<exists>r. slice_share tot (Fin 3) = Fin r \<and> 0 \<le> r \<and> r \<le> 100)"
proof -
  have "\<exists>tot. calculateTotal demo_env ''a'' demo_rows = Inr tot \<and>
    (if \<exists>d \<in> set demo_rows. (if d = hd demo_rows then 3 else 5 :: int) \<noteq> 0
     then \<forall>d \<in> set demo_rows. \<exists>r. slice_share tot (Fin (of_int (if d = hd demo_rows then 3 else 5))) = Fin r \<and> 0 \<le> r \<and> r \<le> 100
     else \<forall>x. calculatePercentage demo_env tot x = ''0%'')"
    by (rule pie_share_bounds [where v = "\<lambda>d. if d = hd demo_rows then 3 else 5"])
      (auto simp: demo_rows_def number_or_zero_def prop_lookup_def js_or_def)
  then show ?thesis by (auto simp: demo_rows_def)
qed

end
