(* ===== verification/Order_Picker.thy ===== *)
theory Order_Picker
  imports Backoffice_Orders
begin

text \<open>
  The component of \<open>components/ui/MultiSelectAutocomplete.tsx\<close> as it runs: the operations of \<open>Backoffice_Orders\<close> with the
  delayed search (\<open>useDebounce\<close>), the options that the queries bring, the clicks outside (\<open>useOutsideClick\<close>) and what the drop-down
  shows; and \<open>OrderItemsField\<close> of \<open>BackofficeDirector.tsx\<close>, its only parent, around it. What a parent passes
  back as values when a selection is reported is an argument of the component. The cache of the queries keeps an
  answer for each text; \<open>fetchOptions\<close> of the parent answers with no options when its request fails.
\<close>

section \<open>State and events\<close>

record multi_select =
  ms_picker :: picker
  ms_values :: "jsval list"
  ms_debounced :: string
  ms_timer :: "string option"
  ms_cache :: "string \<Rightarrow> jsval list option"

text \<open>The first rendering starts a timer, too.\<close>

definition ms_mount :: "jsval list \<Rightarrow> multi_select" where
  "ms_mount vs = \<lparr>ms_picker = \<lparr>pk_isOpen = False, pk_search = []\<rparr>, ms_values = vs, ms_debounced = [], ms_timer = Some [], ms_cache = Map.empty\<rparr>"

text \<open>\<open>useDebounce\<close>: when the value has changed the timer is replaced by a new one.\<close>

definition useDebounce :: "string \<Rightarrow> multi_select \<Rightarrow> multi_select" where
  "useDebounce before m = (if pk_search (ms_picker m) = before then m else m\<lparr>ms_timer := Some (pk_search (ms_picker m))\<rparr>)"

definition with_picker :: "picker \<Rightarrow> multi_select \<Rightarrow> multi_select" where
  "with_picker p m = useDebounce (pk_search (ms_picker m)) (m\<lparr>ms_picker := p\<rparr>)"

definition ms_options :: "multi_select \<Rightarrow> jsval list" where
  "ms_options m = (case ms_cache m (ms_debounced m) of None \<Rightarrow> [] | Some opts \<Rightarrow> opts)"

definition ms_isLoading :: "multi_select \<Rightarrow> bool" where
  "ms_isLoading m \<longleftrightarrow> ms_cache m (ms_debounced m) = None"

datatype ms_event =
    ClickField
  | TypeText string
  | TimerFires
  | MouseDown bool
  | Answer string "jsval list"
  | QueryFails string
  | Choose jsval
  | Remove jsval
  | ChangeQuantity jsval int

text \<open>\<open>useOutsideClick\<close> calls the handler for a press of the mouse that is not on the element or inside it.\<close>

definition handleClickOutside :: "bool \<Rightarrow> (picker \<Rightarrow> picker) \<Rightarrow> picker \<Rightarrow> picker" where
  "handleClickOutside inside handler p = (if inside then p else handler p)"

text \<open>\<open>onChange\<close>: the parent gets the new selection and renders the component with values of its own.\<close>

type_synonym parent = "jsval list \<Rightarrow> jsval list js"

definition ms_onChange :: "parent \<Rightarrow> jsval list \<Rightarrow> multi_select \<Rightarrow> multi_select js" where
  "ms_onChange P vs m = js_bind (P vs) (\<lambda>ws. Inr (m\<lparr>ms_values := ws\<rparr>))"

text \<open>The effect of an event; a failed query leaves no options, unless there were some.\<close>

fun ms_effect :: "js_env \<Rightarrow> parent \<Rightarrow> nat option \<Rightarrow> ms_event \<Rightarrow> multi_select \<Rightarrow> multi_select js" where
  "ms_effect E P mx ClickField m = Inr (with_picker (ms_picker m\<lparr>pk_isOpen := True\<rparr>) m)"
| "ms_effect E P mx (TypeText s) m = Inr (with_picker (ms_picker m\<lparr>pk_search := s\<rparr>) m)"
| "ms_effect E P mx TimerFires m = Inr (case ms_timer m of None \<Rightarrow> m | Some s \<Rightarrow> m\<lparr>ms_debounced := s, ms_timer := None\<rparr>)"
| "ms_effect E P mx (MouseDown inside) m = Inr (with_picker (handleClickOutside inside picker_handleClose (ms_picker m)) m)"
| "ms_effect E P mx (Answer s opts) m = Inr (m\<lparr>ms_cache := (ms_cache m)(s \<mapsto> opts)\<rparr>)"
| "ms_effect E P mx (QueryFails s) m = Inr (if ms_cache m s = None then m\<lparr>ms_cache := (ms_cache m)(s \<mapsto> [])\<rparr> else m)"
| "ms_effect E P mx (Choose opt) m =
     js_bind (picker_handleSelect mx opt (ms_values m) (ms_picker m)) (\<lambda>r.
       js_bind (case fst r of None \<Rightarrow> Inr m | Some vs \<Rightarrow> ms_onChange P vs m) (\<lambda>m'. Inr (with_picker (snd r) m')))"
| "ms_effect E P mx (Remove v) m = js_bind (picker_handleRemove v (ms_values m)) (\<lambda>vs. ms_onChange P vs m)"
| "ms_effect E P mx (ChangeQuantity v d) m = js_bind (picker_handleQuantityChange E v d (ms_values m)) (\<lambda>vs. ms_onChange P vs m)"

section \<open>What is shown\<close>

datatype dropdown = Closed | Loading | Message string | Choices "jsval list"

definition ms_dropdown :: "multi_select \<Rightarrow> dropdown js" where
  "ms_dropdown m =
     (if \<not> pk_isOpen (ms_picker m) then Inr Closed
      else if ms_isLoading m then Inr Loading
      else js_bind (availableOptions (ms_options m) (ms_values m)) (\<lambda>opts.
        Inr (if opts = []
          then Message (if ms_options m = [] then ''No results found'' else ''All items already selected'')
          else Choices opts)))"

definition ms_prompt :: "string option \<Rightarrow> string \<Rightarrow> multi_select \<Rightarrow> string option" where
  "ms_prompt placeholder label m =
     (let own = (case placeholder of None \<Rightarrow> [] | Some p \<Rightarrow> p);
          prompt = (\<lambda>verb. if own \<noteq> [] then own else verb @ '' '' @ map to_lower label @ ''...'')
      in if pk_isOpen (ms_picker m) then Some (if ms_values m = [] then prompt ''Search'' else ''Add more...'')
         else if ms_values m = [] then Some (prompt ''Select'') else None)"

text \<open>Which controls there are. The buttons of a value carry the \<open>value\<close> property of it.\<close>

fun ms_enabled :: "bool \<Rightarrow> ms_event \<Rightarrow> multi_select \<Rightarrow> bool" where
  "ms_enabled allow (TypeText s) m \<longleftrightarrow> pk_isOpen (ms_picker m)"
| "ms_enabled allow TimerFires m \<longleftrightarrow> ms_timer m \<noteq> None"
| "ms_enabled allow (Choose opt) m \<longleftrightarrow> (case ms_dropdown m of Inr (Choices opts) \<Rightarrow> opt \<in> set opts | _ \<Rightarrow> False)"
| "ms_enabled allow (Remove v) m \<longleftrightarrow> (\<exists>item \<in> set (ms_values m). value_of item = Inr v)"
| "ms_enabled allow (ChangeQuantity v d) m \<longleftrightarrow> allow \<and> d \<in> {- 1, 1} \<and> (\<exists>item \<in> set (ms_values m). value_of item = Inr v)"
| "ms_enabled allow _ m \<longleftrightarrow> True"

text \<open>An \<open>Option\<close>: an object whose \<open>value\<close> is a string.\<close>

fun is_option :: "jsval \<Rightarrow> bool" where
  "is_option (JObj ps) \<longleftrightarrow> is_str (prop_lookup ps ''value'')"
| "is_option v \<longleftrightarrow> False"

fun answers_options :: "ms_event \<Rightarrow> bool" where
  "answers_options (Answer s opts) \<longleftrightarrow> list_all is_option opts"
| "answers_options _ \<longleftrightarrow> True"

inductive ms_step :: "js_env \<Rightarrow> parent \<Rightarrow> bool \<Rightarrow> nat option \<Rightarrow> ms_event \<Rightarrow> multi_select \<Rightarrow> multi_select \<Rightarrow> bool" for E P allow mx where
  "ms_enabled allow e m \<Longrightarrow> answers_options e \<Longrightarrow> ms_effect E P mx e m = Inr m' \<Longrightarrow> ms_step E P allow mx e m m'"

inductive_cases ms_stepE: "ms_step E P allow mx e m m'"

inductive_simps ms_step_iff: "ms_step E P allow mx e m m'"

inductive ms_run :: "js_env \<Rightarrow> parent \<Rightarrow> bool \<Rightarrow> nat option \<Rightarrow> multi_select \<Rightarrow> ms_event list \<Rightarrow> multi_select \<Rightarrow> bool" for E P allow mx m where
  ms_start: "ms_run E P allow mx m [] m"
| ms_next: "ms_run E P allow mx m es m1 \<Longrightarrow> ms_step E P allow mx e m1 m2 \<Longrightarrow> ms_run E P allow mx m (es @ [e]) m2"

section \<open>OrderItemsField\<close>

text \<open>The values are the order items that the form holds, into which the selection is converted.\<close>

definition order_parent :: parent where
  "order_parent vs = js_bind (OrderItemsField_onChange vs) OrderItemsField_values"

text \<open>The steps of the field: those of the picker, without buttons for quantities and without a maximum, and those of the summary.\<close>

datatype order_event = Pick ms_event | Quantity jsval jsval

inductive order_step :: "js_env \<Rightarrow> order_event \<Rightarrow> multi_select \<Rightarrow> multi_select \<Rightarrow> bool" for E where
  pick: "ms_step E order_parent False None e m m' \<Longrightarrow> order_step E (Pick e) m m'"
| quantity: "js_bind (handleUpdateQuantity (arr (ms_values m)) p q) OrderItemsField_values = Inr vs \<Longrightarrow>
    order_step E (Quantity p q) m (m\<lparr>ms_values := vs\<rparr>)"

inductive order_run :: "js_env \<Rightarrow> multi_select \<Rightarrow> order_event list \<Rightarrow> multi_select \<Rightarrow> bool" for E m where
  order_start: "order_run E m [] m"
| order_next: "order_run E m es m1 \<Longrightarrow> order_step E e m1 m2 \<Longrightarrow> order_run E m (es @ [e]) m2"

text \<open>The products that were chosen since a product was last removed.\<close>

fun chosen_step :: "jsval list \<Rightarrow> order_event \<Rightarrow> jsval list" where
  "chosen_step xs (Pick (Choose opt)) = xs @ [opt]"
| "chosen_step xs (Pick (Remove v)) = []"
| "chosen_step xs _ = xs"

definition chosen :: "order_event list \<Rightarrow> jsval list" where
  "chosen es = foldl chosen_step [] es"

section \<open>Delayed values\<close>

text \<open>
  What a delayed value promises: it follows the value that is wanted only by the timer, and every change of that value restarts the
  timer.
\<close>

definition waiting :: "'v \<Rightarrow> 'v \<Rightarrow> 'v option \<Rightarrow> bool" where
  "waiting w h t \<longleftrightarrow> (case t of None \<Rightarrow> h = w | Some v \<Rightarrow> v = w)"

locale delayed =
  fixes wanted :: "'s \<Rightarrow> 'v" and held :: "'s \<Rightarrow> 'v" and timer :: "'s \<Rightarrow> 'v option"
    and move :: "'e \<Rightarrow> 's \<Rightarrow> 's \<Rightarrow> bool" and fires :: "'e \<Rightarrow> bool"
  assumes other: "\<not> fires e \<Longrightarrow> move e s t \<Longrightarrow>
      held t = held s \<and> timer t = (if wanted t = wanted s then timer s else Some (wanted t))"
    and fire: "fires e \<Longrightarrow> move e s t \<Longrightarrow> timer s = Some (held t) \<and> timer t = None \<and> wanted t = wanted s"
begin

lemma move_waiting:
  assumes "move e s t" "waiting (wanted s) (held s) (timer s)"
  shows "waiting (wanted t) (held t) (timer t)"
proof (cases "fires e")
  case True
  from fire [OF this assms(1)] assms(2) show ?thesis by (auto simp: waiting_def)
next
  case False
  from other [OF this assms(1)] assms(2) show ?thesis by (auto simp: waiting_def split: option.splits)
qed

lemma fire_held:
  assumes "fires e" "move e s t" "waiting (wanted s) (held s) (timer s)"
  shows "held t = wanted t"
  using fire [OF assms(1,2)] assms(3) by (auto simp: waiting_def)

lemma held_changes:
  assumes "move e s t" "held t \<noteq> held s"
  shows "fires e"
  using other [OF _ assms(1)] assms(2) by blast

end

lemma with_picker_simps [simp]:
  "ms_picker (with_picker p m) = p" "ms_values (with_picker p m) = ms_values m" "ms_debounced (with_picker p m) = ms_debounced m"
  "ms_cache (with_picker p m) = ms_cache m"
  "ms_timer (with_picker p m) = (if pk_search p = pk_search (ms_picker m) then ms_timer m else Some (pk_search p))"
  by (simp_all add: with_picker_def useDebounce_def)

lemma onChange_iff: "ms_onChange P vs m = Inr m' \<longleftrightarrow> (\<exists>ws. P vs = Inr ws \<and> m' = m\<lparr>ms_values := ws\<rparr>)"
  by (auto simp: ms_onChange_def js_bind_eq_Inr)

interpretation search: delayed "\<lambda>m. pk_search (ms_picker m)" ms_debounced ms_timer "ms_step E P allow mx" "\<lambda>e. e = TimerFires"
  for E P allow mx
proof unfold_locales
  fix e s t assume "e \<noteq> TimerFires" "ms_step E P allow mx e s t"
  then show "ms_debounced t = ms_debounced s \<and>
      ms_timer t = (if pk_search (ms_picker t) = pk_search (ms_picker s) then ms_timer s else Some (pk_search (ms_picker t)))"
    by (cases e) (auto simp: ms_step_iff js_bind_eq_Inr onChange_iff split: option.splits if_splits)
next
  fix e s t assume "e = TimerFires" "ms_step E P allow mx e s t"
  then show "ms_timer s = Some (ms_debounced t) \<and> ms_timer t = None \<and> pk_search (ms_picker t) = pk_search (ms_picker s)"
    by (auto simp: ms_step_iff)
qed

section \<open>The selection\<close>

text \<open>Objects, with or without the key by which they are compared.\<close>

fun is_record :: "jsval \<Rightarrow> bool" where
  "is_record (JObj ps) \<longleftrightarrow> True"
| "is_record v \<longleftrightarrow> False"

definition key_of :: "jsval \<Rightarrow> jsval" where
  "key_of v = optional_get v ''value''"

lemma record_value: "is_record v \<Longrightarrow> value_of v = Inr (key_of v)"
  by (cases v) (simp_all add: value_of_def key_of_def optional_get_def)

lemma option_record: "is_option v \<Longrightarrow> is_record v"
  by (cases v) simp_all

lemma options_records: "list_all is_option vs \<Longrightarrow> list_all is_record vs"
  by (auto simp: list_all_iff option_record)

lemma available_options:
  assumes "list_all is_option opts" "list_all is_record vs"
  shows "availableOptions opts vs = Inr (filter (\<lambda>opt. key_of opt \<notin> key_of ` set vs) opts)"
  unfolding availableOptions_def
proof (rule js_filter_pure)
  fix opt assume "opt \<in> set opts"
  then have "value_of opt = Inr (key_of opt)" using assms(1) by (simp add: list_all_iff option_record record_value)
  moreover have "js_find (\<lambda>item. js_bind (value_of item) (\<lambda>u. Inr (u = v))) vs = Inr (List.find (\<lambda>item. key_of item = v) vs)" for v
    using assms(2) by (intro js_find_pure) (simp add: list_all_iff record_value)
  ultimately show "js_bind (value_of opt) (\<lambda>v. js_bind (js_find (\<lambda>item. js_bind (value_of item) (\<lambda>u. Inr (u = v))) vs) (\<lambda>r. Inr (r = None))) =
      Inr (key_of opt \<notin> key_of ` set vs)"
    by (simp add: find_None_iff image_iff) metis
qed

lemma handleRemove_records:
  "list_all is_record vs \<Longrightarrow> picker_handleRemove v vs = Inr (filter (\<lambda>item. key_of item \<noteq> v) vs)"
  unfolding picker_handleRemove_def by (rule js_filter_pure) (simp add: list_all_iff record_value)

lemma handleQuantity_records:
  assumes "list_all is_record vs" "picker_handleQuantityChange E v d vs = Inr ws"
  shows "list_all is_record ws"
  using assms unfolding picker_handleQuantityChange_def
proof (induction vs arbitrary: ws)
  case (Cons item vs)
  then show ?case by (auto simp: js_bind_eq_Inr record_value split: if_splits)
qed simp

lemma handleSelect_records:
  assumes "picker_handleSelect mx opt vs p = Inr (Some ws, p')"
  shows "\<exists>q. ws = vs @ [JObj (props_put (spread_props opt) ''quantity'' q)]"
  using assms by (auto simp: picker_handleSelect_def Let_def js_bind_eq_Inr split: if_splits)

text \<open>What the component needs of its parent: it passes objects when it is given objects.\<close>

definition ms_ok :: "multi_select \<Rightarrow> bool" where
  "ms_ok m \<longleftrightarrow> list_all is_record (ms_values m) \<and> (\<forall>s opts. ms_cache m s = Some opts \<longrightarrow> list_all is_option opts)"

lemma ms_ok_mount [simp]: "ms_ok (ms_mount vs) \<longleftrightarrow> list_all is_record vs"
  by (simp add: ms_ok_def ms_mount_def)

lemma ms_ok_options: "ms_ok m \<Longrightarrow> list_all is_option (ms_options m)"
  by (auto simp: ms_ok_def ms_options_def split: option.split)

lemma ms_dropdown_open:
  assumes "ms_ok m" "pk_isOpen (ms_picker m)" "\<not> ms_isLoading m"
  shows "ms_dropdown m = Inr (let rest = filter (\<lambda>opt. key_of opt \<notin> key_of ` set (ms_values m)) (ms_options m)
    in if rest = [] then Message (if ms_options m = [] then ''No results found'' else ''All items already selected'') else Choices rest)"
  using assms available_options [OF ms_ok_options [OF assms(1)], of "ms_values m"] by (simp add: ms_dropdown_def ms_ok_def Let_def)

locale select_parent =
  fixes P :: parent
  assumes records: "list_all is_record vs \<Longrightarrow> P vs = Inr ws \<Longrightarrow> list_all is_record ws"
begin

lemma onChange_ok: "ms_ok m \<Longrightarrow> list_all is_record vs \<Longrightarrow> ms_onChange P vs m = Inr m' \<Longrightarrow> ms_ok m'"
  using records by (auto simp: ms_onChange_def ms_ok_def js_bind_eq_Inr)

lemma step_ok:
  assumes "ms_step E P allow mx e m m'" "ms_ok m"
  shows "ms_ok m'"
proof -
  have e: "answers_options e" "ms_effect E P mx e m = Inr m'" using assms(1) by (auto elim: ms_stepE)
  have r: "list_all is_record (ms_values m)" using assms(2) by (simp add: ms_ok_def)
  show ?thesis
  proof (cases e)
    case (Choose opt)
    with e obtain vs p m1 where s: "picker_handleSelect mx opt (ms_values m) (ms_picker m) = Inr (vs, p)"
      "(case vs of None \<Rightarrow> Inr m | Some ws \<Rightarrow> ms_onChange P ws m) = Inr m1" "m' = with_picker p m1"
      by (auto simp: js_bind_eq_Inr)
    have "ms_ok m1"
    proof (cases vs)
      case None
      with s(2) assms(2) show ?thesis by simp
    next
      case (Some ws)
      with s(1) obtain q where "ws = ms_values m @ [JObj (props_put (spread_props opt) ''quantity'' q)]"
        using handleSelect_records by blast
      with r Some s(2) show ?thesis by (intro onChange_ok [OF assms(2), of ws m1]) simp_all
    qed
    with s(3) show ?thesis by (simp add: ms_ok_def)
  next
    case (Remove v)
    with e handleRemove_records [OF r] show ?thesis
      by (intro onChange_ok [OF assms(2), of "filter (\<lambda>item. key_of item \<noteq> v) (ms_values m)"]) (use r in \<open>auto simp: list_all_iff\<close>)
  next
    case (ChangeQuantity v d)
    with e obtain ws where "picker_handleQuantityChange E v d (ms_values m) = Inr ws" "ms_onChange P ws m = Inr m'"
      by (auto simp: js_bind_eq_Inr)
    with handleQuantity_records [OF r] show ?thesis using onChange_ok [OF assms(2)] by blast
  qed (use e assms(2) in \<open>auto simp: ms_ok_def split: if_splits option.splits\<close>)
qed

lemma run_ok: "ms_run E P allow mx m es m' \<Longrightarrow> ms_ok m \<Longrightarrow> ms_ok m'"
  by (induction rule: ms_run.induct) (auto intro: step_ok)

end

text \<open>The order items have no key: the picker cannot tell them apart, nor from what the search offers.\<close>

lemma to_order_item_result:
  assumes "is_record v"
  shows "\<exists>w. to_order_item v = Inr w \<and> stored_item w \<and> own ''product_id'' w = nullish (own ''id'' v) (own ''value'' v) \<and>
    own ''unit_price'' w = nullish (own ''price'' v) (int_val 0)"
  using assms by (cases v) (simp_all add: to_order_item_def)

lemma order_parent_result:
  assumes "list_all is_record vs"
  shows "\<exists>ws. order_parent vs = Inr ws \<and> list_all stored_item ws \<and>
    map (own ''product_id'') ws = map (\<lambda>v. nullish (own ''id'' v) (own ''value'' v)) vs \<and>
    map (own ''unit_price'') ws = map (\<lambda>v. nullish (own ''price'' v) (int_val 0)) vs"
proof -
  have "\<exists>ws. js_map to_order_item vs = Inr ws \<and> list_all stored_item ws \<and>
      map (own ''product_id'') ws = map (\<lambda>v. nullish (own ''id'' v) (own ''value'' v)) vs \<and>
      map (own ''unit_price'') ws = map (\<lambda>v. nullish (own ''price'' v) (int_val 0)) vs"
    using assms
  proof (induction vs)
    case (Cons v vs)
    then show ?case using to_order_item_result [of v] by fastforce
  qed simp
  then show ?thesis by (auto simp: order_parent_def OrderItemsField_onChange_def OrderItemsField_values_def js_or_def)
qed

lemma stored_record: "stored_item w \<Longrightarrow> is_record w \<and> key_of w = JUndef \<and> own ''id'' w = JUndef \<and> own ''value'' w = JUndef \<and> own ''price'' w = JUndef"
  by (cases w) (simp_all add: key_of_def optional_get_def)

lemma stored_value: "stored_item w \<Longrightarrow> value_of w = Inr JUndef"
  by (cases w) (simp_all add: value_of_def)

lemma stored_records: "list_all stored_item ws \<Longrightarrow> list_all is_record ws"
  by (auto simp: list_all_iff dest: stored_record)

interpretation order_field: select_parent order_parent
  by unfold_locales (use order_parent_result stored_records in fastforce)

text \<open>The lines of an order after the choices \<open>xs\<close>.\<close>

definition order_lines :: "jsval list \<Rightarrow> jsval list \<Rightarrow> bool" where
  "order_lines xs ws \<longleftrightarrow> list_all stored_item ws \<and>
     map (own ''product_id'') ws = (if xs = [] then [] else
       replicate (length xs - 1) JUndef @ [nullish (own ''id'' (last xs)) (own ''value'' (last xs))]) \<and>
     map (own ''unit_price'') ws = (if xs = [] then [] else
       replicate (length xs - 1) (int_val 0) @ [nullish (own ''price'' (last xs)) (int_val 0)])"

lemma order_lines_length: "order_lines xs ws \<Longrightarrow> length ws = length xs"
  by (auto simp: order_lines_def dest: arg_cong [where f = length] split: if_splits)

lemma order_lines_choose:
  assumes "order_lines xs ws" "is_option opt" "order_parent (ws @ [JObj (props_put (spread_props opt) ''quantity'' q)]) = Inr vs"
  shows "order_lines (xs @ [opt]) vs"
proof -
  let ?o = "JObj (props_put (spread_props opt) ''quantity'' q)"
  have st: "list_all stored_item ws" using assms(1) by (simp add: order_lines_def)
  then have r: "list_all is_record (ws @ [?o])" by (simp add: stored_records)
  obtain ps where o: "opt = JObj ps" using assms(2) by (cases opt) simp_all
  have u: "map (\<lambda>v. nullish (own ''id'' v) (own ''value'' v)) ws = replicate (length xs) JUndef"
    "map (\<lambda>v. nullish (own ''price'' v) (JNum (Fin 0))) ws = replicate (length xs) (JNum (Fin 0))"
    unfolding order_lines_length [OF assms(1), symmetric] using st
    by (auto simp: map_replicate_const [symmetric] list_all_iff intro!: map_cong dest!: stored_record)
  from order_parent_result [OF r] assms(3) show ?thesis by (auto simp: order_lines_def u o)
qed

lemma quantity_lines:
  assumes "order_lines xs ws" "js_bind (handleUpdateQuantity (arr ws) p q) OrderItemsField_values = Inr vs"
  shows "order_lines xs vs"
proof -
  have "list_all stored_item ws \<Longrightarrow> js_map (\<lambda>item. js_bind (js_get item ''product_id'') (\<lambda>p'.
      Inr (if p' = p then JObj (props_put (spread_props item) ''quantity'' q) else item))) ws = Inr ys \<Longrightarrow>
    list_all stored_item ys \<and> map (own ''product_id'') ys = map (own ''product_id'') ws \<and>
    map (own ''unit_price'') ys = map (own ''unit_price'') ws" for ys
  proof (induction ws arbitrary: ys)
    case (Cons w ws)
    then obtain ps where "w = JObj ps" by (cases w) simp_all
    with Cons show ?case by (auto simp: js_bind_eq_Inr)
  qed simp
  with assms show ?thesis
    by (auto simp: order_lines_def handleUpdateQuantity_def OrderItemsField_values_def js_or_def js_bind_eq_Inr)
qed

lemma order_step_ok:
  assumes "order_step E e m m'" "ms_ok m" "order_lines xs (ms_values m)"
  shows "ms_ok m' \<and> order_lines (chosen_step xs e) (ms_values m')"
  using assms(1)
proof (cases rule: order_step.cases)
  case (quantity p q vs)
  with assms(3) have "order_lines xs vs" using quantity_lines by blast
  moreover from this have "list_all is_record vs" by (simp add: order_lines_def stored_records)
  ultimately show ?thesis using quantity assms(2) by (simp add: ms_ok_def)
next
  case (pick e')
  then have e: "ms_enabled False e' m" "ms_effect E order_parent None e' m = Inr m'" by (auto elim: ms_stepE)
  have st: "list_all stored_item (ms_values m)" using assms(3) by (simp add: order_lines_def)
  have "order_lines (chosen_step xs e) (ms_values m')"
  proof (cases e')
    case (Choose opt)
    then obtain opts where "ms_dropdown m = Inr (Choices opts)" "opt \<in> set opts"
      using e(1) by (auto split: sum.splits dropdown.splits)
    moreover from this have "pk_isOpen (ms_picker m)" "\<not> ms_isLoading m" by (auto simp: ms_dropdown_def split: if_splits)
    ultimately have "is_option opt"
      using ms_dropdown_open [OF assms(2)] ms_ok_options [OF assms(2)] by (auto simp: Let_def list_all_iff split: if_splits)
    moreover obtain q p where "order_parent (ms_values m @ [JObj (props_put (spread_props opt) ''quantity'' q)]) = Inr (ms_values m')"
      using e(2) Choose by (auto simp: picker_handleSelect_def ms_onChange_def js_bind_eq_Inr Let_def)
    ultimately show ?thesis using order_lines_choose [OF assms(3)] pick(1) Choose by simp
  next
    case (Remove v)
    then obtain item where "item \<in> set (ms_values m)" "value_of item = Inr v" using e(1) by auto
    then have v: "v = JUndef" using st stored_value [of item] by (simp add: list_all_iff)
    have "filter (\<lambda>item. key_of item \<noteq> JUndef) (ms_values m) = []"
      using st by (auto simp: filter_empty_conv list_all_iff dest: stored_record)
    then have "ms_values m' = []"
      using e(2) Remove handleRemove_records [OF stored_records [OF st]]
      by (auto simp: v ms_onChange_def order_parent_def OrderItemsField_onChange_def OrderItemsField_values_def js_or_def)
    then show ?thesis using pick(1) Remove by (simp add: order_lines_def)
  qed (use e pick assms(3) in \<open>auto split: if_splits option.splits\<close>)
  with order_field.step_ok [OF pick(2) assms(2)] show ?thesis by simp
qed

lemma order_run_ok:
  "order_run E (ms_mount []) es m \<Longrightarrow> ms_ok m \<and> order_lines (chosen es) (ms_values m)"
proof (induction rule: order_run.induct)
  case order_start
  then show ?case by (simp add: order_lines_def chosen_def) (simp add: ms_mount_def)
next
  case (order_next es m1 e m2)
  then show ?case using order_step_ok [OF order_next.hyps(2), of "chosen es"] order_next.IH by (simp add: chosen_def)
qed

lemma ms_run_waiting:
  "ms_run E P allow mx (ms_mount vs) es m \<Longrightarrow> waiting (pk_search (ms_picker m)) (ms_debounced m) (ms_timer m)"
  by (induction es m rule: ms_run.induct) (auto simp: ms_mount_def waiting_def [of "[]"] intro: search.move_waiting)

section \<open>What holds of every run\<close>

text \<open>
  C10: The products of a new order. However the user, the timer and the answers interleave, there is one line for
  each product that was chosen since one was last removed; but only the line of the last choice has its product and its
  price, every earlier one has no product and the price zero, because the items that the field
  stores lack the properties that the picker goes by. For the same reason the open list offers all the products that were found,
  also those that were chosen already, and removing any one line removes them all.
\<close>

theorem order_picker_lines:
  assumes "order_run E (ms_mount []) es m"
  shows "let xs = chosen es in
    map (own ''product_id'') (ms_values m) = (if xs = [] then [] else
       replicate (length xs - 1) JUndef @ [nullish (own ''id'' (last xs)) (own ''value'' (last xs))]) \<and>
    map (own ''unit_price'') (ms_values m) = (if xs = [] then [] else
       replicate (length xs - 1) (int_val 0) @ [nullish (own ''price'' (last xs)) (int_val 0)]) \<and>
    (pk_isOpen (ms_picker m) \<and> \<not> ms_isLoading m \<longrightarrow>
       ms_dropdown m = Inr (if ms_options m = [] then Message ''No results found'' else Choices (ms_options m))) \<and>
    (\<forall>v. ms_enabled False (Remove v) m \<longrightarrow>
       (\<exists>m'. ms_effect E order_parent None (Remove v) m = Inr m' \<and> ms_values m' = []))"
proof -
  have ok: "ms_ok m" and lines: "order_lines (chosen es) (ms_values m)" using order_run_ok [OF assms] by auto
  then have st: "list_all stored_item (ms_values m)" by (simp add: order_lines_def)
  have "key_of opt \<notin> key_of ` set (ms_values m)" if "opt \<in> set (ms_options m)" for opt
  proof -
    have "is_option opt" using that ms_ok_options [OF ok] by (simp add: list_all_iff)
    then have "key_of opt \<noteq> JUndef" by (cases opt) (auto simp: key_of_def optional_get_def)
    moreover have "key_of x = JUndef" if "x \<in> set (ms_values m)" for x using st that stored_record [of x] by (simp add: list_all_iff)
    ultimately show ?thesis by auto
  qed
  then have all: "filter (\<lambda>opt. key_of opt \<notin> key_of ` set (ms_values m)) (ms_options m) = ms_options m" by simp
  have removed: "\<exists>m'. ms_effect E order_parent None (Remove v) m = Inr m' \<and> ms_values m' = []" if "ms_enabled False (Remove v) m" for v
  proof -
    obtain vs where "ms_effect E order_parent None (Remove v) m = Inr (m\<lparr>ms_values := vs\<rparr>)"
      using order_parent_result [of "filter (\<lambda>item. key_of item \<noteq> v) (ms_values m)"] handleRemove_records [OF stored_records [OF st], of v] st
      by (fastforce simp: ms_onChange_def list_all_iff dest: stored_record)
    with that have "order_step E (Pick (Remove v)) m (m\<lparr>ms_values := vs\<rparr>)" by (intro order_step.pick) (simp add: ms_step_iff)
    from order_step_ok [OF this ok lines] show ?thesis
      using \<open>ms_effect E order_parent None (Remove v) m = _\<close> by (simp add: order_lines_def)
  qed
  show ?thesis
    using lines ms_dropdown_open [OF ok] removed by (auto simp: order_lines_def all Let_def)
qed

definition demo_option :: "string \<Rightarrow> jsval" where
  "demo_option k = JObj [(''value'', JStr k), (''label'', JStr k), (''id'', JStr k), (''price'', int_val 5)]"

lemma demo_option_is [simp]: "is_option (demo_option k)" "key_of (demo_option k) = JStr k"
  by (simp_all add: demo_option_def key_of_def optional_get_def)

text \<open>A run in which the same product is chosen twice.\<close>

lemma demo_run:
  "\<exists>m. order_run demo_env (ms_mount []) (map Pick [ClickField, TimerFires, Answer [] [demo_option ''a''], Choose (demo_option ''a''), Choose (demo_option ''a'')]) m"
proof -
  let ?o = "demo_option ''a''"
  let ?es = "map Pick [ClickField, TimerFires, Answer [] [?o]]"
  let ?m1 = "with_picker \<lparr>pk_isOpen = True, pk_search = []\<rparr> (ms_mount [])"
  let ?m2 = "?m1\<lparr>ms_debounced := [], ms_timer := None\<rparr>"
  let ?m3 = "?m2\<lparr>ms_cache := [[] \<mapsto> [?o]]\<rparr>"
  have 1: "order_run demo_env (ms_mount []) ([] @ [Pick ClickField]) ?m1"
    by (rule order_next [OF order_start order_step.pick]) (simp add: ms_step_iff ms_mount_def)
  have 2: "order_run demo_env (ms_mount []) (([] @ [Pick ClickField]) @ [Pick TimerFires]) ?m2"
    by (rule order_next [OF 1 order_step.pick]) (simp add: ms_step_iff ms_mount_def)
  have 3: "order_run demo_env (ms_mount []) ((([] @ [Pick ClickField]) @ [Pick TimerFires]) @ [Pick (Answer [] [?o])]) ?m3"
    by (rule order_next [OF 2 order_step.pick]) (simp add: ms_step_iff ms_mount_def)
  let ?ready = "\<lambda>m. pk_isOpen (ms_picker m) \<and> pk_search (ms_picker m) = [] \<and> \<not> ms_isLoading m \<and> ms_options m = [?o]"
  have again: "\<exists>m'. order_run demo_env (ms_mount []) (es @ [Pick (Choose ?o)]) m' \<and> ?ready m'"
    if run: "order_run demo_env (ms_mount []) es m" and m: "?ready m" for es m
  proof -
    have ok: "ms_ok m" and st: "list_all stored_item (ms_values m)" using order_run_ok [OF run] by (simp_all add: order_lines_def)
    obtain ws where ws: "order_parent (ms_values m @ [JObj (props_put (spread_props ?o) ''quantity'' (int_val 1))]) = Inr ws"
      using order_parent_result [of "ms_values m @ [JObj (props_put (spread_props ?o) ''quantity'' (int_val 1))]"] stored_records [OF st]
      by auto
    let ?m' = "with_picker (ms_picker m) (m\<lparr>ms_values := ws\<rparr>)"
    have keys: "key_of x = JUndef" if "x \<in> set (ms_values m)" for x using st that stored_record [of x] by (simp add: list_all_iff)
    have "key_of ?o \<notin> key_of ` set (ms_values m)" using keys by auto
    then have drop: "ms_dropdown m = Inr (Choices [?o])"
      using ms_dropdown_open [OF ok] m by (simp add: Let_def)
    have "ms_picker m\<lparr>pk_search := []\<rparr> = ms_picker m" using m by simp
    then have "picker_handleSelect None ?o (ms_values m) (ms_picker m) =
        Inr (Some (ms_values m @ [JObj (props_put (spread_props ?o) ''quantity'' (int_val 1))]), ms_picker m)"
      by (simp add: picker_handleSelect_def demo_option_def js_or_def)
    with ws drop have "ms_step demo_env order_parent False None (Choose ?o) m ?m'"
      by (simp add: ms_step_iff ms_onChange_def)
    from order_next [OF run order_step.pick [OF this]] m show ?thesis
      by (intro exI [of _ ?m'] conjI) (simp_all add: ms_isLoading_def ms_options_def)
  qed
  have "?ready ?m3" by (simp add: ms_isLoading_def ms_options_def ms_mount_def)
  from again [OF 3 this] obtain m4 where
    4: "order_run demo_env (ms_mount []) (((([] @ [Pick ClickField]) @ [Pick TimerFires]) @ [Pick (Answer [] [?o])]) @ [Pick (Choose ?o)]) m4"
      "?ready m4" by blast
  from again [OF 4] obtain m5 where
    "order_run demo_env (ms_mount []) ((((([] @ [Pick ClickField]) @ [Pick TimerFires]) @ [Pick (Answer [] [?o])]) @ [Pick (Choose ?o)]) @
      [Pick (Choose ?o)]) m5" by blast
  then show ?thesis by (intro exI [of _ m5]) (simp only: list.map append_Nil append_Cons)
qed

theorem order_picker_lines_witness:
  "\<exists>m. order_run demo_env (ms_mount []) (map Pick [ClickField, TimerFires, Answer [] [demo_option ''a''], Choose (demo_option ''a''), Choose (demo_option ''a'')]) m \<and>
     map (own ''product_id'') (ms_values m) = [JUndef, JStr ''a''] \<and> map (own ''unit_price'') (ms_values m) = [int_val 0, int_val 5]"
proof -
  obtain m where "order_run demo_env (ms_mount []) (map Pick [ClickField, TimerFires, Answer [] [demo_option ''a''],
      Choose (demo_option ''a''), Choose (demo_option ''a'')]) m" using demo_run by blast
  from order_picker_lines [OF this] this show ?thesis
    by (intro exI [of _ m]) (simp add: chosen_def demo_option_def nullish_def)
qed

text \<open>
  C31: The search is answered, for every parent that passes objects as values. In every reachable state with the drop-down open, at most the timer and the answer to the query for the
  text that is now in the field are needed until the drop-down shows those options of the answer that are not selected, or says why
  there are none.
\<close>

theorem search_is_answered:
  assumes "select_parent P" "ms_run E P allow mx (ms_mount vs) es m" "list_all is_record vs" "pk_isOpen (ms_picker m)" "list_all is_option opts"
  shows "\<exists>es' m'. ms_run E P allow mx (ms_mount vs) (es @ es') m' \<and> set es' \<subseteq> {TimerFires, Answer (pk_search (ms_picker m)) opts} \<and>
    ms_values m' = ms_values m \<and>
    ms_dropdown m' = Inr (let rest = filter (\<lambda>opt. key_of opt \<notin> key_of ` set (ms_values m)) opts
      in if rest = [] then Message (if opts = [] then ''No results found'' else ''All items already selected'') else Choices rest)"
proof -
  let ?s = "pk_search (ms_picker m)"
  have w: "waiting ?s (ms_debounced m) (ms_timer m)" using ms_run_waiting [OF assms(2)] .
  obtain es1 m1 where m1: "ms_run E P allow mx (ms_mount vs) (es @ es1) m1" "set es1 \<subseteq> {TimerFires}" "ms_values m1 = ms_values m"
    "ms_picker m1 = ms_picker m" "ms_debounced m1 = ?s"
  proof (cases "ms_timer m")
    case None
    with w assms(2) show ?thesis by (intro that [of "[]" m]) (simp_all add: waiting_def)
  next
    case (Some s)
    let ?m = "m\<lparr>ms_debounced := s, ms_timer := None\<rparr>"
    have "ms_step E P allow mx TimerFires m ?m" using Some by (simp add: ms_step_iff)
    with w Some show ?thesis by (intro that [of "[TimerFires]" ?m] ms_next [OF assms(2)]) (simp_all add: waiting_def)
  qed
  let ?m2 = "m1\<lparr>ms_cache := (ms_cache m1)(?s \<mapsto> opts)\<rparr>"
  have "ms_step E P allow mx (Answer ?s opts) m1 ?m2" using assms(5) by (simp add: ms_step_iff)
  from ms_next [OF m1(1) this] have run: "ms_run E P allow mx (ms_mount vs) (es @ (es1 @ [Answer ?s opts])) ?m2" by simp
  have now: "ms_options ?m2 = opts" "\<not> ms_isLoading ?m2" "pk_isOpen (ms_picker ?m2)" "ms_values ?m2 = ms_values m"
    using m1 assms(4) by (simp_all add: ms_options_def ms_isLoading_def)
  have "ms_dropdown ?m2 = Inr (let rest = filter (\<lambda>opt. key_of opt \<notin> key_of ` set (ms_values m)) opts
      in if rest = [] then Message (if opts = [] then ''No results found'' else ''All items already selected'') else Choices rest)"
    using ms_dropdown_open [OF select_parent.run_ok [OF assms(1) run] now(3,2)] assms(3) by (simp add: now)
  with run m1(2) now(4) show ?thesis by (intro exI [of _ "es1 @ [Answer ?s opts]"] exI [of _ ?m2] conjI) auto
qed

theorem search_is_answered_witness:
  "\<exists>es' m'. ms_run demo_env order_parent False None (ms_mount []) ([ClickField] @ es') m' \<and> ms_dropdown m' = Inr (Choices [demo_option ''a''])"
proof -
  let ?m = "with_picker \<lparr>pk_isOpen = True, pk_search = []\<rparr> (ms_mount [])"
  have run: "ms_run demo_env order_parent False None (ms_mount []) [ClickField] ?m"
    using ms_next [OF ms_start, of demo_env order_parent False None ClickField "ms_mount []" ?m] by (simp add: ms_step_iff ms_mount_def)
  from search_is_answered [OF order_field.select_parent_axioms run, of "[demo_option ''a'']"] show ?thesis
    by (fastforce simp: Let_def ms_mount_def)
qed

end
