(* ===== verification/Dashboard_Home.thy ===== *)
theory Dashboard_Home
  imports Molecule_Charts Dashboard_Services Backoffice_Orders
begin

text \<open>
  The first page of the dashboard: the client of its data (\<open>api/services/dashboardService.ts\<close>), the cards
  \<open>InventoryOverview.tsx\<close>, \<open>OrderStatus.tsx\<close> and \<open>RecentActivity.tsx\<close>, the navigation \<open>layouts/DashboardNav.tsx\<close> and
  the frame \<open>DashboardLayout.tsx\<close> with the menu \<open>UserProfile.tsx\<close>. A query of the library gives a card the data or
  \<open>undefined\<close> and the two flags; the texts of numbers in the locale are a parameter.
\<close>

section \<open>The client\<close>

definition getDashboardOverview :: "api_context \<Rightarrow> (window, jsval) op" where
  "getDashboardOverview A = api_get A ''/api/dashboard/overview'' no_config"

definition getInventoryOverview :: "api_context \<Rightarrow> (window, jsval) op" where
  "getInventoryOverview A = api_get A ''/api/dashboard/inventory'' no_config"

definition getOrderStatusOverview :: "api_context \<Rightarrow> (window, jsval) op" where
  "getOrderStatusOverview A = api_get A ''/api/dashboard/orders'' no_config"

definition getRecentActivities :: "api_context \<Rightarrow> jsnum \<Rightarrow> (window, jsval) op" where
  "getRecentActivities A limit w =
     (case api_get A (''/api/dashboard/activities?limit='' @ numToString (a_env A) limit) no_config w of
        (Inl e, w') \<Rightarrow> (Inl e, w')
      | (Inr response, w') \<Rightarrow> (js_get response ''activities'', w'))"

section \<open>Cards\<close>

record home_lib =
  h_ui :: ui_lib
  numberText :: "jsnum \<Rightarrow> string"
  currencyText :: "jsnum \<Rightarrow> string"
  otherText :: "jsval \<Rightarrow> string js"

text \<open>\<open>v.toLocaleString()\<close> of a value that is no date.\<close>

definition localeText :: "home_lib \<Rightarrow> jsval \<Rightarrow> string js" where
  "localeText H v =
     (case v of JUndef \<Rightarrow> Inl TypeError | JNull \<Rightarrow> Inl TypeError | JNum n \<Rightarrow> Inr (numberText H n) | JStr s \<Rightarrow> Inr s
      | v \<Rightarrow> otherText H v)"

datatype 'a card = Card_spinner | Card_error string | Card_empty | Card_body 'a

text \<open>The three early returns that the cards of the overviews share.\<close>

definition query_card :: "string \<Rightarrow> bool \<Rightarrow> bool \<Rightarrow> jsval \<Rightarrow> (jsval \<Rightarrow> 'a js) \<Rightarrow> 'a card js" where
  "query_card msg loading failed data body =
     (if loading then Inr Card_spinner else if failed then Inr (Card_error msg) else if \<not> js_truthy data then Inr Card_empty
      else js_bind (body data) (\<lambda>b. Inr (Card_body b)))"

definition overview_line :: "home_lib \<Rightarrow> jsval \<Rightarrow> string \<times> string \<Rightarrow> (string \<times> string) js" where
  "overview_line H data x = js_bind (js_get data (snd x)) (\<lambda>v. js_bind (localeText H v) (\<lambda>t. Inr (fst x, t)))"

definition InventoryOverview :: "home_lib \<Rightarrow> bool \<Rightarrow> bool \<Rightarrow> jsval \<Rightarrow> (string \<times> string) list card js" where
  "InventoryOverview H loading failed data =
     query_card ''Error loading inventory data'' loading failed data (\<lambda>d.
       js_bind (js_map (overview_line H d) [(''Total SKUs'', ''total_items''), (''Low Stock Alerts'', ''low_stock_count''),
         (''Overstock Items'', ''overstock_count''), (''Total Quantity'', ''total_quantity'')]) (\<lambda>ls.
       js_bind (js_get d ''total_value'') (\<lambda>v. js_bind (js_toNumber (u_env (h_ui H)) v) (\<lambda>n.
         Inr (ls @ [(''Total Value'', currencyText H n)])))))"

section \<open>OrderStatus\<close>

text \<open>\<open>statusColorMap[status]\<close>, the first class of it; a name of the prototype has a function there, without \<open>split\<close>.\<close>

definition status_colors :: "(string \<times> string) list" where
  "status_colors = [(''PENDING'', ''bg-yellow-100''), (''PROCESSING'', ''bg-blue-100''), (''SHIPPED'', ''bg-purple-100''),
     (''DELIVERED'', ''bg-green-100''), (''CANCELLED'', ''bg-red-100''), (''RETURNED'', ''bg-gray-100'')]"

definition status_color :: "string \<Rightarrow> string \<Rightarrow> string js" where
  "status_color dflt st =
     (case map_of status_colors st of Some c \<Rightarrow> Inr c
      | None \<Rightarrow> if st \<in> set object_prototype then Inl TypeError else Inr dflt)"

definition capitalized :: "string \<Rightarrow> string" where
  "capitalized s = take 1 s @ map to_lower (drop 1 s)"

record status_row =
  sr_dot :: string
  sr_label :: string
  sr_color :: string
  sr_width :: jsnum
  sr_count :: jsval

definition status_row_of :: "js_env \<Rightarrow> jsval \<Rightarrow> jsval \<Rightarrow> status_row js" where
  "status_row_of E tot item =
     js_bind (js_get item ''status'') (\<lambda>st.
       case st of JStr s \<Rightarrow>
         js_bind (status_color ''bg-gray-100'' s) (\<lambda>dot. js_bind (status_color ''bg-gray-400'' s) (\<lambda>color.
         js_bind (js_get item ''count'') (\<lambda>c. js_bind (js_toNumber E c) (\<lambda>n. js_bind (js_toNumber E tot) (\<lambda>t.
           Inr \<lparr>sr_dot = dot, sr_label = capitalized s, sr_color = color, sr_width = slice_share t n, sr_count = c\<rparr>)))))
       | _ \<Rightarrow> Inl TypeError)"

definition OrderStatus :: "home_lib \<Rightarrow> bool \<Rightarrow> bool \<Rightarrow> jsval \<Rightarrow> (string \<times> status_row list) card js" where
  "OrderStatus H loading failed data =
     query_card ''Error loading order data'' loading failed data (\<lambda>d.
       js_bind (js_get d ''total_orders'') (\<lambda>tot. js_bind (localeText H tot) (\<lambda>t.
       js_bind (js_get d ''status_counts'') (\<lambda>v. js_bind (js_elements v) (\<lambda>items.
       js_bind (js_map (status_row_of (u_env (h_ui H)) tot) items) (\<lambda>rows. Inr (t, rows)))))))"

section \<open>RecentActivity\<close>

definition plural :: "js_env \<Rightarrow> jsnum \<Rightarrow> string \<Rightarrow> string" where
  "plural E n noun = numToString E n @ '' '' @ noun @ (if n \<noteq> Fin 1 then ''s'' else []) @ '' ago''"

text \<open>\<open>now\<close> is the clock; an exception inside gives the text of the handler.\<close>

definition formatRelativeTime :: "ui_lib \<Rightarrow> jsnum \<Rightarrow> jsval \<Rightarrow> string" where
  "formatRelativeTime U now timestamp =
     (case new_Date (u_dates U) timestamp of
        Inl e \<Rightarrow> ''Unknown time''
      | Inr date \<Rightarrow>
          (let diffMs = num_sub now date;
               diffSec = Math_floor (num_div diffMs (Fin 1000));
               diffMin = Math_floor (num_div diffSec (Fin 60));
               diffHour = Math_floor (num_div diffMin (Fin 60));
               diffDay = Math_floor (num_div diffHour (Fin 24))
           in if num_lt diffSec (Fin 60) then ''just now''
              else if num_lt diffMin (Fin 60) then plural (u_env U) diffMin ''minute''
              else if num_lt diffHour (Fin 24) then plural (u_env U) diffHour ''hour''
              else if num_lt diffDay (Fin 30) then plural (u_env U) diffDay ''day''
              else toLocaleDateString U date))"

definition activity :: "string \<Rightarrow> string \<Rightarrow> string \<Rightarrow> string \<Rightarrow> string \<Rightarrow> jsval" where
  "activity i ty msg ts severity = JObj [(''id'', JStr i), (''type'', JStr ty), (''message'', JStr msg), (''timestamp'', JStr ts), (''severity'', JStr severity)]"

definition sample_activities :: "ui_lib \<Rightarrow> jsnum \<Rightarrow> jsval list js" where
  "sample_activities U now =
     js_bind (toISOString (u_dates U) (num_sub now (Fin 600000))) (\<lambda>a.
     js_bind (toISOString (u_dates U) (num_sub now (Fin 3600000))) (\<lambda>b.
     js_bind (toISOString (u_dates U) (num_sub now (Fin 7200000))) (\<lambda>c.
       Inr [activity ''1'' ''order'' ''New order received'' a ''info'', activity ''2'' ''shipment'' ''Shipment #3321 delivered'' b ''success'',
         activity ''3'' ''inventory'' ''Low stock alert: SKU-12345'' c ''warning''])))"

text \<open>\<open>data && data.length > 0 ? data : [...]\<close>, of which \<open>map\<close> is called.\<close>

definition activities_of :: "ui_lib \<Rightarrow> jsnum \<Rightarrow> jsval \<Rightarrow> jsval list js" where
  "activities_of U now data =
     (if js_truthy data
      then js_bind (js_get data ''length'') (\<lambda>n. js_bind (js_positive (u_env U) n) (\<lambda>b. if b then js_elements data else sample_activities U now))
      else sample_activities U now)"

definition class_in :: "(string \<times> string) list \<Rightarrow> string \<Rightarrow> jsval \<Rightarrow> string" where
  "class_in m dflt v = (case v of JStr s \<Rightarrow> (case map_of m s of Some c \<Rightarrow> c | None \<Rightarrow> dflt) | _ \<Rightarrow> dflt)"

definition activityTypeColorMap :: "(string \<times> string) list" where
  "activityTypeColorMap = [(''order'', ''bg-blue-500''), (''shipment'', ''bg-green-500''), (''inventory'', ''bg-yellow-500''), (''system'', ''bg-purple-500'')]"

definition severityColorMap :: "(string \<times> string) list" where
  "severityColorMap = [(''info'', ''text-blue-600''), (''warning'', ''text-amber-600''), (''error'', ''text-red-600''), (''success'', ''text-green-600'')]"

record activity_row =
  ar_dot :: string
  ar_class :: string
  ar_message :: jsval
  ar_time :: string

definition activity_row_of :: "ui_lib \<Rightarrow> jsnum \<Rightarrow> jsval \<Rightarrow> activity_row js" where
  "activity_row_of U now a =
     js_bind (js_get a ''type'') (\<lambda>ty. js_bind (js_get a ''severity'') (\<lambda>sev. js_bind (js_get a ''message'') (\<lambda>msg. js_bind (js_get a ''timestamp'') (\<lambda>ts.
       Inr \<lparr>ar_dot = class_in activityTypeColorMap ''bg-gray-500'' ty, ar_class = class_in severityColorMap [] sev, ar_message = msg,
         ar_time = formatRelativeTime U now ts\<rparr>))))"

definition RecentActivity :: "ui_lib \<Rightarrow> jsnum \<Rightarrow> bool \<Rightarrow> bool \<Rightarrow> jsval \<Rightarrow> activity_row list card js" where
  "RecentActivity U now loading failed data =
     (if loading then Inr Card_spinner else if failed then Inr (Card_error ''Error loading activity data'')
      else js_bind (activities_of U now data) (\<lambda>as. js_bind (js_map (activity_row_of U now) as) (\<lambda>rows. Inr (Card_body rows))))"

section \<open>Navigation and frame\<close>

record main_item =
  mi_label :: string
  mi_href :: string
  mi_subItems :: "(string \<times> string) list option"

definition mainNavItems :: "main_item list" where
  "mainNavItems =
     [\<lparr>mi_label = ''Dashboard'', mi_href = ''/'', mi_subItems = None\<rparr>,
      \<lparr>mi_label = ''Backoffice'', mi_href = ''/backoffice'', mi_subItems = None\<rparr>,
      \<lparr>mi_label = ''Analytics'', mi_href = ''/analytics/overview'', mi_subItems = Some
        [(''Inventory'', ''/analytics/inventory''), (''Orders'', ''/analytics/orders''), (''Transactions'', ''/analytics/transactions''),
         (''Performance'', ''/analytics/performance''), (''Business'', ''/analytics/business'')]\<rparr>]"

definition dash_isActive :: "string \<Rightarrow> string \<Rightarrow> bool" where
  "dash_isActive pathname href = (if href = ''/'' then pathname = href else startsWith pathname href)"

text \<open>Each item with its mark and the items shown below it, with theirs.\<close>

definition shown_item :: "string \<Rightarrow> main_item \<Rightarrow> (string \<times> bool) \<times> (string \<times> bool) list" where
  "shown_item pathname item =
     ((mi_href item, dash_isActive pathname (mi_href item)),
      (case mi_subItems item of
         None \<Rightarrow> []
       | Some subs \<Rightarrow> if dash_isActive pathname (mi_href item) then map (\<lambda>(l, h). (h, dash_isActive pathname h)) subs else []))"

definition DashboardNav :: "string \<Rightarrow> ((string \<times> bool) \<times> (string \<times> bool) list) list" where
  "DashboardNav pathname = map (shown_item pathname) mainNavItems"

record dashboard_layout =
  dl_user :: jsval
  dl_mobileMenu :: bool
  dl_profileOpen :: bool

definition mount_layout :: "jsval \<Rightarrow> dashboard_layout" where
  "mount_layout userData = \<lparr>dl_user = (if js_truthy userData then userData else JNull), dl_mobileMenu = False, dl_profileOpen = False\<rparr>"

definition toggleMobileMenu :: "dashboard_layout \<Rightarrow> dashboard_layout" where
  "toggleMobileMenu l = l\<lparr>dl_mobileMenu := \<not> dl_mobileMenu l\<rparr>"

definition toggleProfile :: "dashboard_layout \<Rightarrow> dashboard_layout" where
  "toggleProfile l = l\<lparr>dl_profileOpen := \<not> dl_profileOpen l\<rparr>"

text \<open>The listener is there only while the menu is open.\<close>

definition profile_click :: "bool \<Rightarrow> dashboard_layout \<Rightarrow> dashboard_layout" where
  "profile_click inside l = (if dl_profileOpen l \<and> \<not> inside then l\<lparr>dl_profileOpen := False\<rparr> else l)"

text \<open>\<open>user.name ?? user.email ?? "User"\<close>, of the profile that is rendered for a user only.\<close>

definition profile_name :: "dashboard_layout \<Rightarrow> jsval js option" where
  "profile_name l =
     (if js_truthy (dl_user l)
      then Some (js_bind (js_get (dl_user l) ''name'') (\<lambda>n. js_bind (js_get (dl_user l) ''email'') (\<lambda>e. Inr (nullish n (nullish e (JStr ''User''))))))
      else None)"


section \<open>The age of an activity\<close>

lemma int_div_less: "0 < (n :: int) \<Longrightarrow> d div n < q \<longleftrightarrow> d < q * n"
proof -
  assume n: "0 < n"
  have "q \<le> d div n \<longleftrightarrow> rat_of_int q \<le> of_int d / of_int n" by (simp add: le_floor_iff flip: floor_divide_of_int_eq [where ?'a = rat])
  also have "\<dots> \<longleftrightarrow> rat_of_int (q * n) \<le> of_int d" using n by (simp add: le_divide_eq)
  finally show ?thesis by (simp only: of_int_le_iff not_le [symmetric])
qed

lemma floor_quotient:
  assumes "0 \<le> d" "0 < n" "n \<le> 1000" "d < n * 2 ^ 41"
  shows "Math_floor (num_div (Fin (of_int d)) (Fin (of_int n))) = Fin (of_int (d div n))"
proof -
  define q where "q = d div n"
  have q: "0 \<le> q" "q < 2 ^ 41" using assms by (simp_all add: q_def pos_imp_zdiv_nonneg_iff int_div_less mult.commute)
  have d: "q * n \<le> d" "d \<le> q * n + (n - 1)"
    using pos_mod_sign [OF assms(2), of d] pos_mod_bound [OF assms(2), of d] div_mult_mod_eq [of d n] unfolding q_def by linarith+
  have n: "0 < rat_of_int n" using assms(2) by simp
  have "rat_of_int (q * 1024) / 2 ^ 10 = of_int q" by simp
  also have "\<dots> \<le> of_int d / of_int n" using d(1) n by (simp add: le_divide_eq flip: of_int_mult)
  finally have low: "rat_of_int (q * 1024) / 2 ^ 10 \<le> of_int d / of_int n" .
  have "d * 1024 \<le> (q * 1024 + 1023) * n"
  proof -
    have "d * 1024 \<le> (q * n + (n - 1)) * 1024" using d(2) by simp
    also have "\<dots> \<le> (q * 1024 + 1023) * n" using assms(3) by (simp add: algebra_simps)
    finally show ?thesis .
  qed
  then have "rat_of_int (d * 1024) \<le> of_int ((q * 1024 + 1023) * n)" by (simp only: of_int_le_iff)
  then have high: "of_int d / of_int n \<le> rat_of_int (q * 1024 + 1023) / 2 ^ 10"
    using n by (simp add: pos_divide_le_eq)
  obtain r where r: "fl (of_int d / of_int n) = Fin r" "rat_of_int (q * 1024) / 2 ^ 10 \<le> r" "r \<le> rat_of_int (q * 1024 + 1023) / 2 ^ 10"
    using fl_within_scaled [OF _ low high] q by auto
  have "\<lfloor>r\<rfloor> = q" using r(2,3) by (intro floor_unique) (simp_all add: field_simps)
  with r(1) n show ?thesis by (simp add: q_def)
qed

text \<open>The text of an age in whole milliseconds.\<close>

definition age_text :: "js_env \<Rightarrow> string \<Rightarrow> int \<Rightarrow> string" where
  "age_text E other d =
     (let p = \<lambda>n. plural E (Fin (of_int n)) in
      if d < 60000 then ''just now'' else if d < 3600000 then p (d div 60000) ''minute''
      else if d < 86400000 then p (d div 3600000) ''hour'' else if d < 2592000000 then p (d div 86400000) ''day'' else other)"

lemma age_of_stamp:
  assumes "new_Date (u_dates U) ts = Inr (Fin (of_int t))" "t \<le> now" "now - t < 2 ^ 50"
  shows "formatRelativeTime U (Fin (of_int now)) ts = age_text (u_env U) (toLocaleDateString U (Fin (of_int t))) (now - t)"
proof -
  let ?d = "now - t"
  have "fl (rat_of_int (now - t)) = Fin (of_int (now - t))" using assms(2,3) by (intro fl_int) simp
  then have diff: "num_sub (Fin (of_int now)) (Fin (of_int t)) = Fin (of_int ?d)" by (simp add: num_sub_def)
  have sec: "Math_floor (num_div (Fin (of_int ?d)) (Fin 1000)) = Fin (of_int (?d div 1000))"
    using floor_quotient [of ?d 1000] assms(2,3) by simp
  have b: "0 \<le> ?d div 1000" "?d div 1000 < 2 ^ 41" using assms(2,3) by (simp_all add: pos_imp_zdiv_nonneg_iff int_div_less)
  have min: "Math_floor (num_div (Fin (of_int (?d div 1000))) (Fin 60)) = Fin (of_int (?d div 60000))"
    using floor_quotient [of "?d div 1000" 60] b by (simp add: zdiv_zmult2_eq [symmetric])
  have b': "0 \<le> ?d div 60000" "?d div 60000 < 2 ^ 41" using assms(2,3) by (simp_all add: pos_imp_zdiv_nonneg_iff int_div_less)
  have hour: "Math_floor (num_div (Fin (of_int (?d div 60000))) (Fin 60)) = Fin (of_int (?d div 3600000))"
    using floor_quotient [of "?d div 60000" 60] b' by (simp add: zdiv_zmult2_eq [symmetric])
  have b'': "0 \<le> ?d div 3600000" "?d div 3600000 < 2 ^ 41" using assms(2,3) by (simp_all add: pos_imp_zdiv_nonneg_iff int_div_less)
  have day: "Math_floor (num_div (Fin (of_int (?d div 3600000))) (Fin 24)) = Fin (of_int (?d div 86400000))"
    using floor_quotient [of "?d div 3600000" 24] b'' by (simp add: zdiv_zmult2_eq [symmetric])
  have lt: "num_lt (Fin (of_int a)) (Fin (of_int c)) \<longleftrightarrow> a < c" for a c by simp
  have "?d div 1000 < 60 \<longleftrightarrow> ?d < 60000" "?d div 60000 < 60 \<longleftrightarrow> ?d < 3600000" "?d div 3600000 < 24 \<longleftrightarrow> ?d < 86400000"
    "?d div 86400000 < 30 \<longleftrightarrow> ?d < 2592000000" by (simp_all add: int_div_less)
  with lt [of _ 60] lt [of _ 24] lt [of _ 30] show ?thesis
    by (simp only: formatRelativeTime_def assms(1) sum.case Let_def diff sec min hour day age_text_def of_int_numeral)
qed

text \<open>
  C17: The age of an activity. For a time stamp that is read as a whole number of milliseconds and is not in the future, the text is
  the number of whole minutes, hours or days in the exact difference, in the singular for one, below a minute it is \<open>just now\<close>
  and from thirty days on the date; the roundings of the three divisions never show. It covers 30000 years.
\<close>

theorem relative_time_spec:
  assumes "new_Date (u_dates U) ts = Inr (Fin (of_int t))" "t \<le> now" "now - t < 2 ^ 50"
  shows "formatRelativeTime U (Fin (of_int now)) ts = age_text (u_env U) (toLocaleDateString U (Fin (of_int t))) (now - t)"
  using assms by (rule age_of_stamp)


definition home_ui :: ui_lib where
  "home_ui = demo_ui\<lparr>u_dates := demo_date_lib\<lparr>new_Date := \<lambda>v. Inr (if v = JStr ''a'' then Fin 600000 else if v = JStr ''b'' then Fin 3600000 else Fin 0),
     toISOString := \<lambda>t. Inr (if t = Fin 600000 then ''a'' else if t = Fin 3600000 then ''b'' else ''c'')\<rparr>\<rparr>"

theorem relative_time_spec_witness:
  "formatRelativeTime home_ui (Fin 3720000) (JStr ''a'') = ''0 minutes ago''"
  using relative_time_spec [of home_ui "JStr ''a''" 600000 3720000]
  by (simp add: home_ui_def demo_ui_def age_text_def plural_def demo_env_def)

lemma age_of:
  assumes "new_Date (u_dates U) (JStr s) = Inr (Fin (of_int (now - d)))" "0 \<le> d" "d < 2 ^ 50"
  shows "formatRelativeTime U (Fin (of_int now)) (JStr s) = age_text (u_env U) (toLocaleDateString U (Fin (of_int (now - d)))) d"
  using age_of_stamp [OF assms(1)] assms(2,3) by simp

text \<open>Dates that are printed as that many dots, after a sign.\<close>

definition clock_text :: "int \<Rightarrow> string" where
  "clock_text t = (if 0 \<le> t then CHR ''+'' else CHR ''-'') # replicate (nat \<bar>t\<bar>) (CHR ''.'')"

definition clock_read :: "string \<Rightarrow> int" where
  "clock_read s = (case s of [] \<Rightarrow> 0 | c # ds \<Rightarrow> (if c = CHR ''+'' then 1 else - 1) * int (length ds))"

definition clock_ui :: ui_lib where
  "clock_ui = demo_ui\<lparr>u_dates := demo_date_lib\<lparr>new_Date := \<lambda>v. Inr (case v of JStr s \<Rightarrow> Fin (of_int (clock_read s)) | _ \<Rightarrow> NaN),
     toISOString := \<lambda>t. Inr (case t of Fin x \<Rightarrow> clock_text \<lfloor>x\<rfloor> | _ \<Rightarrow> [])\<rparr>\<rparr>"

lemma clock_round_trip:
  "\<exists>s. toISOString (u_dates clock_ui) (Fin (of_int t)) = Inr s \<and> new_Date (u_dates clock_ui) (JStr s) = Inr (Fin (of_int t))"
  by (simp add: clock_ui_def clock_read_def clock_text_def)

text \<open>
  What the page shows when nothing has happened. For an empty list of activities, as for none, the card lists an order of ten
  minutes ago, a delivered shipment of one hour ago and a stock alert of two hours ago, none of which exists. The hypothesis is that a date that
  was printed is read again.
\<close>

theorem empty_activity_shows_samples:
  assumes "\<And>t. \<exists>s. toISOString (u_dates U) (Fin (of_int t)) = Inr s \<and> new_Date (u_dates U) (JStr s) = Inr (Fin (of_int t))"
    and "\<bar>now\<bar> < 2 ^ 49" "data \<in> {arr [], JUndef, JNull}"
  shows "\<exists>rows. RecentActivity U (Fin (of_int now)) False False data = Inr (Card_body rows) \<and>
    map (\<lambda>r. (ar_message r, ar_time r)) rows =
      [(JStr ''New order received'', numToString (u_env U) (Fin 10) @ '' minutes ago''),
       (JStr ''Shipment #3321 delivered'', numToString (u_env U) (Fin 1) @ '' hour ago''),
       (JStr ''Low stock alert: SKU-12345'', numToString (u_env U) (Fin 2) @ '' hours ago'')]"
proof -
  have sub: "num_sub (Fin (of_int now)) (Fin (of_int d)) = Fin (of_int (now - d))" if "d \<in> {600000, 3600000, 7200000}" for d
    using fl_int [of "now - d"] assms(2) that by (auto simp: num_sub_def)
  obtain a b c where iso: "toISOString (u_dates U) (Fin (of_int (now - 600000))) = Inr a" "toISOString (u_dates U) (Fin (of_int (now - 3600000))) = Inr b"
    "toISOString (u_dates U) (Fin (of_int (now - 7200000))) = Inr c" and again: "new_Date (u_dates U) (JStr a) = Inr (Fin (of_int (now - 600000)))"
    "new_Date (u_dates U) (JStr b) = Inr (Fin (of_int (now - 3600000)))" "new_Date (u_dates U) (JStr c) = Inr (Fin (of_int (now - 7200000)))"
    using assms(1) by meson
  have "sample_activities U (Fin (of_int now)) =
      Inr [activity ''1'' ''order'' ''New order received'' a ''info'', activity ''2'' ''shipment'' ''Shipment #3321 delivered'' b ''success'',
        activity ''3'' ''inventory'' ''Low stock alert: SKU-12345'' c ''warning'']"
    using sub [of 600000] sub [of 3600000] sub [of 7200000] iso by (simp add: sample_activities_def)
  moreover have "activities_of U (Fin (of_int now)) data = sample_activities U (Fin (of_int now))"
    using assms(3) by (auto simp: activities_of_def js_positive_def)
  moreover have "formatRelativeTime U (Fin (of_int now)) (JStr a) = numToString (u_env U) (Fin 10) @ '' minutes ago''"
    "formatRelativeTime U (Fin (of_int now)) (JStr b) = numToString (u_env U) (Fin 1) @ '' hour ago''"
    "formatRelativeTime U (Fin (of_int now)) (JStr c) = numToString (u_env U) (Fin 2) @ '' hours ago''"
    using age_of [OF again(1)] age_of [OF again(2)] age_of [OF again(3)] by (simp_all add: age_text_def plural_def)
  ultimately show ?thesis
    by (simp add: RecentActivity_def activity_row_of_def activity_def prop_lookup_def)
qed

theorem empty_activity_shows_samples_witness:
  "\<exists>rows. RecentActivity clock_ui (Fin (of_int 0)) False False (arr []) = Inr (Card_body rows) \<and> length rows = 3"
proof -
  have "\<exists>rows. RecentActivity clock_ui (Fin (of_int 0)) False False (arr []) = Inr (Card_body rows) \<and>
    map (\<lambda>r. (ar_message r, ar_time r)) rows =
      [(JStr ''New order received'', numToString (u_env clock_ui) (Fin 10) @ '' minutes ago''),
       (JStr ''Shipment #3321 delivered'', numToString (u_env clock_ui) (Fin 1) @ '' hour ago''),
       (JStr ''Low stock alert: SKU-12345'', numToString (u_env clock_ui) (Fin 2) @ '' hours ago'')]"
    by (rule empty_activity_shows_samples) (simp_all add: clock_round_trip)
  then obtain rows where r: "RecentActivity clock_ui (Fin (of_int 0)) False False (arr []) = Inr (Card_body rows)"
    "length (map (\<lambda>r. (ar_message r, ar_time r)) rows) = 3" by (auto simp del: length_map)
  from r(2) have "length rows = 3" by (simp only: length_map)
  with r(1) show ?thesis by blast
qed


section \<open>Statuses and navigation\<close>

definition status_item :: "string \<times> int \<Rightarrow> jsval" where
  "status_item x = JObj [(''status'', JStr (fst x)), (''count'', int_val (snd x))]"

lemma status_row:
  assumes "s \<notin> set object_prototype"
  shows "\<exists>r. status_row_of E (int_val tot) (status_item (s, c)) = Inr r \<and> sr_label r = capitalized s \<and>
    sr_width r = slice_share (Fin (of_int tot)) (Fin (of_int c)) \<and> sr_count r = int_val c"
  using assms by (auto simp: status_row_of_def status_item_def prop_lookup_def status_color_def split: option.split)

text \<open>
  The card of the orders has a line for each status, in the order of the response, with the status capitalized, its count and a
  bar whose width is a number from 0 to 100 percent whatever the roundings, when the counts lie between zero and the positive total; for a total of
  zero every bar of zero has the width \<open>NaN\<close>. It holds for every status that is no name of the prototype of objects.
\<close>

theorem order_status_spec:
  assumes "\<forall>x \<in> set items. fst x \<notin> set object_prototype \<and> 0 \<le> snd x \<and> snd x \<le> tot"
  shows "\<exists>rows. OrderStatus H False False (JObj [(''status_counts'', arr (map status_item items)), (''total_orders'', int_val tot)]) =
      Inr (Card_body (numberText H (Fin (of_int tot)), rows)) \<and>
    list_all2 (\<lambda>x r. sr_label r = capitalized (fst x) \<and> sr_count r = int_val (snd x) \<and>
      (if 0 < tot then \<exists>w. sr_width r = Fin w \<and> 0 \<le> w \<and> w \<le> 100 else sr_width r = NaN)) items rows"
proof -
  have row: "\<exists>r. status_row_of E (int_val tot) (status_item x) = Inr r \<and> sr_label r = capitalized (fst x) \<and> sr_count r = int_val (snd x) \<and>
      (if 0 < tot then \<exists>w. sr_width r = Fin w \<and> 0 \<le> w \<and> w \<le> 100 else sr_width r = NaN)" if "x \<in> set items" for E x
  proof -
    have x: "fst x \<notin> set object_prototype" "0 \<le> snd x" "snd x \<le> tot" using assms that by auto
    obtain r where r: "status_row_of E (int_val tot) (status_item x) = Inr r" "sr_label r = capitalized (fst x)"
      "sr_width r = slice_share (Fin (of_int tot)) (Fin (of_int (snd x)))" "sr_count r = int_val (snd x)"
      using status_row [OF x(1), of E tot "snd x"] by auto
    have "sr_width r = NaN" if "\<not> 0 < tot" using r(3) x that by (simp add: slice_share_def inf_of_sgn_def)
    with r share_bounds [OF x(2,3)] show ?thesis by auto
  qed
  have "\<exists>rows. js_map (status_row_of E (int_val tot)) (map status_item items) = Inr rows \<and>
    list_all2 (\<lambda>x r. sr_label r = capitalized (fst x) \<and> sr_count r = int_val (snd x) \<and>
      (if 0 < tot then \<exists>w. sr_width r = Fin w \<and> 0 \<le> w \<and> w \<le> 100 else sr_width r = NaN)) items rows" for E
    using row [of _ E] by (induction items) (fastforce split del: if_split)+
  from this [of "u_env (h_ui H)"] obtain rows where
    rows: "js_map (status_row_of (u_env (h_ui H)) (int_val tot)) (map status_item items) = Inr rows" "list_all2 (\<lambda>x r. sr_label r = capitalized (fst x) \<and>
      sr_count r = int_val (snd x) \<and> (if 0 < tot then \<exists>w. sr_width r = Fin w \<and> 0 \<le> w \<and> w \<le> 100 else sr_width r = NaN)) items rows" by blast
  then have "OrderStatus H False False (JObj [(''status_counts'', arr (map status_item items)), (''total_orders'', int_val tot)]) =
      Inr (Card_body (numberText H (Fin (of_int tot)), rows))"
    by (simp add: OrderStatus_def query_card_def prop_lookup_def localeText_def)
  with rows(2) show ?thesis by blast
qed

definition demo_home :: home_lib where
  "demo_home = \<lparr>h_ui = demo_ui, numberText = (\<lambda>n. ''5''), currencyText = (\<lambda>n. ''$5''), otherText = (\<lambda>v. Inl TypeError)\<rparr>"

theorem order_status_spec_witness:
  "\<exists>r w. OrderStatus demo_home False False (JObj [(''status_counts'', arr (map status_item [(''PENDING'', 2)])), (''total_orders'', int_val 5)]) =
      Inr (Card_body (''5'', [r])) \<and> sr_label r = ''Pending'' \<and> sr_width r = Fin w \<and> 0 \<le> w \<and> w \<le> 100"
proof -
  have "capitalized ''PENDING'' = ''Pending''" by code_simp
  moreover have "''PENDING'' \<notin> set object_prototype" by (simp add: object_prototype_def)
  ultimately show ?thesis
    using order_status_spec [of "[(''PENDING'', 2)]" 5 demo_home] by (auto simp: demo_home_def list_all2_Cons1)
qed

text \<open>
  The navigation never shows the entry of an analytics page while that page is open: the entries below \<open>Analytics\<close> are shown
  on the overview only, so that following any of them makes all of them disappear and leaves no mark in the navigation.
\<close>

theorem analytics_entries_disappear:
  "(\<forall>pathname. concat (map snd (DashboardNav pathname)) =
     (if startsWith pathname ''/analytics/overview'' then map (\<lambda>(l, h). (h, False)) (the (mi_subItems (last mainNavItems))) else [])) \<and>
   list_all (\<lambda>(l, h). list_all (\<lambda>(top, below). \<not> snd top \<and> below = []) (DashboardNav h)) (the (mi_subItems (last mainNavItems)))"
proof
  have "\<not> startsWith pathname h" if "startsWith pathname ''/analytics/overview''"
    "h \<in> {''/analytics/inventory'', ''/analytics/orders'', ''/analytics/transactions'', ''/analytics/performance'', ''/analytics/business''}" for pathname h
    using that by (auto simp: startsWith_iff)
  then show "\<forall>pathname. concat (map snd (DashboardNav pathname)) =
     (if startsWith pathname ''/analytics/overview'' then map (\<lambda>(l, h). (h, False)) (the (mi_subItems (last mainNavItems))) else [])"
    by (simp add: DashboardNav_def mainNavItems_def shown_item_def dash_isActive_def)
  show "list_all (\<lambda>(l, h). list_all (\<lambda>(top, below). \<not> snd top \<and> below = []) (DashboardNav h)) (the (mi_subItems (last mainNavItems)))"
    by code_simp
qed

end
