(* ===== verification/Landing_Header.thy ===== *)
theory Landing_Header
  imports Landing
begin

text \<open>
  The script in the header of the landing page, \<open>components/organisms/Header.astro\<close>: a second session check beside that of
  \<open>auth.service.ts\<close>, the buttons it shows and its events. The three elements it looks up are part of the page. \<open>parse\<close> is
  \<open>JSON.parse\<close>, \<open>payload\<close> the parsed second part of a token; \<open>validateToken\<close> is split at its request.
\<close>

section \<open>State\<close>

record header_lib =
  hl_env :: js_env
  hl_config :: landing_config
  hl_dashboardUrl :: string
  hl_parse :: "string \<Rightarrow> jsval option"
  hl_payload :: "string \<Rightarrow> jsval option"
  hl_hostname :: "string \<Rightarrow> string option"
  hl_str :: "int \<Rightarrow> string"

text \<open>\<open>hd_authenticated\<close>: which group of buttons is shown; \<open>hd_pollers\<close>: the intervals that nothing clears.\<close>

record header =
  hd_store :: storage
  hd_authenticated :: bool
  hd_profile :: jsval
  hd_interval :: bool
  hd_pollers :: nat
  hd_lastValidation :: int
  hd_lastStorageCheck :: int
  hd_listening :: bool
  hd_requests :: "string list"

definition header_token :: "landing_config \<Rightarrow> storage \<Rightarrow> string option" where
  "header_token C ls = or_else (getItem ls (lc_tokenKey C)) (getItem ls ''token'')"

definition header_user :: "landing_config \<Rightarrow> storage \<Rightarrow> string option" where
  "header_user C ls = or_else (getItem ls (lc_userKey C)) (getItem ls ''user'')"

text \<open>\<open>user ? JSON.parse(user) : null\<close>\<close>

definition parsed_user :: "header_lib \<Rightarrow> storage \<Rightarrow> jsval js" where
  "parsed_user L ls =
     (case header_user (hl_config L) ls of
        None \<Rightarrow> Inr JNull
      | Some s \<Rightarrow> if s = [] then Inr JNull else (case hl_parse L s of None \<Rightarrow> Inl (JsError ''SyntaxError'') | Some v \<Rightarrow> Inr v))"

definition both_stored :: "header_lib \<Rightarrow> storage \<Rightarrow> bool" where
  "both_stored L ls \<longleftrightarrow> truthy (header_user (hl_config L) ls) \<and> truthy (header_token (hl_config L) ls)"

section \<open>Buttons\<close>

definition updateButtonsVisibility :: "bool \<Rightarrow> jsval \<Rightarrow> header \<Rightarrow> header" where
  "updateButtonsVisibility isAuthenticated userData h =
     (if isAuthenticated then h\<lparr>hd_authenticated := True, hd_profile := js_or (optional_get userData ''name'') (JStr ''Profile'')\<rparr>
      else h\<lparr>hd_authenticated := False\<rparr>)"

text \<open>Without an event the storage decides; the profile is parsed even when there is no token.\<close>

definition updateAuthButtons :: "header_lib \<Rightarrow> (bool \<times> jsval) option \<Rightarrow> header \<Rightarrow> header js" where
  "updateAuthButtons L detail h =
     (case detail of
        Some (a, u) \<Rightarrow> Inr (updateButtonsVisibility a u h)
      | None \<Rightarrow> js_bind (parsed_user L (hd_store h)) (\<lambda>u. Inr (updateButtonsVisibility (both_stored L (hd_store h)) u h)))"

section \<open>The session\<close>

text \<open>\<open>notifyAuthChange(false)\<close>: the event is handled at once, if the page listens.\<close>

definition header_clearAuth :: "header_lib \<Rightarrow> int \<Rightarrow> header \<Rightarrow> header" where
  "header_clearAuth L now h =
     (let C = hl_config L;
          h = h\<lparr>hd_store := removeItem (removeItem (removeItem (removeItem (hd_store h) (lc_tokenKey C)) (lc_userKey C)) ''token'') ''user''\<rparr>;
          h = (if hd_listening h then updateButtonsVisibility False JNull h else h)
      in h\<lparr>hd_store := setItem (hd_store h) timestamp_key (hl_str L now), hd_interval := False\<rparr>)"

text \<open>Any exception means expired. \<open>now\<close> is in milliseconds.\<close>

definition isTokenExpired :: "header_lib \<Rightarrow> int \<Rightarrow> string \<Rightarrow> bool" where
  "isTokenExpired L now token =
     (if length (split_on (CHR ''.'') token) \<noteq> 3 then True
      else (case hl_payload L token of
        None \<Rightarrow> True
      | Some p \<Rightarrow>
         (case js_get p ''exp'' of
            Inl e \<Rightarrow> True
          | Inr x \<Rightarrow> if \<not> js_truthy x then False
              else (case js_toNumber (hl_env L) x of Inl e \<Rightarrow> True | Inr n \<Rightarrow> num_lt n (Fin (of_int (now div 1000)))))))"

definition header_validate_begin :: "header_lib \<Rightarrow> bool \<Rightarrow> int \<Rightarrow> header \<Rightarrow> pending \<times> header" where
  "header_validate_begin L forceCheck now h =
     (case header_token (hl_config L) (hd_store h) of
        None \<Rightarrow> (Done False, header_clearAuth L now h)
      | Some token \<Rightarrow>
          if token = [] \<or> isTokenExpired L now token then (Done False, header_clearAuth L now h)
          else if \<not> forceCheck \<and> now - hd_lastValidation h < 2000 then (Done True, h)
          else (Fetch token, h\<lparr>hd_lastValidation := now, hd_requests := hd_requests h @ [token]\<rparr>))"

text \<open>The answer: \<open>response.ok\<close> and the body, or an exception of \<open>fetch\<close> or \<open>json\<close>; \<open>data.isValid\<close> may throw, too.\<close>

definition header_validate_end :: "header_lib \<Rightarrow> int \<Rightarrow> exn + bool \<times> jsval \<Rightarrow> header \<Rightarrow> bool \<times> header" where
  "header_validate_end L now outcome h =
     (case outcome of
        Inl e \<Rightarrow> (False, h)
      | Inr (ok, data) \<Rightarrow>
          if \<not> ok then (False, header_clearAuth L now h)
          else (case js_get data ''isValid'' of
            Inl e \<Rightarrow> (False, h)
          | Inr v \<Rightarrow> if js_truthy v then (True, h) else (False, header_clearAuth L now h)))"

text \<open>What the broadcast of another page says, if it is less than five seconds old: \<open>Some\<close> the buttons to show.\<close>

definition broadcast_buttons :: "header_lib \<Rightarrow> int \<Rightarrow> bool \<times> jsval js \<Rightarrow> string \<Rightarrow> (bool \<times> jsval) option" where
  "broadcast_buttons L now stored text =
     (case hl_parse L text of
        None \<Rightarrow> None
      | Some ev \<Rightarrow>
        (case js_bind (js_get ev ''timestamp'') (js_minus (hl_env L) (int_val now)) of
           Inl e \<Rightarrow> None
         | Inr age \<Rightarrow>
             if \<not> num_lt age (Fin 5000) then None
             else let ty = optional_get ev ''type''; u = optional_get ev ''user'' in
               if ty = JStr ''LOGIN_SUCCESS'' \<or> ty = JStr ''AUTH_STATUS_AUTHENTICATED''
               then (if js_truthy u then Some (True, u) else (case snd stored of Inl e \<Rightarrow> None | Inr v \<Rightarrow> Some (fst stored, v)))
               else if ty = JStr ''LOGOUT_SUCCESS'' \<or> ty = JStr ''AUTH_STATUS_UNAUTHENTICATED'' then Some (False, JNull)
               else None))"

text \<open>The state is kept beside an exception, which leaves the time of the check behind.\<close>

definition checkStorageForAuthChanges :: "header_lib \<Rightarrow> int \<Rightarrow> header \<Rightarrow> exn option \<times> header" where
  "checkStorageForAuthChanges L now h =
     (if now - hd_lastStorageCheck h < 1000 then (None, h)
      else let ls = hd_store h; stored = (both_stored L ls, parsed_user L ls); h = h\<lparr>hd_lastStorageCheck := now\<rparr> in
        (case snd stored of
           Inl e \<Rightarrow> (Some e, h)
         | Inr u \<Rightarrow> let h = updateButtonsVisibility (fst stored) u h in
          (None, if truthy (getItem ls ''auth_broadcast_event'')
            then (case broadcast_buttons L now stored (the (getItem ls ''auth_broadcast_event'')) of None \<Rightarrow> h | Some (a, v) \<Rightarrow> updateButtonsVisibility a v h)
            else h)))"

section \<open>Events\<close>

definition header_startAuthCheck :: "header_lib \<Rightarrow> int \<Rightarrow> header \<Rightarrow> header" where
  "header_startAuthCheck L now h =
     (let h = snd (header_validate_begin L True now (h\<lparr>hd_interval := False\<rparr>)) in h\<lparr>hd_interval := True, hd_pollers := hd_pollers h + 1\<rparr>)"

text \<open>The end of \<open>setupAuthButtons\<close>: an exception of the first call leaves out the rest. The state is kept beside the error.\<close>

definition setupAuthButtons :: "header_lib \<Rightarrow> int \<Rightarrow> header \<Rightarrow> exn option \<times> header" where
  "setupAuthButtons L now h =
     (case updateAuthButtons L None h of
        Inl e \<Rightarrow> (Some e, h)
      | Inr h \<Rightarrow> (None, (header_startAuthCheck L now (snd (header_validate_begin L True now h)))\<lparr>hd_listening := True\<rparr>))"

definition header_storage_event :: "header_lib \<Rightarrow> int \<Rightarrow> string \<Rightarrow> header \<Rightarrow> exn option \<times> header" where
  "header_storage_event L now key h =
     (if key \<in> set (watched_keys (hl_config L)) then checkStorageForAuthChanges L now (snd (header_validate_begin L True now h)) else (None, h))"

text \<open>Origins are trusted by their host name alone; \<open>new URL(event.origin)\<close> throws for an opaque origin.\<close>

definition header_trusts :: "header_lib \<Rightarrow> string \<Rightarrow> bool js" where
  "header_trusts L origin =
     (case hl_hostname L origin of
        None \<Rightarrow> Inl TypeError
      | Some host \<Rightarrow> Inr (list_ex (\<lambda>url. hl_hostname L url = Some host)
          [lc_authServiceUrl (hl_config L), lc_authInterfaceUrl (hl_config L), hl_dashboardUrl L]))"

definition header_message :: "header_lib \<Rightarrow> int \<Rightarrow> string \<Rightarrow> jsval \<Rightarrow> header \<Rightarrow> exn option \<times> header" where
  "header_message L now origin data h =
     (case js_bind (header_trusts L origin) (\<lambda>ok. if ok then js_get data ''type'' else Inr JUndef) of
        Inl e \<Rightarrow> (Some e, h)
      | Inr ty \<Rightarrow>
         if ty \<in> {JStr ''AUTH_SUCCESS'', JStr ''LOGIN_SUCCESS'', JStr ''AUTH_STATUS_AUTHENTICATED'', JStr ''AUTH_LOGOUT'', JStr ''LOGOUT_SUCCESS'',
           JStr ''AUTH_STATUS_UNAUTHENTICATED''}
         then checkStorageForAuthChanges L now h else (None, h))"

section \<open>Properties\<close>

text \<open>
  A stored user that is no JSON stops the set-up of the header: no request is sent, no check is scheduled and the page does not
  listen, so that a session it holds is not validated.
\<close>

lemma malformed_user_stops_header:
  assumes "header_user (hl_config L) (hd_store h) = Some s" "s \<noteq> []" "hl_parse L s = None"
  shows "setupAuthButtons L now h = (Some (JsError ''SyntaxError''), h)"
  using assms by (simp add: setupAuthButtons_def updateAuthButtons_def parsed_user_def)

text \<open>
  A token that is expired by its own payload ends the session without a request, whether the check is forced or not; after it
  neither kind of key is left, and a page that listens shows the buttons of a visitor.
\<close>

lemma expired_token_ends_session:
  assumes "header_token (hl_config L) (hd_store h) = Some token" "isTokenExpired L now token"
    "timestamp_key \<notin> {lc_tokenKey (hl_config L), lc_userKey (hl_config L)}"
  shows "\<exists>h'. header_validate_begin L force now h = (Done False, h') \<and> hd_requests h' = hd_requests h \<and>
    header_token (hl_config L) (hd_store h') = None \<and> header_user (hl_config L) (hd_store h') = None \<and>
    (hd_listening h \<longrightarrow> \<not> hd_authenticated h')"
  using assms by (auto simp: header_validate_begin_def header_clearAuth_def Let_def header_token_def header_user_def or_else_def
      updateButtonsVisibility_def timestamp_key_def)

text \<open>
  What the header shows after it has looked at the storage, a second or more after the last time: the buttons of a user exactly when
  both a user and a token are stored, unless a broadcast younger than five seconds says otherwise. A broadcast with a user is
  believed without a token.
\<close>

lemma storage_check_spec:
  assumes "1000 \<le> now - hd_lastStorageCheck h" "parsed_user L (hd_store h) = Inr u"
  shows "\<exists>h'. checkStorageForAuthChanges L now h = (None, h') \<and> hd_store h' = hd_store h \<and>
    (hd_authenticated h' \<longleftrightarrow>
      (case getItem (hd_store h) ''auth_broadcast_event'' of
         None \<Rightarrow> both_stored L (hd_store h)
       | Some text \<Rightarrow> if text = [] then both_stored L (hd_store h)
           else (case broadcast_buttons L now (both_stored L (hd_store h), Inr u) text of
             None \<Rightarrow> both_stored L (hd_store h) | Some (a, v) \<Rightarrow> a)))"
  using assms by (auto simp: checkStorageForAuthChanges_def Let_def updateButtonsVisibility_def split: option.splits)

lemma broadcast_without_session:
  assumes "1000 \<le> now - hd_lastStorageCheck h" "parsed_user L (hd_store h) = Inr u" "\<not> both_stored L (hd_store h)"
    and "getItem (hd_store h) ''auth_broadcast_event'' = Some text" "text \<noteq> []"
    and "hl_parse L text = Some (JObj [(''type'', JStr ''LOGIN_SUCCESS''), (''user'', JObj [(''name'', JStr n)]), (''timestamp'', int_val t)])"
    and "n \<noteq> []" "\<bar>now - t\<bar> < 5000"
  shows "\<exists>h'. checkStorageForAuthChanges L now h = (None, h') \<and> hd_authenticated h' \<and> hd_profile h' = JStr n"
proof -
  have "fl (rat_of_int (now - t)) = Fin (of_int (now - t))" using assms(8) by (intro fl_int) simp
  then have "num_sub (Fin (of_int now)) (Fin (of_int t)) = Fin (of_int (now - t))" by (simp add: num_sub_def)
  moreover have "rat_of_int (now - t) < 5000" using assms(8) by (simp only: of_int_less_numeral_iff)
  ultimately have "broadcast_buttons L now (both_stored L (hd_store h), Inr u) text = Some (True, JObj [(''name'', JStr n)])"
    using assms(6) by (simp add: broadcast_buttons_def js_minus_def prop_lookup_def optional_get_def)
  with assms(1,2,4,5,7) show ?thesis
    by (simp add: checkStorageForAuthChanges_def updateButtonsVisibility_def optional_get_def prop_lookup_def js_or_def Let_def)
qed

end
