(* ===== verification/Spec2Isabelle.thy ===== *)
theory Spec2Isabelle
  imports Gateway_Guards Analytics_Hook Time_Series Dashboard_Client Landing Auth_Store Notification
    Backoffice_Views Dashboard_Services Auth_Views Dashboard_App Gateway_Ops
    Dashboard_Widgets Landing_Toasts Analytics_Pages Prediction_Charts Older_Backoffice
    Molecule_Charts Order_Picker Dashboard_Home Landing_Header
begin

text \<open>
  Synkro: a verification development for the TypeScript parts of the system.

  \<^bold>\<open>The program.\<close> Synkro is a gateway with its own user database
  (\<open>api-gateway-auth\<close>, NestJS), three browser applications that share a session with it
  (\<open>frontend-auth\<close>, the login and registration pages; \<open>frontend-landing\<close>, the public
  page with a login drawer; \<open>frontend-dashboard\<close>, the analytics application) and a
  notification service (\<open>notification-service\<close>). The authentication interface is embedded
  in a frame by the other two applications and tells them about a session with messages;
  all of them keep the session in \<open>localStorage\<close> and ask the gateway to validate and to
  invalidate tokens over HTTP.

  \<^bold>\<open>The theories\<close>, in the order of import:

  \<^item> \<open>Synkro_Prelude\<close>: the exceptions of the sources, operations with state and exceptions,
    strings, JavaScript's \<open>??\<close> and \<open>||\<close> on optional values, \<open>localStorage\<close>.
  \<^item> \<open>Gateway_Store\<close>: the entities \<open>User\<close> and \<open>Role\<close>, the DTOs, and the repositories of
    TypeORM as the locale \<open>gateway_db\<close>: lookups, saving with the hooks and constraints of the
    entities, deletion. The locale is interpreted (\<open>pg\<close>) on three tables (users, roles, and the
    join table \<open>user_roles\<close>).
  \<^item> \<open>User_Service\<close>: every method of \<open>user.service.ts\<close> and \<open>role.service.ts\<close>. Lemmas: the
    constraints of the database are an invariant of all requests, failed requests change
    nothing, and the behaviour of creation, update and role assignment.
  \<^item> \<open>Auth_Service\<close>: \<open>auth.service.ts\<close> and the token endpoints of \<open>auth.controller.ts\<close>;
    \<open>gw_step\<close> is the running process (time, the hourly clean-up, logouts, database changes),
    and being revoked, for a token that was good before, is an invariant of its steps.
  \<^item> \<open>Gateway_Guards\<close>: \<open>jwt.strategy.ts\<close>, \<open>auth.guard.ts\<close>, \<open>roles.guard.ts\<close>, the decorators and
    handlers of the user, role and profile routes; \<open>dispatch\<close> serves one request.
  \<^item> \<open>JS_Value\<close>: JavaScript values (\<open>jsval\<close>) with numbers as rounded IEEE doubles, property
    access, conversions and operators that throw where JavaScript throws, and the clone by
    \<open>JSON\<close>.
  \<^item> \<open>Chart_Validation\<close>, \<open>Time_Series\<close>, \<open>Analytics_Hook\<close>: \<open>validateChartData\<close>, the helper
    \<open>chartHelpers.ts\<close> and the twenty-five getters of \<open>hooks/useAnalytics.ts\<close> with the repairs
    of badly shaped responses and the sample data.
  \<^item> \<open>Dashboard_Client\<close>: \<open>services/auth.service.ts\<close>, \<open>api.service.ts\<close>, \<open>base.service.ts\<close> and the
    session part of \<open>utils/helpers.ts\<close>; \<open>dash_step\<close> is the window over time.
  \<^item> \<open>Dashboard_Hooks\<close>: the forty methods of \<open>useInventory\<close>, \<open>useOrders\<close>, \<open>useShipping\<close>, \<open>usePayments\<close>
    and \<open>useCustomers\<close> over the HTTP client, and the flags of a hook while calls overlap.
  \<^item> \<open>Dashboard_Services\<close>: \<open>analytics.service.ts\<close>, \<open>analytics.controller.ts\<close>, \<open>ai-prediction.service.ts\<close> and
    \<open>formatChartData\<close>; the groups of charts are \<open>Promise.all\<close> over the order in which the requests settle.
  \<^item> \<open>Dashboard_App\<close>: \<open>pages/_app.tsx\<close> and \<open>middleware.ts\<close>. \<open>app_run\<close> interleaves the commits of React with
    time, the answers of validations, timers and browser events; what is on the screen follows from the state.
  \<^item> \<open>Sankey_Layout\<close>, \<open>D3_Charts\<close>: what \<open>components/builders/D3Chart.tsx\<close> computes before it draws: the layers
    and coordinates of the Sankey diagram, the guards, series, scales and shares of the other charts. D3 is a parameter.
  \<^item> \<open>Backoffice_Config\<close>, \<open>Backoffice_Form\<close>, \<open>Backoffice_Director\<close>, \<open>Backoffice_Orders\<close>, \<open>Backoffice_Views\<close>: the
    builder and its six modules (\<open>backoffice/core/builders\<close>), the form with its validation and events
    (\<open>useFormActions.ts\<close>, \<open>DynamicForm.tsx\<close>), the order fields and payload, the module store, and the pages and
    tables. Lemmas: values keep the types of their fields, errors shown are current until other initial values
    come, submission, sorting, selection, and the editor of attributes as a refinement of a finite map.
  \<^item> \<open>Dashboard_Widgets\<close>: \<open>AutocompleteSelect.tsx\<close>, \<open>SearchAndFilter.tsx\<close>, \<open>BackofficeNavigation.tsx\<close>, and the
    loading, legends and choice of charts (\<open>ChartBuilder\<close>, \<open>ChartFactory.tsx\<close>).
  \<^item> \<open>Landing\<close>: \<open>services/auth.service.ts\<close>, \<open>AuthDrawer.ts\<close> and the drag state machine of
    \<open>ui/drawer.ts\<close> (\<open>drawer_step\<close>); \<open>tab_turns\<close> is the exchange of storage events between tabs.
  \<^item> \<open>Molecule_Charts\<close>: the bar, line and pie charts that \<open>ChartFactory\<close> renders, with their builders in
    \<open>utils\<close>: domains, rectangles, dots, shares and tooltips. Lemmas: bars fit under the axis, shares are percentages, stacked bars
    have no place.
  \<^item> \<open>Order_Picker\<close>: \<open>MultiSelectAutocomplete.tsx\<close> as a step relation over the operations of \<open>Backoffice_Orders\<close>, with
    the delayed search as an instance (\<open>search\<close>) of the locale \<open>delayed\<close>. What a picker holds is
    what its parent makes of each change (locale \<open>select_parent\<close>); it is interpreted on the parent of the
    program, the field of the products of an order, whose steps are \<open>order_step\<close>.
  \<^item> \<open>Analytics_Pages\<close>: the five pages under \<open>pages/analytics\<close> over any source of charts (locale \<open>chart_source\<close>,
    interpreted on the getters of the hook) for every order of the answers.
  \<^item> \<open>Prediction_Charts\<close>: the pages under \<open>pages/analytics/ai\<close> with their charts and tables; counting by name is the locale
    \<open>tally\<close>, and the predictions page refines a list with a sticky error.
  \<^item> \<open>Dashboard_Home\<close>: the first page (\<open>dashboardService.ts\<close>, \<open>InventoryOverview.tsx\<close>, \<open>OrderStatus.tsx\<close>,
    \<open>RecentActivity.tsx\<close>), \<open>DashboardNav.tsx\<close>, \<open>DashboardLayout.tsx\<close> and \<open>UserProfile.tsx\<close>.
  \<^item> \<open>Older_Backoffice\<close>: the earlier builder, director and application under \<open>backoffice/core/organisms\<close> and
    \<open>app-disabled\<close>, with the form pages of \<open>backoffice/ui\<close>. No page of the program reaches it.
  \<^item> \<open>Landing_Header\<close>: the session check and the buttons in the script of \<open>Header.astro\<close>.
  \<^item> \<open>Landing_Toasts\<close>: the notices of \<open>ToastContainer.astro\<close> with their timers.
  \<^item> \<open>Auth_Store\<close>: \<open>auth.store.ts\<close> (\<open>store_step\<close>, with the ticks of its check and both calls of \<open>initAuth\<close>),
    \<open>router/index.ts\<close> with the matching of addresses that vue-router documents, and \<open>messaging.ts\<close>.
  \<^item> \<open>Auth_Views\<close>: state and handlers of the five pages and three components of the authentication
    interface, and its check of e-mail addresses against the language of its regular expression.
  \<^item> \<open>Gateway_Ops\<close>: the routing proxy with the limits of its routes, the health checks, the metrics with their interceptor, and the migration
    of the name columns.
  \<^item> \<open>Notification\<close>: \<open>notificationService.ts\<close> and its routes.
  \<^item> This theory: the properties that span the gateway and the browser applications.

  \<^bold>\<open>Correspondence.\<close> A definition has the name of the function it translates, with the class
  or a short prefix in front where names clash (\<open>UserService_create\<close>, \<open>tab_logout\<close>,
  \<open>store_login\<close>). State is a record passed explicitly, an exception is \<open>Inl\<close>. Logging and
  console output are left out. An \<open>async\<close> function is one step where nothing else can
  interfere with its state; the landing page's validation is split at its \<open>await\<close>, because
  there the interference is the point.

  \<^bold>\<open>Parameters.\<close> Third-party code is an argument: the repositories, bcrypt (\<open>bcrypt\<close>), the
  token library (\<open>jwt\<close>, whose verification depends on the time: \<open>verify_window\<close>), passport
  (\<open>passport_jwt_laws\<close>), the order of guards, the rate limiter (\<open>limiter\<close>), the
  network, the clock, \<open>JSON\<close> text, URLs, \<open>Date\<close> and date-fns (\<open>date_lib\<close>), and the sorting and
  number formatting of the engine (\<open>js_env\<close>). What a property needs of them is a named
  hypothesis (\<open>verify_window\<close>, \<open>sort_law\<close>, \<open>boolean_answer\<close>, \<open>backend_api\<close>, \<open>select_parent\<close>, ...), and its witness
  instantiates them with concrete functions.

  \<^bold>\<open>Bounds.\<close> All definitions are total. The only fuel is that of \<open>visit\<close>, the
  redirections of the router, and \<open>router_settles\<close> shows that three suffice for every address. The loop that lays
  out a Sankey diagram is a \<open>function\<close> with a termination proof.

  \<^bold>\<open>Not modelled.\<close> Markup, styles and SVG (React, Vue, Astro, D3), the validation decorators of the DTOs, logging
  and start-up configuration, the SQL of the first migration, purely visual components, pages of fixed sample data
  (\<open>backoffice/pages/InventoryPage.tsx\<close>, \<open>InventoryDashboard.tsx\<close>), and the services written in Rust, Go and Python. What
  remains of the TypeScript beside these is the rendering half of \<open>D3Chart.tsx\<close>, whose calls of D3 only draw, and the inline copy
  of the drawer in \<open>AuthDrawer.astro\<close>, which repeats the logic of \<open>Header.astro\<close>.
\<close>

section \<open>The parts together\<close>

text \<open>The gateway handles the logout requests that arrive for a list of tokens, in order.\<close>

definition serve_logouts :: "jwt \<Rightarrow> nat \<Rightarrow> string list \<Rightarrow> 's auth_state \<Rightarrow> 's auth_state" where
  "serve_logouts J now tokens a = fold (\<lambda>t a. snd (AuthController_logout J now t a)) tokens a"

text \<open>\<open>logoutDto.token\<close> for the body of a request, if it has one.\<close>

definition logout_token :: "browser_lib \<Rightarrow> string option \<Rightarrow> string" where
  "logout_token Lb body =
     (case body of
        None \<Rightarrow> []
      | Some b \<Rightarrow> (case json_parse Lb b of
          None \<Rightarrow> []
        | Some v \<Rightarrow> (case js_get v ''token'' of Inr (JStr t) \<Rightarrow> t | _ \<Rightarrow> [])))"

text \<open>The windows that embed the authentication interface receive its messages in order.\<close>

definition dashboard_receives ::
  "js_env \<Rightarrow> IAuthConfig \<Rightarrow> browser_lib \<Rightarrow> string \<Rightarrow> (string \<times> jsval) list \<Rightarrow> window \<Rightarrow> window" where
  "dashboard_receives E C Lb href ms w = fold (\<lambda>m. handleAuthMessage E C Lb href (authInterfaceUrl C) (snd m)) ms w"

definition landing_receives ::
  "js_env \<Rightarrow> landing_config \<Rightarrow> (jsval \<Rightarrow> string) \<Rightarrow> (string \<times> jsval) list \<Rightarrow> drawer_page \<Rightarrow> drawer_page" where
  "landing_receives E C str ms p = fold (\<lambda>m. handleAuthSuccess E C str (lc_authInterfaceUrl C) (snd m)) ms p"

section \<open>Lemmas\<close>

lemma serve_logouts_in_set:
  "t \<in> set ts \<Longrightarrow> t \<in> set (invalidatedTokens (serve_logouts J now ts a)) \<or> \<not> live_token J now t"
proof (induction ts arbitrary: a rule: rev_induct)
  case (snoc u ts)
  show ?case
  proof (cases "t = u")
    case True
    then show ?thesis using logged_out by (simp add: serve_logouts_def)
  next
    case False
    with snoc have "t \<in> set (invalidatedTokens (serve_logouts J now ts a)) \<or> \<not> live_token J now t" by simp
    then show ?thesis by (auto simp: serve_logouts_def invalidated_after_logout)
  qed
qed simp

lemma serve_logouts_revokes:
  "live_token J n t \<Longrightarrow> n \<le> now \<Longrightarrow> t \<in> set ts \<Longrightarrow> revoked J t (now, serve_logouts J now ts a)"
  using serve_logouts_in_set [of t ts J now a] by (auto simp: revoked_def)

lemma revoked_rejected:
  "revoked J t (now, a) \<Longrightarrow> AuthController_validateToken UR J now t a = invalid_token"
  by (auto simp: revoked_def AuthController_validateToken_def isTokenInvalidated_def validateToken_dead)

section \<open>Properties\<close>

text \<open>
  C19: Logging out in the authentication interface or on the landing page ends the session on both sides, for a token
  that has been good before. In the browser, the store of the authentication interface has no token and no user and
  \<open>localStorage\<close> has neither of their two keys, and after the logout of the landing page
  \<open>localStorage\<close> has none of its four keys (unless a key is configured as the one of the
  time stamp), so that neither application is authenticated. The token is sent to the gateway, and once the gateway has
  handled the logout requests of that browser it refuses the token ever after.
\<close>

theorem logout_ends_session_everywhere:
  assumes "verify_window J" "live_token J n t" "n \<le> now"
    and "s_token s = Some t \<and> sent = logouts (store_logout K s) \<or>
      tab_getToken C (t_store x) = Some t \<and> sent = logout_calls (tab_logout C str clock x)"
    and "(gw_step J)\<^sup>*\<^sup>* (now, serve_logouts J now sent a) (now', a')"
  shows "AuthController_validateToken UR J now' t a' = invalid_token \<and>
    s_token (store_logout K s) = None \<and> s_user (store_logout K s) = JNull \<and>
    (\<forall>k \<in> {TOKEN_KEY K, USER_KEY K}. getItem (s_storage (store_logout K s)) k = None) \<and>
    \<not> store_isAuthenticated (store_logout K s) \<and>
    (\<forall>k \<in> {lc_userKey C, lc_tokenKey C, ''user'', ''token''} - {timestamp_key}.
       getItem (t_store (tab_logout C str clock x)) k = None) \<and>
    (timestamp_key \<notin> {lc_tokenKey C, ''token''} \<longrightarrow> \<not> tab_isAuthenticated C (t_store (tab_logout C str clock x)))"
proof -
  have "t \<noteq> []" using assms(2) by (auto simp: live_token_def isValidTokenFormat_def)
  then have "t \<in> set sent"
    using assms(4) by (auto simp: store_logout_def store_stopAuthCheck_def tab_logout_def tab_clearAuth_def
        tab_stopAuthCheck_def Let_def)
  then have "revoked J t (now, serve_logouts J now sent a)" by (rule serve_logouts_revokes [OF assms(2,3)])
  then have "revoked J t (now', a')" using revoked_steps [OF assms(5,1)] by blast
  then have "AuthController_validateToken UR J now' t a' = invalid_token" by (rule revoked_rejected)
  moreover have "s_token (store_logout K s) = None \<and> s_user (store_logout K s) = JNull \<and>
      (\<forall>k \<in> {TOKEN_KEY K, USER_KEY K}. getItem (s_storage (store_logout K s)) k = None)"
    by (auto simp: store_logout_def store_stopAuthCheck_def Let_def split: option.split)
  moreover from this have "\<not> store_isAuthenticated (store_logout K s)" by (simp add: store_isAuthenticated_def truthy_def)
  moreover have st: "t_store (tab_logout C str clock x) = cleared_storage C (str clock) (t_store x)"
    by (simp add: tab_logout_def tab_clearAuth_def tab_stopAuthCheck_def Let_def split: option.split)
  have "\<forall>k \<in> {lc_userKey C, lc_tokenKey C, ''user'', ''token''} - {timestamp_key}.
       getItem (t_store (tab_logout C str clock x)) k = None"
    by (auto simp: st cleared_storage_def)
  moreover have "timestamp_key \<notin> {lc_tokenKey C, ''token''} \<longrightarrow> \<not> tab_isAuthenticated C (t_store (tab_logout C str clock x))"
    by (auto simp: st cleared_storage_def tab_isAuthenticated_def tab_getToken_def truthy_def coalesce_def)
  ultimately show ?thesis by (elim conjE, intro conjI)
qed

theorem logout_ends_session_everywhere_witness:
  "\<not> isValid (AuthController_validateToken (pg_users plain_bcrypt) demo_jwt 5 demo_token
     (serve_logouts demo_jwt 5 (logouts (store_logout demo_keys (empty_store\<lparr>s_token := Some demo_token\<rparr>))) demo_state))"
  using logout_ends_session_everywhere [of demo_jwt 5 demo_token 5 "empty_store\<lparr>s_token := Some demo_token\<rparr>"
      "logouts (store_logout demo_keys (empty_store\<lparr>s_token := Some demo_token\<rparr>))" demo_keys demo_landing demo_tab demo_str 0
      demo_state 5 _ "pg_users plain_bcrypt", OF demo_jwt_window demo_token_live]
  by simp

text \<open>
  Logging out of the dashboard clears the browser but not the gateway: the request carries no
  token, so the gateway's state does not change and the token is as valid after it as before.
\<close>

theorem dashboard_logout_keeps_token_valid:
  assumes "config_ok C" "logout_request C Lb = Inr rq"
  shows "\<not> isAuthenticated C (Dashboard_Client.logout C Lb href w) \<and>
    sent_headers rq ''Authorization'' = None \<and>
    serve_logouts J now [logout_token Lb (sent_body rq)] a = a \<and>
    AuthController_validateToken UR J now t (serve_logouts J now [logout_token Lb (sent_body rq)] a) =
      AuthController_validateToken UR J now t a"
proof -
  have rq: "sent_body rq = None" "sent_headers rq ''Authorization'' = None"
    using assms(2) by (auto simp: logout_request_def base_sent_def with_data_def no_config_def mergedHeaders_def auth_client_def
        js_bind_def split: sum.splits)
  have "serve_logouts J now [logout_token Lb (sent_body rq)] a = a"
    by (simp add: serve_logouts_def logout_token_def rq AuthController_logout_def)
  with rq clearAuth_not_authenticated [OF assms(1)] show ?thesis
    by (simp add: Dashboard_Client.logout_def isAuthenticated_def getToken_def)
qed

theorem dashboard_logout_keeps_token_valid_witness:
  "\<exists>rq. logout_request demo_config demo_browser = Inr rq \<and>
     isValid (AuthController_validateToken (pg_users plain_bcrypt) demo_jwt 5 demo_token
       (serve_logouts demo_jwt 5 [logout_token demo_browser (sent_body rq)] demo_state))"
proof -
  obtain rq where rq: "logout_request demo_config demo_browser = Inr rq"
    by (simp add: logout_request_def createUrl_def demo_browser_def)
  then show ?thesis
    using dashboard_logout_keeps_token_valid [OF demo_config_ok rq, of "''/''" fresh_window demo_jwt 5 demo_state
        "pg_users plain_bcrypt" demo_token] demo_token_valid by auto
qed

text \<open>
  A login in the authentication interface opens the session in the windows that embed it, with the token of the
  login: in the dashboard and in the landing page's drawer. After a registration only the
  dashboard has the session: the drawer understands neither of the two messages.
\<close>

theorem login_reaches_embedding_window:
  assumes "config_ok C" "url_hostname Lb (authInterfaceUrl C) = Some host" "token \<noteq> []"
  shows "getToken C (dashboard_receives E C Lb href (sendAuthSuccess True user token) w) = Some token \<and>
    page_store (landing_receives E D str (sendAuthSuccess True user token) p) ''synkro_token'' = Some token \<and>
    getToken C (dashboard_receives E C Lb href (sendRegistrationSuccess True user token) w) = Some token \<and>
    landing_receives E D str (sendRegistrationSuccess True user token) p = p"
  using assms
  by (simp add: dashboard_receives_def landing_receives_def sendAuthSuccess_def sendRegistrationSuccess_def sendMessage_def
      session_message_def public_user_def handleAuthMessage_def handleAuthSuccess_def is_trusted_def getToken_def
      config_ok_def)

theorem login_reaches_embedding_window_witness:
  "getToken demo_config (dashboard_receives demo_env demo_config demo_browser ''/''
     (sendAuthSuccess True JNull ''tok'') fresh_window) = Some ''tok''"
  using login_reaches_embedding_window [of demo_config demo_browser "''localhost''" "''tok''" demo_env "''/''" JNull fresh_window
      demo_landing "\<lambda>v. ''{}''", OF demo_config_ok]
  by (simp add: demo_browser_def demo_config_def startsWith_def)

end
